(* ===== verification/Prelude.thy ===== *)
theory Prelude
  imports Main "HOL-Library.Word" "HOL-Library.Code_Target_Nat"
begin

text \<open>
  Shared vocabulary of the development: Go errors and fallible results, the
  error-and-state monad in which database code is written, and the generic lemmas on
  lists and maps that several components use.

  \<^item> \<open>goerror\<close> is a Go \<open>error\<close> value: the sentinel errors reachable through
    \<open>errors.Is\<close> / \<open>errors.As\<close>, and the text.  Texts keep the fixed words of the Go
    format strings; interpolated identifiers are dropped, because no modelled code reads
    them back.
  \<^item> \<open>'a res\<close> is a Go result pair \<open>(T, error)\<close>: \<open>Inl e\<close> is a non-nil error.
  \<^item> \<open>('s, 'a) op\<close> is a function that threads a state and may fail; the state survives
    the failure, as Go memory does.
\<close>

named_theorems res_simps \<open>unfolding rules of the result and state monads\<close>
named_theorems frame_simps \<open>fields an operation leaves alone\<close>

section \<open>Errors and results\<close>

datatype sentinel =
    ErrSkipWithWarn
  | ErrRPCDeterministic
  | ErrHeightNotAvailable
  | ErrAllEndpointsFailed
  | ErrGridAttrMissingParts
  | ErrNoRows
  | ErrCanceled
  | ErrDeadlineExceeded
  | SysErrno string
  | NetErr bool
  | PgConnectError
  | HandlerPanic
  | PgError string

datatype goerror = GoErr (err_is: "sentinel list") (err_text: string)

definition errorf :: "string \<Rightarrow> goerror" where
  "errorf s = GoErr [] s"

definition wrapf :: "string \<Rightarrow> goerror \<Rightarrow> goerror" where
  "wrapf s e = GoErr (err_is e) (s @ err_text e)"

definition errors_Is :: "goerror \<Rightarrow> sentinel \<Rightarrow> bool" where
  "errors_Is e t \<longleftrightarrow> t \<in> set (err_is e)"

type_synonym 'a res = "goerror + 'a"

definition bindR :: "'a res \<Rightarrow> ('a \<Rightarrow> 'b res) \<Rightarrow> 'b res" where
  "bindR m f = (case m of Inl e \<Rightarrow> Inl e | Inr x \<Rightarrow> f x)"

definition guardR :: "bool \<Rightarrow> goerror \<Rightarrow> unit res" where
  "guardR b e = (if b then Inr () else Inl e)"

fun mapR :: "('a \<Rightarrow> 'b res) \<Rightarrow> 'a list \<Rightarrow> 'b list res" where
  "mapR f [] = Inr []"
| "mapR f (x # xs) = bindR (f x) (\<lambda>y. bindR (mapR f xs) (\<lambda>ys. Inr (y # ys)))"

fun foldR :: "('s \<Rightarrow> 'a \<Rightarrow> 's res) \<Rightarrow> 's \<Rightarrow> 'a list \<Rightarrow> 's res" where
  "foldR f s [] = Inr s"
| "foldR f s (x # xs) = bindR (f s x) (\<lambda>s'. foldR f s' xs)"

lemma bindR_simps [simp]:
  "bindR (Inl e) f = Inl e" "bindR (Inr x) f = f x"
  by (simp_all add: bindR_def)

lemma bindR_Inr [res_simps]: "bindR m f = Inr y \<longleftrightarrow> (\<exists>x. m = Inr x \<and> f x = Inr y)"
  by (cases m) simp_all

lemma bindR_Inl [res_simps]:
  "bindR m f = Inl e \<longleftrightarrow> m = Inl e \<or> (\<exists>x. m = Inr x \<and> f x = Inl e)"
  by (cases m) simp_all

lemma guardR_simps [simp]:
  "guardR True e = Inr ()" "guardR False e = Inl e"
  by (simp_all add: guardR_def)

lemma guardR_Inr [res_simps]: "guardR b e = Inr u \<longleftrightarrow> b"
  by (simp add: guardR_def)

lemma guardR_Inl [res_simps]: "guardR b e = Inl d \<longleftrightarrow> \<not> b \<and> d = e"
  by (auto simp: guardR_def)

lemma mapR_Inr: "mapR f xs = Inr ys \<Longrightarrow> list_all2 (\<lambda>x y. f x = Inr y) xs ys"
  by (induction xs arbitrary: ys) (auto simp: res_simps)

lemma mapR_list_all2: "list_all2 (\<lambda>x y. f x = Inr y) xs ys \<Longrightarrow> mapR f xs = Inr ys"
  by (induction rule: list_all2_induct) simp_all

lemma mapR_append:
  "mapR f (xs @ ys) = bindR (mapR f xs) (\<lambda>us. bindR (mapR f ys) (\<lambda>vs. Inr (us @ vs)))"
proof (induction xs)
  case Nil
  then show ?case by (cases "mapR f ys") simp_all
next
  case (Cons x xs)
  then show ?case
    by (cases "f x"; cases "mapR f xs"; cases "mapR f ys") simp_all
qed

lemma foldR_append: "foldR f s (xs @ ys) = bindR (foldR f s xs) (\<lambda>s'. foldR f s' ys)"
proof (induction xs arbitrary: s)
  case (Cons x xs)
  then show ?case by (cases "f s x") simp_all
qed simp

lemma foldR_invariant:
  assumes "foldR f s xs = Inr s'" "P s"
    and "\<And>s x t. x \<in> set xs \<Longrightarrow> P s \<Longrightarrow> f s x = Inr t \<Longrightarrow> P t"
  shows "P s'"
  using assms
proof (induction xs arbitrary: s)
  case (Cons x xs)
  then obtain t where t: "f s x = Inr t" "foldR f t xs = Inr s'"
    by (auto simp: res_simps)
  have "P t" by (rule Cons.prems(3) [OF _ Cons.prems(2) t(1)]) simp
  then show ?case by (rule Cons.IH [OF t(2)]) (rule Cons.prems(3), simp_all)
qed simp

section \<open>Stateful operations that may fail\<close>

type_synonym ('s, 'a) op = "'s \<Rightarrow> 'a res \<times> 's"

definition bindO :: "('s, 'a) op \<Rightarrow> ('a \<Rightarrow> ('s, 'b) op) \<Rightarrow> ('s, 'b) op" where
  "bindO m f s = (case m s of (Inl e, t) \<Rightarrow> (Inl e, t) | (Inr x, t) \<Rightarrow> f x t)"

definition returnO :: "'a \<Rightarrow> ('s, 'a) op" where
  "returnO x s = (Inr x, s)"

definition failO :: "goerror \<Rightarrow> ('s, 'a) op" where
  "failO e s = (Inl e, s)"

definition liftO :: "'a res \<Rightarrow> ('s, 'a) op" where
  "liftO r s = (r, s)"

definition getO :: "('s \<Rightarrow> 'a) \<Rightarrow> ('s, 'a) op" where
  "getO f s = (Inr (f s), s)"

definition modifyO :: "('s \<Rightarrow> 's) \<Rightarrow> ('s, unit) op" where
  "modifyO f s = (Inr (), f s)"

definition guardO :: "bool \<Rightarrow> goerror \<Rightarrow> ('s, unit) op" where
  "guardO b e = (if b then returnO () else failO e)"

definition whenO :: "bool \<Rightarrow> ('s, unit) op \<Rightarrow> ('s, unit) op" where
  "whenO b m = (if b then m else returnO ())"

definition wrapO :: "string \<Rightarrow> ('s, 'a) op \<Rightarrow> ('s, 'a) op" where
  "wrapO msg m s = (case m s of (Inl e, t) \<Rightarrow> (Inl (wrapf msg e), t) | (Inr x, t) \<Rightarrow> (Inr x, t))"

fun forO :: "'a list \<Rightarrow> ('a \<Rightarrow> ('s, unit) op) \<Rightarrow> ('s, unit) op" where
  "forO [] f = returnO ()"
| "forO (x # xs) f = bindO (f x) (\<lambda>_. forO xs f)"

lemma bindO_eval [simp]:
  "m s = (Inl e, t) \<Longrightarrow> bindO m f s = (Inl e, t)"
  "m s = (Inr x, t) \<Longrightarrow> bindO m f s = f x t"
  by (simp_all add: bindO_def)

lemma op_eval [simp]:
  "returnO x s = (Inr x, s)" "failO e s = (Inl e, s)" "liftO r s = (r, s)"
  "getO g s = (Inr (g s), s)" "modifyO h s = (Inr (), h s)"
  "guardO True e s = (Inr (), s)" "guardO False e s = (Inl e, s)"
  "whenO True m' s = m' s" "whenO False m' s = (Inr (), s)"
  by (simp_all add: returnO_def failO_def liftO_def getO_def modifyO_def guardO_def whenO_def)

lemma bindO_Inr [res_simps]:
  "bindO m f s = (Inr y, u) \<longleftrightarrow> (\<exists>x t. m s = (Inr x, t) \<and> f x t = (Inr y, u))"
  by (auto simp: bindO_def split: prod.splits sum.splits)

lemma bindO_Inl [res_simps]:
  "bindO m f s = (Inl e, u) \<longleftrightarrow>
     m s = (Inl e, u) \<or> (\<exists>x t. m s = (Inr x, t) \<and> f x t = (Inl e, u))"
  by (auto simp: bindO_def split: prod.splits sum.splits)

lemma guardO_case [res_simps]:
  "guardO b e s = (r, t) \<longleftrightarrow> t = s \<and> r = (if b then Inr () else Inl e)"
  by (auto simp: guardO_def)

lemma whenO_case [res_simps]:
  "whenO b m s = (r, t) \<longleftrightarrow> (if b then m s = (r, t) else r = Inr () \<and> t = s)"
  by (auto simp: whenO_def)

lemma wrapO_Inr [res_simps]: "wrapO msg m s = (Inr x, t) \<longleftrightarrow> m s = (Inr x, t)"
  by (auto simp: wrapO_def split: prod.splits sum.splits)

lemma wrapO_Inl [res_simps]:
  "wrapO msg m s = (Inl e, t) \<longleftrightarrow> (\<exists>e'. m s = (Inl e', t) \<and> e = wrapf msg e')"
  by (auto simp: wrapO_def split: prod.splits sum.splits)

text \<open>
  \<open>keeps R m\<close>: whatever the outcome, running \<open>m\<close> relates the states by \<open>R\<close>.  With \<open>R\<close>
  reflexive and transitive it is compositional, which is how frame conditions and
  append-only disciplines are proved below.
\<close>

definition keeps :: "('s \<Rightarrow> 's \<Rightarrow> bool) \<Rightarrow> ('s, 'a) op \<Rightarrow> bool" where
  "keeps R m \<longleftrightarrow> (\<forall>s. R s (snd (m s)))"

locale preorder_op =
  fixes R :: "'s \<Rightarrow> 's \<Rightarrow> bool"
  assumes R_refl: "R s s"
    and R_trans: "R s t \<Longrightarrow> R t u \<Longrightarrow> R s u"
begin

lemma keeps_return: "keeps R (returnO x)"
  by (simp add: keeps_def R_refl)

lemma keeps_fail: "keeps R (failO e)"
  by (simp add: keeps_def R_refl)

lemma keeps_lift: "keeps R (liftO r)"
  by (simp add: keeps_def R_refl)

lemma keeps_get: "keeps R (getO g)"
  by (simp add: keeps_def R_refl)

lemma keeps_guard: "keeps R (guardO b e)"
  by (simp add: keeps_def guardO_def R_refl)

lemma keeps_bind:
  assumes "keeps R m" "\<And>x. keeps R (f x)"
  shows "keeps R (bindO m f)"
  unfolding keeps_def
proof
  fix s
  obtain r t where r: "m s = (r, t)" by force
  have "R s t" using assms(1) r by (auto simp: keeps_def dest: spec [of _ s])
  moreover have "R t (snd (f x t))" for x using assms(2) by (simp add: keeps_def)
  ultimately show "R s (snd (bindO m f s))"
    using r by (cases r) (auto simp: bindO_def intro: R_trans)
qed

lemma keeps_when: "keeps R m \<Longrightarrow> keeps R (whenO b m)"
  by (simp add: whenO_def keeps_return)

lemma keeps_wrap: "keeps R m \<Longrightarrow> keeps R (wrapO msg m)"
  by (auto simp: keeps_def wrapO_def split: prod.splits sum.splits)
    (metis snd_conv)+

lemma keeps_for: "(\<And>x. keeps R (f x)) \<Longrightarrow> keeps R (forO xs f)"
  by (induction xs) (simp_all add: keeps_return keeps_bind)

lemma keeps_if: "keeps R m \<Longrightarrow> keeps R m' \<Longrightarrow> keeps R (if b then m else m')"
  by simp

lemma keeps_option:
  "keeps R m \<Longrightarrow> (\<And>x. keeps R (f x)) \<Longrightarrow> keeps R (case v of None \<Rightarrow> m | Some x \<Rightarrow> f x)"
  by (cases v) simp_all

lemmas keeps_intros =
  keeps_return keeps_fail keeps_lift keeps_get keeps_guard keeps_bind keeps_when
  keeps_wrap keeps_for keeps_if keeps_option

end

section \<open>Lists\<close>

text \<open>\<open>dedup_first\<close>: a Go loop with a \<open>seen\<close> set that keeps each key's first item.\<close>

fun dedup_first :: "('a \<Rightarrow> 'k) \<Rightarrow> 'k list \<Rightarrow> 'a list \<Rightarrow> 'a list" where
  "dedup_first f seen [] = []"
| "dedup_first f seen (x # xs) =
     (if f x \<in> set seen then dedup_first f seen xs else x # dedup_first f (f x # seen) xs)"

lemma dedup_first_set:
  "f ` set (dedup_first f seen xs) = f ` set xs - set seen"
  by (induction xs arbitrary: seen) auto

lemma dedup_first_subset: "set (dedup_first f seen xs) \<subseteq> set xs"
  by (induction xs arbitrary: seen) (auto split: if_splits)

lemma dedup_first_distinct: "distinct (map f (dedup_first f seen xs))"
proof (induction xs arbitrary: seen)
  case (Cons x xs)
  have "f x \<notin> f ` set (dedup_first f (f x # seen) xs)"
    by (simp add: dedup_first_set)
  then show ?case using Cons by simp
qed simp

text \<open>\<open>chunks n xs\<close>: the batches a Go loop \<open>for i := 0; i < len; i += n\<close> slices off.\<close>

function chunks :: "nat \<Rightarrow> 'a list \<Rightarrow> 'a list list" where
  "chunks n xs = (if n = 0 \<or> xs = [] then [] else take n xs # chunks n (drop n xs))"
  by pat_completeness auto
termination
  by (relation "measure (\<lambda>(n, xs). length xs)") auto

declare chunks.simps [simp del]

lemma chunks_Nil [simp]: "chunks n [] = []"
  by (simp add: chunks.simps)

lemma concat_chunks: "0 < n \<Longrightarrow> concat (chunks n xs) = xs"
proof (induction n xs rule: chunks.induct)
  case (1 n xs)
  show ?case
  proof (cases "xs = []")
    case False
    with 1 have "concat (chunks n (drop n xs)) = drop n xs" by simp
    with False 1 show ?thesis by (simp add: chunks.simps [of n xs])
  qed simp
qed

lemma length_chunks_le: "ys \<in> set (chunks n xs) \<Longrightarrow> length ys \<le> n \<and> ys \<noteq> []"
proof (induction n xs rule: chunks.induct)
  case (1 n xs)
  then show ?case
    by (cases "n = 0 \<or> xs = []") (auto simp: chunks.simps [of n xs])
qed

lemma sorted_wrt_concat_map:
  assumes "sorted_wrt R xs"
    and "\<And>x. x \<in> set xs \<Longrightarrow> sorted_wrt Q (f x)"
    and "\<And>x y a b. R x y \<Longrightarrow> a \<in> set (f x) \<Longrightarrow> b \<in> set (f y) \<Longrightarrow> Q a b"
  shows "sorted_wrt Q (concat (map f xs))"
  using assms by (induction xs) (fastforce simp: sorted_wrt_append)+

lemma distinct_if_sorted_wrt_irrefl:
  "sorted_wrt R xs \<Longrightarrow> (\<And>x. \<not> R x x) \<Longrightarrow> distinct xs"
  by (induction xs) auto

end
