(* ===== verification/Go_Std.thy ===== *)
theory Go_Std
  imports Prelude
begin

text \<open>
  The part of Go's standard library the modelled code calls: \<open>strings\<close> on byte strings,
  the decimal conversions of \<open>strconv\<close> and \<open>math/big\<close>, and RFC 3339 parsing of
  \<open>time\<close>.  A Go string is a list of bytes, so \<open>string\<close> (a list of 8-bit characters) is
  the same type.  Times are integers: nanoseconds since the Unix epoch, in UTC.
\<close>

section \<open>strings\<close>

definition has_prefix :: "string \<Rightarrow> string \<Rightarrow> bool" where
  "has_prefix s p \<longleftrightarrow> take (length p) s = p"

definition trim_prefix :: "string \<Rightarrow> string \<Rightarrow> string" where
  "trim_prefix s p = (if has_prefix s p then drop (length p) s else s)"

fun contains :: "string \<Rightarrow> string \<Rightarrow> bool" where
  "contains [] p \<longleftrightarrow> p = []"
| "contains (c # s) p \<longleftrightarrow> has_prefix (c # s) p \<or> contains s p"

text \<open>\<open>strings.Split\<close> with a one-byte separator: never the empty list.\<close>

fun split_on :: "char \<Rightarrow> string \<Rightarrow> string list" where
  "split_on c [] = [[]]"
| "split_on c (x # s) =
     (if x = c then [] # split_on c s
      else (case split_on c s of [] \<Rightarrow> [[x]] | p # ps \<Rightarrow> (x # p) # ps))"

fun join_with :: "char \<Rightarrow> string list \<Rightarrow> string" where
  "join_with c [] = []"
| "join_with c [p] = p"
| "join_with c (p # q # ps) = p @ c # join_with c (q # ps)"

text \<open>\<open>strings.SplitN\<close> with a limit: the last piece keeps the remaining separators.\<close>

definition split_n :: "char \<Rightarrow> nat \<Rightarrow> string \<Rightarrow> string list" where
  "split_n c n s =
     (let ps = split_on c s in
      if length ps \<le> n then ps else take (n - 1) ps @ [join_with c (drop (n - 1) ps)])"

definition cut_at :: "char \<Rightarrow> string \<Rightarrow> (string \<times> string) option" where
  "cut_at c s =
     (case split_n c 2 s of [a, b] \<Rightarrow> Some (a, b) | _ \<Rightarrow> None)"

definition is_space :: "char \<Rightarrow> bool" where
  "is_space c \<longleftrightarrow> (of_char c :: nat) \<in> {9, 10, 11, 12, 13, 32}"

definition trim_left :: "(char \<Rightarrow> bool) \<Rightarrow> string \<Rightarrow> string" where
  "trim_left P s = dropWhile P s"

definition trim_right :: "(char \<Rightarrow> bool) \<Rightarrow> string \<Rightarrow> string" where
  "trim_right P s = rev (dropWhile P (rev s))"

definition trim_space :: "string \<Rightarrow> string" where
  "trim_space s = trim_right is_space (trim_left is_space s)"

definition trim_char :: "char \<Rightarrow> string \<Rightarrow> string" where
  "trim_char c s = trim_right (\<lambda>x. x = c) (trim_left (\<lambda>x. x = c) s)"

definition lower :: "char \<Rightarrow> char" where
  "lower c =
     (let n = (of_char c :: nat) in if 65 \<le> n \<and> n \<le> 90 then char_of (n + 32) else c)"

definition to_lower :: "string \<Rightarrow> string" where
  "to_lower s = map lower s"

definition equal_fold :: "string \<Rightarrow> string \<Rightarrow> bool" where
  "equal_fold a b \<longleftrightarrow> to_lower a = to_lower b"

lemma split_on_nonempty [simp]: "split_on c s \<noteq> []"
  by (induction c s rule: split_on.induct) (auto split: list.splits)

lemma split_on_free [simp]: "c \<notin> set s \<Longrightarrow> split_on c s = [s]"
  by (induction s) auto

lemma split_on_append:
  "c \<notin> set p \<Longrightarrow> split_on c (p @ c # s) = p # split_on c s"
  by (induction p) (auto split: list.splits)

lemma join_split [simp]: "join_with c (split_on c s) = s"
proof (induction s)
  case (Cons x s)
  obtain p ps where "split_on c s = p # ps" by (cases "split_on c s") auto
  then show ?case using Cons by (cases ps) auto
qed simp

lemma split_on_parts: "p \<in> set (split_on c s) \<Longrightarrow> c \<notin> set p"
proof (induction s arbitrary: p)
  case (Cons x s)
  obtain q qs where q: "split_on c s = q # qs" by (cases "split_on c s") auto
  then show ?case using Cons by (auto split: if_splits)
qed simp

lemma split_on_set: "p \<in> set (split_on c s) \<Longrightarrow> set p \<subseteq> set s"
proof (induction s arbitrary: p)
  case (Cons x s)
  obtain q qs where q: "split_on c s = q # qs" by (cases "split_on c s") auto
  have IH: "\<And>p. p = q \<or> p \<in> set qs \<Longrightarrow> set p \<subseteq> set s"
    using Cons.IH q by simp
  have "p = [] \<or> p = q \<or> p \<in> set qs \<or> p = x # q"
    using Cons.prems q by (auto split: if_splits)
  then show ?case using IH [of p] IH [of q] by auto
qed simp

section \<open>Decimal numbers\<close>

definition is_digit :: "char \<Rightarrow> bool" where
  "is_digit c \<longleftrightarrow> (48::nat) \<le> of_char c \<and> (of_char c :: nat) \<le> 57"

definition digit_val :: "char \<Rightarrow> nat" where
  "digit_val c = of_char c - 48"

definition digit_char :: "nat \<Rightarrow> char" where
  "digit_char n = char_of (n + 48)"

fun dec_nat :: "nat \<Rightarrow> string" where
  "dec_nat n = (if n < 10 then [digit_char n] else dec_nat (n div 10) @ [digit_char (n mod 10)])"

declare dec_nat.simps [simp del]

definition all_digits :: "string \<Rightarrow> bool" where
  "all_digits s \<longleftrightarrow> list_all is_digit s"

definition nat_of_digits :: "string \<Rightarrow> nat" where
  "nat_of_digits s = foldl (\<lambda>a c. 10 * a + digit_val c) 0 s"

definition dec_int :: "int \<Rightarrow> string" where
  "dec_int i = (if i < 0 then CHR ''-'' # dec_nat (nat (- i)) else dec_nat (nat i))"

text \<open>\<open>big.Int.SetString(s, 10)\<close>: an optional sign and at least one digit.\<close>

definition big_of_string :: "string \<Rightarrow> int option" where
  "big_of_string s =
     (case s of
        [] \<Rightarrow> None
      | c # t \<Rightarrow>
          if c = CHR ''-'' \<or> c = CHR ''+'' then
            (if t = [] \<or> \<not> all_digits t then None
             else Some (if c = CHR ''-'' then - int (nat_of_digits t) else int (nat_of_digits t)))
          else if all_digits s then Some (int (nat_of_digits s)) else None)"

text \<open>\<open>strconv.Atoi\<close> and \<open>ParseInt(_, 10, 64)\<close> on a 64-bit platform.\<close>

definition parse_int64 :: "string \<Rightarrow> int option" where
  "parse_int64 s =
     (case big_of_string s of
        None \<Rightarrow> None
      | Some v \<Rightarrow> if - (2 ^ 63) \<le> v \<and> v < 2 ^ 63 then Some v else None)"

abbreviation atoi :: "string \<Rightarrow> int option" where
  "atoi \<equiv> parse_int64"

text \<open>The value \<open>ParseInt\<close> returns beside its error: 0, or the nearest bound.\<close>

definition parse_int64_value :: "string \<Rightarrow> int" where
  "parse_int64_value s =
     (case big_of_string s of
        None \<Rightarrow> 0
      | Some v \<Rightarrow> if v < - (2 ^ 63) then - (2 ^ 63) else if 2 ^ 63 \<le> v then 2 ^ 63 - 1 else v)"

text \<open>\<open>strconv.ParseUint(_, 10, 64)\<close>: digits only.\<close>

definition parse_uint64 :: "string \<Rightarrow> 64 word option" where
  "parse_uint64 s =
     (if s = [] \<or> \<not> all_digits s then None
      else if int (nat_of_digits s) < 2 ^ 64 then Some (of_int (int (nat_of_digits s))) else None)"

definition format_uint :: "64 word \<Rightarrow> string" where
  "format_uint w = dec_nat (unat w)"

lemma is_digit_digit_char [simp]: "n < 10 \<Longrightarrow> is_digit (digit_char n)"
  by (simp add: is_digit_def digit_char_def)

lemma digit_val_digit_char [simp]: "n < 10 \<Longrightarrow> digit_val (digit_char n) = n"
  by (simp add: digit_val_def digit_char_def)

lemma digit_char_digit_val [simp]: "is_digit c \<Longrightarrow> digit_char (digit_val c) = c"
  by (simp add: is_digit_def digit_char_def digit_val_def)

lemma digit_val_less [simp]: "is_digit c \<Longrightarrow> digit_val c < 10"
  unfolding is_digit_def digit_val_def by linarith

lemma char_of_48 [simp]: "char_of (48::nat) = CHR ''0''"
  by code_simp

lemma not_is_digit_sign [simp]:
  "\<not> is_digit CHR ''-''" "\<not> is_digit CHR ''+''" "\<not> is_digit CHR ''@''" "\<not> is_digit CHR '',''"
  by (simp_all add: is_digit_def)

lemma dec_nat_nonempty [simp]: "dec_nat n \<noteq> []"
  by (subst dec_nat.simps) simp

lemma all_digits_simps [simp]:
  "all_digits []" "all_digits (c # s) \<longleftrightarrow> is_digit c \<and> all_digits s"
  "all_digits (s @ t) \<longleftrightarrow> all_digits s \<and> all_digits t"
  by (simp_all add: all_digits_def)

lemma all_digits_dec_nat [simp]: "all_digits (dec_nat n)"
proof (induction n rule: dec_nat.induct)
  case (1 n)
  then show ?case by (subst dec_nat.simps) simp
qed

lemma nat_of_digits_snoc [simp]:
  "nat_of_digits [] = 0" "nat_of_digits (s @ [c]) = 10 * nat_of_digits s + digit_val c"
  by (simp_all add: nat_of_digits_def)

lemma nat_of_digits_dec_nat [simp]: "nat_of_digits (dec_nat n) = n"
proof (induction n rule: dec_nat.induct)
  case (1 n)
  show ?case
  proof (cases "n < 10")
    case True
    then show ?thesis
      using nat_of_digits_snoc(2) [of "[]" "digit_char n"] by (subst dec_nat.simps) simp
  next
    case False
    with 1 show ?thesis by (subst dec_nat.simps) simp
  qed
qed

lemma dec_nat_inj [simp]: "dec_nat m = dec_nat n \<longleftrightarrow> m = n"
  by (metis nat_of_digits_dec_nat)

lemma digit_free_dec_nat [simp]: "\<not> is_digit c \<Longrightarrow> c \<notin> set (dec_nat n)"
  using all_digits_dec_nat [of n] by (auto simp: all_digits_def list_all_iff)

lemma hd_dec_nat_digit [simp]: "is_digit (hd (dec_nat n))"
  using all_digits_dec_nat [of n] dec_nat_nonempty [of n]
  by (cases "dec_nat n") auto

text \<open>The canonical texts are exactly those without a leading zero.\<close>

definition canonical_nat :: "string \<Rightarrow> bool" where
  "canonical_nat s \<longleftrightarrow> s \<noteq> [] \<and> all_digits s \<and> (hd s = CHR ''0'' \<longrightarrow> s = ''0'')"

lemma digit_char_zero: "n < 10 \<Longrightarrow> digit_char n = CHR ''0'' \<longleftrightarrow> n = 0"
proof
  assume n: "n < 10" and "digit_char n = CHR ''0''"
  then have "digit_val (digit_char n) = digit_val CHR ''0''" by simp
  with n show "n = 0" by (simp add: digit_val_def [of "CHR ''0''"])
next
  assume "n = 0"
  then show "digit_char n = CHR ''0''" by (simp add: digit_char_def)
qed

lemma canonical_dec_nat [simp]: "canonical_nat (dec_nat n)"
proof -
  have "hd (dec_nat n) = CHR ''0'' \<longrightarrow> n = 0"
  proof (induction n rule: dec_nat.induct)
    case (1 n)
    show ?case
    proof (cases "n < 10")
      case True
      then show ?thesis by (simp add: dec_nat.simps [of n] digit_char_zero)
    next
      case False
      with 1 have "hd (dec_nat (n div 10)) \<noteq> CHR ''0''" by auto
      with False show ?thesis by (simp add: dec_nat.simps [of n] hd_append)
    qed
  qed
  moreover have "dec_nat 0 = ''0''" by (simp add: dec_nat.simps digit_char_def)
  ultimately show ?thesis by (auto simp: canonical_nat_def)
qed

lemma nat_of_digits_pos:
  "all_digits s \<Longrightarrow> s \<noteq> [] \<Longrightarrow> hd s \<noteq> CHR ''0'' \<Longrightarrow> 0 < nat_of_digits s"
proof (induction s rule: rev_induct)
  case (snoc c s)
  show ?case
  proof (cases "s = []")
    case True
    with snoc.prems have c: "is_digit c" "c \<noteq> CHR ''0''" by auto
    then have "digit_val c \<noteq> 0"
      using digit_char_digit_val [of c] by (metis digit_char_def add_0 zero_less_numeral digit_char_zero)
    then show ?thesis using True nat_of_digits_snoc(2) [of "[]" c] by simp
  next
    case False
    with snoc have "0 < nat_of_digits s" by simp
    then show ?thesis by simp
  qed
qed simp

lemma dec_nat_of_digits: "canonical_nat s \<Longrightarrow> dec_nat (nat_of_digits s) = s"
proof (induction s rule: rev_induct)
  case Nil
  then show ?case by (simp add: canonical_nat_def)
next
  case (snoc c s)
  then have c: "is_digit c" and ds: "all_digits s" by (auto simp: canonical_nat_def)
  show ?case
  proof (cases "s = []")
    case True
    then show ?thesis
      using c nat_of_digits_snoc(2) [of "[]" c] by (simp add: dec_nat.simps)
  next
    case False
    with snoc.prems have h: "hd s \<noteq> CHR ''0''"
      by (auto simp: canonical_nat_def hd_append)
    with False ds have IH: "dec_nat (nat_of_digits s) = s"
      using snoc.IH by (simp add: canonical_nat_def)
    have "0 < nat_of_digits s" using nat_of_digits_pos ds False h by blast
    then have "\<not> 10 * nat_of_digits s + digit_val c < 10" by simp
    then show ?thesis
      using IH c by (subst dec_nat.simps) simp
  qed
qed

lemma big_of_string_dec_nat [simp]: "big_of_string (dec_nat n) = Some (int n)"
proof -
  obtain c t where ct: "dec_nat n = c # t" by (cases "dec_nat n") auto
  have "is_digit c" using hd_dec_nat_digit [of n] ct by simp
  then have "c \<noteq> CHR ''-''" "c \<noteq> CHR ''+''" by auto
  then show ?thesis
    using all_digits_dec_nat [of n] nat_of_digits_dec_nat [of n]
    by (simp add: big_of_string_def ct)
qed

lemma big_of_string_digits:
  "s \<noteq> [] \<Longrightarrow> all_digits s \<Longrightarrow> big_of_string s = Some (int (nat_of_digits s))"
  by (cases s) (auto simp: big_of_string_def)

lemma big_of_string_dec_int [simp]: "big_of_string (dec_int i) = Some i"
  by (auto simp: dec_int_def) (simp add: big_of_string_def)

lemma parse_int64_dec_int [simp]:
  "- (2 ^ 63) \<le> i \<Longrightarrow> i < 2 ^ 63 \<Longrightarrow> parse_int64 (dec_int i) = Some i"
  by (simp add: parse_int64_def)

lemma parse_int64_range: "parse_int64 s = Some v \<Longrightarrow> - (2 ^ 63) \<le> v \<and> v < 2 ^ 63"
  by (auto simp: parse_int64_def split: option.splits if_splits)

lemma dec_int_inj [simp]: "dec_int i = dec_int j \<longleftrightarrow> i = j"
  by (metis big_of_string_dec_int option.inject)

lemma dec_int_nonempty [simp]: "dec_int i \<noteq> []"
  by (simp add: dec_int_def)

lemma dec_int_free [simp]:
  "\<not> is_digit c \<Longrightarrow> c \<noteq> CHR ''-'' \<Longrightarrow> c \<notin> set (dec_int i)"
  "0 \<le> i \<Longrightarrow> \<not> is_digit c \<Longrightarrow> c \<notin> set (dec_int i)"
  by (auto simp: dec_int_def)

lemma parse_uint64_format [simp]: "parse_uint64 (format_uint w) = Some w"
proof -
  have "unat w < 2 ^ 64" using unsigned_less [of w] by simp
  then have "int (unat w) < 2 ^ 64" by (metis of_nat_less_iff of_nat_numeral of_nat_power)
  then show ?thesis by (simp add: parse_uint64_def format_uint_def)
qed

lemma parse_uint64_Some:
  "parse_uint64 s = Some w \<Longrightarrow> s \<noteq> [] \<and> all_digits s \<and> unat w = nat_of_digits s"
  unfolding parse_uint64_def
  by (cases "int (nat_of_digits s) < 2 ^ 64")
    (auto simp: unat_of_nat nat_less_iff [symmetric] zless_nat_eq_int_zless split: if_splits)

section \<open>time.Parse for RFC 3339\<close>

text \<open>\<open>time.Time{}\<close>: the start of the year 1.\<close>

definition zero_time :: int where
  "zero_time = - 62135596800 * 1000000000"

definition leap_year :: "int \<Rightarrow> bool" where
  "leap_year y \<longleftrightarrow> y mod 4 = 0 \<and> (y mod 100 \<noteq> 0 \<or> y mod 400 = 0)"

definition days_in :: "int \<Rightarrow> int \<Rightarrow> int" where
  "days_in y m =
     (if m = 2 then (if leap_year y then 29 else 28)
      else if m \<in> {4, 6, 9, 11} then 30 else 31)"

definition days_from_civil :: "int \<Rightarrow> int \<Rightarrow> int \<Rightarrow> int" where
  "days_from_civil y m d =
     (let y' = (if m \<le> 2 then y - 1 else y);
          era = y' div 400;
          yoe = y' - era * 400;
          mp = (m + 9) mod 12;
          doy = (153 * mp + 2) div 5 + d - 1;
          doe = yoe * 365 + yoe div 4 - yoe div 100 + doy
      in era * 146097 + doe - 719468)"

definition fixed_num :: "nat \<Rightarrow> string \<Rightarrow> (int \<times> string) option" where
  "fixed_num n s =
     (if n \<le> length s \<and> all_digits (take n s)
      then Some (int (nat_of_digits (take n s)), drop n s) else None)"

definition expect :: "char \<Rightarrow> string \<Rightarrow> string option" where
  "expect c s = (case s of x # t \<Rightarrow> if x = c then Some t else None | [] \<Rightarrow> None)"

text \<open>Go reads the hour of the layout \<open>15\<close> from one or two digits.\<close>

definition hour_num :: "string \<Rightarrow> (int \<times> string) option" where
  "hour_num s = (case fixed_num 2 s of Some r \<Rightarrow> Some r | None \<Rightarrow> fixed_num 1 s)"

text \<open>An optional fraction after the seconds; nine digits are kept.\<close>

definition fraction :: "string \<Rightarrow> int \<times> string" where
  "fraction s =
     (case s of
        x # t \<Rightarrow>
          if (x = CHR ''.'' \<or> x = CHR '','') \<and> t \<noteq> [] \<and> is_digit (hd t) then
            (let ds = takeWhile is_digit t; k = take 9 (ds @ replicate 9 (CHR ''0''))
             in (int (nat_of_digits k), dropWhile is_digit t))
          else (0, s)
      | [] \<Rightarrow> (0, s))"

definition zone_offset :: "string \<Rightarrow> int option" where
  "zone_offset s =
     (case s of
        [] \<Rightarrow> None
      | x # t \<Rightarrow>
          if s = ''Z'' then Some 0
          else if x = CHR ''+'' \<or> x = CHR ''-'' then
            Option.bind (fixed_num 2 t) (\<lambda>(h, t1).
            Option.bind (expect (CHR '':'') t1) (\<lambda>t2.
            Option.bind (fixed_num 2 t2) (\<lambda>(m, t3).
              if t3 = [] \<and> h \<le> 24 \<and> m < 60
              then Some ((if x = CHR ''-'' then -1 else 1) * (h * 3600 + m * 60))
              else None)))
          else None)"

definition parse_rfc3339 :: "string \<Rightarrow> int option" where
  "parse_rfc3339 s =
     Option.bind (fixed_num 4 s) (\<lambda>(y, s1).
     Option.bind (expect (CHR ''-'') s1) (\<lambda>s2.
     Option.bind (fixed_num 2 s2) (\<lambda>(mo, s3).
     Option.bind (expect (CHR ''-'') s3) (\<lambda>s4.
     Option.bind (fixed_num 2 s4) (\<lambda>(d, s5).
     Option.bind (expect (CHR ''T'') s5) (\<lambda>s6.
     Option.bind (hour_num s6) (\<lambda>(h, s7).
     Option.bind (expect (CHR '':'') s7) (\<lambda>s8.
     Option.bind (fixed_num 2 s8) (\<lambda>(mi, s9).
     Option.bind (expect (CHR '':'') s9) (\<lambda>s10.
     Option.bind (fixed_num 2 s10) (\<lambda>(sec, s11).
       (case fraction s11 of (ns, s12) \<Rightarrow>
         if 1 \<le> mo \<and> mo \<le> 12 \<and> 1 \<le> d \<and> d \<le> days_in y mo \<and> h < 24 \<and> mi < 60 \<and> sec < 60 then
           map_option
             (\<lambda>off. (days_from_civil y mo d * 86400 + h * 3600 + mi * 60 + sec - off)
                      * 1000000000 + ns)
             (zone_offset s12)
         else None))))))))))))"

end
