(* ===== verification/Object_Type.thy ===== *)
theory Object_Type
  imports Go_Std
begin

text \<open>
  \<open>internal/objecttype/objecttype.go\<close>: the twelve object kinds of the chain, their
  integer ids and labels, and the \<open>"<kind>-<index>"\<close> object identifiers.  Proved here:
  both lookups invert their counterparts and \<open>Parse\<close> inverts \<open>Format\<close>, also under a
  suffix.
\<close>

datatype kind =
    Guild | Player | Planet | Reactor | Substation | Struct
  | Allocation | Infusion | Address | Fleet | Provider | Agreement

definition all_kinds :: "kind list" where
  "all_kinds =
     [Guild, Player, Planet, Reactor, Substation, Struct,
      Allocation, Infusion, Address, Fleet, Provider, Agreement]"

fun kind_id :: "kind \<Rightarrow> nat" where
  "kind_id Guild = 0"
| "kind_id Player = 1"
| "kind_id Planet = 2"
| "kind_id Reactor = 3"
| "kind_id Substation = 4"
| "kind_id Struct = 5"
| "kind_id Allocation = 6"
| "kind_id Infusion = 7"
| "kind_id Address = 8"
| "kind_id Fleet = 9"
| "kind_id Provider = 10"
| "kind_id Agreement = 11"

text \<open>Kinds are ordered by their ids, the order of the database enum.\<close>

instantiation kind :: linorder
begin

definition less_eq_kind :: "kind \<Rightarrow> kind \<Rightarrow> bool" where
  "less_eq_kind a b \<longleftrightarrow> kind_id a \<le> kind_id b"

definition less_kind :: "kind \<Rightarrow> kind \<Rightarrow> bool" where
  "less_kind a b \<longleftrightarrow> kind_id a < kind_id b"

lemma kind_id_inj: "kind_id a = kind_id b \<Longrightarrow> a = b"
  by (cases a; cases b; simp)

instance
  by standard (auto simp: less_eq_kind_def less_kind_def intro: kind_id_inj)

end

definition labels :: "string list" where
  "labels =
     [''guild'', ''player'', ''planet'', ''reactor'', ''substation'', ''struct'',
      ''allocation'', ''infusion'', ''address'', ''fleet'', ''provider'', ''agreement'']"

definition kind_label :: "kind \<Rightarrow> string" where
  "kind_label k = labels ! kind_id k"

definition from_id :: "int \<Rightarrow> kind option" where
  "from_id i = (if i < 0 \<or> 12 \<le> i then None else Some (all_kinds ! nat i))"

definition from_label :: "string \<Rightarrow> kind option" where
  "from_label l = find (\<lambda>k. kind_label k = l) all_kinds"

definition format_object :: "kind \<Rightarrow> int \<Rightarrow> string" where
  "format_object k i = dec_nat (kind_id k) @ ''-'' @ dec_int i"

definition parse_object :: "string \<Rightarrow> (kind \<times> int \<times> string) res" where
  "parse_object s =
     (let parts = split_n (CHR ''-'') 3 s in
      if length parts < 2 then Inl (errorf ''objecttype.Parse: missing dash'')
      else (case atoi (parts ! 0) of
          None \<Rightarrow> Inl (errorf ''objecttype.Parse: bad type id'')
        | Some tid \<Rightarrow> (case from_id tid of
            None \<Rightarrow> Inl (errorf ''objecttype.Parse: type id out of range'')
          | Some k \<Rightarrow> (case atoi (parts ! 1) of
              None \<Rightarrow> Inl (errorf ''objecttype.Parse: bad index'')
            | Some i \<Rightarrow> Inr (k, i, if length parts = 3 then parts ! 2 else [])))))"

lemma from_id_kind_id [simp]: "from_id (int (kind_id k)) = Some k"
  by (cases k) (simp_all add: from_id_def all_kinds_def)

lemma from_id_Some: "from_id i = Some k \<longleftrightarrow> i = int (kind_id k)"
proof
  assume "from_id i = Some k"
  then have i: "0 \<le> i" "i < 12" and k: "k = all_kinds ! nat i"
    by (auto simp: from_id_def split: if_splits)
  have "i = 0 \<or> i = 1 \<or> i = 2 \<or> i = 3 \<or> i = 4 \<or> i = 5 \<or> i = 6 \<or> i = 7 \<or>
      i = 8 \<or> i = 9 \<or> i = 10 \<or> i = 11"
    using i by arith
  then show "i = int (kind_id k)" using i k by (auto simp: all_kinds_def)
qed simp

lemma kind_label_inj: "kind_label a = kind_label b \<Longrightarrow> a = b"
  by (cases a; cases b; simp add: kind_label_def labels_def)

lemma from_label_iff: "from_label l = Some k \<longleftrightarrow> l = kind_label k"
proof
  assume "from_label l = Some k"
  then show "l = kind_label k" by (auto simp: from_label_def find_Some_iff)
next
  assume "l = kind_label k"
  then show "from_label l = Some k"
    by (cases k) (simp_all add: from_label_def all_kinds_def kind_label_def labels_def)
qed

lemma kind_id_small: "kind_id k < 12"
  by (cases k) simp_all

lemma split_format_object:
  assumes "0 \<le> i"
  shows "split_on (CHR ''-'') (format_object k i) = [dec_nat (kind_id k), dec_int i]"
proof -
  have "CHR ''-'' \<notin> set (dec_nat (kind_id k))" "CHR ''-'' \<notin> set (dec_int i)"
    using assms by simp_all
  then show ?thesis by (simp add: format_object_def split_on_append)
qed

lemma atoi_kind_id: "atoi (dec_nat (kind_id k)) = Some (int (kind_id k))"
  using kind_id_small [of k] by (simp add: parse_int64_def)

lemma parse_format_suffix:
  assumes "0 \<le> i" "i < 2 ^ 63"
  shows "parse_object (format_object k i @ CHR ''-'' # t) = Inr (k, i, t)"
proof -
  have free: "CHR ''-'' \<notin> set (dec_nat (kind_id k))" "CHR ''-'' \<notin> set (dec_int i)"
    using assms by simp_all
  have i: "atoi (dec_int i) = Some i" using assms by simp
  have sp: "split_on (CHR ''-'') (format_object k i @ CHR ''-'' # t)
      = dec_nat (kind_id k) # dec_int i # split_on (CHR ''-'') t"
    using free by (simp add: format_object_def split_on_append)
  obtain p ps where ps: "split_on (CHR ''-'') t = p # ps"
    by (cases "split_on (CHR ''-'') t") auto
  have "split_n (CHR ''-'') 3 (format_object k i @ CHR ''-'' # t) = [dec_nat (kind_id k), dec_int i, t]"
    using join_split [of "CHR ''-''" t] ps
    by (cases ps) (simp_all add: split_n_def sp)
  then show ?thesis
    using i by (simp add: parse_object_def atoi_kind_id)
qed

text \<open>An object id round-trips: \<open>Parse\<close> of \<open>Format(kind, index)\<close> gives back the
kind and the index with an empty suffix, and of the id followed by a dash and any text
gives that text as the suffix, for every index an \<open>int\<close> holds.\<close>

theorem parse_format_object:
  assumes "0 \<le> i" "i < 2 ^ 63"
  shows "parse_object (format_object k i) = Inr (k, i, []) \<and>
         parse_object (format_object k i @ CHR ''-'' # t) = Inr (k, i, t)"
proof
  have "atoi (dec_int i) = Some i" using assms by simp
  then show "parse_object (format_object k i) = Inr (k, i, [])"
    by (simp add: parse_object_def split_n_def split_format_object assms(1) atoi_kind_id)
  show "parse_object (format_object k i @ CHR ''-'' # t) = Inr (k, i, t)"
    by (rule parse_format_suffix [OF assms])
qed

theorem parse_format_object_witness:
  "parse_object (format_object Planet 42) = Inr (Planet, 42, []) \<and>
   parse_object (format_object Planet 42 @ CHR ''-'' # ''x-y'') = Inr (Planet, 42, ''x-y'')"
  by (rule parse_format_object) simp_all

end
