(* ===== verification/Rpc_Events.thy ===== *)
theory Rpc_Events
  imports Object_Type "HOL-Library.Multiset" "HOL-Library.Product_Lexorder"
begin

text \<open>
  \<open>internal/rpc/types.go\<close> (events, transaction results, blocks),
  \<open>internal/rpc/event_order.go\<close> (the execution order of a block's events) and
  \<open>internal/rpc/bundle.go\<close> (the provenance check of a fetched block).

  Application order is begin-block, transactions, end-block; the coordinates
  \<open>(tx, index)\<close> stay those of the RPC answer.  The theorems say that the ordered stream
  is exactly the source stream, strictly increasing in \<open>(phase, tx, index)\<close>, and that it
  is refused exactly when some event carries bad metadata.
\<close>

section \<open>Source data\<close>

record attribute =
  attr_key :: string
  attr_value :: string
  attr_index :: bool

record event =
  ev_type :: string
  ev_attributes :: "attribute list"

record tx_result =
  tx_code :: int
  tx_data :: string
  tx_log :: string
  tx_info :: string
  tx_gas_wanted :: string
  tx_gas_used :: string
  tx_events :: "event list"
  tx_codespace :: string

record block_result =
  br_hash :: string
  br_height :: string
  br_chain_id :: string
  br_time :: int
  br_proposer :: string
  br_txs :: "string list"

record block_results =
  brr_height :: string
  brr_txs_results :: "tx_result list"
  brr_finalize_events :: "event list"

abbreviation attr :: "string \<Rightarrow> string \<Rightarrow> attribute" where
  "attr k v \<equiv> \<lparr>attr_key = k, attr_value = v, attr_index = True\<rparr>"

abbreviation mk_event :: "string \<Rightarrow> (string \<times> string) list \<Rightarrow> event" where
  "mk_event t kvs \<equiv> \<lparr>ev_type = t, ev_attributes = map (\<lambda>(k, v). attr k v) kvs\<rparr>"

section \<open>Execution order\<close>

datatype phase = PreBlock | BeginBlock | Transaction | EndBlock

fun phase_num :: "phase \<Rightarrow> int" where
  "phase_num PreBlock = 0"
| "phase_num BeginBlock = 1"
| "phase_num Transaction = 2"
| "phase_num EndBlock = 3"

lemma phase_num_inj [simp]: "phase_num a = phase_num b \<longleftrightarrow> a = b"
  by (cases a; cases b; simp)

record positioned =
  pe_event :: event
  pe_phase :: phase
  pe_tx :: int
  pe_index :: int
  pe_msg :: int

text \<open>One metadata attribute, after the duplicate check of the loop.\<close>

definition position_attr :: "int \<Rightarrow> attribute \<Rightarrow> positioned \<Rightarrow> positioned res" where
  "position_attr tx a p =
     (if attr_key a = ''msg_index'' then
        (case atoi (attr_value a) of
           None \<Rightarrow> Inl (errorf ''invalid msg_index'')
         | Some n \<Rightarrow>
             if n < 0 \<or> tx < 0 then Inl (errorf ''invalid msg_index'')
             else Inr (p\<lparr>pe_msg := n\<rparr>))
      else if 0 \<le> tx then Inl (errorf ''block mode on transaction event'')
      else if attr_value a = ''BeginBlock'' then Inr (p\<lparr>pe_phase := BeginBlock\<rparr>)
      else if attr_value a = ''EndBlock'' then Inr (p\<lparr>pe_phase := EndBlock\<rparr>)
      else Inl (errorf ''unknown block event mode''))"

definition is_metadata :: "string \<Rightarrow> bool" where
  "is_metadata k \<longleftrightarrow> k = ''mode'' \<or> k = ''msg_index''"

fun position_attrs ::
  "int \<Rightarrow> string list \<Rightarrow> attribute list \<Rightarrow> positioned \<Rightarrow> positioned res" where
  "position_attrs tx seen [] p = Inr p"
| "position_attrs tx seen (a # as) p =
     (if \<not> is_metadata (attr_key a) then position_attrs tx seen as p
      else if attr_key a \<in> set seen then Inl (errorf ''duplicate event metadata'')
      else bindR (position_attr tx a p) (position_attrs tx (attr_key a # seen) as))"

definition position_event :: "event \<Rightarrow> int \<Rightarrow> int \<Rightarrow> positioned res" where
  "position_event ev tx idx =
     position_attrs tx [] (ev_attributes ev)
       \<lparr>pe_event = ev, pe_phase = (if 0 \<le> tx then Transaction else PreBlock),
        pe_tx = tx, pe_index = idx, pe_msg = -1\<rparr>"

definition indexed :: "'a list \<Rightarrow> (int \<times> 'a) list" where
  "indexed xs = zip (map int [0..<length xs]) xs"

text \<open>The source stream in the order the loops visit it: \<open>(event, tx, index)\<close>.\<close>

definition source_events :: "event list \<Rightarrow> tx_result list \<Rightarrow> (event \<times> int \<times> int) list" where
  "source_events finalize txs =
     map (\<lambda>(i, ev). (ev, -1, i)) (indexed finalize)
     @ concat (map (\<lambda>(tx, r). map (\<lambda>(i, ev). (ev, tx, i)) (indexed (tx_events r))) (indexed txs))"

type_synonym phase_slots = "phase \<Rightarrow> positioned list"

definition append_event :: "phase_slots \<Rightarrow> event \<times> int \<times> int \<Rightarrow> phase_slots res" where
  "append_event phases src =
     (case src of (ev, tx, idx) \<Rightarrow>
        bindR (position_event ev tx idx) (\<lambda>p.
        Inr (phases(pe_phase p := phases (pe_phase p) @ [p]))))"

definition ordered_events :: "event list \<Rightarrow> tx_result list \<Rightarrow> positioned list res" where
  "ordered_events finalize txs =
     bindR (foldR append_event (\<lambda>_. []) (source_events finalize txs)) (\<lambda>phases.
     Inr (phases PreBlock @ phases BeginBlock @ phases Transaction @ phases EndBlock))"

definition dispatch_key :: "positioned \<Rightarrow> int \<times> int \<times> int" where
  "dispatch_key p = (phase_num (pe_phase p), pe_tx p, pe_index p)"

definition coordinate :: "positioned \<Rightarrow> event \<times> int \<times> int" where
  "coordinate p = (pe_event p, pe_tx p, pe_index p)"

subsection \<open>Positioning one event\<close>

definition position_frame :: "int \<Rightarrow> positioned \<Rightarrow> positioned \<Rightarrow> bool" where
  "position_frame tx p q \<longleftrightarrow>
     pe_event q = pe_event p \<and> pe_tx q = pe_tx p \<and> pe_index q = pe_index p \<and>
     (0 \<le> tx \<longrightarrow> pe_phase q = pe_phase p) \<and>
     (tx < 0 \<longrightarrow> pe_msg q = pe_msg p \<and> (pe_phase p \<noteq> Transaction \<longrightarrow> pe_phase q \<noteq> Transaction))"

lemma position_attr_frame: "position_attr tx a p = Inr q \<Longrightarrow> position_frame tx p q"
  by (simp add: position_attr_def position_frame_def split: if_split_asm option.split_asm)
    auto

lemma position_frame_trans:
  "position_frame tx p q \<Longrightarrow> position_frame tx q r \<Longrightarrow> position_frame tx p r"
  by (simp add: position_frame_def)

lemma position_attrs_frame:
  "position_attrs tx seen as p = Inr q \<Longrightarrow> position_frame tx p q"
proof (induction as arbitrary: seen p)
  case Nil
  then show ?case by (simp add: position_frame_def)
next
  case (Cons a as)
  show ?case
  proof (cases "is_metadata (attr_key a)")
    case True
    then obtain p' where p': "position_attr tx a p = Inr p'"
      and rest: "position_attrs tx (attr_key a # seen) as p' = Inr q"
      using Cons.prems by (auto simp: res_simps split: if_split_asm)
    then show ?thesis
      by (blast intro: position_frame_trans position_attr_frame Cons.IH)
  next
    case False
    then show ?thesis using Cons by simp
  qed
qed

lemma position_event_frame:
  "position_event ev tx idx = Inr p \<Longrightarrow> pe_event p = ev \<and> pe_tx p = tx \<and> pe_index p = idx"
  by (auto simp: position_event_def position_frame_def dest!: position_attrs_frame)

lemma position_event_phase:
  "position_event ev tx idx = Inr p \<Longrightarrow> pe_phase p = Transaction \<longleftrightarrow> 0 \<le> tx"
  unfolding position_event_def
  by (cases "0 \<le> tx") (auto simp: position_frame_def dest!: position_attrs_frame)

lemma position_event_finalize_msg:
  "position_event ev tx idx = Inr p \<Longrightarrow> tx < 0 \<Longrightarrow> pe_msg p = -1"
  unfolding position_event_def by (auto simp: position_frame_def dest!: position_attrs_frame)

subsection \<open>The stream\<close>

lemma length_indexed [simp]: "length (indexed xs) = length xs"
  by (simp add: indexed_def)

lemma indexed_nth [simp]: "i < length xs \<Longrightarrow> indexed xs ! i = (int i, xs ! i)"
  by (simp add: indexed_def)

lemma map_snd_indexed [simp]: "map snd (indexed xs) = xs"
  by (simp add: indexed_def)

lemma indexed_sorted: "sorted_wrt (\<lambda>a b. fst a < fst b) (indexed xs)"
  by (auto simp: sorted_wrt_iff_nth_less)

lemma indexed_range: "(i, x) \<in> set (indexed xs) \<Longrightarrow> 0 \<le> i \<and> i < int (length xs)"
  by (auto simp: in_set_conv_nth)

text \<open>Folding \<open>append_event\<close> distributes the positioned events over the four slices.\<close>

lemma append_event_fold:
  "foldR append_event slots srcs =
     bindR (mapR (\<lambda>(ev, tx, idx). position_event ev tx idx) srcs)
       (\<lambda>ps. Inr (\<lambda>ph. slots ph @ filter (\<lambda>p. pe_phase p = ph) ps))"
proof (induction srcs arbitrary: slots)
  case (Cons src srcs)
  obtain ev tx idx where src: "src = (ev, tx, idx)" by (cases src)
  show ?case
  proof (cases "position_event ev tx idx")
    case (Inr p)
    then have "append_event slots src = Inr (slots(pe_phase p := slots (pe_phase p) @ [p]))"
      by (simp add: src append_event_def)
    with Inr show ?thesis
      by (cases "mapR (\<lambda>(ev, tx, idx). position_event ev tx idx) srcs")
        (auto simp: src Cons.IH fun_eq_iff)
  qed (simp add: src append_event_def)
qed simp

lemma ordered_events_eq:
  "ordered_events finalize txs =
     bindR (mapR (\<lambda>(ev, tx, idx). position_event ev tx idx) (source_events finalize txs))
       (\<lambda>ps. Inr (concat (map (\<lambda>ph. filter (\<lambda>p. pe_phase p = ph) ps)
                    [PreBlock, BeginBlock, Transaction, EndBlock])))"
  by (cases "mapR (\<lambda>(ev, tx, idx). position_event ev tx idx) (source_events finalize txs)")
    (simp_all add: ordered_events_def append_event_fold)

lemma mset_phase_slots:
  "mset (concat (map (\<lambda>ph. filter (\<lambda>p. pe_phase p = ph) ps)
     [PreBlock, BeginBlock, Transaction, EndBlock])) = mset ps"
proof (induction ps)
  case (Cons p ps)
  then show ?case by (cases "pe_phase p") simp_all
qed simp

definition src_key :: "event \<times> int \<times> int \<Rightarrow> int \<times> int" where
  "src_key s = snd s"

lemma source_events_sorted: "sorted_wrt (\<lambda>a b. src_key a < src_key b) (source_events fin txs)"
proof -
  let ?R = "\<lambda>a b. src_key a < src_key b"
  have row: "sorted_wrt ?R (map (\<lambda>(i, ev). (ev, tx, i)) (indexed evs))" for tx :: int and evs
    using indexed_sorted [of evs]
    by (auto simp: sorted_wrt_map src_key_def split_def elim!: sorted_wrt_mono_rel [rotated])
  have "sorted_wrt ?R (concat (map (\<lambda>(tx, r). map (\<lambda>(i, ev). (ev, tx, i)) (indexed (tx_events r)))
      (indexed txs)))"
  proof (rule sorted_wrt_concat_map [OF indexed_sorted])
    show "sorted_wrt ?R ((\<lambda>(tx, r). map (\<lambda>(i, ev). (ev, tx, i)) (indexed (tx_events r))) x)" for x
      by (cases x) (simp add: row)
  qed (auto simp: src_key_def split_def)
  moreover have "?R a b" if "a \<in> set (map (\<lambda>(i, ev). (ev, -1, i)) (indexed fin))"
    "b \<in> set (concat (map (\<lambda>(tx, r). map (\<lambda>(i, ev). (ev, tx, i)) (indexed (tx_events r)))
      (indexed txs)))" for a b
    using that by (auto simp: src_key_def dest!: indexed_range)
  ultimately show ?thesis
    by (auto simp: source_events_def sorted_wrt_append row)
qed

lemma positioned_sources:
  assumes "mapR (\<lambda>(ev, tx, idx). position_event ev tx idx) srcs = Inr ps"
  shows "map coordinate ps = srcs"
  using mapR_Inr [OF assms]
  by (induction rule: list_all2_induct) (auto simp: coordinate_def dest: position_event_frame)

lemma ordered_events_mset:
  assumes "ordered_events finalize txs = Inr ps"
  shows "mset (map coordinate ps) = mset (source_events finalize txs)"
proof -
  obtain qs where q: "mapR (\<lambda>(ev, tx, idx). position_event ev tx idx) (source_events finalize txs) = Inr qs"
    and ps: "ps = concat (map (\<lambda>ph. filter (\<lambda>p. pe_phase p = ph) qs)
       [PreBlock, BeginBlock, Transaction, EndBlock])"
    using assms unfolding ordered_events_eq by (auto simp: res_simps simp del: concat.simps list.map)
  have "mset ps = mset qs" unfolding ps by (rule mset_phase_slots)
  then have "mset (map coordinate ps) = mset (map coordinate qs)" by simp
  also have "\<dots> = mset (source_events finalize txs)" by (simp add: positioned_sources [OF q])
  finally show ?thesis .
qed

lemma ordered_events_increasing:
  assumes "ordered_events finalize txs = Inr ps"
  shows "sorted_wrt (\<lambda>p q. dispatch_key p < dispatch_key q) ps"
proof -
  let ?R = "\<lambda>p q. dispatch_key p < dispatch_key q"
  obtain qs where q: "mapR (\<lambda>(ev, tx, idx). position_event ev tx idx) (source_events finalize txs) = Inr qs"
    and ps: "ps = concat (map (\<lambda>ph. filter (\<lambda>p. pe_phase p = ph) qs)
       [PreBlock, BeginBlock, Transaction, EndBlock])"
    using assms unfolding ordered_events_eq by (auto simp: res_simps simp del: concat.simps list.map)
  have "sorted_wrt (\<lambda>a b. src_key a < src_key b) (map coordinate qs)"
    unfolding positioned_sources [OF q] by (rule source_events_sorted)
  then have srt: "sorted_wrt (\<lambda>a b. (pe_tx a, pe_index a) < (pe_tx b, pe_index b)) qs"
    by (simp add: sorted_wrt_map src_key_def coordinate_def)
  show ?thesis
    unfolding ps
  proof (rule sorted_wrt_concat_map [where R = "\<lambda>a b. phase_num a < phase_num b"])
    show "sorted_wrt ?R (filter (\<lambda>p. pe_phase p = ph) qs)" for ph
    proof -
      have "sorted_wrt (\<lambda>a b. (pe_tx a, pe_index a) < (pe_tx b, pe_index b))
          (filter (\<lambda>p. pe_phase p = ph) qs)"
        using srt by (rule sorted_wrt_filter)
      then show ?thesis
        by (rule sorted_wrt_mono_rel [rotated]) (simp add: dispatch_key_def)
    qed
  qed (auto simp: dispatch_key_def)
qed

lemma ordered_events_distinct:
  assumes "ordered_events finalize txs = Inr ps"
  shows "distinct (map (\<lambda>p. (pe_tx p, pe_index p)) ps)"
proof -
  have "sorted_wrt (\<lambda>a b. src_key a < src_key b) (source_events finalize txs)"
    by (rule source_events_sorted)
  then have "distinct (map src_key (source_events finalize txs))"
    by (simp add: sorted_wrt_map [symmetric] distinct_if_sorted_wrt_irrefl [where R = "(<)"])
  moreover have "mset (map src_key (map coordinate ps)) = mset (map src_key (source_events finalize txs))"
    using ordered_events_mset [OF assms] by (simp only: mset_map)
  ultimately have "distinct (map src_key (map coordinate ps))"
    by (metis mset_eq_imp_distinct_iff)
  then show ?thesis by (simp add: src_key_def coordinate_def comp_def)
qed

text \<open>
  C18: The execution order of a block is exactly its source stream: every event of the
  answer occurs once, at its original transaction and event index, and the stream is
  strictly increasing in (phase, transaction, event index), so no event is applied before
  one that precedes it.
\<close>

theorem ordered_events_correct:
  assumes "ordered_events finalize txs = Inr ps"
  shows "mset (map coordinate ps) = mset (source_events finalize txs) \<and>
         sorted_wrt (\<lambda>p q. dispatch_key p < dispatch_key q) ps"
  using ordered_events_mset [OF assms] ordered_events_increasing [OF assms] by simp

text \<open>A block's events are refused as a whole exactly when one of them carries metadata
that positions it nowhere.\<close>

lemma ordered_events_fail_iff:
  "(\<exists>e. ordered_events finalize txs = Inl e) \<longleftrightarrow>
   (\<exists>(ev, tx, idx) \<in> set (source_events finalize txs). \<exists>e. position_event ev tx idx = Inl e)"
proof -
  have "(\<exists>e. mapR f xs = Inl e) \<longleftrightarrow> (\<exists>x \<in> set xs. \<exists>e. f x = Inl e)"
    for f :: "event \<times> int \<times> int \<Rightarrow> positioned res" and xs
  proof (induction xs)
    case (Cons x xs)
    then show ?case by (cases "f x"; cases "mapR f xs") auto
  qed simp
  from this [of "\<lambda>(ev, tx, idx). position_event ev tx idx" "source_events finalize txs"]
  show ?thesis
    unfolding ordered_events_eq by (auto simp: res_simps split_def simp del: concat.simps list.map)
qed

definition example_finalize :: "event list" where
  "example_finalize = [mk_event ''a'' [(''mode'', ''EndBlock'')], mk_event ''b'' [(''mode'', ''BeginBlock'')]]"

definition example_txs :: "tx_result list" where
  "example_txs = [\<lparr>tx_code = 0, tx_data = [], tx_log = [], tx_info = [], tx_gas_wanted = [],
      tx_gas_used = [], tx_events = [mk_event ''c'' [(''msg_index'', ''0'')]], tx_codespace = []\<rparr>]"

lemma example_ordered:
  "ordered_events example_finalize example_txs = Inr
     [\<lparr>pe_event = mk_event ''b'' [(''mode'', ''BeginBlock'')], pe_phase = BeginBlock, pe_tx = -1, pe_index = 1, pe_msg = -1\<rparr>,
      \<lparr>pe_event = mk_event ''c'' [(''msg_index'', ''0'')], pe_phase = Transaction, pe_tx = 0, pe_index = 0, pe_msg = 0\<rparr>,
      \<lparr>pe_event = mk_event ''a'' [(''mode'', ''EndBlock'')], pe_phase = EndBlock, pe_tx = -1, pe_index = 0, pe_msg = -1\<rparr>]"
  by code_simp

definition example_stream :: "positioned list" where
  "example_stream =
     [\<lparr>pe_event = mk_event ''b'' [(''mode'', ''BeginBlock'')], pe_phase = BeginBlock, pe_tx = -1, pe_index = 1, pe_msg = -1\<rparr>,
      \<lparr>pe_event = mk_event ''c'' [(''msg_index'', ''0'')], pe_phase = Transaction, pe_tx = 0, pe_index = 0, pe_msg = 0\<rparr>,
      \<lparr>pe_event = mk_event ''a'' [(''mode'', ''EndBlock'')], pe_phase = EndBlock, pe_tx = -1, pe_index = 0, pe_msg = -1\<rparr>]"

theorem ordered_events_correct_witness:
  "mset (map coordinate example_stream) = mset (source_events example_finalize example_txs) \<and>
   sorted_wrt (\<lambda>p q. dispatch_key p < dispatch_key q) example_stream"
  by (rule ordered_events_correct) (simp only: example_stream_def example_ordered)

section \<open>Bundle provenance\<close>

definition base64_char :: "char \<Rightarrow> nat option" where
  "base64_char c =
     (let n = (of_char c :: nat) in
      if 65 \<le> n \<and> n \<le> 90 then Some (n - 65)
      else if 97 \<le> n \<and> n \<le> 122 then Some (n - 71)
      else if 48 \<le> n \<and> n \<le> 57 then Some (n + 4)
      else if n = 43 then Some 62 else if n = 47 then Some 63 else None)"

text \<open>\<open>base64.StdEncoding.Strict()\<close>: line breaks are skipped, the text comes in groups of
four, padding closes the last group and the bits it leaves over are zero.\<close>

fun base64_groups :: "string \<Rightarrow> bool" where
  "base64_groups [] \<longleftrightarrow> True"
| "base64_groups [a, b, c, d] \<longleftrightarrow>
     (case (base64_char a, base64_char b) of
        (Some _, Some y) \<Rightarrow>
          if c = CHR ''='' then d = CHR ''='' \<and> y mod 16 = 0
          else (case base64_char c of
                  None \<Rightarrow> False
                | Some z \<Rightarrow> if d = CHR ''='' then z mod 4 = 0 else base64_char d \<noteq> None)
      | _ \<Rightarrow> False)"
| "base64_groups (a # b # c # d # s) \<longleftrightarrow>
     base64_char a \<noteq> None \<and> base64_char b \<noteq> None \<and> base64_char c \<noteq> None \<and>
     base64_char d \<noteq> None \<and> base64_groups s"
| "base64_groups _ \<longleftrightarrow> False"

definition base64_nonempty :: "string \<Rightarrow> bool" where
  "base64_nonempty s =
     (let t = filter (\<lambda>c. (of_char c :: nat) \<notin> {10, 13}) s in t \<noteq> [] \<and> base64_groups t)"

definition validate_bundle ::
  "block_result option \<Rightarrow> block_results option \<Rightarrow> string \<Rightarrow> int \<Rightarrow> unit res" where
  "validate_bundle block results chain height =
     (case (block, results) of
        (Some b, Some r) \<Rightarrow>
          if height \<le> 0 \<or> chain = [] then Inl (errorf ''invalid block bundle request'')
          else if br_chain_id b \<noteq> chain then Inl (errorf ''block chain_id != live chain'')
          else if parse_int64 (br_height b) \<noteq> Some height then Inl (errorf ''block.height mismatch'')
          else if parse_int64 (brr_height r) \<noteq> Some height then Inl (errorf ''block_results.height mismatch'')
          else if length (br_txs b) \<noteq> length (brr_txs_results r)
            then Inl (errorf ''transaction/result count mismatch'')
          else if \<not> list_all base64_nonempty (br_txs b)
            then Inl (errorf ''transaction has invalid or empty base64 bytes'')
          else Inr ()
      | _ \<Rightarrow> Inl (errorf ''invalid block bundle request''))"

lemma validate_bundle_iff:
  "validate_bundle block results chain height = Inr () \<longleftrightarrow>
   (\<exists>b r. block = Some b \<and> results = Some r \<and> 0 < height \<and> chain \<noteq> [] \<and>
      br_chain_id b = chain \<and> parse_int64 (br_height b) = Some height \<and>
      parse_int64 (brr_height r) = Some height \<and>
      length (br_txs b) = length (brr_txs_results r) \<and>
      (\<forall>t \<in> set (br_txs b). base64_nonempty t))"
  by (auto simp: validate_bundle_def list_all_iff split: option.splits)

end
