(* ===== verification/Bank_Coins.thy ===== *)
theory Bank_Coins
  imports Rpc_Events
begin

text \<open>
  \<open>internal/bank/coins.go\<close> and the attribute helpers of \<open>internal/bank/process.go\<close>:
  parsing of SDK coin sets and the required fields of the bank and staking events.

  A coin set is a comma-separated list of \<open><digits><denomination>\<close>; zero coins are
  dropped, repeated denominations and amounts beyond 256 bits are refused.  The round
  trip says the parser inverts the SDK's rendering of every valid coin set; the coins it
  returns are always such a set.
\<close>

record coin =
  coin_amount :: string
  coin_denom :: string

section \<open>Parsing\<close>

definition is_letter :: "char \<Rightarrow> bool" where
  "is_letter c = (let n = of_char c :: nat in (65 \<le> n \<and> n \<le> 90) \<or> (97 \<le> n \<and> n \<le> 122))"

definition is_denom_char :: "char \<Rightarrow> bool" where
  "is_denom_char c \<longleftrightarrow> is_letter c \<or> is_digit c \<or> c \<in> {CHR ''/'', CHR '':'', CHR ''.'', CHR ''_'', CHR ''-''}"

definition valid_denom :: "string \<Rightarrow> bool" where
  "valid_denom d \<longleftrightarrow> d \<noteq> [] \<and> is_letter (hd d) \<and> list_all is_denom_char (tl d) \<and>
     2 \<le> length (tl d) \<and> length (tl d) \<le> 127"

text \<open>\<open>^([0-9]+)([a-zA-Z][a-zA-Z0-9/:._-]{2,127})$\<close>: a letter ends the digits, so the
  greedy split is the only one.\<close>

definition coinPattern :: "string \<Rightarrow> (string \<times> string) option" where
  "coinPattern s =
     (let ds = takeWhile is_digit s; r = dropWhile is_digit s in
      if ds \<noteq> [] \<and> valid_denom r then Some (ds, r) else None)"

fun parse_parts :: "string list \<Rightarrow> string list \<Rightarrow> coin list \<Rightarrow> coin list res" where
  "parse_parts seen [] coins = Inr coins"
| "parse_parts seen (part # parts) coins =
     (case coinPattern part of
        None \<Rightarrow> Inl (errorf ''invalid integer coin'')
      | Some (a, d) \<Rightarrow>
          if d \<in> set seen then Inl (errorf ''duplicate coin denomination'')
          else let n = nat_of_digits a in
            if 2 ^ 256 \<le> int n then Inl (errorf ''coin amount exceeds SDK integer range'')
            else if n = 0 then parse_parts (d # seen) parts coins
            else parse_parts (d # seen) parts (coins @ [\<lparr>coin_amount = dec_nat n, coin_denom = d\<rparr>]))"

definition parseCoins :: "string \<Rightarrow> coin list res" where
  "parseCoins s = (if s = [] then Inr [] else parse_parts [] (split_on (CHR '','') s) [])"

section \<open>Event attributes\<close>

definition lookupAttr :: "event \<Rightarrow> string \<Rightarrow> string option" where
  "lookupAttr ev k =
     map_option attr_value (List.find (\<lambda>a. attr_key a = k) (ev_attributes ev))"

definition findAttr :: "event \<Rightarrow> string \<Rightarrow> string" where
  "findAttr ev k = (case lookupAttr ev k of None \<Rightarrow> [] | Some v \<Rightarrow> v)"

fun coin_attrs :: "string list \<Rightarrow> attribute list \<Rightarrow> string option \<Rightarrow> string option res" where
  "coin_attrs seen [] found = Inr found"
| "coin_attrs seen (a # as) found =
     (if attr_key a \<in> set seen then Inl (errorf ''duplicate attribute'')
      else coin_attrs (attr_key a # seen) as
             (if attr_key a = ''amount'' then Some (attr_value a) else found))"

definition eventCoins :: "event \<Rightarrow> coin list res" where
  "eventCoins ev =
     bindR (coin_attrs [] (ev_attributes ev) None) (\<lambda>found.
     case found of
       None \<Rightarrow> Inl (errorf ''missing amount attribute'')
     | Some v \<Rightarrow> parseCoins v)"

definition bank_fields :: "string \<Rightarrow> string list" where
  "bank_fields t =
     (if t = ''transfer'' then [''sender'', ''recipient'']
      else if t = ''coinbase'' then [''minter'']
      else if t = ''burn'' then [''burner'']
      else if t \<in> {''delegate'', ''cancel_unbond'', ''complete_unbonding''}
        then [''validator'', ''delegator'']
      else if t = ''unbond'' then [''validator'', ''delegator'', ''completion_time'']
      else if t = ''redelegate''
        then [''source_validator'', ''destination_validator'', ''completion_time'']
      else if t = ''complete_redelegation''
        then [''source_validator'', ''destination_validator'', ''delegator'']
      else if t = ''create_validator'' then [''validator'']
      else [])"

definition field_present :: "event \<Rightarrow> string \<Rightarrow> bool" where
  "field_present ev name =
     (case lookupAttr ev name of None \<Rightarrow> False | Some v \<Rightarrow> v \<noteq> [] \<or> name = ''recipient'')"

definition validateBankFields :: "event \<Rightarrow> unit res" where
  "validateBankFields ev =
     guardR (list_all (field_present ev) (bank_fields (ev_type ev)))
       (errorf ''missing attribute'')"

definition containsCoin :: "event \<Rightarrow> string \<Rightarrow> string \<Rightarrow> bool res" where
  "containsCoin ev a d =
     bindR (eventCoins ev) (\<lambda>coins.
     Inr (list_ex (\<lambda>c. coin_amount c = a \<and> coin_denom c = d) coins))"

definition parseAmountDenom :: "string \<Rightarrow> (string \<times> string) option" where
  "parseAmountDenom s =
     (case parseCoins s of
        Inr [c] \<Rightarrow> Some (coin_amount c, coin_denom c)
      | _ \<Rightarrow> None)"

definition findAmount :: "event \<Rightarrow> (string \<times> string) option" where
  "findAmount ev = parseAmountDenom (findAttr ev ''amount'')"

section \<open>Valid coin sets\<close>

definition valid_coin :: "coin \<Rightarrow> bool" where
  "valid_coin c \<longleftrightarrow> valid_denom (coin_denom c) \<and>
     (\<exists>n. coin_amount c = dec_nat n \<and> 0 < n \<and> n < 2 ^ 256)"

definition coin_set :: "coin list \<Rightarrow> bool" where
  "coin_set coins \<longleftrightarrow> list_all valid_coin coins \<and> distinct (map coin_denom coins)"

definition coin_text :: "coin \<Rightarrow> string" where
  "coin_text c = coin_amount c @ coin_denom c"

definition coins_text :: "coin list \<Rightarrow> string" where
  "coins_text coins = join_with (CHR '','') (map coin_text coins)"

lemma letter_not_digit: "is_letter c \<Longrightarrow> \<not> is_digit c"
  by (auto simp: is_letter_def is_digit_def Let_def)

lemma coinPattern_text:
  assumes "list_all is_digit ds" "ds \<noteq> []" "valid_denom d"
  shows "coinPattern (ds @ d) = Some (ds, d)"
proof -
  obtain c r where d: "d = c # r" "\<not> is_digit c"
    using assms(3) letter_not_digit by (cases d) (auto simp: valid_denom_def)
  have "takeWhile is_digit (ds @ d) = ds" "dropWhile is_digit (ds @ d) = d"
    using assms(1) d by (auto simp: list_all_iff takeWhile_append dropWhile_append)
  then show ?thesis using assms by (simp add: coinPattern_def Let_def)
qed

lemma coinPattern_Some:
  "coinPattern s = Some (a, d) \<Longrightarrow> list_all is_digit a \<and> a \<noteq> [] \<and> valid_denom d"
  by (auto simp: coinPattern_def Let_def list_all_iff dest: set_takeWhileD split: if_splits)

lemma denom_char_not_comma: "is_denom_char c \<Longrightarrow> c \<noteq> CHR '',''"
  by (auto simp: is_denom_char_def is_letter_def is_digit_def Let_def)

lemma valid_denom_no_comma: "valid_denom d \<Longrightarrow> CHR '','' \<notin> set d"
  by (cases d) (auto simp: valid_denom_def list_all_iff is_letter_def Let_def
      dest!: bspec [of _ is_denom_char] denom_char_not_comma)

lemma dec_nat_digits: "list_all is_digit (dec_nat n)"
  using all_digits_dec_nat [of n] by (simp add: all_digits_def)

lemma valid_coin_pattern:
  assumes "valid_coin c"
  shows "coinPattern (coin_text c) = Some (coin_amount c, coin_denom c)"
    and "CHR '','' \<notin> set (coin_text c)"
    and "\<exists>n. coin_amount c = dec_nat n \<and> nat_of_digits (coin_amount c) = n \<and> 0 < n \<and> n < 2 ^ 256"
proof -
  obtain n where n: "coin_amount c = dec_nat n" "0 < n" "n < 2 ^ 256" "valid_denom (coin_denom c)"
    using assms by (auto simp: valid_coin_def)
  show "coinPattern (coin_text c) = Some (coin_amount c, coin_denom c)"
    unfolding coin_text_def n(1) using n(4) by (intro coinPattern_text dec_nat_digits) simp_all
  have "\<not> is_digit (CHR '','')" by (simp add: is_digit_def)
  then show "CHR '','' \<notin> set (coin_text c)"
    using n(1) valid_denom_no_comma [OF n(4)] by (simp add: coin_text_def)
  show "\<exists>n. coin_amount c = dec_nat n \<and> nat_of_digits (coin_amount c) = n \<and> 0 < n \<and> n < 2 ^ 256"
    using n by simp
qed

lemma parse_parts_valid:
  assumes "list_all valid_coin coins" "distinct (map coin_denom coins)"
    and "set (map coin_denom coins) \<inter> set seen = {}"
  shows "parse_parts seen (map coin_text coins) acc = Inr (acc @ coins)"
  using assms
proof (induction coins arbitrary: seen acc)
  case (Cons c cs)
  then have v: "valid_coin c" by simp
  obtain n where n: "coin_amount c = dec_nat n" "nat_of_digits (coin_amount c) = n" "0 < n" "n < 2 ^ 256"
    using valid_coin_pattern(3) [OF v] by blast
  have c: "\<lparr>coin_amount = dec_nat n, coin_denom = coin_denom c\<rparr> = c" using n(1) by simp
  have "parse_parts seen (map coin_text (c # cs)) acc =
      parse_parts (coin_denom c # seen) (map coin_text cs) (acc @ [\<lparr>coin_amount = dec_nat n, coin_denom = coin_denom c\<rparr>])"
    using Cons.prems n by (simp add: valid_coin_pattern(1) [OF v] Let_def)
  also have "\<dots> = parse_parts (coin_denom c # seen) (map coin_text cs) (acc @ [c])"
    by (simp only: c)
  also have "\<dots> = Inr ((acc @ [c]) @ cs)"
    using Cons.prems by (intro Cons.IH) auto
  finally show ?case by simp
qed simp

lemma split_join:
  assumes "ps \<noteq> []" "\<forall>p \<in> set ps. c \<notin> set p"
  shows "split_on c (join_with c ps) = ps"
  using assms
proof (induction c ps rule: join_with.induct)
  case (3 c p q ps)
  then show ?case by (simp add: split_on_append)
qed simp_all

lemma coin_text_nonempty [simp]: "valid_coin c \<Longrightarrow> coin_text c \<noteq> []"
  by (auto simp: coin_text_def valid_coin_def valid_denom_def)

lemma join_with_Cons_nonempty: "p \<noteq> [] \<Longrightarrow> join_with c (p # ps) \<noteq> []"
  by (cases ps) simp_all

lemma parseCoins_valid: "coin_set coins \<Longrightarrow> parseCoins (coins_text coins) = Inr coins"
proof (cases coins)
  case (Cons c cs)
  assume cs: "coin_set coins"
  then have "valid_coin c" using Cons by (simp add: coin_set_def)
  then have ne: "coins_text coins \<noteq> []"
    by (simp add: coins_text_def Cons join_with_Cons_nonempty)
  have "split_on (CHR '','') (coins_text coins) = map coin_text coins"
    unfolding coins_text_def
    using cs Cons valid_coin_pattern(2) by (intro split_join) (auto simp: coin_set_def list_all_iff)
  then show ?thesis
    using cs ne parse_parts_valid [of coins "[]" "[]"] by (simp add: parseCoins_def coin_set_def)
qed (simp add: coins_text_def parseCoins_def)

lemma parse_parts_Inr:
  assumes "parse_parts seen parts acc = Inr coins"
    and "coin_set acc" "set (map coin_denom acc) \<subseteq> set seen"
  shows "coin_set coins"
  using assms
proof (induction seen parts acc rule: parse_parts.induct)
  case (2 seen part parts acc)
  obtain a d where p: "coinPattern part = Some (a, d)"
    using 2(3) by (auto split: option.splits)
  define n where "n = nat_of_digits a"
  have d: "d \<notin> set seen" "n < 2 ^ 256"
    using 2(3) p by (auto simp: Let_def n_def split: if_splits)
  show ?case
  proof (cases "n = 0")
    case True
    then have "parse_parts (d # seen) parts acc = Inr coins"
      using 2(3) p d by (simp add: Let_def n_def)
    moreover have "set (map coin_denom acc) \<subseteq> set (d # seen)" using 2(5) by auto
    ultimately show ?thesis
      using 2(1) [OF p refl d(1) n_def] d True 2(4) by simp
  next
    case False
    let ?c = "\<lparr>coin_amount = dec_nat n, coin_denom = d\<rparr>"
    have "parse_parts (d # seen) parts (acc @ [?c]) = Inr coins"
      using 2(3) p d False by (simp add: Let_def n_def)
    moreover have "valid_coin ?c"
      using coinPattern_Some [OF p] d False by (auto simp: valid_coin_def)
    then have "coin_set (acc @ [?c])"
      using 2(4,5) d by (auto simp: coin_set_def)
    moreover have "set (map coin_denom (acc @ [?c])) \<subseteq> set (d # seen)" using 2(5) by auto
    ultimately show ?thesis
      using 2(2) [OF p refl d(1) n_def] d False by simp
  qed
qed simp

lemma parseCoins_coin_set: "parseCoins s = Inr coins \<Longrightarrow> coin_set coins"
  using parse_parts_Inr [of "[]" "split_on (CHR '','') s" "[]" coins]
  by (cases "s = []") (simp_all add: parseCoins_def coin_set_def)

lemma eventCoins_coin_set: "eventCoins ev = Inr coins \<Longrightarrow> coin_set coins"
  by (auto simp: eventCoins_def bindR_Inr split: option.splits intro: parseCoins_coin_set)

lemma parseAmountDenom_coin: "valid_coin c \<Longrightarrow> parseAmountDenom (coin_text c) = Some (coin_amount c, coin_denom c)"
  using parseCoins_valid [of "[c]"] by (simp add: coin_set_def coins_text_def parseAmountDenom_def)

text \<open>
  C24: Parsing the SDK's rendering of a set of coins with positive amounts below 256 bits
  and distinct valid denominations returns exactly those coins, in order; and whatever
  text the parser accepts, what it returns is such a set, so rendering and parsing again
  changes nothing.
\<close>

theorem parse_coins_roundtrip:
  "(coin_set coins \<longrightarrow> parseCoins (coins_text coins) = Inr coins) \<and>
   (parseCoins s = Inr coins' \<longrightarrow>
      coin_set coins' \<and> parseCoins (coins_text coins') = Inr coins')"
  using parseCoins_valid parseCoins_coin_set by blast

theorem parse_coins_roundtrip_witness:
  "parseCoins (coins_text [\<lparr>coin_amount = ''50'', coin_denom = ''ualpha''\<rparr>, \<lparr>coin_amount = ''7'', coin_denom = ''uguild.0-1''\<rparr>])
     = Inr [\<lparr>coin_amount = ''50'', coin_denom = ''ualpha''\<rparr>, \<lparr>coin_amount = ''7'', coin_denom = ''uguild.0-1''\<rparr>] \<and>
   coin_set [\<lparr>coin_amount = ''50'', coin_denom = ''ualpha''\<rparr>]"
proof -
  let ?cs = "[\<lparr>coin_amount = ''50'', coin_denom = ''ualpha''\<rparr>, \<lparr>coin_amount = ''7'', coin_denom = ''uguild.0-1''\<rparr>]"
  have n: "''50'' = dec_nat 50" "''7'' = dec_nat 7" by code_simp+
  have "valid_denom ''ualpha''" "valid_denom ''uguild.0-1''" by code_simp+
  then have cs: "coin_set ?cs" "coin_set [\<lparr>coin_amount = ''50'', coin_denom = ''ualpha''\<rparr>]"
    using n by (auto simp: coin_set_def valid_coin_def intro: exI [of _ 50] exI [of _ 7])
  then show ?thesis using parse_coins_roundtrip [of ?cs "[]" "[]"] by simp
qed

end
