(* ===== verification/Json.thy ===== *)
theory Json
  imports Go_Std "HOL-Library.Char_ord" "HOL-Library.List_Lexorder"
begin

text \<open>
  The part of Go's \<open>encoding/json\<close> that the source uses: validity and parsing of a text
  (\<open>json.Valid\<close>, \<open>json.Unmarshal\<close>), decoding of string literals, and compact marshalling
  (\<open>json.Marshal\<close>).  A parsed string keeps its literal text (\<open>JStr\<close>), because the custom
  \<open>UnmarshalJSON\<close> methods of \<open>internal/payload\<close> look at the raw bytes; \<open>unquote\<close> decodes
  it.  Numbers keep their text too.  Input texts are taken to be valid UTF-8 and nested
  less deeply than the decoder's limit of 10000.

  The recursion is bounded by fuel; \<open>json_text\<close> supplies twice the length of the text,
  and every call of the parser has consumed a character since the call before the last.
\<close>

datatype json =
    JNull
  | JBool bool
  | JNum string
  | JStr string
  | JArr "json list"
  | JObj "(string \<times> json) list"

section \<open>Lexical elements\<close>

definition json_space :: "char \<Rightarrow> bool" where
  "json_space c \<longleftrightarrow> c = CHR '' '' \<or> of_char c = (9::nat) \<or> of_char c = (10::nat) \<or> of_char c = (13::nat)"

definition skip_space :: "string \<Rightarrow> string" where
  "skip_space = dropWhile json_space"

definition quote :: char where "quote = CHR 0x22"
definition backslash :: char where "backslash = CHR 0x5C"

definition hex_val :: "char \<Rightarrow> nat option" where
  "hex_val c = (let n = of_char c :: nat in
     if 48 \<le> n \<and> n \<le> 57 then Some (n - 48)
     else if 97 \<le> n \<and> n \<le> 102 then Some (n - 87)
     else if 65 \<le> n \<and> n \<le> 70 then Some (n - 55)
     else None)"

definition hex4 :: "char \<Rightarrow> char \<Rightarrow> char \<Rightarrow> char \<Rightarrow> nat option" where
  "hex4 a b c d = (case (hex_val a, hex_val b, hex_val c, hex_val d) of
       (Some w, Some x, Some y, Some z) \<Rightarrow> Some (4096 * w + 256 * x + 16 * y + z)
     | _ \<Rightarrow> None)"

definition simple_escape :: "char \<Rightarrow> char option" where
  "simple_escape e =
     (if e = quote \<or> e = backslash \<or> e = CHR ''/'' then Some e
      else if e = CHR ''b'' then Some (char_of (8::nat))
      else if e = CHR ''f'' then Some (char_of (12::nat))
      else if e = CHR ''n'' then Some (char_of (10::nat))
      else if e = CHR ''r'' then Some (char_of (13::nat))
      else if e = CHR ''t'' then Some (char_of (9::nat))
      else None)"

text \<open>The body of a string literal up to its closing quote, and the text after it.\<close>

fun scan_string :: "string \<Rightarrow> (string \<times> string) option" where
  "scan_string [] = None"
| "scan_string (c # cs) =
     (if c = quote then Some ([], cs)
      else if c = backslash then
        (case cs of
           [] \<Rightarrow> None
         | e # es \<Rightarrow>
             if e \<noteq> CHR ''u'' \<and> simple_escape e = None then None
             else (case scan_string es of
                 None \<Rightarrow> None
               | Some (body, rest) \<Rightarrow>
                   if e = CHR ''u'' \<and>
                      (length body < 4 \<or> list_ex (\<lambda>h. hex_val h = None) (take 4 body))
                   then None else Some (c # e # body, rest)))
      else if of_char c < (32::nat) then None
      else (case scan_string cs of
          None \<Rightarrow> None
        | Some (body, rest) \<Rightarrow> Some (c # body, rest)))"

definition utf8 :: "nat \<Rightarrow> string" where
  "utf8 n =
     (if n < 128 then [char_of n]
      else if n < 2048 then [char_of (192 + n div 64), char_of (128 + n mod 64)]
      else if n < 65536 then
        [char_of (224 + n div 4096), char_of (128 + n div 64 mod 64), char_of (128 + n mod 64)]
      else
        [char_of (240 + n div 262144), char_of (128 + n div 4096 mod 64),
         char_of (128 + n div 64 mod 64), char_of (128 + n mod 64)])"

definition is_high :: "nat \<Rightarrow> bool" where "is_high n \<longleftrightarrow> 55296 \<le> n \<and> n < 56320"
definition is_low :: "nat \<Rightarrow> bool" where "is_low n \<longleftrightarrow> 56320 \<le> n \<and> n < 57344"

text \<open>
  \<open>code_units\<close> reads a literal body as bytes and \<open>\u\<close> code units; \<open>join_units\<close> combines
  surrogate pairs, and turns a lone surrogate into U+FFFD.
\<close>

fun code_units :: "string \<Rightarrow> (char + nat) list" where
  "code_units (c # e # h1 # h2 # h3 # h4 # rest) =
     (if c = backslash then
        (if e = CHR ''u'' then
           (case hex4 h1 h2 h3 h4 of
              None \<Rightarrow> code_units rest
            | Some n \<Rightarrow> Inr n # code_units rest)
         else (case simple_escape e of
             None \<Rightarrow> code_units (h1 # h2 # h3 # h4 # rest)
           | Some d \<Rightarrow> Inl d # code_units (h1 # h2 # h3 # h4 # rest)))
      else Inl c # code_units (e # h1 # h2 # h3 # h4 # rest))"
| "code_units (c # e # rest) =
     (if c = backslash then
        (case simple_escape e of None \<Rightarrow> code_units rest | Some d \<Rightarrow> Inl d # code_units rest)
      else Inl c # code_units (e # rest))"
| "code_units [c] = [Inl c]"
| "code_units [] = []"

fun join_units :: "(char + nat) list \<Rightarrow> string" where
  "join_units [] = []"
| "join_units (Inl c # us) = c # join_units us"
| "join_units (Inr n # us) =
     (case us of
        Inr m # vs \<Rightarrow>
          if is_high n \<and> is_low m
          then utf8 (65536 + (n - 55296) * 1024 + (m - 56320)) @ join_units vs
          else utf8 (if is_high n \<or> is_low n then 65533 else n) @ join_units us
      | _ \<Rightarrow> utf8 (if is_high n \<or> is_low n then 65533 else n) @ join_units us)"

definition unquote :: "string \<Rightarrow> string" where
  "unquote body = join_units (code_units body)"

definition digits_of :: "string \<Rightarrow> string" where
  "digits_of = takeWhile is_digit"

text \<open>\<open>-?(0|[1-9][0-9]*)(\.[0-9]+)?([eE][+-]?[0-9]+)?\<close>, as (text, rest).\<close>

definition scan_integer :: "string \<Rightarrow> (string \<times> string) option" where
  "scan_integer s =
     (let (sign, t) = (if take 1 s = ''-'' then (''-'', drop 1 s) else ([], s));
          ds = (if take 1 t = ''0'' then ''0'' else digits_of t)
      in if ds = [] then None else Some (sign @ ds, drop (length ds) t))"

definition scan_fraction :: "string \<Rightarrow> (string \<times> string) option" where
  "scan_fraction s =
     (if take 1 s = ''.'' then
        (let ds = digits_of (drop 1 s) in
         if ds = [] then None else Some (CHR ''.'' # ds, drop (Suc (length ds)) s))
      else Some ([], s))"

definition scan_exponent :: "string \<Rightarrow> (string \<times> string) option" where
  "scan_exponent s =
     (case s of
        e # t \<Rightarrow>
          if e = CHR ''e'' \<or> e = CHR ''E'' then
            (let (sign, u) = (if take 1 t = ''+'' \<or> take 1 t = ''-'' then (take 1 t, drop 1 t) else ([], t));
                 ds = digits_of u
             in if ds = [] then None else Some (e # sign @ ds, drop (length ds) u))
          else Some ([], s)
      | [] \<Rightarrow> Some ([], s))"

definition scan_number :: "string \<Rightarrow> (string \<times> string) option" where
  "scan_number s =
     (case scan_integer s of None \<Rightarrow> None | Some (a, r) \<Rightarrow>
     (case scan_fraction r of None \<Rightarrow> None | Some (b, t) \<Rightarrow>
     (case scan_exponent t of None \<Rightarrow> None | Some (c, u) \<Rightarrow> Some (a @ b @ c, u))))"

section \<open>Values\<close>

fun json_value :: "nat \<Rightarrow> string \<Rightarrow> (json \<times> string) option"
  and json_elements :: "nat \<Rightarrow> string \<Rightarrow> (json list \<times> string) option"
  and json_members :: "nat \<Rightarrow> string \<Rightarrow> ((string \<times> json) list \<times> string) option"
where
  "json_value 0 s = None"
| "json_value (Suc n) s =
     (let t = skip_space s; u = drop 1 t in
      if t = [] then None
      else if hd t = CHR ''{'' then
        (if take 1 (skip_space u) = ''}'' then Some (JObj [], drop 1 (skip_space u))
         else map_option (apfst JObj) (json_members n u))
      else if hd t = CHR ''['' then
        (if take 1 (skip_space u) = '']'' then Some (JArr [], drop 1 (skip_space u))
         else map_option (apfst JArr) (json_elements n u))
      else if hd t = quote then map_option (apfst JStr) (scan_string u)
      else if has_prefix t ''null'' then Some (JNull, drop 4 t)
      else if has_prefix t ''true'' then Some (JBool True, drop 4 t)
      else if has_prefix t ''false'' then Some (JBool False, drop 5 t)
      else map_option (apfst JNum) (scan_number t))"
| "json_elements 0 s = None"
| "json_elements (Suc n) s =
     (case json_value n s of
        None \<Rightarrow> None
      | Some (v, r) \<Rightarrow>
          (case skip_space r of
             [] \<Rightarrow> None
           | c # r' \<Rightarrow>
               if c = CHR '']'' then Some ([v], r')
               else if c = CHR '','' then map_option (apfst (Cons v)) (json_elements n r')
               else None))"
| "json_members 0 s = None"
| "json_members (Suc n) s =
     (let t = skip_space s in
      if take 1 t \<noteq> [quote] then None
      else case scan_string (drop 1 t) of
        None \<Rightarrow> None
      | Some (k, r) \<Rightarrow>
          if take 1 (skip_space r) \<noteq> '':'' then None
          else (case json_value n (drop 1 (skip_space r)) of
              None \<Rightarrow> None
            | Some (v, r2) \<Rightarrow>
                (case skip_space r2 of
                   [] \<Rightarrow> None
                 | c # r3 \<Rightarrow>
                     if c = CHR ''}'' then Some ([(unquote k, v)], r3)
                     else if c = CHR '','' then
                       map_option (apfst (Cons (unquote k, v))) (json_members n r3)
                     else None)))"

text \<open>A text is one value; the white space around it does not belong to it.\<close>

definition json_strip :: "string \<Rightarrow> string" where
  "json_strip s = rev (skip_space (rev (skip_space s)))"

definition json_text :: "string \<Rightarrow> json option" where
  "json_text s =
     (let t = json_strip s in
      case json_value (2 * length t + 2) t of
        None \<Rightarrow> None
      | Some (v, rest) \<Rightarrow> if rest = [] then Some v else None)"

definition json_valid :: "string \<Rightarrow> bool" where
  "json_valid s \<longleftrightarrow> json_text s \<noteq> None"

section \<open>Marshalling\<close>

definition hex_digit :: "nat \<Rightarrow> char" where
  "hex_digit n = (if n < 10 then char_of (48 + n) else char_of (87 + n))"

text \<open>\<open>json.Marshal\<close> of a string, HTML escaping included.\<close>

definition escape_byte :: "char \<Rightarrow> string" where
  "escape_byte c = (let n = of_char c :: nat in
     if c = quote \<or> c = backslash then [backslash, c]
     else if n = 8 then [backslash, CHR ''b'']
     else if n = 12 then [backslash, CHR ''f'']
     else if n = 10 then [backslash, CHR ''n'']
     else if n = 13 then [backslash, CHR ''r'']
     else if n = 9 then [backslash, CHR ''t'']
     else if n < 32 \<or> c = CHR ''<'' \<or> c = CHR ''>'' \<or> c = CHR ''&''
       then backslash # ''u00'' @ [hex_digit (n div 16), hex_digit (n mod 16)]
     else [c])"

fun escape_text :: "string \<Rightarrow> string" where
  "escape_text (a # b # c # cs) =
     (if of_char a = (226::nat) \<and> of_char b = (128::nat) \<and>
         (of_char c = (168::nat) \<or> of_char c = (169::nat))
      then backslash # ''u202'' @ [hex_digit (of_char c - 160)] @ escape_text cs
      else escape_byte a @ escape_text (b # c # cs))"
| "escape_text (a # cs) = escape_byte a @ escape_text cs"
| "escape_text [] = []"

definition json_quote :: "string \<Rightarrow> string" where
  "json_quote s = quote # escape_text s @ [quote]"

definition jstr :: "string \<Rightarrow> json" where
  "jstr s = JStr (escape_text s)"

definition commas :: "string list \<Rightarrow> string" where
  "commas xs = join_with (CHR '','') xs"

fun json_marshal :: "json \<Rightarrow> string" where
  "json_marshal JNull = ''null''"
| "json_marshal (JBool b) = (if b then ''true'' else ''false'')"
| "json_marshal (JNum t) = t"
| "json_marshal (JStr body) = quote # body @ [quote]"
| "json_marshal (JArr vs) = ''['' @ commas (map json_marshal vs) @ '']''"
| "json_marshal (JObj kvs) =
     ''{'' @ commas (map (\<lambda>(k, v). json_quote k @ '':'' @ json_marshal v) kvs) @ ''}''"

text \<open>A Go map is marshalled with its keys in order.\<close>

definition json_map :: "(string \<times> json) list \<Rightarrow> json" where
  "json_map kvs = JObj (sort_key fst kvs)"

end
