(* ===== verification/Payload.thy ===== *)
theory Payload
  imports Json
begin

text \<open>
  \<open>internal/payload/payload.go\<close> and \<open>unsigned.go\<close>: decoding of chain payload texts into
  typed fields.  A custom \<open>UnmarshalJSON\<close> method is a decoder that takes the JSON value
  and the field's previous content (Go leaves a field alone when the method returns
  early); \<open>field\<close> applies it to every member that \<open>encoding/json\<close> would match to the
  field, in order, so that the last duplicate wins.  Field names match up to ASCII case.

  The theorems: an unsigned value decodes to itself when re-encoded, in both the quoted
  and the bare form; a successful \<open>DecodeRequired\<close> saw every required field; and the
  versioned decoder demands the whole extension as soon as one of its fields is there.
\<close>

section \<open>Field decoders\<close>

type_synonym 'a decoder = "json \<Rightarrow> 'a \<Rightarrow> 'a res"

definition strip_quotes :: "string \<Rightarrow> string" where
  "strip_quotes s =
     (if 2 \<le> length s \<and> hd s = quote \<and> last s = quote then butlast (tl s) else s)"

definition JSONInt :: "int decoder" where
  "JSONInt v old =
     (let s = trim_space (json_marshal v) in
      if s = [] \<or> s = ''null'' then Inr old
      else let t = trim_space (strip_quotes s) in
        if t = [] then Inr old
        else (case parse_int64 t of
            None \<Rightarrow> Inl (errorf ''payload.JSONInt'')
          | Some n \<Rightarrow> Inr n))"

definition JSONBool :: "bool decoder" where
  "JSONBool v old =
     (let s = trim_space (json_marshal v) in
      if s = [] \<or> s = ''null'' then Inr old
      else let t = to_lower (trim_space (strip_quotes s)) in
        if t = [] \<or> t = ''false'' \<or> t = ''0'' then Inr False
        else if t = ''true'' \<or> t = ''1'' then Inr True
        else Inl (errorf ''payload.JSONBool''))"

definition Numeric :: "string decoder" where
  "Numeric v old =
     (let s = trim_space (json_marshal v) in
      if s = [] \<or> s = ''null'' then Inr old
      else Inr (trim_space (strip_quotes s)))"

definition unsignedText :: "json \<Rightarrow> string res" where
  "unsignedText v =
     (let s = (case v of JStr body \<Rightarrow> unquote body | _ \<Rightarrow> trim_space (json_marshal v)) in
      if s = [] then Inl (errorf ''empty unsigned integer'')
      else if list_all is_digit s then Inr s
      else Inl (errorf ''invalid unsigned integer''))"

definition Uint64 :: "64 word decoder" where
  "Uint64 v old =
     bindR (unsignedText v) (\<lambda>s.
     case parse_uint64 s of
       None \<Rightarrow> Inl (errorf ''payload.Uint64'')
     | Some n \<Rightarrow> Inr n)"

definition Uint64_MarshalJSON :: "64 word \<Rightarrow> json" where
  "Uint64_MarshalJSON n = jstr (format_uint n)"

definition Natural :: "string decoder" where
  "Natural v old =
     bindR (unsignedText v) (\<lambda>s.
     let t = trim_left (\<lambda>c. c = CHR ''0'') s in Inr (if t = [] then ''0'' else t))"

text \<open>The standard decoders for \<open>string\<close>, \<open>bool\<close>, \<open>json.RawMessage\<close> and \<open>time.Time\<close>.\<close>

definition Text :: "string decoder" where
  "Text v old =
     (case v of
        JStr body \<Rightarrow> Inr (unquote body)
      | JNull \<Rightarrow> Inr old
      | _ \<Rightarrow> Inl (errorf ''cannot unmarshal into string''))"

definition Boolean :: "bool decoder" where
  "Boolean v old =
     (case v of
        JBool b \<Rightarrow> Inr b
      | JNull \<Rightarrow> Inr old
      | _ \<Rightarrow> Inl (errorf ''cannot unmarshal into bool''))"

definition RawValue :: "string decoder" where
  "RawValue v old = Inr (json_marshal v)"

definition Timestamp :: "int decoder" where
  "Timestamp v old =
     (case v of
        JNull \<Rightarrow> Inr old
      | JStr body \<Rightarrow>
          (case parse_rfc3339 (unquote body) of
             None \<Rightarrow> Inl (errorf ''parsing time'')
           | Some t \<Rightarrow> Inr t)
      | _ \<Rightarrow> Inl (errorf ''Time.UnmarshalJSON: input is not a JSON string''))"

text \<open>\<open>PgValue\<close>: the empty text binds SQL NULL.\<close>

definition Numeric_PgValue :: "string \<Rightarrow> string option" where
  "Numeric_PgValue n = (if n = [] then None else Some n)"

section \<open>Objects\<close>

definition field :: "string \<Rightarrow> 'a decoder \<Rightarrow> 'a \<Rightarrow> (string \<times> json) list \<Rightarrow> 'a res" where
  "field name dec zero obj =
     foldR (\<lambda>old kv. dec (snd kv) old) zero (filter (\<lambda>kv. equal_fold (fst kv) name) obj)"

definition text_field :: "string \<Rightarrow> (string \<times> json) list \<Rightarrow> string res" where
  "text_field name obj = field name Text [] obj"

definition int_field :: "string \<Rightarrow> (string \<times> json) list \<Rightarrow> int res" where
  "int_field name obj = field name JSONInt 0 obj"

definition numeric_field :: "string \<Rightarrow> (string \<times> json) list \<Rightarrow> string res" where
  "numeric_field name obj = field name Numeric [] obj"

definition uint_field :: "string \<Rightarrow> (string \<times> json) list \<Rightarrow> 64 word res" where
  "uint_field name obj = field name Uint64 0 obj"

definition bool_field :: "string \<Rightarrow> (string \<times> json) list \<Rightarrow> bool res" where
  "bool_field name obj = field name Boolean False obj"

section \<open>Decode\<close>

definition peel :: "string \<Rightarrow> string + string" where
  "peel cur =
     (if length cur < 2 \<or> hd cur \<noteq> quote then Inl cur
      else case json_text cur of
        Some (JStr body) \<Rightarrow>
          (let s = unquote body; next' = trim_space s in
           if next' = [] then Inl cur
           else if hd next' \<in> {CHR ''{'', CHR ''['', quote} then Inr s
           else Inl (json_quote s))
      | _ \<Rightarrow> Inl cur)"

fun peels :: "nat \<Rightarrow> string \<Rightarrow> string" where
  "peels 0 cur = cur"
| "peels (Suc n) cur = (case peel cur of Inl r \<Rightarrow> r | Inr s \<Rightarrow> peels n s)"

definition UnwrapJSONString :: "string \<Rightarrow> string" where
  "UnwrapJSONString raw = peels 4 (trim_space raw)"

text \<open>\<open>Decode[T]\<close> up to the fields of \<open>T\<close>: the members of the payload object.\<close>

definition Decode :: "string \<Rightarrow> ((string \<times> json) list \<Rightarrow> 'a res) \<Rightarrow> 'a res" where
  "Decode raw struct =
     (if raw = [] then Inl (errorf ''empty payload'')
      else case json_text (UnwrapJSONString raw) of
        Some (JObj kvs) \<Rightarrow> struct kvs
      | Some JNull \<Rightarrow> struct []
      | _ \<Rightarrow> Inl (errorf ''decode''))"

text \<open>\<open>map[string]json.RawMessage\<close>: exact keys, the last duplicate wins.\<close>

definition raw_object :: "string \<Rightarrow> (string \<times> json) list option" where
  "raw_object raw =
     (case json_text raw of Some (JObj kvs) \<Rightarrow> Some kvs | _ \<Rightarrow> None)"

definition raw_member :: "(string \<times> json) list \<Rightarrow> string \<Rightarrow> json option" where
  "raw_member kvs name = map_of (rev kvs) name"

fun require_fields :: "(string \<times> json) list \<Rightarrow> string list \<Rightarrow> unit res" where
  "require_fields kvs [] = Inr ()"
| "require_fields kvs (name # names) =
     (case raw_member kvs name of
        None \<Rightarrow> Inl (errorf ''required field is missing or null'')
      | Some JNull \<Rightarrow> Inl (errorf ''required field is missing or null'')
      | Some _ \<Rightarrow> require_fields kvs names)"

definition DecodeRequired ::
  "string \<Rightarrow> ((string \<times> json) list \<Rightarrow> 'a res) \<Rightarrow> string list \<Rightarrow> 'a res" where
  "DecodeRequired raw struct fields =
     (case raw_object raw of
        None \<Rightarrow> Inl (errorf ''required payload is not an object'')
      | Some kvs \<Rightarrow> bindR (require_fields kvs fields) (\<lambda>_. Decode raw struct))"

definition DecodeVersioned ::
  "string \<Rightarrow> bool \<Rightarrow> ((string \<times> json) list \<Rightarrow> 'a res) \<Rightarrow> string list \<Rightarrow> 'a res" where
  "DecodeVersioned raw active struct fields =
     (case raw_object raw of
        None \<Rightarrow> Inl (errorf ''versioned payload is not a JSON object'')
      | Some kvs \<Rightarrow>
          if active \<or> list_ex (\<lambda>name. raw_member kvs name \<noteq> None) fields
          then DecodeRequired raw struct fields
          else Decode raw struct)"

section \<open>Properties\<close>

lemma require_fields_Inr:
  "require_fields kvs names = Inr u \<longleftrightarrow>
     (\<forall>name \<in> set names. \<exists>v. raw_member kvs name = Some v \<and> v \<noteq> JNull)"
  by (induction names) (auto split: option.splits json.splits)

lemma json_plain_escape: "is_digit c \<Longrightarrow> escape_byte c = [c]"
proof -
  assume d: "is_digit c"
  then have "48 \<le> (of_char c :: nat)" "(of_char c :: nat) \<le> 57"
    by (auto simp: is_digit_def)
  then show ?thesis
    by (auto simp: escape_byte_def quote_def backslash_def Let_def)
qed

lemma digits_escape: "list_all is_digit s \<Longrightarrow> escape_text s = s"
proof (induction s rule: escape_text.induct)
  case (1 a b c cs)
  then have "(of_char a :: nat) \<noteq> 226" by (auto simp: is_digit_def)
  with 1 show ?case by (simp add: json_plain_escape)
qed (simp_all add: json_plain_escape)

lemma digit_not_special: "is_digit c \<Longrightarrow> c \<noteq> backslash \<and> c \<noteq> quote"
  by (auto simp: is_digit_def backslash_def quote_def)

lemma digits_code_units: "list_all is_digit s \<Longrightarrow> code_units s = map Inl s"
  by (induction s rule: code_units.induct) (simp_all add: digit_not_special)

lemma join_units_Inl [simp]: "join_units (map Inl s) = s"
  by (induction s) simp_all

lemma digits_unquote: "list_all is_digit s \<Longrightarrow> unquote s = s"
  by (simp add: unquote_def digits_code_units)

lemma trim_space_digits:
  assumes "list_all is_digit s"
  shows "trim_space s = s"
proof -
  have ns: "\<not> is_space c" if "is_digit c" for c
    using that by (auto simp: is_digit_def is_space_def)
  have l: "dropWhile is_space t = t" if "list_all is_digit t" for t
    using that ns by (cases t) auto
  have "list_all is_digit (rev s)" using assms by simp
  then show ?thesis
    using l [OF assms] l [of "rev s"] by (simp add: trim_space_def trim_left_def trim_right_def)
qed

lemma format_uint_digits: "list_all is_digit (format_uint w) \<and> format_uint w \<noteq> []"
  using all_digits_dec_nat [of "unat w"] by (simp add: format_uint_def all_digits_def)

text \<open>
  Every uint64 survives the payload encoding: decoding what \<open>MarshalJSON\<close> wrote (the
  quoted form) and decoding the bare number both return the value, over the whole
  unsigned range, and the decoder refuses an explicit null.
\<close>

theorem uint64_payload_roundtrip:
  "Uint64 (Uint64_MarshalJSON w) old = Inr w \<and>
   Uint64 (JNum (format_uint w)) old = Inr w \<and>
   (\<exists>e. Uint64 JNull old = Inl e)"
proof (intro conjI)
  note d = conjunct1 [OF format_uint_digits [of w]]
  note ne = conjunct2 [OF format_uint_digits [of w]]
  show "Uint64 (Uint64_MarshalJSON w) old = Inr w"
    by (simp add: Uint64_def Uint64_MarshalJSON_def unsignedText_def jstr_def
        digits_escape [OF d] digits_unquote [OF d] d ne)
  show "Uint64 (JNum (format_uint w)) old = Inr w"
    by (simp add: Uint64_def unsignedText_def trim_space_digits [OF d] d ne)
  have "unsignedText JNull = Inl (errorf ''invalid unsigned integer'')"
    by code_simp
  then show "\<exists>e. Uint64 JNull old = Inl e"
    by (simp add: Uint64_def)
qed

text \<open>
  A payload accepted by \<open>DecodeRequired\<close> is a JSON object in which every required
  field is present and not null; and the versioned decoder accepts a payload that
  carries any extension field only when it carries all of them.
\<close>

theorem versioned_payload_complete:
  assumes "DecodeVersioned raw active struct fields = Inr p"
    and "raw_object raw = Some kvs"
    and "active \<or> (\<exists>f \<in> set fields. raw_member kvs f \<noteq> None)"
  shows "(\<forall>f \<in> set fields. \<exists>v. raw_member kvs f = Some v \<and> v \<noteq> JNull) \<and>
         Decode raw struct = Inr p"
proof -
  have "active \<or> list_ex (\<lambda>name. raw_member kvs name \<noteq> None) fields"
    using assms(3) by (auto simp: list_ex_iff)
  then have "DecodeRequired raw struct fields = Inr p"
    using assms(1,2) by (simp add: DecodeVersioned_def)
  then show ?thesis
    using assms(2) by (auto simp: DecodeRequired_def bindR_Inr require_fields_Inr)
qed

definition example_payload :: string where
  "example_payload = ''{'' @ json_quote ''power'' @ '':7,'' @ json_quote ''id'' @ '':'' @ json_quote ''1-2'' @ ''}''"

theorem versioned_payload_complete_witness:
  "(\<exists>v. raw_member [(''power'', JNum ''7''), (''id'', JStr ''1-2'')] ''power'' = Some v \<and> v \<noteq> JNull) \<and>
   Decode example_payload (text_field ''id'') = Inr ''1-2''"
proof -
  have dec: "DecodeVersioned example_payload False (text_field ''id'') [''power''] = Inr ''1-2''"
    by code_simp
  have obj: "raw_object example_payload = Some [(''power'', JNum ''7''), (''id'', JStr ''1-2'')]"
    by code_simp
  have mem: "False \<or> (\<exists>f\<in>set [''power''].
      raw_member [(''power'', JNum ''7''), (''id'', JStr ''1-2'')] f \<noteq> None)"
    by (simp add: raw_member_def)
  show ?thesis
    using versioned_payload_complete [OF dec obj mem] by simp
qed

end
