(* ===== verification/Payload_Types.thy ===== *)
theory Payload_Types
  imports Payload
begin

text \<open>
  The payload structs of \<open>internal/payload/*.go\<close>, one record and one field decoder per
  struct, with the JSON names of the Go tags.  A handler decodes with \<open>Decode raw decode_T\<close>.
  (\<open>payload/struct_type.go\<close> is in \<open>Struct_Type\<close>.)
\<close>

definition raw_field :: "string \<Rightarrow> (string \<times> json) list \<Rightarrow> string res" where
  "raw_field name obj = field name RawValue [] obj"

definition natural_field :: "string \<Rightarrow> (string \<times> json) list \<Rightarrow> string res" where
  "natural_field name obj = field name Natural [] obj"

definition time_field :: "string \<Rightarrow> (string \<times> json) list \<Rightarrow> int res" where
  "time_field name obj = field name Timestamp zero_time obj"

record pAddress =
  Address_Address :: string
  Address_PlayerID :: string

definition decode_Address :: "(string \<times> json) list \<Rightarrow> pAddress res" where
  "decode_Address obj =
     bindR (text_field ''address'' obj) (\<lambda>v0.
     bindR (text_field ''playerId'' obj) (\<lambda>v1.
     Inr \<lparr>Address_Address = v0, Address_PlayerID = v1\<rparr>))"

record pAddressActivity =
  AddressActivity_Address :: string
  AddressActivity_BlockHeight :: int
  AddressActivity_BlockTime :: int

definition decode_AddressActivity :: "(string \<times> json) list \<Rightarrow> pAddressActivity res" where
  "decode_AddressActivity obj =
     bindR (text_field ''address'' obj) (\<lambda>v0.
     bindR (int_field ''blockHeight'' obj) (\<lambda>v1.
     bindR (time_field ''blockTime'' obj) (\<lambda>v2.
     Inr \<lparr>AddressActivity_Address = v0, AddressActivity_BlockHeight = v1, AddressActivity_BlockTime = v2\<rparr>)))"

record pAddressAssociation =
  AddressAssociation_Address :: string
  AddressAssociation_PlayerIndex :: int
  AddressAssociation_RegistrationStatus :: string

definition decode_AddressAssociation :: "(string \<times> json) list \<Rightarrow> pAddressAssociation res" where
  "decode_AddressAssociation obj =
     bindR (text_field ''address'' obj) (\<lambda>v0.
     bindR (int_field ''playerIndex'' obj) (\<lambda>v1.
     bindR (text_field ''registrationStatus'' obj) (\<lambda>v2.
     Inr \<lparr>AddressAssociation_Address = v0, AddressAssociation_PlayerIndex = v1, AddressAssociation_RegistrationStatus = v2\<rparr>)))"

record pAgreement =
  Agreement_ID :: string
  Agreement_ProviderID :: string
  Agreement_AllocationID :: string
  Agreement_Capacity :: int
  Agreement_StartBlock :: int
  Agreement_EndBlock :: int
  Agreement_Creator :: string
  Agreement_Owner :: string

definition decode_Agreement :: "(string \<times> json) list \<Rightarrow> pAgreement res" where
  "decode_Agreement obj =
     bindR (text_field ''id'' obj) (\<lambda>v0.
     bindR (text_field ''providerId'' obj) (\<lambda>v1.
     bindR (text_field ''allocationId'' obj) (\<lambda>v2.
     bindR (int_field ''capacity'' obj) (\<lambda>v3.
     bindR (int_field ''startBlock'' obj) (\<lambda>v4.
     bindR (int_field ''endBlock'' obj) (\<lambda>v5.
     bindR (text_field ''creator'' obj) (\<lambda>v6.
     bindR (text_field ''owner'' obj) (\<lambda>v7.
     Inr \<lparr>Agreement_ID = v0, Agreement_ProviderID = v1, Agreement_AllocationID = v2,
       Agreement_Capacity = v3, Agreement_StartBlock = v4, Agreement_EndBlock = v5,
       Agreement_Creator = v6, Agreement_Owner = v7\<rparr>))))))))"

record pAllocation =
  Allocation_ID :: string
  Allocation_Type :: string
  Allocation_SourceObjectID :: string
  Allocation_Index :: int
  Allocation_DestinationID :: string
  Allocation_Creator :: string
  Allocation_Controller :: string

definition decode_Allocation :: "(string \<times> json) list \<Rightarrow> pAllocation res" where
  "decode_Allocation obj =
     bindR (text_field ''id'' obj) (\<lambda>v0.
     bindR (text_field ''type'' obj) (\<lambda>v1.
     bindR (text_field ''sourceObjectId'' obj) (\<lambda>v2.
     bindR (int_field ''index'' obj) (\<lambda>v3.
     bindR (text_field ''destinationId'' obj) (\<lambda>v4.
     bindR (text_field ''creator'' obj) (\<lambda>v5.
     bindR (text_field ''controller'' obj) (\<lambda>v6.
     Inr \<lparr>Allocation_ID = v0, Allocation_Type = v1, Allocation_SourceObjectID = v2,
       Allocation_Index = v3, Allocation_DestinationID = v4, Allocation_Creator = v5,
       Allocation_Controller = v6\<rparr>)))))))"

record pAlphaRefine =
  AlphaRefine_PrimaryAddress :: string
  AlphaRefine_Amount :: "64 word"
  AlphaRefine_VaultAddress :: string

definition decode_AlphaRefine :: "(string \<times> json) list \<Rightarrow> pAlphaRefine res" where
  "decode_AlphaRefine obj =
     bindR (text_field ''primaryAddress'' obj) (\<lambda>v0.
     bindR (uint_field ''amount'' obj) (\<lambda>v1.
     bindR (text_field ''vaultAddress'' obj) (\<lambda>v2.
     Inr \<lparr>AlphaRefine_PrimaryAddress = v0, AlphaRefine_Amount = v1, AlphaRefine_VaultAddress = v2\<rparr>)))"

record pAttack =
  Attack_AttackerStructID :: string

definition decode_Attack :: "(string \<times> json) list \<Rightarrow> pAttack res" where
  "decode_Attack obj =
     bindR (text_field ''attackerStructId'' obj) (\<lambda>v0.
     Inr \<lparr>Attack_AttackerStructID = v0\<rparr>)"

record pGrid =
  Grid_AttributeID :: string
  Grid_Value :: string

definition decode_Grid :: "(string \<times> json) list \<Rightarrow> pGrid res" where
  "decode_Grid obj =
     bindR (text_field ''attributeId'' obj) (\<lambda>v0.
     bindR (text_field ''value'' obj) (\<lambda>v1.
     Inr \<lparr>Grid_AttributeID = v0, Grid_Value = v1\<rparr>))"

record pStructAttribute =
  StructAttribute_AttributeID :: string
  StructAttribute_Value :: string

definition decode_StructAttribute :: "(string \<times> json) list \<Rightarrow> pStructAttribute res" where
  "decode_StructAttribute obj =
     bindR (text_field ''attributeId'' obj) (\<lambda>v0.
     bindR (text_field ''value'' obj) (\<lambda>v1.
     Inr \<lparr>StructAttribute_AttributeID = v0, StructAttribute_Value = v1\<rparr>))"

record pPlanetAttribute =
  PlanetAttribute_AttributeID :: string
  PlanetAttribute_Value :: string

definition decode_PlanetAttribute :: "(string \<times> json) list \<Rightarrow> pPlanetAttribute res" where
  "decode_PlanetAttribute obj =
     bindR (text_field ''attributeId'' obj) (\<lambda>v0.
     bindR (text_field ''value'' obj) (\<lambda>v1.
     Inr \<lparr>PlanetAttribute_AttributeID = v0, PlanetAttribute_Value = v1\<rparr>))"

record pDelete =
  Delete_ObjectID :: string

definition decode_Delete :: "(string \<times> json) list \<Rightarrow> pDelete res" where
  "decode_Delete obj =
     bindR (text_field ''objectId'' obj) (\<lambda>v0.
     Inr \<lparr>Delete_ObjectID = v0\<rparr>)"

record pVaultAddress =
  VaultAddress_OwnerID :: string
  VaultAddress_VaultAddress :: string
  VaultAddress_AccountNumber :: "64 word"
  VaultAddress_AccountCreated :: bool

definition decode_VaultAddress :: "(string \<times> json) list \<Rightarrow> pVaultAddress res" where
  "decode_VaultAddress obj =
     bindR (text_field ''ownerId'' obj) (\<lambda>v0.
     bindR (text_field ''vaultAddress'' obj) (\<lambda>v1.
     bindR (uint_field ''accountNumber'' obj) (\<lambda>v2.
     bindR (bool_field ''accountCreated'' obj) (\<lambda>v3.
     Inr \<lparr>VaultAddress_OwnerID = v0, VaultAddress_VaultAddress = v1, VaultAddress_AccountNumber = v2,
       VaultAddress_AccountCreated = v3\<rparr>))))"

record pOwnerReactorDiversity =
  OwnerReactorDiversity_OwnerID :: string
  OwnerReactorDiversity_Power :: string
  OwnerReactorDiversity_SquaredPower :: string
  OwnerReactorDiversity_AppliedBonus :: "64 word"

definition decode_OwnerReactorDiversity :: "(string \<times> json) list \<Rightarrow> pOwnerReactorDiversity res" where
  "decode_OwnerReactorDiversity obj =
     bindR (text_field ''ownerId'' obj) (\<lambda>v0.
     bindR (natural_field ''power'' obj) (\<lambda>v1.
     bindR (natural_field ''squaredPower'' obj) (\<lambda>v2.
     bindR (uint_field ''appliedBonus'' obj) (\<lambda>v3.
     Inr \<lparr>OwnerReactorDiversity_OwnerID = v0, OwnerReactorDiversity_Power = v1, OwnerReactorDiversity_SquaredPower = v2,
       OwnerReactorDiversity_AppliedBonus = v3\<rparr>))))"

record pReactorCommissionRevision =
  ReactorCommissionRevision_ReactorID :: string
  ReactorCommissionRevision_SlashRevision :: "64 word"
  ReactorCommissionRevision_ReconciledSlashRevision :: "64 word"

definition decode_ReactorCommissionRevision :: "(string \<times> json) list \<Rightarrow> pReactorCommissionRevision res" where
  "decode_ReactorCommissionRevision obj =
     bindR (text_field ''reactorId'' obj) (\<lambda>v0.
     bindR (uint_field ''slashRevision'' obj) (\<lambda>v1.
     bindR (uint_field ''reconciledSlashRevision'' obj) (\<lambda>v2.
     Inr \<lparr>ReactorCommissionRevision_ReactorID = v0, ReactorCommissionRevision_SlashRevision = v1, ReactorCommissionRevision_ReconciledSlashRevision = v2\<rparr>)))"

record pReactorStakeCap =
  ReactorStakeCap_Active :: bool
  ReactorStakeCap_CapBps :: "64 word"
  ReactorStakeCap_MinValidators :: "64 word"

definition decode_ReactorStakeCap :: "(string \<times> json) list \<Rightarrow> pReactorStakeCap res" where
  "decode_ReactorStakeCap obj =
     bindR (bool_field ''active'' obj) (\<lambda>v0.
     bindR (uint_field ''capBps'' obj) (\<lambda>v1.
     bindR (uint_field ''minValidators'' obj) (\<lambda>v2.
     Inr \<lparr>ReactorStakeCap_Active = v0, ReactorStakeCap_CapBps = v1, ReactorStakeCap_MinValidators = v2\<rparr>)))"

record pGuildRankPurchase =
  GuildRankPurchase_GuildID :: string
  GuildRankPurchase_PlayerID :: string
  GuildRankPurchase_PreviousRank :: "64 word"
  GuildRankPurchase_Rank :: "64 word"
  GuildRankPurchase_Price :: "64 word"
  GuildRankPurchase_Denom :: string
  GuildRankPurchase_Joined :: bool

definition decode_GuildRankPurchase :: "(string \<times> json) list \<Rightarrow> pGuildRankPurchase res" where
  "decode_GuildRankPurchase obj =
     bindR (text_field ''guildId'' obj) (\<lambda>v0.
     bindR (text_field ''playerId'' obj) (\<lambda>v1.
     bindR (uint_field ''previousRank'' obj) (\<lambda>v2.
     bindR (uint_field ''rank'' obj) (\<lambda>v3.
     bindR (uint_field ''price'' obj) (\<lambda>v4.
     bindR (text_field ''denom'' obj) (\<lambda>v5.
     bindR (bool_field ''joined'' obj) (\<lambda>v6.
     Inr \<lparr>GuildRankPurchase_GuildID = v0, GuildRankPurchase_PlayerID = v1, GuildRankPurchase_PreviousRank = v2,
       GuildRankPurchase_Rank = v3, GuildRankPurchase_Price = v4, GuildRankPurchase_Denom = v5,
       GuildRankPurchase_Joined = v6\<rparr>)))))))"

record pFleet =
  Fleet_ID :: string
  Fleet_Owner :: string
  Fleet_Space :: string
  Fleet_Air :: string
  Fleet_Land :: string
  Fleet_Water :: string
  Fleet_SpaceSlots :: int
  Fleet_AirSlots :: int
  Fleet_LandSlots :: int
  Fleet_WaterSlots :: int
  Fleet_LocationType :: string
  Fleet_LocationID :: string
  Fleet_Status :: string
  Fleet_LocationListForward :: string
  Fleet_LocationListBackward :: string
  Fleet_CommandStruct :: string

definition decode_Fleet :: "(string \<times> json) list \<Rightarrow> pFleet res" where
  "decode_Fleet obj =
     bindR (text_field ''id'' obj) (\<lambda>v0.
     bindR (text_field ''owner'' obj) (\<lambda>v1.
     bindR (raw_field ''space'' obj) (\<lambda>v2.
     bindR (raw_field ''air'' obj) (\<lambda>v3.
     bindR (raw_field ''land'' obj) (\<lambda>v4.
     bindR (raw_field ''water'' obj) (\<lambda>v5.
     bindR (int_field ''spaceSlots'' obj) (\<lambda>v6.
     bindR (int_field ''airSlots'' obj) (\<lambda>v7.
     bindR (int_field ''landSlots'' obj) (\<lambda>v8.
     bindR (int_field ''waterSlots'' obj) (\<lambda>v9.
     bindR (text_field ''locationType'' obj) (\<lambda>v10.
     bindR (text_field ''locationId'' obj) (\<lambda>v11.
     bindR (text_field ''status'' obj) (\<lambda>v12.
     bindR (text_field ''locationListForward'' obj) (\<lambda>v13.
     bindR (text_field ''locationListBackward'' obj) (\<lambda>v14.
     bindR (text_field ''commandStruct'' obj) (\<lambda>v15.
     Inr \<lparr>Fleet_ID = v0, Fleet_Owner = v1, Fleet_Space = v2,
       Fleet_Air = v3, Fleet_Land = v4, Fleet_Water = v5,
       Fleet_SpaceSlots = v6, Fleet_AirSlots = v7, Fleet_LandSlots = v8,
       Fleet_WaterSlots = v9, Fleet_LocationType = v10, Fleet_LocationID = v11,
       Fleet_Status = v12, Fleet_LocationListForward = v13, Fleet_LocationListBackward = v14,
       Fleet_CommandStruct = v15\<rparr>))))))))))))))))"

record pGuild =
  Guild_ID :: string
  Guild_Index :: int
  Guild_Endpoint :: string
  Guild_JoinInfusionMinimum :: "64 word"
  Guild_JoinInfusionMinimumBypassByRequest :: string
  Guild_JoinInfusionMinimumBypassByInvite :: string
  Guild_PrimaryReactorID :: string
  Guild_EntrySubstationID :: string
  Guild_EntryRank :: "64 word"
  Guild_Creator :: string
  Guild_Owner :: string
  Guild_Name :: string
  Guild_PFP :: string
  Guild_BankConvertInFee :: string
  Guild_BankConvertOutFee :: string
  Guild_CharterSolverID :: string
  Guild_RankPurchaseBasePrice :: "64 word"
  Guild_RankPurchaseStepIncrease :: "64 word"
  Guild_RankPurchaseMinimumRank :: "64 word"
  Guild_JoinByRankPurchaseEnabled :: bool

definition decode_Guild :: "(string \<times> json) list \<Rightarrow> pGuild res" where
  "decode_Guild obj =
     bindR (text_field ''id'' obj) (\<lambda>v0.
     bindR (int_field ''index'' obj) (\<lambda>v1.
     bindR (text_field ''endpoint'' obj) (\<lambda>v2.
     bindR (uint_field ''joinInfusionMinimum'' obj) (\<lambda>v3.
     bindR (text_field ''joinInfusionMinimumBypassByRequest'' obj) (\<lambda>v4.
     bindR (text_field ''joinInfusionMinimumBypassByInvite'' obj) (\<lambda>v5.
     bindR (text_field ''primaryReactorId'' obj) (\<lambda>v6.
     bindR (text_field ''entrySubstationId'' obj) (\<lambda>v7.
     bindR (uint_field ''entryRank'' obj) (\<lambda>v8.
     bindR (text_field ''creator'' obj) (\<lambda>v9.
     bindR (text_field ''owner'' obj) (\<lambda>v10.
     bindR (text_field ''name'' obj) (\<lambda>v11.
     bindR (text_field ''pfp'' obj) (\<lambda>v12.
     bindR (numeric_field ''bankConvertInFee'' obj) (\<lambda>v13.
     bindR (numeric_field ''bankConvertOutFee'' obj) (\<lambda>v14.
     bindR (text_field ''charterSolverId'' obj) (\<lambda>v15.
     bindR (uint_field ''rankPurchaseBasePrice'' obj) (\<lambda>v16.
     bindR (uint_field ''rankPurchaseStepIncrease'' obj) (\<lambda>v17.
     bindR (uint_field ''rankPurchaseMinimumRank'' obj) (\<lambda>v18.
     bindR (bool_field ''joinByRankPurchaseEnabled'' obj) (\<lambda>v19.
     Inr \<lparr>Guild_ID = v0, Guild_Index = v1, Guild_Endpoint = v2,
       Guild_JoinInfusionMinimum = v3, Guild_JoinInfusionMinimumBypassByRequest = v4, Guild_JoinInfusionMinimumBypassByInvite = v5,
       Guild_PrimaryReactorID = v6, Guild_EntrySubstationID = v7, Guild_EntryRank = v8,
       Guild_Creator = v9, Guild_Owner = v10, Guild_Name = v11,
       Guild_PFP = v12, Guild_BankConvertInFee = v13, Guild_BankConvertOutFee = v14,
       Guild_CharterSolverID = v15, Guild_RankPurchaseBasePrice = v16, Guild_RankPurchaseStepIncrease = v17,
       Guild_RankPurchaseMinimumRank = v18, Guild_JoinByRankPurchaseEnabled = v19\<rparr>))))))))))))))))))))"

record pGuildBankAddress =
  GuildBankAddress_BankCollateralPool :: string
  GuildBankAddress_GuildID :: string

definition decode_GuildBankAddress :: "(string \<times> json) list \<Rightarrow> pGuildBankAddress res" where
  "decode_GuildBankAddress obj =
     bindR (text_field ''bankCollateralPool'' obj) (\<lambda>v0.
     bindR (text_field ''guildId'' obj) (\<lambda>v1.
     Inr \<lparr>GuildBankAddress_BankCollateralPool = v0, GuildBankAddress_GuildID = v1\<rparr>))"

record pGuildMembershipApplication =
  GuildMembershipApplication_GuildID :: string
  GuildMembershipApplication_PlayerID :: string
  GuildMembershipApplication_JoinType :: string
  GuildMembershipApplication_RegistrationStatus :: string
  GuildMembershipApplication_Proposer :: string
  GuildMembershipApplication_SubstationID :: string

definition decode_GuildMembershipApplication :: "(string \<times> json) list \<Rightarrow> pGuildMembershipApplication res" where
  "decode_GuildMembershipApplication obj =
     bindR (text_field ''guildId'' obj) (\<lambda>v0.
     bindR (text_field ''playerId'' obj) (\<lambda>v1.
     bindR (text_field ''joinType'' obj) (\<lambda>v2.
     bindR (text_field ''registrationStatus'' obj) (\<lambda>v3.
     bindR (text_field ''proposer'' obj) (\<lambda>v4.
     bindR (text_field ''substationId'' obj) (\<lambda>v5.
     Inr \<lparr>GuildMembershipApplication_GuildID = v0, GuildMembershipApplication_PlayerID = v1, GuildMembershipApplication_JoinType = v2,
       GuildMembershipApplication_RegistrationStatus = v3, GuildMembershipApplication_Proposer = v4, GuildMembershipApplication_SubstationID = v5\<rparr>))))))"

record pGuildRankPermission =
  GuildRankPermission_ObjectID :: string
  GuildRankPermission_GuildID :: string
  GuildRankPermission_Permissions :: int
  GuildRankPermission_Rank :: "64 word"

definition decode_GuildRankPermission :: "(string \<times> json) list \<Rightarrow> pGuildRankPermission res" where
  "decode_GuildRankPermission obj =
     bindR (text_field ''objectId'' obj) (\<lambda>v0.
     bindR (text_field ''guildId'' obj) (\<lambda>v1.
     bindR (int_field ''permissions'' obj) (\<lambda>v2.
     bindR (uint_field ''rank'' obj) (\<lambda>v3.
     Inr \<lparr>GuildRankPermission_ObjectID = v0, GuildRankPermission_GuildID = v1, GuildRankPermission_Permissions = v2,
       GuildRankPermission_Rank = v3\<rparr>))))"

record pInfusion =
  Infusion_DestinationID :: string
  Infusion_Address :: string
  Infusion_DestinationType :: string
  Infusion_PlayerID :: string
  Infusion_Fuel :: "64 word"
  Infusion_Defusing :: "64 word"
  Infusion_Power :: "64 word"
  Infusion_Ratio :: "64 word"
  Infusion_Commission :: string
  Infusion_OwnerID :: string
  Infusion_GeneratorDisabled :: bool

definition decode_Infusion :: "(string \<times> json) list \<Rightarrow> pInfusion res" where
  "decode_Infusion obj =
     bindR (text_field ''destinationId'' obj) (\<lambda>v0.
     bindR (text_field ''address'' obj) (\<lambda>v1.
     bindR (text_field ''destinationType'' obj) (\<lambda>v2.
     bindR (text_field ''playerId'' obj) (\<lambda>v3.
     bindR (uint_field ''fuel'' obj) (\<lambda>v4.
     bindR (uint_field ''defusing'' obj) (\<lambda>v5.
     bindR (uint_field ''power'' obj) (\<lambda>v6.
     bindR (uint_field ''ratio'' obj) (\<lambda>v7.
     bindR (numeric_field ''commission'' obj) (\<lambda>v8.
     bindR (text_field ''ownerId'' obj) (\<lambda>v9.
     bindR (bool_field ''generatorDisabled'' obj) (\<lambda>v10.
     Inr \<lparr>Infusion_DestinationID = v0, Infusion_Address = v1, Infusion_DestinationType = v2,
       Infusion_PlayerID = v3, Infusion_Fuel = v4, Infusion_Defusing = v5,
       Infusion_Power = v6, Infusion_Ratio = v7, Infusion_Commission = v8,
       Infusion_OwnerID = v9, Infusion_GeneratorDisabled = v10\<rparr>)))))))))))"

record pOreMigrate =
  OreMigrate_PrimaryAddress :: string
  OreMigrate_OldPrimaryAddress :: string
  OreMigrate_Amount :: string

definition decode_OreMigrate :: "(string \<times> json) list \<Rightarrow> pOreMigrate res" where
  "decode_OreMigrate obj =
     bindR (text_field ''primaryAddress'' obj) (\<lambda>v0.
     bindR (text_field ''oldPrimaryAddress'' obj) (\<lambda>v1.
     bindR (numeric_field ''amount'' obj) (\<lambda>v2.
     Inr \<lparr>OreMigrate_PrimaryAddress = v0, OreMigrate_OldPrimaryAddress = v1, OreMigrate_Amount = v2\<rparr>)))"

record pOreMine =
  OreMine_PrimaryAddress :: string
  OreMine_Amount :: string

definition decode_OreMine :: "(string \<times> json) list \<Rightarrow> pOreMine res" where
  "decode_OreMine obj =
     bindR (text_field ''primaryAddress'' obj) (\<lambda>v0.
     bindR (numeric_field ''amount'' obj) (\<lambda>v1.
     Inr \<lparr>OreMine_PrimaryAddress = v0, OreMine_Amount = v1\<rparr>))"

record pOreTheft =
  OreTheft_ThiefPrimaryAddress :: string
  OreTheft_VictimPrimaryAddress :: string
  OreTheft_Amount :: string

definition decode_OreTheft :: "(string \<times> json) list \<Rightarrow> pOreTheft res" where
  "decode_OreTheft obj =
     bindR (text_field ''thiefPrimaryAddress'' obj) (\<lambda>v0.
     bindR (text_field ''victimPrimaryAddress'' obj) (\<lambda>v1.
     bindR (numeric_field ''amount'' obj) (\<lambda>v2.
     Inr \<lparr>OreTheft_ThiefPrimaryAddress = v0, OreTheft_VictimPrimaryAddress = v1, OreTheft_Amount = v2\<rparr>)))"

record pPermission =
  Permission_PermissionID :: string
  Permission_Value :: string

definition decode_Permission :: "(string \<times> json) list \<Rightarrow> pPermission res" where
  "decode_Permission obj =
     bindR (text_field ''permissionId'' obj) (\<lambda>v0.
     bindR (text_field ''value'' obj) (\<lambda>v1.
     Inr \<lparr>Permission_PermissionID = v0, Permission_Value = v1\<rparr>))"

record pPlanet =
  Planet_ID :: string
  Planet_MaxOre :: int
  Planet_Creator :: string
  Planet_Owner :: string
  Planet_Space :: string
  Planet_Air :: string
  Planet_Land :: string
  Planet_Water :: string
  Planet_SpaceSlots :: int
  Planet_AirSlots :: int
  Planet_LandSlots :: int
  Planet_WaterSlots :: int
  Planet_Status :: string
  Planet_LocationListStart :: string
  Planet_LocationListEnd :: string
  Planet_Name :: string

definition decode_Planet :: "(string \<times> json) list \<Rightarrow> pPlanet res" where
  "decode_Planet obj =
     bindR (text_field ''id'' obj) (\<lambda>v0.
     bindR (int_field ''maxOre'' obj) (\<lambda>v1.
     bindR (text_field ''creator'' obj) (\<lambda>v2.
     bindR (text_field ''owner'' obj) (\<lambda>v3.
     bindR (raw_field ''space'' obj) (\<lambda>v4.
     bindR (raw_field ''air'' obj) (\<lambda>v5.
     bindR (raw_field ''land'' obj) (\<lambda>v6.
     bindR (raw_field ''water'' obj) (\<lambda>v7.
     bindR (int_field ''spaceSlots'' obj) (\<lambda>v8.
     bindR (int_field ''airSlots'' obj) (\<lambda>v9.
     bindR (int_field ''landSlots'' obj) (\<lambda>v10.
     bindR (int_field ''waterSlots'' obj) (\<lambda>v11.
     bindR (text_field ''status'' obj) (\<lambda>v12.
     bindR (text_field ''locationListStart'' obj) (\<lambda>v13.
     bindR (text_field ''locationListEnd'' obj) (\<lambda>v14.
     bindR (text_field ''name'' obj) (\<lambda>v15.
     Inr \<lparr>Planet_ID = v0, Planet_MaxOre = v1, Planet_Creator = v2,
       Planet_Owner = v3, Planet_Space = v4, Planet_Air = v5,
       Planet_Land = v6, Planet_Water = v7, Planet_SpaceSlots = v8,
       Planet_AirSlots = v9, Planet_LandSlots = v10, Planet_WaterSlots = v11,
       Planet_Status = v12, Planet_LocationListStart = v13, Planet_LocationListEnd = v14,
       Planet_Name = v15\<rparr>))))))))))))))))"

record pPlayer =
  Player_ID :: string
  Player_Index :: int
  Player_Creator :: string
  Player_PrimaryAddress :: string
  Player_GuildID :: string
  Player_SubstationID :: string
  Player_PlanetID :: string
  Player_FleetID :: string
  Player_GuildRank :: "64 word"
  Player_Name :: string
  Player_PFP :: string
  Player_PFPClientRenderAttributes :: string

definition decode_Player :: "(string \<times> json) list \<Rightarrow> pPlayer res" where
  "decode_Player obj =
     bindR (text_field ''id'' obj) (\<lambda>v0.
     bindR (int_field ''index'' obj) (\<lambda>v1.
     bindR (text_field ''creator'' obj) (\<lambda>v2.
     bindR (text_field ''primaryAddress'' obj) (\<lambda>v3.
     bindR (text_field ''guildId'' obj) (\<lambda>v4.
     bindR (text_field ''substationId'' obj) (\<lambda>v5.
     bindR (text_field ''planetId'' obj) (\<lambda>v6.
     bindR (text_field ''fleetId'' obj) (\<lambda>v7.
     bindR (uint_field ''guildRank'' obj) (\<lambda>v8.
     bindR (text_field ''name'' obj) (\<lambda>v9.
     bindR (text_field ''pfp'' obj) (\<lambda>v10.
     bindR (text_field ''pfpClientRenderAttributes'' obj) (\<lambda>v11.
     Inr \<lparr>Player_ID = v0, Player_Index = v1, Player_Creator = v2,
       Player_PrimaryAddress = v3, Player_GuildID = v4, Player_SubstationID = v5,
       Player_PlanetID = v6, Player_FleetID = v7, Player_GuildRank = v8,
       Player_Name = v9, Player_PFP = v10, Player_PFPClientRenderAttributes = v11\<rparr>))))))))))))"

record pProviderRate =
  ProviderRate_Amount :: string
  ProviderRate_Denom :: string

definition Rate :: "pProviderRate decoder" where
  "Rate v old =
     (case v of
        JObj kvs \<Rightarrow>
          bindR (field ''amount'' Numeric (ProviderRate_Amount old) kvs) (\<lambda>a.
          bindR (field ''denom'' Text (ProviderRate_Denom old) kvs) (\<lambda>d.
          Inr \<lparr>ProviderRate_Amount = a, ProviderRate_Denom = d\<rparr>))
      | JNull \<Rightarrow> Inr old
      | _ \<Rightarrow> Inl (errorf ''cannot unmarshal into payload.ProviderRate''))"

definition rate_field :: "string \<Rightarrow> (string \<times> json) list \<Rightarrow> pProviderRate res" where
  "rate_field name obj =
     field name Rate \<lparr>ProviderRate_Amount = [], ProviderRate_Denom = []\<rparr> obj"

record pProvider =
  Provider_ID :: string
  Provider_Index :: int
  Provider_SubstationID :: string
  Provider_Rate :: pProviderRate
  Provider_AccessPolicy :: string
  Provider_CapacityMinimum :: string
  Provider_CapacityMaximum :: string
  Provider_DurationMinimum :: string
  Provider_DurationMaximum :: string
  Provider_ProviderCancellationPenalty :: string
  Provider_ConsumerCancellationPenalty :: string
  Provider_Creator :: string
  Provider_Owner :: string

definition decode_Provider :: "(string \<times> json) list \<Rightarrow> pProvider res" where
  "decode_Provider obj =
     bindR (text_field ''id'' obj) (\<lambda>v0.
     bindR (int_field ''index'' obj) (\<lambda>v1.
     bindR (text_field ''substationId'' obj) (\<lambda>v2.
     bindR (rate_field ''rate'' obj) (\<lambda>v3.
     bindR (text_field ''accessPolicy'' obj) (\<lambda>v4.
     bindR (numeric_field ''capacityMinimum'' obj) (\<lambda>v5.
     bindR (numeric_field ''capacityMaximum'' obj) (\<lambda>v6.
     bindR (numeric_field ''durationMinimum'' obj) (\<lambda>v7.
     bindR (numeric_field ''durationMaximum'' obj) (\<lambda>v8.
     bindR (numeric_field ''providerCancellationPenalty'' obj) (\<lambda>v9.
     bindR (numeric_field ''consumerCancellationPenalty'' obj) (\<lambda>v10.
     bindR (text_field ''creator'' obj) (\<lambda>v11.
     bindR (text_field ''owner'' obj) (\<lambda>v12.
     Inr \<lparr>Provider_ID = v0, Provider_Index = v1, Provider_SubstationID = v2,
       Provider_Rate = v3, Provider_AccessPolicy = v4, Provider_CapacityMinimum = v5,
       Provider_CapacityMaximum = v6, Provider_DurationMinimum = v7, Provider_DurationMaximum = v8,
       Provider_ProviderCancellationPenalty = v9, Provider_ConsumerCancellationPenalty = v10, Provider_Creator = v11,
       Provider_Owner = v12\<rparr>)))))))))))))"

record pProviderAddress =
  ProviderAddress_CollateralPool :: string
  ProviderAddress_ProviderID :: string
  ProviderAddress_EarningPool :: string

definition decode_ProviderAddress :: "(string \<times> json) list \<Rightarrow> pProviderAddress res" where
  "decode_ProviderAddress obj =
     bindR (text_field ''collateralPool'' obj) (\<lambda>v0.
     bindR (text_field ''providerId'' obj) (\<lambda>v1.
     bindR (text_field ''earningPool'' obj) (\<lambda>v2.
     Inr \<lparr>ProviderAddress_CollateralPool = v0, ProviderAddress_ProviderID = v1, ProviderAddress_EarningPool = v2\<rparr>)))"

record pRaid =
  Raid_FleetID :: string
  Raid_PlanetID :: string
  Raid_Status :: string
  Raid_SeizedOre :: string

definition decode_Raid :: "(string \<times> json) list \<Rightarrow> pRaid res" where
  "decode_Raid obj =
     bindR (text_field ''fleetId'' obj) (\<lambda>v0.
     bindR (text_field ''planetId'' obj) (\<lambda>v1.
     bindR (text_field ''status'' obj) (\<lambda>v2.
     bindR (numeric_field ''seized_ore'' obj) (\<lambda>v3.
     Inr \<lparr>Raid_FleetID = v0, Raid_PlanetID = v1, Raid_Status = v2,
       Raid_SeizedOre = v3\<rparr>))))"

record pReactor =
  Reactor_ID :: string
  Reactor_Validator :: string
  Reactor_GuildID :: string
  Reactor_DefaultCommission :: string
  Reactor_Owner :: string

definition decode_Reactor :: "(string \<times> json) list \<Rightarrow> pReactor res" where
  "decode_Reactor obj =
     bindR (text_field ''id'' obj) (\<lambda>v0.
     bindR (text_field ''validator'' obj) (\<lambda>v1.
     bindR (text_field ''guildId'' obj) (\<lambda>v2.
     bindR (numeric_field ''defaultCommission'' obj) (\<lambda>v3.
     bindR (text_field ''owner'' obj) (\<lambda>v4.
     Inr \<lparr>Reactor_ID = v0, Reactor_Validator = v1, Reactor_GuildID = v2,
       Reactor_DefaultCommission = v3, Reactor_Owner = v4\<rparr>)))))"

record pStruct =
  Struct_ID :: string
  Struct_Index :: int
  Struct_Type :: int
  Struct_Creator :: string
  Struct_Owner :: string
  Struct_LocationType :: string
  Struct_LocationID :: string
  Struct_OperatingAmbit :: string
  Struct_Slot :: int

definition decode_Struct :: "(string \<times> json) list \<Rightarrow> pStruct res" where
  "decode_Struct obj =
     bindR (text_field ''id'' obj) (\<lambda>v0.
     bindR (int_field ''index'' obj) (\<lambda>v1.
     bindR (int_field ''type'' obj) (\<lambda>v2.
     bindR (text_field ''creator'' obj) (\<lambda>v3.
     bindR (text_field ''owner'' obj) (\<lambda>v4.
     bindR (text_field ''locationType'' obj) (\<lambda>v5.
     bindR (text_field ''locationId'' obj) (\<lambda>v6.
     bindR (text_field ''operatingAmbit'' obj) (\<lambda>v7.
     bindR (int_field ''slot'' obj) (\<lambda>v8.
     Inr \<lparr>Struct_ID = v0, Struct_Index = v1, Struct_Type = v2,
       Struct_Creator = v3, Struct_Owner = v4, Struct_LocationType = v5,
       Struct_LocationID = v6, Struct_OperatingAmbit = v7, Struct_Slot = v8\<rparr>)))))))))"

record pStructDefender =
  StructDefender_DefendingStructID :: string
  StructDefender_ProtectedStructID :: string

definition decode_StructDefender :: "(string \<times> json) list \<Rightarrow> pStructDefender res" where
  "decode_StructDefender obj =
     bindR (text_field ''defendingStructId'' obj) (\<lambda>v0.
     bindR (text_field ''protectedStructId'' obj) (\<lambda>v1.
     Inr \<lparr>StructDefender_DefendingStructID = v0, StructDefender_ProtectedStructID = v1\<rparr>))"

record pStructDefenderClear =
  StructDefenderClear_DefendingStructID :: string

definition decode_StructDefenderClear :: "(string \<times> json) list \<Rightarrow> pStructDefenderClear res" where
  "decode_StructDefenderClear obj =
     bindR (text_field ''defendingStructId'' obj) (\<lambda>v0.
     Inr \<lparr>StructDefenderClear_DefendingStructID = v0\<rparr>)"

record pSubstation =
  Substation_ID :: string
  Substation_Owner :: string
  Substation_Creator :: string
  Substation_Name :: string
  Substation_PFP :: string
  Substation_DeletionPending :: bool
  Substation_DeletionMigrationSubstationID :: string

definition decode_Substation :: "(string \<times> json) list \<Rightarrow> pSubstation res" where
  "decode_Substation obj =
     bindR (text_field ''id'' obj) (\<lambda>v0.
     bindR (text_field ''owner'' obj) (\<lambda>v1.
     bindR (text_field ''creator'' obj) (\<lambda>v2.
     bindR (text_field ''name'' obj) (\<lambda>v3.
     bindR (text_field ''pfp'' obj) (\<lambda>v4.
     bindR (bool_field ''deletion_pending'' obj) (\<lambda>v5.
     bindR (text_field ''deletion_migration_substation_id'' obj) (\<lambda>v6.
     Inr \<lparr>Substation_ID = v0, Substation_Owner = v1, Substation_Creator = v2,
       Substation_Name = v3, Substation_PFP = v4, Substation_DeletionPending = v5,
       Substation_DeletionMigrationSubstationID = v6\<rparr>)))))))"

record pTime =
  Time_BlockHeight :: int
  Time_BlockTime :: int

definition decode_Time :: "(string \<times> json) list \<Rightarrow> pTime res" where
  "decode_Time obj =
     bindR (int_field ''blockHeight'' obj) (\<lambda>v0.
     bindR (time_field ''blockTime'' obj) (\<lambda>v1.
     Inr \<lparr>Time_BlockHeight = v0, Time_BlockTime = v1\<rparr>))"

text \<open>\<open>Infusion.AssetOwnerID\<close>: the v0.22 owner identity, the player before it.\<close>

definition AssetOwnerID :: "pInfusion \<Rightarrow> string" where
  "AssetOwnerID p =
     (if Infusion_OwnerID p \<noteq> [] then Infusion_OwnerID p else Infusion_PlayerID p)"

end
