(* ===== verification/Bank.thy ===== *)
theory Bank
  imports Bank_Coins Buffers Payload_Types
begin

text \<open>
  \<open>internal/bank/correlation.go\<close>, \<open>process.go\<close> and \<open>events.go\<close>: the
  expansion of the ten bank and staking event types into ledger and defusion rows, and the
  correlation of an event with its siblings in the same phase and message.  (\<open>native.go\<close>, which
  accounts and validators a block touched, is in \<open>Native\<close>.)

  A handler of the code is an operation on the buffer: \<open>pushLedger\<close> appends a row at a
  leg of the event.  A coordinate scope is \<open>(phase, tx, msg)\<close>; the groups the code builds
  in a map are \<open>scope_group\<close>, the sub-list of the ordered stream with that scope.
\<close>

section \<open>Correlation\<close>

definition decode_receipt :: "string \<Rightarrow> pAlphaRefine res" where
  "decode_receipt raw =
     DecodeRequired raw decode_AlphaRefine [''primaryAddress'', ''amount'']"

definition receipt_address :: "pAlphaRefine \<Rightarrow> string" where
  "receipt_address p =
     (if AlphaRefine_VaultAddress p = [] then AlphaRefine_PrimaryAddress p
      else AlphaRefine_VaultAddress p)"

definition micro_amount :: "64 word \<Rightarrow> string" where
  "micro_amount w = dec_nat (unat w * 1000000)"

text \<open>Does the group hold an event of this type, with this actor, moving this coin?\<close>

definition coin_match ::
  "string \<Rightarrow> string \<Rightarrow> string \<Rightarrow> string \<Rightarrow> string \<Rightarrow> bool \<Rightarrow> event \<Rightarrow> bool res" where
  "coin_match ty key actor a d found ev =
     (if ev_type ev \<noteq> ty \<or> findAttr ev key \<noteq> actor then Inr found
      else bindR (containsCoin ev a d) (\<lambda>m. Inr (found \<or> m)))"

definition overlap_refine ::
  "event list \<Rightarrow> string \<Rightarrow> string \<Rightarrow> string \<Rightarrow> string \<Rightarrow> bool \<times> bool \<Rightarrow> event \<Rightarrow> (bool \<times> bool) res" where
  "overlap_refine grp sender recipient a d skips receipt =
     bindR (decode_receipt (findAttr receipt ''eventAlphaRefineDetail'')) (\<lambda>p.
     if recipient = receipt_address p \<and> a = micro_amount (AlphaRefine_Amount p)
     then bindR (foldR (coin_match ''coinbase'' ''minter'' sender a d) (snd skips) grp) (\<lambda>r.
          Inr (fst skips, r))
     else Inr skips)"

definition overlap_infuse ::
  "event list \<Rightarrow> string \<Rightarrow> string \<Rightarrow> string \<Rightarrow> string \<Rightarrow> bool \<times> bool \<Rightarrow> event \<Rightarrow> (bool \<times> bool) res" where
  "overlap_infuse grp sender recipient a d skips receipt =
     bindR (decode_receipt (findAttr receipt ''eventAlphaInfuseDetail'')) (\<lambda>p.
     if sender \<noteq> receipt_address p \<or> a \<noteq> format_uint (AlphaRefine_Amount p) then Inr skips
     else bindR (foldR (coin_match ''burn'' ''burner'' recipient a d) (fst skips) grp) (\<lambda>s.
          Inr (s, snd skips)))"

definition overlap_step ::
  "event list \<Rightarrow> string \<Rightarrow> string \<Rightarrow> string \<Rightarrow> string \<Rightarrow> bool \<times> bool \<Rightarrow> event \<Rightarrow> (bool \<times> bool) res" where
  "overlap_step grp sender recipient a d skips receipt =
     (if ev_type receipt = ''structs.structs.EventAlphaRefine''
        then overlap_refine grp sender recipient a d skips receipt
      else if ev_type receipt = ''structs.structs.EventAlphaInfuse''
        then overlap_infuse grp sender recipient a d skips receipt
      else Inr skips)"

definition count_transfer ::
  "string \<Rightarrow> string \<Rightarrow> string \<Rightarrow> string \<Rightarrow> nat \<Rightarrow> event \<Rightarrow> nat res" where
  "count_transfer sender recipient a d n ev =
     (if ev_type ev \<noteq> ''transfer'' \<or> findAttr ev ''sender'' \<noteq> sender \<or>
         findAttr ev ''recipient'' \<noteq> recipient then Inr n
      else bindR (containsCoin ev a d) (\<lambda>m. Inr (if m then Suc n else n)))"

definition transferOverlap :: "event \<Rightarrow> event list \<Rightarrow> (bool \<times> bool) res" where
  "transferOverlap ev grp =
     (case findAmount ev of
        None \<Rightarrow> Inr (False, False)
      | Some (a, d) \<Rightarrow>
          if d \<noteq> ''ualpha'' then Inr (False, False)
          else (let sender = findAttr ev ''sender''; recipient = findAttr ev ''recipient'' in
            bindR (foldR (overlap_step grp sender recipient a d) (False, False) grp) (\<lambda>skips.
            if fst skips \<or> snd skips then
              bindR (foldR (count_transfer sender recipient a d) 0 grp) (\<lambda>matches.
              if matches \<noteq> 1 \<or> (fst skips \<and> snd skips)
              then Inl (errorf ''ambiguous overlapping transfer accounting'')
              else Inr skips)
            else Inr skips)))"

definition spender_step :: "string \<Rightarrow> string \<Rightarrow> string \<Rightarrow> event \<Rightarrow> string res" where
  "spender_step a d spender ev =
     (if ev_type ev \<noteq> ''coin_spent'' then Inr spender
      else bindR (containsCoin ev a d) (\<lambda>match.
        if \<not> match then Inr spender
        else (let candidate = findAttr ev ''spender'' in
          if candidate = [] \<or> (spender \<noteq> [] \<and> spender \<noteq> candidate)
          then Inl (errorf ''ambiguous validator self-delegation spender'')
          else Inr candidate)))"

definition validatorSpender :: "event list \<Rightarrow> string \<Rightarrow> string \<Rightarrow> string res" where
  "validatorSpender grp a d =
     bindR (foldR (spender_step a d) [] grp) (\<lambda>spender.
     if spender = [] then Inl (errorf ''validator self-delegation has no matching coin_spent'')
     else Inr spender)"

definition is_withdrawal :: "string \<Rightarrow> event \<Rightarrow> bool" where
  "is_withdrawal validator ev \<longleftrightarrow>
     ev_type ev = ''withdraw_rewards'' \<and> findAttr ev ''validator'' = validator"

text \<open>The loop \<open>for i := before-1; i >= 0; i--\<close>, on the reversed prefix.\<close>

fun owner_scan :: "string \<Rightarrow> event list \<Rightarrow> string \<Rightarrow> string res" where
  "owner_scan validator [] owner = Inr owner"
| "owner_scan validator (ev # evs) owner =
     (if ev_type ev = ''redelegate'' then Inr owner
      else if \<not> is_withdrawal validator ev then owner_scan validator evs owner
      else (let candidate = findAttr ev ''delegator'' in
        if candidate = [] \<or> (owner \<noteq> [] \<and> owner \<noteq> candidate)
        then Inl (errorf ''ambiguous redelegation owner'')
        else owner_scan validator evs candidate))"

definition redelegationOwner :: "event list \<Rightarrow> nat \<Rightarrow> string \<Rightarrow> string res" where
  "redelegationOwner grp before validator =
     (if length grp < before then Inl (errorf ''invalid redelegation coordinate'')
      else bindR (owner_scan validator (rev (take before grp)) []) (\<lambda>owner.
        if owner = [] then Inl (errorf ''redelegation has no preceding source reward owner'')
        else Inr owner))"

section \<open>Ledger rows\<close>

record eventIdent =
  id_chain :: string
  id_tx :: int
  id_event :: int
  id_correlation :: nat

definition pushLedger ::
  "eventIdent \<Rightarrow> int \<Rightarrow> string \<Rightarrow> string \<Rightarrow> string \<Rightarrow> int \<Rightarrow> int \<Rightarrow> string \<Rightarrow> string \<Rightarrow> string
     \<Rightarrow> (buffer, unit) op" where
  "pushLedger i leg address counterparty a h t action direction d =
     modifyO (\<lambda>b. b\<lparr>b_ledger := b_ledger b @
       [\<lparr>lr_address = address, lr_counterparty = counterparty, lr_amount = a, lr_height = h,
         lr_time = t, lr_action = action, lr_direction = direction, lr_denom = d,
         lr_chain = id_chain i, lr_tx = id_tx i, lr_msg = -1,
         lr_event = EncodeLedgerEventIndex (id_event i) leg\<rparr>]\<rparr>)"

definition pushLedgerNoCp ::
  "eventIdent \<Rightarrow> int \<Rightarrow> string \<Rightarrow> string \<Rightarrow> int \<Rightarrow> int \<Rightarrow> string \<Rightarrow> string \<Rightarrow> string
     \<Rightarrow> (buffer, unit) op" where
  "pushLedgerNoCp i leg address a h t action direction d =
     pushLedger i leg address [] a h t action direction d"

definition parseChainTime :: "string \<Rightarrow> int res" where
  "parseChainTime s =
     (case parse_rfc3339 s of None \<Rightarrow> Inl (errorf ''parsing time'') | Some t \<Rightarrow> Inr t)"

definition pushDefusion ::
  "eventIdent \<Rightarrow> int \<Rightarrow> string \<Rightarrow> string \<Rightarrow> string \<Rightarrow> string \<Rightarrow> string \<Rightarrow> string \<Rightarrow> string \<Rightarrow> int
     \<Rightarrow> (buffer, unit) op" where
  "pushDefusion i h source validator delegator ty a d completion created =
     bindO (wrapO ''defusion completed_at: '' (liftO (parseChainTime completion))) (\<lambda>completed.
     modifyO (\<lambda>b. b\<lparr>b_defusion := b_defusion b @
       [\<lparr>dr_chain = id_chain i, dr_height = h, dr_tx = id_tx i, dr_event = id_event i,
         dr_source_validator = source, dr_validator = validator, dr_delegator = delegator,
         dr_type = ty, dr_amount = a, dr_denom = d, dr_completed = completed,
         dr_created = created\<rparr>]\<rparr>))"

abbreviation seqO :: "('s, unit) op \<Rightarrow> ('s, 'a) op \<Rightarrow> ('s, 'a) op" where
  "seqO m n \<equiv> bindO m (\<lambda>_. n)"

abbreviation with_amount ::
  "event \<Rightarrow> (string \<Rightarrow> string \<Rightarrow> (buffer, unit) op) \<Rightarrow> (buffer, unit) op" where
  "with_amount ev f \<equiv>
     (case findAmount ev of None \<Rightarrow> returnO () | Some (a, d) \<Rightarrow> f a d)"

definition handleTransfer ::
  "int \<Rightarrow> int \<Rightarrow> eventIdent \<Rightarrow> event \<Rightarrow> event list \<Rightarrow> (buffer, unit) op" where
  "handleTransfer h t i ev grp =
     with_amount ev (\<lambda>a d.
       let recipient = findAttr ev ''recipient''; sender = findAttr ev ''sender'' in
       bindO (liftO (transferOverlap ev grp)) (\<lambda>(skipSent, skipReceived).
       if skipSent then pushLedger i 0 recipient sender a h t ''received'' ''credit'' d
       else if skipReceived then pushLedger i 0 sender recipient a h t ''sent'' ''debit'' d
       else seqO (pushLedger i 0 sender recipient a h t ''sent'' ''debit'' d)
                 (pushLedger i 1 recipient sender a h t ''received'' ''credit'' d)))"

definition handleCoinbase :: "int \<Rightarrow> int \<Rightarrow> eventIdent \<Rightarrow> event \<Rightarrow> (buffer, unit) op" where
  "handleCoinbase h t i ev =
     with_amount ev (\<lambda>a d.
       pushLedgerNoCp i 0 (findAttr ev ''minter'') a h t ''minted'' ''credit'' d)"

definition handleBurn :: "int \<Rightarrow> int \<Rightarrow> eventIdent \<Rightarrow> event \<Rightarrow> (buffer, unit) op" where
  "handleBurn h t i ev =
     with_amount ev (\<lambda>a d.
       pushLedgerNoCp i 0 (findAttr ev ''burner'') a h t ''burned'' ''debit'' d)"

definition infused :: "string \<Rightarrow> string" where "infused d = d @ ''.infused''"
definition defusing :: "string \<Rightarrow> string" where "defusing d = d @ ''.defusing''"

definition handleDelegate :: "int \<Rightarrow> int \<Rightarrow> eventIdent \<Rightarrow> event \<Rightarrow> (buffer, unit) op" where
  "handleDelegate h t i ev =
     with_amount ev (\<lambda>a d.
       let validator = findAttr ev ''validator''; delegator = findAttr ev ''delegator'' in
       seqO (pushLedger i 0 delegator validator a h t ''infused'' ''debit'' d)
      (seqO (pushLedger i 1 delegator validator a h t ''infused'' ''credit'' (infused d))
            (pushLedger i 2 validator delegator a h t ''infused'' ''credit'' (infused d))))"

definition handleRedelegate ::
  "int \<Rightarrow> int \<Rightarrow> eventIdent \<Rightarrow> event \<Rightarrow> event list \<Rightarrow> (buffer, unit) op" where
  "handleRedelegate h t i ev grp =
     with_amount ev (\<lambda>a d.
       let src = findAttr ev ''source_validator''; dst = findAttr ev ''destination_validator'' in
       bindO (liftO (redelegationOwner grp (id_correlation i) src)) (\<lambda>delegator.
       let completion = findAttr ev ''completion_time'' in
       seqO (pushLedger i 0 src delegator a h t ''diversion_started'' ''debit'' (infused d))
      (seqO (pushLedger i 1 delegator src a h t ''diversion_started'' ''debit'' (infused d))
      (seqO (pushLedger i 2 dst delegator a h t ''diversion_started'' ''credit'' (defusing d))
      (seqO (pushLedger i 3 delegator dst a h t ''diversion_started'' ''credit'' (defusing d))
            (whenO (completion \<noteq> [])
              (pushDefusion i h src dst delegator ''r'' a d completion t)))))))"

definition handleCompleteRedelegation ::
  "int \<Rightarrow> int \<Rightarrow> eventIdent \<Rightarrow> event \<Rightarrow> (buffer, unit) op" where
  "handleCompleteRedelegation h t i ev =
     with_amount ev (\<lambda>a d.
       let dst = findAttr ev ''destination_validator''; delegator = findAttr ev ''delegator'' in
       seqO (pushLedger i 0 dst delegator a h t ''diversion_completed'' ''debit'' (defusing d))
      (seqO (pushLedger i 1 delegator dst a h t ''diversion_completed'' ''debit'' (defusing d))
      (seqO (pushLedger i 2 dst delegator a h t ''diversion_completed'' ''credit'' (infused d))
            (pushLedger i 3 delegator dst a h t ''diversion_completed'' ''credit'' (infused d)))))"

definition handleUnbond :: "int \<Rightarrow> int \<Rightarrow> eventIdent \<Rightarrow> event \<Rightarrow> (buffer, unit) op" where
  "handleUnbond h t i ev =
     with_amount ev (\<lambda>a d.
       let val = findAttr ev ''validator''; deleg = findAttr ev ''delegator'';
           completion = findAttr ev ''completion_time'' in
       seqO (pushLedger i 0 val deleg a h t ''defusion_started'' ''debit'' (infused d))
      (seqO (pushLedger i 1 deleg val a h t ''defusion_started'' ''debit'' (infused d))
      (seqO (pushLedger i 2 val deleg a h t ''defusion_started'' ''credit'' (defusing d))
      (seqO (pushLedger i 3 deleg val a h t ''defusion_started'' ''credit'' (defusing d))
            (whenO (completion \<noteq> [])
              (pushDefusion i h [] val deleg ''u'' a d completion t))))))"

definition handleCancelUnbond :: "int \<Rightarrow> int \<Rightarrow> eventIdent \<Rightarrow> event \<Rightarrow> (buffer, unit) op" where
  "handleCancelUnbond h t i ev =
     with_amount ev (\<lambda>a d.
       let val = findAttr ev ''validator''; deleg = findAttr ev ''delegator'' in
       seqO (pushLedger i 0 val deleg a h t ''defusion_cancelled'' ''debit'' (defusing d))
      (seqO (pushLedger i 1 deleg val a h t ''defusion_cancelled'' ''debit'' (defusing d))
      (seqO (pushLedger i 2 val deleg a h t ''defusion_cancelled'' ''credit'' (infused d))
            (pushLedger i 3 deleg val a h t ''defusion_cancelled'' ''credit'' (infused d)))))"

definition handleCompleteUnbonding ::
  "int \<Rightarrow> int \<Rightarrow> eventIdent \<Rightarrow> event \<Rightarrow> (buffer, unit) op" where
  "handleCompleteUnbonding h t i ev =
     with_amount ev (\<lambda>a d.
       let val = findAttr ev ''validator''; deleg = findAttr ev ''delegator'' in
       seqO (pushLedger i 0 val deleg a h t ''defusion_completed'' ''debit'' (defusing d))
      (seqO (pushLedger i 1 deleg val a h t ''defusion_completed'' ''debit'' (defusing d))
            (pushLedger i 2 deleg val a h t ''defusion_completed'' ''credit'' d)))"

definition handleCreateValidator ::
  "int \<Rightarrow> int \<Rightarrow> eventIdent \<Rightarrow> event \<Rightarrow> event list \<Rightarrow> (buffer, unit) op" where
  "handleCreateValidator h t i ev grp =
     with_amount ev (\<lambda>a d.
       let val = findAttr ev ''validator'' in
       bindO (liftO (validatorSpender grp a d)) (\<lambda>spender.
       seqO (pushLedger i 0 spender val a h t ''infused'' ''debit'' d)
      (seqO (pushLedger i 1 val spender a h t ''infused'' ''credit'' (infused d))
            (pushLedger i 2 spender val a h t ''infused'' ''credit'' (infused d)))))"

section \<open>Blocks\<close>

definition bankEventTypes :: "string list" where
  "bankEventTypes =
     [''transfer'', ''coinbase'', ''burn'', ''delegate'', ''redelegate'', ''complete_redelegation'',
      ''unbond'', ''cancel_unbond'', ''complete_unbonding'', ''create_validator'']"

definition IsBankEventType :: "string \<Rightarrow> bool" where
  "IsBankEventType t \<longleftrightarrow> t \<in> set bankEventTypes"

text \<open>The event with its amount narrowed to one coin.\<close>

definition with_coin :: "event \<Rightarrow> coin \<Rightarrow> event" where
  "with_coin ev c =
     ev\<lparr>ev_attributes := map (\<lambda>a. if attr_key a = ''amount''
          then a\<lparr>attr_value := coin_text c\<rparr> else a) (ev_attributes ev)\<rparr>"

definition handleBank ::
  "int \<Rightarrow> int \<Rightarrow> eventIdent \<Rightarrow> event list \<Rightarrow> event \<Rightarrow> (buffer, unit) op" where
  "handleBank h t i grp ev =
     (if ev_type ev = ''transfer'' then handleTransfer h t i ev grp
      else if ev_type ev = ''coinbase'' then handleCoinbase h t i ev
      else if ev_type ev = ''burn'' then handleBurn h t i ev
      else if ev_type ev = ''delegate'' then handleDelegate h t i ev
      else if ev_type ev = ''redelegate'' then handleRedelegate h t i ev grp
      else if ev_type ev = ''complete_redelegation'' then handleCompleteRedelegation h t i ev
      else if ev_type ev = ''unbond'' then handleUnbond h t i ev
      else if ev_type ev = ''cancel_unbond'' then handleCancelUnbond h t i ev
      else if ev_type ev = ''complete_unbonding'' then handleCompleteUnbonding h t i ev
      else if ev_type ev = ''create_validator'' then handleCreateValidator h t i ev grp
      else returnO ())"

definition processEvent ::
  "int \<Rightarrow> int \<Rightarrow> eventIdent \<Rightarrow> event \<Rightarrow> event list \<Rightarrow> (buffer, unit) op" where
  "processEvent h t i ev grp =
     bindO (liftO (eventCoins ev)) (\<lambda>coins.
     bindO (liftO (validateBankFields ev)) (\<lambda>_.
     forO coins (\<lambda>c. handleBank h t i grp (with_coin ev c))))"

definition scope :: "positioned \<Rightarrow> phase \<times> int \<times> int" where
  "scope p = (pe_phase p, pe_tx p, pe_msg p)"

definition scope_group :: "positioned list \<Rightarrow> positioned \<Rightarrow> event list" where
  "scope_group ps p = map pe_event (filter (\<lambda>q. scope q = scope p) ps)"

text \<open>\<open>before\<close> holds the positioned events the loop has passed.\<close>

fun process_positioned ::
  "int \<Rightarrow> int \<Rightarrow> string \<Rightarrow> positioned list \<Rightarrow> positioned list \<Rightarrow> positioned list \<Rightarrow> (buffer, unit) op"
where
  "process_positioned h t chain all before [] = returnO ()"
| "process_positioned h t chain all before (p # ps) =
     seqO (whenO (IsBankEventType (ev_type (pe_event p)))
        (wrapO ''phase tx event: ''
          (processEvent h t
            \<lparr>id_chain = chain, id_tx = pe_tx p, id_event = pe_index p,
             id_correlation = length (scope_group before p)\<rparr>
            (pe_event p) (scope_group all p))))
      (process_positioned h t chain all (before @ [p]) ps)"

definition ProcessBlock ::
  "int \<Rightarrow> int \<Rightarrow> string \<Rightarrow> event list \<Rightarrow> tx_result list \<Rightarrow> (buffer, unit) op" where
  "ProcessBlock h t chain finalize txs =
     bindO (liftO (ordered_events finalize txs)) (\<lambda>ordered.
     process_positioned h t chain ordered [] ordered)"

record event_buffer =
  eb_height :: int
  eb_finalize :: "event list"
  eb_txs :: "event list list"

definition Capture :: "int \<Rightarrow> event list \<Rightarrow> tx_result list \<Rightarrow> event_buffer" where
  "Capture h evs txs =
     \<lparr>eb_height = h, eb_finalize = evs, eb_txs = map tx_events txs\<rparr>"

definition events_only :: "event list \<Rightarrow> tx_result" where
  "events_only evs =
     \<lparr>tx_code = 0, tx_data = [], tx_log = [], tx_info = [], tx_gas_wanted = [],
      tx_gas_used = [], tx_events = evs, tx_codespace = []\<rparr>"

definition ProcessBuffer :: "int \<Rightarrow> string \<Rightarrow> event_buffer \<Rightarrow> (buffer, unit) op" where
  "ProcessBuffer t chain eb =
     ProcessBlock (eb_height eb) t chain (eb_finalize eb) (map events_only (eb_txs eb))"

end
