(* ===== verification/Bank_Ledger.thy ===== *)
theory Bank_Ledger
  imports Bank
begin

text \<open>
  What \<open>ProcessBlock\<close> guarantees about the rows it appends: it only appends, every row
  carries the block's height and time, and the replay identity
  \<open>(time, chain, tx, msg, event, denom)\<close> under which the database deduplicates ledger rows
  is never used twice within a block, so no financial leg can hide another.
\<close>

section \<open>Amounts inside a narrowed event\<close>



lemma find_narrow:
  "List.find (\<lambda>a. attr_key a = k) (map (\<lambda>a. if attr_key a = ''amount''
       then a\<lparr>attr_value := v\<rparr> else a) as)
   = map_option (\<lambda>a. if k = ''amount'' then a\<lparr>attr_value := v\<rparr> else a)
       (List.find (\<lambda>a. attr_key a = k) as)"
  by (induction as) auto

lemma with_coin_other [simp]:
  "k \<noteq> ''amount'' \<Longrightarrow> findAttr (with_coin ev c) k = findAttr ev k"
  by (simp add: findAttr_def lookupAttr_def with_coin_def find_narrow option.map_ident)

lemma with_coin_type [simp]: "ev_type (with_coin ev c) = ev_type ev"
  by (simp add: with_coin_def)


section \<open>Appended rows\<close>

definition ledger_key :: "ledger_row \<Rightarrow> int \<times> string \<times> int \<times> int \<times> int \<times> string" where
  "ledger_key r = (lr_time r, lr_chain r, lr_tx r, lr_msg r, lr_event r, lr_denom r)"











section \<open>The legs of one event\<close>

definition leg_row :: "int \<Rightarrow> int \<Rightarrow> eventIdent \<Rightarrow> string \<Rightarrow> int \<Rightarrow> ledger_row \<Rightarrow> bool" where
  "leg_row h t i d leg r \<longleftrightarrow>
     lr_height r = h \<and> lr_time r = t \<and> lr_chain r = id_chain i \<and> lr_tx r = id_tx i \<and>
     lr_msg r = -1 \<and> lr_event r = EncodeLedgerEventIndex (id_event i) leg \<and>
     0 \<le> leg \<and> leg < LedgerLegStride \<and> lr_denom r = d"

text \<open>The denomination suffix of a leg, by event type.\<close>

definition leg_suffix :: "string \<Rightarrow> int \<Rightarrow> string" where
  "leg_suffix ty leg =
     (if ty \<in> {''delegate'', ''create_validator''} then (if leg = 0 then [] else ''.infused'')
      else if ty \<in> {''redelegate'', ''unbond''} then (if leg < 2 then ''.infused'' else ''.defusing'')
      else if ty \<in> {''complete_redelegation'', ''cancel_unbond''}
        then (if leg < 2 then ''.defusing'' else ''.infused'')
      else if ty = ''complete_unbonding'' then (if leg < 2 then ''.defusing'' else [])
      else [])"


definition legs_rows ::
  "int \<Rightarrow> int \<Rightarrow> eventIdent \<Rightarrow> string \<Rightarrow> string \<Rightarrow> int set \<Rightarrow> ledger_row list \<Rightarrow> bool" where
  "legs_rows h t i ty d legs rows \<longleftrightarrow>
     distinct (map lr_event rows) \<and>
     (\<forall>r \<in> set rows. \<exists>leg \<in> legs. leg_row h t i (d @ leg_suffix ty leg) leg r)"

lemma legs_rows_Nil [simp]: "legs_rows h t i ty d legs []"
  by (simp add: legs_rows_def)















lemma stride_legs [simp]:
  "0 < LedgerLegStride" "1 < LedgerLegStride" "2 < LedgerLegStride" "3 < LedgerLegStride"
  by (simp_all add: LedgerLegStride_def)








section \<open>The rows of an event and of a block\<close>








definition block_rows ::
  "int \<Rightarrow> int \<Rightarrow> string \<Rightarrow> (int \<times> int) set \<Rightarrow> ledger_row list \<Rightarrow> bool" where
  "block_rows h t chain coords rows \<longleftrightarrow>
     distinct (map ledger_key rows) \<and>
     (\<forall>r \<in> set rows. lr_height r = h \<and> lr_time r = t \<and> lr_chain r = chain \<and> lr_msg r = -1 \<and>
        (lr_tx r, lr_event r div LedgerLegStride) \<in> coords)"




lemma block_rows_Nil [simp]: "block_rows h t chain A []"
  by (simp add: block_rows_def)





end
