(* ===== verification/Bank_Correlation.thy ===== *)
theory Bank_Correlation
  imports Bank_Ledger
begin

text \<open>
  Specifications of the correlation rules of \<open>internal/bank/correlation.go\<close>, the
  double-entry facts of \<open>process.go\<close> (a staking position that is opened and closed leaves
  every balance as it was), and \<open>internal/bank/native.go\<close>.
\<close>

section \<open>Balances\<close>

definition row_amount :: "ledger_row \<Rightarrow> int" where
  "row_amount r =
     (let n = (case big_of_string (lr_amount r) of None \<Rightarrow> 0 | Some n \<Rightarrow> n) in
      if lr_direction r = ''credit'' then n else - n)"

definition balance :: "ledger_row list \<Rightarrow> string \<Rightarrow> string \<Rightarrow> int" where
  "balance rows address d =
     sum_list (map row_amount (filter (\<lambda>r. lr_address r = address \<and> lr_denom r = d) rows))"

lemma balance_Nil [simp]: "balance [] x d = 0"
  by (simp add: balance_def)

lemma balance_append [simp]: "balance (us @ vs) x d = balance us x d + balance vs x d"
  by (simp add: balance_def)





















section \<open>Correlation rules\<close>

definition owner_window :: "event list \<Rightarrow> nat \<Rightarrow> event list" where
  "owner_window grp before =
     takeWhile (\<lambda>ev. ev_type ev \<noteq> ''redelegate'') (rev (take before grp))"

definition window_owners :: "event list \<Rightarrow> string \<Rightarrow> string set" where
  "window_owners evs validator =
     (\<lambda>ev. findAttr ev ''delegator'') ` {ev \<in> set evs. is_withdrawal validator ev}"

lemma owner_scan_Inr:
  "owner_scan v evs owner = Inr own \<longleftrightarrow>
     (let ows = window_owners (takeWhile (\<lambda>ev. ev_type ev \<noteq> ''redelegate'') evs) v in
      (ows = {} \<longrightarrow> own = owner) \<and>
      (ows \<noteq> {} \<longrightarrow> own \<noteq> [] \<and> ows = {own} \<and> owner \<in> {[], own}))"
proof (induction v evs owner rule: owner_scan.induct)
  case (1 v owner)
  show ?case by (auto simp: window_owners_def)
next
  case (2 v ev evs owner)
  let ?w = "takeWhile (\<lambda>ev. ev_type ev \<noteq> ''redelegate'') evs"
  show ?case
  proof (cases "ev_type ev = ''redelegate''")
    case True
    then show ?thesis by (auto simp: window_owners_def)
  next
    case nr: False
    show ?thesis
    proof (cases "is_withdrawal v ev")
      case False
      then have "window_owners (ev # ?w) v = window_owners ?w v"
        by (auto simp: window_owners_def)
      with nr False 2(1) show ?thesis by simp
    next
      case True
      define cand where "cand = findAttr ev ''delegator''"
      have ows: "window_owners (ev # ?w) v = insert cand (window_owners ?w v)"
        using True by (auto simp: window_owners_def cand_def)
      have scan: "owner_scan v (ev # evs) owner =
          (if cand = [] \<or> (owner \<noteq> [] \<and> owner \<noteq> cand) then Inl (errorf ''ambiguous redelegation owner'')
           else owner_scan v evs cand)"
        using nr True by (simp add: cand_def Let_def)
      show ?thesis
      proof (cases "cand = [] \<or> (owner \<noteq> [] \<and> owner \<noteq> cand)")
        case True
        then show ?thesis using scan nr ows by auto
      next
        case False
        then have "owner_scan v evs cand = Inr own \<longleftrightarrow>
            (let ows = window_owners ?w v in
              (ows = {} \<longrightarrow> own = cand) \<and> (ows \<noteq> {} \<longrightarrow> own \<noteq> [] \<and> ows = {own} \<and> cand \<in> {[], own}))"
          using nr True 2(2) by (simp add: cand_def)
        then show ?thesis using scan nr ows False by (auto simp: Let_def)
      qed
    qed
  qed
qed

text \<open>
  A redelegation is attributed to an owner exactly when the reward withdrawals from
  the source validator that precede it, back to the previous redelegation of the same
  message, all name that one non-empty delegator; a withdrawal before the previous
  redelegation is never borrowed, and disagreement or absence is an error.
\<close>

theorem redelegation_owner_iff:
  "redelegationOwner grp before v = Inr own \<longleftrightarrow>
     before \<le> length grp \<and> own \<noteq> [] \<and> window_owners (owner_window grp before) v = {own}"
proof -
  have "redelegationOwner grp before v = Inr own \<longleftrightarrow>
      before \<le> length grp \<and> own \<noteq> [] \<and> owner_scan v (rev (take before grp)) [] = Inr own"
    by (auto simp: redelegationOwner_def bindR_Inr split: if_splits)
  then show ?thesis
    by (auto simp: owner_scan_Inr owner_window_def Let_def)
qed

lemma coin_match_fold:
  "foldR (coin_match ty key actor a d) found grp = Inr r \<Longrightarrow> r \<Longrightarrow> \<not> found \<Longrightarrow>
     \<exists>ev \<in> set grp. ev_type ev = ty \<and> findAttr ev key = actor \<and> containsCoin ev a d = Inr True"
proof (induction grp arbitrary: found)
  case (Cons ev evs)
  from Cons.prems(1) obtain f where f: "coin_match ty key actor a d found ev = Inr f"
    "foldR (coin_match ty key actor a d) f evs = Inr r"
    by (auto simp: bindR_Inr)
  show ?case
  proof (cases f)
    case True
    then have "ev_type ev = ty \<and> findAttr ev key = actor \<and> containsCoin ev a d = Inr True"
      using f(1) Cons.prems(3) by (auto simp: coin_match_def bindR_Inr split: if_splits)
    then show ?thesis by auto
  next
    case False
    then show ?thesis using Cons.IH [OF f(2)] Cons.prems(2) by auto
  qed
qed simp

definition overlap_cause :: "event list \<Rightarrow> event \<Rightarrow> string \<Rightarrow> string \<Rightarrow> bool \<Rightarrow> bool" where
  "overlap_cause grp ev a d sent \<longleftrightarrow>
     (\<exists>receipt \<in> set grp. ev_type receipt =
        (if sent then ''structs.structs.EventAlphaInfuse'' else ''structs.structs.EventAlphaRefine'')) \<and>
     (\<exists>bank \<in> set grp. ev_type bank = (if sent then ''burn'' else ''coinbase'') \<and>
        findAttr bank (if sent then ''burner'' else ''minter'')
          = findAttr ev (if sent then ''recipient'' else ''sender'') \<and>
        containsCoin bank a d = Inr True)"

lemma overlap_fold:
  assumes "foldR (overlap_step grp (findAttr ev ''sender'') (findAttr ev ''recipient'') a d) skips evs = Inr skips'"
    and "set evs \<subseteq> set grp"
    and "fst skips \<longrightarrow> overlap_cause grp ev a d True" "snd skips \<longrightarrow> overlap_cause grp ev a d False"
  shows "(fst skips' \<longrightarrow> overlap_cause grp ev a d True) \<and> (snd skips' \<longrightarrow> overlap_cause grp ev a d False)"
  using assms
proof (induction evs arbitrary: skips)
  case (Cons e evs)
  let ?step = "overlap_step grp (findAttr ev ''sender'') (findAttr ev ''recipient'') a d"
  from Cons.prems(1) obtain s where s: "?step skips e = Inr s" "foldR ?step s evs = Inr skips'"
    by (auto simp: bindR_Inr)
  have e: "e \<in> set grp" using Cons.prems(2) by simp
  have "(fst s \<longrightarrow> overlap_cause grp ev a d True) \<and> (snd s \<longrightarrow> overlap_cause grp ev a d False)"
  proof (cases "ev_type e = ''structs.structs.EventAlphaRefine''")
    case True
    then have s1: "s = skips \<or> (fst s = fst skips \<and>
        foldR (coin_match ''coinbase'' ''minter'' (findAttr ev ''sender'') a d) (snd skips) grp = Inr (snd s))"
      using s(1) by (auto simp: overlap_step_def overlap_refine_def bindR_Inr split: if_splits)
    have "overlap_cause grp ev a d False" if "snd s" "\<not> snd skips"
      using s1 that coin_match_fold [OF _ that(1) that(2)] True e
      unfolding overlap_cause_def by fastforce
    then show ?thesis using Cons.prems(3,4) s1 by auto
  next
    case nr: False
    show ?thesis
    proof (cases "ev_type e = ''structs.structs.EventAlphaInfuse''")
      case True
      then have s1: "s = skips \<or> (snd s = snd skips \<and>
          foldR (coin_match ''burn'' ''burner'' (findAttr ev ''recipient'') a d) (fst skips) grp = Inr (fst s))"
        using s(1) by (auto simp: overlap_step_def overlap_infuse_def bindR_Inr split: if_splits)
      have "overlap_cause grp ev a d True" if "fst s" "\<not> fst skips"
        using s1 that coin_match_fold [OF _ that(1) that(2)] True e
        unfolding overlap_cause_def by fastforce
      then show ?thesis using Cons.prems(3,4) s1 by auto
    next
      case False
      then have "s = skips" using s(1) nr by (simp add: overlap_step_def)
      then show ?thesis using Cons.prems(3,4) by simp
    qed
  qed
  then show ?case using Cons.IH [OF s(2)] Cons.prems(2) by simp
qed simp

text \<open>
  C23: A side of a transfer is left out of the ledger only with evidence: for ualpha, when
  the same message carries the infusion receipt and a burn of the same coin by the
  recipient (sent side), or the refinement receipt and a mint of it by the sender
  (received side).  Never both sides, and only if exactly one transfer of the group
  matches.
\<close>

theorem transfer_overlap_sound:
  assumes "transferOverlap ev grp = Inr (skipSent, skipReceived)"
    and "findAmount ev = Some (a, d)"
  shows "\<not> (skipSent \<and> skipReceived) \<and>
    (skipSent \<or> skipReceived \<longrightarrow>
       d = ''ualpha'' \<and> overlap_cause grp ev a d skipSent \<and>
       foldR (count_transfer (findAttr ev ''sender'') (findAttr ev ''recipient'') a d) 0 grp = Inr 1)"
proof (cases "d = ''ualpha''")
  case False
  then show ?thesis using assms by (simp add: transferOverlap_def)
next
  case True
  let ?fold = "foldR (overlap_step grp (findAttr ev ''sender'') (findAttr ev ''recipient'') a d) (False, False) grp"
  let ?count = "foldR (count_transfer (findAttr ev ''sender'') (findAttr ev ''recipient'') a d) 0 grp"
  obtain skips where s: "?fold = Inr skips"
    and r: "(if fst skips \<or> snd skips then bindR ?count (\<lambda>matches.
              if matches \<noteq> 1 \<or> (fst skips \<and> snd skips)
              then Inl (errorf ''ambiguous overlapping transfer accounting'') else Inr skips)
            else Inr skips) = Inr (skipSent, skipReceived)"
    using assms True by (auto simp: transferOverlap_def Let_def bindR_Inr)
  have cause: "(fst skips \<longrightarrow> overlap_cause grp ev a d True) \<and> (snd skips \<longrightarrow> overlap_cause grp ev a d False)"
    by (rule overlap_fold [OF s subset_refl]) simp_all
  have sk: "skips = (skipSent, skipReceived)"
    using r by (auto simp: bindR_Inr split: if_splits)
  show ?thesis
  proof (cases "skipSent \<or> skipReceived")
    case False
    then show ?thesis by simp
  next
    case some: True
    then have "?count = Inr 1" "\<not> (skipSent \<and> skipReceived)"
      using r sk by (auto simp: bindR_Inr split: if_splits)
    then show ?thesis using cause sk True some by (cases skipSent) auto
  qed
qed

definition overlap_receipt :: string where
  "overlap_receipt =
     ''{'' @ json_quote ''primaryAddress'' @ '':'' @ json_quote ''vault'' @ '','' @
      json_quote ''amount'' @ '':'' @ json_quote ''50'' @ ''}''"

definition overlap_example :: "event list" where
  "overlap_example =
     [mk_event ''transfer'' [(''amount'', ''50ualpha''), (''sender'', ''vault''), (''recipient'', ''pool'')],
      mk_event ''burn'' [(''amount'', ''50ualpha''), (''burner'', ''pool'')],
      mk_event ''structs.structs.EventAlphaInfuse'' [(''eventAlphaInfuseDetail'',
        overlap_receipt)]]"

lemma overlap_example_coins: "parseCoins ''50ualpha'' = Inr [\<lparr>coin_amount = ''50'', coin_denom = ''ualpha''\<rparr>]"
proof -
  have "''50'' = dec_nat 50" "valid_denom ''ualpha''" by code_simp+
  then have "coin_set [\<lparr>coin_amount = ''50'', coin_denom = ''ualpha''\<rparr>]"
    by (auto simp: coin_set_def valid_coin_def intro: exI [of _ 50])
  from parseCoins_valid [OF this] show ?thesis by (simp add: coins_text_def coin_text_def)
qed

lemma overlap_example_receipt:
  "decode_receipt overlap_receipt
   = Inr \<lparr>AlphaRefine_PrimaryAddress = ''vault'', AlphaRefine_Amount = 50, AlphaRefine_VaultAddress = []\<rparr>"
  by code_simp

lemma overlap_example_eval:
  "findAmount (hd overlap_example) = Some (''50'', ''ualpha'')"
  "transferOverlap (hd overlap_example) overlap_example = Inr (True, False)"
proof -
  show a: "findAmount (hd overlap_example) = Some (''50'', ''ualpha'')"
    by (simp add: findAmount_def findAttr_def lookupAttr_def overlap_example_def
        parseAmountDenom_def overlap_example_coins)
  have u: "format_uint (50 :: 64 word) = ''50''" by code_simp
  show "transferOverlap (hd overlap_example) overlap_example = Inr (True, False)"
    unfolding transferOverlap_def a
    by (simp add: Let_def overlap_example_def findAttr_def lookupAttr_def overlap_step_def overlap_infuse_def
        overlap_example_receipt receipt_address_def u coin_match_def containsCoin_def eventCoins_def
        overlap_example_coins count_transfer_def)
qed

theorem transfer_overlap_sound_witness:
  "overlap_cause overlap_example (hd overlap_example) ''50'' ''ualpha'' True \<and>
   foldR (count_transfer (findAttr (hd overlap_example) ''sender'')
     (findAttr (hd overlap_example) ''recipient'') ''50'' ''ualpha'') 0 overlap_example = Inr 1"
  using transfer_overlap_sound [OF overlap_example_eval(2,1)] by simp

end
