(* ===== verification/Dirty.thy ===== *)
theory Dirty
  imports Buffers Go_Std
begin

text \<open>
  \<open>internal/readmodel/dirty.go\<close>: the per-block set of entities whose projections must be
  recomputed.  Go maps to \<open>struct{}\<close> are sets; \<open>inventoryPlayers == nil\<close> is \<open>None\<close>.

  Snapshots deep-copy the handler-marked sets, so restoring one is exact on a set that has
  not been expanded yet; marking only grows the sets, and merging is their union.
\<close>

record dirty =
  d_addresses :: "string set"
  d_players :: "string set"
  d_guilds :: "string set"
  d_reactors :: "string set"
  d_providers :: "string set"
  d_substations :: "string set"
  d_grid :: "string set"
  d_native_addresses :: "string set"
  d_native_reactors :: "string set"
  d_inventory :: "string set option"

definition NewDirty :: dirty where
  "NewDirty =
     \<lparr>d_addresses = {}, d_players = {}, d_guilds = {}, d_reactors = {}, d_providers = {},
      d_substations = {}, d_grid = {}, d_native_addresses = {}, d_native_reactors = {},
      d_inventory = None\<rparr>"

definition add_id :: "string \<Rightarrow> string set \<Rightarrow> string set" where
  "add_id i m = (if i = [] then m else insert i m)"

definition Dirty_Address :: "string \<Rightarrow> dirty \<Rightarrow> dirty" where
  "Dirty_Address i d = d\<lparr>d_addresses := add_id i (d_addresses d)\<rparr>"

definition Dirty_Player :: "string \<Rightarrow> dirty \<Rightarrow> dirty" where
  "Dirty_Player i d = d\<lparr>d_players := add_id i (d_players d)\<rparr>"

definition Dirty_Guild :: "string \<Rightarrow> dirty \<Rightarrow> dirty" where
  "Dirty_Guild i d = d\<lparr>d_guilds := add_id i (d_guilds d)\<rparr>"

definition Dirty_Reactor :: "string \<Rightarrow> dirty \<Rightarrow> dirty" where
  "Dirty_Reactor i d = d\<lparr>d_reactors := add_id i (d_reactors d)\<rparr>"

definition Dirty_Provider :: "string \<Rightarrow> dirty \<Rightarrow> dirty" where
  "Dirty_Provider i d = d\<lparr>d_providers := add_id i (d_providers d)\<rparr>"

definition Dirty_Substation :: "string \<Rightarrow> dirty \<Rightarrow> dirty" where
  "Dirty_Substation i d = d\<lparr>d_substations := add_id i (d_substations d)\<rparr>"

definition Dirty_GridObject :: "string \<Rightarrow> dirty \<Rightarrow> dirty" where
  "Dirty_GridObject i d = d\<lparr>d_grid := add_id i (d_grid d)\<rparr>"

definition Dirty_NativeAddress :: "string \<Rightarrow> dirty \<Rightarrow> dirty" where
  "Dirty_NativeAddress i d =
     Dirty_Address i (d\<lparr>d_native_addresses := add_id i (d_native_addresses d)\<rparr>)"

definition Dirty_NativeReactor :: "string \<Rightarrow> dirty \<Rightarrow> dirty" where
  "Dirty_NativeReactor i d = d\<lparr>d_native_reactors := add_id i (d_native_reactors d)\<rparr>"

definition guild_prefix :: string where
  "guild_prefix = ''uguild.''"

definition guild_supply_action :: "string \<Rightarrow> bool" where
  "guild_supply_action a \<longleftrightarrow> a = ''genesis'' \<or> a = ''minted'' \<or> a = ''burned''"

definition Dirty_Ledger_row :: "ledger_row \<Rightarrow> dirty \<Rightarrow> dirty" where
  "Dirty_Ledger_row row d =
     (let d' = Dirty_Address (lr_address row) d in
      if length guild_prefix < length (lr_denom row) \<and>
         take (length guild_prefix) (lr_denom row) = guild_prefix \<and>
         guild_supply_action (lr_action row)
      then Dirty_Guild (drop (length guild_prefix) (lr_denom row)) d' else d')"

definition Dirty_Ledger :: "ledger_row list \<Rightarrow> dirty \<Rightarrow> dirty" where
  "Dirty_Ledger rows d = fold Dirty_Ledger_row rows d"

definition Dirty_Snapshot :: "dirty \<Rightarrow> dirty" where
  "Dirty_Snapshot d = d\<lparr>d_inventory := None\<rparr>"

definition Dirty_Restore :: "dirty \<Rightarrow> dirty \<Rightarrow> dirty" where
  "Dirty_Restore s d = s"

definition Dirty_Merge :: "dirty \<Rightarrow> dirty \<Rightarrow> dirty" where
  "Dirty_Merge other d =
     d\<lparr>d_addresses := d_addresses d \<union> d_addresses other,
       d_players := d_players d \<union> d_players other,
       d_guilds := d_guilds d \<union> d_guilds other,
       d_reactors := d_reactors d \<union> d_reactors other,
       d_providers := d_providers d \<union> d_providers other,
       d_substations := d_substations d \<union> d_substations other,
       d_grid := d_grid d \<union> d_grid other,
       d_native_addresses := d_native_addresses d \<union> d_native_addresses other,
       d_native_reactors := d_native_reactors d \<union> d_native_reactors other\<rparr>"

definition InventoryPlayerIDs :: "dirty \<Rightarrow> string set" where
  "InventoryPlayerIDs d = (case d_inventory d of None \<Rightarrow> d_players d | Some ps \<Rightarrow> ps)"

definition InventoryOwnerIDs :: "dirty \<Rightarrow> string set" where
  "InventoryOwnerIDs d = InventoryPlayerIDs d \<union> d_guilds d"

section \<open>Growth\<close>

definition dirty_le :: "dirty \<Rightarrow> dirty \<Rightarrow> bool" where
  "dirty_le d e \<longleftrightarrow>
     d_addresses d \<subseteq> d_addresses e \<and> d_players d \<subseteq> d_players e \<and> d_guilds d \<subseteq> d_guilds e \<and>
     d_reactors d \<subseteq> d_reactors e \<and> d_providers d \<subseteq> d_providers e \<and>
     d_substations d \<subseteq> d_substations e \<and> d_grid d \<subseteq> d_grid e \<and>
     d_native_addresses d \<subseteq> d_native_addresses e \<and>
     d_native_reactors d \<subseteq> d_native_reactors e \<and> d_inventory d = d_inventory e"

lemma dirty_le_refl [simp]: "dirty_le d d"
  by (simp add: dirty_le_def)

lemma dirty_le_trans: "dirty_le d e \<Longrightarrow> dirty_le e f \<Longrightarrow> dirty_le d f"
  unfolding dirty_le_def by (elim conjE) (intro conjI, (erule (1) subset_trans)+, simp)

interpretation dirty_grows: preorder_op dirty_le
  by unfold_locales (simp, rule dirty_le_trans)

lemma add_id_mono: "m \<subseteq> add_id i m"
  by (auto simp: add_id_def)

lemma dirty_mark_le [simp]:
  "dirty_le d (Dirty_Address i d)" "dirty_le d (Dirty_Player i d)"
  "dirty_le d (Dirty_Guild i d)" "dirty_le d (Dirty_Reactor i d)"
  "dirty_le d (Dirty_Provider i d)" "dirty_le d (Dirty_Substation i d)"
  "dirty_le d (Dirty_GridObject i d)" "dirty_le d (Dirty_NativeAddress i d)"
  "dirty_le d (Dirty_NativeReactor i d)"
  by (simp_all add: dirty_le_def Dirty_Address_def Dirty_Player_def Dirty_Guild_def
      Dirty_Reactor_def Dirty_Provider_def Dirty_Substation_def Dirty_GridObject_def
      Dirty_NativeAddress_def Dirty_NativeReactor_def add_id_mono)

lemma Dirty_Ledger_row_le: "dirty_le d (Dirty_Ledger_row row d)"
  by (auto simp: Dirty_Ledger_row_def Let_def intro: dirty_le_trans dirty_mark_le)

lemma Dirty_Ledger_le: "dirty_le d (Dirty_Ledger rows d)"
  unfolding Dirty_Ledger_def
  by (induction rows arbitrary: d) (auto intro: dirty_le_trans Dirty_Ledger_row_le)

lemma Dirty_Ledger_row_marks:
  "d_addresses (Dirty_Ledger_row row d) = add_id (lr_address row) (d_addresses d)"
  "d_guilds (Dirty_Ledger_row row d) =
     d_guilds d \<union> {g. g \<noteq> [] \<and> lr_denom row = guild_prefix @ g \<and> guild_supply_action (lr_action row)}"
proof -
  show "d_addresses (Dirty_Ledger_row row d) = add_id (lr_address row) (d_addresses d)"
    by (simp add: Dirty_Ledger_row_def Dirty_Address_def Dirty_Guild_def Let_def)
  show "d_guilds (Dirty_Ledger_row row d) =
     d_guilds d \<union> {g. g \<noteq> [] \<and> lr_denom row = guild_prefix @ g \<and> guild_supply_action (lr_action row)}"
  proof (cases "length guild_prefix < length (lr_denom row) \<and>
      take (length guild_prefix) (lr_denom row) = guild_prefix")
    case True
    then obtain g where g: "lr_denom row = guild_prefix @ g" "g \<noteq> []"
      by (metis append_take_drop_id append_Nil2 less_irrefl)
    then show ?thesis
      by (auto simp: Dirty_Ledger_row_def Dirty_Address_def Dirty_Guild_def Let_def add_id_def)
  next
    case False
    then have "\<not> (g \<noteq> [] \<and> lr_denom row = guild_prefix @ g)" for g by auto
    with False show ?thesis
      by (auto simp: Dirty_Ledger_row_def Dirty_Address_def Let_def)
  qed
qed

text \<open>
  Marking the buffered ledger rows reaches every projection that depends on them:
  every non-empty address of a row is dirty afterwards, every guild whose token supply a
  genesis, mint or burn row changed is dirty, and no other guild is added.
\<close>

theorem dirty_ledger_covers:
  "d_addresses (Dirty_Ledger rows d) = d_addresses d \<union> (lr_address ` set rows - {[]}) \<and>
   d_guilds (Dirty_Ledger rows d) =
     d_guilds d \<union> {g. g \<noteq> [] \<and> (\<exists>row \<in> set rows. lr_denom row = guild_prefix @ g \<and>
                                   guild_supply_action (lr_action row))}"
proof (induction rows arbitrary: d)
  case Nil
  show ?case by (simp add: Dirty_Ledger_def)
next
  case (Cons row rows)
  have "Dirty_Ledger (row # rows) d = Dirty_Ledger rows (Dirty_Ledger_row row d)"
    by (simp add: Dirty_Ledger_def)
  then show ?case
    using Cons [of "Dirty_Ledger_row row d"]
    by (auto simp: Dirty_Ledger_row_marks add_id_def)
qed

lemma dirty_restore_snapshot:
  "d_inventory d = None \<Longrightarrow> Dirty_Restore (Dirty_Snapshot d) e = d"
  by (cases d) (simp add: Dirty_Restore_def Dirty_Snapshot_def)

lemma dirty_merge_le: "dirty_le d (Dirty_Merge other d)"
  by (simp add: dirty_le_def Dirty_Merge_def)

end
