(* ===== verification/Struct_Type.thy ===== *)
theory Struct_Type
  imports Payload
begin

text \<open>
  \<open>internal/payload/struct_type.go\<close>: the struct-type payload.  Its 69 fields are grouped
  into the records below in the order of the Go struct; the primary and the secondary
  weapon share one record and one decoder, whose JSON names differ in the prefix.
\<close>

definition jbool_field :: "string \<Rightarrow> (string \<times> json) list \<Rightarrow> bool res" where
  "jbool_field name obj = field name JSONBool False obj"

record pWeapon =
  Weapon_Name :: string
  Weapon_Control :: string
  Weapon_Charge :: int
  Weapon_Ambits :: int
  Weapon_Targets :: int
  Weapon_Shots :: int
  Weapon_Damage :: int
  Weapon_Blockable :: bool
  Weapon_Counterable :: bool
  Weapon_ArmourPiercing :: bool
  Weapon_RecoilDamage :: int
  Weapon_ShotSuccessRateNumerator :: int
  Weapon_ShotSuccessRateDenominator :: int

definition decode_Weapon :: "string \<Rightarrow> (string \<times> json) list \<Rightarrow> pWeapon res" where
  "decode_Weapon prefix obj =
     bindR (text_field prefix obj) (\<lambda>v0.
     bindR (text_field (prefix @ ''Control'') obj) (\<lambda>v1.
     bindR (int_field (prefix @ ''Charge'') obj) (\<lambda>v2.
     bindR (int_field (prefix @ ''Ambits'') obj) (\<lambda>v3.
     bindR (int_field (prefix @ ''Targets'') obj) (\<lambda>v4.
     bindR (int_field (prefix @ ''Shots'') obj) (\<lambda>v5.
     bindR (int_field (prefix @ ''Damage'') obj) (\<lambda>v6.
     bindR (jbool_field (prefix @ ''Blockable'') obj) (\<lambda>v7.
     bindR (jbool_field (prefix @ ''Counterable'') obj) (\<lambda>v8.
     bindR (jbool_field (prefix @ ''ArmourPiercing'') obj) (\<lambda>v9.
     bindR (int_field (prefix @ ''RecoilDamage'') obj) (\<lambda>v10.
     bindR (int_field (prefix @ ''ShotSuccessRateNumerator'') obj) (\<lambda>v11.
     bindR (int_field (prefix @ ''ShotSuccessRateDenominator'') obj) (\<lambda>v12.
     Inr \<lparr>Weapon_Name = v0, Weapon_Control = v1, Weapon_Charge = v2,
       Weapon_Ambits = v3, Weapon_Targets = v4, Weapon_Shots = v5,
       Weapon_Damage = v6, Weapon_Blockable = v7, Weapon_Counterable = v8,
       Weapon_ArmourPiercing = v9, Weapon_RecoilDamage = v10, Weapon_ShotSuccessRateNumerator = v11,
       Weapon_ShotSuccessRateDenominator = v12\<rparr>)))))))))))))"

record pStructKind =
  StructKind_ID :: int
  StructKind_Type :: string
  StructKind_Category :: string
  StructKind_Class :: string
  StructKind_ClassAbbreviation :: string
  StructKind_DefaultCosmeticModelNumber :: string
  StructKind_DefaultCosmeticName :: string

definition decode_StructKind :: "(string \<times> json) list \<Rightarrow> pStructKind res" where
  "decode_StructKind obj =
     bindR (int_field ''id'' obj) (\<lambda>v0.
     bindR (text_field ''type'' obj) (\<lambda>v1.
     bindR (text_field ''category'' obj) (\<lambda>v2.
     bindR (text_field ''class'' obj) (\<lambda>v3.
     bindR (text_field ''classAbbreviation'' obj) (\<lambda>v4.
     bindR (text_field ''defaultCosmeticModelNumber'' obj) (\<lambda>v5.
     bindR (text_field ''defaultCosmeticName'' obj) (\<lambda>v6.
     Inr \<lparr>StructKind_ID = v0, StructKind_Type = v1,
       StructKind_Category = v2, StructKind_Class = v3,
       StructKind_ClassAbbreviation = v4, StructKind_DefaultCosmeticModelNumber = v5,
       StructKind_DefaultCosmeticName = v6\<rparr>)))))))"

record pStructBody =
  StructBody_BuildLimit :: int
  StructBody_BuildDifficulty :: "64 word"
  StructBody_BuildDraw :: int
  StructBody_MaxHealth :: int
  StructBody_PassiveDraw :: int
  StructBody_PossibleAmbit :: int
  StructBody_Movable :: bool
  StructBody_SlotBound :: bool

definition decode_StructBody :: "(string \<times> json) list \<Rightarrow> pStructBody res" where
  "decode_StructBody obj =
     bindR (int_field ''buildLimit'' obj) (\<lambda>v0.
     bindR (uint_field ''buildDifficulty'' obj) (\<lambda>v1.
     bindR (int_field ''buildDraw'' obj) (\<lambda>v2.
     bindR (int_field ''maxHealth'' obj) (\<lambda>v3.
     bindR (int_field ''passiveDraw'' obj) (\<lambda>v4.
     bindR (int_field ''possibleAmbit'' obj) (\<lambda>v5.
     bindR (jbool_field ''movable'' obj) (\<lambda>v6.
     bindR (jbool_field ''slotBound'' obj) (\<lambda>v7.
     Inr \<lparr>StructBody_BuildLimit = v0, StructBody_BuildDifficulty = v1,
       StructBody_BuildDraw = v2, StructBody_MaxHealth = v3,
       StructBody_PassiveDraw = v4, StructBody_PossibleAmbit = v5,
       StructBody_Movable = v6, StructBody_SlotBound = v7\<rparr>))))))))"

record pStructSystems =
  StructSystems_PassiveWeaponry :: string
  StructSystems_UnitDefenses :: string
  StructSystems_OreReserveDefenses :: string
  StructSystems_PlanetaryDefenses :: string
  StructSystems_PlanetaryMining :: string
  StructSystems_PlanetaryRefinery :: string
  StructSystems_PowerGeneration :: string

definition decode_StructSystems :: "(string \<times> json) list \<Rightarrow> pStructSystems res" where
  "decode_StructSystems obj =
     bindR (text_field ''passiveWeaponry'' obj) (\<lambda>v0.
     bindR (text_field ''unitDefenses'' obj) (\<lambda>v1.
     bindR (text_field ''oreReserveDefenses'' obj) (\<lambda>v2.
     bindR (text_field ''planetaryDefenses'' obj) (\<lambda>v3.
     bindR (text_field ''planetaryMining'' obj) (\<lambda>v4.
     bindR (text_field ''planetaryRefinery'' obj) (\<lambda>v5.
     bindR (text_field ''powerGeneration'' obj) (\<lambda>v6.
     Inr \<lparr>StructSystems_PassiveWeaponry = v0, StructSystems_UnitDefenses = v1,
       StructSystems_OreReserveDefenses = v2, StructSystems_PlanetaryDefenses = v3,
       StructSystems_PlanetaryMining = v4, StructSystems_PlanetaryRefinery = v5,
       StructSystems_PowerGeneration = v6\<rparr>)))))))"

record pStructCharges =
  StructCharges_ActivateCharge :: int
  StructCharges_BuildCharge :: int
  StructCharges_DefendChangeCharge :: int
  StructCharges_MoveCharge :: int
  StructCharges_StealthActivateCharge :: int

definition decode_StructCharges :: "(string \<times> json) list \<Rightarrow> pStructCharges res" where
  "decode_StructCharges obj =
     bindR (int_field ''activateCharge'' obj) (\<lambda>v0.
     bindR (int_field ''buildCharge'' obj) (\<lambda>v1.
     bindR (int_field ''defendChangeCharge'' obj) (\<lambda>v2.
     bindR (int_field ''moveCharge'' obj) (\<lambda>v3.
     bindR (int_field ''stealthActivateCharge'' obj) (\<lambda>v4.
     Inr \<lparr>StructCharges_ActivateCharge = v0, StructCharges_BuildCharge = v1,
       StructCharges_DefendChangeCharge = v2, StructCharges_MoveCharge = v3,
       StructCharges_StealthActivateCharge = v4\<rparr>)))))"

record pStructCombat =
  StructCombat_AttackReduction :: int
  StructCombat_AttackCounterable :: bool
  StructCombat_StealthSystems :: bool
  StructCombat_CounterAttack :: int
  StructCombat_CounterAttackSameAmbit :: int
  StructCombat_PostDestructionDamage :: int
  StructCombat_GeneratingRate :: int
  StructCombat_PlanetaryShieldContribution :: int
  StructCombat_OreMiningDifficulty :: "64 word"
  StructCombat_OreRefiningDifficulty :: "64 word"

definition decode_StructCombat :: "(string \<times> json) list \<Rightarrow> pStructCombat res" where
  "decode_StructCombat obj =
     bindR (int_field ''attackReduction'' obj) (\<lambda>v0.
     bindR (jbool_field ''attackCounterable'' obj) (\<lambda>v1.
     bindR (jbool_field ''stealthSystems'' obj) (\<lambda>v2.
     bindR (int_field ''counterAttack'' obj) (\<lambda>v3.
     bindR (int_field ''counterAttackSameAmbit'' obj) (\<lambda>v4.
     bindR (int_field ''postDestructionDamage'' obj) (\<lambda>v5.
     bindR (int_field ''generatingRate'' obj) (\<lambda>v6.
     bindR (int_field ''planetaryShieldContribution'' obj) (\<lambda>v7.
     bindR (uint_field ''oreMiningDifficulty'' obj) (\<lambda>v8.
     bindR (uint_field ''oreRefiningDifficulty'' obj) (\<lambda>v9.
     Inr \<lparr>StructCombat_AttackReduction = v0, StructCombat_AttackCounterable = v1,
       StructCombat_StealthSystems = v2, StructCombat_CounterAttack = v3,
       StructCombat_CounterAttackSameAmbit = v4, StructCombat_PostDestructionDamage = v5,
       StructCombat_GeneratingRate = v6, StructCombat_PlanetaryShieldContribution = v7,
       StructCombat_OreMiningDifficulty = v8, StructCombat_OreRefiningDifficulty = v9\<rparr>))))))))))"

record pStructOdds =
  StructOdds_UnguidedDefensiveSuccessRateNumerator :: int
  StructOdds_UnguidedDefensiveSuccessRateDenominator :: int
  StructOdds_GuidedDefensiveSuccessRateNumerator :: int
  StructOdds_GuidedDefensiveSuccessRateDenominator :: int
  StructOdds_TriggerRaidDefeatByDestruction :: bool
  StructOdds_CanDefend :: bool

definition decode_StructOdds :: "(string \<times> json) list \<Rightarrow> pStructOdds res" where
  "decode_StructOdds obj =
     bindR (int_field ''unguidedDefensiveSuccessRateNumerator'' obj) (\<lambda>v0.
     bindR (int_field ''unguidedDefensiveSuccessRateDenominator'' obj) (\<lambda>v1.
     bindR (int_field ''guidedDefensiveSuccessRateNumerator'' obj) (\<lambda>v2.
     bindR (int_field ''guidedDefensiveSuccessRateDenominator'' obj) (\<lambda>v3.
     bindR (jbool_field ''triggerRaidDefeatByDestruction'' obj) (\<lambda>v4.
     bindR (jbool_field ''canDefend'' obj) (\<lambda>v5.
     Inr \<lparr>StructOdds_UnguidedDefensiveSuccessRateNumerator = v0, StructOdds_UnguidedDefensiveSuccessRateDenominator = v1,
       StructOdds_GuidedDefensiveSuccessRateNumerator = v2, StructOdds_GuidedDefensiveSuccessRateDenominator = v3,
       StructOdds_TriggerRaidDefeatByDestruction = v4, StructOdds_CanDefend = v5\<rparr>))))))"

record pStructType =
  StructType_Kind :: pStructKind
  StructType_Body :: pStructBody
  StructType_Primary :: pWeapon
  StructType_Secondary :: pWeapon
  StructType_Systems :: pStructSystems
  StructType_Charges :: pStructCharges
  StructType_Combat :: pStructCombat
  StructType_Odds :: pStructOdds

definition decode_StructType :: "(string \<times> json) list \<Rightarrow> pStructType res" where
  "decode_StructType obj =
     bindR (decode_StructKind obj) (\<lambda>k.
     bindR (decode_StructBody obj) (\<lambda>body.
     bindR (decode_Weapon ''primaryWeapon'' obj) (\<lambda>w1.
     bindR (decode_Weapon ''secondaryWeapon'' obj) (\<lambda>w2.
     bindR (decode_StructSystems obj) (\<lambda>sys.
     bindR (decode_StructCharges obj) (\<lambda>ch.
     bindR (decode_StructCombat obj) (\<lambda>co.
     bindR (decode_StructOdds obj) (\<lambda>odds.
     Inr \<lparr>StructType_Kind = k, StructType_Body = body, StructType_Primary = w1, StructType_Secondary = w2,
       StructType_Systems = sys, StructType_Charges = ch, StructType_Combat = co, StructType_Odds = odds\<rparr>))))))))"

definition IsCommand :: "pStructType \<Rightarrow> bool" where
  "IsCommand p \<longleftrightarrow> StructKind_Class (StructType_Kind p) = ''Command Ship''"

end
