(* ===== verification/Store.thy ===== *)
theory Store
  imports Complex_Main Buffers Dirty Payload_Types Struct_Type Rpc_Events
begin

text \<open>
  The database as the code sees it through \<open>pgx.Tx\<close>, and the state a block is applied in.

  Tables are association lists from their primary key to the columns the code reads or
  writes (maintenance timestamps set to \<open>NOW()\<close>, triggers and generated columns are not
  modelled: their definitions are not in this repository's Go code).  A SQL statement
  is an atomic step \<open>sql\<close>: it fails without effect when the transaction is aborted or
  when the fault schedule says so, and then aborts the transaction.  The schedule stands
  for every reason a statement can fail (a lost connection, a serialization conflict, a
  constraint or type violation), so a theorem about all schedules covers all of them.
  A savepoint is a copy of the database; rolling back to it restores the copy and clears
  the aborted flag.

  Text columns that every writer fills from a Go \<open>string\<close> are never null here; columns
  the code scans into a pointer, or binds \<open>nil\<close> to, are options.
\<close>

section \<open>Keyed tables\<close>

type_synonym ('k, 'r) table = "('k \<times> 'r) list"

definition tbl_get :: "('k, 'r) table \<Rightarrow> 'k \<Rightarrow> 'r option" where
  "tbl_get t k = map_of t k"

definition tbl_filter :: "('k \<Rightarrow> 'r \<Rightarrow> bool) \<Rightarrow> ('k, 'r) table \<Rightarrow> ('k, 'r) table" where
  "tbl_filter P t = filter (\<lambda>(k, r). P k r) t"

definition tbl_del :: "'k \<Rightarrow> ('k, 'r) table \<Rightarrow> ('k, 'r) table" where
  "tbl_del k t = filter (\<lambda>p. fst p \<noteq> k) t"

definition tbl_put :: "'k \<Rightarrow> 'r \<Rightarrow> ('k, 'r) table \<Rightarrow> ('k, 'r) table" where
  "tbl_put k r t = tbl_del k t @ [(k, r)]"

definition tbl_ok :: "('k, 'r) table \<Rightarrow> bool" where
  "tbl_ok t \<longleftrightarrow> distinct (map fst t)"

lemma tbl_get_del [simp]: "tbl_get (tbl_del k t) k' = (if k' = k then None else tbl_get t k')"
  by (induction t) (auto simp: tbl_get_def tbl_del_def)

lemma tbl_get_put [simp]: "tbl_get (tbl_put k r t) k' = (if k' = k then Some r else tbl_get t k')"
  using tbl_get_del [of k t k']
  by (auto simp: tbl_put_def tbl_get_def map_add_def split: option.splits)

lemma tbl_get_Nil [simp]: "tbl_get [] k = None"
  by (simp add: tbl_get_def)

lemma tbl_get_Cons [simp]: "tbl_get ((k, r) # t) k' = (if k' = k then Some r else tbl_get t k')"
  by (simp add: tbl_get_def)

lemma tbl_get_filter:
  "tbl_ok t \<Longrightarrow> tbl_get (tbl_filter P t) k =
     (case tbl_get t k of None \<Rightarrow> None | Some r \<Rightarrow> if P k r then Some r else None)"
  unfolding tbl_ok_def tbl_get_def tbl_filter_def
  by (induction t) (auto simp: map_of_eq_None_iff split: option.splits dest: map_of_SomeD)

lemma tbl_ok_ops [simp]:
  "tbl_ok t \<Longrightarrow> tbl_ok (tbl_filter P t)" "tbl_ok t \<Longrightarrow> tbl_ok (tbl_del k t)"
  "tbl_ok t \<Longrightarrow> tbl_ok (tbl_put k r t)"
  by (auto simp: tbl_ok_def tbl_filter_def tbl_del_def tbl_put_def distinct_map inj_on_filter_key_eq
      intro: distinct_filter inj_on_subset)

section \<open>Rows\<close>

record permission_row =
  pm_object_type :: string
  pm_object_index :: string
  pm_object_id :: "string option"
  pm_player_id :: "string option"
  pm_val :: int

record grid_row =
  gr_attribute_type :: "string option"
  gr_object_type :: "string option"
  gr_object_index :: int
  gr_object_id :: string
  gr_val :: "64 word"

record struct_attribute_row =
  sa_object_id :: string
  sa_object_type :: "string option"
  sa_sub_index :: int
  sa_attribute_type :: "string option"
  sa_val :: "64 word"

record planet_attribute_row =
  pa_object_id :: string
  pa_object_type :: "string option"
  pa_attribute_type :: "string option"
  pa_val :: "64 word"

record defender_row =
  df_protected :: string
  df_is_planetary :: bool

record struct_row =
  st_index :: int
  st_type :: int
  st_creator :: string
  st_owner :: string
  st_location_type :: string
  st_location_id :: string
  st_ambit :: string
  st_slot :: int
  st_is_destroyed :: bool
  st_destroyed_block :: "int option"

record infusion_row =
  in_destination_type :: string
  in_player_id :: string
  in_fuel :: "64 word"
  in_defusing :: "64 word"
  in_power :: "64 word"
  in_ratio :: "64 word"
  in_commission :: "string option"
  in_owner_id :: "string option"
  in_generator_disabled :: bool

record event_position =
  ep_height :: int
  ep_phase :: "int option"
  ep_tx :: int
  ep_event :: int

record vault_row =
  va_address :: string
  va_account_number :: "64 word"
  va_account_created :: "bool option"

record diversity_row =
  dv_power :: string
  dv_squared_power :: string
  dv_applied_bonus :: "64 word"

record commission_row =
  cm_slash_revision :: "64 word"
  cm_reconciled :: "64 word"

record stake_cap_row =
  sc_active :: bool
  sc_cap_bps :: "64 word"
  sc_min_validators :: "64 word"

record agreement_row =
  ag_provider_id :: "string option"
  ag_allocation_id :: "string option"
  ag_capacity :: int
  ag_start_block :: int
  ag_end_block :: int
  ag_creator :: string
  ag_owner :: string

record allocation_row =
  al_type :: string
  al_source_id :: string
  al_index :: int
  al_destination_id :: string
  al_creator :: string
  al_controller :: string

record provider_row =
  pv_index :: int
  pv_substation_id :: string
  pv_rate_amount :: "string option"
  pv_rate_denom :: string
  pv_access_policy :: string
  pv_capacity_minimum :: "string option"
  pv_capacity_maximum :: "string option"
  pv_duration_minimum :: "string option"
  pv_duration_maximum :: "string option"
  pv_provider_penalty :: "string option"
  pv_consumer_penalty :: "string option"
  pv_creator :: string
  pv_owner :: string

record reactor_row =
  re_validator :: "string option"
  re_guild_id :: string
  re_default_commission :: "string option"
  re_owner :: string

record substation_row =
  sb_owner :: string
  sb_creator :: string
  sb_name :: string
  sb_pfp :: string
  sb_deletion_pending :: bool
  sb_migration_id :: string

record guild_row =
  gu_index :: int
  gu_endpoint :: string
  gu_join_minimum :: "64 word"
  gu_bypass_request :: string
  gu_bypass_invite :: string
  gu_primary_reactor :: string
  gu_entry_substation :: string
  gu_entry_rank :: "64 word"
  gu_creator :: string
  gu_owner :: "string option"
  gu_name :: string
  gu_pfp :: string
  gu_convert_in_fee :: "string option"
  gu_convert_out_fee :: "string option"
  gu_charter_solver :: string
  gu_rank_base_price :: "64 word"
  gu_rank_step_increase :: "64 word"
  gu_rank_minimum :: "64 word"
  gu_rank_join_enabled :: bool

record player_row =
  pl_index :: int
  pl_creator :: string
  pl_primary_address :: string
  pl_guild_id :: "string option"
  pl_substation_id :: "string option"
  pl_planet_id :: string
  pl_fleet_id :: string
  pl_guild_rank :: "64 word"
  pl_username :: string
  pl_pfp :: string
  pl_render_attributes :: string

record planet_row =
  pn_max_ore :: int
  pn_creator :: string
  pn_owner :: string
  pn_map :: string
  pn_slots :: "int \<times> int \<times> int \<times> int"
  pn_status :: string
  pn_list_start :: string
  pn_list_end :: string
  pn_name :: "string option"

record fleet_row =
  fl_owner :: string
  fl_map :: string
  fl_slots :: "int \<times> int \<times> int \<times> int"
  fl_location_type :: string
  fl_location_id :: string
  fl_status :: string
  fl_list_forward :: string
  fl_list_backward :: string
  fl_command_struct :: string

record struct_type_row =
  sp_fields :: pStructType
  sp_is_command :: bool

record player_address_row =
  ad_player_id :: "string option"
  ad_guild_id :: "string option"
  ad_status :: string

record address_activity_row =
  aa_player_id :: "string option"
  aa_height :: int
  aa_time :: int

record membership_row =
  ma_join_type :: string
  ma_status :: string
  ma_proposer :: string
  ma_substation_id :: string

record raid_row =
  rd_fleet_id :: "string option"
  rd_status :: "string option"
  rd_seized_ore :: "string option"

record native_row =
  ns_required :: int
  ns_source :: "int option"
  ns_bonded :: string
  ns_unbonding :: string
  ns_retry :: "int option"
  ns_receipts_pending :: bool
  ns_positions_complete :: bool

record native_position_row =
  np_bonded :: string
  np_unbonding :: string
  np_entries :: nat

record stored_defusion =
  sd_row :: defusion_row
  sd_reconciled :: "int option"
  sd_retired :: "int option"

text \<open>The \<open>sync_state\<close> bookkeeping tables, with \<open>structs.current_block\<close> and the
  notifications queued by \<open>pg_notify\<close>.\<close>

record cursor_row =
  cu_height :: int
  cu_hash :: "string option"
  cu_time :: "int option"
  cu_status :: "string option"
  cu_lag :: "int option"
  cu_tip :: "int option"

record block_log_row =
  bl_hash :: string
  bl_time :: int
  bl_txs :: nat
  bl_events :: nat
  bl_errors :: nat

record current_block_row =
  cb_height :: int
  cb_time :: int
  cb_status :: string
  cb_lag :: int
  cb_tip :: int

record coverage_row =
  cv_contract :: string
  cv_activation :: int
  cv_height :: int
  cv_hash :: string

record error_row =
  er_chain :: string
  er_height :: int
  er_tx :: "int option"
  er_msg :: "int option"
  er_event :: "int option"
  er_key :: string
  er_payload :: "string option"
  er_error :: string
  er_severity :: "string option"
  er_resolved_by :: "string option"

record unknown_row =
  uk_count :: nat
  uk_first :: int
  uk_last :: int
  uk_payload :: "string option"

record raw_block_row =
  rb_hash :: string
  rb_time :: int
  rb_proposer :: string
  rb_num_txs :: nat

record raw_tx_row =
  rt_chain :: string
  rt_height :: int
  rt_tx :: int
  rt_hash :: string
  rt_code :: int
  rt_gas :: "int option"
  rt_log :: string
  rt_json :: string

record raw_event_row =
  rv_chain :: string
  rv_height :: int
  rv_tx :: "int option"
  rv_event :: int
  rv_type :: string

record raw_attribute_row =
  ra_chain :: string
  ra_height :: int
  ra_tx :: "int option"
  ra_event :: int
  ra_key :: string
  ra_value :: string
  ra_composite :: string

record genesis_row =
  gn_source :: string
  gn_time :: int
  gn_sha256 :: string
  gn_sections :: "(string \<times> int) list"
  gn_total :: int

record sync_tables =
  sy_cursor :: "(string, cursor_row) table"
  sy_block_log :: "(string \<times> int, block_log_row) table"
  sy_current_block :: "(string, current_block_row) table"
  sy_coverage :: "(string, coverage_row) table"
  sy_errors :: "(nat \<times> error_row) list"
  sy_unknown :: "(string \<times> string, unknown_row) table"
  sy_raw_blocks :: "(string \<times> int, raw_block_row) table"
  sy_raw_txs :: "raw_tx_row list"
  sy_raw_events :: "raw_event_row list"
  sy_raw_attributes :: "raw_attribute_row list"
  sy_heartbeats :: "(int \<times> int) list"
  sy_genesis :: "(string, genesis_row) table"

text \<open>
  The projections \<open>structs.api_*\<close>.  An inventory balance is null when it is unknown;
  amounts are integers, the value of a guild token is a fraction.  \<open>api_work\<close> is written
  by a database function; its rows are kept as texts.
\<close>

record guild_bank_row =
  gb_denom :: string
  gb_collateral :: "int option"
  gb_supply :: "int option"

record player_board_row =
  pb_username :: string
  pb_guild_id :: "string option"
  pb_alpha_balance :: int
  pb_alpha_value :: "rat option"

record guild_board_row =
  bg_name :: "string option"
  bg_onchain_name :: string
  bg_player_count :: nat
  bg_collateral :: "int option"
  bg_supply :: "int option"
  bg_member_capacity :: int
  bg_member_load :: int
  bg_shared_capacity :: int

record provider_board_row =
  bp_owner :: string
  bp_rate_amount :: "string option"
  bp_rate_denom :: string
  bp_agreements :: nat

record substation_board_row =
  bs_owner :: string
  bs_load :: int
  bs_member_capacity :: int
  bs_shared_capacity :: int
  bs_player_count :: nat

record refresh_row =
  rs_height :: int
  rs_time :: "int option"
  rs_authority :: string

record api_tables =
  ap_inventory :: "(string \<times> string \<times> string, int option) table"
  ap_guild_bank :: "(string, guild_bank_row) table"
  ap_player :: "(string, player_board_row) table"
  ap_guild :: "(string, guild_board_row) table"
  ap_reactor :: "(string, int \<times> int) table"
  ap_provider :: "(string, provider_board_row) table"
  ap_substation :: "(string, substation_board_row) table"
  ap_work :: "string list"
  ap_refresh :: "(string, refresh_row) table"
  ap_drift :: "(int \<times> string \<times> string \<times> string) list option"

definition empty_api :: api_tables where
  "empty_api =
     \<lparr>ap_inventory = [], ap_guild_bank = [], ap_player = [], ap_guild = [], ap_reactor = [],
      ap_provider = [], ap_substation = [], ap_work = [], ap_refresh = [], ap_drift = None\<rparr>"

record tables =
  db_ledger :: "ledger_row list"
  db_defusion :: "stored_defusion list"
  db_native :: "(string \<times> string, native_row) table"
  db_sequence :: "(string, int) table"
  db_activity :: "(int \<times> activity_row) list"
  db_stats :: "(string, stat_row list) table"
  db_permission :: "(string, permission_row) table"
  db_player_address :: "(string, player_address_row) table"
  db_address_activity :: "(string, address_activity_row) table"
  db_address_tag :: "(string \<times> string, string) table"
  db_membership :: "(string \<times> string, membership_row) table"
  db_grid :: "(string, grid_row) table"
  db_struct_attribute :: "(string, struct_attribute_row) table"
  db_planet_attribute :: "(string, planet_attribute_row) table"
  db_defender :: "(string, defender_row) table"
  db_struct :: "(string, struct_row) table"
  db_fleet :: "(string, fleet_row) table"
  db_infusion :: "(string \<times> string, infusion_row) table"
  db_infusion_position :: "(string \<times> string, event_position) table"
  db_economy_position :: "(string \<times> string, event_position) table"
  db_vault :: "(string, vault_row) table"
  db_diversity :: "(string, diversity_row) table"
  db_commission :: "(string, commission_row) table"
  db_stake_cap :: "(unit, stake_cap_row) table"
  db_agreement :: "(string, agreement_row) table"
  db_allocation :: "(string, allocation_row) table"
  db_provider :: "(string, provider_row) table"
  db_reactor :: "(string, reactor_row) table"
  db_substation :: "(string, substation_row) table"
  db_guild :: "(string, guild_row) table"
  db_player :: "(string, player_row) table"
  db_planet :: "(string, planet_row) table"
  db_player_object :: "(string, string) table"
  db_planet_raid :: "(string, raid_row) table"
  db_guild_rank :: "(string \<times> string \<times> int, 64 word) table"
  db_struct_type :: "(int, struct_type_row) table"
  db_exposure :: "(string \<times> string \<times> string) list"
  db_invalidation :: "(string \<times> string, int) table"
  db_position :: "(string \<times> string \<times> string, native_position_row) table"
  db_sync :: sync_tables
  db_api :: api_tables

definition empty_sync :: sync_tables where
  "empty_sync =
     \<lparr>sy_cursor = [], sy_block_log = [], sy_current_block = [], sy_coverage = [], sy_errors = [],
      sy_unknown = [], sy_raw_blocks = [], sy_raw_txs = [], sy_raw_events = [],
      sy_raw_attributes = [], sy_heartbeats = [], sy_genesis = []\<rparr>"

definition empty_tables :: tables where
  "empty_tables =
     \<lparr>db_ledger = [], db_defusion = [], db_native = [], db_sequence = [], db_activity = [],
      db_stats = [], db_permission = [], db_player_address = [], db_address_activity = [],
      db_address_tag = [], db_membership = [], db_grid = [],
      db_struct_attribute = [], db_planet_attribute = [], db_defender = [], db_struct = [],
      db_fleet = [], db_infusion = [], db_infusion_position = [], db_economy_position = [],
      db_vault = [], db_diversity = [], db_commission = [], db_stake_cap = [],
      db_agreement = [], db_allocation = [], db_provider = [], db_reactor = [],
      db_substation = [], db_guild = [], db_player = [], db_planet = [],
      db_player_object = [], db_planet_raid = [], db_guild_rank = [],
      db_struct_type = [], db_exposure = [], db_invalidation = [], db_position = [],
      db_sync = empty_sync, db_api = empty_api\<rparr>"

section \<open>Transactions\<close>

record world =
  w_db :: tables
  w_buf :: buffer
  w_dirty :: dirty
  w_aborted :: bool
  w_clock :: nat
  w_fault :: "nat \<Rightarrow> goerror option"

definition tx_aborted :: goerror where
  "tx_aborted = GoErr [PgError ''25P02''] ''current transaction is aborted''"

definition no_rows :: goerror where
  "no_rows = GoErr [ErrNoRows] ''no rows in result set''"

definition tick :: "world \<Rightarrow> world" where
  "tick w = w\<lparr>w_clock := Suc (w_clock w)\<rparr>"

definition sql :: "(tables \<Rightarrow> 'a \<times> tables) \<Rightarrow> (world, 'a) op" where
  "sql f w =
     (if w_aborted w then (Inl tx_aborted, w)
      else case w_fault w (w_clock w) of
        Some e \<Rightarrow> (Inl e, (tick w)\<lparr>w_aborted := True\<rparr>)
      | None \<Rightarrow> (case f (w_db w) of (x, d) \<Rightarrow> (Inr x, (tick w)\<lparr>w_db := d\<rparr>)))"

definition exec :: "(tables \<Rightarrow> tables) \<Rightarrow> (world, unit) op" where
  "exec f = sql (\<lambda>d. ((), f d))"

definition query :: "(tables \<Rightarrow> 'a) \<Rightarrow> (world, 'a) op" where
  "query g = sql (\<lambda>d. (g d, d))"

text \<open>\<open>QueryRow(...).Scan\<close>: no row is \<open>pgx.ErrNoRows\<close>, and leaves the transaction usable.\<close>

definition query_row :: "(tables \<Rightarrow> 'a option) \<Rightarrow> (world, 'a) op" where
  "query_row g = bindO (query g) (\<lambda>v. case v of None \<Rightarrow> failO no_rows | Some x \<Rightarrow> returnO x)"

definition sql_row :: "(tables \<Rightarrow> 'a option \<times> tables) \<Rightarrow> (world, 'a) op" where
  "sql_row f = bindO (sql f) (\<lambda>v. case v of None \<Rightarrow> failO no_rows | Some x \<Rightarrow> returnO x)"

text \<open>\<open>if err != nil && !errors.Is(err, pgx.ErrNoRows)\<close>: no row is a value here.\<close>

definition query_opt :: "(tables \<Rightarrow> 'a option) \<Rightarrow> (world, 'a option) op" where
  "query_opt g = query g"

definition mark :: "(dirty \<Rightarrow> dirty) \<Rightarrow> (world, unit) op" where
  "mark f = modifyO (\<lambda>w. w\<lparr>w_dirty := f (w_dirty w)\<rparr>)"

definition push :: "(buffer \<Rightarrow> buffer) \<Rightarrow> (world, unit) op" where
  "push f = modifyO (\<lambda>w. w\<lparr>w_buf := f (w_buf w)\<rparr>)"

definition rollback_to :: "tables \<Rightarrow> world \<Rightarrow> world" where
  "rollback_to saved w =
     (case w_fault w (w_clock w) of
        Some e \<Rightarrow> (tick w)\<lparr>w_aborted := True\<rparr>
      | None \<Rightarrow> (tick w)\<lparr>w_db := saved, w_aborted := False\<rparr>)"

lemma sql_ok:
  "\<not> w_aborted w \<Longrightarrow> w_fault w (w_clock w) = None \<Longrightarrow> f (w_db w) = (x, d) \<Longrightarrow>
     sql f w = (Inr x, (tick w)\<lparr>w_db := d\<rparr>)"
  by (simp add: sql_def)

lemma sql_Inr:
  "sql f w = (Inr x, w') \<longleftrightarrow>
     \<not> w_aborted w \<and> w_fault w (w_clock w) = None \<and> x = fst (f (w_db w)) \<and>
     w' = (tick w)\<lparr>w_db := snd (f (w_db w))\<rparr>"
  by (auto simp: sql_def split: if_splits option.splits prod.splits)

lemma sql_Inl: "sql f w = (Inl e, w') \<Longrightarrow> w_aborted w' \<and> w_db w' = w_db w \<and> w_buf w' = w_buf w \<and> w_dirty w' = w_dirty w"
  by (auto simp: sql_def tick_def split: if_splits option.splits prod.splits)

lemma tick_simps [simp]:
  "w_db (tick w) = w_db w" "w_buf (tick w) = w_buf w" "w_dirty (tick w) = w_dirty w"
  "w_aborted (tick w) = w_aborted w" "w_clock (tick w) = Suc (w_clock w)"
  "w_fault (tick w) = w_fault w"
  by (simp_all add: tick_def)

text \<open>
  What any operation of the code can do to the state: it only appends to the buffer,
  only marks more entities, never changes the fault schedule, and never clears the
  aborted flag.
\<close>

definition grows :: "world \<Rightarrow> world \<Rightarrow> bool" where
  "grows w v \<longleftrightarrow> buffer_ext (w_buf w) (w_buf v) \<and> dirty_le (w_dirty w) (w_dirty v) \<and>
     w_fault v = w_fault w \<and> w_clock w \<le> w_clock v \<and> (w_aborted w \<longrightarrow> w_aborted v)"

lemma grows_refl [simp]: "grows w w"
  by (simp add: grows_def)

lemma grows_trans: "grows w v \<Longrightarrow> grows v u \<Longrightarrow> grows w u"
  unfolding grows_def
  by (elim conjE, intro conjI, erule (1) buffer_ext_trans, erule (1) dirty_le_trans) simp_all

interpretation world_grows: preorder_op grows
  by unfold_locales (simp, rule grows_trans)

lemma grows_sql: "keeps grows (sql f)"
  by (auto simp: keeps_def sql_def grows_def split: option.splits prod.splits)

lemma grows_exec: "keeps grows (exec f)"
  by (simp add: exec_def grows_sql)

lemma grows_query: "keeps grows (query g)"
  by (simp add: query_def grows_sql)

lemma grows_query_row: "keeps grows (query_row g)"
  unfolding query_row_def
  by (intro world_grows.keeps_bind grows_query world_grows.keeps_option
      world_grows.keeps_return world_grows.keeps_fail)

lemma grows_sql_row: "keeps grows (sql_row g)"
  unfolding sql_row_def
  by (intro world_grows.keeps_bind grows_sql world_grows.keeps_option
      world_grows.keeps_return world_grows.keeps_fail)

lemma grows_query_opt: "keeps grows (query_opt g)"
  by (simp add: query_opt_def grows_query)

lemma grows_mark: "(\<And>d. dirty_le d (f d)) \<Longrightarrow> keeps grows (mark f)"
  by (simp add: keeps_def mark_def grows_def)

lemma grows_push: "(\<And>b. buffer_ext b (f b)) \<Longrightarrow> keeps grows (push f)"
  by (simp add: keeps_def push_def grows_def)

lemmas grows_intros =
  world_grows.keeps_intros grows_exec grows_query grows_query_row grows_sql grows_sql_row
  grows_query_opt grows_mark grows_push

end
