(* ===== verification/Flush.thy ===== *)
theory Flush
  imports Store
begin

text \<open>
  \<open>Buffer.Flush\<close> of \<open>internal/buffers/buffer.go\<close> and \<open>ValidateExistingLedger\<close> of
  \<open>reconcile.go\<close>: writing the buffered rows to the database.

  Ledger and defusion rows are inserted with \<open>ON CONFLICT DO NOTHING\<close> in batches of 500;
  only rows that are really new yield an inventory delta, so flushing a replayed block
  changes nothing.  Planet activities take consecutive sequence numbers per planet.  The
  remaining tables are copied in order.
\<close>

section \<open>Insertion with \<open>ON CONFLICT DO NOTHING\<close>\<close>

fun insert_new :: "('r \<Rightarrow> 'k) \<Rightarrow> 'r list \<Rightarrow> 'r list \<Rightarrow> 'r list" where
  "insert_new key t [] = []"
| "insert_new key t (r # rs) =
     (if key r \<in> key ` set t then insert_new key t rs
      else r # insert_new key (t @ [r]) rs)"

lemma insert_new_append:
  "insert_new key t (rs @ ss) =
     insert_new key t rs @ insert_new key (t @ insert_new key t rs) ss"
  by (induction rs arbitrary: t) auto

lemma insert_new_keys:
  "key ` set (t @ insert_new key t rs) = key ` set t \<union> key ` set rs"
proof (induction rs arbitrary: t)
  case (Cons r rs)
  then show ?case
    using Cons.IH [of t] Cons.IH [of "t @ [r]"] by auto
qed simp

lemma insert_new_known: "key ` set rs \<subseteq> key ` set t \<Longrightarrow> insert_new key t rs = []"
  by (induction rs) auto

lemma insert_new_again: "insert_new key (t @ insert_new key t rs) rs = []"
  by (rule insert_new_known) (use insert_new_keys [of key t rs] in auto)

lemma insert_new_distinct:
  "distinct (map key t) \<Longrightarrow> distinct (map key (t @ insert_new key t rs))"
proof (induction rs arbitrary: t)
  case (Cons r rs)
  then show ?case using Cons.IH [of "t @ [r]"] by auto
qed simp

lemma insert_new_subset: "set (insert_new key t rs) \<subseteq> set rs"
proof (induction rs arbitrary: t)
  case (Cons r rs)
  then show ?case using Cons.IH [of t] Cons.IH [of "t @ [r]"] by auto
qed simp

lemma insert_new_fresh:
  "distinct (map key rs) \<Longrightarrow> key ` set rs \<inter> key ` set t = {} \<Longrightarrow> insert_new key t rs = rs"
  by (induction rs arbitrary: t) auto

section \<open>Ledger\<close>

definition batch_size :: nat where
  "batch_size = 500"

definition ledger_identity :: "ledger_row \<Rightarrow> int \<times> string \<times> int \<times> int \<times> int \<times> string" where
  "ledger_identity r = (lr_time r, lr_chain r, lr_tx r, lr_msg r, lr_event r, lr_denom r)"

text \<open>\<open>-amount_p::text\<close> of a decimal text in PostgreSQL's canonical form.\<close>

definition negate_text :: "string \<Rightarrow> string" where
  "negate_text s =
     (if take 1 s = ''-'' then drop 1 s
      else if list_all (\<lambda>c. c \<in> {CHR ''0'', CHR ''.''}) s then s
      else CHR ''-'' # s)"

definition ledger_delta_of :: "ledger_row \<Rightarrow> ledger_delta" where
  "ledger_delta_of r =
     \<lparr>ld_address = lr_address r, ld_denom = lr_denom r,
      ld_delta = (if lr_direction r = ''credit'' then lr_amount r else negate_text (lr_amount r))\<rparr>"

definition flushLedgerBatch :: "ledger_row list \<Rightarrow> (world, ledger_delta list) op" where
  "flushLedgerBatch rows =
     sql (\<lambda>d. let new = insert_new ledger_identity (db_ledger d) rows in
       (map ledger_delta_of new, d\<lparr>db_ledger := db_ledger d @ new\<rparr>))"

fun flush_batches :: "ledger_row list list \<Rightarrow> (world, ledger_delta list) op" where
  "flush_batches [] = returnO []"
| "flush_batches (b # bs) =
     bindO (flushLedgerBatch b) (\<lambda>ds. bindO (flush_batches bs) (\<lambda>es. returnO (ds @ es)))"

definition flushLedger :: "ledger_row list \<Rightarrow> (world, ledger_delta list) op" where
  "flushLedger rows = flush_batches (chunks batch_size rows)"

section \<open>Defusion receipts\<close>

definition defusion_identity :: "stored_defusion \<Rightarrow> string \<times> int \<times> int \<times> int \<times> string" where
  "defusion_identity s =
     (let r = sd_row s in (dr_chain r, dr_height r, dr_tx r, dr_event r, dr_denom r))"

definition new_receipt :: "defusion_row \<Rightarrow> stored_defusion" where
  "new_receipt r = \<lparr>sd_row = r, sd_reconciled = None, sd_retired = None\<rparr>"

definition new_native :: "int \<Rightarrow> native_row" where
  "new_native h =
     \<lparr>ns_required = h, ns_source = None, ns_bonded = [], ns_unbonding = [], ns_retry = None,
      ns_receipts_pending = False, ns_positions_complete = False\<rparr>"

text \<open>One group of the \<open>INSERT ... SELECT MAX(block_height) ... GROUP BY\<close>; folding the
  rows one by one takes the same maximum.\<close>

definition request_receipt ::
  "stored_defusion \<Rightarrow> (string \<times> string, native_row) table \<Rightarrow> (string \<times> string, native_row) table" where
  "request_receipt s t =
     (let r = sd_row s; k = (dr_chain r, dr_delegator r) in
      case tbl_get t k of
        None \<Rightarrow> tbl_put k ((new_native (dr_height r))\<lparr>ns_receipts_pending := True\<rparr>) t
      | Some n \<Rightarrow> tbl_put k (n\<lparr>ns_receipts_pending := True, ns_retry := None,
                    ns_required := max (ns_required n) (dr_height r)\<rparr>) t)"

definition flush_defusion_batch :: "defusion_row list \<Rightarrow> (world, unit) op" where
  "flush_defusion_batch rows =
     exec (\<lambda>d. let new = insert_new defusion_identity (db_defusion d) (map new_receipt rows) in
       d\<lparr>db_defusion := db_defusion d @ new,
         db_native := fold request_receipt new (db_native d)\<rparr>)"

definition flushDefusion :: "defusion_row list \<Rightarrow> (world, unit) op" where
  "flushDefusion rows =
     bindO (query (\<lambda>d. ())) (\<lambda>_. forO (chunks batch_size rows) flush_defusion_batch)"

section \<open>Planet activity\<close>

definition activity_planets :: "activity_row list \<Rightarrow> string list" where
  "activity_planets rows = sort (remdups (map ar_planet rows))"

definition planet_count :: "activity_row list \<Rightarrow> string \<Rightarrow> int" where
  "planet_count rows p = int (length (filter (\<lambda>r. ar_planet r = p) rows))"

definition bump_counter ::
  "activity_row list \<Rightarrow> string \<Rightarrow> (string, int) table \<Rightarrow> (string, int) table" where
  "bump_counter rows p t =
     (case tbl_get t p of
        None \<Rightarrow> tbl_put p (planet_count rows p - 1) t
      | Some c \<Rightarrow> tbl_put p (c + (planet_count rows p - 1) + 1) t)"

text \<open>The counters after the upsert, and the first reserved number of every planet.\<close>

definition reservePlanetActivitySequences ::
  "activity_row list \<Rightarrow> (world, string \<Rightarrow> int) op" where
  "reservePlanetActivitySequences rows =
     bindO (guardO (list_all (\<lambda>r. ar_planet r \<noteq> []) rows)
        (errorf ''planet activity: empty planet_id'')) (\<lambda>_.
     wrapO ''reserve planet activity sequences: ''
      (sql (\<lambda>d. let t = fold (bump_counter rows) (activity_planets rows) (db_sequence d) in
        (\<lambda>p. (case tbl_get t p of None \<Rightarrow> 0 | Some n \<Rightarrow> n - planet_count rows p + 1),
         d\<lparr>db_sequence := t\<rparr>))))"

fun assign_sequences ::
  "(string \<Rightarrow> int) \<Rightarrow> activity_row list \<Rightarrow> (int \<times> activity_row) list" where
  "assign_sequences start [] = []"
| "assign_sequences start (r # rs) =
     (start (ar_planet r), r)
       # assign_sequences (start(ar_planet r := start (ar_planet r) + 1)) rs"

definition flushPlanetActivity :: "activity_row list \<Rightarrow> (world, unit) op" where
  "flushPlanetActivity rows =
     bindO (reservePlanetActivitySequences rows) (\<lambda>start.
     exec (\<lambda>d. d\<lparr>db_activity := db_activity d @ assign_sequences start rows\<rparr>))"

section \<open>Statistics\<close>

definition stat_rows :: "bool \<Rightarrow> stat_row list \<Rightarrow> stat_row list" where
  "stat_rows withObjectType rows =
     (if withObjectType then rows else map (\<lambda>r. r\<lparr>sr_object_type := None\<rparr>) rows)"

definition flushStat :: "string \<Rightarrow> bool \<Rightarrow> stat_row list \<Rightarrow> (world, unit) op" where
  "flushStat tname withObjectType rows =
     exec (\<lambda>d. d\<lparr>db_stats := tbl_put tname
       ((case tbl_get (db_stats d) tname of None \<Rightarrow> [] | Some old \<Rightarrow> old)
          @ stat_rows withObjectType rows) (db_stats d)\<rparr>)"

definition flush_slice :: "'r list \<Rightarrow> ('r list \<Rightarrow> (world, unit) op) \<Rightarrow> (buffer \<Rightarrow> buffer) \<Rightarrow> (world, unit) op" where
  "flush_slice rows put reset =
     whenO (rows \<noteq> []) (bindO (put rows) (\<lambda>_. modifyO (\<lambda>w. w\<lparr>w_buf := reset (w_buf w)\<rparr>)))"

definition flush_ledger_slice :: "ledger_row list \<Rightarrow> (world, ledger_delta list) op" where
  "flush_ledger_slice rows =
     (if rows = [] then returnO []
      else bindO (flushLedger rows) (\<lambda>deltas.
           bindO (modifyO (\<lambda>w. w\<lparr>w_buf := (w_buf w)\<lparr>b_ledger := []\<rparr>\<rparr>)) (\<lambda>_. returnO deltas)))"

definition flush_stats :: "buffer \<Rightarrow> (world, unit) op" where
  "flush_stats b =
     bindO (flush_slice (b_ore b) (flushStat ''stat_ore'' True) (\<lambda>b. b\<lparr>b_ore := []\<rparr>)) (\<lambda>_.
     bindO (flush_slice (b_fuel b) (flushStat ''stat_fuel'' True) (\<lambda>b. b\<lparr>b_fuel := []\<rparr>)) (\<lambda>_.
     bindO (flush_slice (b_capacity b) (flushStat ''stat_capacity'' True) (\<lambda>b. b\<lparr>b_capacity := []\<rparr>)) (\<lambda>_.
     bindO (flush_slice (b_load b) (flushStat ''stat_load'' True) (\<lambda>b. b\<lparr>b_load := []\<rparr>)) (\<lambda>_.
     bindO (flush_slice (b_structs_load b) (flushStat ''stat_structs_load'' False) (\<lambda>b. b\<lparr>b_structs_load := []\<rparr>)) (\<lambda>_.
     bindO (flush_slice (b_power b) (flushStat ''stat_power'' True) (\<lambda>b. b\<lparr>b_power := []\<rparr>)) (\<lambda>_.
     bindO (flush_slice (b_connection_capacity b) (flushStat ''stat_connection_capacity'' False) (\<lambda>b. b\<lparr>b_connection_capacity := []\<rparr>)) (\<lambda>_.
     bindO (flush_slice (b_connection_count b) (flushStat ''stat_connection_count'' False) (\<lambda>b. b\<lparr>b_connection_count := []\<rparr>)) (\<lambda>_.
     bindO (flush_slice (b_struct_health b) (flushStat ''stat_struct_health'' False) (\<lambda>b. b\<lparr>b_struct_health := []\<rparr>)) (\<lambda>_.
     flush_slice (b_struct_status b) (flushStat ''stat_struct_status'' False) (\<lambda>b. b\<lparr>b_struct_status := []\<rparr>))))))))))"

definition Flush :: "(world, ledger_delta list) op" where
  "Flush =
     bindO (getO w_buf) (\<lambda>b.
     bindO (flush_ledger_slice (b_ledger b)) (\<lambda>deltas.
     bindO (flush_slice (b_defusion b) flushDefusion (\<lambda>b. b\<lparr>b_defusion := []\<rparr>)) (\<lambda>_.
     bindO (flush_slice (b_activity b) flushPlanetActivity (\<lambda>b. b\<lparr>b_activity := []\<rparr>)) (\<lambda>_.
     bindO (flush_stats b) (\<lambda>_. returnO deltas)))))"

text \<open>
  \<open>ValidateExistingLedger\<close>: the number of buffered rows whose identity is stored with
  different contents.  Amounts are compared as NUMERIC values; the model compares their
  canonical texts.
\<close>

definition ledger_mismatch :: "ledger_row list \<Rightarrow> ledger_row \<Rightarrow> nat" where
  "ledger_mismatch stored r =
     length (filter (\<lambda>s. ledger_identity s = ledger_identity r \<and> s \<noteq> r) stored)"

definition ValidateExistingLedger :: "(world, unit) op" where
  "ValidateExistingLedger =
     bindO (getO (b_ledger \<circ> w_buf)) (\<lambda>rows.
     if rows = [] then returnO ()
     else bindO (exec id) (\<lambda>_. bindO (exec id) (\<lambda>_.
       bindO (query (\<lambda>d. sum_list (map (ledger_mismatch (db_ledger d)) rows))) (\<lambda>mismatches.
       bindO (guardO (mismatches = 0) (errorf ''existing ledger rows disagree with the complete source block'')) (\<lambda>_.
       exec id)))))"

section \<open>What a flush guarantees\<close>

lemma flush_batches_result:
  assumes "flush_batches bs w = (Inr ds, w')"
  shows "ds = map ledger_delta_of (insert_new ledger_identity (db_ledger (w_db w)) (concat bs)) \<and>
         w_db w' = (w_db w)\<lparr>db_ledger := db_ledger (w_db w)
            @ insert_new ledger_identity (db_ledger (w_db w)) (concat bs)\<rparr> \<and>
         w_buf w' = w_buf w"
  using assms
proof (induction bs arbitrary: w ds)
  case (Cons b bs)
  let ?new = "insert_new ledger_identity (db_ledger (w_db w)) b"
  from Cons.prems obtain x w1 y where b: "flushLedgerBatch b w = (Inr x, w1)"
    and r: "flush_batches bs w1 = (Inr y, w')" and ds: "ds = x @ y"
    by (auto simp: bindO_Inr returnO_def)
  have w1: "x = map ledger_delta_of ?new" "w_db w1 = (w_db w)\<lparr>db_ledger := db_ledger (w_db w) @ ?new\<rparr>"
    "w_buf w1 = w_buf w"
    using b by (auto simp: flushLedgerBatch_def sql_Inr Let_def)
  from Cons.IH [OF r] w1 ds show ?case
    by (simp add: insert_new_append)
qed (simp add: returnO_def)

lemma flushLedger_result:
  assumes "flushLedger rows w = (Inr ds, w')"
  shows "ds = map ledger_delta_of (insert_new ledger_identity (db_ledger (w_db w)) rows) \<and>
         w_db w' = (w_db w)\<lparr>db_ledger := db_ledger (w_db w)
            @ insert_new ledger_identity (db_ledger (w_db w)) rows\<rparr> \<and>
         w_buf w' = w_buf w"
  using flush_batches_result [OF assms [unfolded flushLedger_def]]
  by (simp add: concat_chunks batch_size_def)

text \<open>
  C19: Flushing the ledger is idempotent and its batching is invisible: the deltas
  returned are those of exactly the rows whose replay identity was not stored yet, in
  order, however the rows are split into batches; stored identities stay unique; and
  flushing the same rows again returns no delta and changes no row.
\<close>

theorem ledger_flush_idempotent:
  assumes "flushLedger rows w = (Inr ds, w')"
    and "flushLedger rows v = (Inr es, v')" and "w_db v = w_db w'"
    and "distinct (map ledger_identity (db_ledger (w_db w)))"
  shows "ds = map ledger_delta_of (insert_new ledger_identity (db_ledger (w_db w)) rows) \<and>
         distinct (map ledger_identity (db_ledger (w_db w'))) \<and>
         ledger_identity ` set (db_ledger (w_db w')) =
           ledger_identity ` set (db_ledger (w_db w)) \<union> ledger_identity ` set rows \<and>
         es = [] \<and> w_db v' = w_db v"
proof -
  note one = flushLedger_result [OF assms(1)]
  note two = flushLedger_result [OF assms(2)]
  have led: "db_ledger (w_db w') = db_ledger (w_db w)
      @ insert_new ledger_identity (db_ledger (w_db w)) rows"
    using one by simp
  have "insert_new ledger_identity (db_ledger (w_db v)) rows = []"
    unfolding assms(3) led by (rule insert_new_again)
  then have "es = [] \<and> w_db v' = w_db v" using two by simp
  then show ?thesis
    using one insert_new_distinct [OF assms(4), of rows] insert_new_keys [of ledger_identity "db_ledger (w_db w)" rows]
    unfolding led by blast
qed

definition example_row :: ledger_row where
  "example_row =
     \<lparr>lr_address = ''a'', lr_counterparty = ''b'', lr_amount = ''5'', lr_height = 9, lr_time = 70,
      lr_action = ''sent'', lr_direction = ''debit'', lr_denom = ''ualpha'', lr_chain = ''c'',
      lr_tx = 0, lr_msg = -1, lr_event = 8\<rparr>"

definition example_world :: world where
  "example_world =
     \<lparr>w_db = empty_tables, w_buf = new_buffer, w_dirty = NewDirty, w_aborted = False,
      w_clock = 0, w_fault = (\<lambda>_. None)\<rparr>"

lemma chunks_one: "xs \<noteq> [] \<Longrightarrow> length xs \<le> n \<Longrightarrow> 0 < n \<Longrightarrow> chunks n xs = [xs]"
  by (simp add: chunks.simps [of n xs])

lemma example_flush:
  "flushLedger [example_row] example_world = (Inr [ledger_delta_of example_row],
     (tick example_world)\<lparr>w_db := empty_tables\<lparr>db_ledger := [example_row]\<rparr>\<rparr>)"
  "flushLedger [example_row] ((tick example_world)\<lparr>w_db := empty_tables\<lparr>db_ledger := [example_row]\<rparr>\<rparr>)
     = (Inr [], (tick (tick example_world))\<lparr>w_db := empty_tables\<lparr>db_ledger := [example_row]\<rparr>\<rparr>)"
  by (simp_all add: flushLedger_def chunks_one batch_size_def bindO_def flushLedgerBatch_def sql_def
      example_world_def empty_tables_def tick_def returnO_def)

theorem ledger_flush_idempotent_witness:
  "[ledger_delta_of example_row]
     = map ledger_delta_of (insert_new ledger_identity (db_ledger (w_db example_world)) [example_row])"
  using ledger_flush_idempotent [OF example_flush(1) example_flush(2)]
  by (simp add: example_world_def empty_tables_def)

subsection \<open>Activity sequences\<close>

definition planet_sequence :: "tables \<Rightarrow> string \<Rightarrow> int list" where
  "planet_sequence d p = map fst (filter (\<lambda>(s, r). ar_planet r = p) (db_activity d))"

definition sequences_ok :: "tables \<Rightarrow> bool" where
  "sequences_ok d \<longleftrightarrow> (\<forall>p. planet_sequence d p =
     (case tbl_get (db_sequence d) p of None \<Rightarrow> [] | Some c \<Rightarrow> map int [0..<nat (c + 1)]) \<and>
     (\<forall>c. tbl_get (db_sequence d) p = Some c \<longrightarrow> 0 \<le> c))"

lemma bump_counter_fold:
  assumes "distinct ps"
  shows "tbl_get (fold (bump_counter rows) ps t) p =
    (if p \<in> set ps then Some ((case tbl_get t p of None \<Rightarrow> -1 | Some c \<Rightarrow> c) + planet_count rows p)
     else tbl_get t p)"
  using assms
proof (induction ps arbitrary: t)
  case (Cons q ps)
  have "tbl_get (bump_counter rows q t) p =
      (if p = q then Some ((case tbl_get t p of None \<Rightarrow> -1 | Some c \<Rightarrow> c) + planet_count rows p)
       else tbl_get t p)" for p
    by (auto simp: bump_counter_def split: option.splits)
  then show ?case using Cons by auto
qed simp

lemma assign_sequences_planet:
  "map fst (filter (\<lambda>(s, r). ar_planet r = p) (assign_sequences start rows))
     = map (\<lambda>i. start p + int i) [0..<length (filter (\<lambda>r. ar_planet r = p) rows)]"
proof (induction rows arbitrary: start)
  case (Cons r rows)
  let ?n = "length (filter (\<lambda>r. ar_planet r = p) rows)"
  show ?case
  proof (cases "ar_planet r = p")
    case True
    have "map (\<lambda>i. start p + int i) [0..<Suc ?n] = start p # map (\<lambda>i. start p + 1 + int i) [0..<?n]"
      by (simp add: map_upt_Suc add.assoc del: upt_Suc)
    with True show ?thesis by (simp add: Cons.IH)
  qed (simp add: Cons.IH)
qed simp

lemma upt_shift: "0 \<le> c + 1 \<Longrightarrow>
   map int [0..<nat (c + 1)] @ map (\<lambda>i. c + 1 + int i) [0..<n] = map int [0..<nat (c + 1) + n]"
  by (rule nth_equalityI) (auto simp: nth_append)

text \<open>
  C21: Planet activities are numbered without gaps or repeats.  If the activities of every
  planet carry the numbers 0, 1, 2, ... in insertion order and the stored counter is the
  last one, then after flushing any batch of rows this is true again, for planets old and
  new alike.
\<close>

theorem activity_sequences_gapless:
  assumes "flushPlanetActivity rows w = (Inr (), w')"
    and "sequences_ok (w_db w)"
  shows "sequences_ok (w_db w') \<and>
         map snd (db_activity (w_db w')) = map snd (db_activity (w_db w)) @ rows"
proof -
  let ?t = "fold (bump_counter rows) (activity_planets rows) (db_sequence (w_db w))"
  define start where "start = (\<lambda>p. case tbl_get ?t p of None \<Rightarrow> 0 | Some n \<Rightarrow> n - planet_count rows p + 1)"
  have db: "w_db w' = (w_db w)\<lparr>db_sequence := ?t,
      db_activity := db_activity (w_db w) @ assign_sequences start rows\<rparr>"
    using assms(1)
    by (auto simp: flushPlanetActivity_def reservePlanetActivitySequences_def bindO_Inr guardO_case
        wrapO_Inr sql_Inr exec_def Let_def start_def)
  have planets: "set (activity_planets rows) = ar_planet ` set rows" "distinct (activity_planets rows)"
    by (auto simp: activity_planets_def)
  have t: "tbl_get ?t p = (if p \<in> ar_planet ` set rows
      then Some ((case tbl_get (db_sequence (w_db w)) p of None \<Rightarrow> -1 | Some c \<Rightarrow> c) + planet_count rows p)
      else tbl_get (db_sequence (w_db w)) p)" for p
    using bump_counter_fold [OF planets(2)] planets(1) by simp
  have "planet_sequence (w_db w') p =
      (case tbl_get ?t p of None \<Rightarrow> [] | Some c \<Rightarrow> map int [0..<nat (c + 1)]) \<and>
      (\<forall>c. tbl_get ?t p = Some c \<longrightarrow> 0 \<le> c)" for p
  proof -
    let ?old = "tbl_get (db_sequence (w_db w)) p"
    let ?c = "case ?old of None \<Rightarrow> -1 | Some c \<Rightarrow> c"
    let ?n = "length (filter (\<lambda>r. ar_planet r = p) rows)"
    have old: "planet_sequence (w_db w) p = map int [0..<nat (?c + 1)]" "0 \<le> ?c + 1"
      using assms(2) by (auto simp: sequences_ok_def split: option.splits)
    have new: "planet_sequence (w_db w') p =
        map int [0..<nat (?c + 1)] @ map (\<lambda>i. start p + int i) [0..<?n]"
      using old(1) assign_sequences_planet [of p start rows]
      by (simp add: db planet_sequence_def)
    show ?thesis
    proof (cases "p \<in> ar_planet ` set rows")
      case True
      then have tp: "tbl_get ?t p = Some (?c + int ?n)" using t by (simp add: planet_count_def)
      have "?n \<noteq> 0" using True by (auto simp: filter_empty_conv)
      then have pos: "0 \<le> ?c + int ?n" using old(2) by linarith
      have "start p = ?c + 1" using tp by (simp add: start_def planet_count_def)
      then have "planet_sequence (w_db w') p = map int [0..<nat (?c + 1) + ?n]"
        using new upt_shift [OF old(2)] by simp
      moreover have "nat (?c + 1) + ?n = nat (?c + int ?n + 1)" using old(2) by linarith
      ultimately show ?thesis using tp pos by simp
    next
      case False
      then have "?n = 0" by (auto simp: filter_empty_conv)
      then have "planet_sequence (w_db w') p = planet_sequence (w_db w) p"
        using new old(1) by simp
      then show ?thesis using False t assms(2) by (simp add: sequences_ok_def)
    qed
  qed
  then have "sequences_ok (w_db w')" by (simp add: sequences_ok_def db)
  moreover have "map snd (assign_sequences s rows) = rows" for s
    by (induction rows arbitrary: s) simp_all
  ultimately show ?thesis by (simp add: db)
qed

definition example_activity :: activity_row where
  "example_activity =
     \<lparr>ar_time = 7, ar_planet = ''2-1'', ar_category = ''raid'', ar_detail = ''{}'', ar_height = 9\<rparr>"

theorem activity_sequences_gapless_witness:
  "(let w = snd (flushPlanetActivity [example_activity, example_activity] example_world) in
     sequences_ok (w_db w) \<and>
     map snd (db_activity (w_db w)) = map snd (db_activity (w_db example_world)) @ [example_activity, example_activity])"
proof -
  have "fst (flushPlanetActivity [example_activity, example_activity] example_world) = Inr ()"
    by (simp add: flushPlanetActivity_def reservePlanetActivitySequences_def example_world_def
        example_activity_def guardO_def bindO_def wrapO_def sql_def exec_def tick_def Let_def)
  then have run: "flushPlanetActivity [example_activity, example_activity] example_world
      = (Inr (), snd (flushPlanetActivity [example_activity, example_activity] example_world))"
    by (metis prod.collapse)
  have "sequences_ok (w_db example_world)"
    by (simp add: sequences_ok_def planet_sequence_def example_world_def empty_tables_def)
  then show ?thesis unfolding Let_def by (rule activity_sequences_gapless [OF run])
qed

end
