(* ===== verification/Router.thy ===== *)
theory Router
  imports Store
begin

text \<open>
  \<open>internal/events/handler.go\<close>, \<open>errors.go\<close>, \<open>envelope.go\<close> and \<open>router.go\<close>, with
  \<open>internal/protocol/version.go\<close>: the context a handler sees, the dispatch table, the
  dispatch of one event with or without a savepoint, the accounting of unknown events,
  and the shape checks on whole events.

  A handler is an operation on the \<open>world\<close>.  The router's own counters are the record
  \<open>unknowns\<close>; its mutex and atomics have no counterpart, because dispatch is sequential.
  A panic is the error sentinel \<open>HandlerPanic\<close>: the deferred \<open>recover\<close> treats it like an
  error, after rolling undone.
\<close>

section \<open>Block context\<close>

definition V022TestnetHeight :: int where
  "V022TestnetHeight = 3353000"

definition V022Active :: "string \<Rightarrow> int \<Rightarrow> bool" where
  "V022Active chainID height \<longleftrightarrow> chainID = ''structstestnet-111'' \<and> V022TestnetHeight \<le> height"

record block_context =
  bc_chain :: string
  bc_height :: int
  bc_time :: int
  bc_tip :: int
  bc_phase :: phase
  bc_tx :: int
  bc_msg :: int
  bc_event :: int

definition bctx_V022Active :: "block_context \<Rightarrow> bool" where
  "bctx_V022Active b = V022Active (bc_chain b) (bc_height b)"

definition PositionPhase :: "block_context \<Rightarrow> phase" where
  "PositionPhase b = (if 0 \<le> bc_tx b then Transaction else bc_phase b)"

type_synonym handler = "block_context \<Rightarrow> string \<Rightarrow> (world, unit) op"

definition skip_warn :: "string \<Rightarrow> goerror" where
  "skip_warn msg = GoErr [ErrSkipWithWarn] (''skip with warn: '' @ msg)"

section \<open>The dispatch table\<close>

record router =
  rt_handlers :: "(string \<times> handler) list"
  rt_nested :: "(string \<times> string) list"
  rt_strict :: bool

definition event_prefix :: string where
  "event_prefix = ''structs.structs.''"

definition nested_attribute :: "string \<Rightarrow> (string \<times> string) list" where
  "nested_attribute key =
     (case cut_at (CHR ''.'') (trim_prefix key event_prefix) of
        None \<Rightarrow> []
      | Some (ev, attribute) \<Rightarrow> [(event_prefix @ ev, attribute)])"

definition add_handler :: "router \<Rightarrow> string \<times> handler \<Rightarrow> router res" where
  "add_handler r h =
     (if fst h \<in> fst ` set (rt_handlers r)
      then Inl (GoErr [HandlerPanic] ''duplicate handler for composite_key'')
      else Inr (r\<lparr>rt_handlers := rt_handlers r @ [h],
                  rt_nested := rt_nested r @ nested_attribute (fst h)\<rparr>))"

definition NewRouter :: "bool \<Rightarrow> (string \<times> handler) list \<Rightarrow> router res" where
  "NewRouter strictUnknown hs =
     foldR add_handler \<lparr>rt_handlers = [], rt_nested = [], rt_strict = strictUnknown\<rparr> hs"

definition Lookup :: "router \<Rightarrow> string \<Rightarrow> handler option" where
  "Lookup r key = map_of (rt_handlers r) key"

definition Handlers :: "router \<Rightarrow> (string \<times> handler) list" where
  "Handlers r = sort_key fst (rt_handlers r)"

definition Router_Count :: "router \<Rightarrow> nat" where
  "Router_Count r = length (rt_handlers r)"

section \<open>Unknown events\<close>

definition IgnoreUnknown :: "string \<Rightarrow> bool" where
  "IgnoreUnknown key \<longleftrightarrow>
     key = ''commission'' \<or> key = ''rewards'' \<or>
     has_prefix key ''commission.'' \<or> has_prefix key ''rewards.'' \<or>
     has_prefix key ''cosmos.'' \<or> has_prefix key ''ibc.''"

record unknown_delta =
  ud_count :: nat
  ud_first :: int
  ud_last :: int
  ud_sample :: string

record unknowns =
  un_counts :: "(string, nat) table"
  un_deltas :: "(string, unknown_delta) table"
  un_total :: nat

definition no_unknowns :: unknowns where
  "no_unknowns = \<lparr>un_counts = [], un_deltas = [], un_total = 0\<rparr>"

definition count_unknown :: "int \<Rightarrow> string \<Rightarrow> string \<Rightarrow> unknowns \<Rightarrow> unknowns" where
  "count_unknown height key raw u =
     (let n = (case tbl_get (un_counts u) key of None \<Rightarrow> 0 | Some n \<Rightarrow> n);
          d = (case tbl_get (un_deltas u) key of
                 None \<Rightarrow> \<lparr>ud_count = 0, ud_first = height, ud_last = height, ud_sample = []\<rparr>
               | Some d \<Rightarrow> d)
      in u\<lparr>un_counts := tbl_put key (Suc n) (un_counts u),
           un_deltas := tbl_put key
             \<lparr>ud_count = Suc (ud_count d),
              ud_first = (if height < ud_first d then height else ud_first d),
              ud_last = (if ud_last d < height then height else ud_last d),
              ud_sample = raw\<rparr> (un_deltas u),
           un_total := Suc (un_total u)\<rparr>)"

definition UnknownSummary :: "unknowns \<Rightarrow> nat \<times> (string, nat) table" where
  "UnknownSummary u = (un_total u, un_counts u)"

definition ResetUnknownSummary :: "unknowns \<Rightarrow> unknowns" where
  "ResetUnknownSummary u = u\<lparr>un_counts := [], un_total := 0\<rparr>"

definition DrainUnknownDeltas :: "unknowns \<Rightarrow> (string, unknown_delta) table \<times> unknowns" where
  "DrainUnknownDeltas u = (un_deltas u, u\<lparr>un_deltas := []\<rparr>)"

section \<open>Dispatch\<close>

datatype severity = SeverityError | SeverityWarn

record handler_error =
  he_key :: string
  he_payload :: string
  he_error :: string
  he_severity :: severity
  he_tx :: "int option"
  he_msg :: "int option"
  he_event :: "int option"

definition ptrIfNotNeg :: "int \<Rightarrow> int option" where
  "ptrIfNotNeg v = (if v < 0 then None else Some v)"

definition failure :: "block_context \<Rightarrow> string \<Rightarrow> string \<Rightarrow> string \<Rightarrow> severity \<Rightarrow> handler_error" where
  "failure b key raw err sev =
     \<lparr>he_key = key, he_payload = raw, he_error = err, he_severity = sev,
      he_tx = ptrIfNotNeg (bc_tx b), he_msg = ptrIfNotNeg (bc_msg b),
      he_event = ptrIfNotNeg (bc_event b)\<rparr>"

text \<open>A savepoint: the tables, the buffer lengths and the marks to go undone to.\<close>

record savepoint =
  sv_db :: tables
  sv_buf :: buffer_snapshot
  sv_dirty :: dirty

definition take_savepoint :: "world \<Rightarrow> savepoint" where
  "take_savepoint w =
     \<lparr>sv_db = w_db w, sv_buf = buffer_snapshot (w_buf w), sv_dirty = Dirty_Snapshot (w_dirty w)\<rparr>"

definition restore_memory :: "savepoint \<Rightarrow> world \<Rightarrow> world" where
  "restore_memory sv w =
     w\<lparr>w_buf := buffer_restore (sv_buf sv) (w_buf w), w_dirty := Dirty_Restore (sv_dirty sv) (w_dirty w)\<rparr>"

definition rollback_savepoint :: "savepoint \<Rightarrow> world \<Rightarrow> world" where
  "rollback_savepoint sv w = restore_memory sv (rollback_to (sv_db sv) w)"

text \<open>\<open>sp.Commit\<close>: releasing the savepoint is a statement; on failure memory is restored.\<close>

definition commit_savepoint :: "savepoint \<Rightarrow> (world, unit) op" where
  "commit_savepoint sv w =
     (case exec (\<lambda>d. d) w of
        (Inl e, w') \<Rightarrow> (Inl e, restore_memory sv w')
      | (Inr u, w') \<Rightarrow> (Inr u, w'))"

definition run_isolated ::
  "handler \<Rightarrow> block_context \<Rightarrow> string \<Rightarrow> string \<Rightarrow> world \<Rightarrow> handler_error option \<times> world" where
  "run_isolated h b key raw w =
     (let fail = (\<lambda>e sev. Some (failure b key raw (err_text e) sev)) in
      case exec (\<lambda>d. d) w of
        (Inl e, w1) \<Rightarrow> (fail (wrapf ''savepoint begin: '' e) SeverityError, w1)
      | (Inr _, w1) \<Rightarrow>
          (let sv = take_savepoint w1 in
           case h b raw w1 of
             (Inl e, w2) \<Rightarrow>
               if errors_Is e ErrSkipWithWarn then
                 (case commit_savepoint sv w2 of
                    (Inl c, w3) \<Rightarrow> (fail (wrapf ''savepoint commit after warn: '' c) SeverityError, w3)
                  | (Inr _, w3) \<Rightarrow> (fail e SeverityWarn, w3))
               else (fail e SeverityError, rollback_savepoint sv w2)
           | (Inr _, w2) \<Rightarrow>
               (case commit_savepoint sv w2 of
                  (Inl c, w3) \<Rightarrow> (fail (wrapf ''savepoint commit: '' c) SeverityError, w3)
                | (Inr _, w3) \<Rightarrow> (None, w3))))"

definition run_atomic ::
  "handler \<Rightarrow> block_context \<Rightarrow> string \<Rightarrow> string \<Rightarrow> world \<Rightarrow> handler_error option \<times> world" where
  "run_atomic h b key raw w =
     (let fail = (\<lambda>e sev. Some (failure b key raw (err_text e) sev)) in
      case h b raw w of
        (r, w1) \<Rightarrow>
          if w_aborted w1 \<and> (case r of Inr _ \<Rightarrow> True | Inl e \<Rightarrow> errors_Is e ErrSkipWithWarn)
          then (fail (errorf ''handler left transaction aborted'') SeverityError, w1)
          else (case r of
              Inl e \<Rightarrow> (fail e (if errors_Is e ErrSkipWithWarn then SeverityWarn else SeverityError), w1)
            | Inr _ \<Rightarrow> (None, w1)))"

definition dispatch ::
  "router \<Rightarrow> bool \<Rightarrow> block_context \<Rightarrow> string \<Rightarrow> string \<Rightarrow> unknowns \<times> world
     \<Rightarrow> handler_error option res \<times> unknowns \<times> world" where
  "dispatch r isolated b key raw st =
     (case st of (u, w) \<Rightarrow>
        (case Lookup r key of
           None \<Rightarrow>
             if IgnoreUnknown key then (Inr None, u, w)
             else (if rt_strict r then Inl (errorf ''strict-unknown-events: no handler'') else Inr None,
                   count_unknown (bc_height b) key raw u, w)
         | Some h \<Rightarrow>
             (case (if isolated then run_isolated h b key raw w else run_atomic h b key raw w) of
                (he, w') \<Rightarrow> (Inr he, u, w'))))"

definition Dispatch ::
  "router \<Rightarrow> block_context \<Rightarrow> string \<Rightarrow> string \<Rightarrow> unknowns \<times> world
     \<Rightarrow> handler_error option res \<times> unknowns \<times> world" where
  "Dispatch r b key raw st = dispatch r True b key raw st"

definition DispatchAtomic ::
  "router \<Rightarrow> block_context \<Rightarrow> string \<Rightarrow> string \<Rightarrow> unknowns \<times> world
     \<Rightarrow> handler_error option res \<times> unknowns \<times> world" where
  "DispatchAtomic r b key raw st = dispatch r False b key raw st"

section \<open>Event envelopes\<close>

fun envelope_fields :: "string \<Rightarrow> attribute list \<Rightarrow> (string \<times> json) list \<Rightarrow> (string \<times> json) list res" where
  "envelope_fields ty [] flds = Inr flds"
| "envelope_fields ty (a # as) flds =
     (if is_metadata (attr_key a) then envelope_fields ty as flds
      else if attr_key a \<in> fst ` set flds then Inl (errorf ''duplicate attribute'')
      else (case json_text (attr_value a) of
          None \<Rightarrow> Inl (errorf ''invalid typed JSON'')
        | Some v \<Rightarrow> envelope_fields ty as (flds @ [(attr_key a, v)])))"

definition Envelope :: "event \<Rightarrow> string res" where
  "Envelope ev =
     bindR (envelope_fields (ev_type ev) (ev_attributes ev) []) (\<lambda>flds.
     Inr (json_marshal (json_map flds)))"

text \<open>The composite key of the attribute at fault, with the error.\<close>

fun validate_nested :: "event \<Rightarrow> string list \<Rightarrow> string \<times> unit res" where
  "validate_nested ev [] = ([], Inr ())"
| "validate_nested ev (required # rest) =
     (if length (filter (\<lambda>a. attr_key a = required) (ev_attributes ev)) \<noteq> 1
      then (ev_type ev @ CHR ''.'' # required,
            Inl (errorf (ev_type ev @ CHR ''.'' # required @ '' requires exactly one payload attribute'')))
      else validate_nested ev rest)"

definition nested_required :: "router \<Rightarrow> string \<Rightarrow> string list" where
  "nested_required r ty = map snd (filter (\<lambda>p. fst p = ty) (rt_nested r))"

definition ValidateNestedEvent :: "router \<Rightarrow> event \<Rightarrow> string \<times> unit res" where
  "ValidateNestedEvent r ev = validate_nested ev (nested_required r (ev_type ev))"

section \<open>Properties\<close>

text \<open>The contract of a handler: it only appends to the buffer and only adds marks.\<close>

definition append_only :: "handler \<Rightarrow> bool" where
  "append_only h \<longleftrightarrow> (\<forall>b raw. keeps grows (h b raw))"

lemma exec_id:
  "exec (\<lambda>d. d) w = (Inr u, w') \<longleftrightarrow> \<not> w_aborted w \<and> w_fault w (w_clock w) = None \<and> w' = tick w"
  by (auto simp: exec_def sql_Inr)

lemma exec_id_Inl:
  "exec (\<lambda>d. d) w = (Inl e, w') \<Longrightarrow>
     w_aborted w' \<and> w_db w' = w_db w \<and> w_buf w' = w_buf w \<and> w_dirty w' = w_dirty w"
  by (simp add: exec_def sql_Inl)

lemma commit_savepoint_Inl:
  assumes "commit_savepoint sv w = (Inl e, w')"
  shows "\<exists>v. w' = restore_memory sv v \<and> w_aborted v \<and> w_buf v = w_buf w \<and> w_dirty v = w_dirty w"
  using assms unfolding commit_savepoint_def
  by (auto split: prod.splits sum.splits dest: exec_id_Inl)

lemma rollback_to_cases:
  "w_buf (rollback_to d w) = w_buf w" "w_dirty (rollback_to d w) = w_dirty w"
  "w_aborted (rollback_to d w) \<or> w_db (rollback_to d w) = d"
  by (auto simp: rollback_to_def split: option.splits)

locale handler_contract =
  fixes h :: handler
  assumes only_appends: "append_only h"
begin

lemma handler_grows: "grows w (snd (h b raw w))"
  using only_appends by (simp add: append_only_def keeps_def)

lemma isolated_failure:
  assumes inv: "d_inventory (w_dirty w) = None"
    and run: "run_isolated h b key raw w = (Some he, w')" and sev: "he_severity he = SeverityError"
  shows "w_buf w' = w_buf w \<and> w_dirty w' = w_dirty w \<and> (w_aborted w' \<or> w_db w' = w_db w)"
proof (cases "exec (\<lambda>d. d) w")
  case (Pair r w1)
  show ?thesis
  proof (cases r)
    case (Inl e)
    then have "w' = w1" using run Pair by (simp add: run_isolated_def Let_def)
    then show ?thesis using exec_id_Inl Pair Inl by blast
  next
    case (Inr u)
    then have w1: "w1 = tick w" using Pair by (simp add: exec_id)
    let ?sv = "take_savepoint w1"
    obtain r2 w2 where h2: "h b raw w1 = (r2, w2)" by force
    have g: "grows w1 w2" using handler_grows [of w1 b raw] h2 by simp
    have undone: "w_buf (restore_memory ?sv v) = w_buf w \<and> w_dirty (restore_memory ?sv v) = w_dirty w"
      if "w_buf v = w_buf w2" "w_dirty v = w_dirty w2" for v
      using that g inv w1
      by (simp add: restore_memory_def take_savepoint_def grows_def restore_ext dirty_restore_snapshot)
    have com: "w_buf w3 = w_buf w \<and> w_dirty w3 = w_dirty w \<and> w_aborted w3"
      if c: "commit_savepoint ?sv w2 = (Inl c, w3)" for c w3
    proof -
      obtain v where "w3 = restore_memory ?sv v" "w_aborted v" "w_buf v = w_buf w2" "w_dirty v = w_dirty w2"
        using commit_savepoint_Inl [OF c] by blast
      then show ?thesis using undone [of v] by (simp add: restore_memory_def)
    qed
    have rol: "w_buf (rollback_savepoint ?sv w2) = w_buf w \<and> w_dirty (rollback_savepoint ?sv w2) = w_dirty w \<and>
        (w_aborted (rollback_savepoint ?sv w2) \<or> w_db (rollback_savepoint ?sv w2) = w_db w)"
      using undone [of "rollback_to (sv_db ?sv) w2"] rollback_to_cases [where d = "sv_db ?sv" and w = w2] w1
      by (auto simp: rollback_savepoint_def restore_memory_def take_savepoint_def)
    show ?thesis
    proof (cases "r2 = Inr () \<or> (\<exists>e. r2 = Inl e \<and> errors_Is e ErrSkipWithWarn)")
      case True
      obtain r3 w3 where c: "commit_savepoint ?sv w2 = (r3, w3)" by force
      have "\<exists>e. r3 = Inl e" and "w' = w3"
        using run Pair Inr h2 c True sev
        by (auto simp: run_isolated_def Let_def failure_def split: sum.splits)
      then show ?thesis using com c by auto
    next
      case False
      then have "w' = rollback_savepoint ?sv w2"
        using run Pair Inr h2 by (cases r2) (auto simp: run_isolated_def Let_def)
      then show ?thesis using rol by simp
    qed
  qed
qed

end

text \<open>
  C11: A handler that fails under isolated dispatch leaves no trace.  For every handler
  that only appends, every payload and every schedule of database faults, an outcome of
  severity error restores the buffered rows and the dirty marks exactly, and either the
  tables are exactly those before the dispatch or the surrounding transaction is already
  aborted and can no longer commit.
\<close>

theorem isolated_dispatch_no_trace:
  assumes "Lookup r key = Some h" "append_only h" "d_inventory (w_dirty w) = None"
    and "Dispatch r b key raw (u, w) = (Inr (Some he), u', w')" "he_severity he = SeverityError"
  shows "w_buf w' = w_buf w \<and> w_dirty w' = w_dirty w \<and> (w_aborted w' \<or> w_db w' = w_db w) \<and> u' = u"
proof -
  have "run_isolated h b key raw w = (Some he, w') \<and> u' = u"
    using assms(1,4) by (auto simp: Dispatch_def dispatch_def split: prod.splits)
  then show ?thesis using handler_contract.isolated_failure [OF handler_contract.intro [OF assms(2)] assms(3) _ assms(5)]
    by blast
qed

text \<open>
  Atomic dispatch never reports success over a dead transaction: when it returns no
  error, or only a warning, the transaction is still usable, whatever the handler did
  with the errors of its statements.
\<close>

theorem atomic_dispatch_not_aborted:
  assumes "DispatchAtomic r b key raw (u, w) = (Inr he, u', w')" "\<not> w_aborted w"
    and "he = None \<or> he_severity (the he) = SeverityWarn"
  shows "\<not> w_aborted w'"
proof (cases "Lookup r key")
  case None
  then show ?thesis
    using assms(1,2) by (auto simp: DispatchAtomic_def dispatch_def split: if_splits)
next
  case (Some h)
  then have "run_atomic h b key raw w = (he, w')"
    using assms(1) by (auto simp: DispatchAtomic_def dispatch_def split: prod.splits)
  then show ?thesis
    using assms(3)
    by (auto simp: run_atomic_def Let_def failure_def split: prod.splits if_splits sum.splits)
qed

text \<open>A handler that buffers a row, marks a player and then fails.\<close>

definition example_handler :: handler where
  "example_handler b raw =
     bindO (push (\<lambda>bf. bf\<lparr>b_ore := b_ore bf @ [example_stat]\<rparr>)) (\<lambda>_.
     bindO (mark (Dirty_Player ''1-7'')) (\<lambda>_.
     bindO (exec (\<lambda>d. d\<lparr>db_player_object := tbl_put ''0-1'' ''1-7'' (db_player_object d)\<rparr>)) (\<lambda>_.
     failO (errorf ''bad payload''))))"

lemma example_handler_append_only: "append_only example_handler"
  unfolding append_only_def example_handler_def
  by (intro allI grows_intros) (simp_all add: buffer_ext_def)

definition example_context :: block_context where
  "example_context =
     \<lparr>bc_chain = ''c'', bc_height = 9, bc_time = 70, bc_tip = 9, bc_phase = EndBlock,
      bc_tx = 0, bc_msg = 0, bc_event = 2\<rparr>"

definition example_router :: router where
  "example_router =
     \<lparr>rt_handlers = [(''k'', example_handler)], rt_nested = [], rt_strict = False\<rparr>"

definition clean_world :: world where
  "clean_world =
     \<lparr>w_db = empty_tables, w_buf = new_buffer, w_dirty = NewDirty, w_aborted = False,
      w_clock = 0, w_fault = (\<lambda>_. None)\<rparr>"

lemma example_dispatch:
  "\<exists>w'. Dispatch example_router example_context ''k'' ''{}'' (no_unknowns, clean_world) =
     (Inr (Some (failure example_context ''k'' ''{}'' ''bad payload'' SeverityError)), no_unknowns, w')"
  "example_handler example_context ''{}'' clean_world =
     (Inl (errorf ''bad payload''), (tick clean_world)\<lparr>w_db := empty_tables\<lparr>db_player_object := [(''0-1'', ''1-7'')]\<rparr>,
        w_buf := new_buffer\<lparr>b_ore := [example_stat]\<rparr>, w_dirty := NewDirty\<lparr>d_players := {''1-7''}\<rparr>\<rparr>)"
  by (simp_all add: Dispatch_def dispatch_def Lookup_def example_router_def run_isolated_def
      example_handler_def exec_def sql_def push_def mark_def bindO_def clean_world_def Let_def
      errors_Is_def errorf_def tick_def Dirty_Player_def add_id_def new_buffer_def NewDirty_def
      empty_tables_def tbl_put_def tbl_del_def)

theorem isolated_dispatch_no_trace_witness:
  "(let w' = snd (snd (Dispatch example_router example_context ''k'' ''{}'' (no_unknowns, clean_world)))
    in w_buf w' = w_buf clean_world \<and> w_dirty w' = w_dirty clean_world \<and>
       (w_aborted w' \<or> w_db w' = w_db clean_world))"
proof -
  obtain w' where run: "Dispatch example_router example_context ''k'' ''{}'' (no_unknowns, clean_world) =
     (Inr (Some (failure example_context ''k'' ''{}'' ''bad payload'' SeverityError)), no_unknowns, w')"
    using example_dispatch(1) by blast
  have "Lookup example_router ''k'' = Some example_handler"
    by (simp add: Lookup_def example_router_def)
  from isolated_dispatch_no_trace [OF this example_handler_append_only _ run] show ?thesis
    using run by (simp add: clean_world_def NewDirty_def failure_def)
qed

theorem atomic_dispatch_not_aborted_witness:
  "\<not> w_aborted (snd (snd (DispatchAtomic example_router example_context ''unregistered'' ''{}''
       (no_unknowns, clean_world))))"
proof -
  let ?r = "DispatchAtomic example_router example_context ''unregistered'' ''{}'' (no_unknowns, clean_world)"
  have run: "?r = (Inr None, fst (snd ?r), snd (snd ?r))"
    by (simp add: DispatchAtomic_def dispatch_def Lookup_def example_router_def)
  show ?thesis by (rule atomic_dispatch_not_aborted [OF run]) (simp_all add: clean_world_def)
qed

interpretation example_contract: handler_contract example_handler
  by unfold_locales (rule example_handler_append_only)

subsection \<open>Unknown events\<close>

definition count_all :: "(int \<times> string \<times> string) list \<Rightarrow> unknowns \<Rightarrow> unknowns" where
  "count_all evs u = fold (\<lambda>(height, key, raw) u. count_unknown height key raw u) evs u"

definition seen_heights :: "(int \<times> string \<times> string) list \<Rightarrow> string \<Rightarrow> int list" where
  "seen_heights evs key = map fst (filter (\<lambda>(height, k, raw). k = key) evs)"

definition delta_spec :: "(int \<times> string \<times> string) list \<Rightarrow> string \<Rightarrow> unknown_delta option" where
  "delta_spec evs key =
     (let hs = seen_heights evs key in
      if hs = [] then None
      else Some \<lparr>ud_count = length hs, ud_first = Min (set hs), ud_last = Max (set hs),
             ud_sample = snd (snd (last (filter (\<lambda>(height, k, raw). k = key) evs)))\<rparr>)"

text \<open>
  The unknown-event log is exact: after any sequence of unhandled events since the
  last drain, the delta of every key holds the number of its events, the lowest and the
  highest height and the latest payload, a key that did not occur has none, and draining
  returns exactly these and leaves nothing to be persisted twice.
\<close>

theorem unknown_deltas_exact:
  "tbl_get (fst (DrainUnknownDeltas (count_all evs no_unknowns))) key = delta_spec evs key \<and>
   un_deltas (snd (DrainUnknownDeltas (count_all evs no_unknowns))) = [] \<and>
   un_total (count_all evs no_unknowns) = length evs"
proof -
  have "tbl_get (un_deltas (count_all evs no_unknowns)) key = delta_spec evs key \<and>
      un_total (count_all evs no_unknowns) = length evs"
  proof (induction evs rule: rev_induct)
    case Nil
    show ?case by (simp add: count_all_def no_unknowns_def delta_spec_def seen_heights_def)
  next
    case (snoc ev evs)
    obtain h k raw where ev: "ev = (h, k, raw)" by (cases ev)
    have ca: "count_all (evs @ [(h, k, raw)]) no_unknowns = count_unknown h k raw (count_all evs no_unknowns)"
      by (simp add: count_all_def)
    have hs: "seen_heights (evs @ [(h, k, raw)]) key = seen_heights evs key @ (if k = key then [h] else [])"
      by (simp add: seen_heights_def)
    show ?case
    proof (cases "k = key")
      case False
      then show ?thesis
        using snoc by (simp add: ca count_unknown_def Let_def delta_spec_def hs ev)
    next
      case True
      have min: "Min (insert h (set hs)) = (if h < Min (set hs) then h else Min (set hs)) \<and>
          Max (insert h (set hs)) = (if Max (set hs) < h then h else Max (set hs))"
        if "hs \<noteq> []" for hs :: "int list"
      proof -
        have "min h m = (if h < m then h else m)" "max h m = (if m < h then h else m)" for m
          by (auto simp: min_def max_def)
        moreover have "Min (insert h (set hs)) = min h (Min (set hs))"
          "Max (insert h (set hs)) = max h (Max (set hs))"
          using that by (simp_all only: Min_insert Max_insert finite_set set_empty not_False_eq_True)
        ultimately show ?thesis by simp
      qed
      show ?thesis
      proof (cases "seen_heights evs key = []")
        case none: True
        then have "tbl_get (un_deltas (count_all evs no_unknowns)) key = None"
          using snoc by (simp add: delta_spec_def)
        then show ?thesis
          using True snoc none by (simp add: ca [unfolded True] count_unknown_def Let_def delta_spec_def hs [unfolded True] ev)
      next
        case some: False
        then show ?thesis
          using True snoc min [OF some]
          by (simp add: ca [unfolded True] count_unknown_def Let_def delta_spec_def hs [unfolded True] ev)
      qed
    qed
  qed
  then show ?thesis by (simp add: DrainUnknownDeltas_def)
qed

end
