(* ===== verification/Attributes.thy ===== *)
theory Attributes
  imports Router Object_Type
begin

text \<open>
  The event handlers that keep the attribute tables and the activity timeline:
  \<open>events/permission.go\<close>, \<open>guild_rank_permission.go\<close>, \<open>grid.go\<close>, \<open>planet_attribute.go\<close>,
  \<open>struct_attribute.go\<close>, \<open>attribute_value.go\<close>, \<open>struct_defender.go\<close>,
  \<open>struct_defender_clear.go\<close>, \<open>activity_helpers.go\<close>, \<open>attack.go\<close>, \<open>raid.go\<close>, \<open>time.go\<close>,
  and the ore and alpha receipts with \<open>ledger.go\<close>.

  Every handler is an interpretation of the router's contract, so each of them leaves no
  trace when it fails under isolated dispatch.
\<close>

unbundle bit_operations_syntax

section \<open>Shared helpers\<close>

text \<open>PostgreSQL's \<open>split_part\<close> with a one-character separator.\<close>

definition splitPart :: "string \<Rightarrow> char \<Rightarrow> nat \<Rightarrow> string" where
  "splitPart s sep n =
     (if n < 1 \<or> s = [] then []
      else (let parts = split_on sep s in if length parts < n then [] else parts ! (n - 1)))"

definition nullIfEmpty :: "string \<Rightarrow> string option" where
  "nullIfEmpty s = (if s = [] then None else Some s)"

definition parseAttributeValue :: "string \<Rightarrow> (64 word) res" where
  "parseAttributeValue s =
     (if s = [] then Inr 0
      else if \<not> list_all is_digit s then Inl (errorf ''invalid unsigned attribute'')
      else (case parse_uint64 s of
          None \<Rightarrow> Inl (errorf ''value out of range'')
        | Some v \<Rightarrow> Inr v))"

definition object_label :: "int \<Rightarrow> string" where
  "object_label tid = (case from_id tid of None \<Rightarrow> [] | Some k \<Rightarrow> kind_label k)"

definition label_at :: "string list \<Rightarrow> int \<Rightarrow> string" where
  "label_at ls i = (if i < 0 \<or> int (length ls) \<le> i then [] else ls ! nat i)"

definition raw_object_id :: "int \<Rightarrow> int \<Rightarrow> string" where
  "raw_object_id tid idx = dec_int tid @ ''-'' @ dec_int idx"

definition atoiR :: "string \<Rightarrow> string \<Rightarrow> int res" where
  "atoiR what s = (case atoi s of None \<Rightarrow> Inl (errorf what) | Some n \<Rightarrow> Inr n)"

text \<open>\<open>appendLedger\<close>: legs 0, 1, ... of the event, stamped with the block's identity.\<close>

definition ledger_draft ::
  "string \<Rightarrow> string \<Rightarrow> string \<Rightarrow> string \<Rightarrow> string \<Rightarrow> string \<Rightarrow> ledger_row" where
  "ledger_draft address counterparty a action direction d =
     \<lparr>lr_address = address, lr_counterparty = counterparty, lr_amount = a, lr_height = 0,
      lr_time = 0, lr_action = action, lr_direction = direction, lr_denom = d, lr_chain = [],
      lr_tx = 0, lr_msg = 0, lr_event = 0\<rparr>"

definition stamp_row :: "block_context \<Rightarrow> int \<Rightarrow> ledger_row \<Rightarrow> ledger_row" where
  "stamp_row b i row =
     row\<lparr>lr_chain := bc_chain b, lr_tx := bc_tx b, lr_msg := bc_msg b,
         lr_event := EncodeLedgerEventIndex (bc_event b) i,
         lr_height := bc_height b, lr_time := bc_time b\<rparr>"

definition appendLedger :: "block_context \<Rightarrow> ledger_row list \<Rightarrow> (world, unit) op" where
  "appendLedger b rows =
     push (\<lambda>bf. bf\<lparr>b_ledger := b_ledger bf @ map (\<lambda>(i, row). stamp_row b i row) (indexed rows)\<rparr>)"

definition push_activity :: "block_context \<Rightarrow> string \<Rightarrow> string \<Rightarrow> string \<Rightarrow> (world, unit) op" where
  "push_activity b planet category detail =
     push (\<lambda>bf. bf\<lparr>b_activity := b_activity bf @
       [\<lparr>ar_time = bc_time b, ar_planet = planet, ar_category = category, ar_detail = detail,
         ar_height = bc_height b\<rparr>]\<rparr>)"

definition juint :: "64 word \<Rightarrow> json" where
  "juint v = JNum (format_uint v)"

definition detail_json :: "(string \<times> json) list \<Rightarrow> string" where
  "detail_json kvs = json_marshal (json_map kvs)"

text \<open>\<open>getActivityLocationID\<close>: the empty text when the struct or fleet is unknown.\<close>

definition getActivityLocationID :: "string \<Rightarrow> (world, string) op" where
  "getActivityLocationID structID =
     (if structID = [] then returnO []
      else bindO (wrapO ''activity_location struct: ''
             (query_opt (\<lambda>d. map_option (\<lambda>s. (st_location_type s, st_location_id s))
                (tbl_get (db_struct d) structID)))) (\<lambda>loc.
        case loc of
          None \<Rightarrow> returnO []
        | Some (locType, locID) \<Rightarrow>
            if locType \<noteq> ''fleet'' then returnO locID
            else bindO (wrapO ''activity_location fleet: ''
                   (query_opt (\<lambda>d. map_option fl_location_id (tbl_get (db_fleet d) locID)))) (\<lambda>fleetLoc.
              case fleetLoc of None \<Rightarrow> returnO [] | Some l \<Rightarrow> returnO l)))"

section \<open>Permissions\<close>

record decodedPermission =
  dp_typeID :: string
  dp_objectType :: string
  dp_objectIndex :: string
  dp_objectIDLiteral :: string
  dp_playerIDLiteral :: string

definition addressTypeID :: string where
  "addressTypeID = ''8''"

definition permissionTypeLabels :: "(string \<times> string) list" where
  "permissionTypeLabels =
     [(''0'', ''guild''), (''1'', ''player''), (''2'', ''planet''), (''3'', ''reactor''),
      (''4'', ''substation''), (''5'', ''struct''), (''6'', ''allocation''), (''7'', ''infusion''),
      (''8'', ''address''), (''9'', ''fleet''), (''10'', ''provider''), (''11'', ''agreement'')]"

definition decodePermissionID :: "string \<Rightarrow> decodedPermission res" where
  "decodePermissionID i =
     (if i = [] then Inl (errorf ''empty permissionId'')
      else (let ty = splitPart i (CHR ''-'') 1 in
        Inr \<lparr>dp_typeID = ty,
             dp_objectType = (case map_of permissionTypeLabels ty of None \<Rightarrow> [] | Some l \<Rightarrow> l),
             dp_objectIndex = splitPart (splitPart i (CHR ''-'') 2) (CHR ''@'') 1,
             dp_objectIDLiteral = splitPart i (CHR ''@'') 1,
             dp_playerIDLiteral = splitPart i (CHR ''@'') 2\<rparr>))"

definition null_scan :: goerror where
  "null_scan = errorf ''cannot scan NULL into *string''"

definition permission_upsert ::
  "string \<Rightarrow> decodedPermission \<Rightarrow> string \<Rightarrow> string \<Rightarrow> int \<Rightarrow> tables \<Rightarrow> tables" where
  "permission_upsert i p objectID playerID val d =
     d\<lparr>db_permission := tbl_put i
        (case tbl_get (db_permission d) i of
           None \<Rightarrow> \<lparr>pm_object_type = dp_objectType p, pm_object_index = dp_objectIndex p,
                   pm_object_id = nullIfEmpty objectID, pm_player_id = nullIfEmpty playerID,
                   pm_val = val\<rparr>
         | Some row \<Rightarrow> row\<lparr>pm_val := val\<rparr>) (db_permission d)\<rparr>"

definition permission_owner :: "decodedPermission \<Rightarrow> (world, string \<times> string) op" where
  "permission_owner p =
     (if dp_typeID p = addressTypeID then
        bindO (query_opt (\<lambda>d. map_option ad_player_id (tbl_get (db_player_address d) (dp_objectIndex p)))) (\<lambda>r.
        case r of
          None \<Rightarrow> returnO ([], [])
        | Some None \<Rightarrow> failO null_scan
        | Some (Some owner) \<Rightarrow> returnO (owner, owner))
      else returnO (dp_objectIDLiteral p, dp_playerIDLiteral p))"

definition permissionHandler :: handler where
  "permissionHandler b raw =
     bindO (liftO (Decode raw decode_Permission)) (\<lambda>p.
     let i = Permission_PermissionID p; v = Permission_Value p in
     bindO (guardO (i \<noteq> []) (errorf ''permission: empty permissionId'')) (\<lambda>_.
     if v = [] \<or> v = ''0'' then
       wrapO ''permission delete: '' (exec (\<lambda>d. d\<lparr>db_permission := tbl_del i (db_permission d)\<rparr>))
     else
       bindO (liftO (atoiR ''permission: invalid val'' v)) (\<lambda>val.
       bindO (liftO (decodePermissionID i)) (\<lambda>dec.
       bindO (permission_owner dec) (\<lambda>(objectID, playerID).
       wrapO ''permission upsert: '' (exec (permission_upsert i dec objectID playerID val)))))))"

definition guildRankPermissionHandler :: handler where
  "guildRankPermissionHandler b raw =
     bindO (liftO (Decode raw decode_GuildRankPermission)) (\<lambda>p.
     let k = (GuildRankPermission_ObjectID p, GuildRankPermission_GuildID p,
              GuildRankPermission_Permissions p) in
     bindO (guardO (GuildRankPermission_ObjectID p \<noteq> [] \<and> GuildRankPermission_GuildID p \<noteq> [])
        (errorf ''guild_rank_permission: empty object_id or guild_id'')) (\<lambda>_.
     if GuildRankPermission_Rank p = 0
     then exec (\<lambda>d. d\<lparr>db_guild_rank := tbl_del k (db_guild_rank d)\<rparr>)
     else exec (\<lambda>d. d\<lparr>db_guild_rank := tbl_put k (GuildRankPermission_Rank p) (db_guild_rank d)\<rparr>)))"

section \<open>Grid\<close>

definition gridAttrLabels :: "string list" where
  "gridAttrLabels =
     [''ore'', ''fuel'', ''capacity'', ''load'', ''structsLoad'', ''power'', ''connectionCapacity'',
      ''connectionCount'', ''allocationPointerStart'', ''allocationPointerEnd'', ''proxyNonce'',
      ''lastAction'', ''nonce'', ''ready'', ''checkpointBlock'']"

definition gridLabelFor :: "int \<Rightarrow> string" where
  "gridLabelFor i = label_at gridAttrLabels i"

definition missing_parts :: goerror where
  "missing_parts = GoErr [ErrGridAttrMissingParts] ''attributeId missing one or more dash-separated parts''"

definition parse_dashed :: "goerror \<Rightarrow> string \<Rightarrow> (int \<times> int \<times> int) res" where
  "parse_dashed missing i =
     (let a = splitPart i (CHR ''-'') 1; b = splitPart i (CHR ''-'') 2; c = splitPart i (CHR ''-'') 3 in
      if a = [] \<or> b = [] \<or> c = [] then Inl missing
      else bindR (atoiR ''attributeId: subIdx'' a) (\<lambda>x.
           bindR (atoiR ''attributeId: objTypeId'' b) (\<lambda>y.
           bindR (atoiR ''attributeId: objIndex'' c) (\<lambda>z. Inr (x, y, z)))))"

definition parseGridAttributeID :: "string \<Rightarrow> (int \<times> int \<times> int) res" where
  "parseGridAttributeID i = parse_dashed missing_parts i"

definition requireObjectTypeLabel :: "int \<Rightarrow> string res" where
  "requireObjectTypeLabel tid =
     (case from_id tid of
        None \<Rightarrow> Inl (errorf ''object_type id out of range'')
      | Some k \<Rightarrow> Inr (kind_label k))"

definition mk_stat :: "block_context \<Rightarrow> string option \<Rightarrow> int \<Rightarrow> 64 word \<Rightarrow> stat_row" where
  "mk_stat b ot idx val =
     \<lparr>sr_time = bc_time b, sr_object_type = ot, sr_object_index = idx,
      sr_value = format_uint val, sr_height = bc_height b\<rparr>"

definition writeGridStat ::
  "block_context \<Rightarrow> int \<Rightarrow> int \<Rightarrow> int \<Rightarrow> 64 word \<Rightarrow> (world, unit) op" where
  "writeGridStat b subIdx tid idx val =
     (let typed = (\<lambda>f. bindO (liftO (requireObjectTypeLabel tid)) (\<lambda>ot.
                       push (f (mk_stat b (Some ot) idx val))));
          bare = mk_stat b None idx val in
      if subIdx = 0 then typed (\<lambda>r bf. bf\<lparr>b_ore := b_ore bf @ [r]\<rparr>)
      else if subIdx = 1 then typed (\<lambda>r bf. bf\<lparr>b_fuel := b_fuel bf @ [r]\<rparr>)
      else if subIdx = 2 then typed (\<lambda>r bf. bf\<lparr>b_capacity := b_capacity bf @ [r]\<rparr>)
      else if subIdx = 3 then typed (\<lambda>r bf. bf\<lparr>b_load := b_load bf @ [r]\<rparr>)
      else if subIdx = 4 then push (\<lambda>bf. bf\<lparr>b_structs_load := b_structs_load bf @ [bare]\<rparr>)
      else if subIdx = 5 then typed (\<lambda>r bf. bf\<lparr>b_power := b_power bf @ [r]\<rparr>)
      else if subIdx = 6 then push (\<lambda>bf. bf\<lparr>b_connection_capacity := b_connection_capacity bf @ [bare]\<rparr>)
      else if subIdx = 7 then push (\<lambda>bf. bf\<lparr>b_connection_count := b_connection_count bf @ [bare]\<rparr>)
      else returnO ())"

definition grid_upsert ::
  "string \<Rightarrow> int \<Rightarrow> int \<Rightarrow> int \<Rightarrow> 64 word \<Rightarrow> tables \<Rightarrow> nat \<times> tables" where
  "grid_upsert i subIdx tid idx val d =
     (case tbl_get (db_grid d) i of
        None \<Rightarrow> (1, d\<lparr>db_grid := tbl_put i
            \<lparr>gr_attribute_type = nullIfEmpty (gridLabelFor subIdx),
             gr_object_type = nullIfEmpty (object_label tid), gr_object_index = idx,
             gr_object_id = raw_object_id tid idx, gr_val = val\<rparr> (db_grid d)\<rparr>)
      | Some row \<Rightarrow>
          if gr_val row = val then (0, d)
          else (1, d\<lparr>db_grid := tbl_put i (row\<lparr>gr_val := val\<rparr>) (db_grid d)\<rparr>))"

definition grid_delete :: "string \<Rightarrow> tables \<Rightarrow> nat \<times> tables" where
  "grid_delete i d =
     (case tbl_get (db_grid d) i of
        None \<Rightarrow> (0, d)
      | Some _ \<Rightarrow> (1, d\<lparr>db_grid := tbl_del i (db_grid d)\<rparr>))"

definition grid_changed ::
  "block_context \<Rightarrow> int \<Rightarrow> int \<Rightarrow> int \<Rightarrow> 64 word \<Rightarrow> nat \<Rightarrow> (world, unit) op" where
  "grid_changed b subIdx tid idx val affected =
     whenO (0 < affected)
       (bindO (wrapO ''grid stat: '' (writeGridStat b subIdx tid idx val)) (\<lambda>_.
        mark (Dirty_GridObject (raw_object_id tid idx))))"

definition grid_parse_error :: "goerror \<Rightarrow> goerror" where
  "grid_parse_error e =
     (if errors_Is e ErrGridAttrMissingParts then skip_warn (''grid: '' @ err_text e)
      else wrapf ''grid: '' e)"

definition gridHandler :: handler where
  "gridHandler b raw =
     bindO (liftO (Decode raw decode_Grid)) (\<lambda>p.
     bindO (guardO (Grid_AttributeID p \<noteq> []) (skip_warn ''grid: empty attributeId'')) (\<lambda>_.
     case parseGridAttributeID (Grid_AttributeID p) of
       Inl e \<Rightarrow> failO (grid_parse_error e)
     | Inr (subIdx, tid, idx) \<Rightarrow>
         if Grid_Value p = [] then
           bindO (wrapO ''grid delete: '' (sql (grid_delete (Grid_AttributeID p))))
             (grid_changed b subIdx tid idx 0)
         else (case parse_uint64 (Grid_Value p) of
             None \<Rightarrow> failO (errorf ''grid: invalid uint64 val'')
           | Some val \<Rightarrow>
               bindO (wrapO ''grid upsert: '' (sql (grid_upsert (Grid_AttributeID p) subIdx tid idx val)))
                 (grid_changed b subIdx tid idx val))))"

section \<open>Planet attributes\<close>

definition planetAttrLabels :: "string list" where
  "planetAttrLabels =
     [''planetaryShield'', ''repairNetworkQuantity'', ''defensiveCannonQuantity'',
      ''coordinatedGlobalShieldNetworkQuantity'', ''lowOrbitBallisticsInterceptorNetworkQuantity'',
      ''advancedLowOrbitBallisticsInterceptorNetworkQuantity'',
      ''lowOrbitBallisticsInterceptorNetworkSuccessRateNumerator'',
      ''lowOrbitBallisticsInterceptorNetworkSuccessRateDenominator'',
      ''orbitalJammingStationQuantity'', ''advancedOrbitalJammingStationQuantity'',
      ''blockStartRaid'', ''blockRaiderArrived'', ''blockStartOreMine'', ''blockStartOreRefine'',
      ''oreMiningActiveQuantity'', ''oreRefiningActiveQuantity'']"

definition planetAttrLabelFor :: "int \<Rightarrow> string" where
  "planetAttrLabelFor i = label_at planetAttrLabels i"

definition parsePlanetAttributeID :: "string \<Rightarrow> (int \<times> int \<times> int) res" where
  "parsePlanetAttributeID i =
     parse_dashed (errorf ''attributeId: expected three dash-separated parts'') i"

text \<open>The upsert returns the old value (0 for a new row), and no row when nothing changes.\<close>

definition planet_attribute_upsert ::
  "string \<Rightarrow> int \<Rightarrow> int \<Rightarrow> int \<Rightarrow> 64 word \<Rightarrow> tables \<Rightarrow> string option \<times> tables" where
  "planet_attribute_upsert i attrType tid idx val d =
     (case tbl_get (db_planet_attribute d) i of
        None \<Rightarrow> (Some ''0'', d\<lparr>db_planet_attribute := tbl_put i
            \<lparr>pa_object_id = raw_object_id tid idx, pa_object_type = nullIfEmpty (object_label tid),
             pa_attribute_type = nullIfEmpty (planetAttrLabelFor attrType), pa_val = val\<rparr>
            (db_planet_attribute d)\<rparr>)
      | Some row \<Rightarrow>
          if pa_val row = val then (None, d)
          else (Some (format_uint (pa_val row)),
            d\<lparr>db_planet_attribute := tbl_put i (row\<lparr>pa_val := val\<rparr>) (db_planet_attribute d)\<rparr>))"

definition planet_activity_of ::
  "int \<Rightarrow> string \<Rightarrow> 64 word \<Rightarrow> 64 word \<Rightarrow> (string \<times> (string \<times> json) list) option" where
  "planet_activity_of attrType planetID old new =
     (if attrType = 0 then Some (''shield_change'',
        [(''planetary_shield'', juint new), (''planetary_shield_old'', juint old)])
      else if attrType = 10 then Some (''block_raid_start'',
        [(''block_start_raid'', juint new), (''block_start_raid_old'', juint old)])
      else if attrType = 12 then Some (''struct_block_ore_mine_start'',
        [(''planet_id'', jstr planetID), (''block'', juint new)])
      else if attrType = 13 then Some (''struct_block_ore_refine_start'',
        [(''planet_id'', jstr planetID), (''block'', juint new)])
      else None)"

definition emitPlanetAttributeActivity ::
  "block_context \<Rightarrow> int \<Rightarrow> int \<Rightarrow> int \<Rightarrow> 64 word \<Rightarrow> 64 word \<Rightarrow> (world, unit) op" where
  "emitPlanetAttributeActivity b attrType tid idx old new =
     (if old = new \<or> tid \<noteq> int (kind_id Planet) then returnO ()
      else (let planetID = format_object Planet idx in
        case planet_activity_of attrType planetID old new of
          None \<Rightarrow> returnO ()
        | Some (category, detail) \<Rightarrow> push_activity b planetID category (detail_json detail)))"

definition planetAttributeHandler :: handler where
  "planetAttributeHandler b raw =
     bindO (liftO (Decode raw decode_PlanetAttribute)) (\<lambda>p.
     let i = PlanetAttribute_AttributeID p in
     bindO (guardO (i \<noteq> []) (errorf ''planet_attribute: empty attributeId'')) (\<lambda>_.
     bindO (wrapO ''planet_attribute: '' (liftO (parsePlanetAttributeID i))) (\<lambda>(attrType, tid, idx).
     bindO (wrapO ''planet_attribute: invalid val: '' (liftO (parseAttributeValue (PlanetAttribute_Value p)))) (\<lambda>new.
     bindO (wrapO ''planet_attribute upsert: '' (sql (planet_attribute_upsert i attrType tid idx new))) (\<lambda>r.
     case r of
       None \<Rightarrow> returnO ()
     | Some oldText \<Rightarrow>
         bindO (liftO (parseAttributeValue oldText)) (\<lambda>old.
         emitPlanetAttributeActivity b attrType tid idx old new))))))"

section \<open>Struct attributes and defenders\<close>

definition structAttrLabels :: "string list" where
  "structAttrLabels =
     [''health'', ''status'', ''blockStartBuild'', ''blockStartOreMine'', ''blockStartOreRefine'',
      ''protectedStructIndex'', ''typeCount'']"

definition structAttrLabelFor :: "int \<Rightarrow> string" where
  "structAttrLabelFor i = label_at structAttrLabels i"

definition structDestroyedBit :: "64 word" where
  "structDestroyedBit = 32"

definition parseStructAttributeID :: "string \<Rightarrow> (int \<times> int \<times> int \<times> int) res" where
  "parseStructAttributeID i =
     bindR (parse_dashed (errorf ''attributeId: expected at least three dash-separated parts'') i)
       (\<lambda>(x, y, z).
     let d = splitPart i (CHR ''-'') 4 in
     if d = [] then Inr (x, y, z, 0)
     else bindR (atoiR ''attributeId: subIndex'' d) (\<lambda>w. Inr (x, y, z, w)))"

definition struct_attribute_upsert ::
  "string \<Rightarrow> int \<Rightarrow> int \<Rightarrow> int \<Rightarrow> int \<Rightarrow> 64 word \<Rightarrow> tables \<Rightarrow> string option \<times> tables" where
  "struct_attribute_upsert i attrType tid idx subIdx val d =
     (case tbl_get (db_struct_attribute d) i of
        None \<Rightarrow> (Some ''0'', d\<lparr>db_struct_attribute := tbl_put i
            \<lparr>sa_object_id = raw_object_id tid idx, sa_object_type = nullIfEmpty (object_label tid),
             sa_sub_index = subIdx, sa_attribute_type = nullIfEmpty (structAttrLabelFor attrType),
             sa_val = val\<rparr> (db_struct_attribute d)\<rparr>)
      | Some row \<Rightarrow>
          if sa_val row = val then (None, d)
          else (Some (format_uint (sa_val row)),
            d\<lparr>db_struct_attribute := tbl_put i (row\<lparr>sa_val := val\<rparr>) (db_struct_attribute d)\<rparr>))"

definition emitStructAttributeOnStructPlanet ::
  "block_context \<Rightarrow> string \<Rightarrow> string \<Rightarrow> (string \<times> json) list \<Rightarrow> (world, unit) op" where
  "emitStructAttributeOnStructPlanet b structID category detail =
     bindO (wrapO ''resolve planet for struct: '' (getActivityLocationID structID)) (\<lambda>planetID.
     if planetID = [] then returnO ()
     else push_activity b planetID category (detail_json detail))"

definition emit_defense ::
  "string \<Rightarrow> block_context \<Rightarrow> 64 word \<Rightarrow> string \<Rightarrow> (world, unit) op" where
  "emit_defense category b protectedIndex defender =
     (let protected = ''5-'' @ format_uint protectedIndex in
      bindO (wrapO ''resolve planet for protected: '' (getActivityLocationID protected)) (\<lambda>planetID.
      if planetID = [] then returnO ()
      else push_activity b planetID category (detail_json
        [(''defender_struct_id'', jstr defender), (''protected_struct_id'', jstr protected)])))"

definition emitStructDefenseRemove :: "block_context \<Rightarrow> 64 word \<Rightarrow> string \<Rightarrow> (world, unit) op" where
  "emitStructDefenseRemove = emit_defense ''struct_defense_remove''"

definition emitStructDefenseAdd :: "block_context \<Rightarrow> 64 word \<Rightarrow> string \<Rightarrow> (world, unit) op" where
  "emitStructDefenseAdd = emit_defense ''struct_defense_add''"

definition protected_attribute :: "string \<Rightarrow> string" where
  "protected_attribute defender = ''5-'' @ defender"

definition delete_protected_attribute :: "string \<Rightarrow> tables \<Rightarrow> nat \<times> tables" where
  "delete_protected_attribute defender d =
     (case tbl_get (db_struct_attribute d) (protected_attribute defender) of
        None \<Rightarrow> (0, d)
      | Some _ \<Rightarrow> (1, d\<lparr>db_struct_attribute :=
            tbl_del (protected_attribute defender) (db_struct_attribute d)\<rparr>))"

definition clearDefendersOfDestroyedProtected ::
  "block_context \<Rightarrow> string \<Rightarrow> int \<Rightarrow> (world, unit) op" where
  "clearDefendersOfDestroyedProtected b protectedID protectedIndex =
     bindO (wrapO ''delete defenders of protected: '' (sql (\<lambda>d.
        (map fst (filter (\<lambda>(k, r). df_protected r = protectedID) (db_defender d)),
         d\<lparr>db_defender := tbl_filter (\<lambda>k r. df_protected r \<noteq> protectedID) (db_defender d)\<rparr>))))
       (\<lambda>defenders.
     forO defenders (\<lambda>defender.
       bindO (wrapO ''delete protectedStructIndex attr: '' (sql (delete_protected_attribute defender))) (\<lambda>_.
       emitStructDefenseRemove b (of_int protectedIndex) defender)))"

definition stamp_destroyed :: "string \<Rightarrow> int \<Rightarrow> tables \<Rightarrow> tables" where
  "stamp_destroyed i height d =
     (case tbl_get (db_struct d) i of
        None \<Rightarrow> d
      | Some s \<Rightarrow> d\<lparr>db_struct := tbl_put i
          (s\<lparr>st_is_destroyed := True, st_destroyed_block := Some height\<rparr>) (db_struct d)\<rparr>)"

definition struct_attribute_effects ::
  "block_context \<Rightarrow> int \<Rightarrow> int \<Rightarrow> int \<Rightarrow> 64 word \<Rightarrow> (world, unit) op" where
  "struct_attribute_effects b attrType tid idx val =
     (if attrType = 0 then
        push (\<lambda>bf. bf\<lparr>b_struct_health := b_struct_health bf @ [mk_stat b None idx val]\<rparr>)
      else if attrType = 1 then
        bindO (push (\<lambda>bf. bf\<lparr>b_struct_status := b_struct_status bf @ [mk_stat b None idx val]\<rparr>)) (\<lambda>_.
        whenO (val AND structDestroyedBit \<noteq> 0)
          (bindO (wrapO ''struct_attribute destroy stamp: ''
                   (exec (stamp_destroyed (raw_object_id tid idx) (bc_height b)))) (\<lambda>_.
           wrapO ''struct_attribute destroy defender cleanup: ''
             (clearDefendersOfDestroyedProtected b (raw_object_id tid idx) idx))))
      else returnO ())"

definition emitStructAttributeActivity ::
  "block_context \<Rightarrow> int \<Rightarrow> 64 word \<Rightarrow> 64 word \<Rightarrow> string \<Rightarrow> (world, unit) op" where
  "emitStructAttributeActivity b attrType old new structID =
     (if attrType = 0 then
        (if new = 0 then returnO ()
         else emitStructAttributeOnStructPlanet b structID ''struct_health''
           [(''struct_id'', jstr structID), (''health'', juint new), (''health_old'', juint old)])
      else if attrType = 1 then
        emitStructAttributeOnStructPlanet b structID ''struct_status''
          [(''struct_id'', jstr structID), (''status'', juint new), (''status_old'', juint old)]
      else if attrType = 2 then
        emitStructAttributeOnStructPlanet b structID ''struct_block_build_start''
          [(''struct_id'', jstr structID), (''block'', juint new)]
      else if attrType = 5 then
        bindO (whenO (0 < old) (emitStructDefenseRemove b old structID)) (\<lambda>_.
        whenO (0 < new) (emitStructDefenseAdd b new structID))
      else returnO ())"

definition structAttributeHandler :: handler where
  "structAttributeHandler b raw =
     bindO (liftO (Decode raw decode_StructAttribute)) (\<lambda>p.
     let i = StructAttribute_AttributeID p in
     bindO (guardO (i \<noteq> []) (errorf ''struct_attribute: empty attributeId'')) (\<lambda>_.
     bindO (wrapO ''struct_attribute: '' (liftO (parseStructAttributeID i))) (\<lambda>(attrType, tid, idx, subIdx).
     bindO (wrapO ''struct_attribute: invalid val: '' (liftO (parseAttributeValue (StructAttribute_Value p)))) (\<lambda>val.
     if attrType = 1 \<and> val = 0 then returnO ()
     else bindO (wrapO ''struct_attribute upsert: ''
            (sql (struct_attribute_upsert i attrType tid idx subIdx val))) (\<lambda>r.
       case r of
         None \<Rightarrow> returnO ()
       | Some oldText \<Rightarrow>
           bindO (liftO (parseAttributeValue oldText)) (\<lambda>old.
           bindO (struct_attribute_effects b attrType tid idx val) (\<lambda>_.
           wrapO ''struct_attribute: emit activity: ''
             (emitStructAttributeActivity b attrType old val (raw_object_id tid idx)))))))))"

definition defender_upsert :: "string \<Rightarrow> string \<Rightarrow> tables \<Rightarrow> tables" where
  "defender_upsert defending protected d =
     d\<lparr>db_defender := tbl_put defending
        \<lparr>df_protected = protected,
         df_is_planetary = (case tbl_get (db_struct d) protected of
            None \<Rightarrow> False | Some s \<Rightarrow> st_location_type s = ''planet'')\<rparr> (db_defender d)\<rparr>"

definition structDefenderHandler :: handler where
  "structDefenderHandler b raw =
     bindO (liftO (Decode raw decode_StructDefender)) (\<lambda>p.
     bindO (guardO (StructDefender_DefendingStructID p \<noteq> []) (errorf ''struct_defender: empty defending_struct_id'')) (\<lambda>_.
     wrapO ''struct_defender upsert: ''
       (exec (defender_upsert (StructDefender_DefendingStructID p) (StructDefender_ProtectedStructID p)))))"

definition structDefenderClearHandler :: handler where
  "structDefenderClearHandler b raw =
     bindO (liftO (Decode raw decode_StructDefenderClear)) (\<lambda>p.
     let def = StructDefenderClear_DefendingStructID p in
     bindO (guardO (def \<noteq> []) (errorf ''struct_defender_clear: empty defending_struct_id'')) (\<lambda>_.
     bindO (wrapO ''struct_defender_clear prev val: '' (query_opt (\<lambda>d. map_option
        (\<lambda>r. format_uint (sa_val r)) (tbl_get (db_struct_attribute d) (protected_attribute def))))) (\<lambda>prev.
     bindO (liftO (parseAttributeValue (case prev of None \<Rightarrow> [] | Some t \<Rightarrow> t))) (\<lambda>protectedIndex.
     bindO (wrapO ''struct_defender_clear defender delete: ''
        (exec (\<lambda>d. d\<lparr>db_defender := tbl_del def (db_defender d)\<rparr>))) (\<lambda>_.
     bindO (wrapO ''struct_defender_clear attribute delete: ''
        (sql (delete_protected_attribute def))) (\<lambda>affected.
     whenO (0 < affected \<and> 0 < protectedIndex)
       (wrapO ''struct_defender_clear defense_remove: ''
         (emitStructDefenseRemove b protectedIndex def))))))))"

section \<open>Activity and ledger receipts\<close>

definition attackHandler :: handler where
  "attackHandler b raw =
     bindO (liftO (Decode raw decode_Attack)) (\<lambda>p.
     bindO (guardO (Attack_AttackerStructID p \<noteq> []) (errorf ''attack: empty attackerStructId'')) (\<lambda>_.
     bindO (wrapO ''attack: resolve planet: '' (getActivityLocationID (Attack_AttackerStructID p))) (\<lambda>planetID.
     if planetID = [] then returnO () else push_activity b planetID ''struct_attack'' raw)))"

definition raid_upsert :: "pRaid \<Rightarrow> tables \<Rightarrow> nat \<times> tables" where
  "raid_upsert p d =
     (let new = \<lparr>rd_fleet_id = nullIfEmpty (Raid_FleetID p), rd_status = nullIfEmpty (Raid_Status p),
                 rd_seized_ore = Numeric_PgValue (Raid_SeizedOre p)\<rparr> in
      case tbl_get (db_planet_raid d) (Raid_PlanetID p) of
        None \<Rightarrow> (1, d\<lparr>db_planet_raid := tbl_put (Raid_PlanetID p) new (db_planet_raid d)\<rparr>)
      | Some old \<Rightarrow>
          if rd_fleet_id old = rd_fleet_id new \<and> rd_status old = rd_status new then (0, d)
          else (1, d\<lparr>db_planet_raid := tbl_put (Raid_PlanetID p) new (db_planet_raid d)\<rparr>))"

definition emitRaidStatusActivity :: "block_context \<Rightarrow> pRaid \<Rightarrow> (world, unit) op" where
  "emitRaidStatusActivity b p =
     push_activity b (Raid_PlanetID p) ''raid_status'' (detail_json
       [(''planet_id'', jstr (Raid_PlanetID p)), (''fleet_id'', jstr (Raid_FleetID p)),
        (''status'', jstr (Raid_Status p)), (''seized_ore'', jstr (Raid_SeizedOre p))])"

definition raidHandler :: handler where
  "raidHandler b raw =
     bindO (liftO (Decode raw decode_Raid)) (\<lambda>p.
     bindO (guardO (Raid_PlanetID p \<noteq> []) (errorf ''raid: empty planetId'')) (\<lambda>_.
     bindO (wrapO ''raid upsert: '' (sql (raid_upsert p))) (\<lambda>affected.
     whenO (0 < affected) (wrapO ''raid: emit planet_activity: '' (emitRaidStatusActivity b p)))))"

definition timeHandler :: handler where
  "timeHandler b raw = returnO ()"

definition oreMineHandler :: handler where
  "oreMineHandler b raw =
     bindO (liftO (Decode raw decode_OreMine)) (\<lambda>p.
     bindO (guardO (OreMine_PrimaryAddress p \<noteq> []) (errorf ''ore_mine: empty primaryAddress'')) (\<lambda>_.
     appendLedger b
       [ledger_draft (OreMine_PrimaryAddress p) [] (OreMine_Amount p) ''mined'' ''credit'' ''ore'']))"

definition oreTheftHandler :: handler where
  "oreTheftHandler b raw =
     bindO (liftO (Decode raw decode_OreTheft)) (\<lambda>p.
     let thief = OreTheft_ThiefPrimaryAddress p; victim = OreTheft_VictimPrimaryAddress p;
         a = OreTheft_Amount p in
     bindO (guardO (thief \<noteq> [] \<and> victim \<noteq> []) (errorf ''ore_theft: missing address'')) (\<lambda>_.
     appendLedger b
       [ledger_draft thief victim a ''seized'' ''credit'' ''ore'',
        ledger_draft victim thief a ''forfeited'' ''debit'' ''ore'']))"

definition oreMigrateHandler :: handler where
  "oreMigrateHandler b raw =
     bindO (liftO (Decode raw decode_OreMigrate)) (\<lambda>p.
     let new = OreMigrate_PrimaryAddress p; old = OreMigrate_OldPrimaryAddress p;
         a = OreMigrate_Amount p in
     bindO (guardO (new \<noteq> [] \<and> old \<noteq> []) (errorf ''ore_migrate: missing address'')) (\<lambda>_.
     appendLedger b
       [ledger_draft new old a ''migrated'' ''credit'' ''ore'',
        ledger_draft old new a ''migrated'' ''debit'' ''ore'']))"

definition alphaRefineMicroFactor :: nat where
  "alphaRefineMicroFactor = 1000000"

definition decode_alpha :: "block_context \<Rightarrow> string \<Rightarrow> pAlphaRefine res" where
  "decode_alpha b raw =
     bindR (DecodeVersioned raw (bctx_V022Active b) decode_AlphaRefine [''vaultAddress'']) (\<lambda>p.
     bindR (DecodeRequired raw decode_AlphaRefine [''primaryAddress'', ''amount'']) (\<lambda>_. Inr p))"

definition alphaRefineHandler :: handler where
  "alphaRefineHandler b raw =
     bindO (liftO (decode_alpha b raw)) (\<lambda>p.
     let primary = AlphaRefine_PrimaryAddress p; vault = AlphaRefine_VaultAddress p in
     bindO (guardO (primary \<noteq> []) (errorf ''alpha_refine: empty primaryAddress'')) (\<lambda>_.
     bindO (guardO (vault \<noteq> [] \<or> \<not> bctx_V022Active b)
        (errorf ''alpha_refine: missing vaultAddress after activation'')) (\<lambda>_.
     let creditAddress = (if vault = [] then primary else vault) in
     appendLedger b
       [ledger_draft primary [] (format_uint (AlphaRefine_Amount p)) ''refined'' ''debit'' ''ore'',
        ledger_draft creditAddress []
          (dec_nat (unat (AlphaRefine_Amount p) * alphaRefineMicroFactor)) ''refined'' ''credit'' ''ualpha''])))"

definition alphaInfuseHandler :: handler where
  "alphaInfuseHandler b raw =
     bindO (liftO (decode_alpha b raw)) (\<lambda>p.
     bindO (guardO (AlphaRefine_PrimaryAddress p \<noteq> []) (errorf ''alpha_infuse: empty primaryAddress'')) (\<lambda>_.
     bindO (mark (Dirty_Address (AlphaRefine_PrimaryAddress p))) (\<lambda>_.
     mark (Dirty_Address (AlphaRefine_VaultAddress p)))))"

section \<open>The contract holds for every handler\<close>

lemma grows_push_activity: "keeps grows (push_activity b p c d)"
  unfolding push_activity_def by (intro grows_push) (simp add: buffer_ext_def)

lemma grows_appendLedger: "keeps grows (appendLedger b rows)"
  unfolding appendLedger_def by (intro grows_push) (simp add: buffer_ext_def)

lemma keeps_split: "(\<And>x y. keeps R (f x y)) \<Longrightarrow> keeps R (case p of (x, y) \<Rightarrow> f x y)"
  by (cases p) simp

lemma keeps_sum: "(\<And>e. keeps R (f e)) \<Longrightarrow> (\<And>x. keeps R (g x)) \<Longrightarrow> keeps R (case r of Inl e \<Rightarrow> f e | Inr x \<Rightarrow> g x)"
  by (cases r) simp_all

lemmas handler_intros =
  grows_intros grows_push_activity grows_appendLedger keeps_split keeps_sum

lemma grows_location: "keeps grows (getActivityLocationID s)"
  unfolding getActivityLocationID_def by (intro handler_intros)

lemma grows_permission_owner: "keeps grows (permission_owner p)"
  unfolding permission_owner_def by (intro handler_intros)

lemma grows_writeGridStat: "keeps grows (writeGridStat b s t i v)"
  unfolding writeGridStat_def Let_def
  by (intro handler_intros) (simp_all add: buffer_ext_def)

lemma grows_grid_changed: "keeps grows (grid_changed b s t i v n)"
  unfolding grid_changed_def by (intro handler_intros grows_writeGridStat) simp

lemma grows_planet_activity: "keeps grows (emitPlanetAttributeActivity b a t i old new)"
  unfolding emitPlanetAttributeActivity_def Let_def by (intro handler_intros)

lemma grows_on_planet: "keeps grows (emitStructAttributeOnStructPlanet b s c d)"
  unfolding emitStructAttributeOnStructPlanet_def by (intro handler_intros grows_location)

lemma grows_defense:
  "keeps grows (emitStructDefenseRemove b i s)" "keeps grows (emitStructDefenseAdd b i s)"
  unfolding emitStructDefenseRemove_def emitStructDefenseAdd_def emit_defense_def Let_def
  by (intro handler_intros grows_location)+

lemma grows_clear_defenders: "keeps grows (clearDefendersOfDestroyedProtected b s i)"
  unfolding clearDefendersOfDestroyedProtected_def by (intro handler_intros grows_defense)

lemma grows_struct_effects: "keeps grows (struct_attribute_effects b a t i v)"
  unfolding struct_attribute_effects_def
  by (intro handler_intros grows_clear_defenders) (simp_all add: buffer_ext_def)

lemma grows_struct_activity: "keeps grows (emitStructAttributeActivity b a old new s)"
  unfolding emitStructAttributeActivity_def
  by (intro handler_intros grows_on_planet grows_defense)

lemmas component_grows =
  grows_location grows_permission_owner grows_grid_changed grows_planet_activity grows_on_planet
  grows_defense grows_struct_effects grows_struct_activity

interpretation permission: handler_contract permissionHandler
  by unfold_locales
    (simp only: append_only_def permissionHandler_def Let_def, intro allI handler_intros component_grows)

interpretation guild_rank_permission: handler_contract guildRankPermissionHandler
  by unfold_locales
    (simp only: append_only_def guildRankPermissionHandler_def Let_def, intro allI handler_intros)

interpretation grid: handler_contract gridHandler
  by unfold_locales
    (simp only: append_only_def gridHandler_def, intro allI handler_intros component_grows)

interpretation planet_attribute: handler_contract planetAttributeHandler
  by unfold_locales
    (simp only: append_only_def planetAttributeHandler_def Let_def, intro allI handler_intros component_grows)

interpretation struct_attribute: handler_contract structAttributeHandler
  by unfold_locales
    (simp only: append_only_def structAttributeHandler_def Let_def, intro allI handler_intros component_grows)

interpretation struct_defender: handler_contract structDefenderHandler
  by unfold_locales
    (simp only: append_only_def structDefenderHandler_def, intro allI handler_intros)

interpretation struct_defender_clear: handler_contract structDefenderClearHandler
  by unfold_locales
    (simp only: append_only_def structDefenderClearHandler_def Let_def, intro allI handler_intros component_grows)

interpretation attack: handler_contract attackHandler
  by unfold_locales
    (simp only: append_only_def attackHandler_def, intro allI handler_intros component_grows)

interpretation raid: handler_contract raidHandler
  by unfold_locales
    (simp only: append_only_def raidHandler_def emitRaidStatusActivity_def, intro allI handler_intros)

interpretation time: handler_contract timeHandler
  by unfold_locales (simp only: append_only_def timeHandler_def, intro allI handler_intros)

interpretation ore_mine: handler_contract oreMineHandler
  by unfold_locales
    (simp only: append_only_def oreMineHandler_def Let_def, intro allI handler_intros)

interpretation ore_theft: handler_contract oreTheftHandler
  by unfold_locales
    (simp only: append_only_def oreTheftHandler_def Let_def, intro allI handler_intros)

interpretation ore_migrate: handler_contract oreMigrateHandler
  by unfold_locales
    (simp only: append_only_def oreMigrateHandler_def Let_def, intro allI handler_intros)

interpretation alpha_refine: handler_contract alphaRefineHandler
  by unfold_locales
    (simp only: append_only_def alphaRefineHandler_def Let_def, intro allI handler_intros)

interpretation alpha_infuse: handler_contract alphaInfuseHandler
  by unfold_locales
    (simp only: append_only_def alphaInfuseHandler_def, intro allI handler_intros dirty_mark_le)

end
