(* ===== verification/Attribute_Facts.thy ===== *)
theory Attribute_Facts
  imports Attributes
begin

text \<open>
  What the attribute handlers guarantee: replayed attribute events change nothing, a
  destroyed struct protects and is protected by nobody, permission identifiers decode
  into their parts, and the raid handler ignores a change of \<open>seized_ore\<close> alone.
\<close>

section \<open>Operations that only read the tables\<close>

definition same_db :: "world \<Rightarrow> world \<Rightarrow> bool" where
  "same_db w v \<longleftrightarrow> w_db v = w_db w"

interpretation reads: preorder_op same_db
  by unfold_locales (simp_all add: same_db_def)

lemma same_db_query: "keeps same_db (query g)" "keeps same_db (query_opt h)"
  by (auto simp: keeps_def same_db_def query_def query_opt_def sql_def split: option.splits)

lemma same_db_push: "keeps same_db (push f)" "keeps same_db (mark g)"
  by (simp_all add: keeps_def same_db_def push_def mark_def)

lemmas reads_intros =
  reads.keeps_intros same_db_query same_db_push keeps_split keeps_sum

lemma reads_location: "keeps same_db (getActivityLocationID s)"
  unfolding getActivityLocationID_def by (intro reads_intros)

lemma reads_push_activity: "keeps same_db (push_activity b p c d)"
  unfolding push_activity_def by (intro reads_intros)

lemma reads_defense:
  "keeps same_db (emitStructDefenseRemove b i s)" "keeps same_db (emitStructDefenseAdd b i s)"
  unfolding emitStructDefenseRemove_def emitStructDefenseAdd_def emit_defense_def Let_def
  by (intro reads_intros reads_location reads_push_activity)+

lemma reads_struct_activity: "keeps same_db (emitStructAttributeActivity b a old new s)"
  unfolding emitStructAttributeActivity_def emitStructAttributeOnStructPlanet_def
  by (intro reads_intros reads_location reads_push_activity reads_defense)

lemma keeps_run: "keeps R m \<Longrightarrow> m w = (r, w') \<Longrightarrow> R w w'"
  unfolding keeps_def by (metis snd_conv)

section \<open>Replay\<close>

definition unchanged :: "world \<Rightarrow> world \<Rightarrow> bool" where
  "unchanged w v \<longleftrightarrow> w_db v = w_db w \<and> w_buf v = w_buf w \<and> w_dirty v = w_dirty w"

lemma grid_changed_none:
  "grid_changed b s t i v 0 w = (Inr (), w)"
  by (simp add: grid_changed_def)

lemma grid_changed_db: "grid_changed b s t i v n w = (r, w') \<Longrightarrow> w_db w' = w_db w"
proof -
  have "keeps same_db (grid_changed b s t i v n)"
    unfolding grid_changed_def writeGridStat_def Let_def by (intro reads_intros)
  then show "grid_changed b s t i v n w = (r, w') \<Longrightarrow> w_db w' = w_db w"
    using keeps_run by (fastforce simp: same_db_def)
qed

lemma grid_upsert_again: "fst (grid_upsert i s t x v (snd (grid_upsert i s t x v d))) = 0 \<and>
    snd (grid_upsert i s t x v (snd (grid_upsert i s t x v d))) = snd (grid_upsert i s t x v d)"
  by (auto simp: grid_upsert_def split: option.splits if_splits)

lemma grid_delete_again: "grid_delete i (snd (grid_delete i d)) = (0, snd (grid_delete i d))"
  by (auto simp: grid_delete_def split: option.splits)

lemma grid_replay:
  assumes "gridHandler b raw w = (Inr (), w1)" "gridHandler c raw v = (Inr (), v1)" "w_db v = w_db w1"
  shows "unchanged v v1"
proof -
  obtain p where p: "Decode raw decode_Grid = Inr p"
    using assms(1) by (auto simp: gridHandler_def bindO_Inr)
  obtain s t x where x: "parseGridAttributeID (Grid_AttributeID p) = Inr (s, t, x)"
    using assms(1) p
    by (cases "parseGridAttributeID (Grid_AttributeID p)") (auto simp: gridHandler_def bindO_Inr guardO_case)
  show ?thesis
  proof (cases "Grid_Value p = []")
    case True
    obtain n u where "sql (grid_delete (Grid_AttributeID p)) w = (Inr n, u)"
      "grid_changed b s t x 0 n u = (Inr (), w1)"
      using assms(1) p x True by (auto simp: gridHandler_def bindO_Inr guardO_case wrapO_Inr)
    then have "w_db v = snd (grid_delete (Grid_AttributeID p) (w_db w))"
      using grid_changed_db assms(3) by (fastforce simp: sql_Inr)
    moreover obtain m u' where "sql (grid_delete (Grid_AttributeID p)) v = (Inr m, u')"
      "grid_changed c s t x 0 m u' = (Inr (), v1)"
      using assms(2) p x True by (auto simp: gridHandler_def bindO_Inr guardO_case wrapO_Inr)
    ultimately show ?thesis
      by (auto simp: sql_Inr grid_delete_again grid_changed_none unchanged_def)
  next
    case False
    obtain val where val: "parse_uint64 (Grid_Value p) = Some val"
      using assms(1) p x False by (auto simp: gridHandler_def bindO_Inr guardO_case split: option.splits)
    let ?up = "grid_upsert (Grid_AttributeID p) s t x val"
    obtain n u where "sql ?up w = (Inr n, u)" "grid_changed b s t x val n u = (Inr (), w1)"
      using assms(1) p x False val by (auto simp: gridHandler_def bindO_Inr guardO_case wrapO_Inr)
    then have d: "w_db v = snd (?up (w_db w))"
      using grid_changed_db assms(3) by (fastforce simp: sql_Inr)
    obtain m u' where m: "sql ?up v = (Inr m, u')" "grid_changed c s t x val m u' = (Inr (), v1)"
      using assms(2) p x False val by (auto simp: gridHandler_def bindO_Inr guardO_case wrapO_Inr)
    have "m = 0" "w_db u' = w_db v" "w_buf u' = w_buf v" "w_dirty u' = w_dirty v"
      using m(1) grid_upsert_again [of "Grid_AttributeID p" s t x val "w_db w"]
      by (auto simp: sql_Inr d)
    then show ?thesis using m(2) by (simp add: grid_changed_none unchanged_def)
  qed
qed

lemma planet_upsert_again:
  "fst (planet_attribute_upsert i a t x v (snd (planet_attribute_upsert i a t x v d))) = None \<and>
   snd (planet_attribute_upsert i a t x v (snd (planet_attribute_upsert i a t x v d)))
     = snd (planet_attribute_upsert i a t x v d)"
  by (auto simp: planet_attribute_upsert_def split: option.splits if_splits)

lemma planet_attribute_replay:
  assumes "planetAttributeHandler b raw w = (Inr (), w1)" "planetAttributeHandler c raw v = (Inr (), v1)"
    and "w_db v = w_db w1"
  shows "unchanged v v1"
proof -
  obtain p a t x new where p: "Decode raw decode_PlanetAttribute = Inr p"
    and x: "parsePlanetAttributeID (PlanetAttribute_AttributeID p) = Inr (a, t, x)"
    and new: "parseAttributeValue (PlanetAttribute_Value p) = Inr new"
    using assms(1)
    by (auto simp: planetAttributeHandler_def Let_def bindO_Inr guardO_case wrapO_Inr liftO_def)
  let ?up = "planet_attribute_upsert (PlanetAttribute_AttributeID p) a t x new"
  obtain r u where r: "sql ?up w = (Inr r, u)"
    "(case r of None \<Rightarrow> returnO () | Some oldText \<Rightarrow> bindO (liftO (parseAttributeValue oldText))
       (\<lambda>old. emitPlanetAttributeActivity b a t x old new)) u = (Inr (), w1)"
    using assms(1) p x new
    by (auto simp: planetAttributeHandler_def Let_def bindO_Inr guardO_case wrapO_Inr)
  have frame: "keeps same_db (case r of None \<Rightarrow> returnO () | Some oldText \<Rightarrow> bindO (liftO (parseAttributeValue oldText))
       (\<lambda>old. emitPlanetAttributeActivity b a t x old new))"
    unfolding emitPlanetAttributeActivity_def Let_def by (intro reads_intros reads_push_activity)
  then have d: "w_db v = snd (?up (w_db w))"
    using keeps_run [OF frame r(2)] r(1) assms(3) by (auto simp: same_db_def sql_Inr)
  obtain s u' where s: "sql ?up v = (Inr s, u')"
    "(case s of None \<Rightarrow> returnO () | Some oldText \<Rightarrow> bindO (liftO (parseAttributeValue oldText))
       (\<lambda>old. emitPlanetAttributeActivity c a t x old new)) u' = (Inr (), v1)"
    using assms(2) p x new
    by (auto simp: planetAttributeHandler_def Let_def bindO_Inr guardO_case wrapO_Inr)
  have "s = None" "w_db u' = w_db v" "w_buf u' = w_buf v" "w_dirty u' = w_dirty v"
    using s(1) planet_upsert_again [of "PlanetAttribute_AttributeID p" a t x new "w_db w"]
    by (auto simp: sql_Inr d)
  then show ?thesis using s(2) by (simp add: unchanged_def)
qed

text \<open>
  Attribute events are replay-safe: once a grid or planet-attribute event has been
  applied, applying the same payload again (from any block) over the resulting tables
  writes no row, buffers no statistic or activity and marks nothing.
\<close>

theorem attribute_events_replay_noop:
  assumes "h = gridHandler \<or> h = planetAttributeHandler"
    and "h b raw w = (Inr (), w1)" "h c raw v = (Inr (), v1)" "w_db v = w_db w1"
  shows "w_db v1 = w_db v \<and> w_buf v1 = w_buf v \<and> w_dirty v1 = w_dirty v"
  using assms grid_replay planet_attribute_replay unfolding unchanged_def by blast

definition example_grid :: string where
  "example_grid = ''{'' @ json_quote ''attributeId'' @ '':'' @ json_quote ''0-5-3'' @ '','' @
     json_quote ''value'' @ '':'' @ json_quote ''7'' @ ''}''"

lemma example_grid_parts:
  "Decode example_grid decode_Grid = Inr \<lparr>Grid_AttributeID = ''0-5-3'', Grid_Value = ''7''\<rparr>"
  "parseGridAttributeID ''0-5-3'' = Inr (0, 5, 3)"
  "parse_uint64 ''7'' = Some 7"
  "from_id 5 = Some Struct"
  by code_simp+

definition example_grid_world :: world where
  "example_grid_world = snd (gridHandler example_context example_grid clean_world)"

lemma example_grid_run:
  "gridHandler example_context example_grid clean_world = (Inr (), example_grid_world)"
  "gridHandler example_context example_grid example_grid_world = (Inr (), tick example_grid_world)"
  by (simp_all add: example_grid_world_def gridHandler_def example_grid_parts sql_def grid_upsert_def
      grid_changed_def writeGridStat_def requireObjectTypeLabel_def push_def mark_def bindO_def wrapO_def
      clean_world_def empty_tables_def tick_def Let_def)

theorem attribute_events_replay_noop_witness:
  "w_db (tick example_grid_world) = w_db example_grid_world \<and>
   w_buf (tick example_grid_world) = w_buf example_grid_world \<and>
   w_dirty (tick example_grid_world) = w_dirty example_grid_world"
  using attribute_events_replay_noop [of gridHandler example_context example_grid clean_world
      example_grid_world example_context example_grid_world] example_grid_run
  by simp

section \<open>Raids\<close>

text \<open>
  A raid event that repeats the stored fleet and status of its planet leaves the table
  and the buffer exactly as they were, whatever amount of seized ore it carries: an
  update of \<open>seized_ore\<close> alone is neither stored nor put on the timeline.
\<close>

theorem raid_seized_ore_alone_ignored:
  assumes "Decode raw decode_Raid = Inr p" "raidHandler b raw w = (Inr (), w')"
    and "tbl_get (db_planet_raid (w_db w)) (Raid_PlanetID p) = Some old"
    and "rd_fleet_id old = nullIfEmpty (Raid_FleetID p)" "rd_status old = nullIfEmpty (Raid_Status p)"
  shows "w_db w' = w_db w \<and> w_buf w' = w_buf w"
  using assms
  by (auto simp: raidHandler_def bindO_Inr guardO_case wrapO_Inr whenO_case sql_Inr raid_upsert_def
      split: if_splits)

definition example_raid :: string where
  "example_raid = ''{'' @ json_quote ''planetId'' @ '':'' @ json_quote ''2-1'' @ '','' @
     json_quote ''fleetId'' @ '':'' @ json_quote ''9-1'' @ '','' @ json_quote ''seized_ore'' @ '':5}''"

definition example_raid_world :: world where
  "example_raid_world = clean_world\<lparr>w_db := empty_tables\<lparr>db_planet_raid :=
     [(''2-1'', \<lparr>rd_fleet_id = Some ''9-1'', rd_status = None, rd_seized_ore = None\<rparr>)]\<rparr>\<rparr>"

lemma example_raid_decode:
  "Decode example_raid decode_Raid = Inr \<lparr>Raid_FleetID = ''9-1'', Raid_PlanetID = ''2-1'',
     Raid_Status = [], Raid_SeizedOre = ''5''\<rparr>"
  by code_simp

theorem raid_seized_ore_alone_ignored_witness:
  "w_db (tick example_raid_world) = w_db example_raid_world \<and>
   w_buf (tick example_raid_world) = w_buf example_raid_world"
proof (rule raid_seized_ore_alone_ignored [OF example_raid_decode,
      where old = "\<lparr>rd_fleet_id = Some ''9-1'', rd_status = None, rd_seized_ore = None\<rparr>"])
  show "raidHandler example_context example_raid example_raid_world = (Inr (), tick example_raid_world)"
    by (simp add: raidHandler_def example_raid_decode sql_def raid_upsert_def bindO_def wrapO_def
        example_raid_world_def clean_world_def nullIfEmpty_def tick_def)
qed (simp_all add: example_raid_world_def clean_world_def nullIfEmpty_def)

section \<open>Destroyed structs\<close>

definition undefended :: "tables \<Rightarrow> string \<Rightarrow> bool" where
  "undefended d i \<longleftrightarrow> (\<forall>(k, r) \<in> set (db_defender d). df_protected r \<noteq> i)"

definition destroyed_at :: "tables \<Rightarrow> string \<Rightarrow> int \<Rightarrow> bool" where
  "destroyed_at d i height \<longleftrightarrow> (\<forall>s. tbl_get (db_struct d) i = Some s \<longrightarrow>
     st_is_destroyed s \<and> st_destroyed_block s = Some height)"

text \<open>The per-defender loop touches neither the defender nor the struct table.\<close>

definition same_structs :: "world \<Rightarrow> world \<Rightarrow> bool" where
  "same_structs w v \<longleftrightarrow> db_defender (w_db v) = db_defender (w_db w) \<and> db_struct (w_db v) = db_struct (w_db w)"

interpretation keeps_structs: preorder_op same_structs
  by unfold_locales (simp_all add: same_structs_def)

lemma same_db_structs: "keeps same_db m \<Longrightarrow> keeps same_structs m"
  by (simp add: keeps_def same_db_def same_structs_def)

lemma structs_delete_attribute: "keeps same_structs (sql (delete_protected_attribute s))"
  by (auto simp: keeps_def same_structs_def sql_def delete_protected_attribute_def
      split: option.splits prod.splits if_splits)

lemma structs_defender_loop:
  "keeps same_structs (forO defenders (\<lambda>defender.
     bindO (wrapO msg (sql (delete_protected_attribute defender))) (\<lambda>_. emitStructDefenseRemove b i defender)))"
  by (intro keeps_structs.keeps_intros structs_delete_attribute same_db_structs reads_defense)

lemma clear_defenders_result:
  assumes "clearDefendersOfDestroyedProtected b i idx w = (Inr (), w')"
  shows "undefended (w_db w') i \<and> db_struct (w_db w') = db_struct (w_db w)"
proof -
  obtain ds u where u: "sql (\<lambda>d. (map fst (filter (\<lambda>(k, r). df_protected r = i) (db_defender d)),
         d\<lparr>db_defender := tbl_filter (\<lambda>k r. df_protected r \<noteq> i) (db_defender d)\<rparr>)) w = (Inr ds, u)"
    and loop: "forO ds (\<lambda>defender.
       bindO (wrapO ''delete protectedStructIndex attr: '' (sql (delete_protected_attribute defender))) (\<lambda>_.
       emitStructDefenseRemove b (of_int idx) defender)) u = (Inr (), w')"
    using assms by (auto simp: clearDefendersOfDestroyedProtected_def bindO_Inr wrapO_Inr)
  have "same_structs u w'" using keeps_run [OF structs_defender_loop loop] .
  then show ?thesis
    using u by (auto simp: same_structs_def sql_Inr undefended_def tbl_filter_def)
qed

text \<open>
  When a status event destroys a struct (bit 32 of a changed status value), the handler
  leaves no defender relationship that still points at it, and stamps the struct's row,
  if there is one, as destroyed at the event's own block height.
\<close>

theorem destroyed_struct_undefended:
  assumes "structAttributeHandler b raw w = (Inr (), w')"
    and "Decode raw decode_StructAttribute = Inr p"
    and "parseStructAttributeID (StructAttribute_AttributeID p) = Inr (1, tid, idx, sub)"
    and "parseAttributeValue (StructAttribute_Value p) = Inr val" "val AND structDestroyedBit \<noteq> 0"
    and "map_option sa_val (tbl_get (db_struct_attribute (w_db w)) (StructAttribute_AttributeID p)) \<noteq> Some val"
  shows "undefended (w_db w') (raw_object_id tid idx) \<and>
         destroyed_at (w_db w') (raw_object_id tid idx) (bc_height b)"
proof -
  let ?i = "StructAttribute_AttributeID p" and ?obj = "raw_object_id tid idx"
  have "val \<noteq> 0" using assms(5) by auto
  then obtain r u where up: "sql (struct_attribute_upsert ?i 1 tid idx sub val) w = (Inr r, u)"
    and tail: "(case r of None \<Rightarrow> returnO () | Some oldText \<Rightarrow>
           bindO (liftO (parseAttributeValue oldText)) (\<lambda>old.
           bindO (struct_attribute_effects b 1 tid idx val) (\<lambda>_.
           wrapO ''struct_attribute: emit activity: ''
             (emitStructAttributeActivity b 1 old val ?obj)))) u = (Inr (), w')"
    using assms(1-4) by (auto simp: structAttributeHandler_def Let_def bindO_Inr guardO_case wrapO_Inr)
  have "r \<noteq> None"
    using up assms(6) by (auto simp: sql_Inr struct_attribute_upsert_def split: option.splits if_splits)
  then obtain old u2 where eff: "struct_attribute_effects b 1 tid idx val u = (Inr (), u2)"
    and emit: "emitStructAttributeActivity b 1 old val ?obj u2 = (Inr (), w')"
    using tail by (auto simp: bindO_Inr wrapO_Inr)
  have last_db: "w_db w' = w_db u2"
    using keeps_run [OF reads_struct_activity emit] by (simp add: same_db_def)
  obtain u1 where stamp: "exec (stamp_destroyed ?obj (bc_height b)) (snd (push (\<lambda>bf. bf\<lparr>b_struct_status :=
        b_struct_status bf @ [mk_stat b None idx val]\<rparr>) u)) = (Inr (), u1)"
    and clear: "clearDefendersOfDestroyedProtected b ?obj idx u1 = (Inr (), u2)"
    using eff assms(5) by (auto simp: struct_attribute_effects_def bindO_Inr wrapO_Inr push_def)
  have "destroyed_at (w_db u1) ?obj (bc_height b)"
    using stamp by (auto simp: exec_def sql_Inr destroyed_at_def stamp_destroyed_def split: option.splits)
  then show ?thesis
    using clear_defenders_result [OF clear] last_db by (simp add: destroyed_at_def)
qed

definition example_status :: string where
  "example_status = ''{'' @ json_quote ''attributeId'' @ '':'' @ json_quote ''1-5-3'' @ '','' @
     json_quote ''value'' @ '':'' @ json_quote ''33'' @ ''}''"

definition example_defended :: world where
  "example_defended = clean_world\<lparr>w_db := empty_tables\<lparr>
     db_struct := [(''5-3'', \<lparr>st_index = 3, st_type = 1, st_creator = [], st_owner = ''1-1'',
        st_location_type = ''planet'', st_location_id = ''2-1'', st_ambit = ''land'', st_slot = 0,
        st_is_destroyed = False, st_destroyed_block = None\<rparr>)],
     db_defender := [(''5-8'', \<lparr>df_protected = ''5-3'', df_is_planetary = True\<rparr>)]\<rparr>\<rparr>"

lemma example_status_parts:
  "Decode example_status decode_StructAttribute =
     Inr \<lparr>StructAttribute_AttributeID = ''1-5-3'', StructAttribute_Value = ''33''\<rparr>"
  "parseStructAttributeID ''1-5-3'' = Inr (1, 5, 3, 0)"
  "parseAttributeValue ''33'' = Inr 33" "parseAttributeValue ''0'' = Inr 0"
  "(33 :: 64 word) AND structDestroyedBit = 32" "raw_object_id 5 3 = ''5-3''"
  "''5-'' @ format_uint (of_int 3) = ''5-3''"
  by code_simp+

lemma example_status_run:
  "structAttributeHandler example_context example_status example_defended =
     (Inr (), snd (structAttributeHandler example_context example_status example_defended))"
  by (simp add: structAttributeHandler_def example_status_parts sql_def struct_attribute_upsert_def
      struct_attribute_effects_def exec_def stamp_destroyed_def clearDefendersOfDestroyedProtected_def
      tbl_filter_def delete_protected_attribute_def emitStructDefenseRemove_def emit_defense_def
      getActivityLocationID_def query_opt_def query_def push_activity_def push_def
      emitStructAttributeActivity_def emitStructAttributeOnStructPlanet_def
      bindO_def wrapO_def example_defended_def clean_world_def empty_tables_def tick_def Let_def
      example_status_parts [simplified])

theorem destroyed_struct_undefended_witness:
  "undefended (w_db (snd (structAttributeHandler example_context example_status example_defended)))
     (raw_object_id 5 3) \<and>
   destroyed_at (w_db (snd (structAttributeHandler example_context example_status example_defended)))
     (raw_object_id 5 3) (bc_height example_context)"
  by (rule destroyed_struct_undefended [OF example_status_run example_status_parts(1), where sub = 0 and val = 33])
    (simp_all add: example_status_parts example_defended_def clean_world_def empty_tables_def)

section \<open>Permission identifiers\<close>

lemma split_on_one: "c \<notin> set a \<Longrightarrow> split_on c (a @ c # b) = a # split_on c b"
  by (simp add: split_on_append)

text \<open>
  A permission identifier \<open><type>-<index>@<player>\<close> decodes into its parts: the type, the
  object index, the object id \<open><type>-<index>\<close> and the player id, with the object type the
  label of a known type and empty otherwise.
\<close>

theorem decode_permission_id:
  assumes "CHR ''-'' \<notin> set ty" "CHR ''@'' \<notin> set ty" "CHR ''-'' \<notin> set idx" "CHR ''@'' \<notin> set idx"
    and "CHR ''@'' \<notin> set player" "ty \<noteq> []"
  shows "decodePermissionID (ty @ ''-'' @ idx @ ''@'' @ player) =
    Inr \<lparr>dp_typeID = ty,
         dp_objectType = (case map_of permissionTypeLabels ty of None \<Rightarrow> [] | Some l \<Rightarrow> l),
         dp_objectIndex = idx, dp_objectIDLiteral = ty @ ''-'' @ idx, dp_playerIDLiteral = player\<rparr>"
proof -
  let ?i = "ty @ ''-'' @ idx @ ''@'' @ player"
  have dash: "split_on (CHR ''-'') ?i = ty # split_on (CHR ''-'') (idx @ ''@'' @ player)"
    using split_on_one [OF assms(1), of "idx @ ''@'' @ player"] by simp
  have at: "split_on (CHR ''@'') ?i = [ty @ ''-'' @ idx, player]"
    using split_on_one [of "CHR ''@''" "ty @ ''-'' @ idx" player] assms(2,4,5) by simp
  obtain q qs where q: "split_on (CHR ''-'') (idx @ ''@'' @ player) = q # qs"
    using split_on_nonempty by (metis neq_Nil_conv)
  have part: "splitPart q (CHR ''@'') 1 = idx"
  proof -
    obtain rest where qe: "q = idx @ CHR ''@'' # rest"
    proof (cases "CHR ''-'' \<in> set player")
      case False
      then have "q = idx @ ''@'' @ player"
        using q assms(3) split_on_free [of "CHR ''-''" "idx @ ''@'' @ player"] by simp
      then show ?thesis using that by simp
    next
      case True
      then obtain us vs where pl: "player = us @ CHR ''-'' # vs" "CHR ''-'' \<notin> set us"
        by (meson split_list_first)
      then have "split_on (CHR ''-'') (idx @ ''@'' @ player)
          = (idx @ ''@'' @ us) # split_on (CHR ''-'') vs"
        using split_on_one [of "CHR ''-''" "idx @ ''@'' @ us" vs] assms(3) by simp
      then show ?thesis using that [of us] q by auto
    qed
    have "split_on (CHR ''@'') q = idx # split_on (CHR ''@'') rest"
      unfolding qe by (rule split_on_one [OF assms(4)])
    then show ?thesis by (simp add: splitPart_def qe)
  qed
  show ?thesis
    using assms(6) dash at q part
    by (simp add: decodePermissionID_def splitPart_def Let_def)
qed

theorem decode_permission_id_witness:
  "decodePermissionID ''5-42@1-1'' =
    Inr \<lparr>dp_typeID = ''5'', dp_objectType = ''struct'', dp_objectIndex = ''42'',
         dp_objectIDLiteral = ''5-42'', dp_playerIDLiteral = ''1-1''\<rparr>"
  using decode_permission_id [of "''5''" "''42''" "''1-1''"] by (simp add: permissionTypeLabels_def)

end
