(* ===== verification/Economy.thy ===== *)
theory Economy
  imports Attributes
begin

text \<open>
  The snapshot events of the economy: \<open>events/infusion.go\<close>, \<open>infusion_reconcile.go\<close>,
  \<open>economy_position.go\<close>, \<open>economy.go\<close> and \<open>delete.go\<close>.

  A snapshot event carries the whole new state of an entity, so applying it out of order
  would be wrong; every such handler compares the event's position (height, phase,
  transaction, event index) with the position of the last event applied to the entity.
  A \<open>NULL\<close> phase marks a position recorded before phases existed.
\<close>

section \<open>Positions\<close>

definition position_of :: "block_context \<Rightarrow> event_position" where
  "position_of b =
     \<lparr>ep_height = bc_height b, ep_phase = Some (phase_num (PositionPhase b)),
      ep_tx = bc_tx b, ep_event = bc_event b\<rparr>"

text \<open>\<open>(height,phase,tx,event) >= (...)\<close> as PostgreSQL compares rows: a NULL that decides is
  not true.\<close>

definition row_ge :: "event_position \<Rightarrow> event_position \<Rightarrow> bool" where
  "row_ge p q \<longleftrightarrow>
     ep_height q < ep_height p \<or>
     (ep_height q = ep_height p \<and>
       (case (ep_phase p, ep_phase q) of
          (Some x, Some y) \<Rightarrow> y < x \<or> (y = x \<and>
            (ep_tx q < ep_tx p \<or> (ep_tx q = ep_tx p \<and> ep_event q \<le> ep_event p)))
        | _ \<Rightarrow> False))"

definition row_gt :: "event_position \<Rightarrow> event_position \<Rightarrow> bool" where
  "row_gt p q \<longleftrightarrow> row_ge p q \<and> p \<noteq> q"

definition owner_pattern :: "char list \<Rightarrow> string \<Rightarrow> bool" where
  "owner_pattern kinds s \<longleftrightarrow>
     (case s of
        k # dash # d # ds \<Rightarrow> k \<in> set kinds \<and> dash = CHR ''-'' \<and> is_digit d \<and> d \<noteq> CHR ''0'' \<and>
          list_all is_digit ds
      | _ \<Rightarrow> False)"

definition ownerIDPattern :: "string \<Rightarrow> bool" where
  "ownerIDPattern = owner_pattern ''01''"

definition reactorIDPattern :: "string \<Rightarrow> bool" where
  "reactorIDPattern = owner_pattern ''3''"

definition regexpInfusionDestination :: "string \<Rightarrow> bool" where
  "regexpInfusionDestination = owner_pattern ''35''"

definition dirtyOwner :: "string \<Rightarrow> (world, unit) op" where
  "dirtyOwner i =
     (if has_prefix i ''0-'' then mark (Dirty_Guild i)
      else if has_prefix i ''1-'' then mark (Dirty_Player i)
      else returnO ())"

section \<open>Infusions\<close>

type_synonym infusion_key = "string \<times> string"

definition legacy_height :: "infusion_key \<Rightarrow> tables \<Rightarrow> int option" where
  "legacy_height k d =
     (case tbl_get (db_infusion d) k of
        None \<Rightarrow> None
      | Some _ \<Rightarrow>
          (let hs = map lr_height (filter (\<lambda>l. lr_address l = snd k \<and> lr_counterparty l = fst k \<and>
                      lr_action l = ''infused'') (db_ledger d))
           in Some (if hs = [] then 0 else fold max hs (hd hs))))"

definition position_applied :: "block_context \<Rightarrow> event_position \<Rightarrow> bool res" where
  "position_applied b p =
     (if bc_height b \<noteq> ep_height p then Inr (bc_height b < ep_height p)
      else (case ep_phase p of
          None \<Rightarrow> Inl (errorf ''infusion position has unknown legacy phase'')
        | Some ph \<Rightarrow>
            Inr (if phase_num (PositionPhase b) \<noteq> ph then phase_num (PositionPhase b) < ph
                 else if bc_tx b \<noteq> ep_tx p then bc_tx b < ep_tx p
                 else bc_event b \<le> ep_event p)))"

definition infusionEventApplied :: "block_context \<Rightarrow> infusion_key \<Rightarrow> (world, bool) op" where
  "infusionEventApplied b k =
     bindO (wrapO ''infusion position: '' (query_opt (\<lambda>d. tbl_get (db_infusion_position d) k))) (\<lambda>pos.
     case pos of
       Some p \<Rightarrow> liftO (position_applied b p)
     | None \<Rightarrow>
         bindO (wrapO ''infusion legacy height: '' (query (legacy_height k))) (\<lambda>legacy.
         returnO (case legacy of None \<Rightarrow> False | Some l \<Rightarrow> bc_height b \<le> l)))"

definition asset_owner :: "infusion_row \<Rightarrow> string" where
  "asset_owner r =
     (case in_owner_id r of
        None \<Rightarrow> in_player_id r
      | Some o' \<Rightarrow> if o' = [] then in_player_id r else o')"

definition infusion_upsert :: "pInfusion \<Rightarrow> tables \<Rightarrow> tables" where
  "infusion_upsert p d =
     (let k = (Infusion_DestinationID p, Infusion_Address p);
          ty = (case tbl_get (db_infusion d) k of
                  None \<Rightarrow> Infusion_DestinationType p | Some r \<Rightarrow> in_destination_type r)
      in d\<lparr>db_infusion := tbl_put k
           \<lparr>in_destination_type = ty, in_player_id = Infusion_PlayerID p, in_fuel = Infusion_Fuel p,
            in_defusing = Infusion_Defusing p, in_power = Infusion_Power p, in_ratio = Infusion_Ratio p,
            in_commission = Numeric_PgValue (Infusion_Commission p), in_owner_id = Some (Infusion_OwnerID p),
            in_generator_disabled = Infusion_GeneratorDisabled p\<rparr> (db_infusion d)\<rparr>)"

definition infusion_position_upsert :: "infusion_key \<Rightarrow> event_position \<Rightarrow> tables \<Rightarrow> tables" where
  "infusion_position_upsert k pos d =
     d\<lparr>db_infusion_position := tbl_put k pos (db_infusion_position d)\<rparr>"

text \<open>The debit and the credit of a fuel change; \<open>prev\<close> is the fuel before, when the row exists.\<close>

definition emitInfusionLedger :: "block_context \<Rightarrow> pInfusion \<Rightarrow> int option \<Rightarrow> (world, unit) op" where
  "emitInfusionLedger b p prev =
     (let new = int (unat (Infusion_Fuel p));
          rows = (\<lambda>a.
            [ledger_draft (Infusion_Address p) (Infusion_DestinationID p) (dec_int a) ''infused'' ''debit'' ''ualpha'',
             ledger_draft (Infusion_Address p) (Infusion_DestinationID p) (dec_int a) ''infused'' ''credit'' ''ualpha.infused''])
      in case prev of
           None \<Rightarrow> appendLedger b (rows new)
         | Some old \<Rightarrow> if new = old then returnO () else appendLedger b (rows (new - old)))"

definition infusion_marks :: "pInfusion \<Rightarrow> string option \<Rightarrow> (world, unit) op" where
  "infusion_marks p previousOwner =
     bindO (whenO (Infusion_DestinationType p = ''reactor'')
        (bindO (mark (Dirty_Reactor (Infusion_DestinationID p))) (\<lambda>_.
         mark (Dirty_NativeAddress (Infusion_Address p))))) (\<lambda>_.
     bindO (case previousOwner of None \<Rightarrow> returnO () | Some o' \<Rightarrow> dirtyOwner o') (\<lambda>_.
     bindO (dirtyOwner (AssetOwnerID p)) (\<lambda>_.
     mark (Dirty_Address (Infusion_Address p)))))"

definition infusion_effects :: "block_context \<Rightarrow> pInfusion \<Rightarrow> (world, unit) op" where
  "infusion_effects b p =
     (let k = (Infusion_DestinationID p, Infusion_Address p) in
      bindO (query_opt (\<lambda>d. map_option asset_owner (tbl_get (db_infusion d) k))) (\<lambda>previousOwner.
      bindO (wrapO ''infusion position upsert: '' (exec (infusion_position_upsert k (position_of b)))) (\<lambda>_.
      bindO (if Infusion_DestinationType p = ''struct''
             then wrapO ''infusion prev fuel: '' (query_opt (\<lambda>d. map_option
                    (\<lambda>r. int (unat (in_fuel r))) (tbl_get (db_infusion d) k)))
             else returnO None) (\<lambda>prevFuel.
      bindO (wrapO ''infusion upsert: '' (exec (infusion_upsert p))) (\<lambda>_.
      bindO (whenO (Infusion_DestinationType p = ''struct'')
             (wrapO ''infusion ledger: '' (emitInfusionLedger b p prevFuel))) (\<lambda>_.
      infusion_marks p previousOwner))))))"

definition decode_infusion_event :: "block_context \<Rightarrow> string \<Rightarrow> pInfusion res" where
  "decode_infusion_event b raw =
     bindR (DecodeVersioned raw (bctx_V022Active b) decode_Infusion [''ownerId'', ''generatorDisabled'']) (\<lambda>p.
     bindR (guardR (Infusion_DestinationID p \<noteq> [] \<and> Infusion_Address p \<noteq> [])
        (errorf ''infusion: empty destination_id or address'')) (\<lambda>_.
     bindR (guardR (Infusion_OwnerID p = [] \<or> ownerIDPattern (Infusion_OwnerID p))
        (errorf ''infusion: invalid owner'')) (\<lambda>_. Inr p)))"

definition infusionHandler :: handler where
  "infusionHandler b raw =
     bindO (liftO (decode_infusion_event b raw)) (\<lambda>p.
     bindO (infusionEventApplied b (Infusion_DestinationID p, Infusion_Address p)) (\<lambda>applied.
     if applied then returnO () else infusion_effects b p))"

section \<open>Economy snapshots\<close>

definition economyEventApplied :: "block_context \<Rightarrow> string \<Rightarrow> string \<Rightarrow> (world, bool) op" where
  "economyEventApplied b family i =
     query (\<lambda>d. list_ex (\<lambda>e. case tbl_get (db_economy_position d) (family, e) of
        None \<Rightarrow> False | Some p \<Rightarrow> row_ge p (position_of b)) [[], i])"

definition recordEconomyPosition :: "block_context \<Rightarrow> string \<Rightarrow> string \<Rightarrow> (world, unit) op" where
  "recordEconomyPosition b family i =
     exec (\<lambda>d. d\<lparr>db_economy_position := tbl_put (family, i) (position_of b) (db_economy_position d)\<rparr>)"

definition newer_position :: "block_context \<Rightarrow> string \<Rightarrow> string \<Rightarrow> tables \<Rightarrow> bool" where
  "newer_position b family i d =
     (case tbl_get (db_economy_position d) (family, i) of
        None \<Rightarrow> False | Some p \<Rightarrow> row_gt p (position_of b))"

definition reset_rows :: "block_context \<Rightarrow> string \<Rightarrow> tables \<Rightarrow> string list \<times> tables" where
  "reset_rows b family d =
     (if family = ''diversity'' then
        (filter (\<lambda>i. \<not> newer_position b family i d) (map fst (db_diversity d)),
         d\<lparr>db_diversity := tbl_filter (\<lambda>i r. newer_position b family i d) (db_diversity d)\<rparr>)
      else
        (filter (\<lambda>i. \<not> newer_position b family i d) (map fst (db_commission d)),
         d\<lparr>db_commission := tbl_filter (\<lambda>i r. newer_position b family i d) (db_commission d)\<rparr>))"

definition drop_positions :: "block_context \<Rightarrow> string \<Rightarrow> tables \<Rightarrow> tables" where
  "drop_positions b family d =
     d\<lparr>db_economy_position := tbl_filter
        (\<lambda>k p. \<not> (fst k = family \<and> row_ge (position_of b) p)) (db_economy_position d)\<rparr>"

definition resetEconomy :: "block_context \<Rightarrow> string \<Rightarrow> (world, unit) op" where
  "resetEconomy b family =
     bindO (economyEventApplied b family []) (\<lambda>applied.
     if applied then returnO ()
     else bindO (guardO (family = ''diversity'' \<or> family = ''commission'')
            (errorf ''unknown economy reset family'')) (\<lambda>_.
          bindO (sql (reset_rows b family)) (\<lambda>ids.
          bindO (forO ids (\<lambda>i. if family = ''commission'' then mark (Dirty_Reactor i) else dirtyOwner i)) (\<lambda>_.
          bindO (exec (drop_positions b family)) (\<lambda>_.
          recordEconomyPosition b family [])))))"

definition vault_upsert :: "pVaultAddress \<Rightarrow> tables \<Rightarrow> tables" where
  "vault_upsert p d =
     (case tbl_get (db_vault d) (VaultAddress_OwnerID p) of
        None \<Rightarrow> d\<lparr>db_vault := tbl_put (VaultAddress_OwnerID p)
            \<lparr>va_address = VaultAddress_VaultAddress p, va_account_number = VaultAddress_AccountNumber p,
             va_account_created = Some (VaultAddress_AccountCreated p)\<rparr> (db_vault d)\<rparr>
      | Some r \<Rightarrow>
          if va_address r = VaultAddress_VaultAddress p \<and>
             va_account_number r = VaultAddress_AccountNumber p \<and> va_account_created r = None
          then d\<lparr>db_vault := tbl_put (VaultAddress_OwnerID p)
                 (r\<lparr>va_account_created := Some (VaultAddress_AccountCreated p)\<rparr>) (db_vault d)\<rparr>
          else d)"

definition vault_matches :: "pVaultAddress \<Rightarrow> tables \<Rightarrow> bool" where
  "vault_matches p d \<longleftrightarrow>
     tbl_get (db_vault d) (VaultAddress_OwnerID p) = Some
       \<lparr>va_address = VaultAddress_VaultAddress p, va_account_number = VaultAddress_AccountNumber p,
        va_account_created = Some (VaultAddress_AccountCreated p)\<rparr>"

definition vaultAddressHandler :: handler where
  "vaultAddressHandler b raw =
     bindO (liftO (DecodeRequired raw decode_VaultAddress
       [''ownerId'', ''vaultAddress'', ''accountNumber'', ''accountCreated''])) (\<lambda>p.
     bindO (guardO (ownerIDPattern (VaultAddress_OwnerID p) \<and> VaultAddress_VaultAddress p \<noteq> [])
       (errorf ''vault: invalid owner or empty address'')) (\<lambda>_.
     bindO (exec (vault_upsert p)) (\<lambda>_.
     bindO (query (vault_matches p)) (\<lambda>matches.
     bindO (guardO matches (errorf ''vault: conflicting identity for owner'')) (\<lambda>_.
     bindO (dirtyOwner (VaultAddress_OwnerID p)) (\<lambda>_.
     mark (Dirty_Address (VaultAddress_VaultAddress p))))))))"

definition ownerReactorDiversityHandler :: handler where
  "ownerReactorDiversityHandler b raw =
     bindO (liftO (DecodeRequired raw decode_OwnerReactorDiversity
       [''ownerId'', ''power'', ''squaredPower'', ''appliedBonus''])) (\<lambda>p.
     let i = OwnerReactorDiversity_OwnerID p in
     bindO (guardO (ownerIDPattern i) (errorf ''diversity: invalid owner'')) (\<lambda>_.
     bindO (economyEventApplied b ''diversity'' i) (\<lambda>applied.
     if applied then returnO ()
     else bindO (exec (\<lambda>d. d\<lparr>db_diversity := tbl_put i
            \<lparr>dv_power = OwnerReactorDiversity_Power p,
             dv_squared_power = OwnerReactorDiversity_SquaredPower p,
             dv_applied_bonus = OwnerReactorDiversity_AppliedBonus p\<rparr> (db_diversity d)\<rparr>)) (\<lambda>_.
          bindO (dirtyOwner i) (\<lambda>_. recordEconomyPosition b ''diversity'' i)))))"

definition reactorCommissionRevisionHandler :: handler where
  "reactorCommissionRevisionHandler b raw =
     bindO (liftO (DecodeRequired raw decode_ReactorCommissionRevision
       [''reactorId'', ''slashRevision'', ''reconciledSlashRevision''])) (\<lambda>p.
     let i = ReactorCommissionRevision_ReactorID p in
     bindO (guardO (reactorIDPattern i \<and> ReactorCommissionRevision_ReconciledSlashRevision p
          \<le> ReactorCommissionRevision_SlashRevision p)
       (errorf ''commission: invalid reactor or revisions'')) (\<lambda>_.
     bindO (economyEventApplied b ''commission'' i) (\<lambda>applied.
     if applied then returnO ()
     else bindO (exec (\<lambda>d. d\<lparr>db_commission := tbl_put i
            \<lparr>cm_slash_revision = ReactorCommissionRevision_SlashRevision p,
             cm_reconciled = ReactorCommissionRevision_ReconciledSlashRevision p\<rparr> (db_commission d)\<rparr>)) (\<lambda>_.
          bindO (mark (Dirty_Reactor i)) (\<lambda>_.
          bindO (mark (Dirty_NativeReactor i)) (\<lambda>_.
          recordEconomyPosition b ''commission'' i))))))"

definition reactorStakeCapHandler :: handler where
  "reactorStakeCapHandler b raw =
     bindO (liftO (DecodeRequired raw decode_ReactorStakeCap
       [''active'', ''capBps'', ''minValidators''])) (\<lambda>p.
     bindO (economyEventApplied b ''stake_cap'' ''singleton'') (\<lambda>applied.
     if applied then returnO ()
     else bindO (exec (\<lambda>d. d\<lparr>db_stake_cap := tbl_put ()
            \<lparr>sc_active = ReactorStakeCap_Active p, sc_cap_bps = ReactorStakeCap_CapBps p,
             sc_min_validators = ReactorStakeCap_MinValidators p\<rparr> (db_stake_cap d)\<rparr>)) (\<lambda>_.
          recordEconomyPosition b ''stake_cap'' ''singleton'')))"

definition economyResetHandler :: "string \<Rightarrow> handler" where
  "economyResetHandler family b raw =
     bindO (liftO (DecodeRequired raw (\<lambda>obj. Inr ()) [])) (\<lambda>_. resetEconomy b family)"

definition guildRankPurchaseHandler :: handler where
  "guildRankPurchaseHandler b raw =
     bindO (liftO (DecodeRequired raw decode_GuildRankPurchase
       [''guildId'', ''playerId'', ''previousRank'', ''rank'', ''price'', ''denom'', ''joined''])) (\<lambda>p.
     bindO (guardO (ownerIDPattern (GuildRankPurchase_GuildID p) \<and>
         has_prefix (GuildRankPurchase_GuildID p) ''0-'' \<and>
         ownerIDPattern (GuildRankPurchase_PlayerID p) \<and>
         has_prefix (GuildRankPurchase_PlayerID p) ''1-'' \<and> GuildRankPurchase_Denom p \<noteq> [])
       (errorf ''rank purchase: invalid guild, player or denom'')) (\<lambda>_.
     bindO (mark (Dirty_Guild (GuildRankPurchase_GuildID p))) (\<lambda>_.
     mark (Dirty_Player (GuildRankPurchase_PlayerID p)))))"

section \<open>Deletions\<close>

definition count_char :: "char \<Rightarrow> string \<Rightarrow> nat" where
  "count_char c s = length (filter (\<lambda>x. x = c) s)"

definition decodeDeleteObjectID :: "string \<Rightarrow> string res" where
  "decodeDeleteObjectID raw =
     (let t = UnwrapJSONString raw;
          bare = (case json_text t of Some (JStr body) \<Rightarrow> unquote body | _ \<Rightarrow> []) in
      case Decode t decode_Delete of
        Inr p \<Rightarrow>
          if Delete_ObjectID p \<noteq> [] then Inr (trim_char quote (Delete_ObjectID p))
          else if bare \<noteq> [] then Inr (trim_char quote bare)
          else Inl (errorf ''delete: empty objectId'')
      | Inl e \<Rightarrow> if bare \<noteq> [] then Inr (trim_char quote bare) else Inl e)"

definition infusion_object_key :: "string \<Rightarrow> infusion_key res" where
  "infusion_object_key i =
     (let parts = split_on (CHR ''-'') i in
      if length parts \<noteq> 3 \<or> (parts ! 0 \<noteq> ''3'' \<and> parts ! 0 \<noteq> ''5'') \<or> parts ! 2 = []
      then Inl (errorf ''delete: malformed infusion id'')
      else (let dest = parts ! 0 @ ''-'' @ parts ! 1 in
        if \<not> regexpInfusionDestination dest then Inl (errorf ''delete: malformed infusion destination'')
        else Inr (dest, parts ! 2)))"

definition infusion_delete :: "infusion_key \<Rightarrow> tables \<Rightarrow> string option \<times> tables" where
  "infusion_delete k d =
     (map_option asset_owner (tbl_get (db_infusion d) k), d\<lparr>db_infusion := tbl_del k (db_infusion d)\<rparr>)"

definition deleteInfusion :: "block_context \<Rightarrow> string \<Rightarrow> (world, unit) op" where
  "deleteInfusion b i =
     bindO (liftO (infusion_object_key i)) (\<lambda>k.
     bindO (infusionEventApplied b k) (\<lambda>applied.
     if applied then returnO ()
     else bindO (sql (infusion_delete k)) (\<lambda>owner.
          bindO (exec (infusion_position_upsert k (position_of b))) (\<lambda>_.
          bindO (case owner of None \<Rightarrow> returnO () | Some o' \<Rightarrow> dirtyOwner o') (\<lambda>_.
          bindO (mark (Dirty_Address (snd k))) (\<lambda>_.
          whenO (take 1 (fst k) = ''3'')
            (bindO (mark (Dirty_Reactor (fst k))) (\<lambda>_. mark (Dirty_NativeAddress (snd k))))))))))"

definition drop_sidecars :: "(agreement_row \<Rightarrow> bool) \<Rightarrow> tables \<Rightarrow> tables" where
  "drop_sidecars P d =
     (let ids = map fst (filter (\<lambda>(k, r). P r) (db_agreement d)) in
      d\<lparr>db_player_object := tbl_filter (\<lambda>o' p. o' \<notin> set ids) (db_player_object d)\<rparr>)"

definition drop_agreements :: "(agreement_row \<Rightarrow> bool) \<Rightarrow> tables \<Rightarrow> tables" where
  "drop_agreements P d = d\<lparr>db_agreement := tbl_filter (\<lambda>k r. \<not> P r) (db_agreement d)\<rparr>"

definition structDeleteTombstone :: "string \<Rightarrow> int \<Rightarrow> tables \<Rightarrow> tables" where
  "structDeleteTombstone i height d =
     (case tbl_get (db_struct d) i of
        None \<Rightarrow> d
      | Some s \<Rightarrow> d\<lparr>db_struct := tbl_put i
          (s\<lparr>st_is_destroyed := True,
             st_destroyed_block := (case st_destroyed_block s of None \<Rightarrow> Some height | Some h \<Rightarrow> Some h)\<rparr>)
          (db_struct d)\<rparr>)"

definition delete_agreement :: "string \<Rightarrow> (world, unit) op" where
  "delete_agreement i =
     bindO (wrapO ''delete agreement lookup: '' (query_opt (\<lambda>d. map_option ag_provider_id (tbl_get (db_agreement d) i)))) (\<lambda>provider.
     bindO (wrapO ''delete agreement: '' (exec (\<lambda>d. d\<lparr>db_agreement := tbl_del i (db_agreement d)\<rparr>))) (\<lambda>_.
     case provider of Some (Some p) \<Rightarrow> mark (Dirty_Provider p) | _ \<Rightarrow> returnO ()))"

definition delete_provider :: "string \<Rightarrow> (world, unit) op" where
  "delete_provider i =
     bindO (wrapO ''delete provider agreement sidecars: '' (exec (drop_sidecars (\<lambda>r. ag_provider_id r = Some i)))) (\<lambda>_.
     bindO (wrapO ''delete provider agreements: '' (exec (drop_agreements (\<lambda>r. ag_provider_id r = Some i)))) (\<lambda>_.
     bindO (wrapO ''delete provider: '' (exec (\<lambda>d. d\<lparr>db_provider := tbl_del i (db_provider d)\<rparr>))) (\<lambda>_.
     mark (Dirty_Provider i))))"

definition allocation_providers :: "string \<Rightarrow> tables \<Rightarrow> string list" where
  "allocation_providers i d =
     remdups (concat (map (\<lambda>(k, r). if ag_allocation_id r = Some i
        then (case ag_provider_id r of None \<Rightarrow> [] | Some p \<Rightarrow> [p]) else []) (db_agreement d)))"

definition delete_allocation :: "string \<Rightarrow> (world, unit) op" where
  "delete_allocation i =
     bindO (wrapO ''delete allocation providers: '' (query (allocation_providers i))) (\<lambda>providers.
     bindO (wrapO ''delete allocation agreement sidecars: '' (exec (drop_sidecars (\<lambda>r. ag_allocation_id r = Some i)))) (\<lambda>_.
     bindO (wrapO ''delete allocation agreements: '' (exec (drop_agreements (\<lambda>r. ag_allocation_id r = Some i)))) (\<lambda>_.
     bindO (wrapO ''delete allocation: '' (exec (\<lambda>d. d\<lparr>db_allocation := tbl_del i (db_allocation d)\<rparr>))) (\<lambda>_.
     forO providers (\<lambda>p. mark (Dirty_Provider p))))))"

definition delete_kind :: "block_context \<Rightarrow> kind \<Rightarrow> string \<Rightarrow> (world, unit) op" where
  "delete_kind b k i =
     (case k of
        Agreement \<Rightarrow> delete_agreement i
      | Provider \<Rightarrow> delete_provider i
      | Allocation \<Rightarrow> delete_allocation i
      | Reactor \<Rightarrow> bindO (exec (\<lambda>d. d\<lparr>db_reactor := tbl_del i (db_reactor d)\<rparr>)) (\<lambda>_. mark (Dirty_Reactor i))
      | Substation \<Rightarrow> bindO (exec (\<lambda>d. d\<lparr>db_substation := tbl_del i (db_substation d)\<rparr>)) (\<lambda>_. mark (Dirty_Substation i))
      | Guild \<Rightarrow> bindO (exec (\<lambda>d. d\<lparr>db_guild := tbl_del i (db_guild d)\<rparr>)) (\<lambda>_. mark (Dirty_Guild i))
      | Player \<Rightarrow> bindO (exec (\<lambda>d. d\<lparr>db_player := tbl_del i (db_player d)\<rparr>)) (\<lambda>_. mark (Dirty_Player i))
      | Planet \<Rightarrow> exec (\<lambda>d. d\<lparr>db_planet := tbl_del i (db_planet d)\<rparr>)
      | Struct \<Rightarrow> exec (structDeleteTombstone i (bc_height b))
      | Fleet \<Rightarrow> exec (\<lambda>d. d\<lparr>db_fleet := tbl_del i (db_fleet d)\<rparr>)
      | _ \<Rightarrow> failO (skip_warn ''delete: unsupported object type''))"

definition deleteHandler :: handler where
  "deleteHandler b raw =
     bindO (liftO (decodeDeleteObjectID raw)) (\<lambda>i.
     if 1 < count_char (CHR ''-'') i then deleteInfusion b i
     else (case parse_object i of
         Inl e \<Rightarrow> failO (skip_warn (''delete: '' @ err_text e))
       | Inr (k, idx, sub) \<Rightarrow>
           bindO (delete_kind b k i) (\<lambda>_.
           whenO (k \<noteq> Struct)
             (wrapO ''delete player_object: ''
               (exec (\<lambda>d. d\<lparr>db_player_object := tbl_del i (db_player_object d)\<rparr>))))))"

section \<open>Legacy positions\<close>

record mutation =
  mu_position :: positioned
  mu_infusion :: pInfusion
  mu_deleted :: bool

fun sole_attribute :: "string \<Rightarrow> attribute list \<Rightarrow> string option \<Rightarrow> string option res" where
  "sole_attribute name [] found = Inr found"
| "sole_attribute name (a # as) found =
     (if attr_key a = name
      then (if found \<noteq> None then Inl (errorf ''duplicate attribute during infusion reconciliation'')
            else sole_attribute name as (Some (attr_value a)))
      else sole_attribute name as found)"

definition bare_infusion :: "infusion_key \<Rightarrow> pInfusion" where
  "bare_infusion k =
     \<lparr>Infusion_DestinationID = fst k, Infusion_Address = snd k, Infusion_DestinationType = [],
      Infusion_PlayerID = [], Infusion_Fuel = 0, Infusion_Defusing = 0, Infusion_Power = 0,
      Infusion_Ratio = 0, Infusion_Commission = [], Infusion_OwnerID = [],
      Infusion_GeneratorDisabled = False\<rparr>"

definition snapshot_mutation :: "block_context \<Rightarrow> positioned \<Rightarrow> mutation option res" where
  "snapshot_mutation b q =
     bindR (sole_attribute ''infusion'' (ev_attributes (pe_event q)) None) (\<lambda>found.
     let raw = (case found of None \<Rightarrow> [] | Some r \<Rightarrow> r) in
     bindR (DecodeVersioned raw (bctx_V022Active b) decode_Infusion [''ownerId'', ''generatorDisabled'']) (\<lambda>p.
     bindR (DecodeRequired raw decode_Infusion [''destinationId'', ''address'', ''destinationType'',
        ''playerId'', ''fuel'', ''defusing'', ''power'', ''ratio'', ''commission'']) (\<lambda>_.
     bindR (guardR (Infusion_DestinationID p \<noteq> [] \<and> Infusion_Address p \<noteq> [] \<and>
          (Infusion_OwnerID p = [] \<or> ownerIDPattern (Infusion_OwnerID p)))
        (errorf ''invalid infusion snapshot during reconciliation'')) (\<lambda>_.
     Inr (Some \<lparr>mu_position = q, mu_infusion = p, mu_deleted = False\<rparr>)))))"

definition deletion_mutation :: "positioned \<Rightarrow> mutation option res" where
  "deletion_mutation q =
     bindR (sole_attribute ''objectId'' (ev_attributes (pe_event q)) None) (\<lambda>found.
     bindR (decodeDeleteObjectID (case found of None \<Rightarrow> [] | Some r \<Rightarrow> r)) (\<lambda>i.
     if count_char (CHR ''-'') i < 2 then Inr None
     else (let parts = split_on (CHR ''-'') i in
       if length parts \<noteq> 3 \<or> \<not> regexpInfusionDestination (parts ! 0 @ ''-'' @ parts ! 1) \<or> parts ! 2 = []
       then Inl (errorf ''invalid infusion deletion during reconciliation'')
       else Inr (Some \<lparr>mu_position = q,
              mu_infusion = bare_infusion (parts ! 0 @ ''-'' @ parts ! 1, parts ! 2), mu_deleted = True\<rparr>))))"

definition mutation_of :: "block_context \<Rightarrow> positioned \<Rightarrow> mutation option res" where
  "mutation_of b q =
     (if ev_type (pe_event q) = ''structs.structs.EventInfusion'' then snapshot_mutation b q
      else if ev_type (pe_event q) = ''structs.structs.EventDelete'' then deletion_mutation q
      else Inr None)"

definition mutation_key :: "mutation \<Rightarrow> string" where
  "mutation_key m = Infusion_DestinationID (mu_infusion m) @ ''/'' @ Infusion_Address (mu_infusion m)"

definition last_mutations ::
  "block_context \<Rightarrow> positioned list \<Rightarrow> (string, mutation) table res" where
  "last_mutations b ordered =
     foldR (\<lambda>t q. bindR (mutation_of b q) (\<lambda>m. Inr (case m of
        None \<Rightarrow> t | Some mu \<Rightarrow> tbl_put (mutation_key mu) mu t))) [] ordered"

definition snapshot_matches :: "mutation \<Rightarrow> tables \<Rightarrow> bool" where
  "snapshot_matches m d =
     (let p = mu_infusion m in
      case tbl_get (db_infusion d) (Infusion_DestinationID p, Infusion_Address p) of
        None \<Rightarrow> mu_deleted m
      | Some r \<Rightarrow> \<not> mu_deleted m \<and>
          in_destination_type r = Infusion_DestinationType p \<and> in_player_id r = Infusion_PlayerID p \<and>
          in_fuel r = Infusion_Fuel p \<and> in_defusing r = Infusion_Defusing p \<and>
          in_power r = Infusion_Power p \<and> in_ratio r = Infusion_Ratio p \<and>
          in_commission r = Numeric_PgValue (Infusion_Commission p) \<and>
          (in_owner_id r = None \<or> in_owner_id r = Some [] \<or> in_owner_id r = Some (Infusion_OwnerID p)) \<and>
          (\<not> in_generator_disabled r \<or> in_generator_disabled r = Infusion_GeneratorDisabled p))"

definition adopt_extension :: "pInfusion \<Rightarrow> tables \<Rightarrow> string option \<times> tables" where
  "adopt_extension p d =
     (let k = (Infusion_DestinationID p, Infusion_Address p) in
      case tbl_get (db_infusion d) k of
        None \<Rightarrow> (None, d)
      | Some r \<Rightarrow> (Some (in_player_id r), d\<lparr>db_infusion := tbl_put k
          (r\<lparr>in_owner_id := Some (Infusion_OwnerID p),
             in_generator_disabled := Infusion_GeneratorDisabled p\<rparr>) (db_infusion d)\<rparr>))"

text \<open>One key of the sorted loop; the result is the number of positions it reconciled.\<close>

definition reconcile_one :: "block_context \<Rightarrow> mutation \<Rightarrow> (world, nat) op" where
  "reconcile_one b m =
     (let p = mu_infusion m; q = mu_position m;
          k = (Infusion_DestinationID p, Infusion_Address p) in
      bindO (query_opt (\<lambda>d. tbl_get (db_infusion_position d) k)) (\<lambda>pos.
      case pos of
        None \<Rightarrow> returnO 0
      | Some ep \<Rightarrow>
          if ep_height ep \<noteq> bc_height b \<or> ep_phase ep \<noteq> None then returnO 0
          else bindO (guardO (ep_tx ep = pe_tx q \<and> ep_event ep = pe_index q)
                 (errorf ''legacy infusion does not identify the final mutation'')) (\<lambda>_.
               bindO (query (snapshot_matches m)) (\<lambda>matches.
               bindO (guardO matches (errorf ''legacy infusion disagrees with the final source snapshot'')) (\<lambda>_.
               bindO (whenO (\<not> mu_deleted m)
                  (bindO (sql_row (adopt_extension p)) (\<lambda>previousOwner.
                   bindO (dirtyOwner previousOwner) (\<lambda>_. dirtyOwner (AssetOwnerID p))))) (\<lambda>_.
               bindO (exec (infusion_position_upsert k
                  \<lparr>ep_height = bc_height b, ep_phase = Some (phase_num (pe_phase q)),
                   ep_tx = pe_tx q, ep_event = pe_index q\<rparr>)) (\<lambda>_.
               bindO (mark (Dirty_Address (Infusion_Address p))) (\<lambda>_.
               bindO (whenO (has_prefix (Infusion_DestinationID p) ''3-'')
                  (bindO (mark (Dirty_Reactor (Infusion_DestinationID p))) (\<lambda>_.
                   mark (Dirty_NativeAddress (Infusion_Address p))))) (\<lambda>_.
               returnO 1)))))))))"

fun reconcile_all :: "block_context \<Rightarrow> mutation list \<Rightarrow> (world, nat) op" where
  "reconcile_all b [] = returnO 0"
| "reconcile_all b (m # ms) =
     bindO (reconcile_one b m) (\<lambda>n. bindO (reconcile_all b ms) (\<lambda>k. returnO (n + k)))"

definition unresolved_positions :: "int \<Rightarrow> tables \<Rightarrow> nat" where
  "unresolved_positions height d =
     length (filter (\<lambda>(k, p). ep_height p = height \<and> ep_phase p = None) (db_infusion_position d))"

definition ReconcileLegacyInfusionPositions ::
  "block_context \<Rightarrow> positioned list \<Rightarrow> (world, nat) op" where
  "ReconcileLegacyInfusionPositions b ordered =
     bindO (liftO (last_mutations b ordered)) (\<lambda>last'.
     bindO (reconcile_all b (map snd (sort_key fst last'))) (\<lambda>reconciled.
     bindO (query (unresolved_positions (bc_height b))) (\<lambda>unresolved.
     bindO (guardO (unresolved = 0)
        (errorf ''legacy infusion positions have no proven final mutation in the source block'')) (\<lambda>_.
     returnO reconciled))))"

section \<open>The contract holds for every handler\<close>

lemma grows_dirtyOwner: "keeps grows (dirtyOwner i)"
  unfolding dirtyOwner_def by (intro handler_intros dirty_mark_le)

lemma grows_infusionEventApplied: "keeps grows (infusionEventApplied b k)"
  unfolding infusionEventApplied_def by (intro handler_intros)

lemma grows_emitInfusionLedger: "keeps grows (emitInfusionLedger b p prev)"
  unfolding emitInfusionLedger_def Let_def by (intro handler_intros)

lemma grows_infusion_effects: "keeps grows (infusion_effects b p)"
  unfolding infusion_effects_def infusion_marks_def Let_def
  by (intro handler_intros grows_emitInfusionLedger grows_dirtyOwner dirty_mark_le)

lemma grows_economy:
  "keeps grows (economyEventApplied b family i)" "keeps grows (recordEconomyPosition b family i)"
  unfolding economyEventApplied_def recordEconomyPosition_def by (intro handler_intros)+

lemma grows_resetEconomy: "keeps grows (resetEconomy b family)"
  unfolding resetEconomy_def
  by (intro handler_intros grows_economy grows_dirtyOwner dirty_mark_le)

lemma grows_deleteInfusion: "keeps grows (deleteInfusion b i)"
  unfolding deleteInfusion_def
  by (intro handler_intros grows_infusionEventApplied grows_dirtyOwner dirty_mark_le)

lemma grows_delete_kind: "keeps grows (delete_kind b k i)"
proof -
  have "keeps grows (case provider of Some (Some p) \<Rightarrow> mark (Dirty_Provider p) | _ \<Rightarrow> returnO ())"
    for provider :: "string option option"
    by (intro handler_intros dirty_mark_le)
  then show ?thesis
    unfolding delete_kind_def delete_agreement_def delete_provider_def delete_allocation_def
    by (cases k; simp only: kind.case; intro handler_intros dirty_mark_le)
qed

lemmas economy_grows =
  grows_infusionEventApplied grows_infusion_effects grows_economy grows_resetEconomy
  grows_deleteInfusion grows_delete_kind grows_dirtyOwner dirty_mark_le

interpretation infusion: handler_contract infusionHandler
  by unfold_locales
    (simp only: append_only_def infusionHandler_def, intro allI handler_intros economy_grows)

interpretation vault_address: handler_contract vaultAddressHandler
  by unfold_locales
    (simp only: append_only_def vaultAddressHandler_def, intro allI handler_intros economy_grows)

interpretation diversity: handler_contract ownerReactorDiversityHandler
  by unfold_locales
    (simp only: append_only_def ownerReactorDiversityHandler_def Let_def, intro allI handler_intros economy_grows)

interpretation commission: handler_contract reactorCommissionRevisionHandler
  by unfold_locales
    (simp only: append_only_def reactorCommissionRevisionHandler_def Let_def, intro allI handler_intros economy_grows)

interpretation stake_cap: handler_contract reactorStakeCapHandler
  by unfold_locales
    (simp only: append_only_def reactorStakeCapHandler_def, intro allI handler_intros economy_grows)

interpretation economy_reset: handler_contract "economyResetHandler family"
  by unfold_locales
    (simp only: append_only_def economyResetHandler_def, intro allI handler_intros economy_grows)

interpretation rank_purchase: handler_contract guildRankPurchaseHandler
  by unfold_locales
    (simp only: append_only_def guildRankPurchaseHandler_def, intro allI handler_intros economy_grows)

interpretation deletion: handler_contract deleteHandler
  by unfold_locales
    (simp only: append_only_def deleteHandler_def, intro allI handler_intros economy_grows)

end
