(* ===== verification/Economy_Facts.thy ===== *)
theory Economy_Facts
  imports Economy Attribute_Facts
begin

text \<open>
  What the economy handlers guarantee: the infusion ledger adds up to the stored fuel,
  an event at or before the position already applied changes nothing, a reset removes
  exactly the rows it is newer than, a provider is deleted with everything that hangs on it,
  and the legacy reconciliation leaves no position of the block without a phase.
\<close>

section \<open>The infusion ledger adds up to the stored fuel\<close>

definition fuel_of :: "infusion_key \<Rightarrow> tables \<Rightarrow> int" where
  "fuel_of k d = (case tbl_get (db_infusion d) k of None \<Rightarrow> 0 | Some r \<Rightarrow> int (unat (in_fuel r)))"

definition infused_row :: "infusion_key \<Rightarrow> string \<Rightarrow> ledger_row \<Rightarrow> bool" where
  "infused_row k direction r \<longleftrightarrow>
     lr_address r = snd k \<and> lr_counterparty r = fst k \<and> lr_action r = ''infused'' \<and>
     lr_direction r = direction"

definition ledger_amount :: "ledger_row \<Rightarrow> int" where
  "ledger_amount r = (case big_of_string (lr_amount r) of None \<Rightarrow> 0 | Some v \<Rightarrow> v)"

definition infused_sum :: "infusion_key \<Rightarrow> string \<Rightarrow> buffer \<Rightarrow> int" where
  "infused_sum k direction bf =
     sum_list (map ledger_amount (filter (infused_row k direction) (b_ledger bf)))"

definition struct_infusion :: "block_context \<times> string \<Rightarrow> bool" where
  "struct_infusion e =
     (case decode_infusion_event (fst e) (snd e) of
        Inl err \<Rightarrow> False | Inr p \<Rightarrow> Infusion_DestinationType p = ''struct'')"

definition ledger_in_step :: "infusion_key \<Rightarrow> string \<Rightarrow> world \<Rightarrow> world \<Rightarrow> bool" where
  "ledger_in_step k direction w v \<longleftrightarrow>
     infused_sum k direction (w_buf v) - infused_sum k direction (w_buf w) =
     fuel_of k (w_db v) - fuel_of k (w_db w)"

lemma fuel_of_upsert:
  "fuel_of k (infusion_upsert p d) =
     (if k = (Infusion_DestinationID p, Infusion_Address p) then int (unat (Infusion_Fuel p)) else fuel_of k d)"
  by (simp add: fuel_of_def infusion_upsert_def Let_def)

definition fuel_before :: "infusion_key \<Rightarrow> tables \<Rightarrow> int option" where
  "fuel_before k d = map_option (\<lambda>r. int (unat (in_fuel r))) (tbl_get (db_infusion d) k)"

lemma fuel_of_before: "(case fuel_before k d of None \<Rightarrow> 0 | Some v \<Rightarrow> v) = fuel_of k d"
  by (auto simp: fuel_before_def fuel_of_def split: option.splits)

lemma position_upsert_infusion [simp]: "db_infusion (infusion_position_upsert k' q d) = db_infusion d"
  by (simp add: infusion_position_upsert_def)

lemma fuel_before_position [simp]: "fuel_before k (infusion_position_upsert k' q d) = fuel_before k d"
  by (simp add: fuel_before_def)

lemma fuel_of_position [simp]: "fuel_of k (infusion_position_upsert k' q d) = fuel_of k d"
  by (simp add: fuel_of_def infusion_position_upsert_def)

lemma indexed_two: "indexed [x, y] = [(0, x), (1, y)]"
  by (simp add: indexed_def upt_rec)

text \<open>One pair of rows: the debit and the credit carry the same amount.\<close>

lemma infused_pair:
  assumes "direction = ''debit'' \<or> direction = ''credit''"
  shows "sum_list (map ledger_amount (filter (infused_row k direction)
       (map (\<lambda>(i, row). stamp_row b i row) (indexed
         [ledger_draft a c (dec_int n) ''infused'' ''debit'' ''ualpha'',
          ledger_draft a c (dec_int n) ''infused'' ''credit'' ''ualpha.infused'']))))
     = (if k = (c, a) then n else 0)"
  using assms
  by (cases k) (auto simp: indexed_two stamp_row_def ledger_draft_def infused_row_def ledger_amount_def)

lemma emit_infusion_sum:
  assumes "emitInfusionLedger b p prev w = (Inr (), w')"
    and "direction = ''debit'' \<or> direction = ''credit''"
  shows "infused_sum k direction (w_buf w') = infused_sum k direction (w_buf w) +
     (if k = (Infusion_DestinationID p, Infusion_Address p)
      then int (unat (Infusion_Fuel p)) - (case prev of None \<Rightarrow> 0 | Some old \<Rightarrow> old) else 0)
     \<and> w_db w' = w_db w"
  using assms infused_pair [OF assms(2), of k b "Infusion_Address p" "Infusion_DestinationID p"]
  by (auto simp: emitInfusionLedger_def Let_def appendLedger_def push_def infused_sum_def
      split: option.splits if_splits)

definition same_ledger :: "world \<Rightarrow> world \<Rightarrow> bool" where
  "same_ledger w v \<longleftrightarrow> w_db v = w_db w \<and> b_ledger (w_buf v) = b_ledger (w_buf w)"

interpretation keeps_ledger: preorder_op same_ledger
  by unfold_locales (simp_all add: same_ledger_def)

lemma same_ledger_ops:
  "keeps same_ledger (query g)" "keeps same_ledger (query_opt h)" "keeps same_ledger (mark m)"
  by (auto simp: keeps_def same_ledger_def query_def query_opt_def sql_def mark_def split: option.splits)

lemmas ledger_frame = keeps_ledger.keeps_intros same_ledger_ops keeps_split keeps_sum

lemma same_ledger_dirtyOwner: "keeps same_ledger (dirtyOwner i)"
  unfolding dirtyOwner_def by (intro ledger_frame)

lemma same_ledger_applied: "keeps same_ledger (infusionEventApplied b k)"
  unfolding infusionEventApplied_def by (intro ledger_frame)

lemma infusion_effects_split:
  assumes "infusion_effects b p w = (Inr (), w')" "Infusion_DestinationType p = ''struct''"
  obtains w1 w2 u where
    "w_db w1 = infusion_upsert p (infusion_position_upsert (Infusion_DestinationID p, Infusion_Address p)
       (position_of b) (w_db w))"
    "w_buf w1 = w_buf w"
    "emitInfusionLedger b p (fuel_before (Infusion_DestinationID p, Infusion_Address p) (w_db w)) w1 = (Inr u, w2)"
    "same_ledger w2 w'"
proof -
  have rest: "keeps same_ledger (infusion_marks p o')" for o'
    unfolding infusion_marks_def by (intro ledger_frame same_ledger_dirtyOwner)
  show ?thesis
    using assms(1) unfolding infusion_effects_def Let_def bindO_Inr fuel_before_def [symmetric]
    by - (elim exE conjE,
      simp add: assms(2) wrapO_Inr whenO_case query_opt_def query_def exec_def sql_Inr,
      elim conjE, rule that [rotated 2], assumption, auto dest: keeps_run [OF rest])
qed

lemma infusion_effects_in_step:
  assumes "infusion_effects b p w = (Inr (), w')" "Infusion_DestinationType p = ''struct''"
    and "direction = ''debit'' \<or> direction = ''credit''"
  shows "ledger_in_step k direction w w'"
proof -
  let ?key = "(Infusion_DestinationID p, Infusion_Address p)"
  let ?prev = "fuel_before ?key (w_db w)"
  obtain w1 w2 u where w1:
      "w_db w1 = infusion_upsert p (infusion_position_upsert ?key (position_of b) (w_db w))"
      "w_buf w1 = w_buf w"
    and emit: "emitInfusionLedger b p ?prev w1 = (Inr u, w2)" and rest: "same_ledger w2 w'"
    using infusion_effects_split [OF assms(1,2)] .
  have emit': "emitInfusionLedger b p ?prev w1 = (Inr (), w2)" using emit by simp
  show ?thesis
    using emit_infusion_sum [OF emit' assms(3), of k] rest
    by (auto simp: ledger_in_step_def same_ledger_def infused_sum_def w1 fuel_of_before fuel_of_upsert)
qed

lemma infusion_handler_in_step:
  assumes "infusionHandler b raw w = (Inr (), w')" "struct_infusion (b, raw)"
    and "direction = ''debit'' \<or> direction = ''credit''"
  shows "ledger_in_step k direction w w'"
proof -
  obtain p where p: "decode_infusion_event b raw = Inr p" "Infusion_DestinationType p = ''struct''"
    using assms(2) by (auto simp: struct_infusion_def split: sum.splits)
  obtain applied w0 where w0:
      "infusionEventApplied b (Infusion_DestinationID p, Infusion_Address p) w = (Inr applied, w0)"
    and rest: "(if applied then returnO () else infusion_effects b p) w0 = (Inr (), w')"
    using assms(1) p by (auto simp: infusionHandler_def bindO_Inr)
  have same: "same_ledger w w0" using keeps_run [OF same_ledger_applied w0] .
  show ?thesis
  proof (cases applied)
    case True
    then show ?thesis using rest same by (simp add: ledger_in_step_def same_ledger_def infused_sum_def)
  next
    case False
    then have "ledger_in_step k direction w0 w'"
      using infusion_effects_in_step [OF _ p(2) assms(3)] rest by simp
    then show ?thesis using same by (simp add: ledger_in_step_def same_ledger_def infused_sum_def)
  qed
qed

text \<open>
  C17: Over any run of struct-infusion events (in any order, replays included) that
  succeeds, the \<open>infused\<close> amounts buffered for a position, debits and credits alike, add up
  to exactly the change of that position's stored fuel: replayed or out-of-order snapshots
  never invent or lose fuel in the ledger.
\<close>

theorem infusion_ledger_tracks_fuel:
  assumes "forO events (\<lambda>e. infusionHandler (fst e) (snd e)) w = (Inr (), w')"
    and "list_all struct_infusion events" "direction = ''debit'' \<or> direction = ''credit''"
  shows "infused_sum k direction (w_buf w') - infused_sum k direction (w_buf w) =
         fuel_of k (w_db w') - fuel_of k (w_db w)"
  using assms(1,2)
proof (induction events arbitrary: w)
  case (Cons e events)
  then obtain v where v: "infusionHandler (fst e) (snd e) w = (Inr (), v)"
      "forO events (\<lambda>e. infusionHandler (fst e) (snd e)) v = (Inr (), w')"
    by (auto simp: bindO_Inr)
  have "ledger_in_step k direction w v"
    using infusion_handler_in_step [OF v(1) _ assms(3)] Cons.prems(2) by simp
  moreover have "ledger_in_step k direction v w'"
    using Cons.IH [OF v(2)] Cons.prems(2) by (simp add: ledger_in_step_def)
  ultimately show ?case by (simp add: ledger_in_step_def)
qed simp

definition example_infusion :: "string \<Rightarrow> string" where
  "example_infusion fuel = ''{'' @ json_quote ''destinationId'' @ '':'' @ json_quote ''5-1'' @ '','' @
     json_quote ''address'' @ '':'' @ json_quote ''a'' @ '','' @
     json_quote ''destinationType'' @ '':'' @ json_quote ''struct'' @ '','' @
     json_quote ''fuel'' @ '':'' @ json_quote fuel @ ''}''"

definition example_fuel :: "64 word \<Rightarrow> pInfusion" where
  "example_fuel n = (bare_infusion (''5-1'', ''a''))
     \<lparr>Infusion_DestinationType := ''struct'', Infusion_Fuel := n\<rparr>"

lemma example_infusion_decode:
  "decode_infusion_event example_context (example_infusion ''100'') = Inr (example_fuel 100)"
  "decode_infusion_event (example_context\<lparr>bc_event := 4\<rparr>) (example_infusion ''70'') = Inr (example_fuel 70)"
  by code_simp+

definition example_infusions :: "(block_context \<times> string) list" where
  "example_infusions = [(example_context, example_infusion ''100''),
     (example_context\<lparr>bc_event := 4\<rparr>, example_infusion ''70''),
     (example_context, example_infusion ''100'')]"

definition example_infused :: world where
  "example_infused = snd (forO example_infusions (\<lambda>e. infusionHandler (fst e) (snd e)) clean_world)"

lemma example_context_fields [simp]:
  "bc_height example_context = 9" "bc_tx example_context = 0" "bc_event example_context = 2"
  by (simp_all add: example_context_def)

lemma example_infusions_run:
  "forO example_infusions (\<lambda>e. infusionHandler (fst e) (snd e)) clean_world = (Inr (), example_infused)"
  unfolding example_infused_def
  by (simp add: example_infusions_def infusionHandler_def example_infusion_decode infusion_effects_def
      infusionEventApplied_def legacy_height_def position_applied_def position_of_def infusion_marks_def
      emitInfusionLedger_def appendLedger_def infusion_upsert_def infusion_position_upsert_def
      example_fuel_def bare_infusion_def dirtyOwner_def AssetOwnerID_def has_prefix_def mark_def push_def
      exec_def query_def query_opt_def sql_def bindO_def wrapO_def clean_world_def empty_tables_def
      PositionPhase_def tick_def Let_def)

theorem infusion_ledger_tracks_fuel_witness:
  "infused_sum (''5-1'', ''a'') ''credit'' (w_buf example_infused)
     - infused_sum (''5-1'', ''a'') ''credit'' (w_buf clean_world) =
   fuel_of (''5-1'', ''a'') (w_db example_infused) - fuel_of (''5-1'', ''a'') (w_db clean_world)"
  by (rule infusion_ledger_tracks_fuel [OF example_infusions_run])
    (simp_all add: example_infusions_def struct_infusion_def example_infusion_decode example_fuel_def)

section \<open>An event at or before the applied position changes nothing\<close>

lemma row_ge_trans: "row_ge p q \<Longrightarrow> row_ge q r \<Longrightarrow> row_ge p r"
  by (auto simp: row_ge_def split: option.splits)

lemma row_ge_refl [simp]: "row_ge (position_of b) (position_of b)"
  by (simp add: row_ge_def position_of_def)

definition infusion_covered :: "event_position \<Rightarrow> infusion_key \<Rightarrow> tables \<Rightarrow> bool" where
  "infusion_covered pos k d \<longleftrightarrow>
     (case tbl_get (db_infusion_position d) k of
        Some q \<Rightarrow> row_ge q pos
      | None \<Rightarrow> (case legacy_height k d of None \<Rightarrow> False | Some l \<Rightarrow> ep_height pos \<le> l))"

lemma position_of_height [simp]: "ep_height (position_of b) = bc_height b"
  by (simp add: position_of_def)

lemma position_applied_True: "position_applied b q = Inr True \<longleftrightarrow> row_ge q (position_of b)"
  by (auto simp: position_applied_def row_ge_def position_of_def split: option.splits)

lemma infusion_applied_True:
  "infusionEventApplied b k w = (Inr True, w') \<Longrightarrow>
     infusion_covered (position_of b) k (w_db w) \<and> w_db w' = w_db w"
  by (auto simp: infusionEventApplied_def bindO_Inr wrapO_Inr query_opt_def query_def sql_Inr
      infusion_covered_def position_applied_True position_of_def split: option.splits)

lemma infusion_covered_applied:
  "infusion_covered (position_of b) k (w_db w) \<Longrightarrow> infusionEventApplied b k w = (Inr a, w') \<Longrightarrow> a"
  by (auto simp: infusionEventApplied_def bindO_Inr wrapO_Inr query_opt_def query_def sql_Inr
      infusion_covered_def position_applied_True [symmetric] split: option.splits)

lemma infusion_covered_older:
  "infusion_covered p k d \<Longrightarrow> row_ge p q \<Longrightarrow> infusion_covered q k d"
  by (auto simp: infusion_covered_def row_ge_def split: option.splits)

definition read_only :: "world \<Rightarrow> world \<Rightarrow> bool" where
  "read_only w v \<longleftrightarrow> unchanged w v"

interpretation only_reads: preorder_op read_only
  by unfold_locales (simp_all add: read_only_def unchanged_def)

lemma read_only_query: "keeps read_only (query g)" "keeps read_only (query_opt h)"
  by (auto simp: keeps_def read_only_def unchanged_def query_def query_opt_def sql_def split: option.splits)

lemmas read_only_intros = only_reads.keeps_intros read_only_query keeps_split keeps_sum

lemma read_only_infusion_applied: "keeps read_only (infusionEventApplied b k)"
  unfolding infusionEventApplied_def by (intro read_only_intros)

lemma read_only_economy_applied: "keeps read_only (economyEventApplied b family i)"
  unfolding economyEventApplied_def by (intro read_only_intros)

lemma infusion_effects_position:
  assumes "infusion_effects b p w = (Inr (), w')"
  shows "tbl_get (db_infusion_position (w_db w')) (Infusion_DestinationID p, Infusion_Address p) = Some (position_of b)"
proof -
  have marks: "keeps same_ledger (infusion_marks p o')" for o'
    unfolding infusion_marks_def by (intro ledger_frame same_ledger_dirtyOwner)
  have emit: "emitInfusionLedger b p prev u = (r, v) \<Longrightarrow> w_db v = w_db u" for prev u r v
    by (auto simp: emitInfusionLedger_def Let_def appendLedger_def push_def split: option.splits if_splits)
  show ?thesis
    using assms
    by (auto simp: infusion_effects_def Let_def bindO_Inr wrapO_Inr whenO_case query_opt_def query_def
        exec_def sql_Inr infusion_upsert_def infusion_position_upsert_def same_ledger_def
        dest!: keeps_run [OF marks] emit split: if_splits)
qed

lemma infusion_handler_covers:
  assumes "infusionHandler b raw w = (Inr (), w')" "decode_infusion_event b raw = Inr p"
  shows "infusion_covered (position_of b) (Infusion_DestinationID p, Infusion_Address p) (w_db w')"
proof -
  let ?key = "(Infusion_DestinationID p, Infusion_Address p)"
  obtain applied w0 where w0: "infusionEventApplied b ?key w = (Inr applied, w0)"
    and rest: "(if applied then returnO () else infusion_effects b p) w0 = (Inr (), w')"
    using assms by (auto simp: infusionHandler_def bindO_Inr)
  show ?thesis
  proof (cases applied)
    case True
    then show ?thesis using infusion_applied_True [of b ?key w w0] w0 rest by auto
  next
    case False
    then show ?thesis
      using infusion_effects_position [of b p w0 w'] rest by (simp add: infusion_covered_def)
  qed
qed

text \<open>
  Once an infusion event of a position has been handled, any event of the same position
  that is at or before it in execution order (height, phase, transaction, event index), with
  any payload, leaves the tables, the buffers and the marks alone: a retried old snapshot
  cannot overwrite newer state or write a wrong ledger delta.
\<close>

theorem infusion_replay_noop:
  assumes "infusionHandler b raw w = (Inr (), w1)" "decode_infusion_event b raw = Inr p"
    and "infusionHandler c old v = (r, v1)" "decode_infusion_event c old = Inr q"
    and "Infusion_DestinationID q = Infusion_DestinationID p" "Infusion_Address q = Infusion_Address p"
    and "row_ge (position_of b) (position_of c)" "w_db v = w_db w1"
  shows "w_db v1 = w_db v \<and> w_buf v1 = w_buf v \<and> w_dirty v1 = w_dirty v"
proof -
  let ?key = "(Infusion_DestinationID p, Infusion_Address p)"
  have covered: "infusion_covered (position_of c) ?key (w_db v)"
    using infusion_covered_older [OF infusion_handler_covers [OF assms(1,2)] assms(7)] assms(8) by simp
  obtain a u where a: "infusionEventApplied c ?key v = (a, u)" by force
  have same: "unchanged v u" using keeps_run [OF read_only_infusion_applied a] by (simp add: read_only_def)
  have "v1 = u"
    using assms(3-6) a infusion_covered_applied [OF covered]
    by (cases a) (auto simp: infusionHandler_def bindO_def)
  then show ?thesis using same by (simp add: unchanged_def)
qed

definition example_first :: world where
  "example_first = snd (infusionHandler (example_context\<lparr>bc_event := 4\<rparr>) (example_infusion ''70'') clean_world)"

lemma example_first_run:
  "infusionHandler (example_context\<lparr>bc_event := 4\<rparr>) (example_infusion ''70'') clean_world = (Inr (), example_first)"
  unfolding example_first_def
  by (simp add: infusionHandler_def example_infusion_decode infusion_effects_def
      infusionEventApplied_def legacy_height_def infusion_marks_def
      emitInfusionLedger_def appendLedger_def infusion_upsert_def infusion_position_upsert_def
      example_fuel_def bare_infusion_def dirtyOwner_def AssetOwnerID_def has_prefix_def mark_def push_def
      exec_def query_def query_opt_def sql_def bindO_def wrapO_def clean_world_def empty_tables_def
      tick_def Let_def)

theorem infusion_replay_noop_witness:
  "let v1 = snd (infusionHandler example_context (example_infusion ''100'') example_first) in
     w_db v1 = w_db example_first \<and> w_buf v1 = w_buf example_first \<and> w_dirty v1 = w_dirty example_first"
  unfolding Let_def
  by (rule infusion_replay_noop [OF example_first_run example_infusion_decode(2)
        prod.collapse [symmetric] example_infusion_decode(1)])
    (simp_all add: example_fuel_def row_ge_def position_of_def PositionPhase_def)

section \<open>Economy snapshots and resets\<close>

definition economy_handler :: "string \<Rightarrow> handler" where
  "economy_handler family =
     (if family = ''diversity'' then ownerReactorDiversityHandler
      else if family = ''commission'' then reactorCommissionRevisionHandler
      else reactorStakeCapHandler)"

definition economy_entity :: "string \<Rightarrow> string \<Rightarrow> string res" where
  "economy_entity family raw =
     (if family = ''diversity'' then
        bindR (DecodeRequired raw decode_OwnerReactorDiversity
          [''ownerId'', ''power'', ''squaredPower'', ''appliedBonus'']) (\<lambda>p. Inr (OwnerReactorDiversity_OwnerID p))
      else if family = ''commission'' then
        bindR (DecodeRequired raw decode_ReactorCommissionRevision
          [''reactorId'', ''slashRevision'', ''reconciledSlashRevision''])
          (\<lambda>p. Inr (ReactorCommissionRevision_ReactorID p))
      else Inr ''singleton'')"

definition economy_families :: "string list" where
  "economy_families = [''diversity'', ''commission'', ''stake_cap'']"

definition watermark :: "event_position \<Rightarrow> string \<Rightarrow> string \<Rightarrow> tables \<Rightarrow> bool" where
  "watermark pos family i d \<longleftrightarrow>
     list_ex (\<lambda>e. case tbl_get (db_economy_position d) (family, e) of
        None \<Rightarrow> False | Some p \<Rightarrow> row_ge p pos) [[], i]"

lemma economy_applied_run:
  "economyEventApplied b family i w = (Inr a, w') \<longleftrightarrow>
     \<not> w_aborted w \<and> w_fault w (w_clock w) = None \<and> a = watermark (position_of b) family i (w_db w) \<and>
     w' = tick w"
  by (auto simp: economyEventApplied_def query_def sql_Inr watermark_def tick_def)

lemma record_position_run:
  "recordEconomyPosition b family i w = (Inr (), w') \<Longrightarrow>
     tbl_get (db_economy_position (w_db w')) (family, i) = Some (position_of b)"
  by (auto simp: recordEconomyPosition_def exec_def sql_Inr)

lemma watermark_older: "watermark p family i d \<Longrightarrow> row_ge p q \<Longrightarrow> watermark q family i d"
  using row_ge_trans by (fastforce simp: watermark_def split: option.splits)

lemma watermark_recorded:
  "tbl_get (db_economy_position d) (family, i) = Some (position_of b) \<Longrightarrow> watermark (position_of b) family i d"
  by (simp add: watermark_def)

lemma watermark_reset: "watermark p family [] d \<Longrightarrow> watermark p family i d"
  by (auto simp: watermark_def)

lemma economy_handler_marks:
  assumes "economy_handler family b raw w = (Inr (), w')" "economy_entity family raw = Inr i"
    and "family \<in> set economy_families"
  shows "watermark (position_of b) family i (w_db w')"
  using assms
  by (auto simp: economy_families_def economy_handler_def economy_entity_def bindR_Inr bindO_Inr guardO_case
      economy_applied_run ownerReactorDiversityHandler_def reactorCommissionRevisionHandler_def
      reactorStakeCapHandler_def Let_def
      dest!: record_position_run split: if_splits intro: watermark_recorded)

lemma economy_blocked_step:
  assumes "watermark (position_of c) family i (w_db v)"
    and "bindO (guardO ok e) (\<lambda>_. bindO (economyEventApplied c family i) (\<lambda>applied.
       if applied then returnO () else m)) v = (r, v1)"
  shows "unchanged v v1"
proof -
  obtain a u where a: "economyEventApplied c family i v = (a, u)" by force
  have "unchanged v u" using keeps_run [OF read_only_economy_applied a] by (simp add: read_only_def)
  then show ?thesis
    using assms a by (cases a; cases ok) (auto simp: bindO_def economy_applied_run unchanged_def)
qed

lemma economy_handler_blocked:
  assumes "watermark (position_of c) family i (w_db v)" "economy_entity family raw = Inr i"
    and "economy_handler family c raw v = (r, v1)" "family \<in> set economy_families"
  shows "unchanged v v1"
proof -
  have refl: "unchanged v v" by (simp add: unchanged_def)
  consider "family = ''diversity''" | "family = ''commission''" | "family = ''stake_cap''"
    using assms(4) by (auto simp: economy_families_def)
  then show ?thesis
  proof cases
    case 1
    then obtain p where "DecodeRequired raw decode_OwnerReactorDiversity
          [''ownerId'', ''power'', ''squaredPower'', ''appliedBonus''] = Inr p"
        "i = OwnerReactorDiversity_OwnerID p"
      using assms(2) by (auto simp: economy_entity_def bindR_Inr)
    then show ?thesis
      using assms(1,3) economy_blocked_step 1
      by (simp add: economy_handler_def ownerReactorDiversityHandler_def Let_def)
  next
    case 2
    then obtain p where "DecodeRequired raw decode_ReactorCommissionRevision
          [''reactorId'', ''slashRevision'', ''reconciledSlashRevision''] = Inr p"
        "i = ReactorCommissionRevision_ReactorID p"
      using assms(2) by (auto simp: economy_entity_def bindR_Inr)
    then show ?thesis
      using assms(1,3) economy_blocked_step 2
      by (simp add: economy_handler_def reactorCommissionRevisionHandler_def Let_def)
  next
    case 3
    then have i: "i = ''singleton''" using assms(2) by (simp add: economy_entity_def)
    obtain d where d: "DecodeRequired raw decode_ReactorStakeCap [''active'', ''capBps'', ''minValidators''] = d"
      by simp
    show ?thesis
    proof (cases d)
      case Inl
      then show ?thesis
        using assms(3) 3 d refl by (auto simp: economy_handler_def reactorStakeCapHandler_def bindO_def)
    next
      case (Inr p)
      then show ?thesis
        using economy_blocked_step [of c family i v True] assms(1,3) 3 d i
        by (simp add: economy_handler_def reactorStakeCapHandler_def)
    qed
  qed
qed

text \<open>
  Economy snapshots (reactor diversity, commission revisions, the stake cap) are ordered
  per entity: after one has been handled, any snapshot of the same entity at or before it in
  execution order leaves the tables, the buffers and the marks alone.
\<close>

theorem economy_replay_noop:
  assumes "family \<in> set economy_families"
    and "economy_handler family b raw w = (Inr (), w1)" "economy_entity family raw = Inr i"
    and "economy_handler family c old v = (r, v1)" "economy_entity family old = Inr i"
    and "row_ge (position_of b) (position_of c)" "w_db v = w_db w1"
  shows "w_db v1 = w_db v \<and> w_buf v1 = w_buf v \<and> w_dirty v1 = w_dirty v"
proof -
  have "watermark (position_of c) family i (w_db v)"
    using watermark_older [OF economy_handler_marks [OF assms(2,3,1)] assms(6)] assms(7) by simp
  then show ?thesis
    using economy_handler_blocked [OF _ assms(5,4,1)] by (simp add: unchanged_def)
qed

definition economy_ids :: "string \<Rightarrow> tables \<Rightarrow> string list" where
  "economy_ids family d =
     (if family = ''diversity'' then map fst (db_diversity d) else map fst (db_commission d))"

lemma mark_loop_db:
  "forO ids (\<lambda>i. if family = ''commission'' then mark (Dirty_Reactor i) else dirtyOwner i) w = (r, w') \<Longrightarrow>
     w_db w' = w_db w"
proof -
  have "keeps same_ledger (forO ids (\<lambda>i. if family = ''commission'' then mark (Dirty_Reactor i) else dirtyOwner i))"
    by (intro ledger_frame same_ledger_dirtyOwner)
  then show "forO ids (\<lambda>i. if family = ''commission'' then mark (Dirty_Reactor i) else dirtyOwner i) w = (r, w') \<Longrightarrow>
     w_db w' = w_db w"
    using keeps_run by (fastforce simp: same_ledger_def)
qed

lemma tbl_filter_keys: "map fst (tbl_filter (\<lambda>i r. P i) t) = filter P (map fst t)"
  by (induction t) (auto simp: tbl_filter_def)

lemma reset_rows_ids:
  "economy_ids family (snd (reset_rows b family d)) = filter (\<lambda>i. newer_position b family i d) (economy_ids family d)"
  by (simp add: economy_ids_def reset_rows_def tbl_filter_keys)

lemma reset_applied:
  assumes "resetEconomy b family w = (Inr (), w')" "\<not> watermark (position_of b) family [] (w_db w)"
  shows "economy_ids family (w_db w') = filter (\<lambda>i. newer_position b family i (w_db w)) (economy_ids family (w_db w))"
    and "tbl_get (db_economy_position (w_db w')) (family, []) = Some (position_of b)"
proof -
  have keep: "economy_ids family (drop_positions b family d) = economy_ids family d"
      "economy_ids family (d\<lparr>db_economy_position := t\<rparr>) = economy_ids family d" for d t
    by (simp_all add: economy_ids_def drop_positions_def)
  have "w_db w' = (drop_positions b family (snd (reset_rows b family (w_db w))))\<lparr>db_economy_position :=
      tbl_put (family, []) (position_of b) (db_economy_position
        (drop_positions b family (snd (reset_rows b family (w_db w)))))\<rparr>"
    using assms
    by (auto simp: resetEconomy_def bindO_Inr guardO_case economy_applied_run exec_def sql_Inr
        recordEconomyPosition_def dest!: mark_loop_db)
  then show "economy_ids family (w_db w') = filter (\<lambda>i. newer_position b family i (w_db w)) (economy_ids family (w_db w))"
    and "tbl_get (db_economy_position (w_db w')) (family, []) = Some (position_of b)"
    by (simp_all add: keep reset_rows_ids)
qed

lemma reset_handler_run:
  "economyResetHandler family b raw w = (Inr (), w') \<Longrightarrow> resetEconomy b family w = (Inr (), w')"
  by (auto simp: economyResetHandler_def bindO_Inr)

lemma reset_watermark:
  assumes "resetEconomy b family w = (Inr (), w')"
  shows "watermark (position_of b) family [] (w_db w')"
proof (cases "watermark (position_of b) family [] (w_db w)")
  case True
  then show ?thesis using assms by (auto simp: resetEconomy_def bindO_Inr economy_applied_run)
next
  case False
  then show ?thesis using reset_applied(2) [OF assms] watermark_recorded by blast
qed

text \<open>
  C22: A reset that is not itself a replay keeps exactly the rows whose own snapshot is newer
  than it, and from then on no snapshot of the family at or before the reset can bring a
  row back: it leaves the tables, the buffers and the marks alone.
\<close>

theorem economy_reset_authoritative:
  assumes "economyResetHandler family b raw w = (Inr (), w1)"
    and "\<not> watermark (position_of b) family [] (w_db w)"
    and "economy_handler family c old v = (r, v1)" "economy_entity family old = Inr i"
    and "family \<in> set economy_families" "row_ge (position_of b) (position_of c)" "w_db v = w_db w1"
  shows "economy_ids family (w_db w1) =
           filter (\<lambda>i. newer_position b family i (w_db w)) (economy_ids family (w_db w)) \<and>
         w_db v1 = w_db v \<and> w_buf v1 = w_buf v \<and> w_dirty v1 = w_dirty v"
proof -
  note run = reset_handler_run [OF assms(1)]
  have "watermark (position_of c) family i (w_db v)"
    using watermark_older [OF watermark_reset [OF reset_watermark [OF run]] assms(6)] assms(7) by simp
  then show ?thesis
    using economy_handler_blocked [OF _ assms(4,3,5)] reset_applied(1) [OF run assms(2)]
    by (simp add: unchanged_def)
qed

definition example_diversity :: string where
  "example_diversity = ''{'' @ json_quote ''ownerId'' @ '':'' @ json_quote ''1-4'' @ '','' @
     json_quote ''power'' @ '':'' @ json_quote ''8'' @ '','' @ json_quote ''squaredPower'' @ '':'' @ json_quote ''64'' @
     '','' @ json_quote ''appliedBonus'' @ '':'' @ json_quote ''2'' @ ''}''"

definition example_diverse :: pOwnerReactorDiversity where
  "example_diverse = \<lparr>OwnerReactorDiversity_OwnerID = ''1-4'', OwnerReactorDiversity_Power = ''8'',
     OwnerReactorDiversity_SquaredPower = ''64'', OwnerReactorDiversity_AppliedBonus = 2\<rparr>"

lemma example_diversity_decode:
  "DecodeRequired example_diversity decode_OwnerReactorDiversity
     [''ownerId'', ''power'', ''squaredPower'', ''appliedBonus''] = Inr example_diverse"
  "ownerIDPattern ''1-4''" "DecodeRequired ''{}'' (\<lambda>obj. Inr ()) [] = Inr ()"
  by code_simp+

lemma example_diversity_entity: "economy_entity ''diversity'' example_diversity = Inr ''1-4''"
  by (simp add: economy_entity_def example_diversity_decode example_diverse_def)

definition example_diverse_world :: world where
  "example_diverse_world = snd (ownerReactorDiversityHandler example_context example_diversity clean_world)"

lemma example_diversity_run:
  "economy_handler ''diversity'' example_context example_diversity clean_world = (Inr (), example_diverse_world)"
  by (simp add: economy_handler_def example_diverse_world_def ownerReactorDiversityHandler_def
      example_diversity_decode example_diverse_def economyEventApplied_def recordEconomyPosition_def
      exec_def query_def sql_def dirtyOwner_def has_prefix_def mark_def bindO_def clean_world_def
      empty_tables_def tick_def Let_def)

theorem economy_replay_noop_witness:
  "let v1 = snd (economy_handler ''diversity'' example_context example_diversity example_diverse_world) in
     w_db v1 = w_db example_diverse_world \<and> w_buf v1 = w_buf example_diverse_world \<and>
     w_dirty v1 = w_dirty example_diverse_world"
  unfolding Let_def
  by (rule economy_replay_noop [OF _ example_diversity_run example_diversity_entity
        prod.collapse [symmetric] example_diversity_entity])
    (simp_all add: economy_families_def)

definition example_reset :: block_context where
  "example_reset = example_context\<lparr>bc_event := 5\<rparr>"

definition example_reset_world :: world where
  "example_reset_world = snd (economyResetHandler ''diversity'' example_reset ''{}'' example_diverse_world)"

lemma example_reset_run:
  "economyResetHandler ''diversity'' example_reset ''{}'' example_diverse_world = (Inr (), example_reset_world)"
  by (simp add: example_reset_world_def economyResetHandler_def resetEconomy_def example_reset_def
      reset_rows_def newer_position_def drop_positions_def tbl_filter_def row_ge_def row_gt_def position_of_def
      PositionPhase_def example_diverse_world_def ownerReactorDiversityHandler_def
      example_diversity_decode example_diverse_def economyEventApplied_def recordEconomyPosition_def
      exec_def query_def sql_def dirtyOwner_def has_prefix_def mark_def bindO_def clean_world_def
      empty_tables_def tbl_put_def tbl_del_def tick_def Let_def)

theorem economy_reset_authoritative_witness:
  "let v1 = snd (economy_handler ''diversity'' example_context example_diversity example_reset_world) in
   economy_ids ''diversity'' (w_db example_reset_world) =
     filter (\<lambda>i. newer_position example_reset ''diversity'' i (w_db example_diverse_world))
       (economy_ids ''diversity'' (w_db example_diverse_world)) \<and>
   w_db v1 = w_db example_reset_world \<and> w_buf v1 = w_buf example_reset_world \<and>
   w_dirty v1 = w_dirty example_reset_world"
  unfolding Let_def
  by (rule economy_reset_authoritative [OF example_reset_run _ prod.collapse [symmetric] example_diversity_entity])
    (simp_all add: economy_families_def row_ge_def position_of_def PositionPhase_def example_reset_def
      watermark_def example_diverse_world_def ownerReactorDiversityHandler_def
      example_diversity_decode example_diverse_def economyEventApplied_def recordEconomyPosition_def
      exec_def query_def sql_def dirtyOwner_def has_prefix_def mark_def bindO_def clean_world_def
      empty_tables_def tick_def Let_def)

section \<open>Vaults\<close>

definition same_identity :: "vault_row \<Rightarrow> vault_row \<Rightarrow> bool" where
  "same_identity old new \<longleftrightarrow>
     va_address new = va_address old \<and> va_account_number new = va_account_number old \<and>
     (va_account_created old = None \<or> va_account_created new = va_account_created old)"

definition vaults_kept :: "world \<Rightarrow> world \<Rightarrow> bool" where
  "vaults_kept w v \<longleftrightarrow> (\<forall>i old. tbl_get (db_vault (w_db w)) i = Some old \<longrightarrow>
     (\<exists>new. tbl_get (db_vault (w_db v)) i = Some new \<and> same_identity old new))"

interpretation vaults: preorder_op vaults_kept
proof unfold_locales
  show "vaults_kept w w" for w by (auto simp: vaults_kept_def same_identity_def)
  show "vaults_kept w v \<Longrightarrow> vaults_kept v u \<Longrightarrow> vaults_kept w u" for w v u
    unfolding vaults_kept_def same_identity_def by (metis option.distinct(1))
qed

lemma vaults_kept_same_db: "keeps same_db m \<Longrightarrow> keeps vaults_kept m"
  by (auto simp: keeps_def same_db_def vaults_kept_def same_identity_def)

lemma vaults_kept_upsert: "keeps vaults_kept (exec (vault_upsert p))"
  by (auto simp: keeps_def vaults_kept_def same_identity_def exec_def sql_def vault_upsert_def
      split: option.splits)

lemma reads_dirtyOwner: "keeps same_db (dirtyOwner i)"
  unfolding dirtyOwner_def by (intro reads_intros)

lemma vaults_kept_handler: "keeps vaults_kept (vaultAddressHandler b raw)"
  unfolding vaultAddressHandler_def
  by (intro vaults.keeps_intros vaults_kept_upsert vaults_kept_same_db same_db_query same_db_push reads_dirtyOwner)

text \<open>
  A vault's identity is immutable: whatever vault event arrives, accepted or not, an
  owner's stored address and account number stay, and a known creation flag too; and an
  accepted event is one whose identity is the stored one.
\<close>

theorem vault_identity_immutable:
  assumes "vaultAddressHandler b raw w = (r, w')" "tbl_get (db_vault (w_db w)) i = Some old"
    and "DecodeRequired raw decode_VaultAddress
       [''ownerId'', ''vaultAddress'', ''accountNumber'', ''accountCreated''] = Inr p"
  shows "(\<exists>new. tbl_get (db_vault (w_db w')) i = Some new \<and> same_identity old new) \<and>
         (case r of Inl e \<Rightarrow> True | Inr u \<Rightarrow> vault_matches p (w_db w'))"
proof
  show "\<exists>new. tbl_get (db_vault (w_db w')) i = Some new \<and> same_identity old new"
    using keeps_run [OF vaults_kept_handler assms(1)] assms(2) by (simp add: vaults_kept_def)
  have db: "dirtyOwner o' u = (x, v) \<Longrightarrow> w_db v = w_db u" for o' u x v
    using keeps_run [OF reads_dirtyOwner, of o' u x v] by (simp add: same_db_def)
  show "case r of Inl e \<Rightarrow> True | Inr u \<Rightarrow> vault_matches p (w_db w')"
    using assms(1,3)
    by (auto simp: vaultAddressHandler_def bindO_Inr guardO_case exec_def query_def sql_Inr mark_def
        dest!: db split: sum.splits if_splits)
qed

definition example_vault :: string where
  "example_vault = ''{'' @ json_quote ''ownerId'' @ '':'' @ json_quote ''1-4'' @ '','' @
     json_quote ''vaultAddress'' @ '':'' @ json_quote ''v'' @ '','' @ json_quote ''accountNumber'' @ '':'' @
     json_quote ''8'' @ '','' @ json_quote ''accountCreated'' @ '':true}''"

definition example_vault_world :: world where
  "example_vault_world = clean_world\<lparr>w_db := empty_tables\<lparr>db_vault :=
     [(''1-4'', \<lparr>va_address = ''other'', va_account_number = 3, va_account_created = None\<rparr>)]\<rparr>\<rparr>"

lemma example_vault_decode:
  "DecodeRequired example_vault decode_VaultAddress
     [''ownerId'', ''vaultAddress'', ''accountNumber'', ''accountCreated''] = Inr
     \<lparr>VaultAddress_OwnerID = ''1-4'', VaultAddress_VaultAddress = ''v'', VaultAddress_AccountNumber = 8,
      VaultAddress_AccountCreated = True\<rparr>"
  by code_simp

theorem vault_identity_immutable_witness:
  "let (r, w') = vaultAddressHandler example_context example_vault example_vault_world in
   \<exists>new. tbl_get (db_vault (w_db w')) ''1-4'' = Some new \<and>
     same_identity \<lparr>va_address = ''other'', va_account_number = 3, va_account_created = None\<rparr> new"
  using vault_identity_immutable [OF prod.collapse [symmetric] _ example_vault_decode, of example_vault_world
      "''1-4''" "\<lparr>va_address = ''other'', va_account_number = 3, va_account_created = None\<rparr>" example_context]
  by (auto simp: example_vault_world_def Let_def split: prod.splits)

section \<open>Deletions\<close>

lemma tbl_get_filter_key:
  "tbl_get (tbl_filter (\<lambda>k r. k \<notin> A) t) k = (if k \<in> A then None else tbl_get t k)"
  by (induction t) (auto simp: tbl_filter_def tbl_get_def)

text \<open>
  Deleting a provider removes the provider, every agreement it provides and the ownership
  sidecar of each of those agreements and of the provider itself, and marks the provider's
  leaderboard for a refresh.
\<close>

theorem provider_deletion_complete:
  assumes "deleteHandler b raw w = (Inr (), w')" "decodeDeleteObjectID raw = Inr i"
    and "parse_object i = Inr (Provider, idx, sub)" "count_char (CHR ''-'') i \<le> 1"
  shows "tbl_get (db_provider (w_db w')) i = None \<and>
     list_all (\<lambda>(k, a). ag_provider_id a \<noteq> Some i) (db_agreement (w_db w')) \<and>
     list_all (\<lambda>(k, a). ag_provider_id a \<noteq> Some i \<or> tbl_get (db_player_object (w_db w')) k = None)
       (db_agreement (w_db w)) \<and>
     tbl_get (db_player_object (w_db w')) i = None \<and> i \<in> d_providers (w_dirty w')"
proof -
  have "parse_object [] = Inl (errorf ''objecttype.Parse: missing dash'')" by code_simp
  then have "i \<noteq> []" using assms(3) by auto
  have effect: "w_db w' = (drop_agreements (\<lambda>r. ag_provider_id r = Some i)
      (drop_sidecars (\<lambda>r. ag_provider_id r = Some i) (w_db w)))
        \<lparr>db_provider := tbl_del i (db_provider (w_db w)),
         db_player_object := tbl_del i (db_player_object
           (drop_sidecars (\<lambda>r. ag_provider_id r = Some i) (w_db w)))\<rparr>"
    "w_dirty w' = Dirty_Provider i (w_dirty w)"
    using assms
    by (auto simp: deleteHandler_def bindO_Inr wrapO_Inr whenO_case delete_kind_def delete_provider_def
        exec_def sql_Inr drop_sidecars_def drop_agreements_def Let_def mark_def)
  have none: "tbl_get (db_player_object (w_db w')) k = None"
    if "(k, a) \<in> set (db_agreement (w_db w))" "ag_provider_id a = Some i" for k a
  proof -
    have "k \<in> set (map fst (filter (\<lambda>(k, r). ag_provider_id r = Some i) (db_agreement (w_db w))))"
      using that by force
    then have "tbl_get (db_player_object (drop_sidecars (\<lambda>r. ag_provider_id r = Some i) (w_db w))) k = None"
      by (simp add: drop_sidecars_def Let_def tbl_get_filter_key del: set_map set_filter)
    then show ?thesis by (simp add: effect)
  qed
  have agreements: "list_all (\<lambda>(k, a). ag_provider_id a \<noteq> Some i) (db_agreement (w_db w'))"
    by (auto simp: effect drop_agreements_def tbl_filter_def list_all_iff)
  show ?thesis
    using \<open>i \<noteq> []\<close> none agreements
    by (auto simp: effect list_all_iff Dirty_Provider_def add_id_def)
qed

definition example_delete :: string where
  "example_delete = ''{'' @ json_quote ''objectId'' @ '':'' @ json_quote ''10-1'' @ ''}''"

definition example_provider :: provider_row where
  "example_provider =
     \<lparr>pv_index = 1, pv_substation_id = [], pv_rate_amount = Some ''3'', pv_rate_denom = ''ualpha'',
      pv_access_policy = [], pv_capacity_minimum = None, pv_capacity_maximum = None,
      pv_duration_minimum = None, pv_duration_maximum = None, pv_provider_penalty = None,
      pv_consumer_penalty = None, pv_creator = [], pv_owner = ''1-1''\<rparr>"

definition example_agreement :: agreement_row where
  "example_agreement =
     \<lparr>ag_provider_id = Some ''10-1'', ag_allocation_id = None, ag_capacity = 5,
      ag_start_block = 1, ag_end_block = 9, ag_creator = [], ag_owner = ''1-1''\<rparr>"

definition example_provided :: world where
  "example_provided = clean_world\<lparr>w_db := empty_tables\<lparr>
     db_provider := [(''10-1'', example_provider)],
     db_agreement := [(''11-1'', example_agreement)],
     db_player_object := [(''11-1'', ''1-1''), (''10-1'', ''1-1'')]\<rparr>\<rparr>"

lemma example_delete_parts:
  "decodeDeleteObjectID example_delete = Inr ''10-1''"
  "parse_object ''10-1'' = Inr (Provider, 1, [])" "count_char (CHR ''-'') ''10-1'' = 1"
  by code_simp+

lemma example_delete_run:
  "deleteHandler example_context example_delete example_provided =
     (Inr (), snd (deleteHandler example_context example_delete example_provided))"
  by (simp add: deleteHandler_def example_delete_parts delete_kind_def delete_provider_def exec_def sql_def
      mark_def bindO_def wrapO_def example_provided_def clean_world_def Let_def)

theorem provider_deletion_complete_witness:
  "let w' = snd (deleteHandler example_context example_delete example_provided) in
   tbl_get (db_provider (w_db w')) ''10-1'' = None \<and>
     list_all (\<lambda>(k, a). ag_provider_id a \<noteq> Some ''10-1'') (db_agreement (w_db w')) \<and>
     list_all (\<lambda>(k, a). ag_provider_id a \<noteq> Some ''10-1'' \<or> tbl_get (db_player_object (w_db w')) k = None)
       (db_agreement (w_db example_provided)) \<and>
     tbl_get (db_player_object (w_db w')) ''10-1'' = None \<and> ''10-1'' \<in> d_providers (w_dirty w')"
  unfolding Let_def
  by (rule provider_deletion_complete [OF example_delete_run example_delete_parts(1,2)])
    (simp add: example_delete_parts)

section \<open>Legacy positions\<close>

definition same_infused :: "world \<Rightarrow> world \<Rightarrow> bool" where
  "same_infused w v \<longleftrightarrow> w_buf v = w_buf w \<and> (\<forall>k. fuel_of k (w_db v) = fuel_of k (w_db w))"

interpretation infused: preorder_op same_infused
  by unfold_locales (simp_all add: same_infused_def)

lemma same_infused_ops:
  "keeps same_infused (query g)" "keeps same_infused (query_opt h)" "keeps same_infused (mark m)"
  by (auto simp: keeps_def same_infused_def query_def query_opt_def sql_def mark_def split: option.splits)

lemma same_infused_upsert: "keeps same_infused (exec (infusion_position_upsert k q))"
  by (auto simp: keeps_def same_infused_def exec_def sql_def split: option.splits)

lemma same_infused_adopt: "keeps same_infused (sql_row (adopt_extension p))"
proof -
  have "keeps same_infused (sql (adopt_extension p))"
    by (auto simp: keeps_def same_infused_def sql_def adopt_extension_def fuel_of_def Let_def
        split: option.splits prod.splits if_splits)
  then show ?thesis unfolding sql_row_def by (intro infused.keeps_intros)
qed

lemma same_infused_dirtyOwner: "keeps same_infused (dirtyOwner i)"
  unfolding dirtyOwner_def by (intro infused.keeps_intros same_infused_ops)

lemmas infused_intros =
  infused.keeps_intros same_infused_ops same_infused_upsert same_infused_adopt same_infused_dirtyOwner

lemma same_infused_all: "keeps same_infused (reconcile_all b ms)"
proof (induction ms)
  case (Cons m ms)
  moreover have "keeps same_infused (reconcile_one b m)"
    unfolding reconcile_one_def Let_def by (intro infused_intros)
  ultimately show ?case unfolding reconcile_all.simps by (intro infused_intros)
qed (unfold reconcile_all.simps, intro infused_intros)

lemma unresolved_check:
  "bindO (query (unresolved_positions h)) (\<lambda>u. bindO (guardO (u = 0) e) (\<lambda>_. returnO k)) v = (Inr n, w') \<Longrightarrow>
     unresolved_positions h (w_db w') = 0"
  by (auto simp: bindO_Inr guardO_case query_def sql_Inr split: if_splits)

text \<open>
  The legacy reconciliation of a block, when it succeeds, leaves no position of that
  height without an execution phase, and it buffers nothing and changes the fuel of no
  infusion: phases are adopted, never a delta.
\<close>

theorem reconciliation_resolves_block:
  assumes "ReconcileLegacyInfusionPositions b ordered w = (Inr n, w')"
  shows "unresolved_positions (bc_height b) (w_db w') = 0 \<and> w_buf w' = w_buf w \<and>
         fuel_of k (w_db w') = fuel_of k (w_db w)"
proof -
  have frame: "keeps same_infused (ReconcileLegacyInfusionPositions b ordered)"
    unfolding ReconcileLegacyInfusionPositions_def by (intro infused_intros same_infused_all)
  have "same_infused w w'" using keeps_run [OF frame assms] .
  moreover have "unresolved_positions (bc_height b) (w_db w') = 0"
    using assms unfolding ReconcileLegacyInfusionPositions_def
    by (subst (asm) bindO_Inr, elim exE conjE, subst (asm) bindO_Inr, elim exE conjE)
      (rule unresolved_check)
  ultimately show ?thesis unfolding same_infused_def by blast
qed

definition example_legacy :: world where
  "example_legacy = clean_world\<lparr>w_db := empty_tables\<lparr>db_infusion_position :=
     [((''5-1'', ''a''), \<lparr>ep_height = 9, ep_phase = None, ep_tx = 0, ep_event = 2\<rparr>)]\<rparr>\<rparr>"

definition example_legacy_block :: "positioned list" where
  "example_legacy_block =
     [\<lparr>pe_event = \<lparr>ev_type = ''structs.structs.EventDelete'', ev_attributes =
         [\<lparr>attr_key = ''objectId'', attr_value = json_quote ''5-1-a'', attr_index = True\<rparr>]\<rparr>,
       pe_phase = Transaction, pe_tx = 0, pe_index = 2, pe_msg = 0\<rparr>]"

definition example_mutation :: mutation where
  "example_mutation = \<lparr>mu_position = hd example_legacy_block,
     mu_infusion = bare_infusion (''5-1'', ''a''), mu_deleted = True\<rparr>"

lemma example_last_mutations:
  "last_mutations example_context example_legacy_block = Inr [(''5-1/a'', example_mutation)]"
  by code_simp

lemma example_mutation_parts:
  "mu_infusion example_mutation = bare_infusion (''5-1'', ''a'')" "mu_deleted example_mutation"
  "pe_tx (mu_position example_mutation) = 0" "pe_index (mu_position example_mutation) = 2"
  by (simp_all add: example_mutation_def example_legacy_block_def)

lemma example_legacy_run:
  "ReconcileLegacyInfusionPositions example_context example_legacy_block example_legacy =
     (Inr 1, snd (ReconcileLegacyInfusionPositions example_context example_legacy_block example_legacy))"
  by (simp add: ReconcileLegacyInfusionPositions_def example_last_mutations reconcile_one_def
      example_mutation_parts bare_infusion_def snapshot_matches_def
      infusion_position_upsert_def unresolved_positions_def tbl_put_def tbl_del_def
      exec_def query_def query_opt_def sql_def mark_def has_prefix_def bindO_def sort_key_def
      example_legacy_def clean_world_def empty_tables_def Let_def)

theorem reconciliation_resolves_block_witness:
  "let w' = snd (ReconcileLegacyInfusionPositions example_context example_legacy_block example_legacy) in
   unresolved_positions (bc_height example_context) (w_db w') = 0 \<and> w_buf w' = w_buf example_legacy \<and>
   fuel_of (''5-1'', ''a'') (w_db w') = fuel_of (''5-1'', ''a'') (w_db example_legacy)"
  unfolding Let_def by (rule reconciliation_resolves_block [OF example_legacy_run])

end
