(* ===== verification/Entities.thy ===== *)
theory Entities
  imports Attributes
begin

text \<open>
  The entity handlers of \<open>internal/events\<close>: \<open>address.go\<close>, \<open>address_activity.go\<close>,
  \<open>address_association.go\<close>, \<open>agreement.go\<close>, \<open>allocation.go\<close>, \<open>fleet.go\<close>, \<open>guild.go\<close>,
  \<open>guild_bank_address.go\<close>, \<open>guild_membership_application.go\<close>, \<open>planet.go\<close>, \<open>player.go\<close>,
  \<open>player_object.go\<close>, \<open>provider.go\<close>, \<open>provider_address.go\<close>, \<open>reactor.go\<close>, \<open>struct.go\<close>,
  \<open>struct_type.go\<close>, \<open>substation.go\<close>.

  Every upsert ends in \<open>WHERE ... IS DISTINCT FROM EXCLUDED\<close> over exactly the columns it
  sets, so skipping the update leaves the same row; the guard only suppresses the
  maintenance timestamp and triggers, which are not modelled.
\<close>

section \<open>Upserts\<close>

text \<open>\<open>INSERT ... ON CONFLICT (key) DO UPDATE\<close>: the row to insert and the change of an old one.\<close>

definition upsert_row :: "'k \<Rightarrow> 'r \<Rightarrow> ('r \<Rightarrow> 'r) \<Rightarrow> ('k, 'r) table \<Rightarrow> ('k, 'r) table" where
  "upsert_row k new change t =
     (case tbl_get t k of None \<Rightarrow> tbl_put k new t | Some r \<Rightarrow> tbl_put k (change r) t)"

definition player_object_upsert :: "string \<Rightarrow> string \<Rightarrow> tables \<Rightarrow> tables" where
  "player_object_upsert objectID playerID d =
     d\<lparr>db_player_object := tbl_put objectID playerID (db_player_object d)\<rparr>"

definition upsertPlayerObject :: "string \<Rightarrow> string \<Rightarrow> (world, unit) op" where
  "upsertPlayerObject objectID playerID =
     bindO (guardO (objectID \<noteq> []) (errorf ''player_object: empty object_id'')) (\<lambda>_.
     whenO (playerID \<noteq> [])
       (wrapO ''player_object upsert: '' (exec (player_object_upsert objectID playerID))))"

text \<open>A column scanned into \<open>*string\<close>: no row and NULL mark nothing.\<close>

definition mark_previous :: "(string \<Rightarrow> dirty \<Rightarrow> dirty) \<Rightarrow> string option option \<Rightarrow> (world, unit) op" where
  "mark_previous f previous =
     (case previous of Some (Some p) \<Rightarrow> mark (f p) | _ \<Rightarrow> returnO ())"

section \<open>Addresses\<close>

definition player_guild :: "string \<Rightarrow> tables \<Rightarrow> string option" where
  "player_guild pid d =
     (case tbl_get (db_player d) pid of None \<Rightarrow> None | Some r \<Rightarrow> pl_guild_id r)"

definition player_address_upsert :: "string \<Rightarrow> string \<Rightarrow> string \<Rightarrow> tables \<Rightarrow> tables" where
  "player_address_upsert addr pid status d =
     d\<lparr>db_player_address := upsert_row addr
        \<lparr>ad_player_id = Some pid, ad_guild_id = player_guild pid d, ad_status = status\<rparr>
        (\<lambda>r. r\<lparr>ad_status := status, ad_player_id := Some pid\<rparr>) (db_player_address d)\<rparr>"

definition previous_player :: "string \<Rightarrow> (world, string option option) op" where
  "previous_player addr = query_opt (\<lambda>d. map_option ad_player_id (tbl_get (db_player_address d) addr))"

definition addressHandler :: handler where
  "addressHandler b raw =
     bindO (liftO (Decode raw decode_Address)) (\<lambda>p.
     let addr = Address_Address p; pid = Address_PlayerID p in
     bindO (guardO (addr \<noteq> []) (errorf ''address: empty address'')) (\<lambda>_.
     bindO (wrapO ''address previous player: '' (previous_player addr)) (\<lambda>previous.
     bindO (wrapO ''address upsert: '' (exec (player_address_upsert addr pid ''approved''))) (\<lambda>_.
     bindO (mark (Dirty_Address addr)) (\<lambda>_.
     bindO (mark_previous Dirty_Player previous) (\<lambda>_.
     mark (Dirty_Player pid)))))))"

definition address_activity_upsert :: "pAddressActivity \<Rightarrow> tables \<Rightarrow> tables" where
  "address_activity_upsert p d =
     (let addr = AddressActivity_Address p;
          player = (case tbl_get (db_player_address d) addr of None \<Rightarrow> None | Some r \<Rightarrow> ad_player_id r) in
      d\<lparr>db_address_activity := upsert_row addr
        \<lparr>aa_player_id = player, aa_height = AddressActivity_BlockHeight p,
         aa_time = AddressActivity_BlockTime p\<rparr>
        (\<lambda>r. r\<lparr>aa_height := AddressActivity_BlockHeight p, aa_time := AddressActivity_BlockTime p\<rparr>)
        (db_address_activity d)\<rparr>)"

definition addressActivityHandler :: handler where
  "addressActivityHandler b raw =
     bindO (liftO (Decode raw decode_AddressActivity)) (\<lambda>p.
     bindO (guardO (AddressActivity_Address p \<noteq> []) (errorf ''address_activity: empty address'')) (\<lambda>_.
     wrapO ''address_activity upsert: '' (exec (address_activity_upsert p))))"

definition addressAssociationHandler :: handler where
  "addressAssociationHandler b raw =
     bindO (liftO (Decode raw decode_AddressAssociation)) (\<lambda>p.
     let addr = AddressAssociation_Address p;
         pid = ''1-'' @ dec_int (AddressAssociation_PlayerIndex p) in
     bindO (guardO (addr \<noteq> []) (errorf ''address_association: empty address'')) (\<lambda>_.
     bindO (wrapO ''address_association player check: ''
        (query (\<lambda>d. tbl_get (db_player d) pid \<noteq> None))) (\<lambda>exists'.
     if \<not> exists' then returnO ()
     else
       bindO (wrapO ''address_association previous player: '' (previous_player addr)) (\<lambda>previous.
       bindO (wrapO ''address_association upsert: ''
          (exec (player_address_upsert addr pid (AddressAssociation_RegistrationStatus p)))) (\<lambda>_.
       bindO (mark (Dirty_Address addr)) (\<lambda>_.
       bindO (mark_previous Dirty_Player previous) (\<lambda>_.
       mark (Dirty_Player pid))))))))"

section \<open>Address tags\<close>

definition tag_upsert :: "(string \<times> string \<times> string) list \<Rightarrow> tables \<Rightarrow> tables" where
  "tag_upsert tags d =
     d\<lparr>db_address_tag := fold (\<lambda>(addr, label, entry) t. tbl_put (addr, label) entry t) tags (db_address_tag d)\<rparr>"

text \<open>One \<open>INSERT ... ON CONFLICT DO UPDATE\<close> refuses to touch a row twice (SQLSTATE 21000).\<close>

definition tag_exec :: "(string \<times> string \<times> string) list \<Rightarrow> (world, unit) op" where
  "tag_exec tags =
     (if distinct (map (\<lambda>(addr, label, entry). (addr, label)) tags) then exec (tag_upsert tags)
      else bindO (exec (\<lambda>d. d)) (\<lambda>_. bindO (modifyO (\<lambda>w. w\<lparr>w_aborted := True\<rparr>)) (\<lambda>_.
        failO (GoErr [PgError ''21000''] ''ON CONFLICT DO UPDATE command cannot affect row a second time''))))"

definition providerAddressHandler :: handler where
  "providerAddressHandler b raw =
     bindO (liftO (Decode raw decode_ProviderAddress)) (\<lambda>p.
     let c = ProviderAddress_CollateralPool p; e = ProviderAddress_EarningPool p;
         i = ProviderAddress_ProviderID p in
     bindO (guardO (c \<noteq> [] \<and> e \<noteq> [] \<and> i \<noteq> []) (errorf ''provider_address: missing field'')) (\<lambda>_.
     wrapO ''provider_address upsert: '' (tag_exec
       [(c, ''Type'', ''Provider Collateral Pool''), (c, ''ProviderId'', i),
        (e, ''Type'', ''Provider Earning Pool''), (e, ''ProviderId'', i)])))"

definition guildBankAddressHandler :: handler where
  "guildBankAddressHandler b raw =
     bindO (liftO (Decode raw decode_GuildBankAddress)) (\<lambda>p.
     let pool = GuildBankAddress_BankCollateralPool p; i = GuildBankAddress_GuildID p in
     bindO (guardO (pool \<noteq> [] \<and> i \<noteq> []) (errorf ''guild_bank_address: missing field'')) (\<lambda>_.
     bindO (wrapO ''guild_bank_address previous guild: ''
        (query_opt (\<lambda>d. tbl_get (db_address_tag d) (pool, ''GuildId'')))) (\<lambda>previous.
     bindO (wrapO ''guild_bank_address upsert: '' (tag_exec
        [(pool, ''Type'', ''Bank Collateral Pool''), (pool, ''GuildId'', i)])) (\<lambda>_.
     bindO (mark_previous Dirty_Guild (map_option Some previous)) (\<lambda>_.
     bindO (mark (Dirty_Guild i)) (\<lambda>_.
     mark (Dirty_Address pool)))))))"

section \<open>Agreements, allocations, providers\<close>

definition agreement_upsert :: "pAgreement \<Rightarrow> tables \<Rightarrow> tables" where
  "agreement_upsert p d =
     d\<lparr>db_agreement := upsert_row (Agreement_ID p)
        \<lparr>ag_provider_id = Some (Agreement_ProviderID p), ag_allocation_id = Some (Agreement_AllocationID p),
         ag_capacity = Agreement_Capacity p, ag_start_block = Agreement_StartBlock p,
         ag_end_block = Agreement_EndBlock p, ag_creator = Agreement_Creator p,
         ag_owner = Agreement_Owner p\<rparr>
        (\<lambda>r. r\<lparr>ag_capacity := Agreement_Capacity p, ag_start_block := Agreement_StartBlock p,
               ag_end_block := Agreement_EndBlock p\<rparr>) (db_agreement d)\<rparr>"

definition agreementHandler :: handler where
  "agreementHandler b raw =
     bindO (liftO (Decode raw decode_Agreement)) (\<lambda>p.
     bindO (guardO (Agreement_ID p \<noteq> []) (errorf ''agreement: empty id'')) (\<lambda>_.
     bindO (wrapO ''agreement previous provider: ''
        (query_opt (\<lambda>d. map_option ag_provider_id (tbl_get (db_agreement d) (Agreement_ID p))))) (\<lambda>previous.
     bindO (wrapO ''agreement upsert: '' (exec (agreement_upsert p))) (\<lambda>_.
     bindO (upsertPlayerObject (Agreement_ID p) (Agreement_Owner p)) (\<lambda>_.
     bindO (mark_previous Dirty_Provider previous) (\<lambda>_.
     mark (Dirty_Provider (Agreement_ProviderID p))))))))"

definition allocation_upsert :: "pAllocation \<Rightarrow> tables \<Rightarrow> tables" where
  "allocation_upsert p d =
     d\<lparr>db_allocation := upsert_row (Allocation_ID p)
        \<lparr>al_type = Allocation_Type p, al_source_id = Allocation_SourceObjectID p,
         al_index = Allocation_Index p, al_destination_id = Allocation_DestinationID p,
         al_creator = Allocation_Creator p, al_controller = Allocation_Controller p\<rparr>
        (\<lambda>r. r\<lparr>al_destination_id := Allocation_DestinationID p, al_type := Allocation_Type p,
               al_controller := Allocation_Controller p\<rparr>) (db_allocation d)\<rparr>"

definition allocationHandler :: handler where
  "allocationHandler b raw =
     bindO (liftO (Decode raw decode_Allocation)) (\<lambda>p.
     bindO (guardO (Allocation_ID p \<noteq> []) (errorf ''allocation: empty id'')) (\<lambda>_.
     wrapO ''allocation upsert: '' (exec (allocation_upsert p))))"

definition provider_row_of :: "pProvider \<Rightarrow> provider_row" where
  "provider_row_of p =
     \<lparr>pv_index = Provider_Index p, pv_substation_id = Provider_SubstationID p,
      pv_rate_amount = Numeric_PgValue (ProviderRate_Amount (Provider_Rate p)),
      pv_rate_denom = ProviderRate_Denom (Provider_Rate p),
      pv_access_policy = Provider_AccessPolicy p,
      pv_capacity_minimum = Numeric_PgValue (Provider_CapacityMinimum p),
      pv_capacity_maximum = Numeric_PgValue (Provider_CapacityMaximum p),
      pv_duration_minimum = Numeric_PgValue (Provider_DurationMinimum p),
      pv_duration_maximum = Numeric_PgValue (Provider_DurationMaximum p),
      pv_provider_penalty = Numeric_PgValue (Provider_ProviderCancellationPenalty p),
      pv_consumer_penalty = Numeric_PgValue (Provider_ConsumerCancellationPenalty p),
      pv_creator = Provider_Creator p, pv_owner = Provider_Owner p\<rparr>"

definition provider_upsert :: "pProvider \<Rightarrow> tables \<Rightarrow> tables" where
  "provider_upsert p d =
     d\<lparr>db_provider := upsert_row (Provider_ID p) (provider_row_of p)
        (\<lambda>r. (provider_row_of p)\<lparr>pv_index := pv_index r, pv_creator := pv_creator r\<rparr>) (db_provider d)\<rparr>"

definition providerHandler :: handler where
  "providerHandler b raw =
     bindO (liftO (Decode raw decode_Provider)) (\<lambda>p.
     bindO (guardO (Provider_ID p \<noteq> []) (errorf ''provider: empty id'')) (\<lambda>_.
     bindO (wrapO ''provider upsert: '' (exec (provider_upsert p))) (\<lambda>_.
     bindO (upsertPlayerObject (Provider_ID p) (Provider_Owner p)) (\<lambda>_.
     mark (Dirty_Provider (Provider_ID p))))))"

section \<open>Reactors, substations, guilds\<close>

definition reactor_upsert :: "pReactor \<Rightarrow> tables \<Rightarrow> tables" where
  "reactor_upsert p d =
     d\<lparr>db_reactor := upsert_row (Reactor_ID p)
        \<lparr>re_validator = Some (Reactor_Validator p), re_guild_id = Reactor_GuildID p,
         re_default_commission = Numeric_PgValue (Reactor_DefaultCommission p), re_owner = Reactor_Owner p\<rparr>
        (\<lambda>r. r\<lparr>re_guild_id := Reactor_GuildID p,
               re_default_commission := Numeric_PgValue (Reactor_DefaultCommission p),
               re_owner := Reactor_Owner p\<rparr>) (db_reactor d)\<rparr>"

definition reactorHandler :: handler where
  "reactorHandler b raw =
     bindO (liftO (Decode raw decode_Reactor)) (\<lambda>p.
     bindO (guardO (Reactor_ID p \<noteq> []) (errorf ''reactor: empty id'')) (\<lambda>_.
     bindO (wrapO ''reactor upsert: '' (exec (reactor_upsert p))) (\<lambda>_.
     bindO (upsertPlayerObject (Reactor_ID p) (Reactor_Owner p)) (\<lambda>_.
     mark (Dirty_Reactor (Reactor_ID p))))))"

definition substation_upsert :: "pSubstation \<Rightarrow> tables \<Rightarrow> tables" where
  "substation_upsert p d =
     (let new = \<lparr>sb_owner = Substation_Owner p, sb_creator = Substation_Creator p,
                 sb_name = Substation_Name p, sb_pfp = Substation_PFP p,
                 sb_deletion_pending = Substation_DeletionPending p,
                 sb_migration_id = Substation_DeletionMigrationSubstationID p\<rparr> in
      d\<lparr>db_substation := upsert_row (Substation_ID p) new
         (\<lambda>r. new\<lparr>sb_creator := sb_creator r\<rparr>) (db_substation d)\<rparr>)"

definition substationHandler :: handler where
  "substationHandler b raw =
     bindO (liftO (DecodeVersioned raw (bctx_V022Active b) decode_Substation
        [''deletion_pending'', ''deletion_migration_substation_id''])) (\<lambda>p.
     bindO (guardO (Substation_ID p \<noteq> []) (errorf ''substation: empty id'')) (\<lambda>_.
     bindO (wrapO ''substation upsert: '' (exec (substation_upsert p))) (\<lambda>_.
     bindO (upsertPlayerObject (Substation_ID p) (Substation_Owner p)) (\<lambda>_.
     mark (Dirty_Substation (Substation_ID p))))))"

definition guild_row_of :: "pGuild \<Rightarrow> guild_row" where
  "guild_row_of p =
     \<lparr>gu_index = Guild_Index p, gu_endpoint = Guild_Endpoint p,
      gu_join_minimum = Guild_JoinInfusionMinimum p,
      gu_bypass_request = Guild_JoinInfusionMinimumBypassByRequest p,
      gu_bypass_invite = Guild_JoinInfusionMinimumBypassByInvite p,
      gu_primary_reactor = Guild_PrimaryReactorID p, gu_entry_substation = Guild_EntrySubstationID p,
      gu_entry_rank = Guild_EntryRank p, gu_creator = Guild_Creator p,
      gu_owner = Some (Guild_Owner p), gu_name = Guild_Name p, gu_pfp = Guild_PFP p,
      gu_convert_in_fee = Numeric_PgValue (Guild_BankConvertInFee p),
      gu_convert_out_fee = Numeric_PgValue (Guild_BankConvertOutFee p),
      gu_charter_solver = Guild_CharterSolverID p,
      gu_rank_base_price = Guild_RankPurchaseBasePrice p,
      gu_rank_step_increase = Guild_RankPurchaseStepIncrease p,
      gu_rank_minimum = Guild_RankPurchaseMinimumRank p,
      gu_rank_join_enabled = Guild_JoinByRankPurchaseEnabled p\<rparr>"

definition guild_upsert :: "pGuild \<Rightarrow> tables \<Rightarrow> tables" where
  "guild_upsert p d =
     d\<lparr>db_guild := upsert_row (Guild_ID p) (guild_row_of p)
        (\<lambda>r. (guild_row_of p)\<lparr>gu_index := gu_index r, gu_creator := gu_creator r\<rparr>) (db_guild d)\<rparr>"

definition guildHandler :: handler where
  "guildHandler b raw =
     bindO (liftO (DecodeVersioned raw (bctx_V022Active b) decode_Guild
        [''rankPurchaseBasePrice'', ''rankPurchaseStepIncrease'', ''rankPurchaseMinimumRank'',
         ''joinByRankPurchaseEnabled''])) (\<lambda>p.
     bindO (guardO (Guild_ID p \<noteq> []) (errorf ''guild: empty id'')) (\<lambda>_.
     bindO (query_opt (\<lambda>d. map_option gu_owner (tbl_get (db_guild d) (Guild_ID p)))) (\<lambda>previous.
     bindO (wrapO ''guild upsert: '' (exec (guild_upsert p))) (\<lambda>_.
     bindO (upsertPlayerObject (Guild_ID p) (Guild_Owner p)) (\<lambda>_.
     bindO (mark (Dirty_Guild (Guild_ID p))) (\<lambda>_.
     bindO (whenO (previous \<noteq> Some (Some (Guild_Owner p))) (mark_previous Dirty_Player previous)) (\<lambda>_.
     mark (Dirty_Player (Guild_Owner p)))))))))"

definition membership_upsert :: "pGuildMembershipApplication \<Rightarrow> tables \<Rightarrow> tables" where
  "membership_upsert p d =
     d\<lparr>db_membership := tbl_put (GuildMembershipApplication_GuildID p, GuildMembershipApplication_PlayerID p)
        \<lparr>ma_join_type = GuildMembershipApplication_JoinType p,
         ma_status = GuildMembershipApplication_RegistrationStatus p,
         ma_proposer = GuildMembershipApplication_Proposer p,
         ma_substation_id = GuildMembershipApplication_SubstationID p\<rparr> (db_membership d)\<rparr>"

definition guildMembershipApplicationHandler :: handler where
  "guildMembershipApplicationHandler b raw =
     bindO (liftO (Decode raw decode_GuildMembershipApplication)) (\<lambda>p.
     bindO (guardO (GuildMembershipApplication_GuildID p \<noteq> [] \<and> GuildMembershipApplication_PlayerID p \<noteq> [])
        (errorf ''guild_membership_application: empty guild_id or player_id'')) (\<lambda>_.
     wrapO ''guild_membership_application upsert: '' (exec (membership_upsert p))))"

section \<open>Players\<close>

definition player_upsert :: "pPlayer \<Rightarrow> tables \<Rightarrow> tables" where
  "player_upsert p d =
     (let new = \<lparr>pl_index = Player_Index p, pl_creator = Player_Creator p,
                 pl_primary_address = Player_PrimaryAddress p, pl_guild_id = Some (Player_GuildID p),
                 pl_substation_id = Some (Player_SubstationID p), pl_planet_id = Player_PlanetID p,
                 pl_fleet_id = Player_FleetID p, pl_guild_rank = Player_GuildRank p,
                 pl_username = Player_Name p, pl_pfp = Player_PFP p,
                 pl_render_attributes = Player_PFPClientRenderAttributes p\<rparr> in
      d\<lparr>db_player := upsert_row (Player_ID p) new
         (\<lambda>r. new\<lparr>pl_index := pl_index r, pl_creator := pl_creator r\<rparr>) (db_player d)\<rparr>)"

definition guild_propagate :: "string \<Rightarrow> string \<Rightarrow> tables \<Rightarrow> tables" where
  "guild_propagate pid guild d =
     d\<lparr>db_player_address := map (\<lambda>(a, r).
        (a, if ad_player_id r = Some pid then r\<lparr>ad_guild_id := Some guild\<rparr> else r)) (db_player_address d)\<rparr>"

definition derefStr :: "string option \<Rightarrow> string" where
  "derefStr p = (case p of None \<Rightarrow> [] | Some s \<Rightarrow> s)"

definition player_effects :: "pPlayer \<Rightarrow> (string option \<times> string option) option \<Rightarrow> (world, unit) op" where
  "player_effects p previous =
     (case previous of
        None \<Rightarrow> returnO ()
      | Some (guild, substation) \<Rightarrow>
          bindO (whenO (derefStr guild \<noteq> Player_GuildID p)
             (wrapO ''player_address guild propagate: '' (exec (guild_propagate (Player_ID p) (Player_GuildID p))))) (\<lambda>_.
          bindO (mark (Dirty_Guild (derefStr guild))) (\<lambda>_.
          mark_previous Dirty_Substation (Some substation))))"

definition playerHandler :: handler where
  "playerHandler b raw =
     bindO (liftO (Decode raw decode_Player)) (\<lambda>p.
     bindO (guardO (Player_ID p \<noteq> []) (errorf ''player: empty id'')) (\<lambda>_.
     bindO (wrapO ''player prev guild: '' (query_opt (\<lambda>d.
        map_option (\<lambda>r. (pl_guild_id r, pl_substation_id r)) (tbl_get (db_player d) (Player_ID p))))) (\<lambda>previous.
     bindO (wrapO ''player upsert: '' (exec (player_upsert p))) (\<lambda>_.
     bindO (upsertPlayerObject (Player_ID p) (Player_ID p)) (\<lambda>_.
     bindO (player_effects p previous) (\<lambda>_.
     bindO (mark (Dirty_Player (Player_ID p))) (\<lambda>_.
     bindO (mark (Dirty_Guild (Player_GuildID p))) (\<lambda>_.
     mark (Dirty_Substation (Player_SubstationID p))))))))))"

section \<open>Planets\<close>

definition ensureRaw :: "string \<Rightarrow> string" where
  "ensureRaw r = (if r = [] then ''null'' else r)"

text \<open>The keys of a Go map come out in order.\<close>

definition buildAmbitMap :: "string \<Rightarrow> string \<Rightarrow> string \<Rightarrow> string \<Rightarrow> string" where
  "buildAmbitMap space air land water =
     ''{'' @ commas (map (\<lambda>(k, v). json_quote k @ '':'' @ ensureRaw v)
        [(''air'', air), (''land'', land), (''space'', space), (''water'', water)]) @ ''}''"

definition planet_upsert :: "pPlanet \<Rightarrow> tables \<Rightarrow> tables" where
  "planet_upsert p d =
     (let m = buildAmbitMap (Planet_Space p) (Planet_Air p) (Planet_Land p) (Planet_Water p) in
      d\<lparr>db_planet := upsert_row (Planet_ID p)
         \<lparr>pn_max_ore = Planet_MaxOre p, pn_creator = Planet_Creator p, pn_owner = Planet_Owner p, pn_map = m,
          pn_slots = (Planet_SpaceSlots p, Planet_AirSlots p, Planet_LandSlots p, Planet_WaterSlots p),
          pn_status = Planet_Status p, pn_list_start = Planet_LocationListStart p,
          pn_list_end = Planet_LocationListEnd p, pn_name = None\<rparr>
         (\<lambda>r. r\<lparr>pn_owner := Planet_Owner p, pn_map := m, pn_status := Planet_Status p,
                pn_list_start := Planet_LocationListStart p, pn_list_end := Planet_LocationListEnd p\<rparr>)
         (db_planet d)\<rparr>)"

definition planet_name_update :: "string \<Rightarrow> string \<Rightarrow> tables \<Rightarrow> tables" where
  "planet_name_update i name d =
     (case tbl_get (db_planet d) i of
        None \<Rightarrow> d
      | Some r \<Rightarrow> d\<lparr>db_planet := tbl_put i (r\<lparr>pn_name := Some name\<rparr>) (db_planet d)\<rparr>)"

definition planetHandler :: handler where
  "planetHandler b raw =
     bindO (liftO (Decode raw decode_Planet)) (\<lambda>p.
     bindO (guardO (Planet_ID p \<noteq> []) (errorf ''planet: empty id'')) (\<lambda>_.
     bindO (wrapO ''planet upsert: '' (exec (planet_upsert p))) (\<lambda>_.
     bindO (upsertPlayerObject (Planet_ID p) (Planet_Owner p)) (\<lambda>_.
     whenO (Planet_Name p \<noteq> [])
       (wrapO ''planet name: '' (exec (planet_name_update (Planet_ID p) (Planet_Name p))))))))"

section \<open>Structs\<close>

definition struct_upsert :: "pStruct \<Rightarrow> tables \<Rightarrow> tables" where
  "struct_upsert p d =
     d\<lparr>db_struct := upsert_row (Struct_ID p)
        \<lparr>st_index = Struct_Index p, st_type = Struct_Type p, st_creator = Struct_Creator p,
         st_owner = Struct_Owner p, st_location_type = Struct_LocationType p,
         st_location_id = Struct_LocationID p, st_ambit = Struct_OperatingAmbit p,
         st_slot = Struct_Slot p, st_is_destroyed = False, st_destroyed_block = None\<rparr>
        (\<lambda>r. r\<lparr>st_owner := Struct_Owner p, st_location_type := Struct_LocationType p,
               st_location_id := Struct_LocationID p, st_ambit := Struct_OperatingAmbit p,
               st_slot := Struct_Slot p\<rparr>) (db_struct d)\<rparr>"

definition struct_moved :: "struct_row \<Rightarrow> pStruct \<Rightarrow> bool" where
  "struct_moved r p \<longleftrightarrow> st_location_id r \<noteq> Struct_LocationID p \<or>
     st_ambit r \<noteq> Struct_OperatingAmbit p \<or> st_slot r \<noteq> Struct_Slot p"

definition movement_planet :: "pStruct \<Rightarrow> (world, string) op" where
  "movement_planet p =
     (if Struct_LocationType p = ''fleet'' \<and> Struct_LocationID p \<noteq> [] then
        bindO (wrapO ''fleet lookup: ''
           (query_opt (\<lambda>d. map_option fl_location_id (tbl_get (db_fleet d) (Struct_LocationID p))))) (\<lambda>loc.
        case loc of
          None \<Rightarrow> returnO (Struct_LocationID p)
        | Some l \<Rightarrow> returnO (if l \<noteq> [] then l else Struct_LocationID p))
      else returnO (Struct_LocationID p))"

definition emitStructMovementActivity :: "block_context \<Rightarrow> pStruct \<Rightarrow> (world, unit) op" where
  "emitStructMovementActivity b p =
     bindO (movement_planet p) (\<lambda>planetID.
     if planetID = [] then returnO ()
     else push_activity b planetID ''struct_move'' (detail_json
       [(''struct_id'', jstr (Struct_ID p)), (''location_type'', jstr (Struct_LocationType p)),
        (''location_id'', jstr (Struct_LocationID p)), (''ambit'', jstr (Struct_OperatingAmbit p)),
        (''slot'', JNum (dec_int (Struct_Slot p)))]))"

definition structHandler :: handler where
  "structHandler b raw =
     bindO (liftO (Decode raw decode_Struct)) (\<lambda>p.
     bindO (guardO (Struct_ID p \<noteq> []) (errorf ''struct: empty id'')) (\<lambda>_.
     bindO (wrapO ''struct prev: '' (query_opt (\<lambda>d. tbl_get (db_struct d) (Struct_ID p)))) (\<lambda>previous.
     bindO (wrapO ''struct upsert: '' (exec (struct_upsert p))) (\<lambda>_.
     bindO (upsertPlayerObject (Struct_ID p) (Struct_Owner p)) (\<lambda>_.
     case previous of
       None \<Rightarrow> returnO ()
     | Some r \<Rightarrow> whenO (struct_moved r p)
         (wrapO ''struct: emit movement: '' (emitStructMovementActivity b p)))))))"

definition struct_type_upsert :: "pStructType \<Rightarrow> tables \<Rightarrow> tables" where
  "struct_type_upsert p d =
     d\<lparr>db_struct_type := tbl_put (StructKind_ID (StructType_Kind p))
        \<lparr>sp_fields = p, sp_is_command = IsCommand p\<rparr> (db_struct_type d)\<rparr>"

definition structTypeHandler :: handler where
  "structTypeHandler b raw =
     bindO (liftO (Decode raw decode_StructType)) (\<lambda>p.
     bindO (guardO (StructKind_ID (StructType_Kind p) \<noteq> 0) (errorf ''struct_type: zero id'')) (\<lambda>_.
     wrapO ''struct_type upsert: '' (exec (struct_type_upsert p))))"

section \<open>Fleets\<close>

definition fleet_upsert :: "pFleet \<Rightarrow> tables \<Rightarrow> tables" where
  "fleet_upsert p d =
     (let new = \<lparr>fl_owner = Fleet_Owner p,
            fl_map = buildAmbitMap (Fleet_Space p) (Fleet_Air p) (Fleet_Land p) (Fleet_Water p),
            fl_slots = (Fleet_SpaceSlots p, Fleet_AirSlots p, Fleet_LandSlots p, Fleet_WaterSlots p),
            fl_location_type = Fleet_LocationType p, fl_location_id = Fleet_LocationID p,
            fl_status = Fleet_Status p, fl_list_forward = Fleet_LocationListForward p,
            fl_list_backward = Fleet_LocationListBackward p, fl_command_struct = Fleet_CommandStruct p\<rparr> in
      d\<lparr>db_fleet := upsert_row (Fleet_ID p) new (\<lambda>r. new\<lparr>fl_slots := fl_slots r\<rparr>) (db_fleet d)\<rparr>)"

text \<open>
  The recursive query over the linked list of away fleets: the queue heads of the planet,
  then whatever a reached fleet names as the fleet behind it.  \<open>UNION\<close> drops fleets that
  were reached before, so every round but the last reaches a new fleet, and the number of
  fleets plus one bounds the rounds.
\<close>

definition fleet_heads :: "string \<Rightarrow> tables \<Rightarrow> string list" where
  "fleet_heads planetID d =
     map fst (filter (\<lambda>(i, f). fl_location_id f = planetID \<and> fl_list_forward f = [] \<and> fl_status f = ''away'')
       (db_fleet d))"

definition fleet_behind :: "tables \<Rightarrow> string \<Rightarrow> string list" where
  "fleet_behind d i =
     (case tbl_get (db_fleet d) i of
        None \<Rightarrow> []
      | Some f \<Rightarrow> if tbl_get (db_fleet d) (fl_list_backward f) = None then [] else [fl_list_backward f])"

primrec fleet_walk :: "nat \<Rightarrow> tables \<Rightarrow> string list \<Rightarrow> string list \<Rightarrow> string list" where
  "fleet_walk 0 d frontier seen = seen"
| "fleet_walk (Suc n) d frontier seen =
     (let next = remdups (filter (\<lambda>i. i \<notin> set seen) (concat (map (fleet_behind d) frontier))) in
      if next = [] then seen else fleet_walk n d next (seen @ next))"

definition fleet_list :: "string \<Rightarrow> tables \<Rightarrow> string list" where
  "fleet_list planetID d =
     (let heads = remdups (fleet_heads planetID d) in
      fleet_walk (Suc (length (db_fleet d))) d heads heads)"

definition emitFleetMoveSide ::
  "block_context \<Rightarrow> string \<Rightarrow> string \<Rightarrow> string \<Rightarrow> string \<Rightarrow> (world, unit) op" where
  "emitFleetMoveSide b fleetID planetID status category =
     (let detail = [(''fleet_id'', jstr fleetID), (''fleet_status'', jstr status)] in
      if planetID = [] then returnO ()
      else if status = ''away'' then
        bindO (wrapO ''fleet_list lookup: '' (query (fleet_list planetID))) (\<lambda>ids.
        push_activity b planetID category (detail_json
          (if ids = [] then detail else detail @ [(''fleet_list'', JArr (map jstr ids))])))
      else push_activity b planetID category (detail_json detail))"

definition carried_defense :: "tables \<Rightarrow> string \<Rightarrow> string \<Rightarrow> string \<times> defender_row \<Rightarrow> bool" where
  "carried_defense d fleetID planetID p =
     (case p of (i, r) \<Rightarrow> df_is_planetary r \<and>
        (case (tbl_get (db_struct d) i, tbl_get (db_struct d) (df_protected r)) of
           (Some ds, Some ps) \<Rightarrow>
             st_location_type ds = ''fleet'' \<and> st_location_id ds = fleetID \<and>
             st_location_type ps = ''planet'' \<and> st_location_id ps = planetID \<and>
             \<not> st_is_destroyed ds \<and> \<not> st_is_destroyed ps
         | _ \<Rightarrow> False))"

definition fleetPlanetaryDefenses :: "string \<Rightarrow> string \<Rightarrow> tables \<Rightarrow> (string \<times> string) list" where
  "fleetPlanetaryDefenses fleetID planetID d =
     map (\<lambda>(i, r). (i, df_protected r))
       (sort_key fst (filter (carried_defense d fleetID planetID) (db_defender d)))"

definition emitFleetDefensePresence ::
  "block_context \<Rightarrow> string \<Rightarrow> string \<Rightarrow> string \<Rightarrow> (world, unit) op" where
  "emitFleetDefensePresence b fleetID planetID category =
     (if planetID = [] then returnO ()
      else bindO (wrapO ''planetary defenses: '' (query (fleetPlanetaryDefenses fleetID planetID))) (\<lambda>pairs.
           forO pairs (\<lambda>(i, prot). push_activity b planetID category (detail_json
             [(''defender_struct_id'', jstr i), (''protected_struct_id'', jstr prot)]))))"

definition emitFleetMoveActivity ::
  "block_context \<Rightarrow> pFleet \<Rightarrow> string \<Rightarrow> string \<Rightarrow> (world, unit) op" where
  "emitFleetMoveActivity b p prevLoc prevStatus =
     (if prevLoc = [] \<or> prevLoc = Fleet_LocationID p then returnO ()
      else
        bindO (wrapO ''depart: '' (emitFleetMoveSide b (Fleet_ID p) prevLoc prevStatus ''fleet_depart'')) (\<lambda>_.
        bindO (wrapO ''depart defenses: ''
           (emitFleetDefensePresence b (Fleet_ID p) prevLoc ''struct_defense_remove'')) (\<lambda>_.
        bindO (wrapO ''arrive: ''
           (emitFleetMoveSide b (Fleet_ID p) (Fleet_LocationID p) (Fleet_Status p) ''fleet_arrive'')) (\<lambda>_.
        wrapO ''arrive defenses: ''
           (emitFleetDefensePresence b (Fleet_ID p) (Fleet_LocationID p) ''struct_defense_add'')))))"

definition fleetHandler :: handler where
  "fleetHandler b raw =
     bindO (liftO (Decode raw decode_Fleet)) (\<lambda>p.
     bindO (guardO (Fleet_ID p \<noteq> []) (errorf ''fleet: empty id'')) (\<lambda>_.
     bindO (wrapO ''fleet prev: '' (query_opt (\<lambda>d.
        map_option (\<lambda>f. (fl_location_id f, fl_status f)) (tbl_get (db_fleet d) (Fleet_ID p))))) (\<lambda>previous.
     bindO (wrapO ''fleet upsert: '' (exec (fleet_upsert p))) (\<lambda>_.
     bindO (upsertPlayerObject (Fleet_ID p) (Fleet_Owner p)) (\<lambda>_.
     case previous of
       None \<Rightarrow> returnO ()
     | Some (loc, status) \<Rightarrow>
         wrapO ''fleet: emit move: '' (emitFleetMoveActivity b p loc status))))))"

section \<open>The contract holds for every handler\<close>

lemma grows_upsertPlayerObject: "keeps grows (upsertPlayerObject i p)"
  unfolding upsertPlayerObject_def by (intro handler_intros)

lemma grows_mark_previous: "(\<And>p d. dirty_le d (f p d)) \<Longrightarrow> keeps grows (mark_previous f v)"
  unfolding mark_previous_def by (intro handler_intros)

lemma grows_previous_player: "keeps grows (previous_player a)"
  unfolding previous_player_def by (intro handler_intros)

lemma grows_tag_exec: "keeps grows (tag_exec tags)"
proof -
  have "keeps grows (modifyO (\<lambda>w. w\<lparr>w_aborted := True\<rparr>))"
    by (simp add: keeps_def grows_def)
  then show ?thesis unfolding tag_exec_def by (intro handler_intros)
qed

lemma grows_player_effects: "keeps grows (player_effects p v)"
  unfolding player_effects_def by (intro handler_intros grows_mark_previous dirty_mark_le)

lemma grows_fleet:
  "keeps grows (emitFleetMoveSide b i pl st c)"
  "keeps grows (emitFleetDefensePresence b i pl c)"
  "keeps grows (emitFleetMoveActivity b p loc st)"
  unfolding emitFleetMoveActivity_def emitFleetMoveSide_def emitFleetDefensePresence_def Let_def
  by (intro handler_intros)+

lemma grows_struct_move: "keeps grows (emitStructMovementActivity b p)"
  unfolding emitStructMovementActivity_def movement_planet_def by (intro handler_intros)

lemmas entity_grows =
  grows_upsertPlayerObject grows_mark_previous grows_previous_player grows_tag_exec
  grows_player_effects grows_fleet grows_struct_move dirty_mark_le

interpretation address: handler_contract addressHandler
  by unfold_locales
    (simp only: append_only_def addressHandler_def Let_def, intro allI handler_intros entity_grows)

interpretation address_activity: handler_contract addressActivityHandler
  by unfold_locales
    (simp only: append_only_def addressActivityHandler_def, intro allI handler_intros entity_grows)

interpretation address_association: handler_contract addressAssociationHandler
  by unfold_locales
    (simp only: append_only_def addressAssociationHandler_def Let_def, intro allI handler_intros entity_grows)

interpretation provider_address: handler_contract providerAddressHandler
  by unfold_locales
    (simp only: append_only_def providerAddressHandler_def Let_def, intro allI handler_intros entity_grows)

interpretation guild_bank_address: handler_contract guildBankAddressHandler
  by unfold_locales
    (simp only: append_only_def guildBankAddressHandler_def Let_def, intro allI handler_intros entity_grows)

interpretation agreement: handler_contract agreementHandler
  by unfold_locales
    (simp only: append_only_def agreementHandler_def, intro allI handler_intros entity_grows)

interpretation allocation: handler_contract allocationHandler
  by unfold_locales
    (simp only: append_only_def allocationHandler_def, intro allI handler_intros entity_grows)

interpretation provider: handler_contract providerHandler
  by unfold_locales
    (simp only: append_only_def providerHandler_def, intro allI handler_intros entity_grows)

interpretation reactor: handler_contract reactorHandler
  by unfold_locales
    (simp only: append_only_def reactorHandler_def, intro allI handler_intros entity_grows)

interpretation substation: handler_contract substationHandler
  by unfold_locales
    (simp only: append_only_def substationHandler_def, intro allI handler_intros entity_grows)

interpretation guild: handler_contract guildHandler
  by unfold_locales
    (simp only: append_only_def guildHandler_def, intro allI handler_intros entity_grows)

interpretation membership: handler_contract guildMembershipApplicationHandler
  by unfold_locales
    (simp only: append_only_def guildMembershipApplicationHandler_def, intro allI handler_intros entity_grows)

interpretation player: handler_contract playerHandler
  by unfold_locales
    (simp only: append_only_def playerHandler_def, intro allI handler_intros entity_grows)

interpretation planet: handler_contract planetHandler
  by unfold_locales
    (simp only: append_only_def planetHandler_def, intro allI handler_intros entity_grows)

interpretation game_struct: handler_contract structHandler
  by unfold_locales
    (simp only: append_only_def structHandler_def, intro allI handler_intros entity_grows)

interpretation struct_type: handler_contract structTypeHandler
  by unfold_locales
    (simp only: append_only_def structTypeHandler_def, intro allI handler_intros entity_grows)

interpretation fleet: handler_contract fleetHandler
  by unfold_locales
    (simp only: append_only_def fleetHandler_def, intro allI handler_intros entity_grows)

end
