(* ===== verification/Registry.thy ===== *)
theory Registry
  imports Entities Economy
begin

text \<open>
  \<open>internal/events/registry.go\<close>: the list of all handlers with their composite keys, and
  what the router built from it guarantees.
\<close>

definition AllHandlers :: "(string \<times> handler) list" where
  "AllHandlers =
     [(''structs.structs.EventVaultAddress.eventVaultAddressDetail'', vaultAddressHandler),
      (''structs.structs.EventOwnerReactorDiversity.diversity'', ownerReactorDiversityHandler),
      (''structs.structs.EventOwnerReactorDiversityReset'', economyResetHandler ''diversity''),
      (''structs.structs.EventReactorCommissionRevision'', reactorCommissionRevisionHandler),
      (''structs.structs.EventReactorCommissionRevisionReset'', economyResetHandler ''commission''),
      (''structs.structs.EventReactorStakeCap'', reactorStakeCapHandler),
      (''structs.structs.EventGuildRankPurchase'', guildRankPurchaseHandler),
      (''structs.structs.EventAllocation.allocation'', allocationHandler),
      (''structs.structs.EventAgreement.agreement'', agreementHandler),
      (''structs.structs.EventDelete.objectId'', deleteHandler),
      (''structs.structs.EventGuild.guild'', guildHandler),
      (''structs.structs.EventInfusion.infusion'', infusionHandler),
      (''structs.structs.EventFleet.fleet'', fleetHandler),
      (''structs.structs.EventPlanet.planet'', planetHandler),
      (''structs.structs.EventPlayer.player'', playerHandler),
      (''structs.structs.EventProvider.provider'', providerHandler),
      (''structs.structs.EventReactor.reactor'', reactorHandler),
      (''structs.structs.EventStruct.structure'', structHandler),
      (''structs.structs.EventStructType.structType'', structTypeHandler),
      (''structs.structs.EventSubstation.substation'', substationHandler),
      (''structs.structs.EventGuildMembershipApplication.guildMembershipApplication'',
         guildMembershipApplicationHandler),
      (''structs.structs.EventAddress.address'', addressHandler),
      (''structs.structs.EventAddressActivity.addressActivity'', addressActivityHandler),
      (''structs.structs.EventAddressAssociation.addressAssociation'', addressAssociationHandler),
      (''structs.structs.EventPermission.permissionRecord'', permissionHandler),
      (''structs.structs.EventGuildRankPermission.guildRankPermissionRecord'', guildRankPermissionHandler),
      (''structs.structs.EventStructDefender.structDefender'', structDefenderHandler),
      (''structs.structs.EventStructDefenderClear.structDefenderClearDetail'', structDefenderClearHandler),
      (''structs.structs.EventGrid.gridRecord'', gridHandler),
      (''structs.structs.EventStructAttribute.structAttributeRecord'', structAttributeHandler),
      (''structs.structs.EventPlanetAttribute.planetAttributeRecord'', planetAttributeHandler),
      (''structs.structs.EventTime.eventTimeDetail'', timeHandler),
      (''structs.structs.EventAttack.eventAttackDetail'', attackHandler),
      (''structs.structs.EventOreMine.eventOreMineDetail'', oreMineHandler),
      (''structs.structs.EventOreMigrate.eventOreMigrateDetail'', oreMigrateHandler),
      (''structs.structs.EventOreTheft.eventOreTheftDetail'', oreTheftHandler),
      (''structs.structs.EventAlphaRefine.eventAlphaRefineDetail'', alphaRefineHandler),
      (''structs.structs.EventAlphaInfuse.eventAlphaInfuseDetail'', alphaInfuseHandler),
      (''structs.structs.EventRaid.eventRaidDetail'', raidHandler),
      (''structs.structs.EventProviderAddress.eventProviderAddressDetail'', providerAddressHandler),
      (''structs.structs.EventGuildBankAddress.eventGuildBankAddressDetail'', guildBankAddressHandler)]"

lemma AllHandlers_contract: "list_all (\<lambda>(key, h). append_only h) AllHandlers"
  by (simp add: AllHandlers_def vault_address.only_appends diversity.only_appends
      economy_reset.only_appends commission.only_appends stake_cap.only_appends
      rank_purchase.only_appends allocation.only_appends agreement.only_appends
      deletion.only_appends guild.only_appends infusion.only_appends fleet.only_appends
      planet.only_appends player.only_appends provider.only_appends reactor.only_appends
      game_struct.only_appends struct_type.only_appends substation.only_appends
      membership.only_appends address.only_appends address_activity.only_appends
      address_association.only_appends permission.only_appends guild_rank_permission.only_appends
      struct_defender.only_appends struct_defender_clear.only_appends grid.only_appends
      struct_attribute.only_appends planet_attribute.only_appends time.only_appends
      attack.only_appends ore_mine.only_appends ore_migrate.only_appends ore_theft.only_appends
      alpha_refine.only_appends alpha_infuse.only_appends raid.only_appends
      provider_address.only_appends guild_bank_address.only_appends)

text \<open>Building a router from distinct keys never panics and keeps the list.\<close>

definition registered :: "bool \<Rightarrow> (string \<times> handler) list \<Rightarrow> router" where
  "registered strict hs =
     \<lparr>rt_handlers = hs, rt_nested = concat (map (\<lambda>h. nested_attribute (fst h)) hs), rt_strict = strict\<rparr>"

lemma add_handlers:
  "distinct (map fst (hs @ rest)) \<Longrightarrow>
     foldR add_handler (registered strict hs) rest = Inr (registered strict (hs @ rest))"
proof (induction rest arbitrary: hs)
  case (Cons h rest)
  then have "add_handler (registered strict hs) h = Inr (registered strict (hs @ [h]))"
    by (auto simp: add_handler_def registered_def)
  then show ?case using Cons.IH [of "hs @ [h]"] Cons.prems by simp
qed (simp add: registered_def)

lemma NewRouter_distinct:
  "distinct (map fst hs) \<Longrightarrow> NewRouter strict hs = Inr (registered strict hs)"
  using add_handlers [of "[]" hs strict] by (simp add: NewRouter_def registered_def)

text \<open>All keys share their first 21 characters; what follows tells them apart.\<close>

lemma AllHandlers_keys: "distinct (map fst AllHandlers)"
proof -
  have "distinct (map (drop 21) (map fst AllHandlers))"
    unfolding AllHandlers_def list.map fst_conv by code_simp
  then show ?thesis using distinct_map [of "drop 21" "map fst AllHandlers"] by blast
qed

lemma AllHandlers_nested:
  "list_all (\<lambda>(ev, a). ev \<notin> set (map fst AllHandlers))
     (concat (map (\<lambda>key. nested_attribute key) (map fst AllHandlers)))"
proof -
  have "list_all (\<lambda>(ev, a). drop 21 ev \<notin> set (map (drop 21) (map fst AllHandlers)))
     (concat (map (\<lambda>key. nested_attribute key) (map fst AllHandlers)))"
    unfolding AllHandlers_def list.map fst_conv by code_simp
  then show ?thesis by (rule list.pred_mono_strong) (auto simp del: drop_append)
qed

text \<open>
  C40: The registry builds a sound router.  The keys of all handlers are distinct, so
  \<open>NewRouter\<close> does not panic, in either mode; the router dispatches every key to the handler
  listed for it; every handler obeys the append-only contract, so isolated dispatch is
  exact for each of them; and no event type that is dispatched attribute by attribute is
  registered as a whole event too, so no handler is shadowed.
\<close>

theorem registry_sound:
  "\<exists>r. NewRouter strict AllHandlers = Inr r \<and> rt_handlers r = AllHandlers \<and>
       Router_Count r = 41 \<and>
       list_all (\<lambda>(key, h). Lookup r key = Some h \<and> append_only h) AllHandlers \<and>
       list_all (\<lambda>(ev, a). Lookup r ev = None) (rt_nested r)"
proof -
  let ?r = "registered strict AllHandlers"
  have "Lookup ?r key = Some h" if "(key, h) \<in> set AllHandlers" for key h
    using that AllHandlers_keys by (simp add: Lookup_def registered_def)
  then have "list_all (\<lambda>(key, h). Lookup ?r key = Some h \<and> append_only h) AllHandlers"
    using AllHandlers_contract by (auto simp: list_all_iff)
  moreover have "list_all (\<lambda>(ev, a). Lookup ?r ev = None) (rt_nested ?r)"
    using AllHandlers_nested
    by (simp add: Lookup_def registered_def map_of_eq_None_iff comp_def)
  moreover have "Router_Count ?r = 41"
    by (simp add: Router_Count_def registered_def AllHandlers_def)
  ultimately show ?thesis
    using NewRouter_distinct [OF AllHandlers_keys] by (auto simp: registered_def)
qed

end
