(* ===== verification/Sync_Store.thy ===== *)
theory Sync_Store
  imports Router
begin

text \<open>
  The bookkeeping statements of \<open>internal/db\<close>: \<open>cursor.go\<close>, \<open>block_log.go\<close>,
  \<open>currentblock.go\<close>, \<open>notify.go\<close>, \<open>economy_coverage.go\<close>, \<open>error_log.go\<close>, \<open>unknownlog.go\<close>,
  \<open>rawmirror.go\<close>.

  The functions take a \<open>Querier\<close>, which is the block's transaction or the connection pool.
  Each SQL statement is a function on the tables; operations of the block's transaction
  are \<open>(world, _) op\<close>.  \<open>pg_timestamp\<close> is what a TIMESTAMPTZ column keeps of a Go time:
  whole microseconds.
\<close>

definition on_sync :: "(sync_tables \<Rightarrow> sync_tables) \<Rightarrow> tables \<Rightarrow> tables" where
  "on_sync f d = d\<lparr>db_sync := f (db_sync d)\<rparr>"

definition pg_timestamp :: "int \<Rightarrow> int" where
  "pg_timestamp t = t div 1000 * 1000"

definition upper :: "char \<Rightarrow> char" where
  "upper c =
     (let n = (of_char c :: nat) in if 97 \<le> n \<and> n \<le> 122 then char_of (n - 32) else c)"

definition to_upper :: "string \<Rightarrow> string" where
  "to_upper s = map upper s"

lemma on_sync_simps [simp]:
  "db_sync (on_sync f d) = f (db_sync d)" "on_sync f (on_sync g d) = on_sync (f \<circ> g) d"
  "db_ledger (on_sync f d) = db_ledger d"
  by (simp_all add: on_sync_def)

section \<open>Cursor\<close>

definition StatusCatchingUp :: string where "StatusCatchingUp = ''catching_up''"
definition StatusSyncing :: string where "StatusSyncing = ''syncing''"
definition StatusCurrent :: string where "StatusCurrent = ''current''"
definition StatusStalled :: string where "StatusStalled = ''stalled''"

definition ComputeStatus :: "int \<Rightarrow> int \<Rightarrow> string" where
  "ComputeStatus height tip =
     (let lag = tip - height in
      if lag \<le> 1 then StatusCurrent
      else if lag \<le> 100 then StatusSyncing
      else StatusCatchingUp)"

record cursor =
  c_chain :: string
  c_height :: int
  c_hash :: string
  c_time :: int
  c_status :: string
  c_lag :: int
  c_tip :: int

definition or_zero :: "int option \<Rightarrow> int" where
  "or_zero v = (case v of None \<Rightarrow> 0 | Some x \<Rightarrow> x)"

definition or_zero_time :: "int option \<Rightarrow> int" where
  "or_zero_time v = (case v of None \<Rightarrow> zero_time | Some t \<Rightarrow> t)"

definition or_empty :: "string option \<Rightarrow> string" where
  "or_empty v = (case v of None \<Rightarrow> [] | Some x \<Rightarrow> x)"

definition ReadCursor :: "string \<Rightarrow> tables \<Rightarrow> cursor" where
  "ReadCursor chain d =
     (case tbl_get (sy_cursor (db_sync d)) chain of
        None \<Rightarrow> \<lparr>c_chain = chain, c_height = 0, c_hash = [], c_time = zero_time, c_status = [], c_lag = 0, c_tip = 0\<rparr>
      | Some r \<Rightarrow> \<lparr>c_chain = chain, c_height = cu_height r, c_hash = or_empty (cu_hash r),
                  c_time = or_zero_time (cu_time r), c_status = or_empty (cu_status r),
                  c_lag = or_zero (cu_lag r), c_tip = or_zero (cu_tip r)\<rparr>)"

definition UpsertCursor :: "cursor \<Rightarrow> tables \<Rightarrow> tables" where
  "UpsertCursor c = on_sync (\<lambda>s. s\<lparr>sy_cursor := tbl_put (c_chain c)
     \<lparr>cu_height = c_height c, cu_hash = Some (c_hash c), cu_time = Some (pg_timestamp (c_time c)),
      cu_status = Some (c_status c), cu_lag = Some (c_lag c), cu_tip = Some (c_tip c)\<rparr> (sy_cursor s)\<rparr>)"

definition SetStatusOnly :: "string \<Rightarrow> string \<Rightarrow> int \<Rightarrow> int \<Rightarrow> tables \<Rightarrow> tables" where
  "SetStatusOnly chain status lag tip = on_sync (\<lambda>s.
     case tbl_get (sy_cursor s) chain of
       None \<Rightarrow> s
     | Some r \<Rightarrow> s\<lparr>sy_cursor := tbl_put chain
         (r\<lparr>cu_status := Some status, cu_lag := Some lag, cu_tip := Some tip\<rparr>) (sy_cursor s)\<rparr>)"

section \<open>Block log, current block, heartbeat\<close>

definition WriteBlockLog :: "string \<Rightarrow> int \<Rightarrow> block_log_row \<Rightarrow> tables \<Rightarrow> tables" where
  "WriteBlockLog chain height r =
     on_sync (\<lambda>s. s\<lparr>sy_block_log := tbl_put (chain, height)
       (r\<lparr>bl_time := pg_timestamp (bl_time r)\<rparr>) (sy_block_log s)\<rparr>)"

definition LookupBlockHash :: "string \<Rightarrow> int \<Rightarrow> tables \<Rightarrow> string option" where
  "LookupBlockHash chain height d = map_option bl_hash (tbl_get (sy_block_log (db_sync d)) (chain, height))"

definition current_block_upsert :: "string \<Rightarrow> current_block_row \<Rightarrow> tables \<Rightarrow> tables" where
  "current_block_upsert chain r =
     on_sync (\<lambda>s. s\<lparr>sy_current_block := tbl_put chain
       (r\<lparr>cb_time := pg_timestamp (cb_time r)\<rparr>) (sy_current_block s)\<rparr>)"

text \<open>SQLSTATE 42P01 (undefined table) is swallowed.\<close>

definition undefined_table :: sentinel where
  "undefined_table = PgError ''42P01''"

definition UpsertCurrentBlock :: "string \<Rightarrow> current_block_row \<Rightarrow> (world, unit) op" where
  "UpsertCurrentBlock chain r w =
     (case exec (current_block_upsert chain r) w of
        (Inl e, w') \<Rightarrow> (if errors_Is e undefined_table then Inr () else Inl e, w')
      | (Inr u, w') \<Rightarrow> (Inr u, w'))"

definition EmitCurrentBlockHeartbeat :: "int \<Rightarrow> int \<Rightarrow> tables \<Rightarrow> tables" where
  "EmitCurrentBlockHeartbeat height time' =
     on_sync (\<lambda>s. s\<lparr>sy_heartbeats := sy_heartbeats s @ [(height, time')]\<rparr>)"

section \<open>Economy coverage\<close>

definition coverage_contract :: string where
  "coverage_contract = ''events-v022-1''"

text \<open>The row may be extended by the height: the previous height, or the same block again.\<close>

definition coverage_extends :: "int \<Rightarrow> string \<Rightarrow> coverage_row \<Rightarrow> bool" where
  "coverage_extends height hash r \<longleftrightarrow>
     cv_contract r = coverage_contract \<and> cv_activation r = V022TestnetHeight \<and>
     (cv_height r = height - 1 \<or> (cv_height r = height \<and> cv_hash r = hash))"

definition coverage_insert :: "string \<Rightarrow> int \<Rightarrow> string \<Rightarrow> tables \<Rightarrow> nat \<times> tables" where
  "coverage_insert chain height hash d =
     (let t = sy_coverage (db_sync d);
          put = (\<lambda>r. on_sync (\<lambda>s. s\<lparr>sy_coverage := tbl_put chain r (sy_coverage s)\<rparr>) d) in
      case tbl_get t chain of
        None \<Rightarrow>
          if height = V022TestnetHeight
          then (1, put \<lparr>cv_contract = coverage_contract, cv_activation = V022TestnetHeight,
                        cv_height = height, cv_hash = hash\<rparr>)
          else (0, d)
      | Some r \<Rightarrow>
          if coverage_extends height hash r then (1, put (r\<lparr>cv_height := height, cv_hash := hash\<rparr>))
          else (0, d))"

definition RecordEconomyCoverage :: "string \<Rightarrow> int \<Rightarrow> string \<Rightarrow> (world, unit) op" where
  "RecordEconomyCoverage chain height hash =
     (if \<not> V022Active chain height then returnO ()
      else bindO (sql (coverage_insert chain height (to_upper hash))) (\<lambda>n.
           guardO (n = 1) (errorf ''missing contiguous v0.22 event coverage'')))"

definition coverage_ready :: "cursor \<Rightarrow> tables \<Rightarrow> bool" where
  "coverage_ready c d =
     (case tbl_get (sy_coverage (db_sync d)) (c_chain c) of
        None \<Rightarrow> False
      | Some r \<Rightarrow> cv_contract r = coverage_contract \<and> cv_activation r = V022TestnetHeight \<and>
          cv_height r = c_height c \<and> cv_hash r = to_upper (c_hash c))"

text \<open>What startup refuses, given the answer of the query.\<close>

definition RequireEconomyCoverage :: "cursor \<Rightarrow> tables \<Rightarrow> unit res" where
  "RequireEconomyCoverage c d =
     (if \<not> V022Active (c_chain c) (c_height c) then Inr ()
      else if coverage_ready c d then Inr ()
      else if c_height c = V022TestnetHeight
      then Inl (errorf ''upgrade block was not fully processed by the v0.22 writer'')
      else Inl (errorf ''indexed cursor has no matching v0.22 source coverage''))"

section \<open>Handler errors\<close>

record pending_error =
  pe_height :: int
  pe_error :: handler_error

fun severity_text :: "severity \<Rightarrow> string" where
  "severity_text SeverityError = ''error''"
| "severity_text SeverityWarn = ''warn''"

definition error_row_of :: "string \<Rightarrow> pending_error \<Rightarrow> error_row" where
  "error_row_of chain p =
     (let he = pe_error p in
      \<lparr>er_chain = chain, er_height = pe_height p, er_tx = he_tx he, er_msg = he_msg he,
       er_event = he_event he, er_key = he_key he,
       er_payload = (if he_payload he = [] then None else Some (he_payload he)),
       er_error = he_error he, er_severity = Some (severity_text (he_severity he)),
       er_resolved_by = None\<rparr>)"

definition WriteHandlerError :: "string \<Rightarrow> pending_error \<Rightarrow> tables \<Rightarrow> tables" where
  "WriteHandlerError chain p =
     on_sync (\<lambda>s. s\<lparr>sy_errors := sy_errors s @ [(length (sy_errors s), error_row_of chain p)]\<rparr>)"

definition unresolved :: "string \<Rightarrow> error_row \<Rightarrow> bool" where
  "unresolved chain r \<longleftrightarrow> er_chain r = chain \<and> er_resolved_by r = None"

definition resolve_where :: "(nat \<times> error_row \<Rightarrow> bool) \<Rightarrow> string \<Rightarrow> tables \<Rightarrow> nat \<times> tables" where
  "resolve_where P by' d =
     (length (filter P (sy_errors (db_sync d))),
      on_sync (\<lambda>s. s\<lparr>sy_errors := map (\<lambda>e. if P e then (fst e, (snd e)\<lparr>er_resolved_by := Some by'\<rparr>) else e)
        (sy_errors s)\<rparr>) d)"

definition ResolveErrorsInRange :: "string \<Rightarrow> int \<Rightarrow> int \<Rightarrow> string \<Rightarrow> tables \<Rightarrow> nat \<times> tables" where
  "ResolveErrorsInRange chain a b by' =
     resolve_where (\<lambda>e. unresolved chain (snd e) \<and> a \<le> er_height (snd e) \<and> er_height (snd e) \<le> b) by'"

definition ResolveErrorByID :: "nat \<Rightarrow> string \<Rightarrow> tables \<Rightarrow> nat \<times> tables" where
  "ResolveErrorByID i by' = resolve_where (\<lambda>e. fst e = i \<and> er_resolved_by (snd e) = None) by'"

definition severity_of :: "error_row \<Rightarrow> string" where
  "severity_of r = (case er_severity r of None \<Rightarrow> ''error'' | Some s \<Rightarrow> s)"

text \<open>The grouped query, and the loop over its groups: \<open>warn\<close> sets, everything else adds.\<close>

definition severity_groups :: "string \<Rightarrow> tables \<Rightarrow> (string \<times> nat) list" where
  "severity_groups chain d =
     (let rs = filter (unresolved chain) (map snd (sy_errors (db_sync d))) in
      map (\<lambda>sev. (sev, length (filter (\<lambda>r. severity_of r = sev) rs))) (remdups (map severity_of rs)))"

definition UnresolvedErrorSummary :: "string \<Rightarrow> tables \<Rightarrow> nat \<times> nat" where
  "UnresolvedErrorSummary chain d =
     fold (\<lambda>(sev, n) (e, w). if sev = ''warn'' then (e, n) else (e + n, w)) (severity_groups chain d) (0, 0)"

definition error_matches ::
  "string \<Rightarrow> string \<Rightarrow> string \<Rightarrow> int \<Rightarrow> int \<Rightarrow> nat \<times> error_row \<Rightarrow> bool" where
  "error_matches chain key sev since until' e \<longleftrightarrow>
     unresolved chain (snd e) \<and> (key = [] \<or> er_key (snd e) = key) \<and>
     (sev = [] \<or> severity_of (snd e) = sev) \<and>
     (since = 0 \<or> since \<le> er_height (snd e)) \<and> (until' = 0 \<or> er_height (snd e) \<le> until')"

definition ListUnresolvedErrors ::
  "string \<Rightarrow> string \<Rightarrow> string \<Rightarrow> int \<Rightarrow> int \<Rightarrow> int \<Rightarrow> tables \<Rightarrow> (nat \<times> error_row) list" where
  "ListUnresolvedErrors chain key sev since until' limit d =
     (let rows = sort_key (er_height \<circ> snd) (sort_key fst
        (filter (error_matches chain key sev since until') (sy_errors (db_sync d)))) in
      if limit \<le> 0 then rows else take (nat limit) rows)"

section \<open>Unknown events\<close>

definition unknown_upsert ::
  "string \<Rightarrow> string \<times> unknown_delta \<Rightarrow> (string \<times> string, unknown_row) table
     \<Rightarrow> (string \<times> string, unknown_row) table" where
  "unknown_upsert chain e t =
     (case e of (key, d) \<Rightarrow>
        let payload = (if ud_sample d = [] then None else Some (ud_sample d)) in
        case tbl_get t (chain, key) of
          None \<Rightarrow> tbl_put (chain, key)
            \<lparr>uk_count = ud_count d, uk_first = ud_first d, uk_last = ud_last d, uk_payload = payload\<rparr> t
        | Some r \<Rightarrow> tbl_put (chain, key)
            \<lparr>uk_count = uk_count r + ud_count d, uk_first = min (uk_first r) (ud_first d),
             uk_last = max (uk_last r) (ud_last d),
             uk_payload = (case payload of None \<Rightarrow> uk_payload r | Some p \<Rightarrow> Some p)\<rparr> t)"

definition UpsertUnknownEntries :: "string \<Rightarrow> (string, unknown_delta) table \<Rightarrow> tables \<Rightarrow> tables" where
  "UpsertUnknownEntries chain entries =
     on_sync (\<lambda>s. s\<lparr>sy_unknown := fold (unknown_upsert chain) entries (sy_unknown s)\<rparr>)"

section \<open>Raw mirror\<close>

definition WriteRawBlock :: "string \<Rightarrow> int \<Rightarrow> raw_block_row \<Rightarrow> tables \<Rightarrow> tables" where
  "WriteRawBlock chain height r =
     on_sync (\<lambda>s. s\<lparr>sy_raw_blocks := tbl_put (chain, height)
       (r\<lparr>rb_time := pg_timestamp (rb_time r)\<rparr>) (sy_raw_blocks s)\<rparr>)"

text \<open>Delete what is stored for the chain of the first row and the heights, then copy.\<close>

definition uniqueHeights :: "('r \<Rightarrow> int) \<Rightarrow> 'r list \<Rightarrow> int list" where
  "uniqueHeights height rows = dedup_first id [] (map height rows)"

definition raw_clear :: "('r \<Rightarrow> string) \<Rightarrow> ('r \<Rightarrow> int) \<Rightarrow> 'r list \<Rightarrow> 'r list \<Rightarrow> 'r list" where
  "raw_clear chain height rows old =
     filter (\<lambda>r. \<not> (chain r = chain (hd rows) \<and> height r \<in> set (uniqueHeights height rows))) old"

definition WriteRawTxResults :: "raw_tx_row list \<Rightarrow> (world, unit) op" where
  "WriteRawTxResults rows =
     (if rows = [] then returnO ()
      else bindO (wrapO ''clear raw_tx_results: '' (exec (on_sync (\<lambda>s.
             s\<lparr>sy_raw_txs := raw_clear rt_chain rt_height rows (sy_raw_txs s)\<rparr>)))) (\<lambda>_.
           exec (on_sync (\<lambda>s. s\<lparr>sy_raw_txs := sy_raw_txs s @ rows\<rparr>))))"

definition WriteRawEvents :: "raw_event_row list \<Rightarrow> (world, unit) op" where
  "WriteRawEvents rows =
     (if rows = [] then returnO ()
      else bindO (wrapO ''clear raw_events: '' (exec (on_sync (\<lambda>s.
             s\<lparr>sy_raw_events := raw_clear rv_chain rv_height rows (sy_raw_events s)\<rparr>)))) (\<lambda>_.
           exec (on_sync (\<lambda>s. s\<lparr>sy_raw_events := sy_raw_events s @ rows\<rparr>))))"

definition WriteRawAttributes :: "raw_attribute_row list \<Rightarrow> (world, unit) op" where
  "WriteRawAttributes rows =
     (if rows = [] then returnO ()
      else bindO (wrapO ''clear raw_attributes: '' (exec (on_sync (\<lambda>s.
             s\<lparr>sy_raw_attributes := raw_clear ra_chain ra_height rows (sy_raw_attributes s)\<rparr>)))) (\<lambda>_.
           exec (on_sync (\<lambda>s. s\<lparr>sy_raw_attributes := sy_raw_attributes s @ rows\<rparr>))))"

section \<open>Properties\<close>

subsection \<open>Coverage\<close>

definition covered_height :: "string \<Rightarrow> tables \<Rightarrow> int option" where
  "covered_height chain d = map_option cv_height (tbl_get (sy_coverage (db_sync d)) chain)"

definition record_all :: "string \<Rightarrow> (int \<times> string) list \<Rightarrow> (world, unit) op" where
  "record_all chain bs = forO bs (\<lambda>(height, hash). RecordEconomyCoverage chain height hash)"

lemma record_coverage_step:
  assumes "RecordEconomyCoverage chain height hash w = (Inr (), w')" "V022Active chain height"
  shows "covered_height chain (w_db w') = Some height \<and>
         (case covered_height chain (w_db w) of
            None \<Rightarrow> height = V022TestnetHeight
          | Some h \<Rightarrow> h = height - 1 \<or> h = height)"
  using assms
  by (auto simp: RecordEconomyCoverage_def bindO_Inr guardO_case sql_Inr coverage_insert_def Let_def
      covered_height_def coverage_extends_def split: option.splits if_splits)

text \<open>
  Economy coverage never jumps a missing block.  Whenever blocks are recorded one
  after another, in whatever order they are offered, over a chain that had no coverage,
  and every record was accepted, then every height from the activation up to the stored
  watermark is among the recorded ones.
\<close>

theorem coverage_contiguous:
  assumes "record_all chain bs w = (Inr (), w')" "covered_height chain (w_db w) = None"
    and "covered_height chain (w_db w') = Some mark'"
  shows "{V022TestnetHeight..mark'} \<subseteq> fst ` set bs"
proof -
  let ?ok = "\<lambda>d hs. case covered_height chain d of None \<Rightarrow> True
      | Some t \<Rightarrow> {V022TestnetHeight..t} \<subseteq> hs"
  have "?ok (w_db w') (hs \<union> fst ` set bs)"
    if "record_all chain bs w = (Inr (), w')" "?ok (w_db w) hs" for hs w
    using that
  proof (induction bs arbitrary: w hs)
    case Nil
    then show ?case by (auto simp: record_all_def split: option.splits)
  next
    case (Cons b bs)
    obtain height hash where b: "b = (height, hash)" by (cases b)
    from Cons.prems(1) obtain w1 where step: "RecordEconomyCoverage chain height hash w = (Inr (), w1)"
      and rest: "record_all chain bs w1 = (Inr (), w')"
      by (auto simp: record_all_def b bindO_Inr)
    have "?ok (w_db w1) (insert height hs)"
    proof (cases "V022Active chain height")
      case True
      from record_coverage_step [OF step True] Cons.prems(2) show ?thesis
        by (fastforce split: option.splits)
    next
      case False
      with step have "w1 = w" by (simp add: RecordEconomyCoverage_def)
      then show ?thesis using Cons.prems(2) by (auto split: option.splits)
    qed
    from Cons.IH [OF rest this] show ?case
      by (auto simp: b split: option.splits)
  qed
  from this [OF assms(1), of "{}"] show ?thesis using assms(2,3) by simp
qed

definition example_coverage :: "(int \<times> string) list" where
  "example_coverage = [(3353000, ''a1''), (3353001, ''b2''), (3353001, ''B2'')]"

lemma example_hashes: "to_upper ''a1'' = ''A1''" "to_upper ''b2'' = ''B2''" "to_upper ''B2'' = ''B2''"
  by code_simp+

lemma example_coverage_run:
  "record_all ''structstestnet-111'' example_coverage clean_world =
     (Inr (), snd (record_all ''structstestnet-111'' example_coverage clean_world))"
  "covered_height ''structstestnet-111''
     (w_db (snd (record_all ''structstestnet-111'' example_coverage clean_world))) = Some 3353001"
  by (simp_all add: record_all_def example_coverage_def RecordEconomyCoverage_def V022Active_def
      V022TestnetHeight_def bindO_def sql_def coverage_insert_def example_hashes Let_def
      covered_height_def coverage_extends_def coverage_contract_def clean_world_def
      empty_tables_def empty_sync_def guardO_def)

theorem coverage_contiguous_witness:
  "{V022TestnetHeight..3353001} \<subseteq> fst ` set example_coverage"
  by (rule coverage_contiguous [OF example_coverage_run(1) _ example_coverage_run(2)])
    (simp add: covered_height_def clean_world_def empty_tables_def empty_sync_def)

subsection \<open>Error log\<close>

lemma summary_fold:
  "fst (fold (\<lambda>(sev, n) (e, w). if sev = ''warn'' then (e, n) else (e + n, w)) gs (e0, w0)) =
     (e0 :: nat) + sum_list (map snd (filter (\<lambda>g. fst g \<noteq> ''warn'') gs))"
  "distinct (map fst gs) \<Longrightarrow>
   snd (fold (\<lambda>(sev, n) (e, w). if sev = ''warn'' then (e, n) else (e + n, w)) gs (e0, w0)) =
     (case map_of gs ''warn'' of None \<Rightarrow> w0 | Some n \<Rightarrow> n)"
proof -
  show "fst (fold (\<lambda>(sev, n) (e, w). if sev = ''warn'' then (e, n) else (e + n, w)) gs (e0, w0)) =
     e0 + sum_list (map snd (filter (\<lambda>g. fst g \<noteq> ''warn'') gs))"
    by (induction gs arbitrary: e0 w0) auto
  show "snd (fold (\<lambda>(sev, n) (e, w). if sev = ''warn'' then (e, n) else (e + n, w)) gs (e0, w0)) =
     (case map_of gs ''warn'' of None \<Rightarrow> w0 | Some n \<Rightarrow> n)" if "distinct (map fst gs)"
    using that
  proof (induction gs arbitrary: e0 w0)
    case (Cons g gs)
    then have "fst g = ''warn'' \<Longrightarrow> map_of gs ''warn'' = None"
      by (auto simp: map_of_eq_None_iff)
    with Cons show ?case by (cases g) (auto split: option.splits)
  qed simp
qed

lemma count_by_key:
  "sum_list (map (\<lambda>k. length (filter (\<lambda>x. f x = k) xs)) (filter P (remdups (map f xs)))) =
     length (filter (\<lambda>x. P (f x)) xs)"
proof -
  have "sum_list (map (\<lambda>k. length (filter (\<lambda>x. f x = k) xs)) (filter P (remdups (map f xs)))) =
      (\<Sum>k \<in> {k \<in> f ` set xs. P k}. length (filter (\<lambda>x. f x = k) xs))"
    by (subst sum_list_distinct_conv_sum_set) (auto intro!: sum.cong)
  also have "\<dots> = length (filter (\<lambda>x. P (f x)) xs)"
  proof (induction xs)
    case (Cons x xs)
    let ?A = "{k \<in> f ` set xs. P k}" and ?n = "\<lambda>k. length (filter (\<lambda>y. f y = k) xs)"
    have sub: "(\<Sum>k \<in> {k \<in> f ` set (x # xs). P k}. ?n k) = (\<Sum>k \<in> ?A. ?n k)"
      by (rule sum.mono_neutral_right) (auto simp: filter_empty_conv)
    have "(\<Sum>k \<in> {k \<in> f ` set (x # xs). P k}. length (filter (\<lambda>y. f y = k) (x # xs))) =
        (\<Sum>k \<in> {k \<in> f ` set (x # xs). P k}. (if k = f x then 1 else 0) + ?n k)"
      by (rule sum.cong) auto
    also have "\<dots> = (\<Sum>k \<in> {k \<in> f ` set (x # xs). P k}. if k = f x then 1 else 0) + (\<Sum>k \<in> ?A. ?n k)"
      by (simp only: sum.distrib sub)
    also have "(\<Sum>k \<in> {k \<in> f ` set (x # xs). P k}. if k = f x then 1 else 0) = (if P (f x) then 1 else (0 :: nat))"
      by (simp add: sum.delta)
    finally show ?case using Cons by simp
  qed simp
  finally show ?thesis .
qed

lemma map_of_map_keys: "map_of (map (\<lambda>k. (k, f k)) ks) k = (if k \<in> set ks then Some (f k) else None)"
  by (induction ks) auto

text \<open>
  The unresolved-error summary counts what the listing shows.  The two counters of the
  startup banner are exactly the numbers of rows that the unfiltered listing returns with
  severity \<open>warn\<close> and with any other severity, a missing severity counting as an error.
\<close>

theorem error_summary_matches_listing:
  "UnresolvedErrorSummary chain d =
     (let rows = map snd (ListUnresolvedErrors chain [] [] 0 0 0 d) in
      (length (filter (\<lambda>r. severity_of r \<noteq> ''warn'') rows),
       length (filter (\<lambda>r. severity_of r = ''warn'') rows)))"
proof -
  define rs where "rs = filter (unresolved chain) (map snd (sy_errors (db_sync d)))"
  define gs where "gs = severity_groups chain d"
  have gs: "gs = map (\<lambda>sev. (sev, length (filter (\<lambda>r. severity_of r = sev) rs))) (remdups (map severity_of rs))"
    by (simp add: gs_def severity_groups_def rs_def Let_def)
  have warn: "(case map_of gs ''warn'' of None \<Rightarrow> 0 | Some n \<Rightarrow> n) =
      length (filter (\<lambda>r. severity_of r = ''warn'') rs)"
    using map_of_map_keys [of "\<lambda>sev. length (filter (\<lambda>r. severity_of r = sev) rs)" "remdups (map severity_of rs)" "''warn''"]
    by (auto simp: gs filter_empty_conv image_iff)
  have err: "sum_list (map snd (filter (\<lambda>g. fst g \<noteq> ''warn'') gs)) =
      length (filter (\<lambda>r. severity_of r \<noteq> ''warn'') rs)"
    using count_by_key [of severity_of rs "\<lambda>s. s \<noteq> ''warn''"] by (simp add: gs filter_map comp_def)
  have "mset (map snd (ListUnresolvedErrors chain [] [] 0 0 0 d)) = mset rs"
  proof -
    have "error_matches chain [] [] 0 0 = (\<lambda>e. unresolved chain (snd e))"
      by (auto simp: error_matches_def fun_eq_iff)
    then show ?thesis
      by (simp add: ListUnresolvedErrors_def Let_def rs_def filter_map comp_def)
  qed
  then have len: "length (filter P (map snd (ListUnresolvedErrors chain [] [] 0 0 0 d))) = length (filter P rs)" for P
    by (metis mset_filter size_mset)
  then show ?thesis
    using warn err len [of "\<lambda>r. severity_of r \<noteq> ''warn''"] len [of "\<lambda>r. severity_of r = ''warn''"]
      summary_fold(1) [of gs 0 0] summary_fold(2) [of gs 0 0]
    by (simp add: UnresolvedErrorSummary_def gs_def [symmetric] gs Let_def prod_eq_iff comp_def)
qed

subsection \<open>Unknown-event log\<close>

text \<open>The entry of a key after the deltas of some windows were flushed in order.\<close>

definition unknown_entry :: "string \<Rightarrow> string \<Rightarrow> tables \<Rightarrow> unknown_row option" where
  "unknown_entry chain key d = tbl_get (sy_unknown (db_sync d)) (chain, key)"

definition merge_unknown :: "unknown_row option \<Rightarrow> unknown_delta \<Rightarrow> unknown_row" where
  "merge_unknown old d =
     (case old of
        None \<Rightarrow> \<lparr>uk_count = ud_count d, uk_first = ud_first d, uk_last = ud_last d,
                uk_payload = (if ud_sample d = [] then None else Some (ud_sample d))\<rparr>
      | Some r \<Rightarrow> \<lparr>uk_count = uk_count r + ud_count d, uk_first = min (uk_first r) (ud_first d),
                   uk_last = max (uk_last r) (ud_last d),
                   uk_payload = (if ud_sample d = [] then uk_payload r else Some (ud_sample d))\<rparr>)"

lemma unknown_upsert_get:
  "tbl_get (unknown_upsert chain (key, d) t) k =
     (if k = (chain, key) then Some (merge_unknown (tbl_get t k) d) else tbl_get t k)"
  by (auto simp: unknown_upsert_def merge_unknown_def Let_def split: option.splits)

lemma unknown_fold_get:
  "distinct (map fst entries) \<Longrightarrow>
   tbl_get (fold (unknown_upsert chain) entries t) (chain', key) =
     (case map_of entries key of
        None \<Rightarrow> tbl_get t (chain', key)
      | Some d \<Rightarrow> if chain' = chain then Some (merge_unknown (tbl_get t (chain', key)) d)
                 else tbl_get t (chain', key))"
proof (induction entries arbitrary: t)
  case (Cons e entries)
  obtain k d where e: "e = (k, d)" by (cases e)
  have "k = key \<Longrightarrow> map_of entries key = None"
    using Cons.prems by (auto simp: e map_of_eq_None_iff)
  with Cons show ?case
    by (auto simp: e unknown_upsert_get split: option.splits)
qed simp

end
