(* ===== verification/Native.thy ===== *)
theory Native
  imports Sync_Store Bank Flush
begin

text \<open>
  Native staking evidence: \<open>bank/native.go\<close> (which accounts and validators a block
  touches), and \<open>staking/store.go\<close>, \<open>invalidate.go\<close>, \<open>positions.go\<close>, \<open>receipts.go\<close> with the
  \<open>Snapshot\<close> types of \<open>snapshot.go\<close> (requesting, publishing and retiring evidence).

  Two things are not defined by this repository and are parameters: the view
  \<open>structs.asset_owner\<close> (\<open>owners\<close>, pairs of address and owner) and the generated column
  \<open>pending\<close> of \<open>native_staking_snapshot\<close> (\<open>is_pending\<close>).  Rows of \<open>structs.defusion\<close>
  without a source identity predate the code and are not in the model, so neither is the
  adoption of such rows by \<open>SeedReceipts\<close>.
\<close>

section \<open>Changes of a block\<close>

record changes =
  ch_addresses :: "string list"
  ch_validators :: "string list"
  ch_all :: bool

definition no_changes :: changes where
  "no_changes = \<lparr>ch_addresses = [], ch_validators = [], ch_all = False\<rparr>"

definition add_address :: "string \<Rightarrow> changes \<Rightarrow> changes" where
  "add_address a c = (if a = [] then c else c\<lparr>ch_addresses := ch_addresses c @ [a]\<rparr>)"

definition add_validators :: "string list \<Rightarrow> changes \<Rightarrow> changes" where
  "add_validators vs c = c\<lparr>ch_validators := ch_validators c @ vs\<rparr>"

definition slash_change :: "event \<Rightarrow> changes \<Rightarrow> changes res" where
  "slash_change ev c =
     (let burned = findAttr ev ''burned_coins'' in
      if burned = [] \<and> findAttr ev ''jailed'' \<noteq> [] \<and> findAttr ev ''address'' = [] then Inr c
      else (case big_of_string burned of
          None \<Rightarrow> Inl (errorf ''incomplete financial slash event'')
        | Some v \<Rightarrow>
            if v < 0 \<or> dec_int v \<noteq> burned \<or> findAttr ev ''address'' = []
            then Inl (errorf ''incomplete financial slash event'')
            else Inr (c\<lparr>ch_all := True\<rparr>)))"

text \<open>One event; \<open>grp\<close> holds the earlier events of its phase, transaction and message.\<close>

definition event_change :: "event list \<Rightarrow> event \<Rightarrow> changes \<Rightarrow> changes res" where
  "event_change grp ev c =
     (if ev_type ev \<in> {''delegate'', ''unbond'', ''cancel_unbond'', ''complete_unbonding''} then
        bindR (validateBankFields ev) (\<lambda>_.
        Inr (add_address (findAttr ev ''delegator'') (add_validators [findAttr ev ''validator''] c)))
      else if ev_type ev = ''redelegate'' then
        bindR (validateBankFields ev) (\<lambda>_.
        bindR (redelegationOwner grp (length grp) (findAttr ev ''source_validator'')) (\<lambda>owner.
        Inr (add_address owner (add_validators
          [findAttr ev ''source_validator'', findAttr ev ''destination_validator''] c))))
      else if ev_type ev = ''complete_redelegation'' then
        bindR (validateBankFields ev) (\<lambda>_.
        Inr (add_address (findAttr ev ''delegator'') (add_validators
          [findAttr ev ''source_validator'', findAttr ev ''destination_validator''] c)))
      else if ev_type ev = ''create_validator'' then
        (case eventCoins ev of
           Inr [coin] \<Rightarrow>
             if coin_denom coin \<noteq> ''ualpha'' then Inl (errorf ''native validator creation needs one ualpha self-delegation'')
             else bindR (validatorSpender grp (coin_amount coin) (coin_denom coin)) (\<lambda>spender.
                  Inr (add_address spender (add_validators [findAttr ev ''validator''] c)))
         | _ \<Rightarrow> Inl (errorf ''native validator creation needs one ualpha self-delegation''))
      else if ev_type ev = ''slash'' then slash_change ev c
      else Inr c)"

fun change_events :: "positioned list \<Rightarrow> positioned list \<Rightarrow> changes \<Rightarrow> changes res" where
  "change_events before [] c = Inr c"
| "change_events before (p # ps) c =
     bindR (event_change (scope_group before p) (pe_event p) c) (change_events (before @ [p]) ps)"

definition NativeChanges :: "event list \<Rightarrow> tx_result list \<Rightarrow> changes res" where
  "NativeChanges finalize txs =
     bindR (ordered_events finalize txs) (\<lambda>ordered. change_events [] ordered no_changes)"

section \<open>Addresses\<close>

definition bech32_charset :: string where
  "bech32_charset = ''qpzry9x8gf2tvdw0s3jn54khce6mua7l''"

definition validAddress :: "string \<Rightarrow> string \<Rightarrow> bool" where
  "validAddress address prefix \<longleftrightarrow>
     has_prefix address prefix \<and> length prefix < length address \<and> length address \<le> 128 \<and>
     list_all (\<lambda>c. c \<in> set bech32_charset) (drop (length prefix) address)"

definition uniqueAddresses :: "string list \<Rightarrow> string \<Rightarrow> string list res" where
  "uniqueAddresses values prefix =
     bindR (guardR (list_all (\<lambda>v. validAddress v prefix) values) (errorf ''invalid native address'')) (\<lambda>_.
     Inr (sort (remdups values)))"

definition naturalTotal :: "string \<Rightarrow> bool" where
  "naturalTotal value \<longleftrightarrow>
     value \<noteq> [] \<and> \<not> (1 < length value \<and> hd value = CHR ''0'') \<and> list_all is_digit value"

definition account_prefix :: string where "account_prefix = ''structs1''"
definition validator_prefix :: string where "validator_prefix = ''structsvaloper1''"

section \<open>Requesting evidence\<close>

definition lockO :: "(world, unit) op" where
  "lockO = wrapO ''lock projection maintenance: '' (exec (\<lambda>d. d))"

definition raise_watermark ::
  "string \<Rightarrow> int \<Rightarrow> string \<Rightarrow> (string \<times> string, int) table \<Rightarrow> (string \<times> string, int) table" where
  "raise_watermark chain height v t =
     (case tbl_get t (chain, v) of
        None \<Rightarrow> tbl_put (chain, v) height t
      | Some h \<Rightarrow> if h < height then tbl_put (chain, v) height t else t)"

definition affected_addresses :: "string \<Rightarrow> string list \<Rightarrow> string list \<Rightarrow> bool \<Rightarrow> tables \<Rightarrow> string list" where
  "affected_addresses chain addresses validators everyone d =
     remdups (addresses @ map (\<lambda>(c, v, a). a)
       (filter (\<lambda>(c, v, a). c = chain \<and> (v \<in> set validators \<or> everyone)) (db_exposure d)))"

text \<open>One row of the upsert with \<open>RETURNING address\<close>.\<close>

definition require_evidence ::
  "string \<Rightarrow> int \<Rightarrow> string \<Rightarrow> string list \<times> (string \<times> string, native_row) table
     \<Rightarrow> string list \<times> (string \<times> string, native_row) table" where
  "require_evidence chain height a st =
     (case st of (returned, t) \<Rightarrow>
        case tbl_get t (chain, a) of
          None \<Rightarrow> (returned @ [a], tbl_put (chain, a) (new_native height) t)
        | Some r \<Rightarrow>
            if ns_required r < height
            then (returned @ [a], tbl_put (chain, a) (r\<lparr>ns_required := height, ns_retry := None\<rparr>) t)
            else (returned, t))"

definition request_statement ::
  "string \<Rightarrow> int \<Rightarrow> string list \<Rightarrow> string list \<Rightarrow> bool \<Rightarrow> tables \<Rightarrow> string list \<times> tables" where
  "request_statement chain height addresses validators everyone d =
     (case fold (require_evidence chain height)
             (affected_addresses chain addresses validators everyone d) ([], db_native d) of
        (returned, t) \<Rightarrow> (returned, d\<lparr>db_native := t\<rparr>))"

definition Request :: "string \<Rightarrow> int \<Rightarrow> changes \<Rightarrow> (world, string list) op" where
  "Request chain height c =
     bindO (guardO (chain \<noteq> [] \<and> 0 < height) (errorf ''native invalidation requires chain and positive height'')) (\<lambda>_.
     bindO (liftO (uniqueAddresses (ch_addresses c) account_prefix)) (\<lambda>addresses.
     bindO (liftO (uniqueAddresses (ch_validators c) validator_prefix)) (\<lambda>validators.
     if addresses = [] \<and> validators = [] \<and> \<not> ch_all c then returnO []
     else
       let watermarks = validators @ (if ch_all c then [[]] else []) in
       bindO lockO (\<lambda>_.
       bindO (whenO (watermarks \<noteq> []) (exec (\<lambda>d.
          d\<lparr>db_invalidation := fold (raise_watermark chain height) watermarks (db_invalidation d)\<rparr>))) (\<lambda>_.
       wrapO ''invalidate native staking evidence: ''
         (sql (request_statement chain height addresses validators (ch_all c))))))))"

definition ensure_statement :: "string \<Rightarrow> int \<Rightarrow> string list \<Rightarrow> tables \<Rightarrow> tables" where
  "ensure_statement chain height ids d =
     d\<lparr>db_native := fold (\<lambda>a t. case tbl_get t (chain, a) of
        None \<Rightarrow> tbl_put (chain, a) (new_native height) t | Some r \<Rightarrow> t) ids (db_native d)\<rparr>"

definition Ensure :: "string \<Rightarrow> int \<Rightarrow> string list \<Rightarrow> (world, unit) op" where
  "Ensure chain height addresses =
     bindO (guardO (chain \<noteq> [] \<and> 0 < height) (errorf ''native candidate requires chain and positive height'')) (\<lambda>_.
     bindO (liftO (uniqueAddresses addresses account_prefix)) (\<lambda>ids.
     if ids = [] then returnO ()
     else bindO lockO (\<lambda>_. exec (ensure_statement chain height ids))))"

text \<open>\<open>staking.Invalidate\<close>.  Go ranges over its maps in some order; the sets are listed in
  ascending order here, and the order is irrelevant because the lists are made unique and
  sorted before use.\<close>

type_synonym owner_view = "tables \<Rightarrow> (string \<times> string) list"

definition reactor_validators :: "string list \<Rightarrow> tables \<Rightarrow> string option list" where
  "reactor_validators ids d =
     map (\<lambda>i. case tbl_get (db_reactor d) i of None \<Rightarrow> None | Some r \<Rightarrow> re_validator r) ids"

definition add_reactor_validator :: "string option \<Rightarrow> changes \<Rightarrow> changes" where
  "add_reactor_validator v c =
     (case v of
        None \<Rightarrow> c\<lparr>ch_all := True\<rparr>
      | Some x \<Rightarrow> if x = [] then c\<lparr>ch_all := True\<rparr> else add_validators [x] c)"

definition owner_candidates :: "owner_view \<Rightarrow> dirty \<Rightarrow> tables \<Rightarrow> string list" where
  "owner_candidates owners dt d =
     remdups (map fst (filter (\<lambda>(a, o'). a \<in> d_addresses dt \<or> o' \<in> d_players dt \<or> o' \<in> d_guilds dt) (owners d)))"

definition Invalidate :: "owner_view \<Rightarrow> string \<Rightarrow> int \<Rightarrow> changes \<Rightarrow> (world, unit) op" where
  "Invalidate owners chain height c0 =
     bindO (getO w_dirty) (\<lambda>dt.
     let c1 = (if V022Active chain height \<and> height = V022TestnetHeight then c0\<lparr>ch_all := True\<rparr> else c0);
         c2 = c1\<lparr>ch_addresses := ch_addresses c1 @ sorted_list_of_set (d_native_addresses dt)\<rparr>;
         reactors = sorted_list_of_set (d_native_reactors dt) in
     bindO (if reactors = [] then returnO [] else query (reactor_validators reactors)) (\<lambda>vs.
     bindO (Request chain height (fold add_reactor_validator vs c2)) (\<lambda>addresses.
     bindO (forO addresses (\<lambda>a. mark (Dirty_Address a))) (\<lambda>_.
     bindO (getO w_dirty) (\<lambda>dt'.
     if d_addresses dt' = {} \<and> d_players dt' = {} \<and> d_guilds dt' = {} then returnO ()
     else bindO (query (owner_candidates owners dt')) (\<lambda>candidates.
          Ensure chain height candidates))))))"

section \<open>Snapshots\<close>

record delegation =
  dl_validator :: string
  dl_shares :: string
  dl_balance :: string

record unbonding =
  un_validator :: string
  un_creation :: int
  un_completion :: int
  un_initial :: string
  un_balance :: string
  un_id :: "64 word"
  un_hold :: int

record redelegation =
  rl_source :: string
  rl_destination :: string
  rl_creation :: int
  rl_completion :: int
  rl_initial :: string
  rl_shares :: string
  rl_balance :: string
  rl_id :: "64 word"

record snapshot =
  sn_chain :: string
  sn_address :: string
  sn_height :: int
  sn_delegations :: "delegation list"
  sn_unbondings :: "unbonding list"
  sn_redelegations :: "redelegation list"
  sn_bonded :: string
  sn_unbonding :: string

definition snapshot_validators :: "snapshot \<Rightarrow> string list" where
  "snapshot_validators s =
     sort (remdups (map dl_validator (sn_delegations s) @ map un_validator (sn_unbondings s)
       @ concat (map (\<lambda>r. [rl_source r, rl_destination r]) (sn_redelegations s))))"

record position_total =
  pt_bonded :: nat
  pt_unbonding :: nat
  pt_entries :: nat

definition zero_total :: position_total where
  "zero_total = \<lparr>pt_bonded = 0, pt_unbonding = 0, pt_entries = 0\<rparr>"

definition total_of :: "(string, position_total) table \<Rightarrow> string \<Rightarrow> position_total" where
  "total_of t v = (case tbl_get t v of None \<Rightarrow> zero_total | Some p \<Rightarrow> p)"

definition add_delegation ::
  "string list \<times> (string, position_total) table \<Rightarrow> delegation
     \<Rightarrow> (string list \<times> (string, position_total) table) res" where
  "add_delegation st x =
     (case st of (seen, t) \<Rightarrow>
        if dl_validator x \<in> set seen \<or> \<not> naturalTotal (dl_balance x)
        then Inl (errorf ''incomplete or duplicate native delegation position'')
        else Inr (dl_validator x # seen,
          tbl_put (dl_validator x) ((total_of t (dl_validator x))\<lparr>pt_bonded := nat_of_digits (dl_balance x)\<rparr>) t))"

definition add_unbonding ::
  "(string, position_total) table \<Rightarrow> unbonding \<Rightarrow> (string, position_total) table res" where
  "add_unbonding t u =
     (if \<not> naturalTotal (un_balance u) then Inl (errorf ''incomplete native unbonding position'')
      else let p = total_of t (un_validator u) in
        Inr (tbl_put (un_validator u)
          (p\<lparr>pt_unbonding := pt_unbonding p + nat_of_digits (un_balance u), pt_entries := Suc (pt_entries p)\<rparr>) t))"

definition positionTotals :: "snapshot \<Rightarrow> (string \<times> position_total) list res" where
  "positionTotals s =
     bindR (foldR add_delegation ([], []) (sn_delegations s)) (\<lambda>(seen, t1).
     bindR (foldR add_unbonding t1 (sn_unbondings s)) (\<lambda>t.
     bindR (guardR (dec_nat (sum_list (map (pt_bonded \<circ> snd) t)) = sn_bonded s \<and>
                    dec_nat (sum_list (map (pt_unbonding \<circ> snd) t)) = sn_unbonding s)
        (errorf ''native position totals disagree with complete address totals'')) (\<lambda>_.
     Inr (sort_key fst t))))"

section \<open>Publishing evidence\<close>

text \<open>The guard of the UPDATE in \<open>Publish\<close>.\<close>

definition publishable :: "snapshot \<Rightarrow> string list \<Rightarrow> tables \<Rightarrow> native_row \<Rightarrow> bool" where
  "publishable s validators d r \<longleftrightarrow>
     ns_required r \<le> sn_height s \<and>
     (case ns_source r of
        None \<Rightarrow> True
      | Some h \<Rightarrow> h < sn_height s \<or>
          (h = sn_height s \<and> (ns_receipts_pending r \<or> \<not> ns_positions_complete r))) \<and>
     (case tbl_get (sy_cursor (db_sync d)) (sn_chain s) of
        None \<Rightarrow> False | Some c \<Rightarrow> sn_height s \<le> cu_height c) \<and>
     list_all (\<lambda>v. case tbl_get (db_invalidation d) (sn_chain s, v) of
        None \<Rightarrow> True | Some h \<Rightarrow> h \<le> sn_height s) ([] # validators)"

definition publish_statement :: "snapshot \<Rightarrow> string list \<Rightarrow> tables \<Rightarrow> nat \<times> tables" where
  "publish_statement s validators d =
     (let k = (sn_chain s, sn_address s) in
      case tbl_get (db_native d) k of
        None \<Rightarrow> (0, d)
      | Some r \<Rightarrow>
          if publishable s validators d r
          then (1, d\<lparr>db_native := tbl_put k
                 (r\<lparr>ns_source := Some (sn_height s), ns_bonded := sn_bonded s, ns_unbonding := sn_unbonding s,
                    ns_retry := None, ns_receipts_pending := False, ns_positions_complete := True\<rparr>)
                 (db_native d)\<rparr>)
          else (0, d))"

definition drop_exposure :: "snapshot \<Rightarrow> tables \<Rightarrow> tables" where
  "drop_exposure s d =
     d\<lparr>db_exposure := filter (\<lambda>(c, v, a). \<not> (c = sn_chain s \<and> a = sn_address s)) (db_exposure d)\<rparr>"

definition insert_exposure :: "snapshot \<Rightarrow> string list \<Rightarrow> tables \<Rightarrow> tables" where
  "insert_exposure s validators d =
     d\<lparr>db_exposure := db_exposure d @ map (\<lambda>v. (sn_chain s, v, sn_address s)) validators\<rparr>"

record receipt_group =
  rg_kind :: string
  rg_validator :: string
  rg_source :: string
  rg_height :: int
  rg_completion :: int

definition whole_second :: "int \<Rightarrow> int" where
  "whole_second t = t div 1000000000 * 1000000000"

definition receipt_groups :: "snapshot \<Rightarrow> receipt_group list" where
  "receipt_groups s =
     map (\<lambda>u. \<lparr>rg_kind = ''u'', rg_validator = un_validator u, rg_source = [],
               rg_height = un_creation u, rg_completion = whole_second (un_completion u)\<rparr>) (sn_unbondings s)
     @ map (\<lambda>r. \<lparr>rg_kind = ''r'', rg_validator = rl_destination r, rg_source = rl_source r,
               rg_height = rl_creation r, rg_completion = whole_second (rl_completion r)\<rparr>) (sn_redelegations s)"

text \<open>The empty source validator is stored as NULL.\<close>

definition group_matches :: "defusion_row \<Rightarrow> receipt_group \<Rightarrow> bool" where
  "group_matches x g \<longleftrightarrow>
     rg_kind g = dr_type x \<and> rg_validator g = dr_validator x \<and>
     (dr_type x \<noteq> ''r'' \<or> dr_source_validator x = [] \<or> rg_source g = dr_source_validator x) \<and>
     (dr_type x = ''r'' \<or> rg_height g = dr_height x) \<and>
     whole_second (dr_completed x) = rg_completion g"

definition receipt_due :: "snapshot \<Rightarrow> stored_defusion \<Rightarrow> bool" where
  "receipt_due s x \<longleftrightarrow>
     dr_chain (sd_row x) = sn_chain s \<and> dr_delegator (sd_row x) = sn_address s \<and>
     sd_retired x = None \<and> dr_denom (sd_row x) = ''ualpha'' \<and> dr_height (sd_row x) \<le> sn_height s \<and>
     (case sd_reconciled x of None \<Rightarrow> True | Some h \<Rightarrow> h \<le> sn_height s) \<and>
     dr_type (sd_row x) \<in> {''u'', ''r''}"

definition reconcile_receipt :: "snapshot \<Rightarrow> stored_defusion \<Rightarrow> stored_defusion" where
  "reconcile_receipt s x =
     (if receipt_due s x
      then x\<lparr>sd_reconciled := Some (sn_height s),
             sd_retired := (if list_ex (group_matches (sd_row x)) (receipt_groups s) then None
                            else Some (sn_height s))\<rparr>
      else x)"

definition reconcileReceipts :: "snapshot \<Rightarrow> (world, unit) op" where
  "reconcileReceipts s = exec (\<lambda>d. d\<lparr>db_defusion := map (reconcile_receipt s) (db_defusion d)\<rparr>)"

definition position_row :: "position_total \<Rightarrow> native_position_row" where
  "position_row p =
     \<lparr>np_bonded = dec_nat (pt_bonded p), np_unbonding = dec_nat (pt_unbonding p), np_entries = pt_entries p\<rparr>"

definition replacePositions :: "snapshot \<Rightarrow> (string \<times> position_total) list \<Rightarrow> (world, unit) op" where
  "replacePositions s ps =
     bindO (exec (\<lambda>d. d\<lparr>db_position :=
        tbl_filter (\<lambda>(c, a, v) r. \<not> (c = sn_chain s \<and> a = sn_address s)) (db_position d)\<rparr>)) (\<lambda>_.
     whenO (ps \<noteq> []) (exec (\<lambda>d. d\<lparr>db_position := db_position d
        @ map (\<lambda>(v, p). ((sn_chain s, sn_address s, v), position_row p)) ps\<rparr>)))"

definition Publish :: "snapshot \<Rightarrow> (world, bool) op" where
  "Publish s =
     bindO (guardO (sn_chain s \<noteq> [] \<and> 0 < sn_height s \<and> validAddress (sn_address s) account_prefix \<and>
                    naturalTotal (sn_bonded s) \<and> naturalTotal (sn_unbonding s))
        (errorf ''invalid complete native snapshot'')) (\<lambda>_.
     bindO (liftO (uniqueAddresses (snapshot_validators s) validator_prefix)) (\<lambda>validators.
     bindO (liftO (positionTotals s)) (\<lambda>ps.
     bindO lockO (\<lambda>_.
     bindO (sql (publish_statement s validators)) (\<lambda>n.
     if n = 0 then returnO False
     else
       bindO (exec (drop_exposure s)) (\<lambda>_.
       bindO (exec (insert_exposure s validators)) (\<lambda>_.
       bindO (reconcileReceipts s) (\<lambda>_.
       bindO (replacePositions s ps) (\<lambda>_. returnO True)))))))))"

section \<open>Scheduling\<close>

text \<open>\<open>retry_after\<close> is \<open>None\<close> for minus infinity; \<open>now\<close> is \<open>NOW()\<close>.\<close>

definition evidence_open :: "(native_row \<Rightarrow> bool) \<Rightarrow> native_row \<Rightarrow> bool" where
  "evidence_open is_pending r \<longleftrightarrow> is_pending r \<or> ns_receipts_pending r \<or> \<not> ns_positions_complete r"

definition retry_due :: "int \<Rightarrow> native_row \<Rightarrow> bool" where
  "retry_due now r \<longleftrightarrow> (case ns_retry r of None \<Rightarrow> True | Some t \<Rightarrow> t \<le> now)"

definition retry_key :: "native_row \<Rightarrow> nat \<times> int" where
  "retry_key r = (case ns_retry r of None \<Rightarrow> (0, 0) | Some t \<Rightarrow> (1, t))"

definition pending_rows ::
  "(native_row \<Rightarrow> bool) \<Rightarrow> int \<Rightarrow> string \<Rightarrow> tables \<Rightarrow> (string \<times> int) list" where
  "pending_rows is_pending now chain d =
     (case tbl_get (sy_cursor (db_sync d)) chain of
        None \<Rightarrow> []
      | Some c \<Rightarrow>
          map (\<lambda>((ch, a), r). (a, cu_height c))
            (sort_key (\<lambda>((ch, a), r). (retry_key r, a))
              (filter (\<lambda>((ch, a), r). ch = chain \<and> evidence_open is_pending r \<and> retry_due now r \<and>
                 ns_required r \<le> cu_height c \<and> 0 < cu_height c \<and> cu_status c = Some StatusCurrent)
               (db_native d))))"

definition Pending ::
  "(native_row \<Rightarrow> bool) \<Rightarrow> int \<Rightarrow> string \<Rightarrow> int \<Rightarrow> tables \<Rightarrow> (string \<times> int) list res" where
  "Pending is_pending now chain limit d =
     (if chain = [] \<or> limit \<le> 0 \<or> 1000 < limit
      then Inl (errorf ''native pending batch needs a chain and limit in 1..1000'')
      else Inr (take (nat limit) (pending_rows is_pending now chain d)))"

definition RetryLater ::
  "(native_row \<Rightarrow> bool) \<Rightarrow> string \<Rightarrow> string \<Rightarrow> int \<Rightarrow> int \<Rightarrow> (world, unit) op" where
  "RetryLater is_pending chain address height after =
     bindO lockO (\<lambda>_.
     exec (\<lambda>d. case tbl_get (db_native d) (chain, address) of
        None \<Rightarrow> d
      | Some r \<Rightarrow> if evidence_open is_pending r \<and> ns_required r \<le> height
          then d\<lparr>db_native := tbl_put (chain, address) (r\<lparr>ns_retry := Some after\<rparr>) (db_native d)\<rparr>
          else d))"

end
