(* ===== verification/Frames.thy ===== *)
theory Frames
  imports Router
begin

text \<open>
  Frame reasoning over the database: a relation on one projection of the tables (a table, a
  pair of tables) that is reflexive and transitive holds across an operation as soon as it
  holds across each of its statements, whatever fails on the way.  The locale is
  interpreted with each invariant of the tables that the development proves.
\<close>

definition across :: "(tables \<Rightarrow> 't) \<Rightarrow> ('t \<Rightarrow> 't \<Rightarrow> bool) \<Rightarrow> world \<Rightarrow> world \<Rightarrow> bool" where
  "across proj le w w' \<longleftrightarrow> le (proj (w_db w)) (proj (w_db w'))"

lemma keepsD: "keeps R m \<Longrightarrow> R s (snd (m s))"
  by (simp add: keeps_def)

text \<open>Filtering a table by key.\<close>

lemma map_of_filter_key:
  "map_of (filter (\<lambda>(k, r). Q k) t) k = (if Q k then map_of t k else None)"
  by (induction t) auto

lemma tbl_get_kept_keys: "tbl_get (tbl_filter (\<lambda>k r. Q k) t) k = (if Q k then tbl_get t k else None)"
  by (simp add: tbl_get_def tbl_filter_def map_of_filter_key)

text \<open>Eliminations: what a successful sequence did first.\<close>

lemma exec_Inr: "exec f w = (Inr u, w') \<Longrightarrow> w_db w' = f (w_db w)"
  by (simp add: exec_def sql_Inr)

lemma exec_then:
  assumes "bindO (exec f) k w = (Inr y, w')"
  obtains v where "w_db v = f (w_db w)" "k () v = (Inr y, w')"
proof (rule that [of "(tick w)\<lparr>w_db := f (w_db w)\<rparr>"])
  show "k () ((tick w)\<lparr>w_db := f (w_db w)\<rparr>) = (Inr y, w')"
    using assms by (auto simp: bindO_Inr exec_def sql_Inr)
qed simp

lemma sql_then:
  assumes "bindO (sql f) k w = (Inr y, w')"
  obtains x v where "f (w_db w) = (x, w_db v)" "k x v = (Inr y, w')"
proof (rule that [of "fst (f (w_db w))" "(tick w)\<lparr>w_db := snd (f (w_db w))\<rparr>"])
  show "k (fst (f (w_db w))) ((tick w)\<lparr>w_db := snd (f (w_db w))\<rparr>) = (Inr y, w')"
    using assms by (auto simp: bindO_Inr sql_Inr)
qed simp

lemma guardO_then: "bindO (guardO b e) k w = (Inr y, w') \<Longrightarrow> b \<and> k () w = (Inr y, w')"
  by (cases b) auto

lemma liftO_then:
  assumes "bindO (liftO r) k w = (Inr y, w')"
  obtains x where "r = Inr x" "k x w = (Inr y, w')"
  using assms by (cases r) (auto simp: bindO_def)

lemma exec_id_db: "exec (\<lambda>d. d) w = (r, w') \<Longrightarrow> w_db w' = w_db w"
  by (auto simp: exec_def sql_def split: if_splits option.splits)

lemma restore_memory_db [simp]: "w_db (restore_memory sv w) = w_db w"
  by (simp add: restore_memory_def)

lemma commit_savepoint_db: "w_db (snd (commit_savepoint sv w)) = w_db w"
proof -
  obtain r v where "exec (\<lambda>d. d) w = (r, v)" by force
  with exec_id_db [OF this] show ?thesis by (cases r) (simp_all add: commit_savepoint_def)
qed

lemma rollback_savepoint_db: "w_db (rollback_savepoint sv w) \<in> {w_db w, sv_db sv}"
  by (auto simp: rollback_savepoint_def rollback_to_def split: option.splits)

locale table_frame =
  fixes proj :: "tables \<Rightarrow> 't" and le :: "'t \<Rightarrow> 't \<Rightarrow> bool"
  assumes le_refl: "le t t"
    and le_trans: "le t u \<Longrightarrow> le u v \<Longrightarrow> le t v"

sublocale table_frame \<subseteq> framed: preorder_op "across proj le"
  by unfold_locales (auto simp: across_def intro: le_refl le_trans)

context table_frame begin

lemma frame_sql:
  assumes "\<And>d. le (proj d) (proj (snd (f d)))"
  shows "keeps (across proj le) (sql f)"
  unfolding keeps_def
proof
  fix w
  show "across proj le w (snd (sql f w))"
    using assms [of "w_db w"] le_refl by (auto simp: sql_def across_def split: option.splits prod.splits)
qed

lemma frame_exec: "(\<And>d. le (proj d) (proj (f d))) \<Longrightarrow> keeps (across proj le) (exec f)"
  unfolding exec_def by (rule frame_sql) simp

lemma frame_query: "keeps (across proj le) (query g)"
  unfolding query_def by (rule frame_sql) (simp add: le_refl)

lemma frame_query_opt: "keeps (across proj le) (query_opt g)"
  by (simp add: query_opt_def frame_query)

lemma frame_query_row: "keeps (across proj le) (query_row g)"
  unfolding query_row_def by (intro framed.keeps_intros frame_query)

lemma frame_sql_row:
  "(\<And>d. le (proj d) (proj (snd (f d)))) \<Longrightarrow> keeps (across proj le) (sql_row f)"
  unfolding sql_row_def by (intro framed.keeps_intros frame_sql)

lemma frame_memory: "(\<And>w. w_db (f w) = w_db w) \<Longrightarrow> keeps (across proj le) (modifyO f)"
  by (simp add: keeps_def across_def le_refl)

lemma frame_mark: "keeps (across proj le) (mark f)"
  unfolding mark_def by (rule frame_memory) simp

lemma frame_push: "keeps (across proj le) (push f)"
  unfolding push_def by (rule frame_memory) simp

lemma frame_split: "(\<And>x y. keeps (across proj le) (f x y)) \<Longrightarrow> keeps (across proj le) (case p of (x, y) \<Rightarrow> f x y)"
  by (cases p) simp

lemmas frame_intros =
  framed.keeps_intros frame_split frame_query frame_query_opt frame_query_row frame_mark
  frame_push frame_exec frame_sql frame_sql_row

text \<open>Isolated dispatch keeps the handler's tables or restores the ones it started from.\<close>

lemma frame_run_isolated:
  assumes "keeps (across proj le) (h b raw)"
  shows "across proj le w (snd (run_isolated h b key raw w))"
proof -
  obtain r1 w1 where w1: "exec (\<lambda>d. d) w = (r1, w1)" by force
  then have d1: "w_db w1 = w_db w" by (rule exec_id_db)
  obtain r2 w2 where w2: "h b raw w1 = (r2, w2)" by force
  then have "across proj le w1 w2" using keepsD [OF assms, of w1] by simp
  then have le2: "le (proj (w_db w)) (proj (w_db w2))" by (simp add: across_def d1)
  have "w_db (snd (run_isolated h b key raw w)) \<in> {w_db w, w_db w2}"
    using d1 commit_savepoint_db [of "take_savepoint w1" w2] rollback_savepoint_db [of "take_savepoint w1" w2]
    by (auto simp: run_isolated_def w1 w2 Let_def take_savepoint_def split: sum.splits prod.splits)
  then show ?thesis using le2 le_refl by (auto simp: across_def)
qed

lemma frame_run_atomic:
  assumes "keeps (across proj le) (h b raw)"
  shows "across proj le w (snd (run_atomic h b key raw w))"
  using keepsD [OF assms, of w]
  by (auto simp: run_atomic_def Let_def split: prod.splits sum.splits)

lemma frame_dispatch:
  assumes "list_all (\<lambda>(key, h). \<forall>b raw. keeps (across proj le) (h b raw)) (rt_handlers r)"
  shows "across proj le w (snd (snd (dispatch r isolated b key raw (u, w))))"
proof (cases "Lookup r key")
  case None
  then show ?thesis by (simp add: dispatch_def across_def le_refl)
next
  case (Some h)
  then have "(key, h) \<in> set (rt_handlers r)" by (auto simp: Lookup_def dest: map_of_SomeD)
  with assms have "keeps (across proj le) (h b raw)" by (auto simp: list_all_iff)
  then have "across proj le w (snd (run_isolated h b key raw w))" "across proj le w (snd (run_atomic h b key raw w))"
    by (rule frame_run_isolated, rule frame_run_atomic)
  with Some
  show ?thesis by (auto simp: dispatch_def split: prod.splits if_splits)
qed

end

end
