(* ===== verification/Native_Facts.thy ===== *)
theory Native_Facts
  imports Native Frames
begin

text \<open>
  What native staking evidence guarantees: the position totals of a snapshot are the exact
  sums of its entries, requirements and invalidations only rise, a snapshot older than a
  later request is never published, and a publication installs its whole snapshot.
\<close>

section \<open>Position totals\<close>

definition bonded_of :: "snapshot \<Rightarrow> string \<Rightarrow> nat" where
  "bonded_of s v = sum_list (map (\<lambda>x. nat_of_digits (dl_balance x))
     (filter (\<lambda>x. dl_validator x = v) (sn_delegations s)))"

definition unbonding_of :: "snapshot \<Rightarrow> string \<Rightarrow> nat" where
  "unbonding_of s v = sum_list (map (\<lambda>u. nat_of_digits (un_balance u))
     (filter (\<lambda>u. un_validator u = v) (sn_unbondings s)))"

definition entries_of :: "snapshot \<Rightarrow> string \<Rightarrow> nat" where
  "entries_of s v = length (filter (\<lambda>u. un_validator u = v) (sn_unbondings s))"

lemma total_of_Nil [simp]: "total_of [] v = zero_total"
  by (simp add: total_of_def)

lemma total_of_put: "total_of (tbl_put k p t) v = (if v = k then p else total_of t v)"
  by (simp add: total_of_def)

lemma tbl_put_keys: "fst ` set (tbl_put k r t) = insert k (fst ` set t)"
  by (auto simp: tbl_put_def tbl_del_def image_iff)

lemma delegations_fold:
  assumes "foldR add_delegation (seen, t) ds = Inr (seen', t')" "tbl_ok t" "fst ` set t \<subseteq> set seen"
  shows "tbl_ok t' \<and> fst ` set t' = fst ` set t \<union> dl_validator ` set ds \<and>
    set seen' = set seen \<union> dl_validator ` set ds \<and> list_all (\<lambda>x. dl_validator x \<notin> set seen) ds \<and>
    distinct (map dl_validator ds) \<and>
    (\<forall>v. total_of t' v = (case find (\<lambda>x. dl_validator x = v) ds of
        None \<Rightarrow> total_of t v
      | Some x \<Rightarrow> (total_of t v)\<lparr>pt_bonded := nat_of_digits (dl_balance x)\<rparr>))"
  using assms
proof (induction ds arbitrary: seen t)
  case (Cons x ds)
  let ?t = "tbl_put (dl_validator x) ((total_of t (dl_validator x))\<lparr>pt_bonded := nat_of_digits (dl_balance x)\<rparr>) t"
  from Cons.prems(1) have x: "dl_validator x \<notin> set seen"
    and step: "foldR add_delegation (dl_validator x # seen, ?t) ds = Inr (seen', t')"
    by (auto simp: add_delegation_def [of _ x] split: if_splits)
  have sub: "fst ` set ?t \<subseteq> set (dl_validator x # seen)"
    using Cons.prems(3) by (auto simp: tbl_put_keys)
  note IH = Cons.IH [OF step _ sub]
  have ok: "tbl_ok ?t" using Cons.prems(2) by simp
  have "find (\<lambda>y. dl_validator y = dl_validator x) ds = None"
    using IH [OF ok] by (auto simp: find_None_iff list_all_iff)
  with IH [OF ok] x show ?case
    by (auto simp: tbl_put_keys total_of_put list_all_iff split: option.splits)
qed simp

lemma unbondings_fold:
  assumes "foldR add_unbonding t us = Inr t'" "tbl_ok t"
  shows "tbl_ok t' \<and> fst ` set t' = fst ` set t \<union> un_validator ` set us \<and>
    (\<forall>v. pt_bonded (total_of t' v) = pt_bonded (total_of t v) \<and>
      pt_unbonding (total_of t' v) = pt_unbonding (total_of t v)
        + sum_list (map (\<lambda>u. nat_of_digits (un_balance u)) (filter (\<lambda>u. un_validator u = v) us)) \<and>
      pt_entries (total_of t' v) = pt_entries (total_of t v) + length (filter (\<lambda>u. un_validator u = v) us))"
  using assms
proof (induction us arbitrary: t)
  case (Cons u us)
  let ?p = "total_of t (un_validator u)"
  let ?t = "tbl_put (un_validator u)
    (?p\<lparr>pt_unbonding := pt_unbonding ?p + nat_of_digits (un_balance u), pt_entries := Suc (pt_entries ?p)\<rparr>) t"
  from Cons.prems(1) have step: "foldR add_unbonding ?t us = Inr t'"
    by (auto simp: add_unbonding_def [of t u] Let_def split: if_splits)
  have ok: "tbl_ok ?t" using Cons.prems(2) by simp
  from Cons.IH [OF step ok] show ?case
    by (auto simp: tbl_put_keys total_of_put)
qed simp

lemma find_sum:
  "distinct (map f ds) \<Longrightarrow>
     sum_list (map g (filter (\<lambda>x. f x = v) ds)) = (case find (\<lambda>x. f x = v) ds of None \<Rightarrow> 0 | Some x \<Rightarrow> (g x :: nat))"
proof (induction ds)
  case (Cons x ds)
  have "f x = v \<Longrightarrow> filter (\<lambda>y. f y = v) ds = []"
    using Cons.prems by (metis (mono_tags, lifting) distinct.simps(2) filter_empty_conv image_eqI list.set_map list.simps(9))
  then show ?case using Cons by auto
qed simp

lemma sum_by_key:
  "tbl_ok t \<Longrightarrow> sum_list (map (f \<circ> snd) t) = (\<Sum>v \<in> fst ` set t. (f (total_of t v) :: nat))"
proof (induction t)
  case (Cons kr t)
  obtain k r where [simp]: "kr = (k, r)" by force
  have nk: "k \<notin> fst ` set t" and ok: "tbl_ok t" using Cons.prems by (auto simp: tbl_ok_def)
  have "(\<Sum>v \<in> fst ` set t. f (total_of (kr # t) v)) = (\<Sum>v \<in> fst ` set t. f (total_of t v))"
    using nk by (intro sum.cong) (auto simp: total_of_def)
  then show ?case using Cons.IH [OF ok] nk by (simp add: total_of_def)
qed simp

lemma sum_list_filter_keys:
  "finite V \<Longrightarrow> f ` set xs \<subseteq> V \<Longrightarrow>
     (\<Sum>v\<in>V. sum_list (map g (filter (\<lambda>x. f x = v) xs))) = (sum_list (map g xs) :: nat)"
proof (induction xs)
  case (Cons x xs)
  have "(\<Sum>v\<in>V. sum_list (map g (filter (\<lambda>x. f x = v) (x # xs))))
      = (\<Sum>v\<in>V. (if f x = v then g x else 0) + sum_list (map g (filter (\<lambda>x. f x = v) xs)))"
    by (intro sum.cong) auto
  also have "\<dots> = g x + sum_list (map g xs)"
    using Cons by (simp add: sum.distrib)
  finally show ?case by simp
qed simp

lemma folded_totals:
  assumes f1: "foldR add_delegation ([], []) (sn_delegations s) = Inr (seen, t1)"
    and f2: "foldR add_unbonding t1 (sn_unbondings s) = Inr t"
  shows "tbl_ok t"
    and "fst ` set t = dl_validator ` set (sn_delegations s) \<union> un_validator ` set (sn_unbondings s)"
    and "total_of t v = \<lparr>pt_bonded = bonded_of s v, pt_unbonding = unbonding_of s v, pt_entries = entries_of s v\<rparr>"
    and "sum_list (map (pt_bonded \<circ> snd) t) = sum_list (map (\<lambda>x. nat_of_digits (dl_balance x)) (sn_delegations s))"
    and "sum_list (map (pt_unbonding \<circ> snd) t) = sum_list (map (\<lambda>u. nat_of_digits (un_balance u)) (sn_unbondings s))"
proof -
  have g1: "tbl_ok t1" "fst ` set t1 = dl_validator ` set (sn_delegations s)"
    "distinct (map dl_validator (sn_delegations s))"
    "\<And>v. total_of t1 v = (case find (\<lambda>x. dl_validator x = v) (sn_delegations s) of
        None \<Rightarrow> zero_total | Some x \<Rightarrow> zero_total\<lparr>pt_bonded := nat_of_digits (dl_balance x)\<rparr>)"
    using delegations_fold [OF f1] by (auto simp: tbl_ok_def split: option.splits)
  note g2 = unbondings_fold [OF f2 g1(1)]
  have tot: "total_of t v = \<lparr>pt_bonded = bonded_of s v, pt_unbonding = unbonding_of s v,
       pt_entries = entries_of s v\<rparr>" for v
    using g2 g1(4) [of v] find_sum [OF g1(3), of "\<lambda>x. nat_of_digits (dl_balance x)" v]
    by (auto simp: bonded_of_def unbonding_of_def entries_of_def zero_total_def
        intro!: position_total.equality split: option.splits)
  show ok: "tbl_ok t" and keys: "fst ` set t = dl_validator ` set (sn_delegations s) \<union> un_validator ` set (sn_unbondings s)"
    using g2 g1(2) by auto
  show "total_of t v = \<lparr>pt_bonded = bonded_of s v, pt_unbonding = unbonding_of s v, pt_entries = entries_of s v\<rparr>"
    by (rule tot)
  show "sum_list (map (pt_bonded \<circ> snd) t) = sum_list (map (\<lambda>x. nat_of_digits (dl_balance x)) (sn_delegations s))"
    unfolding sum_by_key [OF ok] by (simp add: tot bonded_of_def keys sum_list_filter_keys)
  show "sum_list (map (pt_unbonding \<circ> snd) t) = sum_list (map (\<lambda>u. nat_of_digits (un_balance u)) (sn_unbondings s))"
    unfolding sum_by_key [OF ok] by (simp add: tot unbonding_of_def keys sum_list_filter_keys)
qed

lemma position_totals:
  assumes "positionTotals s = Inr ps"
  shows "sorted (map fst ps) \<and> distinct (map fst ps) \<and>
    set (map fst ps) = dl_validator ` set (sn_delegations s) \<union> un_validator ` set (sn_unbondings s) \<and>
    list_all (\<lambda>(v, p). p = \<lparr>pt_bonded = bonded_of s v, pt_unbonding = unbonding_of s v,
       pt_entries = entries_of s v\<rparr>) ps \<and>
    sn_bonded s = dec_nat (sum_list (map (\<lambda>x. nat_of_digits (dl_balance x)) (sn_delegations s))) \<and>
    sn_unbonding s = dec_nat (sum_list (map (\<lambda>u. nat_of_digits (un_balance u)) (sn_unbondings s)))"
proof -
  from assms obtain seen t1 t where
    f1: "foldR add_delegation ([], []) (sn_delegations s) = Inr (seen, t1)"
    and f2: "foldR add_unbonding t1 (sn_unbondings s) = Inr t"
    and sums: "dec_nat (sum_list (map (pt_bonded \<circ> snd) t)) = sn_bonded s"
      "dec_nat (sum_list (map (pt_unbonding \<circ> snd) t)) = sn_unbonding s"
    and ps: "ps = sort_key fst t"
    by (auto simp: positionTotals_def bindR_Inr guardR_Inr split: prod.splits)
  note totals = folded_totals [OF f1 f2]
  have rows: "p = total_of t v" if "(v, p) \<in> set t" for v p
    using that totals(1) by (simp add: total_of_def tbl_get_def tbl_ok_def)
  have "distinct (map fst ps)"
    using totals(1) unfolding ps tbl_ok_def by (metis distinct_map distinct_sort set_sort)
  moreover have "set (map fst ps) = fst ` set t" by (simp add: ps)
  ultimately show ?thesis
    using sums totals rows by (auto simp: ps list_all_iff sorted_sort_key simp del: sorted_sort)
qed

text \<open>A snapshot's positions are accepted only when they are exact: one row per validator that
  appears in a delegation or an unbonding entry, in ascending order; each row's bonded
  amount, unbonding amount and number of entries are the sums over that validator's entries
  (no redelegation counted), and the totals over all validators are the snapshot's totals.\<close>

theorem position_totals_exact:
  assumes "positionTotals s = Inr ps"
  shows "sorted (map fst ps) \<and> distinct (map fst ps) \<and>
    set (map fst ps) = dl_validator ` set (sn_delegations s) \<union> un_validator ` set (sn_unbondings s) \<and>
    list_all (\<lambda>(v, p). p = \<lparr>pt_bonded = bonded_of s v, pt_unbonding = unbonding_of s v,
       pt_entries = entries_of s v\<rparr>) ps \<and>
    sn_bonded s = dec_nat (sum_list (map (\<lambda>x. nat_of_digits (dl_balance x)) (sn_delegations s))) \<and>
    sn_unbonding s = dec_nat (sum_list (map (\<lambda>u. nat_of_digits (un_balance u)) (sn_unbondings s)))"
  using assms by (rule position_totals)

section \<open>Requirements only rise\<close>

definition table_le :: "('r \<Rightarrow> int) \<Rightarrow> ('k, 'r) table \<Rightarrow> ('k, 'r) table \<Rightarrow> bool" where
  "table_le f t t' \<longleftrightarrow> (\<forall>k r. tbl_get t k = Some r \<longrightarrow> (\<exists>r'. tbl_get t' k = Some r' \<and> f r \<le> f r'))"

definition evidence ::
  "tables \<Rightarrow> (string \<times> string, native_row) table \<times> (string \<times> string, int) table" where
  "evidence d = (db_native d, db_invalidation d)"

definition evidence_le ::
  "(string \<times> string, native_row) table \<times> (string \<times> string, int) table \<Rightarrow>
     (string \<times> string, native_row) table \<times> (string \<times> string, int) table \<Rightarrow> bool" where
  "evidence_le e f \<longleftrightarrow> table_le ns_required (fst e) (fst f) \<and> table_le (\<lambda>h. h) (snd e) (snd f)"

lemma table_le_refl [simp]: "table_le f t t"
  by (simp add: table_le_def)

lemma table_le_trans: "table_le f t u \<Longrightarrow> table_le f u v \<Longrightarrow> table_le f t v"
  unfolding table_le_def by (metis order_trans)

lemma table_le_put:
  "(\<And>r. tbl_get t k = Some r \<Longrightarrow> f r \<le> f r') \<Longrightarrow> table_le f t (tbl_put k r' t)"
  by (simp add: table_le_def)

lemma table_le_fold: "(\<And>x t. table_le f t (g x t)) \<Longrightarrow> table_le f t (fold g xs t)"
  by (induction xs arbitrary: t) (auto intro: table_le_trans)

interpretation native_rises: table_frame evidence evidence_le
  by unfold_locales (auto simp: evidence_le_def intro: table_le_trans)

abbreviation native_le :: "world \<Rightarrow> world \<Rightarrow> bool" where
  "native_le \<equiv> across evidence evidence_le"

lemma evidence_leI:
  "table_le ns_required (db_native d) (db_native d') \<Longrightarrow>
     table_le (\<lambda>h. h) (db_invalidation d) (db_invalidation d') \<Longrightarrow> evidence_le (evidence d) (evidence d')"
  by (simp add: evidence_le_def evidence_def)

lemma evidence_unchanged:
  "db_native d' = db_native d \<Longrightarrow> db_invalidation d' = db_invalidation d \<Longrightarrow>
     evidence_le (evidence d) (evidence d')"
  by (simp add: evidence_leI)

lemma native_le_lock: "keeps native_le lockO"
  unfolding lockO_def by (intro native_rises.frame_intros) (simp add: evidence_unchanged)

lemma require_evidence_le: "table_le ns_required t (snd (require_evidence chain h a (ret, t)))"
  by (auto simp: require_evidence_def split: option.splits intro!: table_le_put)

lemma require_fold_le: "table_le ns_required (snd st) (snd (fold (require_evidence chain h) as st))"
proof (induction "as" arbitrary: st)
  case (Cons a "as")
  show ?case
    using Cons [of "require_evidence chain h a st"] require_evidence_le [of "snd st" chain h a "fst st"]
    by (simp add: table_le_trans)
qed simp

lemma raise_watermark_le: "table_le (\<lambda>h. h) t (raise_watermark chain h v t)"
  by (auto simp: raise_watermark_def split: option.splits intro!: table_le_put)

lemma request_statement_le:
  "table_le ns_required (db_native d) (db_native (snd (request_statement chain h as vs everyone d))) \<and>
   db_invalidation (snd (request_statement chain h as vs everyone d)) = db_invalidation d"
  using require_fold_le [of "([], db_native d)" chain h "affected_addresses chain as vs everyone d"]
  by (cases "fold (require_evidence chain h) (affected_addresses chain as vs everyone d) ([], db_native d)")
    (simp add: request_statement_def)

lemma native_le_Request: "keeps native_le (Request chain h c)"
  unfolding Request_def Let_def
  by (intro native_rises.frame_intros native_le_lock)
    (rule evidence_leI, simp_all add: request_statement_le table_le_fold raise_watermark_le del: fold_append fold_simps)+

lemma native_le_Ensure: "keeps native_le (Ensure chain h as)"
  unfolding Ensure_def
  by (intro native_rises.frame_intros native_le_lock evidence_leI)
    (auto simp: ensure_statement_def intro!: table_le_fold table_le_put split: option.splits)

lemma native_le_publish_statement:
  "table_le ns_required (db_native d) (db_native (snd (publish_statement s vs d))) \<and>
   db_invalidation (snd (publish_statement s vs d)) = db_invalidation d"
  by (auto simp: publish_statement_def Let_def split: option.splits intro!: table_le_put)

lemma native_le_Publish: "keeps native_le (Publish s)"
  unfolding Publish_def reconcileReceipts_def replacePositions_def
  by (intro native_rises.frame_intros native_le_lock evidence_leI)
    (simp_all add: native_le_publish_statement drop_exposure_def insert_exposure_def)

lemma native_le_RetryLater: "keeps native_le (RetryLater p chain a h after)"
  unfolding RetryLater_def
  by (intro native_rises.frame_intros native_le_lock evidence_leI)
    (auto intro!: table_le_put split: option.splits)

lemma native_le_Invalidate: "keeps native_le (Invalidate owners chain h c)"
  unfolding Invalidate_def Let_def
  by (intro native_rises.frame_intros native_le_Request native_le_Ensure)

lemma request_receipt_le: "table_le ns_required t (request_receipt x t)"
  by (auto simp: request_receipt_def Let_def split: option.splits intro!: table_le_put)

lemma native_le_flushDefusion: "keeps native_le (flushDefusion rows)"
  unfolding flushDefusion_def flush_defusion_batch_def Let_def
  by (intro native_rises.frame_intros evidence_leI) (simp_all add: table_le_fold request_receipt_le)

text \<open>The transactions that touch native evidence, committed or not, in any order.\<close>

inductive native_step :: "world \<Rightarrow> world \<Rightarrow> bool" where
  step_Request: "native_step w (snd (Request chain h c w))"
| step_Ensure: "native_step w (snd (Ensure chain h as w))"
| step_Invalidate: "native_step w (snd (Invalidate owners chain h c w))"
| step_Publish: "native_step w (snd (Publish s w))"
| step_RetryLater: "native_step w (snd (RetryLater is_pending chain a h after w))"
| step_flush: "native_step w (snd (flushDefusion rows w))"

inductive native_steps :: "world \<Rightarrow> world \<Rightarrow> bool" where
  native_done: "native_steps w w"
| native_more: "native_step w v \<Longrightarrow> native_steps v u \<Longrightarrow> native_steps w u"

lemma native_step_le: "native_step w v \<Longrightarrow> native_le w v"
  by (induction rule: native_step.induct)
    (rule keepsD, (rule native_le_Request native_le_Ensure native_le_Invalidate native_le_Publish
       native_le_RetryLater native_le_flushDefusion))+

lemma native_steps_le: "native_steps w v \<Longrightarrow> native_le w v"
  by (induction rule: native_steps.induct) (auto intro: native_step_le native_rises.framed.R_refl native_rises.framed.R_trans)

section \<open>Publication\<close>

definition evidence_key :: "snapshot \<Rightarrow> string \<times> string" where
  "evidence_key s = (sn_chain s, sn_address s)"

definition evidence_current :: "snapshot \<Rightarrow> tables \<Rightarrow> native_row \<Rightarrow> bool" where
  "evidence_current s d r \<longleftrightarrow>
     ns_required r \<le> sn_height s \<and>
     (\<exists>c. tbl_get (sy_cursor (db_sync d)) (sn_chain s) = Some c \<and> sn_height s \<le> cu_height c) \<and>
     (\<forall>v \<in> insert [] (set (snapshot_validators s)). \<forall>h.
        tbl_get (db_invalidation d) (sn_chain s, v) = Some h \<longrightarrow> h \<le> sn_height s)"

definition validators_of :: "snapshot \<Rightarrow> string set" where
  "validators_of s = dl_validator ` set (sn_delegations s) \<union> un_validator ` set (sn_unbondings s)"

definition certified :: "snapshot \<Rightarrow> native_row \<Rightarrow> native_row" where
  "certified s r = r\<lparr>ns_source := Some (sn_height s), ns_bonded := sn_bonded s,
     ns_unbonding := sn_unbonding s, ns_retry := None, ns_receipts_pending := False,
     ns_positions_complete := True\<rparr>"

definition position_at :: "snapshot \<Rightarrow> string \<Rightarrow> native_position_row option" where
  "position_at s v = (if v \<in> validators_of s then
     Some \<lparr>np_bonded = dec_nat (bonded_of s v), np_unbonding = dec_nat (unbonding_of s v),
           np_entries = entries_of s v\<rparr> else None)"

text \<open>Everything a publication changes, and nothing else, in the evidence tables.\<close>

definition installed :: "snapshot \<Rightarrow> tables \<Rightarrow> tables \<Rightarrow> bool" where
  "installed s d d' \<longleftrightarrow>
     (\<exists>r. tbl_get (db_native d) (evidence_key s) = Some r \<and> evidence_current s d r \<and>
        (\<forall>k. tbl_get (db_native d') k =
           (if k = evidence_key s then Some (certified s r) else tbl_get (db_native d) k))) \<and>
     (\<forall>c v a. (c, v, a) \<in> set (db_exposure d') \<longleftrightarrow>
        (if (c, a) = evidence_key s then v \<in> set (snapshot_validators s) else (c, v, a) \<in> set (db_exposure d))) \<and>
     (\<forall>c a v. tbl_get (db_position d') (c, a, v) =
        (if (c, a) = evidence_key s then position_at s v else tbl_get (db_position d) (c, a, v))) \<and>
     db_invalidation d' = db_invalidation d \<and> db_sync d' = db_sync d \<and>
     db_defusion d' = map (reconcile_receipt s) (db_defusion d)"

lemma uniqueAddresses_set: "uniqueAddresses vs p = Inr us \<Longrightarrow> set us = set vs"
  by (auto simp: uniqueAddresses_def bindR_Inr)

lemma case_option_all: "(case x of None \<Rightarrow> True | Some h \<Rightarrow> P h) \<longleftrightarrow> (\<forall>h. x = Some h \<longrightarrow> P h)"
  by (cases x) simp_all

lemma case_option_ex: "(case x of None \<Rightarrow> False | Some h \<Rightarrow> P h) \<longleftrightarrow> (\<exists>h. x = Some h \<and> P h)"
  by (cases x) simp_all

lemma publishable_current:
  "publishable s us d r \<Longrightarrow> set us = set (snapshot_validators s) \<Longrightarrow> evidence_current s d r"
  unfolding publishable_def evidence_current_def list_all_iff case_option_all case_option_ex list.set
  by simp

lemma positions_installed:
  assumes "positionTotals s = Inr ps"
  shows "map_of (map (\<lambda>(v, p). ((c, a, v), position_row p)) ps) (c, a, v) = position_at s v"
proof -
  have ex: "distinct (map fst ps)" "set (map fst ps) = validators_of s"
    "\<And>v p. (v, p) \<in> set ps \<Longrightarrow> p = \<lparr>pt_bonded = bonded_of s v, pt_unbonding = unbonding_of s v,
       pt_entries = entries_of s v\<rparr>"
    using position_totals [OF assms] by (auto simp: validators_of_def list_all_iff)
  have "map_of (map (\<lambda>(v, p). ((c, a, v), position_row p)) ps) (c, a, v) = map_option position_row (map_of ps v)"
    by (induction ps) auto
  also have "\<dots> = position_at s v"
  proof (cases "map_of ps v")
    case None
    then show ?thesis using ex(2) by (auto simp: position_at_def map_of_eq_None_iff)
  next
    case (Some p)
    then have "(v, p) \<in> set ps" by (rule map_of_SomeD)
    then have "v \<in> validators_of s" using ex(2) by force
    with Some ex(3) [OF \<open>(v, p) \<in> set ps\<close>] show ?thesis by (simp add: position_at_def position_row_def)
  qed
  finally show ?thesis .
qed

lemma positions_elsewhere:
  "(c', a') \<noteq> (c, a) \<Longrightarrow> map_of (map (\<lambda>(v, p). ((c, a, v), position_row p)) ps) (c', a', v) = None"
  by (induction ps) auto

lemma publish_statement_case:
  "publish_statement s us d = (n, d') \<Longrightarrow>
     (if n = 0 then d' = d
      else \<exists>r. tbl_get (db_native d) (evidence_key s) = Some r \<and> publishable s us d r \<and>
        d' = d\<lparr>db_native := tbl_put (evidence_key s) (certified s r) (db_native d)\<rparr>)"
  by (auto simp: publish_statement_def Let_def evidence_key_def certified_def split: option.splits if_splits)

lemma lockO_db: "lockO w = (Inr u, w') \<Longrightarrow> w_db w' = w_db w"
  by (auto simp: lockO_def wrapO_Inr exec_def sql_Inr)

lemma lockO_then:
  assumes "bindO lockO k w = (Inr y, w')"
  obtains v where "w_db v = w_db w" "k () v = (Inr y, w')"
  using assms by (auto simp: bindO_Inr dest: lockO_db)

lemma replacePositions_db:
  assumes "replacePositions s ps w = (Inr u, w')"
  shows "w_db w' = (w_db w)\<lparr>db_position :=
       tbl_filter (\<lambda>(c, a, v) r. \<not> (c = sn_chain s \<and> a = sn_address s)) (db_position (w_db w))
       @ map (\<lambda>(v, p). ((sn_chain s, sn_address s, v), position_row p)) ps\<rparr>"
proof -
  from assms obtain v where v: "w_db v = (w_db w)\<lparr>db_position :=
        tbl_filter (\<lambda>(c, a, v) r. \<not> (c = sn_chain s \<and> a = sn_address s)) (db_position (w_db w))\<rparr>"
    and rest: "whenO (ps \<noteq> []) (exec (\<lambda>d. d\<lparr>db_position := db_position d
        @ map (\<lambda>(v, p). ((sn_chain s, sn_address s, v), position_row p)) ps\<rparr>)) v = (Inr u, w')"
    unfolding replacePositions_def by (rule exec_then)
  show ?thesis
  proof (cases "ps = []")
    case True
    with rest v show ?thesis by simp
  next
    case False
    with rest have "w_db w' = (w_db v)\<lparr>db_position := db_position (w_db v)
        @ map (\<lambda>(v, p). ((sn_chain s, sn_address s, v), position_row p)) ps\<rparr>"
      by (simp add: whenO_def exec_Inr)
    with v show ?thesis by simp
  qed
qed

lemma Publish_outcome:
  assumes "Publish s w = (Inr ok, w')"
  shows "if ok then installed s (w_db w) (w_db w') else w_db w' = w_db w"
proof -
  note g = guardO_then [OF assms [unfolded Publish_def]]
  from g obtain us where us: "uniqueAddresses (snapshot_validators s) validator_prefix = Inr us"
    and a1: "bindO (liftO (positionTotals s)) (\<lambda>ps. bindO lockO (\<lambda>_.
       bindO (sql (publish_statement s us)) (\<lambda>n. if n = 0 then returnO False else
       bindO (exec (drop_exposure s)) (\<lambda>_.
       bindO (exec (insert_exposure s us)) (\<lambda>_.
       bindO (reconcileReceipts s) (\<lambda>_.
       bindO (replacePositions s ps) (\<lambda>_. returnO True))))))) w = (Inr ok, w')"
    by (blast elim: liftO_then)
  from a1 obtain ps w1 where ps: "positionTotals s = Inr ps" and lock: "w_db w1 = w_db w"
    and a2: "bindO (sql (publish_statement s us)) (\<lambda>n. if n = 0 then returnO False else
       bindO (exec (drop_exposure s)) (\<lambda>_.
       bindO (exec (insert_exposure s us)) (\<lambda>_.
       bindO (reconcileReceipts s) (\<lambda>_.
       bindO (replacePositions s ps) (\<lambda>_. returnO True))))) w1 = (Inr ok, w')"
    by (blast elim: liftO_then lockO_then)
  from a2 obtain n w2 where st: "publish_statement s us (w_db w) = (n, w_db w2)"
    and rest: "(if n = 0 then returnO False else
       bindO (exec (drop_exposure s)) (\<lambda>_.
       bindO (exec (insert_exposure s us)) (\<lambda>_.
       bindO (reconcileReceipts s) (\<lambda>_.
       bindO (replacePositions s ps) (\<lambda>_. returnO True))))) w2 = (Inr ok, w')"
    unfolding lock [symmetric] by (rule sql_then)
  note vs = uniqueAddresses_set [OF us]
  show ?thesis
  proof (cases "n = 0")
    case True
    with rest publish_statement_case [OF st] show ?thesis by simp
  next
    case False
    with publish_statement_case [OF st] obtain r where
      r: "tbl_get (db_native (w_db w)) (evidence_key s) = Some r" "publishable s us (w_db w) r"
      and d2: "w_db w2 = (w_db w)\<lparr>db_native := tbl_put (evidence_key s) (certified s r) (db_native (w_db w))\<rparr>"
      by auto
    from rest False obtain w3 where d3: "w_db w3 = drop_exposure s (w_db w2)"
      and c3: "bindO (exec (insert_exposure s us)) (\<lambda>_. bindO (reconcileReceipts s) (\<lambda>_.
         bindO (replacePositions s ps) (\<lambda>_. returnO True))) w3 = (Inr ok, w')"
      by (auto elim: exec_then)
    from c3 obtain w4 where d4: "w_db w4 = insert_exposure s us (w_db w3)"
      and c4: "bindO (reconcileReceipts s) (\<lambda>_.
         bindO (replacePositions s ps) (\<lambda>_. returnO True)) w4 = (Inr ok, w')"
      by (rule exec_then)
    from c4 obtain w5 where
      d5: "w_db w5 = (w_db w4)\<lparr>db_defusion := map (reconcile_receipt s) (db_defusion (w_db w4))\<rparr>"
      and last: "bindO (replacePositions s ps) (\<lambda>_. returnO True) w5 = (Inr ok, w')"
      unfolding reconcileReceipts_def by (rule exec_then)
    from last have ok: "ok" and d6: "w_db w' = (w_db w5)\<lparr>db_position :=
       tbl_filter (\<lambda>(c, a, v) r. \<not> (c = sn_chain s \<and> a = sn_address s)) (db_position (w_db w5))
       @ map (\<lambda>(v, p). ((sn_chain s, sn_address s, v), position_row p)) ps\<rparr>"
      by (auto simp: bindO_Inr dest: replacePositions_db)
    have pos: "tbl_get (db_position (w_db w')) (c, a, v) =
        (if (c, a) = evidence_key s then position_at s v else tbl_get (db_position (w_db w)) (c, a, v))" for c a v
      using positions_installed [OF ps, of "sn_chain s" "sn_address s" v]
        positions_elsewhere [of c a "sn_chain s" "sn_address s" ps v] d2 d3 d4 d5
        map_of_filter_key [of "\<lambda>(c, a, v). \<not> (c = sn_chain s \<and> a = sn_address s)" "db_position (w_db w)" "(c, a, v)"]
      by (auto simp: d6 drop_exposure_def insert_exposure_def tbl_get_def tbl_filter_def map_add_def
          evidence_key_def case_prod_unfold split: option.splits)
    show ?thesis
      using ok r publishable_current [OF r(2) vs] vs d2 d3 d4 d5 d6 pos
      by (auto simp: installed_def drop_exposure_def insert_exposure_def evidence_key_def)
  qed
qed

text \<open>C31: A publication either changes nothing, or the snapshot was certified against the state it
  found (its height is at least every required height and at most the chain's cursor, and no
  later invalidation names one of its validators or the whole chain) and then its totals, its
  exposure index, its per-validator positions and its receipts are installed together, with
  every other account's evidence, exposure and positions untouched.\<close>

theorem publication_installs_snapshot:
  assumes "Publish s w = (Inr ok, w')"
  shows "if ok then installed s (w_db w) (w_db w') else w_db w' = w_db w"
  using assms by (rule Publish_outcome)

section \<open>Requests outlive stale snapshots\<close>

text \<open>Whether a request concerns a snapshot: its address is named or exposed to a named
  validator, the snapshot involves a named validator, or every account is invalidated.\<close>

definition concerns :: "string \<Rightarrow> changes \<Rightarrow> tables \<Rightarrow> snapshot \<Rightarrow> bool" where
  "concerns chain c d s \<longleftrightarrow> ch_all c \<or> sn_address s \<in> set (ch_addresses c) \<or>
     (\<exists>v \<in> set (ch_validators c). v \<in> set (snapshot_validators s) \<or>
        (chain, v, sn_address s) \<in> set (db_exposure d))"

definition at_least :: "(string \<times> string, 'r) table \<Rightarrow> ('r \<Rightarrow> int) \<Rightarrow> string \<times> string \<Rightarrow> int \<Rightarrow> bool" where
  "at_least t f k h \<longleftrightarrow> (\<exists>r. tbl_get t k = Some r \<and> h \<le> f r)"

lemma at_least_le: "at_least t f k h \<Longrightarrow> table_le f t u \<Longrightarrow> at_least u f k h"
  unfolding at_least_def table_le_def by (meson order_trans)

lemma require_evidence_at:
  "at_least (snd (require_evidence chain h a st)) ns_required (chain, a) h"
  by (auto simp: require_evidence_def at_least_def new_native_def split: prod.splits option.splits)

lemma require_fold_at:
  "a \<in> set as \<Longrightarrow> at_least (snd (fold (require_evidence chain h) as st)) ns_required (chain, a) h"
proof (induction "as" arbitrary: st)
  case (Cons b "as")
  show ?case
  proof (cases "a = b")
    case True
    show ?thesis
      using at_least_le [OF require_evidence_at require_fold_le] by (simp add: True)
  qed (use Cons in simp)
qed simp

lemma raise_watermark_at: "at_least (raise_watermark chain h v t) (\<lambda>x. x) (chain, v) h"
  by (auto simp: raise_watermark_def at_least_def split: option.splits)

lemma raise_fold_at:
  "v \<in> set vs \<Longrightarrow> at_least (fold (raise_watermark chain h) vs t) (\<lambda>x. x) (chain, v) h"
proof (induction vs arbitrary: t)
  case (Cons x vs)
  show ?case
  proof (cases "v = x")
    case True
    have "table_le (\<lambda>x. x) u (fold (raise_watermark chain h) vs u)" for u
      by (rule table_le_fold) (rule raise_watermark_le)
    from at_least_le [OF raise_watermark_at this] show ?thesis by (simp add: True)
  qed (use Cons in simp)
qed simp

definition blocked :: "snapshot \<Rightarrow> int \<Rightarrow> tables \<Rightarrow> bool" where
  "blocked s h d \<longleftrightarrow> at_least (db_native d) ns_required (evidence_key s) h \<or>
     (\<exists>v \<in> insert [] (set (snapshot_validators s)). at_least (db_invalidation d) (\<lambda>x. x) (sn_chain s, v) h)"

lemma blocked_le: "blocked s h (w_db w) \<Longrightarrow> native_le w v \<Longrightarrow> blocked s h (w_db v)"
  by (auto simp: blocked_def across_def evidence_le_def evidence_def dest: at_least_le)

lemma blocked_current:
  "blocked s h d \<Longrightarrow> tbl_get (db_native d) (evidence_key s) = Some r \<Longrightarrow> evidence_current s d r \<Longrightarrow>
     h \<le> sn_height s"
  unfolding blocked_def at_least_def evidence_current_def evidence_key_def by fastforce

lemma Request_statements:
  assumes "Request chain h c w = (Inr ret, w')" "ch_addresses c \<noteq> [] \<or> ch_validators c \<noteq> [] \<or> ch_all c"
  obtains as vs where "set as = set (ch_addresses c)" "set vs = set (ch_validators c)"
    "w_db w' = snd (request_statement chain h as vs (ch_all c)
       (let ws = vs @ (if ch_all c then [[]] else []) in
        if ws = [] then w_db w
        else (w_db w)\<lparr>db_invalidation := fold (raise_watermark chain h) ws (db_invalidation (w_db w))\<rparr>))"
proof -
  note g = guardO_then [OF assms(1) [unfolded Request_def]]
  from g obtain "as" vs where "as": "uniqueAddresses (ch_addresses c) account_prefix = Inr as"
    and vs: "uniqueAddresses (ch_validators c) validator_prefix = Inr vs"
    and rest: "(if as = [] \<and> vs = [] \<and> \<not> ch_all c then returnO [] else
       let watermarks = vs @ (if ch_all c then [[]] else []) in
       bindO lockO (\<lambda>_.
       bindO (whenO (watermarks \<noteq> []) (exec (\<lambda>d.
          d\<lparr>db_invalidation := fold (raise_watermark chain h) watermarks (db_invalidation d)\<rparr>))) (\<lambda>_.
       wrapO ''invalidate native staking evidence: ''
         (sql (request_statement chain h as vs (ch_all c)))))) w = (Inr ret, w')"
    by (blast elim: liftO_then)
  note sets = uniqueAddresses_set [OF as] uniqueAddresses_set [OF vs]
  let ?ws = "vs @ (if ch_all c then [[]] else [])"
  have "\<not> (as = [] \<and> vs = [] \<and> \<not> ch_all c)" using assms(2) sets by auto
  with rest have "bindO lockO (\<lambda>_.
       bindO (whenO (?ws \<noteq> []) (exec (\<lambda>d.
          d\<lparr>db_invalidation := fold (raise_watermark chain h) ?ws (db_invalidation d)\<rparr>))) (\<lambda>_.
       wrapO ''invalidate native staking evidence: ''
         (sql (request_statement chain h as vs (ch_all c))))) w = (Inr ret, w')"
    by (simp only: Let_def if_False)
  then obtain w1 w2 where lock: "w_db w1 = w_db w"
    and marks: "whenO (?ws \<noteq> []) (exec (\<lambda>d.
          d\<lparr>db_invalidation := fold (raise_watermark chain h) ?ws (db_invalidation d)\<rparr>)) w1 = (Inr (), w2)"
    and st: "wrapO ''invalidate native staking evidence: ''
         (sql (request_statement chain h as vs (ch_all c))) w2 = (Inr ret, w')"
    by (auto elim!: lockO_then simp: bindO_Inr [of "whenO b m" for b m])
  have "w_db w2 = (if ?ws = [] then w_db w
      else (w_db w)\<lparr>db_invalidation := fold (raise_watermark chain h) ?ws (db_invalidation (w_db w))\<rparr>)"
  proof (cases "?ws = []")
    case True
    with marks show ?thesis by (simp only: lock whenO_case) simp
  next
    case False
    with marks have "exec (\<lambda>d. d\<lparr>db_invalidation := fold (raise_watermark chain h) ?ws (db_invalidation d)\<rparr>) w1 = (Inr (), w2)"
      by (simp only: whenO_case if_True simp_thms)
    from exec_Inr [OF this] show ?thesis by (simp only: lock False if_False)
  qed
  with st show thesis
    by (intro that [OF sets]) (simp add: wrapO_Inr sql_Inr Let_def del: fold_append)
qed

lemma Request_blocks:
  assumes run: "Request chain h c w = (Inr ret, w')"
    and con: "concerns chain c (w_db w) s" and chain: "sn_chain s = chain"
  shows "blocked s h (w_db w')"
proof -
  have some: "ch_addresses c \<noteq> [] \<or> ch_validators c \<noteq> [] \<or> ch_all c"
    using con by (auto simp: concerns_def)
  from Request_statements [OF run some] obtain "as" vs where
    sets: "set as = set (ch_addresses c)" "set vs = set (ch_validators c)"
    and db: "w_db w' = snd (request_statement chain h as vs (ch_all c)
       (let ws = vs @ (if ch_all c then [[]] else []) in
        if ws = [] then w_db w
        else (w_db w)\<lparr>db_invalidation := fold (raise_watermark chain h) ws (db_invalidation (w_db w))\<rparr>))"
    by blast
  let ?ws = "vs @ (if ch_all c then [[]] else [])"
  have inv: "at_least (db_invalidation (w_db w')) (\<lambda>x. x) (chain, v) h" if "v \<in> set ?ws" for v
  proof -
    have "?ws \<noteq> []" using that by auto
    then have "db_invalidation (w_db w') = fold (raise_watermark chain h) ?ws (db_invalidation (w_db w))"
      unfolding db using request_statement_le by (simp add: Let_def del: fold_append)
    with raise_fold_at [OF that] show ?thesis by simp
  qed
  have nat: "at_least (db_native (w_db w')) ns_required (chain, a) h"
    if "a \<in> set (affected_addresses chain as vs (ch_all c) (w_db w))" for a
  proof -
    define d2 where "d2 = (if ?ws = [] then w_db w
        else (w_db w)\<lparr>db_invalidation := fold (raise_watermark chain h) ?ws (db_invalidation (w_db w))\<rparr>)"
    have "affected_addresses chain as vs (ch_all c) d2 = affected_addresses chain as vs (ch_all c) (w_db w)"
      by (simp add: d2_def affected_addresses_def)
    moreover have "db_native (w_db w') = snd (fold (require_evidence chain h)
        (affected_addresses chain as vs (ch_all c) d2) ([], db_native d2))"
      unfolding db Let_def d2_def [symmetric] by (simp add: request_statement_def case_prod_unfold)
    ultimately show ?thesis using require_fold_at [OF that] by simp
  qed
  from con consider "ch_all c" | "sn_address s \<in> set (ch_addresses c)"
    | v where "v \<in> set (ch_validators c)" "v \<in> set (snapshot_validators s)"
    | v where "v \<in> set (ch_validators c)" "(chain, v, sn_address s) \<in> set (db_exposure (w_db w))"
    by (auto simp: concerns_def)
  then show ?thesis
  proof cases
    case 1
    then show ?thesis using inv [of "[]"] chain by (auto simp: blocked_def)
  next
    case 2
    then show ?thesis using nat [of "sn_address s"] sets chain
      by (auto simp: blocked_def evidence_key_def affected_addresses_def)
  next
    case 3
    then show ?thesis using inv [of v] sets chain by (auto simp: blocked_def)
  next
    case 4
    then have "sn_address s \<in> set (affected_addresses chain as vs (ch_all c) (w_db w))"
      using sets by (force simp: affected_addresses_def)
    then show ?thesis using nat chain by (auto simp: blocked_def evidence_key_def)
  qed
qed

text \<open>C25: Once a block at height h has requested fresh evidence that concerns a snapshot's account
  (by its address, by a validator it is exposed to or involves, or for the whole chain), no
  sequence of later transactions, whatever its order and whether they succeed or fail, makes
  a snapshot older than h publishable: a publication that is accepted afterwards has height
  at least h.\<close>

theorem request_blocks_stale_snapshots:
  assumes "Request (sn_chain s) h c w = (Inr ret, w1)" "concerns (sn_chain s) c (w_db w) s"
    and "native_steps w1 w2" "Publish s w2 = (Inr True, w3)"
  shows "h \<le> sn_height s"
proof -
  have "blocked s h (w_db w2)"
    using Request_blocks [OF assms(1,2) refl] native_steps_le [OF assms(3)] by (rule blocked_le)
  moreover obtain r where "tbl_get (db_native (w_db w2)) (evidence_key s) = Some r" "evidence_current s (w_db w2) r"
    using Publish_outcome [OF assms(4)] by (auto simp: installed_def)
  ultimately show ?thesis by (rule blocked_current)
qed

section \<open>An accepted publication\<close>

definition example_address :: string where "example_address = ''structs1q''"
definition example_operator :: string where "example_operator = ''structsvaloper1p''"

definition example_snapshot :: snapshot where
  "example_snapshot =
     \<lparr>sn_chain = ''c'', sn_address = example_address, sn_height = 7,
      sn_delegations = [\<lparr>dl_validator = example_operator, dl_shares = ''3'', dl_balance = ''3''\<rparr>],
      sn_unbondings = [\<lparr>un_validator = example_operator, un_creation = 4, un_completion = 0,
        un_initial = ''2'', un_balance = ''2'', un_id = 1, un_hold = 0\<rparr>],
      sn_redelegations = [], sn_bonded = ''3'', sn_unbonding = ''2''\<rparr>"

definition example_changes :: changes where
  "example_changes = \<lparr>ch_addresses = [example_address], ch_validators = [example_operator], ch_all = False\<rparr>"

definition example_start :: world where
  "example_start =
     \<lparr>w_db = on_sync (\<lambda>y. y\<lparr>sy_cursor := [(''c'', \<lparr>cu_height = 9, cu_hash = None, cu_time = None,
        cu_status = None, cu_lag = None, cu_tip = None\<rparr>)]\<rparr>) empty_tables,
      w_buf = new_buffer, w_dirty = NewDirty, w_aborted = False, w_clock = 0, w_fault = (\<lambda>n. None)\<rparr>"

lemma example_request: "fst (Request ''c'' 5 example_changes example_start) = Inr [example_address]"
  by code_simp

lemma example_publish:
  "fst (Publish example_snapshot (snd (Request ''c'' 5 example_changes example_start))) = Inr True"
  by code_simp

lemma example_positions:
  "positionTotals example_snapshot
     = Inr [(example_operator, \<lparr>pt_bonded = 3, pt_unbonding = 2, pt_entries = 1\<rparr>)]"
  by code_simp

theorem position_totals_exact_witness:
  "bonded_of example_snapshot example_operator = 3 \<and> unbonding_of example_snapshot example_operator = 2 \<and>
   entries_of example_snapshot example_operator = 1"
  using position_totals_exact [OF example_positions] by simp

theorem publication_installs_snapshot_witness:
  "installed example_snapshot (w_db (snd (Request ''c'' 5 example_changes example_start)))
     (w_db (snd (Publish example_snapshot (snd (Request ''c'' 5 example_changes example_start)))))"
  using publication_installs_snapshot [of example_snapshot "snd (Request ''c'' 5 example_changes example_start)" True
      "snd (Publish example_snapshot (snd (Request ''c'' 5 example_changes example_start)))"]
    example_publish by (simp add: prod_eq_iff)

theorem request_blocks_stale_snapshots_witness:
  "(5 :: int) \<le> sn_height example_snapshot"
proof (rule request_blocks_stale_snapshots)
  show "Request (sn_chain example_snapshot) 5 example_changes example_start
      = (Inr [example_address], snd (Request ''c'' 5 example_changes example_start))"
    using example_request by (simp add: prod_eq_iff example_snapshot_def)
  show "concerns (sn_chain example_snapshot) example_changes (w_db example_start) example_snapshot"
    by (simp add: concerns_def example_changes_def example_snapshot_def)
  show "native_steps (snd (Request ''c'' 5 example_changes example_start))
      (snd (Request ''c'' 5 example_changes example_start))"
    by (rule native_done)
  show "Publish example_snapshot (snd (Request ''c'' 5 example_changes example_start))
      = (Inr True, snd (Publish example_snapshot (snd (Request ''c'' 5 example_changes example_start))))"
    using example_publish by (simp add: prod_eq_iff)
qed

section \<open>Receipts\<close>

text \<open>What may happen to a stored receipt: its bank columns never change, a retired receipt never
  changes again, and the height it was last reconciled at only rises.\<close>

definition receipt_kept :: "stored_defusion \<Rightarrow> stored_defusion \<Rightarrow> bool" where
  "receipt_kept x y \<longleftrightarrow> sd_row y = sd_row x \<and> (sd_retired x \<noteq> None \<longrightarrow> y = x) \<and>
     (\<forall>h. sd_reconciled x = Some h \<longrightarrow> (\<exists>h'. sd_reconciled y = Some h' \<and> h \<le> h'))"

definition receipts_le :: "stored_defusion list \<Rightarrow> stored_defusion list \<Rightarrow> bool" where
  "receipts_le xs ys \<longleftrightarrow> (\<exists>us vs. ys = us @ vs \<and> list_all2 receipt_kept xs us)"

lemma receipt_kept_refl [simp]: "receipt_kept x x"
  by (simp add: receipt_kept_def)

lemma receipt_kept_trans: "receipt_kept x y \<Longrightarrow> receipt_kept y z \<Longrightarrow> receipt_kept x z"
  unfolding receipt_kept_def by (metis order_trans)

lemma receipts_le_refl [simp]: "receipts_le xs xs"
  unfolding receipts_le_def
  by (rule exI [of _ xs], rule exI [of _ "[]"]) (simp add: list_all2_same)

lemma receipts_le_trans:
  assumes "receipts_le xs ys" "receipts_le ys zs"
  shows "receipts_le xs zs"
proof -
  obtain a b where a: "ys = a @ b" "list_all2 receipt_kept xs a"
    using assms(1) by (auto simp: receipts_le_def)
  obtain c d where c: "zs = c @ d" "list_all2 receipt_kept (a @ b) c"
    using assms(2) a(1) by (auto simp: receipts_le_def)
  from c(2) obtain a' b' where ab: "c = a' @ b'" "list_all2 receipt_kept a a'"
    by (auto simp: list_all2_append1)
  have "list_all2 receipt_kept xs a'"
    by (rule list_all2_trans [OF receipt_kept_trans a(2) ab(2)])
  with c(1) ab(1) show ?thesis
    unfolding receipts_le_def by (metis append.assoc)
qed

interpretation receipts: table_frame db_defusion receipts_le
  by unfold_locales (simp, rule receipts_le_trans)

abbreviation receipts_kept :: "world \<Rightarrow> world \<Rightarrow> bool" where
  "receipts_kept \<equiv> across db_defusion receipts_le"

lemma receipts_le_append [simp]: "receipts_le xs (xs @ ys)"
  unfolding receipts_le_def by (rule exI [of _ xs]) (simp add: list_all2_same)

lemma reconcile_receipt_kept: "receipt_kept x (reconcile_receipt s x)"
  by (auto simp: receipt_kept_def reconcile_receipt_def receipt_due_def split: option.splits)

lemma receipts_le_reconcile: "receipts_le xs (map (reconcile_receipt s) xs)"
  unfolding receipts_le_def
  by (rule exI [of _ "map (reconcile_receipt s) xs"], rule exI [of _ "[]"])
    (simp add: list_all2_map2 list_all2_same reconcile_receipt_kept)

lemma receipts_lock: "keeps receipts_kept lockO"
  unfolding lockO_def by (intro receipts.frame_intros) simp

lemma receipts_Request: "keeps receipts_kept (Request chain h c)"
  unfolding Request_def Let_def
  by (intro receipts.frame_intros receipts_lock) (simp_all add: request_statement_def split: prod.splits)

lemma receipts_Ensure: "keeps receipts_kept (Ensure chain h as)"
  unfolding Ensure_def by (intro receipts.frame_intros receipts_lock) (simp_all add: ensure_statement_def)

lemma receipts_Invalidate: "keeps receipts_kept (Invalidate owners chain h c)"
  unfolding Invalidate_def Let_def by (intro receipts.frame_intros receipts_Request receipts_Ensure)

lemma receipts_Publish: "keeps receipts_kept (Publish s)"
  unfolding Publish_def replacePositions_def reconcileReceipts_def
  by (intro receipts.frame_intros receipts_lock)
    (simp_all add: publish_statement_def Let_def drop_exposure_def insert_exposure_def
      receipts_le_reconcile split: option.splits)

lemma receipts_RetryLater: "keeps receipts_kept (RetryLater p chain a h after)"
  unfolding RetryLater_def by (intro receipts.frame_intros receipts_lock) (simp split: option.splits)

lemma receipts_flush: "keeps receipts_kept (flushDefusion rows)"
  unfolding flushDefusion_def flush_defusion_batch_def Let_def
  by (intro receipts.frame_intros) simp

lemma native_step_receipts: "native_step w v \<Longrightarrow> receipts_kept w v"
  by (induction rule: native_step.induct)
    (rule keepsD, (rule receipts_Request receipts_Ensure receipts_Invalidate receipts_Publish
       receipts_RetryLater receipts_flush))+

lemma native_steps_receipts: "native_steps w v \<Longrightarrow> receipts_kept w v"
  by (induction rule: native_steps.induct) (auto intro: native_step_receipts receipts.framed.R_refl receipts.framed.R_trans)

text \<open>C32: Over any sequence of native-evidence transactions, in any order and with any failures, no
  receipt is lost or reordered: the stored receipts stay a prefix of the table, their bank
  columns never change, a receipt that was retired is never changed again (in particular
  never un-retired), and the height a receipt was last reconciled at never falls.\<close>

theorem receipts_never_revived:
  assumes "native_steps w w'" "i < length (db_defusion (w_db w))"
  shows "i < length (db_defusion (w_db w')) \<and>
    receipt_kept (db_defusion (w_db w) ! i) (db_defusion (w_db w') ! i)"
proof -
  from native_steps_receipts [OF assms(1)] obtain us vs where
    u: "db_defusion (w_db w') = us @ vs" "list_all2 receipt_kept (db_defusion (w_db w)) us"
    by (auto simp: across_def receipts_le_def)
  with assms(2) show ?thesis by (auto simp: list_all2_conv_all_nth nth_append)
qed

definition example_receipt_row :: defusion_row where
  "example_receipt_row =
     \<lparr>dr_chain = ''c'', dr_height = 4, dr_tx = 0, dr_event = 0, dr_source_validator = [],
      dr_validator = example_operator, dr_delegator = example_address, dr_type = ''u'',
      dr_amount = ''2'', dr_denom = ''ualpha'', dr_completed = 0, dr_created = 0\<rparr>"

lemma example_flushed: "length (db_defusion (w_db (snd (flushDefusion [example_receipt_row] example_start)))) = 1"
  by code_simp

theorem receipts_never_revived_witness:
  "receipt_kept (db_defusion (w_db (snd (flushDefusion [example_receipt_row] example_start))) ! 0)
     (db_defusion (w_db (snd (Request ''c'' 5 example_changes
        (snd (flushDefusion [example_receipt_row] example_start))))) ! 0)"
proof -
  let ?w = "snd (flushDefusion [example_receipt_row] example_start)"
  have "native_steps ?w (snd (Request ''c'' 5 example_changes ?w))"
    by (rule native_more [OF step_Request native_done])
  from receipts_never_revived [OF this, of 0] example_flushed show ?thesis by simp
qed

end
