(* ===== verification/Entity_Facts.thy ===== *)
theory Entity_Facts
  imports Registry Frames Flush
begin

text \<open>
  What the entity handlers guarantee: destruction of a struct is permanent under every
  registered handler, the fleet list of a planet is its reachable queue, and a player's guild
  reaches the player's addresses.
\<close>

section \<open>Destruction is permanent\<close>

text \<open>
  No struct row disappears, changes its type or creator, or comes back to life; no vault row
  disappears or changes its address, account number or known account state.
\<close>

definition structs_le :: "(string, struct_row) table \<Rightarrow> (string, struct_row) table \<Rightarrow> bool" where
  "structs_le t t' \<longleftrightarrow> (\<forall>i r. tbl_get t i = Some r \<longrightarrow>
     (\<exists>r'. tbl_get t' i = Some r' \<and> st_type r' = st_type r \<and> st_creator r' = st_creator r \<and>
        (st_is_destroyed r \<longrightarrow> st_is_destroyed r')))"

definition vaults_le :: "(string, vault_row) table \<Rightarrow> (string, vault_row) table \<Rightarrow> bool" where
  "vaults_le t t' \<longleftrightarrow> (\<forall>i r. tbl_get t i = Some r \<longrightarrow>
     (\<exists>r'. tbl_get t' i = Some r' \<and> va_address r' = va_address r \<and>
        va_account_number r' = va_account_number r \<and>
        (va_account_created r \<noteq> None \<longrightarrow> va_account_created r' = va_account_created r)))"

text \<open>The tables no handler touches: the bookkeeping, the projections, the ledger and the staking evidence.\<close>

definition reserved ::
  "tables \<Rightarrow> sync_tables \<times> api_tables \<times> ledger_row list \<times> (string \<times> string, native_row) table" where
  "reserved d = (db_sync d, db_api d, db_ledger d, db_native d)"

type_synonym kept_tables =
  "(string, struct_row) table \<times> (string, vault_row) table \<times>
     sync_tables \<times> api_tables \<times> ledger_row list \<times> (string \<times> string, native_row) table"

definition permanent :: "tables \<Rightarrow> kept_tables" where
  "permanent d = (db_struct d, db_vault d, reserved d)"

definition permanent_le :: "kept_tables \<Rightarrow> kept_tables \<Rightarrow> bool" where
  "permanent_le p q \<longleftrightarrow>
     structs_le (fst p) (fst q) \<and> vaults_le (fst (snd p)) (fst (snd q)) \<and> snd (snd p) = snd (snd q)"

lemma permanent_le_refl [simp]: "permanent_le p p"
  by (simp add: permanent_le_def structs_le_def vaults_le_def)

lemma structs_le_trans: "structs_le t u \<Longrightarrow> structs_le u v \<Longrightarrow> structs_le t v"
  unfolding structs_le_def by metis

lemma vaults_le_trans: "vaults_le t u \<Longrightarrow> vaults_le u v \<Longrightarrow> vaults_le t v"
  unfolding vaults_le_def by metis

lemma permanent_le_trans: "permanent_le p q \<Longrightarrow> permanent_le q r \<Longrightarrow> permanent_le p r"
  unfolding permanent_le_def
  by (elim conjE, intro conjI, erule (1) structs_le_trans, erule (1) vaults_le_trans, simp)

interpretation tomb: table_frame permanent permanent_le
  by unfold_locales (simp, rule permanent_le_trans)

abbreviation keeps_tombstones :: "(world, 'a) op \<Rightarrow> bool" where
  "keeps_tombstones m \<equiv> keeps (across permanent permanent_le) m"

lemma structs_le_refl [simp]: "structs_le t t"
  by (simp add: structs_le_def)

lemma vaults_le_refl [simp]: "vaults_le t t"
  by (simp add: vaults_le_def)

lemma permanent_leI:
  "structs_le (db_struct d) (db_struct d') \<Longrightarrow> vaults_le (db_vault d) (db_vault d') \<Longrightarrow>
     reserved d = reserved d' \<Longrightarrow> permanent_le (permanent d) (permanent d')"
  by (simp add: permanent_le_def permanent_def)

lemma structs_le_put:
  "(\<And>r. tbl_get t i = Some r \<Longrightarrow> st_type r' = st_type r \<and> st_creator r' = st_creator r \<and>
      (st_is_destroyed r \<longrightarrow> st_is_destroyed r')) \<Longrightarrow> structs_le t (tbl_put i r' t)"
  by (auto simp: structs_le_def)

lemma struct_statements:
  "structs_le (db_struct d) (db_struct (struct_upsert p d))"
  "structs_le (db_struct d) (db_struct (stamp_destroyed i h d))"
  "structs_le (db_struct d) (db_struct (structDeleteTombstone i h d))"
  by (auto simp: struct_upsert_def upsert_row_def stamp_destroyed_def structDeleteTombstone_def
      split: option.splits intro!: structs_le_put)

lemma vault_statement: "vaults_le (db_vault d) (db_vault (vault_upsert p d))"
  by (auto simp: vault_upsert_def vaults_le_def split: option.splits)

lemma special_statements [frame_simps]:
  "permanent_le (permanent d) (permanent (struct_upsert p d))"
  "permanent_le (permanent d) (permanent (stamp_destroyed i h d))"
  "permanent_le (permanent d) (permanent (structDeleteTombstone i h d))"
  by (rule permanent_leI, rule struct_statements; simp add: struct_upsert_def reserved_def)
    (rule permanent_leI, rule struct_statements;
      simp add: stamp_destroyed_def structDeleteTombstone_def reserved_def split: option.splits)+

lemma vault_statement_permanent [frame_simps]: "permanent_le (permanent d) (permanent (vault_upsert q d))"
  by (rule permanent_leI [OF _ vault_statement]) (simp_all add: vault_upsert_def reserved_def split: option.splits)

lemma permanent_updates [frame_simps]:
  "permanent (d\<lparr>db_defusion := x1\<rparr>) = permanent d"
  "permanent (d\<lparr>db_sequence := x3\<rparr>) = permanent d"
  "permanent (d\<lparr>db_activity := x4\<rparr>) = permanent d"
  "permanent (d\<lparr>db_stats := x5\<rparr>) = permanent d"
  "permanent (d\<lparr>db_permission := x6\<rparr>) = permanent d"
  "permanent (d\<lparr>db_player_address := x7\<rparr>) = permanent d"
  "permanent (d\<lparr>db_address_activity := x8\<rparr>) = permanent d"
  "permanent (d\<lparr>db_address_tag := x9\<rparr>) = permanent d"
  "permanent (d\<lparr>db_membership := x10\<rparr>) = permanent d"
  "permanent (d\<lparr>db_grid := x11\<rparr>) = permanent d"
  "permanent (d\<lparr>db_struct_attribute := x12\<rparr>) = permanent d"
  "permanent (d\<lparr>db_planet_attribute := x13\<rparr>) = permanent d"
  "permanent (d\<lparr>db_defender := x14\<rparr>) = permanent d"
  "permanent (d\<lparr>db_fleet := x15\<rparr>) = permanent d"
  "permanent (d\<lparr>db_infusion := x16\<rparr>) = permanent d"
  "permanent (d\<lparr>db_infusion_position := x17\<rparr>) = permanent d"
  "permanent (d\<lparr>db_economy_position := x18\<rparr>) = permanent d"
  "permanent (d\<lparr>db_diversity := x19\<rparr>) = permanent d"
  "permanent (d\<lparr>db_commission := x20\<rparr>) = permanent d"
  "permanent (d\<lparr>db_stake_cap := x21\<rparr>) = permanent d"
  "permanent (d\<lparr>db_agreement := x22\<rparr>) = permanent d"
  "permanent (d\<lparr>db_allocation := x23\<rparr>) = permanent d"
  "permanent (d\<lparr>db_provider := x24\<rparr>) = permanent d"
  "permanent (d\<lparr>db_reactor := x25\<rparr>) = permanent d"
  "permanent (d\<lparr>db_substation := x26\<rparr>) = permanent d"
  "permanent (d\<lparr>db_guild := x27\<rparr>) = permanent d"
  "permanent (d\<lparr>db_player := x28\<rparr>) = permanent d"
  "permanent (d\<lparr>db_planet := x29\<rparr>) = permanent d"
  "permanent (d\<lparr>db_player_object := x30\<rparr>) = permanent d"
  "permanent (d\<lparr>db_planet_raid := x31\<rparr>) = permanent d"
  "permanent (d\<lparr>db_guild_rank := x32\<rparr>) = permanent d"
  "permanent (d\<lparr>db_struct_type := x33\<rparr>) = permanent d"
  "permanent (d\<lparr>db_exposure := x34\<rparr>) = permanent d"
  "permanent (d\<lparr>db_invalidation := x35\<rparr>) = permanent d"
  "permanent (d\<lparr>db_position := x36\<rparr>) = permanent d"
  by (simp_all add: permanent_def reserved_def)

lemmas tomb_intros = tomb.frame_intros keeps_sum

lemma tomb_push_activity: "keeps_tombstones (push_activity b p c d)"
  unfolding push_activity_def by (intro tomb_intros)

lemma tomb_appendLedger: "keeps_tombstones (appendLedger b rows)"
  unfolding appendLedger_def by (intro tomb_intros)

lemmas tomb_base = tomb_intros tomb_push_activity tomb_appendLedger

lemma tomb_attributes:
  "keeps_tombstones (getActivityLocationID s)"
  "keeps_tombstones (permission_owner pp)"
  "keeps_tombstones (writeGridStat b s' t i v)"
  unfolding getActivityLocationID_def permission_owner_def writeGridStat_def Let_def
  by (intro tomb_base)+

lemma tomb_grid_changed: "keeps_tombstones (grid_changed b s t i v n)"
  unfolding grid_changed_def by (intro tomb_base tomb_attributes)

lemma tomb_planet_activity: "keeps_tombstones (emitPlanetAttributeActivity b a t i old new)"
  unfolding emitPlanetAttributeActivity_def Let_def by (intro tomb_base)

lemma tomb_on_planet: "keeps_tombstones (emitStructAttributeOnStructPlanet b s c d)"
  unfolding emitStructAttributeOnStructPlanet_def by (intro tomb_base tomb_attributes)

lemma tomb_defense:
  "keeps_tombstones (emitStructDefenseRemove b i s)" "keeps_tombstones (emitStructDefenseAdd b i s)"
  unfolding emitStructDefenseRemove_def emitStructDefenseAdd_def emit_defense_def Let_def
  by (intro tomb_base tomb_attributes)+

lemma attribute_statements [frame_simps]:
  "permanent (permission_upsert i pp j k v d) = permanent d"
  "permanent (snd (grid_upsert i a b c x d)) = permanent d"
  "permanent (snd (planet_attribute_upsert i a b c x d)) = permanent d"
  "permanent (snd (struct_attribute_upsert i a b c e x d)) = permanent d"
  "permanent (snd (grid_delete i d)) = permanent d"
  "permanent (snd (delete_protected_attribute i d)) = permanent d"
  "permanent (defender_upsert i j d) = permanent d"
  "permanent (snd (raid_upsert p d)) = permanent d"
  by (simp_all add: permission_upsert_def grid_upsert_def planet_attribute_upsert_def
      struct_attribute_upsert_def grid_delete_def delete_protected_attribute_def
      defender_upsert_def raid_upsert_def Let_def permanent_def reserved_def split: option.splits)

lemma tomb_clear_defenders: "keeps_tombstones (clearDefendersOfDestroyedProtected b s i)"
  unfolding clearDefendersOfDestroyedProtected_def
  by (intro tomb_base tomb_defense) (simp_all add: frame_simps)

lemma tomb_struct_effects: "keeps_tombstones (struct_attribute_effects b a t i v)"
  unfolding struct_attribute_effects_def
  by (intro tomb_base tomb_clear_defenders; simp add: frame_simps)

lemma tomb_struct_activity: "keeps_tombstones (emitStructAttributeActivity b a old new s)"
  unfolding emitStructAttributeActivity_def by (intro tomb_base tomb_on_planet tomb_defense)

lemmas tomb_components = tomb_attributes tomb_grid_changed tomb_planet_activity tomb_on_planet
  tomb_defense tomb_clear_defenders tomb_struct_effects tomb_struct_activity

lemma tomb_permissionHandler: "keeps_tombstones (permissionHandler b raw)"
  unfolding permissionHandler_def Let_def
  by (intro tomb_base tomb_components; simp add: frame_simps)

lemma tomb_guildRankPermissionHandler: "keeps_tombstones (guildRankPermissionHandler b raw)"
  unfolding guildRankPermissionHandler_def Let_def
  by (intro tomb_base tomb_components; simp add: frame_simps)

lemma tomb_gridHandler: "keeps_tombstones (gridHandler b raw)"
  unfolding gridHandler_def Let_def
  by (intro tomb_base tomb_components; simp add: frame_simps)

lemma tomb_planetAttributeHandler: "keeps_tombstones (planetAttributeHandler b raw)"
  unfolding planetAttributeHandler_def Let_def
  by (intro tomb_base tomb_components; simp add: frame_simps)

lemma tomb_structAttributeHandler: "keeps_tombstones (structAttributeHandler b raw)"
  unfolding structAttributeHandler_def Let_def
  by (intro tomb_base tomb_components; simp add: frame_simps)

lemma tomb_structDefenderHandler: "keeps_tombstones (structDefenderHandler b raw)"
  unfolding structDefenderHandler_def Let_def
  by (intro tomb_base tomb_components; simp add: frame_simps)

lemma tomb_structDefenderClearHandler: "keeps_tombstones (structDefenderClearHandler b raw)"
  unfolding structDefenderClearHandler_def Let_def
  by (intro tomb_base tomb_components; simp add: frame_simps)

lemma tomb_attackHandler: "keeps_tombstones (attackHandler b raw)"
  unfolding attackHandler_def Let_def
  by (intro tomb_base tomb_components; simp add: frame_simps)

lemma tomb_raidHandler: "keeps_tombstones (raidHandler b raw)"
  unfolding raidHandler_def emitRaidStatusActivity_def Let_def
  by (intro tomb_base tomb_components; simp add: frame_simps)

lemma tomb_timeHandler: "keeps_tombstones (timeHandler b raw)"
  unfolding timeHandler_def Let_def
  by (intro tomb_base tomb_components; simp add: frame_simps)

lemma tomb_oreMineHandler: "keeps_tombstones (oreMineHandler b raw)"
  unfolding oreMineHandler_def Let_def
  by (intro tomb_base tomb_components; simp add: frame_simps)

lemma tomb_oreTheftHandler: "keeps_tombstones (oreTheftHandler b raw)"
  unfolding oreTheftHandler_def Let_def
  by (intro tomb_base tomb_components; simp add: frame_simps)

lemma tomb_oreMigrateHandler: "keeps_tombstones (oreMigrateHandler b raw)"
  unfolding oreMigrateHandler_def Let_def
  by (intro tomb_base tomb_components; simp add: frame_simps)

lemma tomb_alphaRefineHandler: "keeps_tombstones (alphaRefineHandler b raw)"
  unfolding alphaRefineHandler_def Let_def
  by (intro tomb_base tomb_components; simp add: frame_simps)

lemma tomb_alphaInfuseHandler: "keeps_tombstones (alphaInfuseHandler b raw)"
  unfolding alphaInfuseHandler_def Let_def
  by (intro tomb_base tomb_components; simp add: frame_simps)

lemma economy_statements [frame_simps]:
  "permanent (infusion_position_upsert k pos d) = permanent d"
  "permanent (infusion_upsert p d) = permanent d"
  "permanent (snd (reset_rows b family d)) = permanent d"
  "permanent (drop_positions b family d) = permanent d"
  "permanent (snd (infusion_delete k d)) = permanent d"
  "permanent (drop_sidecars P d) = permanent d"
  "permanent (drop_agreements P d) = permanent d"
  by (simp_all add: infusion_position_upsert_def infusion_upsert_def reset_rows_def drop_positions_def
      infusion_delete_def drop_sidecars_def drop_agreements_def Let_def permanent_def reserved_def)

lemma tomb_economy:
  "keeps_tombstones (dirtyOwner i)"
  "keeps_tombstones (infusionEventApplied b k)"
  "keeps_tombstones (emitInfusionLedger b p prev)"
  "keeps_tombstones (economyEventApplied b family i)"
  unfolding dirtyOwner_def infusionEventApplied_def emitInfusionLedger_def economyEventApplied_def Let_def
  by (intro tomb_base)+

lemma tomb_recordEconomyPosition: "keeps_tombstones (recordEconomyPosition b family i)"
  unfolding recordEconomyPosition_def by (intro tomb_base) (simp add: frame_simps)

lemma tomb_infusion_effects: "keeps_tombstones (infusion_effects b p)"
  unfolding infusion_effects_def infusion_marks_def Let_def
  by (intro tomb_base tomb_economy; simp add: frame_simps)

lemma tomb_resetEconomy: "keeps_tombstones (resetEconomy b family)"
  unfolding resetEconomy_def
  by (intro tomb_base tomb_economy tomb_recordEconomyPosition; simp add: frame_simps)

lemma tomb_deleteInfusion: "keeps_tombstones (deleteInfusion b i)"
  unfolding deleteInfusion_def by (intro tomb_base tomb_economy; simp add: frame_simps)

lemma tomb_delete_kind: "keeps_tombstones (delete_kind b k i)"
  unfolding delete_kind_def delete_agreement_def delete_provider_def delete_allocation_def
  by (cases k; simp only: kind.case; intro tomb_base; simp add: frame_simps)

lemmas tomb_economic = tomb_economy tomb_recordEconomyPosition tomb_infusion_effects
  tomb_resetEconomy tomb_deleteInfusion tomb_delete_kind

lemma tomb_infusionHandler: "keeps_tombstones (infusionHandler b raw)"
  unfolding infusionHandler_def Let_def
  by (intro tomb_base tomb_economic; simp add: frame_simps)

lemma tomb_vaultAddressHandler: "keeps_tombstones (vaultAddressHandler b raw)"
  unfolding vaultAddressHandler_def Let_def
  by (intro tomb_base tomb_economic; simp add: frame_simps)

lemma tomb_ownerReactorDiversityHandler: "keeps_tombstones (ownerReactorDiversityHandler b raw)"
  unfolding ownerReactorDiversityHandler_def Let_def
  by (intro tomb_base tomb_economic; simp add: frame_simps)

lemma tomb_reactorCommissionRevisionHandler: "keeps_tombstones (reactorCommissionRevisionHandler b raw)"
  unfolding reactorCommissionRevisionHandler_def Let_def
  by (intro tomb_base tomb_economic; simp add: frame_simps)

lemma tomb_reactorStakeCapHandler: "keeps_tombstones (reactorStakeCapHandler b raw)"
  unfolding reactorStakeCapHandler_def Let_def
  by (intro tomb_base tomb_economic; simp add: frame_simps)

lemma tomb_guildRankPurchaseHandler: "keeps_tombstones (guildRankPurchaseHandler b raw)"
  unfolding guildRankPurchaseHandler_def Let_def
  by (intro tomb_base tomb_economic; simp add: frame_simps)

lemma tomb_deleteHandler: "keeps_tombstones (deleteHandler b raw)"
  unfolding deleteHandler_def Let_def
  by (intro tomb_base tomb_economic; simp add: frame_simps)

lemma tomb_economyResetHandler: "keeps_tombstones (economyResetHandler family b raw)"
  unfolding economyResetHandler_def by (intro tomb_base tomb_economic)

lemma entity_statements [frame_simps]:
  "permanent (player_object_upsert i p d) = permanent d"
  "permanent (player_address_upsert a p st d) = permanent d"
  "permanent (address_activity_upsert p1 d) = permanent d"
  "permanent (tag_upsert tags d) = permanent d"
  "permanent (agreement_upsert p2 d) = permanent d"
  "permanent (allocation_upsert p3 d) = permanent d"
  "permanent (provider_upsert p4 d) = permanent d"
  "permanent (reactor_upsert p5 d) = permanent d"
  "permanent (substation_upsert p6 d) = permanent d"
  "permanent (guild_upsert p7 d) = permanent d"
  "permanent (membership_upsert p8 d) = permanent d"
  "permanent (player_upsert p9 d) = permanent d"
  "permanent (guild_propagate i g d) = permanent d"
  "permanent (planet_upsert p10 d) = permanent d"
  "permanent (planet_name_update i n d) = permanent d"
  "permanent (struct_type_upsert p11 d) = permanent d"
  "permanent (fleet_upsert p12 d) = permanent d"
  by (simp_all add: player_object_upsert_def player_address_upsert_def address_activity_upsert_def
      tag_upsert_def agreement_upsert_def allocation_upsert_def provider_upsert_def reactor_upsert_def
      substation_upsert_def guild_upsert_def membership_upsert_def player_upsert_def
      guild_propagate_def planet_upsert_def planet_name_update_def struct_type_upsert_def
      fleet_upsert_def Let_def permanent_def reserved_def split: option.splits)

lemma tomb_entity:
  "keeps_tombstones (upsertPlayerObject i p)"
  "keeps_tombstones (mark_previous f v)"
  "keeps_tombstones (previous_player a)"
  "keeps_tombstones (emitStructMovementActivity b q)"
  unfolding upsertPlayerObject_def mark_previous_def previous_player_def
    emitStructMovementActivity_def movement_planet_def
  by (intro tomb_base; simp add: frame_simps)+

lemma tomb_tag_exec: "keeps_tombstones (tag_exec tags)"
  unfolding tag_exec_def by (intro tomb_base tomb.frame_memory; simp add: frame_simps)

lemma tomb_player_effects: "keeps_tombstones (player_effects p v)"
  unfolding player_effects_def by (intro tomb_base tomb_entity; simp add: frame_simps)

lemma tomb_fleet:
  "keeps_tombstones (emitFleetMoveSide b i pl st c)"
  "keeps_tombstones (emitFleetDefensePresence b i pl c)"
  "keeps_tombstones (emitFleetMoveActivity b p loc st)"
  unfolding emitFleetMoveActivity_def emitFleetMoveSide_def emitFleetDefensePresence_def Let_def
  by (intro tomb_base)+

lemmas tomb_entities = tomb_entity tomb_tag_exec tomb_player_effects tomb_fleet

lemma tomb_addressHandler: "keeps_tombstones (addressHandler b raw)"
  unfolding addressHandler_def Let_def
  by (intro tomb_base tomb_entities; simp add: frame_simps)

lemma tomb_addressActivityHandler: "keeps_tombstones (addressActivityHandler b raw)"
  unfolding addressActivityHandler_def Let_def
  by (intro tomb_base tomb_entities; simp add: frame_simps)

lemma tomb_addressAssociationHandler: "keeps_tombstones (addressAssociationHandler b raw)"
  unfolding addressAssociationHandler_def Let_def
  by (intro tomb_base tomb_entities; simp add: frame_simps)

lemma tomb_providerAddressHandler: "keeps_tombstones (providerAddressHandler b raw)"
  unfolding providerAddressHandler_def Let_def
  by (intro tomb_base tomb_entities; simp add: frame_simps)

lemma tomb_guildBankAddressHandler: "keeps_tombstones (guildBankAddressHandler b raw)"
  unfolding guildBankAddressHandler_def Let_def
  by (intro tomb_base tomb_entities; simp add: frame_simps)

lemma tomb_agreementHandler: "keeps_tombstones (agreementHandler b raw)"
  unfolding agreementHandler_def Let_def
  by (intro tomb_base tomb_entities; simp add: frame_simps)

lemma tomb_allocationHandler: "keeps_tombstones (allocationHandler b raw)"
  unfolding allocationHandler_def Let_def
  by (intro tomb_base tomb_entities; simp add: frame_simps)

lemma tomb_providerHandler: "keeps_tombstones (providerHandler b raw)"
  unfolding providerHandler_def Let_def
  by (intro tomb_base tomb_entities; simp add: frame_simps)

lemma tomb_reactorHandler: "keeps_tombstones (reactorHandler b raw)"
  unfolding reactorHandler_def Let_def
  by (intro tomb_base tomb_entities; simp add: frame_simps)

lemma tomb_substationHandler: "keeps_tombstones (substationHandler b raw)"
  unfolding substationHandler_def Let_def
  by (intro tomb_base tomb_entities; simp add: frame_simps)

lemma tomb_guildHandler: "keeps_tombstones (guildHandler b raw)"
  unfolding guildHandler_def Let_def
  by (intro tomb_base tomb_entities; simp add: frame_simps)

lemma tomb_guildMembershipApplicationHandler: "keeps_tombstones (guildMembershipApplicationHandler b raw)"
  unfolding guildMembershipApplicationHandler_def Let_def
  by (intro tomb_base tomb_entities; simp add: frame_simps)

lemma tomb_playerHandler: "keeps_tombstones (playerHandler b raw)"
  unfolding playerHandler_def Let_def
  by (intro tomb_base tomb_entities; simp add: frame_simps)

lemma tomb_planetHandler: "keeps_tombstones (planetHandler b raw)"
  unfolding planetHandler_def Let_def
  by (intro tomb_base tomb_entities; simp add: frame_simps)

lemma tomb_structHandler: "keeps_tombstones (structHandler b raw)"
  unfolding structHandler_def Let_def
  by (intro tomb_base tomb_entities; simp add: frame_simps)

lemma tomb_structTypeHandler: "keeps_tombstones (structTypeHandler b raw)"
  unfolding structTypeHandler_def Let_def
  by (intro tomb_base tomb_entities; simp add: frame_simps)

lemma tomb_fleetHandler: "keeps_tombstones (fleetHandler b raw)"
  unfolding fleetHandler_def Let_def
  by (intro tomb_base tomb_entities; simp add: frame_simps)

lemmas tomb_handlers =
  tomb_permissionHandler tomb_guildRankPermissionHandler tomb_gridHandler
  tomb_planetAttributeHandler tomb_structAttributeHandler tomb_structDefenderHandler
  tomb_structDefenderClearHandler tomb_attackHandler tomb_raidHandler
  tomb_timeHandler tomb_oreMineHandler tomb_oreTheftHandler
  tomb_oreMigrateHandler tomb_alphaRefineHandler tomb_alphaInfuseHandler
  tomb_infusionHandler tomb_vaultAddressHandler tomb_ownerReactorDiversityHandler
  tomb_reactorCommissionRevisionHandler tomb_reactorStakeCapHandler tomb_guildRankPurchaseHandler
  tomb_deleteHandler tomb_economyResetHandler tomb_addressHandler
  tomb_addressActivityHandler tomb_addressAssociationHandler tomb_providerAddressHandler
  tomb_guildBankAddressHandler tomb_agreementHandler tomb_allocationHandler
  tomb_providerHandler tomb_reactorHandler tomb_substationHandler
  tomb_guildHandler tomb_guildMembershipApplicationHandler tomb_playerHandler
  tomb_planetHandler tomb_structHandler tomb_structTypeHandler
  tomb_fleetHandler

lemma AllHandlers_tombstones: "list_all (\<lambda>(key, h). \<forall>b raw. keeps_tombstones (h b raw)) AllHandlers"
  by (simp add: AllHandlers_def tomb_handlers)

text \<open>Any number of events, each dispatched with or without isolation.\<close>

fun dispatch_many ::
  "router \<Rightarrow> (bool \<times> block_context \<times> string \<times> string) list \<Rightarrow> unknowns \<times> world \<Rightarrow> unknowns \<times> world" where
  "dispatch_many r [] st = st"
| "dispatch_many r ((isolated, b, key, raw) # evs) st = dispatch_many r evs (snd (dispatch r isolated b key raw st))"

lemma dispatch_many_permanent:
  assumes "NewRouter strict AllHandlers = Inr r"
  shows "permanent_le (permanent (w_db (snd st))) (permanent (w_db (snd (dispatch_many r evs st))))"
proof (induction evs arbitrary: st)
  case (Cons e evs)
  obtain isolated b key raw where e: "e = (isolated, b, key, raw)" by (cases e)
  have "rt_handlers r = AllHandlers"
    using assms NewRouter_distinct [OF AllHandlers_keys, of strict] by (auto simp: registered_def)
  then have "across permanent permanent_le (snd st) (snd (snd (dispatch r isolated b key raw (fst st, snd st))))"
    using AllHandlers_tombstones by (intro tomb.frame_dispatch) simp
  then show ?case using Cons [of "snd (dispatch r isolated b key raw st)"]
    by (simp add: e across_def) (rule permanent_le_trans)
qed simp

lemma dispatch_many_records:
  assumes "NewRouter strict AllHandlers = Inr r"
  shows "structs_le (db_struct (w_db w)) (db_struct (w_db (snd (dispatch_many r evs (u, w)))))"
    and "vaults_le (db_vault (w_db w)) (db_vault (w_db (snd (dispatch_many r evs (u, w)))))"
  using dispatch_many_permanent [OF assms, of "(u, w)" evs]
  by (simp_all add: permanent_le_def permanent_def)

text \<open>With the router of all registered handlers, destruction is permanent.  Whatever events are
  dispatched, in any order, isolated or not, failing or not, a struct row never disappears,
  never changes its type or creator and, once destroyed, stays destroyed: a later snapshot or
  deletion of the struct does not revive it.\<close>

theorem destruction_is_permanent:
  assumes "NewRouter strict AllHandlers = Inr r"
    and "tbl_get (db_struct (w_db w)) i = Some s" "st_is_destroyed s"
  shows "\<exists>s'. tbl_get (db_struct (w_db (snd (dispatch_many r evs (u, w))))) i = Some s' \<and>
      st_is_destroyed s' \<and> st_type s' = st_type s \<and> st_creator s' = st_creator s"
  using dispatch_many_records(1) [OF assms(1), of w evs u] assms(2,3)
  unfolding structs_le_def by blast

text \<open>With the router of all registered handlers, a vault's identity is immutable.  Whatever events
  are dispatched, a vault row never disappears and never changes its address or its account
  number, nor its account state once that is known.\<close>

theorem vault_rows_permanent:
  assumes "NewRouter strict AllHandlers = Inr r"
    and "tbl_get (db_vault (w_db w)) i = Some v"
  shows "\<exists>v'. tbl_get (db_vault (w_db (snd (dispatch_many r evs (u, w))))) i = Some v' \<and>
      va_address v' = va_address v \<and> va_account_number v' = va_account_number v \<and>
      (va_account_created v = None \<or> va_account_created v' = va_account_created v)"
  using dispatch_many_records(2) [OF assms(1), of w evs u] assms(2)
  unfolding vaults_le_def by blast

definition example_fallen :: struct_row where
  "example_fallen =
     \<lparr>st_index = 1, st_type = 2, st_creator = ''c'', st_owner = ''1-1'', st_location_type = ''planet'',
      st_location_id = ''2-1'', st_ambit = ''land'', st_slot = 0, st_is_destroyed = True,
      st_destroyed_block = Some 9\<rparr>"

definition example_vault :: vault_row where
  "example_vault = \<lparr>va_address = ''v'', va_account_number = 7, va_account_created = None\<rparr>"

definition example_records :: world where
  "example_records = example_world\<lparr>w_db := empty_tables\<lparr>
     db_struct := [(''5-1'', example_fallen)], db_vault := [(''0-1'', example_vault)]\<rparr>\<rparr>"

definition revive_events :: "(bool \<times> block_context \<times> string \<times> string) list" where
  "revive_events =
     [(False, example_context, ''structs.structs.EventStruct.structure'', ''{\"id\":\"5-1\",\"owner\":\"1-2\"}''),
      (True, example_context, ''structs.structs.EventDelete.objectId'', ''\"5-1\"''),
      (False, example_context, ''structs.structs.EventStruct.structure'', ''{\"id\":\"5-1\"}'')]"

lemma full_router: "NewRouter strict AllHandlers = Inr (registered strict AllHandlers)"
  by (rule NewRouter_distinct) (rule AllHandlers_keys)

theorem destruction_is_permanent_witness:
  "\<exists>s'. tbl_get (db_struct (w_db (snd (dispatch_many (registered True AllHandlers) revive_events
        (no_unknowns, example_records))))) ''5-1'' = Some s' \<and>
      st_is_destroyed s' \<and> st_type s' = 2 \<and> st_creator s' = ''c''"
  using destruction_is_permanent [OF full_router, of example_records "''5-1''" example_fallen]
  by (simp add: example_records_def example_fallen_def)

theorem vault_rows_permanent_witness:
  "\<exists>v'. tbl_get (db_vault (w_db (snd (dispatch_many (registered True AllHandlers) revive_events
        (no_unknowns, example_records))))) ''0-1'' = Some v' \<and>
      va_address v' = ''v'' \<and> va_account_number v' = 7"
  using vault_rows_permanent [OF full_router, of example_records "''0-1''" example_vault]
  by (auto simp: example_records_def example_vault_def)

section \<open>The fleets queued at a planet\<close>

text \<open>The queue as a set: its heads, and every fleet some reached fleet names behind it.\<close>

inductive queued :: "string \<Rightarrow> tables \<Rightarrow> string \<Rightarrow> bool" for planetID d where
  queue_head: "i \<in> set (fleet_heads planetID d) \<Longrightarrow> queued planetID d i"
| queue_behind: "queued planetID d i \<Longrightarrow> j \<in> set (fleet_behind d i) \<Longrightarrow> queued planetID d j"

lemma fleet_behind_known: "j \<in> set (fleet_behind d i) \<Longrightarrow> j \<in> fst ` set (db_fleet d)"
  by (cases "tbl_get (db_fleet d) i")
    (simp_all add: fleet_behind_def tbl_get_def map_of_eq_None_iff split: if_splits)

lemma fleet_heads_known: "i \<in> set (fleet_heads planetID d) \<Longrightarrow> i \<in> fst ` set (db_fleet d)"
  by (auto simp: fleet_heads_def image_iff) (metis fst_conv)

text \<open>The frontier is always part of what was seen, and everything seen before it is expanded.\<close>

lemma fleet_walk_correct:
  assumes "set frontier \<subseteq> set seen" "distinct seen" "set seen \<subseteq> fst ` set (db_fleet d)"
    and "\<And>i. i \<in> set seen \<Longrightarrow> queued planetID d i"
    and "\<And>i j. i \<in> set seen - set frontier \<Longrightarrow> j \<in> set (fleet_behind d i) \<Longrightarrow> j \<in> set seen"
    and "set (fleet_heads planetID d) \<subseteq> set seen"
    and "length (db_fleet d) < length seen + n"
  shows "distinct (fleet_walk n d frontier seen) \<and>
    set (fleet_walk n d frontier seen) = {i. queued planetID d i}"
  using assms
proof (induction n arbitrary: frontier seen)
  case 0
  have "length seen = card (set seen)" using 0 by (simp add: distinct_card)
  also have "\<dots> \<le> card (fst ` set (db_fleet d))" using 0 by (intro card_mono) simp_all
  also have "\<dots> \<le> length (db_fleet d)" by (metis card_length image_set length_map)
  finally show ?case using 0 by simp
next
  case (Suc n)
  define nxt where "nxt = remdups (filter (\<lambda>i. i \<notin> set seen) (concat (map (fleet_behind d) frontier)))"
  show ?case
  proof (cases "nxt = []")
    case True
    then have "set (filter (\<lambda>i. i \<notin> set seen) (concat (map (fleet_behind d) frontier))) = {}"
      by (simp add: nxt_def del: set_filter set_concat)
    then have front: "j \<in> set seen" if "i \<in> set frontier" "j \<in> set (fleet_behind d i)" for i j
      using that by auto
    have closed: "j \<in> set seen" if "i \<in> set seen" "j \<in> set (fleet_behind d i)" for i j
      using Suc.prems(5) [of i j] front [of i j] that by blast
    have "queued planetID d i \<Longrightarrow> i \<in> set seen" for i
      by (induction rule: queued.induct) (use Suc.prems(6) closed in auto)
    with True Suc.prems(2,4) show ?thesis by (auto simp: nxt_def [symmetric] Let_def)
  next
    case False
    have new: "i \<in> set nxt \<Longrightarrow> i \<notin> set seen \<and> (\<exists>j \<in> set frontier. i \<in> set (fleet_behind d j))" for i
      by (auto simp: nxt_def)
    have "distinct (fleet_walk n d nxt (seen @ nxt)) \<and>
        set (fleet_walk n d nxt (seen @ nxt)) = {i. queued planetID d i}"
    proof (rule Suc.IH)
      show "distinct (seen @ nxt)" using Suc.prems(2) new by (auto simp: nxt_def)
      show "set (seen @ nxt) \<subseteq> fst ` set (db_fleet d)"
        using Suc.prems(3) new fleet_behind_known by fastforce
      show "queued planetID d i" if "i \<in> set (seen @ nxt)" for i
        using that Suc.prems(1,4) new queue_behind by fastforce
      show "j \<in> set (seen @ nxt)" if "i \<in> set (seen @ nxt) - set nxt" "j \<in> set (fleet_behind d i)" for i j
        using that Suc.prems(5) [of i j] by (cases "i \<in> set frontier") (auto simp: nxt_def)
      show "length (db_fleet d) < length (seen @ nxt) + n"
        using Suc.prems(7) False by (cases nxt) auto
    qed (use Suc.prems(6) in auto)
    with False show ?thesis by (simp add: nxt_def [symmetric] Let_def)
  qed
qed

text \<open>C39: The fleet list computed for a planet is exactly its queue: it holds every fleet reachable
  from the planet's queue heads along the backward links, each once, even when the links
  form a cycle; and the rounds allowed to the walk are enough, since any larger number of
  rounds yields a list of the same fleets.\<close>

theorem fleet_list_exact:
  "distinct (fleet_list planetID d) \<and> set (fleet_list planetID d) = {i. queued planetID d i} \<and>
   (let heads = remdups (fleet_heads planetID d) in
    set (fleet_walk (Suc (length (db_fleet d) + k)) d heads heads) = set (fleet_list planetID d))"
proof -
  let ?heads = "remdups (fleet_heads planetID d)"
  have walk: "distinct (fleet_walk (Suc (length (db_fleet d) + k)) d ?heads ?heads) \<and>
      set (fleet_walk (Suc (length (db_fleet d) + k)) d ?heads ?heads) = {i. queued planetID d i}" for k
    by (rule fleet_walk_correct) (auto intro: queue_head fleet_heads_known)
  from walk [of 0] walk [of k] show ?thesis by (simp add: fleet_list_def Let_def del: fleet_walk.simps)
qed

section \<open>Guild propagation\<close>

lemma wrapO_then:
  assumes "bindO (wrapO msg m) k w = (Inr y, w')"
  obtains x v where "m w = (Inr x, v)" "k x v = (Inr y, w')"
  using assms by (auto simp: bindO_Inr wrapO_Inr)

lemma whenO_True: "whenO True m = m"
  by (simp add: whenO_def)

lemma query_opt_db: "query_opt g w = (Inr x, v) \<Longrightarrow> x = g (w_db w) \<and> w_db v = w_db w"
  by (simp add: query_opt_def query_def sql_Inr)

interpretation addresses: table_frame db_player_address "(=)"
  by unfold_locales simp_all

lemma addresses_upsertPlayerObject: "keeps (across db_player_address (=)) (upsertPlayerObject i p)"
  unfolding upsertPlayerObject_def
  by (intro addresses.frame_intros) (simp_all add: player_object_upsert_def)

lemma addresses_kept:
  "keeps (across db_player_address (=)) m \<Longrightarrow> m w = (r, w') \<Longrightarrow> db_player_address (w_db w') = db_player_address (w_db w)"
  by (drule keepsD [of _ _ w]) (simp add: across_def)

definition reassigned :: "string \<Rightarrow> string \<Rightarrow> player_address_row \<Rightarrow> player_address_row" where
  "reassigned i guild r = (if ad_player_id r = Some i then r\<lparr>ad_guild_id := Some guild\<rparr> else r)"

lemma guild_propagate_get:
  "tbl_get (db_player_address (guild_propagate i guild d)) a
     = map_option (reassigned i guild) (tbl_get (db_player_address d) a)"
proof -
  have "map_of (map (\<lambda>(a, r). (a, if ad_player_id r = Some i then r\<lparr>ad_guild_id := Some guild\<rparr> else r)) t) a
      = map_option (reassigned i guild) (map_of t a)" for t
    by (induction t) (simp_all add: reassigned_def split: prod.split)
  then show ?thesis by (simp add: guild_propagate_def tbl_get_def)
qed

lemma player_effects_address:
  assumes "player_effects p v w = (Inr u, w')"
  shows "db_player_address (w_db w') = (case v of None \<Rightarrow> db_player_address (w_db w)
     | Some (g, s) \<Rightarrow> if derefStr g = Player_GuildID p then db_player_address (w_db w)
         else db_player_address (guild_propagate (Player_ID p) (Player_GuildID p) (w_db w)))"
proof (cases v)
  case None
  with assms show ?thesis by (simp add: player_effects_def)
next
  case (Some gs)
  obtain g s where gs: "gs = (g, s)" by force
  have marks: "keeps (across db_player_address (=)) (bindO (mark f) (\<lambda>_. mark_previous f' x))" for f f' x
    unfolding mark_previous_def by (intro addresses.frame_intros)
  show ?thesis
  proof (cases "derefStr g = Player_GuildID p")
    case True
    with assms have "bindO (mark (Dirty_Guild (derefStr g))) (\<lambda>_. mark_previous Dirty_Substation (Some s)) w = (Inr u, w')"
      by (auto simp: player_effects_def Some gs bindO_Inr [of "whenO b m" for b m])
    from addresses_kept [OF marks this] True show ?thesis by (simp add: Some gs)
  next
    case False
    with assms obtain v1 where v1: "w_db v1 = guild_propagate (Player_ID p) (Player_GuildID p) (w_db w)"
      and rest: "bindO (mark (Dirty_Guild (derefStr g))) (\<lambda>_. mark_previous Dirty_Substation (Some s)) v1 = (Inr u, w')"
      by (auto simp: player_effects_def Some gs whenO_True elim!: wrapO_then dest!: exec_Inr)
    from addresses_kept [OF marks rest] False v1 show ?thesis by (simp add: Some gs)
  qed
qed

definition previous_guild :: "string \<Rightarrow> tables \<Rightarrow> string option" where
  "previous_guild i d = map_option (\<lambda>r. derefStr (pl_guild_id r)) (tbl_get (db_player d) i)"

lemma playerHandler_addresses:
  assumes run: "playerHandler b raw w = (Inr (), w')" and dec: "Decode raw decode_Player = Inr p"
  shows "tbl_get (db_player_address (w_db w')) a =
    (if previous_guild (Player_ID p) (w_db w) \<in> {None, Some (Player_GuildID p)}
     then tbl_get (db_player_address (w_db w)) a
     else map_option (reassigned (Player_ID p) (Player_GuildID p)) (tbl_get (db_player_address (w_db w)) a))"
proof -
  let ?prev = "map_option (\<lambda>r. (pl_guild_id r, pl_substation_id r)) (tbl_get (db_player (w_db w)) (Player_ID p))"
  let ?rest = "\<lambda>_. bindO (mark (Dirty_Player (Player_ID p))) (\<lambda>_.
       bindO (mark (Dirty_Guild (Player_GuildID p))) (\<lambda>_.
       mark (Dirty_Substation (Player_SubstationID p))))"
  from run have "bindO (guardO (Player_ID p \<noteq> []) (errorf ''player: empty id'')) (\<lambda>_.
     bindO (wrapO ''player prev guild: '' (query_opt (\<lambda>d.
        map_option (\<lambda>r. (pl_guild_id r, pl_substation_id r)) (tbl_get (db_player d) (Player_ID p))))) (\<lambda>previous.
     bindO (wrapO ''player upsert: '' (exec (player_upsert p))) (\<lambda>_.
     bindO (upsertPlayerObject (Player_ID p) (Player_ID p)) (\<lambda>_.
     bindO (player_effects p previous) ?rest)))) w = (Inr (), w')"
    unfolding playerHandler_def dec by (rule liftO_then) simp
  then obtain v2 v3 v4 where v2: "w_db v2 = player_upsert p (w_db w)"
    and v3: "upsertPlayerObject (Player_ID p) (Player_ID p) v2 = (Inr (), v3)"
    and v4: "player_effects p ?prev v3 = (Inr (), v4)"
    and rest: "?rest () v4 = (Inr (), w')"
    by (auto elim!: wrapO_then dest!: exec_Inr guardO_then query_opt_db
        simp: bindO_Inr [of "upsertPlayerObject i j" for i j] bindO_Inr [of "player_effects q x" for q x])
  have "keeps (across db_player_address (=)) (?rest ())"
    by (intro addresses.frame_intros)
  from addresses_kept [OF this rest]
  have "db_player_address (w_db w') = db_player_address (w_db v4)" .
  also have "\<dots> = (case ?prev of None \<Rightarrow> db_player_address (w_db v3)
     | Some (g, s) \<Rightarrow> if derefStr g = Player_GuildID p then db_player_address (w_db v3)
         else db_player_address (guild_propagate (Player_ID p) (Player_GuildID p) (w_db v3)))"
    by (rule player_effects_address [OF v4])
  finally have after: "db_player_address (w_db w') = \<dots>" .
  have "db_player_address (w_db v3) = db_player_address (w_db w)"
    using addresses_kept [OF addresses_upsertPlayerObject v3] v2 by (simp add: player_upsert_def Let_def)
  with after show ?thesis
    by (cases "tbl_get (db_player (w_db w)) (Player_ID p)") (auto simp: previous_guild_def guild_propagate_get)
qed

text \<open>A player event that changes the player's guild carries it to every address of the player:
  after the handler succeeds, exactly the address rows whose player is this one have the new
  guild and nothing else of them changes; when the player had no row before, or already had
  this guild, no address row changes at all.\<close>

theorem guild_reaches_addresses:
  assumes "playerHandler b raw w = (Inr (), w')" "Decode raw decode_Player = Inr p"
  shows "tbl_get (db_player_address (w_db w')) a =
    (if previous_guild (Player_ID p) (w_db w) \<in> {None, Some (Player_GuildID p)}
     then tbl_get (db_player_address (w_db w)) a
     else map_option (reassigned (Player_ID p) (Player_GuildID p)) (tbl_get (db_player_address (w_db w)) a))"
  using assms by (rule playerHandler_addresses)

definition example_player :: string where
  "example_player = ''{\"id\":\"1-1\",\"guildId\":\"0-2\"}''"

definition example_address_event :: string where
  "example_address_event = ''{\"address\":\"a\",\"playerId\":\"1-1\"}''"

definition guild_after :: "(world, unit) op \<Rightarrow> world \<Rightarrow> string option option" where
  "guild_after m w = map_option ad_guild_id (tbl_get (db_player_address (w_db (snd (m w)))) ''a'')"

definition decoded_player :: pPlayer where
  "decoded_player = projr (Decode example_player decode_Player)"

definition example_members :: world where
  "example_members = snd (addressHandler example_context example_address_event
     (snd (playerHandler example_context ''{\"id\":\"1-1\",\"guildId\":\"0-1\"}'' example_world)))"

lemma decoded_player_simps:
  "isl (Decode example_player decode_Player) = False"
  "Player_ID decoded_player = ''1-1''" "Player_GuildID decoded_player = ''0-2''"
  "previous_guild ''1-1'' (w_db example_members) = Some ''0-1''"
  "fst (playerHandler example_context example_player example_members) = Inr ()"
  by code_simp+

theorem guild_reaches_addresses_witness:
  "tbl_get (db_player_address (w_db (snd (playerHandler example_context example_player example_members)))) ''a''
     = map_option (reassigned ''1-1'' ''0-2'') (tbl_get (db_player_address (w_db example_members)) ''a'')"
proof -
  have "Decode example_player decode_Player = Inr decoded_player"
    using decoded_player_simps(1) by (cases "Decode example_player decode_Player") (simp_all add: decoded_player_def)
  from guild_reaches_addresses [OF _ this, of example_context example_members
      "snd (playerHandler example_context example_player example_members)" "''a''"]
  show ?thesis using decoded_player_simps by (simp add: prod_eq_iff)
qed

text \<open>
  An address that is announced before its player keeps no guild after the player's first
  event, which announces one.
\<close>

lemma early_address_keeps_no_guild:
  "guild_after (bindO (addressHandler example_context example_address_event)
     (\<lambda>_. playerHandler example_context example_player)) example_world = Some None"
  "guild_after (bindO (playerHandler example_context example_player)
     (\<lambda>_. addressHandler example_context example_address_event)) example_world = Some (Some ''0-2'')"
  by code_simp+

end
