(* ===== verification/Read_Model.thy ===== *)
theory Read_Model
  imports Frames Native
begin

text \<open>
  \<open>internal/readmodel\<close>: \<open>project.go\<close>, \<open>backfill.go\<close>, \<open>drift.go\<close> and \<open>lock.go\<close>, the code that
  keeps the \<open>structs.api_*\<close> projections.

  The database objects these statements read and that the repository does not define are
  the fields of \<open>projections\<close>: the view \<open>asset_owner\<close>, the functions
  \<open>api_inventory_current_claims\<close>, \<open>api_inventory_address_expected\<close>,
  \<open>api_inventory_expected\<close>, \<open>api_work_refresh\<close>(\<open>_full\<close>) and \<open>api_projection_boundary\<close>, the
  generated column \<open>api_guild_bank.ratio\<close>, and the table \<open>guild_meta\<close>, which other software
  fills.  \<open>api_work_refresh\<close> writes \<open>api_work\<close> and the refresh state of \<open>work\<close> only, as
  \<open>project.go\<close> documents.

  A set of identifiers bound as \<open>ANY($1)\<close> is a set here.  A statement with several common
  table expressions reads the tables as they were when it started.
\<close>

record projections =
  pj_owners :: "tables \<Rightarrow> (string \<times> string \<times> string) list"
  pj_claims :: "tables \<Rightarrow> string list \<Rightarrow> (string \<times> string \<times> int option) list"
  pj_address_expected :: "tables \<Rightarrow> string list \<Rightarrow> (string \<times> string \<times> int option) list"
  pj_expected :: "tables \<Rightarrow> (string \<times> string \<times> string \<times> int option) list"
  pj_work :: "bool \<Rightarrow> tables \<Rightarrow> string list"
  pj_boundary :: "tables \<Rightarrow> (int \<times> int option) option"
  pj_ratio :: "guild_bank_row \<Rightarrow> rat option"
  pj_guild_meta :: "string \<Rightarrow> string option"

datatype inventory_plan = FromLedger | FromDeltas "ledger_delta list" | AlreadyWritten

definition modelNames :: "string list" where
  "modelNames =
     [''inventory'', ''guild_bank'', ''leaderboard_player'', ''leaderboard_guild'',
      ''leaderboard_reactor'', ''leaderboard_provider'', ''leaderboard_substation'', ''work'']"

definition on_api :: "(api_tables \<Rightarrow> api_tables) \<Rightarrow> tables \<Rightarrow> tables" where
  "on_api f d = d\<lparr>db_api := f (db_api d)\<rparr>"

section \<open>Readiness\<close>

text \<open>\<open>lock.go\<close>: the advisory lock is \<open>lockO\<close>.\<close>

definition withhold_inventory :: "refresh_row \<Rightarrow> refresh_row" where
  "withhold_inventory r = r\<lparr>rs_height := 0, rs_time := None\<rparr>"

text \<open>\<open>readmodel.Invalidate\<close>: two statements.\<close>

definition Withhold :: "(world, unit) op" where
  "Withhold =
     bindO (exec (on_api (\<lambda>a. a\<lparr>ap_refresh := tbl_filter (\<lambda>m r. m = ''inventory'') (ap_refresh a)\<rparr>))) (\<lambda>_.
     exec (on_api (\<lambda>a. a\<lparr>ap_refresh := map (\<lambda>(m, r).
        (m, if m = ''inventory'' then withhold_inventory r else r)) (ap_refresh a)\<rparr>)))"

definition authority_of :: "string \<Rightarrow> string" where
  "authority_of model = (if model = ''inventory'' then ''current-claims-v1'' else ''ledger'')"

definition refreshModels :: "string list \<Rightarrow> int \<Rightarrow> int option \<Rightarrow> (world, unit) op" where
  "refreshModels models height time' =
     (if models = [] then returnO ()
      else exec (on_api (\<lambda>a. a\<lparr>ap_refresh := fold (\<lambda>m t. tbl_put m
        \<lparr>rs_height = height, rs_time = map_option pg_timestamp time', rs_authority = authority_of m\<rparr> t) models (ap_refresh a)\<rparr>)))"

definition work_refresh :: "projections \<Rightarrow> bool \<Rightarrow> int \<Rightarrow> int option \<Rightarrow> tables \<Rightarrow> tables" where
  "work_refresh P full height time' d =
     on_api (\<lambda>a. a\<lparr>ap_work := pj_work P full d,
        ap_refresh := tbl_put ''work''
          \<lparr>rs_height = height, rs_time = map_option pg_timestamp time', rs_authority = authority_of ''work''\<rparr> (ap_refresh a)\<rparr>) d"

definition refreshWork :: "projections \<Rightarrow> bool \<Rightarrow> int \<Rightarrow> int option \<Rightarrow> (world, unit) op" where
  "refreshWork P full height time' =
     wrapO ''work: api_work_refresh: '' (exec (work_refresh P full height time'))"

definition NeedsBackfill :: "int \<Rightarrow> tables \<Rightarrow> bool" where
  "NeedsBackfill height d \<longleftrightarrow>
     length (filter (\<lambda>(m, r). m \<in> set modelNames \<and> rs_height r = height \<and>
        (m \<noteq> ''inventory'' \<or> rs_authority r = ''current-claims-v1'')) (ap_refresh (db_api d)))
       \<noteq> length modelNames"

section \<open>Expanding the dirty set\<close>

definition pool_entry :: string where
  "pool_entry = ''Bank Collateral Pool''"

definition pool_guild :: "tables \<Rightarrow> string \<Rightarrow> string option" where
  "pool_guild d a =
     (if tbl_get (db_address_tag d) (a, ''Type'') = Some pool_entry
      then tbl_get (db_address_tag d) (a, ''GuildId'') else None)"

text \<open>One dirty address joined with its owners (none: one row of nulls) and its guild tag.\<close>

definition address_rows ::
  "projections \<Rightarrow> string set \<Rightarrow> tables \<Rightarrow> ((string \<times> string) option \<times> string option) list" where
  "address_rows P ids d =
     concat (map (\<lambda>a.
        let owners = filter (\<lambda>(x, ty, i). x = a) (pj_owners P d) in
        map (\<lambda>o'. (o', pool_guild d a))
          (if owners = [] then [None] else map (\<lambda>(x, ty, i). Some (ty, i)) owners))
       (sorted_list_of_set ids))"

definition mark_owner :: "string \<times> string \<Rightarrow> dirty \<Rightarrow> dirty" where
  "mark_owner p dt =
     (case p of (ty, i) \<Rightarrow>
        if ty = ''guild'' then Dirty_Guild i dt
        else (Dirty_Player i dt)\<lparr>d_inventory := map_option (add_id i) (d_inventory dt)\<rparr>)"

definition mark_address_row :: "(string \<times> string) option \<times> string option \<Rightarrow> dirty \<Rightarrow> dirty" where
  "mark_address_row r dt =
     (let dt1 = (case fst r of None \<Rightarrow> dt | Some p \<Rightarrow> mark_owner p dt) in
      case snd r of None \<Rightarrow> dt1 | Some g \<Rightarrow> Dirty_Guild g dt1)"

definition expandAddresses :: "projections \<Rightarrow> dirty \<Rightarrow> (world, dirty) op" where
  "expandAddresses P dt =
     (if d_addresses dt = {} then returnO dt
      else bindO (wrapO ''expand dirty addresses: '' (query (address_rows P (d_addresses dt)))) (\<lambda>rows.
           returnO (fold mark_address_row rows dt)))"

definition mark_grid :: "string \<Rightarrow> dirty \<Rightarrow> dirty" where
  "mark_grid i dt =
     (case parse_object i of
        Inl e \<Rightarrow> dt
      | Inr (k, idx, sub) \<Rightarrow>
          (case k of Player \<Rightarrow> Dirty_Player i dt | Substation \<Rightarrow> Dirty_Substation i dt | _ \<Rightarrow> dt))"

definition player_rows :: "dirty \<Rightarrow> tables \<Rightarrow> (string \<times> string option \<times> string option) list" where
  "player_rows dt d =
     map (\<lambda>(i, r). (i, pl_guild_id r, pl_substation_id r))
       (filter (\<lambda>(i, r). i \<in> d_players dt \<or> (\<exists>g \<in> d_guilds dt. pl_guild_id r = Some g) \<or>
          (\<exists>s \<in> d_substations dt. pl_substation_id r = Some s)) (db_player d))"

definition mark_player_row :: "string \<times> string option \<times> string option \<Rightarrow> dirty \<Rightarrow> dirty" where
  "mark_player_row r dt =
     (case r of (i, g, s) \<Rightarrow>
        let dt1 = Dirty_Player i dt;
            dt2 = (case g of None \<Rightarrow> dt1 | Some x \<Rightarrow> Dirty_Guild x dt1) in
        (case s of None \<Rightarrow> dt2 | Some x \<Rightarrow> Dirty_Substation x dt2))"

definition expandPlayers :: "dirty \<Rightarrow> (world, dirty) op" where
  "expandPlayers dt =
     (if d_players dt = {} \<and> d_guilds dt = {} \<and> d_substations dt = {} then returnO dt
      else bindO (wrapO ''expand dirty players: '' (query (player_rows dt))) (\<lambda>rows.
           returnO (fold mark_player_row rows dt)))"

definition token_denom :: "string \<Rightarrow> string" where
  "token_denom g = guild_prefix @ g"

definition holder_rows :: "string set \<Rightarrow> tables \<Rightarrow> string list" where
  "holder_rows guilds d =
     remdups (map (\<lambda>((ty, i, den), b). i)
       (filter (\<lambda>((ty, i, den), b). ty = ''player'' \<and> den \<in> token_denom ` guilds)
         (ap_inventory (db_api d))))"

definition expandGuildTokenHolders :: "dirty \<Rightarrow> (world, dirty) op" where
  "expandGuildTokenHolders dt =
     (if d_guilds dt = {} then returnO dt
      else bindO (wrapO ''expand guild token holders: '' (query (holder_rows (d_guilds dt)))) (\<lambda>ids.
           returnO (fold Dirty_Player ids dt)))"

definition Expand :: "projections \<Rightarrow> dirty \<Rightarrow> (world, dirty) op" where
  "Expand P dt0 =
     bindO (expandAddresses P (dt0\<lparr>d_inventory := Some (d_players dt0)\<rparr>)) (\<lambda>dt1.
     bindO (expandPlayers (fold mark_grid (sorted_list_of_set (d_grid dt1)) dt1)) (\<lambda>dt2.
     expandGuildTokenHolders dt2))"

section \<open>Inventory\<close>

text \<open>The SQL aggregate \<open>SUM\<close>: null on no rows.\<close>

definition sql_sum :: "int list \<Rightarrow> int option" where
  "sql_sum xs = (if xs = [] then None else Some (sum_list xs))"

definition coalesce0 :: "int option \<Rightarrow> int" where
  "coalesce0 v = (case v of None \<Rightarrow> 0 | Some x \<Rightarrow> x)"

definition synthetic_denom :: "string \<Rightarrow> bool" where
  "synthetic_denom den \<longleftrightarrow> den = ''ualpha.infused'' \<or> den = ''ualpha.defusing''"

type_synonym inventory = "(string \<times> string \<times> string, int option) table"

definition on_inventory :: "(inventory \<Rightarrow> inventory) \<Rightarrow> tables \<Rightarrow> tables" where
  "on_inventory f = on_api (\<lambda>a. a\<lparr>ap_inventory := f (ap_inventory a)\<rparr>)"

definition inventory_of :: "tables \<Rightarrow> inventory" where
  "inventory_of d = ap_inventory (db_api d)"

text \<open>\<open>INSERT ... ON CONFLICT DO UPDATE SET balance = balance + EXCLUDED.balance\<close>, null if unknown.\<close>

definition add_balance :: "(string \<times> string) \<times> int \<Rightarrow> inventory \<Rightarrow> inventory" where
  "add_balance e t =
     (case e of ((addr, den), v) \<Rightarrow>
        let k = (''address'', addr, den) in
        tbl_put k (case tbl_get t k of None \<Rightarrow> Some v | Some b \<Rightarrow> map_option (\<lambda>x. x + v) b) t)"

definition delta_value :: "ledger_delta \<Rightarrow> int option" where
  "delta_value x = big_of_string (ld_delta x)"

definition delta_key :: "ledger_delta \<Rightarrow> string \<times> string" where
  "delta_key x = (ld_address x, ld_denom x)"

text \<open>The groups of one statement, with their sums.\<close>

definition delta_groups :: "ledger_delta list \<Rightarrow> ((string \<times> string) \<times> int) list" where
  "delta_groups deltas =
     (let real = filter (\<lambda>x. \<not> synthetic_denom (ld_denom x)) deltas in
      map (\<lambda>k. (k, sum_list (map (\<lambda>x. coalesce0 (delta_value x)) (filter (\<lambda>x. delta_key x = k) real))))
        (remdups (map delta_key real)))"

text \<open>A text that is not a number fails the cast to \<open>numeric[]\<close>.\<close>

definition invalid_numeric :: goerror where
  "invalid_numeric = GoErr [PgError ''22P02''] ''invalid input syntax for type numeric''"

definition abort_with :: "goerror \<Rightarrow> (world, unit) op" where
  "abort_with e = bindO (modifyO (\<lambda>w. w\<lparr>w_aborted := True\<rparr>)) (\<lambda>_. failO e)"

definition apply_deltas :: "ledger_delta list \<Rightarrow> (world, unit) op" where
  "apply_deltas deltas =
     (if deltas = [] then returnO ()
      else if \<not> list_all (\<lambda>x. delta_value x \<noteq> None) deltas then abort_with invalid_numeric
      else exec (on_inventory (fold add_balance (delta_groups deltas))))"

definition inventory_addresses :: "projections \<Rightarrow> dirty \<Rightarrow> tables \<Rightarrow> string list" where
  "inventory_addresses P dt d =
     sorted_list_of_set (d_addresses dt \<union>
       set (map (\<lambda>(a, ty, i). a) (filter (\<lambda>(a, ty, i). i \<in> InventoryOwnerIDs dt) (pj_owners P d))))"

definition is_claim_candidate :: "projections \<Rightarrow> tables \<Rightarrow> string \<Rightarrow> bool" where
  "is_claim_candidate P d a \<longleftrightarrow>
     list_ex (\<lambda>(x, ty, i). x = a) (pj_owners P d) \<or>
     list_ex (\<lambda>((c, x), r). x = a \<and> tbl_get (sy_cursor (db_sync d)) c \<noteq> None) (db_native d) \<or>
     list_ex (\<lambda>((dest, x), r). x = a) (db_infusion d) \<or>
     list_ex (\<lambda>((ty, x, den), b). ty = ''address'' \<and> x = a \<and> synthetic_denom den) (inventory_of d)"

text \<open>One statement: \<open>fresh\<close> claims, the stale rows removed, the fresh ones upserted.\<close>

definition refresh_claims :: "projections \<Rightarrow> string list \<Rightarrow> tables \<Rightarrow> tables" where
  "refresh_claims P addresses d =
     (let fresh = pj_claims P d (filter (is_claim_candidate P d) addresses);
          is_fresh = (\<lambda>a den. list_ex (\<lambda>(x, e, b). x = a \<and> e = den) fresh) in
      on_inventory (\<lambda>t. fold (\<lambda>(a, den, b). tbl_put (''address'', a, den) b) fresh
        (tbl_filter (\<lambda>(ty, a, den) b. \<not> (ty = ''address'' \<and> a \<in> set addresses \<and> synthetic_denom den \<and>
            \<not> is_fresh a den)) t)) d)"

definition refreshInventoryClaims :: "projections \<Rightarrow> dirty \<Rightarrow> (world, unit) op" where
  "refreshInventoryClaims P dt =
     bindO (query (inventory_addresses P dt)) (\<lambda>addresses.
     if addresses = [] then returnO () else exec (refresh_claims P addresses))"

text \<open>The \<open>fresh\<close> rows of the owners: a balance is null when one of its parts is.\<close>

definition owner_parts :: "projections \<Rightarrow> tables \<Rightarrow> string \<times> string \<times> string \<Rightarrow> int option list" where
  "owner_parts P d k =
     (case k of (ty, i, den) \<Rightarrow>
        concat (map (\<lambda>(a, ty', i'). if ty' = ty \<and> i' = i
            then (case tbl_get (inventory_of d) (''address'', a, den) of None \<Rightarrow> [] | Some b \<Rightarrow> [b]) else [])
          (pj_owners P d)))"

definition owner_balance :: "projections \<Rightarrow> tables \<Rightarrow> string \<times> string \<times> string \<Rightarrow> int option" where
  "owner_balance P d k =
     (let parts = owner_parts P d k in
      if None \<in> set parts then None else sql_sum (map the parts))"

definition owner_keys :: "projections \<Rightarrow> string set \<Rightarrow> tables \<Rightarrow> (string \<times> string \<times> string) list" where
  "owner_keys P owners d =
     remdups (concat (map (\<lambda>(a, ty, i). if i \<in> owners
        then map (\<lambda>((x, y, den), b). (ty, i, den))
          (filter (\<lambda>((x, y, den), b). x = ''address'' \<and> y = a) (inventory_of d)) else [])
       (pj_owners P d)))"

definition rebuild_owners :: "projections \<Rightarrow> string set \<Rightarrow> tables \<Rightarrow> tables" where
  "rebuild_owners P owners d =
     (let keys = owner_keys P owners d in
      on_inventory (\<lambda>t. fold (\<lambda>k. tbl_put k (owner_balance P d k)) keys
        (tbl_filter (\<lambda>(ty, i, den) b. \<not> ((ty = ''player'' \<or> ty = ''guild'') \<and> i \<in> owners \<and>
            (ty, i, den) \<notin> set keys)) t)) d)"

definition rebuildOwnerInventory :: "projections \<Rightarrow> string set \<Rightarrow> (world, unit) op" where
  "rebuildOwnerInventory P owners =
     (if owners = {} then returnO () else exec (rebuild_owners P owners))"

definition applyInventoryDeltas :: "projections \<Rightarrow> dirty \<Rightarrow> ledger_delta list \<Rightarrow> (world, unit) op" where
  "applyInventoryDeltas P dt deltas =
     bindO (apply_deltas deltas) (\<lambda>_.
     bindO (refreshInventoryClaims P dt) (\<lambda>_.
     rebuildOwnerInventory P (InventoryOwnerIDs dt)))"

definition recomputeInventory :: "projections \<Rightarrow> dirty \<Rightarrow> (world, unit) op" where
  "recomputeInventory P dt =
     bindO (query (inventory_addresses P dt)) (\<lambda>addresses.
     bindO (whenO (addresses \<noteq> [])
       (bindO (exec (on_inventory (tbl_filter (\<lambda>(ty, a, den) b. \<not> (ty = ''address'' \<and> a \<in> set addresses))))) (\<lambda>_.
        exec (\<lambda>d. on_inventory (\<lambda>t. t @ map (\<lambda>(a, den, b). ((''address'', a, den), b))
          (pj_address_expected P d addresses)) d)))) (\<lambda>_.
     rebuildOwnerInventory P (InventoryOwnerIDs dt)))"

section \<open>Boards\<close>

text \<open>\<open>DELETE ... WHERE id = ANY(ids)\<close> and \<open>INSERT ... SELECT ... WHERE id = ANY(ids)\<close>.\<close>

definition clear_rows :: "string set \<Rightarrow> (string, 'r) table \<Rightarrow> (string, 'r) table" where
  "clear_rows ids t = tbl_filter (\<lambda>i r. i \<notin> ids) t"

definition select_rows :: "string set \<Rightarrow> (string \<Rightarrow> 'b \<Rightarrow> 'r) \<Rightarrow> (string, 'b) table \<Rightarrow> (string, 'r) table" where
  "select_rows ids f base = map (\<lambda>(i, b). (i, f i b)) (filter (\<lambda>(i, b). i \<in> ids) base)"

definition amount_value :: "ledger_row \<Rightarrow> int" where
  "amount_value l =
     (let v = coalesce0 (big_of_string (lr_amount l)) in if lr_direction l = ''credit'' then v else - v)"

text \<open>\<open>recomputeGuildBank\<close>: collateral held by the guild's pool addresses, supply by its events.\<close>

definition pool_addresses :: "string \<Rightarrow> tables \<Rightarrow> string list" where
  "pool_addresses g d =
     map (\<lambda>((a, l), e). a) (filter (\<lambda>((a, l), e). l = ''Type'' \<and> e = pool_entry \<and>
        tbl_get (db_address_tag d) (a, ''GuildId'') = Some g) (db_address_tag d))"

definition guild_collateral :: "string \<Rightarrow> tables \<Rightarrow> int option" where
  "guild_collateral g d =
     sql_sum (concat (map (\<lambda>a. map amount_value
       (filter (\<lambda>l. lr_address l = a \<and> lr_denom l = ''ualpha'') (db_ledger d))) (pool_addresses g d)))"

definition guild_supply :: "string \<Rightarrow> tables \<Rightarrow> int option" where
  "guild_supply g d =
     sql_sum (map amount_value
       (filter (\<lambda>l. guild_supply_action (lr_action l) \<and> lr_denom l = token_denom g) (db_ledger d)))"

definition guild_bank_of :: "tables \<Rightarrow> string \<Rightarrow> guild_row \<Rightarrow> guild_bank_row" where
  "guild_bank_of d g r =
     \<lparr>gb_denom = token_denom g, gb_collateral = guild_collateral g d, gb_supply = guild_supply g d\<rparr>"

definition recomputeGuildBank :: "dirty \<Rightarrow> (world, unit) op" where
  "recomputeGuildBank dt =
     (let ids = d_guilds dt in
      if ids = {} then returnO ()
      else bindO (exec (on_api (\<lambda>a. a\<lparr>ap_guild_bank := clear_rows ids (ap_guild_bank a)\<rparr>))) (\<lambda>_.
           exec (\<lambda>d. on_api (\<lambda>a. a\<lparr>ap_guild_bank := ap_guild_bank a
             @ select_rows ids (guild_bank_of d) (db_guild d)\<rparr>) d)))"

text \<open>\<open>recomputePlayers\<close>: the inventory rows of the player joined with the banks by denomination.\<close>

definition bank_ratio :: "projections \<Rightarrow> tables \<Rightarrow> string \<Rightarrow> rat option" where
  "bank_ratio P d den =
     (case find (\<lambda>(g, b). gb_denom b = den) (ap_guild_bank (db_api d)) of
        None \<Rightarrow> None | Some (g, b) \<Rightarrow> pj_ratio P b)"

definition player_inventory :: "tables \<Rightarrow> string \<Rightarrow> (string \<times> int option) list" where
  "player_inventory d i =
     map (\<lambda>((ty, o', den), b). (den, b))
       (filter (\<lambda>((ty, o', den), b). ty = ''player'' \<and> o' = i) (inventory_of d))"

definition alpha_denom :: "string \<Rightarrow> bool" where
  "alpha_denom den \<longleftrightarrow> den = ''ualpha'' \<or> synthetic_denom den"

definition item_value :: "projections \<Rightarrow> tables \<Rightarrow> string \<times> int option \<Rightarrow> rat option" where
  "item_value P d item =
     (case item of (den, b) \<Rightarrow>
        (case b of
           None \<Rightarrow> None
         | Some v \<Rightarrow>
             if alpha_denom den then Some (of_int v)
             else if den = ''ore'' then Some 0
             else map_option (\<lambda>r. of_int v * r) (bank_ratio P d den)))"

definition alpha_value :: "projections \<Rightarrow> tables \<Rightarrow> string \<Rightarrow> rat option" where
  "alpha_value P d i =
     (let items = map (item_value P d) (player_inventory d i) in
      if None \<in> set items then None else Some (sum_list (map the items)))"

definition alpha_balance :: "tables \<Rightarrow> string \<Rightarrow> int" where
  "alpha_balance d i =
     sum_list (map (\<lambda>(den, b). coalesce0 b) (filter (\<lambda>(den, b). den = ''ualpha'') (player_inventory d i)))"

definition player_board_of :: "projections \<Rightarrow> tables \<Rightarrow> string \<Rightarrow> player_row \<Rightarrow> player_board_row" where
  "player_board_of P d i r =
     \<lparr>pb_username = pl_username r, pb_guild_id = pl_guild_id r, pb_alpha_balance = alpha_balance d i,
      pb_alpha_value = alpha_value P d i\<rparr>"

definition recomputePlayers :: "projections \<Rightarrow> dirty \<Rightarrow> (world, unit) op" where
  "recomputePlayers P dt =
     (let ids = d_players dt in
      if ids = {} then returnO ()
      else bindO (exec (\<lambda>d. on_api (\<lambda>a. a\<lparr>ap_player := tbl_filter
             (\<lambda>i r. \<not> (i \<in> ids \<and> tbl_get (db_player d) i = None)) (ap_player a)\<rparr>) d)) (\<lambda>_.
           exec (\<lambda>d. on_api (\<lambda>a. a\<lparr>ap_player := fold (\<lambda>(i, r). tbl_put i r)
             (select_rows ids (player_board_of P d) (db_player d)) (ap_player a)\<rparr>) d)))"

text \<open>\<open>playerMetricCTE\<close>.\<close>

definition grid_metric :: "tables \<Rightarrow> string \<Rightarrow> string \<Rightarrow> int" where
  "grid_metric d i label =
     (let vs = map (\<lambda>(k, r). int (unat (gr_val r)))
        (filter (\<lambda>(k, r). gr_object_id r = i \<and> gr_attribute_type r = Some label) (db_grid d)) in
      if vs = [] then 0 else Max (set vs))"

definition player_capacity :: "tables \<Rightarrow> string \<Rightarrow> int" where
  "player_capacity d i = grid_metric d i ''capacity''"

definition player_load :: "tables \<Rightarrow> string \<Rightarrow> int" where
  "player_load d i = grid_metric d i ''load'' + grid_metric d i ''structsLoad''"

definition guild_members :: "tables \<Rightarrow> string \<Rightarrow> (string \<times> player_row) list" where
  "guild_members d g = filter (\<lambda>(i, r). pl_guild_id r = Some g) (db_player d)"

definition shared_capacity :: "tables \<Rightarrow> string \<Rightarrow> int" where
  "shared_capacity d g =
     (let used = map (pl_substation_id \<circ> snd) (guild_members d g) in
      sum_list (map (\<lambda>(s, r). grid_metric d s ''connectionCapacity'')
        (filter (\<lambda>(s, r). Some s \<in> set used) (db_substation d))))"

definition guild_board_of :: "projections \<Rightarrow> tables \<Rightarrow> string \<Rightarrow> guild_row \<Rightarrow> guild_board_row" where
  "guild_board_of P d g r =
     (let members = guild_members d g;
          bank = (case tbl_get (ap_guild_bank (db_api d)) g of
             None \<Rightarrow> None | Some b \<Rightarrow> if gb_denom b = token_denom g then Some b else None) in
      \<lparr>bg_name = pj_guild_meta P g, bg_onchain_name = gu_name r, bg_player_count = length members,
       bg_collateral = Option.bind bank gb_collateral, bg_supply = Option.bind bank gb_supply,
       bg_member_capacity = sum_list (map (\<lambda>(i, p). player_capacity d i) members),
       bg_member_load = sum_list (map (\<lambda>(i, p). player_load d i) members),
       bg_shared_capacity = shared_capacity d g\<rparr>)"

definition recomputeGuilds :: "projections \<Rightarrow> dirty \<Rightarrow> (world, unit) op" where
  "recomputeGuilds P dt =
     (let ids = d_guilds dt in
      if ids = {} then returnO ()
      else bindO (exec (on_api (\<lambda>a. a\<lparr>ap_guild := clear_rows ids (ap_guild a)\<rparr>))) (\<lambda>_.
           exec (\<lambda>d. on_api (\<lambda>a. a\<lparr>ap_guild := ap_guild a
             @ select_rows ids (guild_board_of P d) (db_guild d)\<rparr>) d)))"

definition reactor_board_of :: "tables \<Rightarrow> string \<Rightarrow> reactor_row \<Rightarrow> int \<times> int" where
  "reactor_board_of d i r =
     (let rows = map snd (filter (\<lambda>((dest, a), x). dest = i \<and> in_destination_type x = ''reactor'') (db_infusion d)) in
      (sum_list (map (\<lambda>x. int (unat (in_fuel x))) rows), sum_list (map (\<lambda>x. int (unat (in_power x))) rows)))"

definition recomputeReactors :: "dirty \<Rightarrow> (world, unit) op" where
  "recomputeReactors dt =
     (let ids = d_reactors dt in
      if ids = {} then returnO ()
      else bindO (exec (on_api (\<lambda>a. a\<lparr>ap_reactor := clear_rows ids (ap_reactor a)\<rparr>))) (\<lambda>_.
           exec (\<lambda>d. on_api (\<lambda>a. a\<lparr>ap_reactor := ap_reactor a
             @ select_rows ids (reactor_board_of d) (db_reactor d)\<rparr>) d)))"

definition provider_board_of :: "tables \<Rightarrow> string \<Rightarrow> provider_row \<Rightarrow> provider_board_row" where
  "provider_board_of d i r =
     \<lparr>bp_owner = pv_owner r, bp_rate_amount = pv_rate_amount r, bp_rate_denom = pv_rate_denom r,
      bp_agreements = length (filter (\<lambda>(k, a). ag_provider_id a = Some i) (db_agreement d))\<rparr>"

definition recomputeProviders :: "dirty \<Rightarrow> (world, unit) op" where
  "recomputeProviders dt =
     (let ids = d_providers dt in
      if ids = {} then returnO ()
      else bindO (exec (on_api (\<lambda>a. a\<lparr>ap_provider := clear_rows ids (ap_provider a)\<rparr>))) (\<lambda>_.
           exec (\<lambda>d. on_api (\<lambda>a. a\<lparr>ap_provider := ap_provider a
             @ select_rows ids (provider_board_of d) (db_provider d)\<rparr>) d)))"

definition substation_board_of :: "tables \<Rightarrow> string \<Rightarrow> substation_row \<Rightarrow> substation_board_row" where
  "substation_board_of d i r =
     (let users = filter (\<lambda>(k, p). pl_substation_id p = Some i) (db_player d) in
      \<lparr>bs_owner = sb_owner r, bs_load = grid_metric d i ''load'',
       bs_member_capacity = sum_list (map (\<lambda>(k, p). player_capacity d k) users),
       bs_shared_capacity = grid_metric d i ''connectionCapacity'', bs_player_count = length users\<rparr>)"

definition recomputeSubstations :: "dirty \<Rightarrow> (world, unit) op" where
  "recomputeSubstations dt =
     (let ids = d_substations dt in
      if ids = {} then returnO ()
      else bindO (exec (on_api (\<lambda>a. a\<lparr>ap_substation := clear_rows ids (ap_substation a)\<rparr>))) (\<lambda>_.
           exec (\<lambda>d. on_api (\<lambda>a. a\<lparr>ap_substation := ap_substation a
             @ select_rows ids (substation_board_of d) (db_substation d)\<rparr>) d)))"

section \<open>Recompute\<close>

definition recompute_inventory_plan :: "projections \<Rightarrow> dirty \<Rightarrow> inventory_plan \<Rightarrow> (world, string list) op" where
  "recompute_inventory_plan P dt plan =
     (case plan of
        AlreadyWritten \<Rightarrow> returnO []
      | FromDeltas deltas \<Rightarrow>
          bindO (wrapO ''inventory: '' (applyInventoryDeltas P dt deltas)) (\<lambda>_. returnO [''inventory''])
      | FromLedger \<Rightarrow>
          bindO (wrapO ''inventory: '' (recomputeInventory P dt)) (\<lambda>_. returnO [''inventory'']))"

definition recompute_boards :: "projections \<Rightarrow> dirty \<Rightarrow> (world, unit) op" where
  "recompute_boards P dt =
     bindO (wrapO ''guild_bank: '' (recomputeGuildBank dt)) (\<lambda>_.
     bindO (wrapO ''leaderboard_player: '' (recomputePlayers P dt)) (\<lambda>_.
     bindO (wrapO ''leaderboard_guild: '' (recomputeGuilds P dt)) (\<lambda>_.
     bindO (wrapO ''leaderboard_reactor: '' (recomputeReactors dt)) (\<lambda>_.
     bindO (wrapO ''leaderboard_provider: '' (recomputeProviders dt)) (\<lambda>_.
     wrapO ''leaderboard_substation: '' (recomputeSubstations dt))))))"

definition board_models :: "string list" where
  "board_models =
     [''guild_bank'', ''leaderboard_player'', ''leaderboard_guild'', ''leaderboard_reactor'',
      ''leaderboard_provider'', ''leaderboard_substation'']"

definition recompute ::
  "projections \<Rightarrow> dirty \<Rightarrow> int \<Rightarrow> int option \<Rightarrow> inventory_plan \<Rightarrow> bool \<Rightarrow> (world, unit) op" where
  "recompute P dt0 height time' plan fullWork =
     bindO (Expand P dt0) (\<lambda>dt.
     bindO (recompute_inventory_plan P dt plan) (\<lambda>refreshed.
     bindO (recompute_boards P dt) (\<lambda>_.
     bindO (wrapO ''refresh_state: '' (refreshModels (refreshed @ board_models) height time')) (\<lambda>_.
     refreshWork P fullWork height time'))))"

definition Recompute ::
  "projections \<Rightarrow> dirty \<Rightarrow> int \<Rightarrow> int option \<Rightarrow> inventory_plan \<Rightarrow> (world, unit) op" where
  "Recompute P dt height time' plan = recompute P dt height time' plan False"

text \<open>\<open>RefreshNativeClaims\<close>: only while the inventory follows current claims.\<close>

definition claims_active :: "tables \<Rightarrow> bool" where
  "claims_active d \<longleftrightarrow>
     (case tbl_get (ap_refresh (db_api d)) ''inventory'' of
        None \<Rightarrow> False | Some r \<Rightarrow> rs_authority r = ''current-claims-v1'')"

definition RefreshNativeClaims :: "projections \<Rightarrow> string \<Rightarrow> (world, unit) op" where
  "RefreshNativeClaims P address =
     bindO (query claims_active) (\<lambda>active.
     if \<not> active then returnO ()
     else
       let dt0 = Dirty_Address address NewDirty in
       bindO (expandAddresses P (dt0\<lparr>d_inventory := Some (d_players dt0)\<rparr>)) (\<lambda>dt.
       bindO (applyInventoryDeltas P dt []) (\<lambda>_.
       recomputePlayers P dt)))"

section \<open>Drift and backfill\<close>

definition mark_drift :: "string \<times> string \<times> string \<Rightarrow> dirty \<Rightarrow> dirty" where
  "mark_drift k dt =
     (case k of (ty, i, den) \<Rightarrow>
        if ty = ''address'' then Dirty_Address i dt
        else if ty = ''player'' then Dirty_Player i dt
        else if ty = ''guild'' then Dirty_Guild i dt
        else dt)"

definition drift_batch :: "tables \<Rightarrow> (int \<times> (string \<times> string \<times> string) list) option" where
  "drift_batch d =
     (case ap_drift (db_api d) of
        None \<Rightarrow> None
      | Some rows \<Rightarrow>
          if rows = [] then None
          else (let latest = Max (fst ` set rows) in
            Some (latest, remdups (map snd (filter (\<lambda>r. fst r \<le> latest) rows)))))"

text \<open>\<open>consumeDrift\<close>: the drift rows and the dirty set it leaves.\<close>

definition consumeDrift :: "projections \<Rightarrow> dirty \<Rightarrow> (world, nat \<times> dirty) op" where
  "consumeDrift P dt0 =
     bindO lockO (\<lambda>_.
     bindO (query (\<lambda>d. ap_drift (db_api d) \<noteq> None)) (\<lambda>present.
     if \<not> present then returnO (0, dt0)
     else bindO (query drift_batch) (\<lambda>batch.
       case batch of
         None \<Rightarrow> returnO (0, dt0)
       | Some (latest, ks) \<Rightarrow>
           bindO (query (\<lambda>d. ())) (\<lambda>_.
           let dt1 = fold mark_drift ks dt0 in
           bindO (expandAddresses P (dt1\<lparr>d_inventory := Some (d_players dt1)\<rparr>)) (\<lambda>dt.
           bindO (recomputeInventory P dt) (\<lambda>_.
           bindO (wrapO ''delete drift batch: '' (exec (on_api (\<lambda>a. a\<lparr>ap_drift :=
             map_option (filter (\<lambda>r. \<not> fst r \<le> latest)) (ap_drift a)\<rparr>)))) (\<lambda>_.
           returnO (length ks, dt))))))))"

definition ConsumeDrift :: "projections \<Rightarrow> (world, nat) op" where
  "ConsumeDrift P = bindO (consumeDrift P NewDirty) (\<lambda>(n, dt). returnO n)"

definition boundary_ready :: "projections \<Rightarrow> tables \<Rightarrow> (int \<times> int option) option" where
  "boundary_ready P d =
     (case pj_boundary P d of
        None \<Rightarrow> None
      | Some (h, t) \<Rightarrow>
          if length (filter (\<lambda>(m, r). m \<in> set modelNames \<and> rs_height r = h \<and> rs_time r = t)
               (ap_refresh (db_api d))) = length modelNames
          then Some (h, t) else None)"

definition consumeDriftReady :: "projections \<Rightarrow> (world, nat) op" where
  "consumeDriftReady P =
     bindO lockO (\<lambda>_.
     bindO (query_opt (boundary_ready P)) (\<lambda>ready.
     case ready of
       None \<Rightarrow> returnO 0
     | Some (height, time') \<Rightarrow>
         bindO (consumeDrift P NewDirty) (\<lambda>(n, dt).
         bindO (whenO (0 < n) (wrapO ''refresh repaired inventory dependencies: ''
            (Recompute P dt height time' AlreadyWritten))) (\<lambda>_.
         returnO n))))"

definition boundary_moved :: "int \<Rightarrow> int option \<Rightarrow> tables \<Rightarrow> bool" where
  "boundary_moved height time' d \<longleftrightarrow>
     list_ex (\<lambda>(c, r). cu_height r \<noteq> height \<or> cu_time r \<noteq> map_option pg_timestamp time') (sy_cursor (db_sync d))"

text \<open>\<open>loadAllDirty\<close>: one query per kind of entity.\<close>

definition loadAllDirty :: "(world, dirty) op" where
  "loadAllDirty =
     bindO (query (\<lambda>d. map lr_address (db_ledger d))) (\<lambda>addrs.
     bindO (query (\<lambda>d. map fst (db_player d))) (\<lambda>ps.
     bindO (query (\<lambda>d. map fst (db_guild d))) (\<lambda>gs.
     bindO (query (\<lambda>d. map fst (db_reactor d))) (\<lambda>rs.
     bindO (query (\<lambda>d. map fst (db_provider d))) (\<lambda>vs.
     bindO (query (\<lambda>d. map fst (db_substation d))) (\<lambda>ss.
     returnO (fold Dirty_Substation ss (fold Dirty_Provider vs (fold Dirty_Reactor rs
       (fold Dirty_Guild gs (fold Dirty_Player ps (fold Dirty_Address addrs NewDirty))))))))))))"

definition clear_boards :: "(world, unit) op" where
  "clear_boards =
     bindO (exec (on_api (\<lambda>a. a\<lparr>ap_player := []\<rparr>))) (\<lambda>_.
     bindO (exec (on_api (\<lambda>a. a\<lparr>ap_guild := []\<rparr>))) (\<lambda>_.
     bindO (exec (on_api (\<lambda>a. a\<lparr>ap_reactor := []\<rparr>))) (\<lambda>_.
     bindO (exec (on_api (\<lambda>a. a\<lparr>ap_provider := []\<rparr>))) (\<lambda>_.
     bindO (exec (on_api (\<lambda>a. a\<lparr>ap_substation := []\<rparr>))) (\<lambda>_.
     exec (on_api (\<lambda>a. a\<lparr>ap_guild_bank := []\<rparr>)))))))"

definition backfillInventory :: "projections \<Rightarrow> (world, unit) op" where
  "backfillInventory P =
     bindO (wrapO ''clear api_inventory: '' (exec (on_inventory (\<lambda>t. [])))) (\<lambda>_.
     wrapO ''backfill current inventory: '' (exec (\<lambda>d. on_inventory (\<lambda>t. t @
       map (\<lambda>(ty, i, den, b). ((ty, i, den), b)) (pj_expected P d)) d)))"

text \<open>The report's row counts only read the tables and are not modelled.\<close>

definition BackfillInTx :: "projections \<Rightarrow> int \<Rightarrow> int option \<Rightarrow> (world, unit) op" where
  "BackfillInTx P height time' =
     bindO lockO (\<lambda>_.
     bindO (query (boundary_moved height time')) (\<lambda>advanced.
     bindO (guardO (\<not> advanced) (errorf ''backfill boundary changed before maintenance lock'')) (\<lambda>_.
     bindO loadAllDirty (\<lambda>dt.
     bindO (wrapO ''clear: '' clear_boards) (\<lambda>_.
     bindO (backfillInventory P) (\<lambda>_.
     bindO (wrapO ''consume inventory drift: '' (ConsumeDrift P)) (\<lambda>_.
     bindO (wrapO ''inventory refresh_state: '' (refreshModels [''inventory''] height time')) (\<lambda>_.
     recompute P dt height time' AlreadyWritten True))))))))"

end
