(* ===== verification/Read_Model_Facts.thy ===== *)
theory Read_Model_Facts
  imports Read_Model
begin

text \<open>
  What the projections guarantee: the incremental inventory is the sum of the ledger, and
  recomputing only what is dirty yields what a full rebuild would.
\<close>

section \<open>The inventory is the sum of the ledger\<close>

definition canonical_amount :: "ledger_row \<Rightarrow> bool" where
  "canonical_amount l \<longleftrightarrow> (case big_of_string (lr_amount l) of None \<Rightarrow> False | Some v \<Rightarrow> lr_amount l = dec_int v)"

definition balance_entries :: "ledger_row list \<Rightarrow> string \<times> string \<Rightarrow> int list" where
  "balance_entries ls k = map amount_value (filter (\<lambda>l. (lr_address l, lr_denom l) = k) ls)"

definition expected_balance :: "ledger_row list \<Rightarrow> string \<times> string \<Rightarrow> int option option" where
  "expected_balance ls k = map_option Some (sql_sum (balance_entries ls k))"

text \<open>Every balance of an address, other than the synthetic claims, is its ledger sum.\<close>

definition inventory_exact :: "tables \<Rightarrow> bool" where
  "inventory_exact d \<longleftrightarrow> (\<forall>a den. \<not> synthetic_denom den \<longrightarrow>
     tbl_get (inventory_of d) (''address'', a, den) = expected_balance (db_ledger d) (a, den))"

lemma zero_digits: "list_all (\<lambda>c. c = CHR ''0'') s \<Longrightarrow> nat_of_digits s = 0"
  by (induction s rule: rev_induct) (simp_all add: digit_val_def)

lemma all_zero_digits: "list_all (\<lambda>c. c \<in> {CHR ''0'', CHR ''.''}) (dec_nat n) \<Longrightarrow> n = 0"
proof -
  assume all: "list_all (\<lambda>c. c \<in> {CHR ''0'', CHR ''.''}) (dec_nat n)"
  have "CHR ''.'' \<notin> set (dec_nat n)" by (rule digit_free_dec_nat) (simp add: is_digit_def)
  with all have "list_all (\<lambda>c. c = CHR ''0'') (dec_nat n)" by (auto simp: list_all_iff)
  from zero_digits [OF this] show "n = 0" by simp
qed

lemma negate_dec_nat: "negate_text (dec_nat n) = (if n = 0 then dec_nat 0 else CHR ''-'' # dec_nat n)"
proof -
  have "CHR ''-'' \<notin> set (dec_nat n)" by (rule digit_free_dec_nat) (simp add: is_digit_def)
  then have "take 1 (dec_nat n) \<noteq> ''-''" by (cases "dec_nat n") auto
  moreover have "dec_nat 0 = ''0''" by code_simp
  ultimately show ?thesis using all_zero_digits [of n] by (auto simp: negate_text_def)
qed

lemma negate_dec_int: "big_of_string (negate_text (dec_int v)) = Some (- v)"
proof (cases "v < 0")
  case True
  then show ?thesis by (simp add: dec_int_def negate_text_def)
next
  case False
  have "big_of_string (CHR ''-'' # dec_nat n) = Some (- int n)" for n
    by (simp add: big_of_string_def)
  with False show ?thesis by (simp add: dec_int_def negate_dec_nat)
qed

lemma delta_of_canonical:
  assumes "canonical_amount l"
  shows "delta_value (ledger_delta_of l) = Some (amount_value l)"
proof -
  obtain v where v: "lr_amount l = dec_int v"
    using assms by (auto simp: canonical_amount_def split: option.splits)
  show ?thesis
    by (simp add: delta_value_def ledger_delta_of_def amount_value_def v negate_dec_int coalesce0_def Let_def)
qed

lemma add_balance_fold:
  assumes "distinct (map fst gs)"
  shows "tbl_get (fold add_balance gs t) (''address'', fst k, snd k) =
    (case map_of gs k of
       None \<Rightarrow> tbl_get t (''address'', fst k, snd k)
     | Some v \<Rightarrow> Some (case tbl_get t (''address'', fst k, snd k) of
          None \<Rightarrow> Some v | Some b \<Rightarrow> map_option (\<lambda>x. x + v) b))"
  using assms
proof (induction gs arbitrary: t)
  case (Cons g gs)
  obtain a den v where g: "g = ((a, den), v)" by (cases g) auto
  have "k = (a, den) \<Longrightarrow> map_of gs k = None"
    using Cons.prems by (auto simp: g map_of_eq_None_iff)
  then show ?case
    using Cons.IH [of "add_balance g t"] Cons.prems
    by (cases k) (auto simp: g add_balance_def Let_def split: option.splits)
qed simp

lemma delta_groups_distinct: "distinct (map fst (delta_groups deltas))"
  by (simp add: delta_groups_def Let_def comp_def)

lemma map_of_map_pair: "map_of (map (\<lambda>k. (k, f k)) ks) k = (if k \<in> set ks then Some (f k) else None)"
  by (induction ks) auto

lemma delta_groups_get:
  assumes "list_all canonical_amount new" "\<not> synthetic_denom (snd k)"
  shows "map_of (delta_groups (map ledger_delta_of new)) k = sql_sum (balance_entries new k)"
proof -
  let ?mine = "\<lambda>l. (lr_address l, lr_denom l) = k"
  have key: "delta_key (ledger_delta_of l) = (lr_address l, lr_denom l)"
    "ld_denom (ledger_delta_of l) = lr_denom l" for l
    by (simp_all add: delta_key_def ledger_delta_of_def)
  have sum: "sum_list (map (\<lambda>x. coalesce0 (delta_value x)) (filter (\<lambda>x. delta_key x = k)
        (filter (\<lambda>x. \<not> synthetic_denom (ld_denom x)) (map ledger_delta_of new))))
      = sum_list (balance_entries new k)"
    using assms
    by (induction new) (auto simp: balance_entries_def key delta_of_canonical coalesce0_def)
  have mem: "k \<in> delta_key ` set (filter (\<lambda>x. \<not> synthetic_denom (ld_denom x)) (map ledger_delta_of new))
      \<longleftrightarrow> balance_entries new k \<noteq> []"
    using assms(2) by (auto simp: balance_entries_def key filter_empty_conv image_iff)
  show ?thesis
    using sum mem by (simp add: delta_groups_def Let_def map_of_map_pair sql_sum_def)
qed

lemma expected_balance_append:
  "expected_balance (ls @ new) k = (case sql_sum (balance_entries new k) of
      None \<Rightarrow> expected_balance ls k
    | Some v \<Rightarrow> Some (case expected_balance ls k of None \<Rightarrow> Some v | Some b \<Rightarrow> map_option (\<lambda>x. x + v) b))"
  by (auto simp: expected_balance_def balance_entries_def sql_sum_def)

lemma apply_deltas_exact:
  assumes "apply_deltas deltas w = (Inr (), w')" "deltas = map ledger_delta_of new"
    and "list_all canonical_amount new"
    and "db_ledger (w_db w) = ls @ new"
    and "\<And>a den. \<not> synthetic_denom den \<Longrightarrow>
       tbl_get (inventory_of (w_db w)) (''address'', a, den) = expected_balance ls (a, den)"
  shows "inventory_exact (w_db w')"
proof (cases "deltas = []")
  case True
  with assms show ?thesis by (simp add: apply_deltas_def inventory_exact_def)
next
  case False
  have "\<not> list_ex (\<lambda>x. delta_value x = None) deltas"
    using assms(2,3) by (auto simp: list_ex_iff list_all_iff delta_of_canonical)
  then have "w_db w' = on_inventory (fold add_balance (delta_groups deltas)) (w_db w)"
    using assms(1) False
    by (auto simp: apply_deltas_def abort_with_def bindO_Inr failO_def exec_Inr split: if_splits)
  then have inv: "inventory_of (w_db w') = fold add_balance (delta_groups deltas) (inventory_of (w_db w))"
    and led: "db_ledger (w_db w') = ls @ new"
    using assms(4) by (simp_all add: inventory_of_def on_inventory_def on_api_def)
  show ?thesis
    unfolding inventory_exact_def
  proof (intro allI impI)
    fix a den assume den: "\<not> synthetic_denom den"
    show "tbl_get (inventory_of (w_db w')) (''address'', a, den) = expected_balance (db_ledger (w_db w')) (a, den)"
      using add_balance_fold [OF delta_groups_distinct, of deltas "inventory_of (w_db w)" "(a, den)"] den
        delta_groups_get [OF assms(3), of "(a, den)"] assms(5) [OF den]
      by (simp add: inv led expected_balance_append assms(2) split: option.splits)
  qed
qed

text \<open>Rewriting rows of other keys keeps a row.\<close>

lemma fold_put_other:
  "k \<notin> f ` set xs \<Longrightarrow> tbl_get (fold (\<lambda>x. tbl_put (f x) (g x)) xs t) k = tbl_get t k"
  by (induction xs arbitrary: t) auto

lemma refresh_claims_other:
  assumes "list_all (\<lambda>(a, den, b). synthetic_denom den) (pj_claims P d (filter (is_claim_candidate P d) as))"
    and "\<not> synthetic_denom den"
  shows "tbl_get (inventory_of (refresh_claims P as d)) (''address'', a, den) = tbl_get (inventory_of d) (''address'', a, den)"
proof -
  let ?fresh = "pj_claims P d (filter (is_claim_candidate P d) as)"
  have "(''address'', a, den) \<notin> (\<lambda>(a, den, b). (''address'', a, den)) ` set ?fresh"
    using assms by (auto simp: list_all_iff)
  note keep = fold_put_other [OF this, of "\<lambda>(a, den, b). b"]
  show ?thesis
    using keep assms(2)
      tbl_get_kept_keys [of "\<lambda>(ty, a, den). \<not> (ty = ''address'' \<and> a \<in> set as \<and> synthetic_denom den \<and>
        \<not> list_ex (\<lambda>(x, e, b). x = a \<and> e = den) ?fresh)" "inventory_of d" "(''address'', a, den)"]
    by (simp add: refresh_claims_def Let_def inventory_of_def on_inventory_def on_api_def case_prod_unfold)
qed

lemma rebuild_owners_other:
  assumes "list_all (\<lambda>(a, ty, i). ty \<noteq> ''address'') (pj_owners P d)"
  shows "tbl_get (inventory_of (rebuild_owners P owners d)) (''address'', a, den) = tbl_get (inventory_of d) (''address'', a, den)"
proof -
  let ?keys = "owner_keys P owners d"
  have "(''address'', a, den) \<notin> (\<lambda>k. k) ` set ?keys"
    using assms by (auto simp: owner_keys_def list_all_iff split: if_splits)
  note keep = fold_put_other [OF this, of "owner_balance P d"]
  show ?thesis
    using keep tbl_get_kept_keys [of "\<lambda>(ty, i, den). \<not> ((ty = ''player'' \<or> ty = ''guild'') \<and> i \<in> owners \<and>
        (ty, i, den) \<notin> set ?keys)" "inventory_of d" "(''address'', a, den)"]
    by (simp add: rebuild_owners_def Let_def inventory_of_def on_inventory_def on_api_def case_prod_unfold)
qed

lemma projections_keep_ledger [simp]:
  "db_ledger (refresh_claims P as d) = db_ledger d" "db_ledger (rebuild_owners P owners d) = db_ledger d"
  by (simp_all add: refresh_claims_def rebuild_owners_def Let_def on_inventory_def on_api_def)

definition documented_views :: "projections \<Rightarrow> bool" where
  "documented_views P \<longleftrightarrow>
     (\<forall>d as. list_all (\<lambda>(a, den, b). synthetic_denom den) (pj_claims P d as)) \<and>
     (\<forall>d. list_all (\<lambda>(a, ty, i). ty = ''player'' \<or> ty = ''guild'') (pj_owners P d))"

lemma exact_after:
  assumes "inventory_exact d" "db_ledger d' = db_ledger d"
    and "\<And>a den. \<not> synthetic_denom den \<Longrightarrow>
      tbl_get (inventory_of d') (''address'', a, den) = tbl_get (inventory_of d) (''address'', a, den)"
  shows "inventory_exact d'"
  using assms by (simp add: inventory_exact_def)

lemma applyInventoryDeltas_exact:
  assumes run: "applyInventoryDeltas P dt deltas w = (Inr (), w')" and views: "documented_views P"
    and deltas: "deltas = map ledger_delta_of new" "list_all canonical_amount new" "db_ledger (w_db w) = ls @ new"
    and old: "\<And>a den. \<not> synthetic_denom den \<Longrightarrow>
       tbl_get (inventory_of (w_db w)) (''address'', a, den) = expected_balance ls (a, den)"
  shows "inventory_exact (w_db w')"
proof -
  from run obtain w1 w2 where ap: "apply_deltas deltas w = (Inr (), w1)"
    and cl: "refreshInventoryClaims P dt w1 = (Inr (), w2)"
    and ow: "rebuildOwnerInventory P (InventoryOwnerIDs dt) w2 = (Inr (), w')"
    by (auto simp: applyInventoryDeltas_def bindO_Inr)
  have e1: "inventory_exact (w_db w1)"
    by (rule apply_deltas_exact [OF ap deltas old])
  have "w_db w2 = w_db w1 \<or> (\<exists>as. w_db w2 = refresh_claims P as (w_db w1))"
    using cl by (auto simp: refreshInventoryClaims_def query_def bindO_Inr sql_Inr dest!: exec_Inr split: if_splits)
  moreover have "list_all (\<lambda>(a, den, b). synthetic_denom den) (pj_claims P d as)" for d as
    using views by (simp add: documented_views_def)
  ultimately have e2: "inventory_exact (w_db w2)"
    using e1 exact_after [OF e1] refresh_claims_other by fastforce
  have "w_db w' = w_db w2 \<or> w_db w' = rebuild_owners P (InventoryOwnerIDs dt) (w_db w2)"
    using ow by (auto simp: rebuildOwnerInventory_def dest!: exec_Inr split: if_splits)
  moreover have "list_all (\<lambda>(a, ty, i). ty \<noteq> ''address'') (pj_owners P (w_db w2))"
    using views by (force simp: documented_views_def list_all_iff)
  ultimately show ?thesis
    using e2 exact_after [OF e2] rebuild_owners_other by fastforce
qed

text \<open>C6: The incremental inventory never drifts from the ledger.  If every address balance equals the
  sum of its ledger rows before, then flushing a block's ledger rows and applying the deltas
  the flush returned leaves every balance equal to the sum again, however the rows are
  batched and even when some or all of them were stored before (a replay adds nothing).
  Synthetic claim denominations are not ledger sums and are excluded; the two database
  views are assumed to yield only synthetic claims and only player or guild owners.\<close>

theorem inventory_matches_ledger:
  assumes "inventory_exact (w_db w)" "list_all canonical_amount rows" "documented_views P"
    and "flushLedger rows w = (Inr deltas, w1)"
    and "db_ledger (w_db w2) = db_ledger (w_db w1)" "inventory_of (w_db w2) = inventory_of (w_db w1)"
    and "applyInventoryDeltas P dt deltas w2 = (Inr (), w3)"
  shows "inventory_exact (w_db w3)"
proof -
  let ?new = "insert_new ledger_identity (db_ledger (w_db w)) rows"
  note fl = flushLedger_result [OF assms(4)]
  have "list_all canonical_amount ?new"
    using assms(2) insert_new_subset [of ledger_identity "db_ledger (w_db w)" rows] by (auto simp: list_all_iff)
  moreover have "deltas = map ledger_delta_of ?new" using fl by simp
  moreover have "db_ledger (w_db w2) = db_ledger (w_db w) @ ?new" using fl assms(5) by simp
  moreover have "tbl_get (inventory_of (w_db w2)) (''address'', a, den) = expected_balance (db_ledger (w_db w)) (a, den)"
    if "\<not> synthetic_denom den" for a den
    using that assms(1,6) fl by (simp add: inventory_exact_def inventory_of_def)
  ultimately show ?thesis
    using applyInventoryDeltas_exact [OF assms(7,3)] by blast
qed

section \<open>Boards\<close>

lemma clear_select_get:
  "tbl_get (clear_rows ids t @ select_rows ids f base) i
     = (if i \<in> ids then map_option (f i) (tbl_get base i) else tbl_get t i)"
proof -
  have "map_of (select_rows ids f base) i = (if i \<in> ids then map_option (f i) (map_of base i) else None)"
    unfolding select_rows_def by (induction base) auto
  moreover have "tbl_get (clear_rows ids t) i = (if i \<notin> ids then tbl_get t i else None)"
    using tbl_get_kept_keys [of "\<lambda>i. i \<notin> ids" t i] by (simp add: clear_rows_def)
  ultimately show ?thesis
    by (auto simp: tbl_get_def map_add_def split: option.splits)
qed

lemma upsert_select_get:
  assumes "distinct (map fst base)"
  shows "tbl_get (fold (\<lambda>(i, r). tbl_put i r) (select_rows ids f base) t) i
     = (if i \<in> ids \<and> tbl_get base i \<noteq> None then map_option (f i) (tbl_get base i) else tbl_get t i)"
  using assms
proof (induction base arbitrary: t)
  case (Cons e base)
  obtain k b where e: "e = (k, b)" by force
  have "tbl_get base k = None" using Cons.prems by (simp add: e tbl_get_def map_of_eq_None_iff)
  then show ?case using Cons by (auto simp: e select_rows_def)
qed (simp add: select_rows_def)

text \<open>The board functions read the base tables, the inventory and the banks, not the other boards.\<close>

definition with_boards :: "api_tables \<Rightarrow> tables \<Rightarrow> tables" where
  "with_boards a d = on_api (\<lambda>_. a) d"

lemma on_api_fields [simp]:
  "db_api (on_api f d) = f (db_api d)" "on_api f (on_api g d) = on_api (f \<circ> g) d"
  "db_guild (on_api f d) = db_guild d" "db_player (on_api f d) = db_player d"
  "db_reactor (on_api f d) = db_reactor d" "db_provider (on_api f d) = db_provider d"
  "db_substation (on_api f d) = db_substation d" "db_ledger (on_api f d) = db_ledger d"
  "db_grid (on_api f d) = db_grid d" "db_infusion (on_api f d) = db_infusion d"
  "db_agreement (on_api f d) = db_agreement d" "db_address_tag (on_api f d) = db_address_tag d"
  "db_sync (on_api f d) = db_sync d" "db_native (on_api f d) = db_native d"
  by (simp_all add: on_api_def)

lemma base_boards [simp]:
  "guild_bank_of (on_api f d) = guild_bank_of d" "reactor_board_of (on_api f d) = reactor_board_of d"
  "provider_board_of (on_api f d) = provider_board_of d"
  "substation_board_of (on_api f d) = substation_board_of d"
  by (simp_all add: fun_eq_iff guild_bank_of_def guild_collateral_def guild_supply_def pool_addresses_def
      reactor_board_of_def provider_board_of_def substation_board_of_def grid_metric_def player_capacity_def Let_def)

lemma player_board_cong:
  assumes "ap_inventory (f (db_api d)) = ap_inventory (db_api d)"
    and "ap_guild_bank (f (db_api d)) = ap_guild_bank (db_api d)"
  shows "player_board_of P (on_api f d) = player_board_of P d"
proof -
  have inv: "player_inventory (on_api f d) = player_inventory d"
    by (simp add: fun_eq_iff player_inventory_def inventory_of_def assms(1))
  have ratio: "bank_ratio P (on_api f d) = bank_ratio P d"
    by (simp add: fun_eq_iff bank_ratio_def assms(2))
  have item: "item_value P (on_api f d) = item_value P d"
    unfolding item_value_def ratio ..
  have "alpha_balance (on_api f d) = alpha_balance d"
    unfolding fun_eq_iff alpha_balance_def inv by simp
  moreover have "alpha_value P (on_api f d) = alpha_value P d"
    unfolding fun_eq_iff alpha_value_def Let_def inv item by simp
  ultimately show ?thesis by (simp add: fun_eq_iff player_board_of_def)
qed

lemma guild_board_cong:
  "ap_guild_bank (f (db_api d)) = ap_guild_bank (db_api d) \<Longrightarrow>
     guild_board_of P (on_api f d) = guild_board_of P d"
  by (simp add: fun_eq_iff guild_board_of_def guild_members_def player_capacity_def player_load_def
      shared_capacity_def grid_metric_def Let_def)

definition boards_fresh :: "projections \<Rightarrow> tables \<Rightarrow> bool" where
  "boards_fresh P d \<longleftrightarrow> (\<forall>i.
     tbl_get (ap_guild_bank (db_api d)) i = map_option (guild_bank_of d i) (tbl_get (db_guild d) i) \<and>
     tbl_get (ap_player (db_api d)) i = map_option (player_board_of P d i) (tbl_get (db_player d) i) \<and>
     tbl_get (ap_guild (db_api d)) i = map_option (guild_board_of P d i) (tbl_get (db_guild d) i) \<and>
     tbl_get (ap_reactor (db_api d)) i = map_option (reactor_board_of d i) (tbl_get (db_reactor d) i) \<and>
     tbl_get (ap_provider (db_api d)) i = map_option (provider_board_of d i) (tbl_get (db_provider d) i) \<and>
     tbl_get (ap_substation (db_api d)) i = map_option (substation_board_of d i) (tbl_get (db_substation d) i))"

lemma empty_selection [simp]: "clear_rows {} t @ select_rows {} f base = t"
  by (simp add: clear_rows_def select_rows_def tbl_filter_def)

lemma recomputeGuildBank_db:
  "recomputeGuildBank dt w = (Inr (), w') \<Longrightarrow> w_db w' = on_api (\<lambda>a. a\<lparr>ap_guild_bank :=
     clear_rows (d_guilds dt) (ap_guild_bank a)
       @ select_rows (d_guilds dt) (guild_bank_of (w_db w)) (db_guild (w_db w))\<rparr>) (w_db w)"
  by (auto simp: recomputeGuildBank_def Let_def bindO_Inr comp_def dest!: exec_Inr split: if_splits)
    (simp add: on_api_def)

lemma recomputeGuilds_db:
  "recomputeGuilds P dt w = (Inr (), w') \<Longrightarrow> w_db w' = on_api (\<lambda>a. a\<lparr>ap_guild :=
     clear_rows (d_guilds dt) (ap_guild a)
       @ select_rows (d_guilds dt) (guild_board_of P (w_db w)) (db_guild (w_db w))\<rparr>) (w_db w)"
  by (auto simp: recomputeGuilds_def Let_def bindO_Inr comp_def guild_board_cong dest!: exec_Inr split: if_splits)
    (simp add: on_api_def)

lemma recomputeReactors_db:
  "recomputeReactors dt w = (Inr (), w') \<Longrightarrow> w_db w' = on_api (\<lambda>a. a\<lparr>ap_reactor :=
     clear_rows (d_reactors dt) (ap_reactor a)
       @ select_rows (d_reactors dt) (reactor_board_of (w_db w)) (db_reactor (w_db w))\<rparr>) (w_db w)"
  by (auto simp: recomputeReactors_def Let_def bindO_Inr comp_def dest!: exec_Inr split: if_splits)
    (simp add: on_api_def)

lemma recomputeProviders_db:
  "recomputeProviders dt w = (Inr (), w') \<Longrightarrow> w_db w' = on_api (\<lambda>a. a\<lparr>ap_provider :=
     clear_rows (d_providers dt) (ap_provider a)
       @ select_rows (d_providers dt) (provider_board_of (w_db w)) (db_provider (w_db w))\<rparr>) (w_db w)"
  by (auto simp: recomputeProviders_def Let_def bindO_Inr comp_def dest!: exec_Inr split: if_splits)
    (simp add: on_api_def)

lemma recomputeSubstations_db:
  "recomputeSubstations dt w = (Inr (), w') \<Longrightarrow> w_db w' = on_api (\<lambda>a. a\<lparr>ap_substation :=
     clear_rows (d_substations dt) (ap_substation a)
       @ select_rows (d_substations dt) (substation_board_of (w_db w)) (db_substation (w_db w))\<rparr>) (w_db w)"
  by (auto simp: recomputeSubstations_def Let_def bindO_Inr comp_def dest!: exec_Inr split: if_splits)
    (simp add: on_api_def)

definition upsert_players :: "projections \<Rightarrow> string set \<Rightarrow> tables \<Rightarrow> (string, player_board_row) table \<Rightarrow>
    (string, player_board_row) table" where
  "upsert_players P ids d t =
     fold (\<lambda>(i, r). tbl_put i r) (select_rows ids (player_board_of P d) (db_player d))
       (tbl_filter (\<lambda>i r. \<not> (i \<in> ids \<and> tbl_get (db_player d) i = None)) t)"

lemma recomputePlayers_db:
  "recomputePlayers P dt w = (Inr (), w') \<Longrightarrow> w_db w' = on_api (\<lambda>a. a\<lparr>ap_player :=
     upsert_players P (d_players dt) (w_db w) (ap_player a)\<rparr>) (w_db w)"
  by (auto simp: recomputePlayers_def Let_def bindO_Inr comp_def player_board_cong upsert_players_def
      dest!: exec_Inr split: if_splits)
    (simp add: on_api_def select_rows_def tbl_filter_def)

lemma upsert_players_get:
  assumes "tbl_ok (db_player d)"
  shows "tbl_get (upsert_players P ids d t) i
     = (if i \<in> ids then map_option (player_board_of P d i) (tbl_get (db_player d) i) else tbl_get t i)"
  using assms tbl_get_kept_keys [of "\<lambda>i. \<not> (i \<in> ids \<and> tbl_get (db_player d) i = None)" t i]
  by (auto simp: upsert_players_def tbl_ok_def upsert_select_get)

text \<open>
  What may be out of date before the boards are recomputed: only rows of dirty entities, and
  no clean player holds a token of a dirty guild.
\<close>

definition clean_rows_fresh :: "projections \<Rightarrow> dirty \<Rightarrow> tables \<Rightarrow> bool" where
  "clean_rows_fresh P dt d \<longleftrightarrow> (\<forall>i.
     (i \<notin> d_guilds dt \<longrightarrow>
        tbl_get (ap_guild_bank (db_api d)) i = map_option (guild_bank_of d i) (tbl_get (db_guild d) i) \<and>
        tbl_get (ap_guild (db_api d)) i = map_option (guild_board_of P d i) (tbl_get (db_guild d) i)) \<and>
     (i \<notin> d_players dt \<longrightarrow>
        tbl_get (ap_player (db_api d)) i = map_option (player_board_of P d i) (tbl_get (db_player d) i)) \<and>
     (i \<notin> d_reactors dt \<longrightarrow>
        tbl_get (ap_reactor (db_api d)) i = map_option (reactor_board_of d i) (tbl_get (db_reactor d) i)) \<and>
     (i \<notin> d_providers dt \<longrightarrow>
        tbl_get (ap_provider (db_api d)) i = map_option (provider_board_of d i) (tbl_get (db_provider d) i)) \<and>
     (i \<notin> d_substations dt \<longrightarrow>
        tbl_get (ap_substation (db_api d)) i = map_option (substation_board_of d i) (tbl_get (db_substation d) i)))"

definition holders_dirty :: "dirty \<Rightarrow> tables \<Rightarrow> bool" where
  "holders_dirty dt d \<longleftrightarrow> (\<forall>i den b g. ((''player'', i, den), b) \<in> set (inventory_of d) \<longrightarrow>
     tbl_get (db_player d) i \<noteq> None \<longrightarrow> den = token_denom g \<longrightarrow> g \<in> d_guilds dt \<longrightarrow> i \<in> d_players dt)"

definition bank_denoms :: "(string, guild_bank_row) table \<Rightarrow> bool" where
  "bank_denoms t \<longleftrightarrow> list_all (\<lambda>(g, b). gb_denom b = token_denom g) t"

lemma token_denom_inj [simp]: "token_denom g = token_denom h \<longleftrightarrow> g = h"
  by (simp add: token_denom_def)

lemma bank_find:
  "bank_denoms t \<Longrightarrow> find (\<lambda>(g, b). gb_denom b = token_denom g') t = map_option (\<lambda>b. (g', b)) (map_of t g')"
  by (induction t) (auto simp: bank_denoms_def)

lemma bank_find_none:
  "bank_denoms t \<Longrightarrow> \<nexists>g. den = token_denom g \<Longrightarrow> find (\<lambda>(g, b). gb_denom b = den) t = None"
  by (auto simp: bank_denoms_def find_None_iff list_all_iff)

lemma bank_ratio_same:
  assumes "bank_denoms (ap_guild_bank (db_api d))" "bank_denoms (ap_guild_bank (db_api d'))"
    and "\<And>g. den = token_denom g \<Longrightarrow> tbl_get (ap_guild_bank (db_api d')) g = tbl_get (ap_guild_bank (db_api d)) g"
  shows "bank_ratio P d' den = bank_ratio P d den"
proof (cases "\<exists>g. den = token_denom g")
  case True
  then obtain g where "den = token_denom g" by blast
  with assms show ?thesis by (simp add: bank_ratio_def bank_find tbl_get_def)
next
  case False
  with assms show ?thesis by (simp add: bank_ratio_def bank_find_none)
qed

lemma player_board_same:
  assumes inv: "player_inventory d' i = player_inventory d i"
    and "\<And>den b. (den, b) \<in> set (player_inventory d i) \<Longrightarrow> bank_ratio P d' den = bank_ratio P d den"
  shows "player_board_of P d' i = player_board_of P d i"
proof -
  have items: "map (item_value P d') (player_inventory d i) = map (item_value P d) (player_inventory d i)"
    using assms(2) by (auto simp: item_value_def split: option.splits)
  have "alpha_value P d' i = alpha_value P d i" unfolding alpha_value_def Let_def inv items ..
  then show ?thesis by (simp add: fun_eq_iff player_board_of_def alpha_balance_def inv)
qed

lemma guild_bank_rows_denoms:
  "bank_denoms t \<Longrightarrow> bank_denoms (clear_rows ids t @ select_rows ids (guild_bank_of d) base)"
  by (auto simp: bank_denoms_def list_all_iff clear_rows_def tbl_filter_def select_rows_def guild_bank_of_def)

definition board_bank :: "dirty \<Rightarrow> tables \<Rightarrow> (string, guild_bank_row) table" where
  "board_bank dt d =
     clear_rows (d_guilds dt) (ap_guild_bank (db_api d)) @ select_rows (d_guilds dt) (guild_bank_of d) (db_guild d)"

definition banked :: "dirty \<Rightarrow> tables \<Rightarrow> tables" where
  "banked dt d = on_api (\<lambda>a. a\<lparr>ap_guild_bank := board_bank dt d\<rparr>) d"

definition boards_update :: "projections \<Rightarrow> dirty \<Rightarrow> tables \<Rightarrow> api_tables \<Rightarrow> api_tables" where
  "boards_update P dt d a = a\<lparr>ap_guild_bank := board_bank dt d,
     ap_player := upsert_players P (d_players dt) (banked dt d) (ap_player a),
     ap_guild := clear_rows (d_guilds dt) (ap_guild a)
       @ select_rows (d_guilds dt) (guild_board_of P (banked dt d)) (db_guild d),
     ap_reactor := clear_rows (d_reactors dt) (ap_reactor a)
       @ select_rows (d_reactors dt) (reactor_board_of d) (db_reactor d),
     ap_provider := clear_rows (d_providers dt) (ap_provider a)
       @ select_rows (d_providers dt) (provider_board_of d) (db_provider d),
     ap_substation := clear_rows (d_substations dt) (ap_substation a)
       @ select_rows (d_substations dt) (substation_board_of d) (db_substation d)\<rparr>"

lemma banked_simps:
  "on_api f (banked dt d) = on_api (\<lambda>a. f (a\<lparr>ap_guild_bank := board_bank dt d\<rparr>)) d"
  "db_guild (banked dt d) = db_guild d" "db_reactor (banked dt d) = db_reactor d"
  "db_provider (banked dt d) = db_provider d" "db_substation (banked dt d) = db_substation d"
  "reactor_board_of (banked dt d) = reactor_board_of d" "provider_board_of (banked dt d) = provider_board_of d"
  "substation_board_of (banked dt d) = substation_board_of d"
  unfolding banked_def by (simp_all add: comp_def)

lemma recompute_boards_db:
  assumes "recompute_boards P dt w = (Inr (), w')"
  shows "w_db w' = on_api (boards_update P dt (w_db w)) (w_db w)"
proof -
  from assms obtain w1 w2 w3 w4 w5 where
    "recomputeGuildBank dt w = (Inr (), w1)" "recomputePlayers P dt w1 = (Inr (), w2)"
    "recomputeGuilds P dt w2 = (Inr (), w3)" "recomputeReactors dt w3 = (Inr (), w4)"
    "recomputeProviders dt w4 = (Inr (), w5)" "recomputeSubstations dt w5 = (Inr (), w')"
    by (auto simp: recompute_boards_def bindO_Inr wrapO_Inr)
  note steps = recomputeGuildBank_db [OF this(1)] recomputePlayers_db [OF this(2)] recomputeGuilds_db [OF this(3)]
    recomputeReactors_db [OF this(4)] recomputeProviders_db [OF this(5)] recomputeSubstations_db [OF this(6)]
  have w1: "w_db w1 = banked dt (w_db w)"
    unfolding steps(1) by (simp add: banked_def board_bank_def on_api_def)
  have w2: "guild_board_of P (w_db w2) = guild_board_of P (banked dt (w_db w))"
    unfolding steps(2) w1 by (rule guild_board_cong) simp
  show ?thesis
    unfolding steps(6) steps(5) steps(4) unfolding steps(3) unfolding w2 unfolding steps(2) w1
    by (simp add: banked_simps comp_def boards_update_def [abs_def])
qed

text \<open>After the recomputation, every board row is what a rebuild would write.\<close>

lemma boards_update_fields [simp]:
  "ap_guild_bank (boards_update P dt d a) = board_bank dt d"
  "ap_player (boards_update P dt d a) = upsert_players P (d_players dt) (banked dt d) (ap_player a)"
  "ap_guild (boards_update P dt d a) = clear_rows (d_guilds dt) (ap_guild a)
     @ select_rows (d_guilds dt) (guild_board_of P (banked dt d)) (db_guild d)"
  "ap_reactor (boards_update P dt d a) = clear_rows (d_reactors dt) (ap_reactor a)
     @ select_rows (d_reactors dt) (reactor_board_of d) (db_reactor d)"
  "ap_provider (boards_update P dt d a) = clear_rows (d_providers dt) (ap_provider a)
     @ select_rows (d_providers dt) (provider_board_of d) (db_provider d)"
  "ap_substation (boards_update P dt d a) = clear_rows (d_substations dt) (ap_substation a)
     @ select_rows (d_substations dt) (substation_board_of d) (db_substation d)"
  "ap_inventory (boards_update P dt d a) = ap_inventory a"
  by (simp_all add: boards_update_def)

lemma board_bank_get:
  "tbl_get (board_bank dt d) i = (if i \<in> d_guilds dt then map_option (guild_bank_of d i) (tbl_get (db_guild d) i)
     else tbl_get (ap_guild_bank (db_api d)) i)"
  by (simp add: board_bank_def clear_select_get)

lemma guild_board_bank:
  "tbl_get (ap_guild_bank (f (db_api d))) i = tbl_get (ap_guild_bank (db_api d)) i \<Longrightarrow>
     guild_board_of P (on_api f d) i r = guild_board_of P d i r"
  by (simp add: guild_board_of_def guild_members_def player_capacity_def player_load_def
      shared_capacity_def grid_metric_def Let_def)

lemma rebuilt_boards_fresh:
  assumes clean: "clean_rows_fresh P dt d" and holders: "holders_dirty dt d"
    and denoms: "bank_denoms (ap_guild_bank (db_api d))" and players: "tbl_ok (db_player d)"
  shows "boards_fresh P (on_api (boards_update P dt d) d)" (is "boards_fresh P ?d'")
proof -
  let ?b = "banked dt d"
  have denoms': "bank_denoms (board_bank dt d)"
    unfolding board_bank_def by (rule guild_bank_rows_denoms [OF denoms])
  have bank_b: "ap_guild_bank (db_api ?b) = board_bank dt d" by (simp add: banked_def)
  have guild: "guild_board_of P ?d' = guild_board_of P ?b"
    unfolding banked_def by (simp add: fun_eq_iff guild_board_of_def guild_members_def player_capacity_def
        player_load_def shared_capacity_def grid_metric_def Let_def)
  have player: "player_board_of P ?d' = player_board_of P ?b"
  proof -
    have "on_api (boards_update P dt d) d
        = on_api (\<lambda>a. (boards_update P dt d (db_api d))\<lparr>ap_guild_bank := board_bank dt d\<rparr>) ?b"
      by (simp add: banked_def on_api_def boards_update_def)
    note eq = this
    show ?thesis unfolding eq by (rule player_board_cong) (simp_all add: bank_b, simp_all add: banked_def)
  qed
  have clean_guild: "guild_board_of P ?b i = guild_board_of P d i" if "i \<notin> d_guilds dt" for i
    using that unfolding banked_def by (auto simp: fun_eq_iff board_bank_get intro!: guild_board_bank)
  have clean_player: "player_board_of P ?b i = player_board_of P d i"
    if "i \<notin> d_players dt" "tbl_get (db_player d) i \<noteq> None" for i
  proof (rule player_board_same)
    show "player_inventory ?b i = player_inventory d i"
      by (simp add: banked_def player_inventory_def inventory_of_def)
    fix den b assume "(den, b) \<in> set (player_inventory d i)"
    then have row: "((''player'', i, den), b) \<in> set (inventory_of d)"
      by (auto simp: player_inventory_def)
    show "bank_ratio P ?b den = bank_ratio P d den"
    proof (rule bank_ratio_same)
      fix g assume "den = token_denom g"
      with row that holders have "g \<notin> d_guilds dt" unfolding holders_dirty_def by blast
      then show "tbl_get (ap_guild_bank (db_api ?b)) g = tbl_get (ap_guild_bank (db_api d)) g"
        by (simp add: bank_b board_bank_get)
    qed (use denoms denoms' bank_b in simp_all)
  qed
  have players': "tbl_ok (db_player ?b)" using players by (simp add: banked_def)
  note gets = board_bank_get clear_select_get upsert_players_get [OF players']
  have same: "db_player ?b = db_player d" by (simp add: banked_def)
  show ?thesis
    unfolding boards_fresh_def guild player
    using clean clean_guild clean_player
    by (auto simp: gets same clean_rows_fresh_def split: if_splits intro!: option.map_cong)
qed

section \<open>Expansion and inventory\<close>

lemma Dirty_Player_fields [simp]:
  "d_guilds (Dirty_Player i dt) = d_guilds dt" "d_inventory (Dirty_Player i dt) = d_inventory dt"
  "d_players (Dirty_Player i dt) = add_id i (d_players dt)"
  by (simp_all add: Dirty_Player_def)

lemma fold_Dirty_Player:
  "d_guilds (fold Dirty_Player ids dt) = d_guilds dt" "d_inventory (fold Dirty_Player ids dt) = d_inventory dt"
  "d_players (fold Dirty_Player ids dt) = d_players dt \<union> (set ids - {[]})"
  by (induction ids arbitrary: dt) (auto simp: add_id_def)

lemma add_id_grows: "m \<subseteq> add_id i m" "m \<subseteq> n \<Longrightarrow> add_id i m \<subseteq> add_id i n"
  by (auto simp: add_id_def)

text \<open>The owners whose inventory is rebuilt are dirty.\<close>

definition owners_dirty :: "dirty \<Rightarrow> bool" where
  "owners_dirty dt \<longleftrightarrow> InventoryPlayerIDs dt \<subseteq> d_players dt"

lemma fold_keeps: "(\<And>x s. Q s \<Longrightarrow> Q (f x s)) \<Longrightarrow> Q s \<Longrightarrow> Q (fold f xs s)"
  by (induction xs arbitrary: s) auto

lemma owners_dirty_marks:
  assumes "owners_dirty dt"
  shows "owners_dirty (Dirty_Player i dt)" "owners_dirty (Dirty_Guild i dt)" "owners_dirty (Dirty_Substation i dt)"
    "owners_dirty (mark_owner p dt)"
  using assms add_id_grows
  by (fastforce simp: owners_dirty_def InventoryPlayerIDs_def Dirty_Player_def Dirty_Guild_def
      Dirty_Substation_def mark_owner_def split: option.splits prod.splits)+

lemma owners_dirty_steps:
  "owners_dirty dt \<Longrightarrow> owners_dirty (mark_address_row r dt)"
  "owners_dirty dt \<Longrightarrow> owners_dirty (mark_grid i dt)"
  "owners_dirty dt \<Longrightarrow> owners_dirty (mark_player_row q dt)"
  by (auto simp: mark_address_row_def mark_grid_def mark_player_row_def Let_def owners_dirty_marks
      split: option.splits sum.splits prod.splits kind.splits)

lemma Expand_result:
  assumes "Expand P dt0 w = (Inr dt, w1)"
  shows "w_db w1 = w_db w" "owners_dirty dt"
    and "tbl_get (db_player (w_db w)) [] = None \<Longrightarrow> holders_dirty dt (w_db w)"
proof -
  from assms obtain dt1 dt2 v1 v2 where
    s1: "expandAddresses P (dt0\<lparr>d_inventory := Some (d_players dt0)\<rparr>) w = (Inr dt1, v1)"
    and s2: "expandPlayers (fold mark_grid (sorted_list_of_set (d_grid dt1)) dt1) v1 = (Inr dt2, v2)"
    and s3: "expandGuildTokenHolders dt2 v2 = (Inr dt, w1)"
    by (auto simp: Expand_def bindO_Inr)
  have "owners_dirty (dt0\<lparr>d_inventory := Some (d_players dt0)\<rparr>)"
    by (simp add: owners_dirty_def InventoryPlayerIDs_def)
  with s1 have o1: "owners_dirty dt1" and db1: "w_db v1 = w_db w"
    by (auto simp: expandAddresses_def query_def bindO_Inr wrapO_Inr sql_Inr owners_dirty_steps
        intro!: fold_keeps [of owners_dirty mark_address_row] split: if_splits)
  have "owners_dirty (fold mark_grid (sorted_list_of_set (d_grid dt1)) dt1)"
    by (rule fold_keeps [of owners_dirty mark_grid, OF owners_dirty_steps(2) o1])
  with s2 db1 have o2: "owners_dirty dt2" and db2: "w_db v2 = w_db w"
    by (auto simp: expandPlayers_def query_def bindO_Inr wrapO_Inr sql_Inr owners_dirty_steps
        intro!: fold_keeps [of owners_dirty mark_player_row] split: if_splits)
  from s3 db2 have db3: "w_db w1 = w_db w"
    and dt: "dt = (if d_guilds dt2 = {} then dt2 else fold Dirty_Player (holder_rows (d_guilds dt2) (w_db w)) dt2)"
    by (auto simp: expandGuildTokenHolders_def query_def bindO_Inr wrapO_Inr sql_Inr split: if_splits)
  from db3 show "w_db w1 = w_db w" .
  show "owners_dirty dt"
    unfolding dt using o2 by (auto intro!: fold_keeps [of owners_dirty Dirty_Player] owners_dirty_marks)
  assume none: "tbl_get (db_player (w_db w)) [] = None"
  have "i \<in> set (holder_rows (d_guilds dt2) (w_db w))"
    if "((''player'', i, token_denom g), b) \<in> set (inventory_of (w_db w))" "g \<in> d_guilds dt2" for i g b
    using that by (force simp: holder_rows_def inventory_of_def)
  then show "holders_dirty dt (w_db w)"
    using none unfolding dt holders_dirty_def by (auto simp: fold_Dirty_Player)
qed

text \<open>An inventory step leaves the rows of the other players, and every other table, alone.\<close>

definition player_part :: "string set \<Rightarrow> inventory \<Rightarrow> inventory" where
  "player_part owners t = tbl_filter (\<lambda>(ty, i, den) b. ty = ''player'' \<and> i \<notin> owners) t"

definition inventory_step :: "string set \<Rightarrow> tables \<Rightarrow> tables \<Rightarrow> bool" where
  "inventory_step owners d d' \<longleftrightarrow>
     (\<exists>f. d' = on_inventory f d) \<and> player_part owners (inventory_of d') = player_part owners (inventory_of d)"

lemma inventory_of_on [simp]: "inventory_of (on_inventory f d) = f (inventory_of d)"
  by (simp add: inventory_of_def on_inventory_def on_api_def)

lemma on_inventory_comp: "on_inventory f (on_inventory g d) = on_inventory (\<lambda>t. f (g t)) d"
  by (simp add: on_inventory_def on_api_def)

lemma inventory_step_refl [simp]: "inventory_step owners d d"
proof -
  have "d = on_inventory (\<lambda>t. t) d" by (simp add: on_inventory_def on_api_def)
  then show ?thesis by (auto simp: inventory_step_def)
qed

lemma inventory_step_trans:
  "inventory_step owners d1 d2 \<Longrightarrow> inventory_step owners d2 d3 \<Longrightarrow> inventory_step owners d1 d3"
  by (auto simp: inventory_step_def on_inventory_comp)

lemma inventory_stepI:
  "player_part owners (f (inventory_of d)) = player_part owners (inventory_of d) \<Longrightarrow>
     inventory_step owners d (on_inventory f d)"
  by (auto simp: inventory_step_def)

lemma player_part_put:
  "fst k = ''player'' \<longrightarrow> fst (snd k) \<in> owners \<Longrightarrow> player_part owners (tbl_put k b t) = player_part owners t"
  by (cases k) (auto simp: player_part_def tbl_filter_def tbl_put_def tbl_del_def intro!: filter_cong)

lemma player_part_fold:
  "(\<And>x t. x \<in> set xs \<Longrightarrow> player_part owners (f x t) = player_part owners t) \<Longrightarrow>
     player_part owners (fold f xs t) = player_part owners t"
  by (induction xs arbitrary: t) auto

lemma player_part_filter:
  "(\<And>ty i den b. ty = ''player'' \<Longrightarrow> i \<notin> owners \<Longrightarrow> Q (ty, i, den) b) \<Longrightarrow>
     player_part owners (tbl_filter Q t) = player_part owners t"
  by (auto simp: player_part_def tbl_filter_def intro!: filter_cong)

lemma player_part_append:
  "list_all (\<lambda>((ty, i, den), b). ty \<noteq> ''player'') xs \<Longrightarrow> player_part owners (t @ xs) = player_part owners t"
  by (auto simp: player_part_def tbl_filter_def list_all_iff filter_empty_conv)

lemma inventory_step_rebuild: "inventory_step owners d (rebuild_owners P owners d)"
  unfolding rebuild_owners_def Let_def
  by (rule inventory_stepI)
    (auto simp: player_part_filter owner_keys_def split: if_splits intro!: player_part_fold [THEN trans] player_part_put)

lemma inventory_step_claims: "inventory_step owners d (refresh_claims P as d)"
  unfolding refresh_claims_def Let_def
  by (rule inventory_stepI)
    (auto simp: player_part_filter intro!: player_part_fold [THEN trans] player_part_put)

lemma inventory_step_deltas: "inventory_step owners d (on_inventory (fold add_balance gs) d)"
  by (rule inventory_stepI) (auto simp: add_balance_def Let_def intro!: player_part_fold player_part_put)

lemma inventory_step_owners:
  "rebuildOwnerInventory P owners w = (Inr (), w') \<Longrightarrow> inventory_step owners (w_db w) (w_db w')"
  by (auto simp: rebuildOwnerInventory_def inventory_step_rebuild dest!: exec_Inr split: if_splits)

lemma applyInventoryDeltas_step:
  assumes "applyInventoryDeltas P dt deltas w = (Inr (), w')"
  shows "inventory_step (InventoryOwnerIDs dt) (w_db w) (w_db w')"
proof -
  from assms obtain w1 w2 where ap: "apply_deltas deltas w = (Inr (), w1)"
    and cl: "refreshInventoryClaims P dt w1 = (Inr (), w2)"
    and ow: "rebuildOwnerInventory P (InventoryOwnerIDs dt) w2 = (Inr (), w')"
    by (auto simp: applyInventoryDeltas_def bindO_Inr)
  have "inventory_step (InventoryOwnerIDs dt) (w_db w) (w_db w1)"
    using ap by (auto simp: apply_deltas_def abort_with_def bindO_Inr failO_def inventory_step_deltas
        dest!: exec_Inr split: if_splits)
  moreover have "inventory_step (InventoryOwnerIDs dt) (w_db w1) (w_db w2)"
    using cl by (auto simp: refreshInventoryClaims_def query_def bindO_Inr sql_Inr inventory_step_claims
        dest!: exec_Inr split: if_splits)
  ultimately show ?thesis
    using inventory_step_owners [OF ow] inventory_step_trans by blast
qed

lemma recomputeInventory_step:
  assumes "recomputeInventory P dt w = (Inr (), w')"
  shows "inventory_step (InventoryOwnerIDs dt) (w_db w) (w_db w')"
proof -
  from assms obtain as w1 w2 where q: "query (inventory_addresses P dt) w = (Inr as, w1)"
    and re: "whenO (as \<noteq> [])
       (bindO (exec (on_inventory (tbl_filter (\<lambda>(ty, a, den) b. \<not> (ty = ''address'' \<and> a \<in> set as))))) (\<lambda>_.
        exec (\<lambda>d. on_inventory (\<lambda>t. t @ map (\<lambda>(a, den, b). ((''address'', a, den), b))
          (pj_address_expected P d as)) d))) w1 = (Inr (), w2)"
    and ow: "rebuildOwnerInventory P (InventoryOwnerIDs dt) w2 = (Inr (), w')"
    by (auto simp: recomputeInventory_def bindO_Inr)
  have "inventory_step owners d (on_inventory (tbl_filter (\<lambda>(ty, a, den) b. \<not> (ty = ''address'' \<and> a \<in> set as))) d)"
    for owners d by (rule inventory_stepI) (simp add: player_part_filter)
  moreover have "inventory_step owners d (on_inventory (\<lambda>t. t @ map (\<lambda>(a, den, b). ((''address'', a, den), b)) xs) d)"
    for owners d xs by (rule inventory_stepI, rule player_part_append) (auto simp: list_all_iff)
  ultimately have "inventory_step (InventoryOwnerIDs dt) (w_db w1) (w_db w2)"
    using re inventory_step_trans by (fastforce simp: whenO_def bindO_Inr dest!: exec_Inr split: if_splits)
  moreover have "w_db w1 = w_db w" using q by (simp add: query_def sql_Inr)
  ultimately show ?thesis
    using inventory_step_owners [OF ow] inventory_step_trans by fastforce
qed

lemma inventory_plan_step:
  "recompute_inventory_plan P dt plan w = (Inr r, w') \<Longrightarrow>
     inventory_step (InventoryOwnerIDs dt) (w_db w) (w_db w')"
  by (cases plan) (auto simp: recompute_inventory_plan_def bindO_Inr wrapO_Inr returnO_def
      dest: applyInventoryDeltas_step recomputeInventory_step)

lemma player_inventory_part:
  "i \<notin> owners \<Longrightarrow> player_inventory d i =
     map (\<lambda>((ty, j, den), b). (den, b)) (filter (\<lambda>((ty, j, den), b). j = i) (player_part owners (inventory_of d)))"
  by (auto simp: player_inventory_def player_part_def tbl_filter_def intro!: arg_cong [where f = "map _"] filter_cong)

text \<open>No identifier names both a player and a dirty guild, and none is empty.\<close>

definition ids_typed :: "dirty \<Rightarrow> tables \<Rightarrow> bool" where
  "ids_typed dt d \<longleftrightarrow> tbl_get (db_player d) [] = None \<and> (\<forall>g \<in> d_guilds dt. tbl_get (db_player d) g = None)"

lemma clean_not_owner:
  "owners_dirty dt \<Longrightarrow> ids_typed dt d \<Longrightarrow> tbl_get (db_player d) i \<noteq> None \<Longrightarrow> i \<notin> d_players dt \<Longrightarrow>
     i \<notin> InventoryOwnerIDs dt"
  by (auto simp: owners_dirty_def ids_typed_def InventoryOwnerIDs_def)

lemma on_inventory_same [simp]:
  "db_guild (on_inventory f d) = db_guild d" "db_player (on_inventory f d) = db_player d"
  "db_reactor (on_inventory f d) = db_reactor d" "db_provider (on_inventory f d) = db_provider d"
  "db_substation (on_inventory f d) = db_substation d"
  "guild_bank_of (on_inventory f d) = guild_bank_of d" "reactor_board_of (on_inventory f d) = reactor_board_of d"
  "provider_board_of (on_inventory f d) = provider_board_of d"
  "substation_board_of (on_inventory f d) = substation_board_of d"
  "guild_board_of P (on_inventory f d) = guild_board_of P d"
  "bank_ratio P (on_inventory f d) = bank_ratio P d"
  "ap_guild_bank (db_api (on_inventory f d)) = ap_guild_bank (db_api d)"
  "ap_player (db_api (on_inventory f d)) = ap_player (db_api d)"
  "ap_guild (db_api (on_inventory f d)) = ap_guild (db_api d)"
  "ap_reactor (db_api (on_inventory f d)) = ap_reactor (db_api d)"
  "ap_provider (db_api (on_inventory f d)) = ap_provider (db_api d)"
  "ap_substation (db_api (on_inventory f d)) = ap_substation (db_api d)"
  by (simp_all add: on_inventory_def guild_board_cong bank_ratio_def fun_eq_iff)

lemma inventory_step_fresh:
  assumes step: "inventory_step (InventoryOwnerIDs dt) d d'" and "owners_dirty dt" "ids_typed dt d"
  shows "clean_rows_fresh P dt d \<Longrightarrow> clean_rows_fresh P dt d'"
    and "holders_dirty dt d \<Longrightarrow> holders_dirty dt d'"
proof -
  obtain f where d': "d' = on_inventory f d"
    and part: "player_part (InventoryOwnerIDs dt) (inventory_of d') = player_part (InventoryOwnerIDs dt) (inventory_of d)"
    using step by (auto simp: inventory_step_def)
  have clean: "i \<notin> InventoryOwnerIDs dt" if "tbl_get (db_player d) i \<noteq> None" "i \<notin> d_players dt" for i
    by (rule clean_not_owner [OF assms(2,3) that])
  have board: "player_board_of P d' i = player_board_of P d i"
    if "tbl_get (db_player d) i \<noteq> None" "i \<notin> d_players dt" for i
    by (rule player_board_same) (simp_all add: player_inventory_part [OF clean [OF that]] part, simp add: d')
  show "clean_rows_fresh P dt d'" if "clean_rows_fresh P dt d"
    using that board
    by (auto simp: clean_rows_fresh_def d' intro!: option.map_cong)
  show "holders_dirty dt d'" if "holders_dirty dt d"
    unfolding holders_dirty_def
  proof (intro allI impI, rule ccontr)
    fix i den b g
    assume row: "((''player'', i, den), b) \<in> set (inventory_of d')" and pl: "tbl_get (db_player d') i \<noteq> None"
      and den: "den = token_denom g" "g \<in> d_guilds dt" and cl: "i \<notin> d_players dt"
    from pl have pl': "tbl_get (db_player d) i \<noteq> None" by (simp add: d')
    from row clean [OF pl' cl]
    have "((''player'', i, den), b) \<in> set (player_part (InventoryOwnerIDs dt) (inventory_of d'))"
      by (simp add: player_part_def tbl_filter_def)
    then have "((''player'', i, den), b) \<in> set (inventory_of d)"
      unfolding part by (simp add: player_part_def tbl_filter_def)
    with that pl' den cl show False unfolding holders_dirty_def by blast
  qed
qed

lemma boards_fresh_tail:
  "ap_guild_bank (f (db_api d)) = ap_guild_bank (db_api d) \<Longrightarrow> ap_inventory (f (db_api d)) = ap_inventory (db_api d) \<Longrightarrow>
   ap_player (f (db_api d)) = ap_player (db_api d) \<Longrightarrow> ap_guild (f (db_api d)) = ap_guild (db_api d) \<Longrightarrow>
   ap_reactor (f (db_api d)) = ap_reactor (db_api d) \<Longrightarrow> ap_provider (f (db_api d)) = ap_provider (db_api d) \<Longrightarrow>
   ap_substation (f (db_api d)) = ap_substation (db_api d) \<Longrightarrow>
   boards_fresh P d \<Longrightarrow> boards_fresh P (on_api f d)"
  by (simp add: boards_fresh_def guild_board_cong player_board_cong)

text \<open>C5: Recomputing only what is dirty equals a full rebuild.  If, before, every row of the guild bank and
  of the five leaderboards that the expanded dirty set does not name was what a rebuild from
  the base tables would write, then after \<open>Recompute\<close> every row of all six tables is, for every
  inventory plan and although the boards read each other: a player's value reads the bank row of each
  guild whose token it holds, and the expansion names every such holder.\<close>

theorem incremental_equals_rebuild:
  assumes "Expand P dt0 w = (Inr dt, w0)" "recompute P dt0 height time' plan full w = (Inr (), w')"
    and "clean_rows_fresh P dt (w_db w)" "ids_typed dt (w_db w)"
    and "bank_denoms (ap_guild_bank (db_api (w_db w)))" "tbl_ok (db_player (w_db w))"
  shows "boards_fresh P (w_db w')"
proof -
  obtain r w1 w2 w3 where inv: "recompute_inventory_plan P dt plan w0 = (Inr r, w1)"
    and boards: "recompute_boards P dt w1 = (Inr (), w2)"
    and models: "refreshModels (r @ board_models) height time' w2 = (Inr (), w3)"
    and work: "refreshWork P full height time' w3 = (Inr (), w')"
    using assms(1,2) by (auto simp: recompute_def bindO_Inr wrapO_Inr)
  note ex = Expand_result [OF assms(1)]
  have holders: "holders_dirty dt (w_db w)" using ex(3) assms(4) by (simp add: ids_typed_def)
  note step = inventory_plan_step [OF inv, unfolded ex(1)]
  note fresh = inventory_step_fresh [OF step ex(2) assms(4)]
  have same: "db_player (w_db w1) = db_player (w_db w)"
    "ap_guild_bank (db_api (w_db w1)) = ap_guild_bank (db_api (w_db w))"
    using step by (auto simp: inventory_step_def)
  have "boards_fresh P (w_db w2)"
    unfolding recompute_boards_db [OF boards]
    by (rule rebuilt_boards_fresh) (use fresh assms(3,5,6) holders same in simp_all)
  then have "boards_fresh P (w_db w3)"
    using models by (auto simp: refreshModels_def boards_fresh_tail dest!: exec_Inr split: if_splits)
  then show ?thesis
    using work by (auto simp: refreshWork_def wrapO_Inr work_refresh_def boards_fresh_tail dest!: exec_Inr)
qed

section \<open>Examples\<close>

definition example_views :: projections where
  "example_views =
     \<lparr>pj_owners = (\<lambda>d. [(''a'', ''player'', ''1-1'')]), pj_claims = (\<lambda>d as. []),
      pj_address_expected = (\<lambda>d as. []), pj_expected = (\<lambda>d. []), pj_work = (\<lambda>full d. []),
      pj_boundary = (\<lambda>d. None), pj_ratio = (\<lambda>b. Some 2), pj_guild_meta = (\<lambda>g. None)\<rparr>"

definition example_dirty :: dirty where
  "example_dirty = Dirty_Address ''a'' (Dirty_Player ''1-1'' NewDirty)"

definition flushed_world :: world where
  "flushed_world = (tick example_world)\<lparr>w_db := empty_tables\<lparr>db_ledger := [example_row]\<rparr>\<rparr>"

lemma example_applied:
  "fst (applyInventoryDeltas example_views example_dirty [ledger_delta_of example_row] flushed_world) = Inr ()"
  by code_simp

theorem inventory_matches_ledger_witness:
  "tbl_get (inventory_of (w_db (snd (applyInventoryDeltas example_views example_dirty
      [ledger_delta_of example_row] flushed_world)))) (''address'', ''a'', ''ualpha'') = Some (Some (- 5))"
proof -
  let ?w = "snd (applyInventoryDeltas example_views example_dirty [ledger_delta_of example_row] flushed_world)"
  have "inventory_exact (w_db ?w)"
  proof (rule inventory_matches_ledger)
    show "inventory_exact (w_db example_world)"
      by (simp add: inventory_exact_def example_world_def empty_tables_def empty_api_def inventory_of_def
          expected_balance_def balance_entries_def sql_sum_def tbl_get_def)
    show "list_all canonical_amount [example_row]" by code_simp
    show "documented_views example_views" by (simp add: documented_views_def example_views_def)
    show "flushLedger [example_row] example_world = (Inr [ledger_delta_of example_row], flushed_world)"
      unfolding flushed_world_def by (rule example_flush)
    show "applyInventoryDeltas example_views example_dirty [ledger_delta_of example_row] flushed_world = (Inr (), ?w)"
      using example_applied by (simp add: prod_eq_iff)
  qed simp_all
  moreover have "\<not> synthetic_denom ''ualpha''" by code_simp
  moreover have "expected_balance (db_ledger (w_db ?w)) (''a'', ''ualpha'') = Some (Some (- 5))" by code_simp
  ultimately show ?thesis unfolding inventory_exact_def by metis
qed

definition example_member :: player_row where
  "example_member =
     \<lparr>pl_index = 1, pl_creator = ''a'', pl_primary_address = ''a'', pl_guild_id = Some ''0-1'', pl_substation_id = None,
      pl_planet_id = [], pl_fleet_id = [], pl_guild_rank = 0, pl_username = [], pl_pfp = [],
      pl_render_attributes = []\<rparr>"

definition example_banked :: world where
  "example_banked = example_world\<lparr>w_db := empty_tables\<lparr>db_player := [(''1-1'', example_member)],
     db_api := empty_api\<lparr>ap_inventory := [((''player'', ''1-1'', token_denom ''0-1''), Some 4)]\<rparr>\<rparr>\<rparr>"

definition expanded :: dirty where
  "expanded = NewDirty\<lparr>d_players := {''1-1''}, d_guilds := {''0-1''}, d_inventory := Some {}\<rparr>"

lemma example_expanded:
  "fst (Expand example_views (Dirty_Guild ''0-1'' NewDirty) example_banked) = Inr expanded"
  "fst (recompute example_views (Dirty_Guild ''0-1'' NewDirty) 7 None AlreadyWritten False example_banked) = Inr ()"
  by code_simp+

theorem incremental_equals_rebuild_witness:
  "boards_fresh example_views
     (w_db (snd (recompute example_views (Dirty_Guild ''0-1'' NewDirty) 7 None AlreadyWritten False example_banked)))"
proof (rule incremental_equals_rebuild)
  show "Expand example_views (Dirty_Guild ''0-1'' NewDirty) example_banked
      = (Inr expanded, snd (Expand example_views (Dirty_Guild ''0-1'' NewDirty) example_banked))"
    using example_expanded(1) by (simp add: prod_eq_iff)
  show "recompute example_views (Dirty_Guild ''0-1'' NewDirty) 7 None AlreadyWritten False example_banked
      = (Inr (), snd (recompute example_views (Dirty_Guild ''0-1'' NewDirty) 7 None AlreadyWritten False example_banked))"
    using example_expanded(2) by (simp add: prod_eq_iff)
  show "clean_rows_fresh example_views expanded (w_db example_banked)"
    by (auto simp: clean_rows_fresh_def expanded_def example_banked_def empty_tables_def empty_api_def tbl_get_def)
qed (code_simp | simp add: ids_typed_def expanded_def example_banked_def empty_tables_def tbl_get_def)+

end
