(* ===== verification/Config.thy ===== *)
theory Config
  imports Go_Std
begin

text \<open>
  \<open>internal/sync/config.go\<close>: the configuration record, the defaults taken from the
  environment, the flags, the normalisation of \<open>LoadConfig\<close>, the endpoint list and the
  database URL.

  The environment maps a variable to its value, the empty text when it is unset.  The
  command line is the sequence of flag assignments that \<open>flag.FlagSet\<close> reads off it; like
  \<open>Parse\<close>, \<open>set_flags\<close> stops at the first one that is rejected, and \<open>LoadConfig\<close> ignores that
  error.  Integer flags take the prefixes \<open>0x\<close>, \<open>0o\<close>, \<open>0b\<close> and \<open>0\<close>; digit separators are not
  modelled.  A fraction of a duration is truncated exactly, where the library computes
  it in floating point.
\<close>

type_synonym environment = "string \<Rightarrow> string"

definition DefaultRPCSeed :: string where
  "DefaultRPCSeed = ''https://public.testnet.structs.network:26657''"

section \<open>Values of the standard library\<close>

definition parse_bool :: "string \<Rightarrow> bool option" where
  "parse_bool s =
     (if s \<in> {''1'', ''t'', ''T'', ''true'', ''TRUE'', ''True''} then Some True
      else if s \<in> {''0'', ''f'', ''F'', ''false'', ''FALSE'', ''False''} then Some False
      else None)"

text \<open>\<open>time.ParseDuration\<close>, in nanoseconds.\<close>

definition duration_units :: "(string \<times> int) list" where
  "duration_units =
     [(''ns'', 1), (''us'', 1000), ([CHR 0xC2, CHR 0xB5, CHR ''s''], 1000),
      ([CHR 0xCE, CHR 0xBC, CHR ''s''], 1000), (''ms'', 1000000), (''s'', 1000000000),
      (''m'', 60000000000), (''h'', 3600000000000)]"

primrec duration_parts :: "nat \<Rightarrow> string \<Rightarrow> int \<Rightarrow> int option" where
  "duration_parts 0 s acc = None"
| "duration_parts (Suc n) s acc =
     (if s = [] then Some acc
      else
        let whole = takeWhile is_digit s; r = dropWhile is_digit s;
            point = (r \<noteq> [] \<and> hd r = CHR ''.'');
            frac = (if point then takeWhile is_digit (tl r) else []);
            t = (if point then dropWhile is_digit (tl r) else r);
            name = takeWhile (\<lambda>c. c \<noteq> CHR ''.'' \<and> \<not> is_digit c) t;
            rest = dropWhile (\<lambda>c. c \<noteq> CHR ''.'' \<and> \<not> is_digit c) t
        in if whole = [] \<and> frac = [] then None
           else case map_of duration_units name of
             None \<Rightarrow> None
           | Some u \<Rightarrow>
               let v = int (nat_of_digits whole) * u + int (nat_of_digits frac) * u div 10 ^ length frac in
               if 2 ^ 63 < acc + v then None else duration_parts n rest (acc + v))"

definition parse_duration :: "string \<Rightarrow> int option" where
  "parse_duration s =
     (let neg = (take 1 s = ''-''); t = (if neg \<or> take 1 s = ''+'' then drop 1 s else s) in
      if t = ''0'' then Some 0
      else if t = [] then None
      else case duration_parts (Suc (length t)) t 0 of
        None \<Rightarrow> None
      | Some d \<Rightarrow> if neg then Some (- d) else if 2 ^ 63 \<le> d then None else Some d)"

text \<open>\<open>strconv.ParseInt(_, 0, 64)\<close>: the value set, and whether it is accepted.\<close>

definition base_digit :: "char \<Rightarrow> nat" where
  "base_digit c =
     (let n = (of_char (lower c) :: nat) in
      if 48 \<le> n \<and> n \<le> 57 then n - 48 else if 97 \<le> n \<and> n \<le> 122 then n - 87 else 99)"

definition base_of :: "string \<Rightarrow> nat \<times> string" where
  "base_of s =
     (let p = to_lower (take 2 s) in
      if take 1 s \<noteq> ''0'' then (10, s)
      else if 3 \<le> length s \<and> p = ''0b'' then (2, drop 2 s)
      else if 3 \<le> length s \<and> p = ''0o'' then (8, drop 2 s)
      else if 3 \<le> length s \<and> p = ''0x'' then (16, drop 2 s)
      else if length s = 1 then (10, s)
      else (8, drop 1 s))"

definition parse_int_flag :: "string \<Rightarrow> bool \<times> int" where
  "parse_int_flag s =
     (let neg = (take 1 s = ''-''); t = (if neg \<or> take 1 s = ''+'' then drop 1 s else s) in
      case base_of t of (b, ds) \<Rightarrow>
        if ds = [] \<or> \<not> list_all (\<lambda>c. base_digit c < b) ds then (False, 0)
        else
          let v = int (foldl (\<lambda>n c. b * n + base_digit c) 0 ds) in
          if neg then (if 2 ^ 63 < v then (False, - (2 ^ 63)) else (True, - v))
          else if 2 ^ 63 \<le> v then (False, 2 ^ 63 - 1) else (True, v))"

section \<open>Environment\<close>

definition envOr :: "environment \<Rightarrow> string \<Rightarrow> string \<Rightarrow> string" where
  "envOr env k def = (if env k \<noteq> [] then env k else def)"

definition env_value :: "(string \<Rightarrow> 'a option) \<Rightarrow> environment \<Rightarrow> string \<Rightarrow> 'a \<Rightarrow> 'a" where
  "env_value parse env k def =
     (if env k \<noteq> [] then (case parse (env k) of None \<Rightarrow> def | Some x \<Rightarrow> x) else def)"

definition envOrInt :: "environment \<Rightarrow> string \<Rightarrow> int \<Rightarrow> int" where
  "envOrInt = env_value atoi"

definition envOrInt64 :: "environment \<Rightarrow> string \<Rightarrow> int \<Rightarrow> int" where
  "envOrInt64 = env_value parse_int64"

definition envOrBool :: "environment \<Rightarrow> string \<Rightarrow> bool \<Rightarrow> bool" where
  "envOrBool = env_value parse_bool"

definition envOrDuration :: "environment \<Rightarrow> string \<Rightarrow> int \<Rightarrow> int" where
  "envOrDuration = env_value parse_duration"

section \<open>Configuration\<close>

text \<open>Durations are in nanoseconds.\<close>

definition set_string :: "string \<Rightarrow> (string \<Rightarrow> 'c) \<Rightarrow> bool \<times> 'c" where
  "set_string v put = (True, put v)"

definition set_int :: "string \<Rightarrow> (int \<Rightarrow> 'c) \<Rightarrow> bool \<times> 'c" where
  "set_int v put = (case parse_int_flag v of (ok, x) \<Rightarrow> (ok, put x))"

definition set_bool :: "string \<Rightarrow> (bool \<Rightarrow> 'c) \<Rightarrow> bool \<times> 'c" where
  "set_bool v put = (case parse_bool v of None \<Rightarrow> (False, put False) | Some x \<Rightarrow> (True, put x))"

definition set_duration :: "string \<Rightarrow> (int \<Rightarrow> 'c) \<Rightarrow> bool \<times> 'c" where
  "set_duration v put = (case parse_duration v of None \<Rightarrow> (False, put 0) | Some x \<Rightarrow> (True, put x))"

record config =
  cf_rpc_seed :: string
  cf_rpc_primary :: string
  cf_legacy_rpc :: string
  cf_database_url :: string
  cf_max_conns :: int
  cf_start_height :: int
  cf_allow_replay :: bool
  cf_stop_height :: int
  cf_batch_size :: int
  cf_parallelism :: int
  cf_poll_interval :: int
  cf_http_timeout :: int
  cf_http_max_retries :: int
  cf_log_every :: int
  cf_one_shot :: bool
  cf_statement_timeout :: int
  cf_mirror_raw :: bool
  cf_strict_unknown_events :: bool
  cf_skip_doctor :: bool
  cf_tip_websocket :: bool
  cf_verify_errors_only :: bool
  cf_verify_write_report :: bool
  cf_verify_json :: bool
  cf_verify_lag_warn :: int
  cf_genesis_file :: string
  cf_force_genesis :: bool
  cf_genesis_auto_apply :: bool
  cf_bulk_enabled :: bool
  cf_bulk_window :: int
  cf_bulk_lag_threshold :: int
  cf_bulk_statement_timeout :: int
  cf_bulk_async_commit :: bool
  cf_bulk_defer_projections :: bool
  cf_reprocess_composite_key :: string
  cf_reprocess_severity :: string
  cf_reprocess_since :: int
  cf_reprocess_until :: int
  cf_reprocess_limit :: int
  cf_reprocess_dry_run :: bool
  cf_lcd_url :: string
  cf_native_staking_refresh :: bool
  cf_lcd_page_limit :: int
  cf_player_rank_sweep :: bool
  cf_planet_attribute_sweep :: bool
  cf_notice :: string

definition flag_defaults :: "environment \<Rightarrow> config" where
  "flag_defaults env =
     \<lparr>cf_rpc_seed = envOr env ''STRUCTS_RPC_SEED'' DefaultRPCSeed,
      cf_rpc_primary = envOr env ''STRUCTS_RPC_PRIMARY'' [],
      cf_legacy_rpc = envOr env ''STRUCTS_RPC_URL'' [],
      cf_database_url = [],
      cf_max_conns = envOrInt env ''SYNC_STATE_DB_MAX_CONNS'' 4,
      cf_start_height = envOrInt64 env ''SYNC_START_HEIGHT'' 0,
      cf_allow_replay = envOrBool env ''SYNC_ALLOW_REPLAY'' False,
      cf_stop_height = envOrInt64 env ''SYNC_STOP_HEIGHT'' 0,
      cf_batch_size = envOrInt env ''SYNC_BATCH_SIZE'' 200,
      cf_parallelism = envOrInt env ''SYNC_PARALLELISM'' 8,
      cf_poll_interval = envOrDuration env ''SYNC_POLL_INTERVAL'' (1000000000),
      cf_http_timeout = envOrDuration env ''SYNC_HTTP_TIMEOUT'' (30 * 1000000000),
      cf_http_max_retries = envOrInt env ''SYNC_HTTP_RETRIES'' 5,
      cf_log_every = envOrInt env ''SYNC_LOG_EVERY'' 100,
      cf_one_shot = envOrBool env ''SYNC_ONE_SHOT'' False,
      cf_statement_timeout = envOrDuration env ''SYNC_STATE_STATEMENT_TIMEOUT'' (60 * 1000000000),
      cf_mirror_raw = envOrBool env ''SYNC_STATE_MIRROR_RAW'' True,
      cf_strict_unknown_events = envOrBool env ''SYNC_STATE_STRICT_UNKNOWN'' False,
      cf_skip_doctor = envOrBool env ''SYNC_STATE_SKIP_DOCTOR'' False,
      cf_tip_websocket = envOrBool env ''SYNC_STATE_TIP_WS'' True,
      cf_verify_errors_only = False,
      cf_verify_write_report = True,
      cf_verify_json = False,
      cf_verify_lag_warn = 5,
      cf_genesis_file = envOr env ''SYNC_STATE_GENESIS_FILE'' [],
      cf_force_genesis = envOrBool env ''SYNC_STATE_GENESIS_FORCE'' False,
      cf_genesis_auto_apply = envOrBool env ''SYNC_STATE_GENESIS_AUTO_APPLY'' True,
      cf_bulk_enabled = envOrBool env ''SYNC_STATE_BULK_ENABLED'' True,
      cf_bulk_window = envOrInt env ''SYNC_STATE_BULK_WINDOW'' 500,
      cf_bulk_lag_threshold = envOrInt env ''SYNC_STATE_BULK_LAG_THRESHOLD'' 50,
      cf_bulk_statement_timeout = envOrDuration env ''SYNC_STATE_BULK_STATEMENT_TIMEOUT'' (300 * 1000000000),
      cf_bulk_async_commit = envOrBool env ''SYNC_STATE_BULK_ASYNC_COMMIT'' True,
      cf_bulk_defer_projections = envOrBool env ''SYNC_STATE_BULK_DEFER_PROJECTIONS'' True,
      cf_reprocess_composite_key = [],
      cf_reprocess_severity = ''error'',
      cf_reprocess_since = 0,
      cf_reprocess_until = 0,
      cf_reprocess_limit = 100,
      cf_reprocess_dry_run = False,
      cf_lcd_url = envOr env ''STRUCTS_API_URL'' ''http://structsd:1317'',
      cf_native_staking_refresh = envOrBool env ''SYNC_NATIVE_STAKING_REFRESH'' True,
      cf_lcd_page_limit = envOrInt env ''PAGE_LIMIT'' 10000,
      cf_player_rank_sweep = envOrBool env ''SYNC_STATE_PLAYER_RANK_SWEEP'' True,
      cf_planet_attribute_sweep = envOrBool env ''SYNC_STATE_PLANET_ATTRIBUTE_SWEEP'' True,
      cf_notice = []\<rparr>"

text \<open>\<open>FlagSet.Set\<close>: whether the value was accepted, and the configuration.\<close>

definition set_flag :: "string \<Rightarrow> string \<Rightarrow> config \<Rightarrow> bool \<times> config" where
  "set_flag name v c =
     (if name = ''rpc-seed'' then set_string v (\<lambda>x. c\<lparr>cf_rpc_seed := x\<rparr>)
      else if name = ''rpc-primary'' then set_string v (\<lambda>x. c\<lparr>cf_rpc_primary := x\<rparr>)
      else if name = ''rpc'' then set_string v (\<lambda>x. c\<lparr>cf_legacy_rpc := x\<rparr>)
      else if name = ''db'' then set_string v (\<lambda>x. c\<lparr>cf_database_url := x\<rparr>)
      else if name = ''db-max-conns'' then set_int v (\<lambda>x. c\<lparr>cf_max_conns := x\<rparr>)
      else if name = ''start'' then set_int v (\<lambda>x. c\<lparr>cf_start_height := x\<rparr>)
      else if name = ''allow-replay'' then set_bool v (\<lambda>x. c\<lparr>cf_allow_replay := x\<rparr>)
      else if name = ''stop'' then set_int v (\<lambda>x. c\<lparr>cf_stop_height := x\<rparr>)
      else if name = ''batch'' then set_int v (\<lambda>x. c\<lparr>cf_batch_size := x\<rparr>)
      else if name = ''parallelism'' then set_int v (\<lambda>x. c\<lparr>cf_parallelism := x\<rparr>)
      else if name = ''poll'' then set_duration v (\<lambda>x. c\<lparr>cf_poll_interval := x\<rparr>)
      else if name = ''http-timeout'' then set_duration v (\<lambda>x. c\<lparr>cf_http_timeout := x\<rparr>)
      else if name = ''http-retries'' then set_int v (\<lambda>x. c\<lparr>cf_http_max_retries := x\<rparr>)
      else if name = ''log-every'' then set_int v (\<lambda>x. c\<lparr>cf_log_every := x\<rparr>)
      else if name = ''one-shot'' then set_bool v (\<lambda>x. c\<lparr>cf_one_shot := x\<rparr>)
      else if name = ''statement-timeout'' then set_duration v (\<lambda>x. c\<lparr>cf_statement_timeout := x\<rparr>)
      else if name = ''mirror-raw'' then set_bool v (\<lambda>x. c\<lparr>cf_mirror_raw := x\<rparr>)
      else if name = ''strict-unknown-events'' then set_bool v (\<lambda>x. c\<lparr>cf_strict_unknown_events := x\<rparr>)
      else if name = ''skip-doctor'' then set_bool v (\<lambda>x. c\<lparr>cf_skip_doctor := x\<rparr>)
      else if name = ''tip-ws'' then set_bool v (\<lambda>x. c\<lparr>cf_tip_websocket := x\<rparr>)
      else if name = ''errors-only'' then set_bool v (\<lambda>x. c\<lparr>cf_verify_errors_only := x\<rparr>)
      else if name = ''write-report'' then set_bool v (\<lambda>x. c\<lparr>cf_verify_write_report := x\<rparr>)
      else if name = ''json'' then set_bool v (\<lambda>x. c\<lparr>cf_verify_json := x\<rparr>)
      else if name = ''lag-warn'' then set_int v (\<lambda>x. c\<lparr>cf_verify_lag_warn := x\<rparr>)
      else if name = ''genesis-file'' then set_string v (\<lambda>x. c\<lparr>cf_genesis_file := x\<rparr>)
      else if name = ''force'' then set_bool v (\<lambda>x. c\<lparr>cf_force_genesis := x\<rparr>)
      else if name = ''genesis-auto-apply'' then set_bool v (\<lambda>x. c\<lparr>cf_genesis_auto_apply := x\<rparr>)
      else if name = ''bulk-enabled'' then set_bool v (\<lambda>x. c\<lparr>cf_bulk_enabled := x\<rparr>)
      else if name = ''bulk-window'' then set_int v (\<lambda>x. c\<lparr>cf_bulk_window := x\<rparr>)
      else if name = ''bulk-lag-threshold'' then set_int v (\<lambda>x. c\<lparr>cf_bulk_lag_threshold := x\<rparr>)
      else if name = ''bulk-statement-timeout'' then set_duration v (\<lambda>x. c\<lparr>cf_bulk_statement_timeout := x\<rparr>)
      else if name = ''bulk-async-commit'' then set_bool v (\<lambda>x. c\<lparr>cf_bulk_async_commit := x\<rparr>)
      else if name = ''bulk-defer-projections'' then set_bool v (\<lambda>x. c\<lparr>cf_bulk_defer_projections := x\<rparr>)
      else if name = ''composite-key'' then set_string v (\<lambda>x. c\<lparr>cf_reprocess_composite_key := x\<rparr>)
      else if name = ''severity'' then set_string v (\<lambda>x. c\<lparr>cf_reprocess_severity := x\<rparr>)
      else if name = ''since'' then set_int v (\<lambda>x. c\<lparr>cf_reprocess_since := x\<rparr>)
      else if name = ''until'' then set_int v (\<lambda>x. c\<lparr>cf_reprocess_until := x\<rparr>)
      else if name = ''limit'' then set_int v (\<lambda>x. c\<lparr>cf_reprocess_limit := x\<rparr>)
      else if name = ''dry-run'' then set_bool v (\<lambda>x. c\<lparr>cf_reprocess_dry_run := x\<rparr>)
      else if name = ''lcd'' then set_string v (\<lambda>x. c\<lparr>cf_lcd_url := x\<rparr>)
      else if name = ''native-staking-refresh'' then set_bool v (\<lambda>x. c\<lparr>cf_native_staking_refresh := x\<rparr>)
      else if name = ''lcd-page-limit'' then set_int v (\<lambda>x. c\<lparr>cf_lcd_page_limit := x\<rparr>)
      else if name = ''player-rank-sweep'' then set_bool v (\<lambda>x. c\<lparr>cf_player_rank_sweep := x\<rparr>)
      else if name = ''planet-attribute-sweep'' then set_bool v (\<lambda>x. c\<lparr>cf_planet_attribute_sweep := x\<rparr>)
      else (False, c))"

fun set_flags :: "(string \<times> string) list \<Rightarrow> config \<Rightarrow> config" where
  "set_flags [] c = c"
| "set_flags ((name, v) # rest) c =
     (case set_flag name v c of (ok, c') \<Rightarrow> if ok then set_flags rest c' else c')"

section \<open>Database URL\<close>

definition unreserved :: "char \<Rightarrow> bool" where
  "unreserved c \<longleftrightarrow> is_digit c \<or> (let n = (of_char (lower c) :: nat) in 97 \<le> n \<and> n \<le> 122) \<or> c \<in> set ''-_.~''"

definition hex_upper :: "nat \<Rightarrow> char" where
  "hex_upper n = (if n < 10 then char_of (48 + n) else char_of (55 + n))"

definition percent :: "char \<Rightarrow> string" where
  "percent c = [CHR ''%'', hex_upper (of_char c div 16), hex_upper (of_char c mod 16)]"

text \<open>\<open>url.URL.String\<close>: what each part may hold unescaped.\<close>

definition url_escape :: "string \<Rightarrow> string \<Rightarrow> string" where
  "url_escape extra s = concat (map (\<lambda>c. if unreserved c \<or> c \<in> set extra then [c] else percent c) s)"

definition query_escape :: "string \<Rightarrow> string" where
  "query_escape s = concat (map (\<lambda>c. if unreserved c then [c] else if c = CHR '' '' then ''+'' else percent c) s)"

definition host_chars :: string where
  "host_chars = ''!$&'' @ [CHR 0x27] @ ''()*+,;=:[]<>'' @ [CHR 0x22]"

definition buildDatabaseURL :: "environment \<Rightarrow> string" where
  "buildDatabaseURL env =
     (if env ''DATABASE_URL'' \<noteq> [] then env ''DATABASE_URL''
      else
        let host = envOr env ''PGHOST'' ''localhost''; port = envOr env ''PGPORT'' ''5432'';
            user = envOr env ''PGUSER'' ''structs''; db = envOr env ''PGDATABASE'' ''structs'';
            pass = env ''PGPASSWORD''; sslmode = envOr env ''PGSSLMODE'' ''disable''
        in ''postgres://'' @ url_escape ''$&+,;='' user
           @ (if pass \<noteq> [] then CHR '':'' # url_escape ''$&+,;='' pass else [])
           @ ''@'' @ url_escape host_chars (host @ '':'' @ port)
           @ url_escape ''$&+,/:;=@'' (CHR ''/'' # db)
           @ ''?sslmode='' @ query_escape sslmode)"

section \<open>LoadConfig\<close>

definition deprecation_notice :: string where
  "deprecation_notice =
     ''NOTICE: -rpc / STRUCTS_RPC_URL is deprecated; use -rpc-primary / STRUCTS_RPC_PRIMARY (+ optional -rpc-seed / STRUCTS_RPC_SEED). Treating legacy value as primary.''"

definition adopt_legacy :: "config \<Rightarrow> config" where
  "adopt_legacy c =
     (if cf_legacy_rpc c \<noteq> []
      then c\<lparr>cf_rpc_primary := (if cf_rpc_primary c = [] then cf_legacy_rpc c else cf_rpc_primary c),
             cf_notice := deprecation_notice\<rparr>
      else c)"

definition at_least :: "int \<Rightarrow> int \<Rightarrow> int" where
  "at_least n v = (if v \<le> 0 then n else v)"

definition LoadConfig :: "environment \<Rightarrow> (string \<times> string) list \<Rightarrow> config" where
  "LoadConfig env args =
     (let c = adopt_legacy (set_flags args (flag_defaults env)) in
      c\<lparr>cf_database_url := (if cf_database_url c = [] then buildDatabaseURL env else cf_database_url c),
        cf_parallelism := at_least 1 (cf_parallelism c),
        cf_batch_size := at_least 1 (cf_batch_size c),
        cf_max_conns := at_least 4 (cf_max_conns c),
        cf_bulk_window := at_least 1 (cf_bulk_window c),
        cf_bulk_lag_threshold := (if cf_bulk_lag_threshold c < 0 then 0 else cf_bulk_lag_threshold c)\<rparr>)"

definition RPCURLs :: "config \<Rightarrow> string list" where
  "RPCURLs c =
     (let primary = trim_space (cf_rpc_primary c); seed = trim_space (cf_rpc_seed c) in
      (if primary \<noteq> [] then [primary] else [])
      @ (if seed \<noteq> [] \<and> seed \<noteq> primary then [seed] else []))"

section \<open>Properties\<close>

text \<open>What the ingestion loop relies on, whatever the environment and the command line say.\<close>

definition usable_config :: "config \<Rightarrow> bool" where
  "usable_config c \<longleftrightarrow> 1 \<le> cf_parallelism c \<and> 1 \<le> cf_batch_size c \<and> 1 \<le> cf_max_conns c \<and>
     1 \<le> cf_bulk_window c \<and> 0 \<le> cf_bulk_lag_threshold c \<and> cf_database_url c \<noteq> []"

lemma buildDatabaseURL_nonempty: "buildDatabaseURL env \<noteq> []"
  by (simp add: buildDatabaseURL_def Let_def)

lemma load_config_usable: "usable_config (LoadConfig env args)"
  by (simp add: usable_config_def LoadConfig_def Let_def at_least_def buildDatabaseURL_nonempty)

lemma endpoints_distinct:
  "distinct (RPCURLs c)" "[] \<notin> set (RPCURLs c)"
  "RPCURLs c = [] \<longleftrightarrow> trim_space (cf_rpc_primary c) = [] \<and> trim_space (cf_rpc_seed c) = []"
  by (auto simp: RPCURLs_def Let_def)

text \<open>An empty seed on the command line replaces the default: no endpoint is left.\<close>

lemma seed_not_guaranteed: "RPCURLs (LoadConfig (\<lambda>_. []) [(''rpc-seed'', [])]) = []"
  by code_simp

text \<open>A rejected flag is ignored together with every flag after it.\<close>

lemma rejected_flag_drops_rest:
  "fst (set_flag name v c) = False \<Longrightarrow> set_flags ((name, v) # rest) c = snd (set_flag name v c)"
  by (cases "set_flag name v c") simp

end
