(* ===== verification/Block.thy ===== *)
theory Block
  imports Registry Read_Model Config
begin

text \<open>
  \<open>internal/sync\<close>: \<open>block.go\<close>, \<open>bulkwindow.go\<close>, \<open>reconcile.go\<close> and \<open>txhash.go\<close>, the code that
  writes one block, or a window of blocks, in one transaction.

  Inside the transaction the state is a \<open>block_state\<close>: the transaction, the router's
  counters, the handler errors kept for later and the raw rows of the window.  Around it is
  the \<open>service\<close>: the committed tables, which change only by a commit or by the single
  statements that write the error log through the pool.  A statement fails when the fault
  schedule says so; a commit that fails, or that ends an aborted transaction, commits nothing.

  SHA-256 is the parameter \<open>en_sha256\<close>.  An absent JSON list of a fetched event is taken as an
  empty one.
\<close>

record block_bundle =
  bu_height :: int
  bu_chain :: string
  bu_time :: int
  bu_hash :: string
  bu_proposer :: string
  bu_raw_txs :: "string list"
  bu_txs :: "tx_result list"
  bu_finalize :: "event list"

record apply_opts =
  op_raw_events :: bool
  op_reconcile :: bool
  op_skip_heartbeat :: bool
  op_skip_cursor :: bool
  op_skip_timeout :: bool
  op_defer :: bool

definition no_opts :: apply_opts where
  "no_opts =
     \<lparr>op_raw_events = False, op_reconcile = False, op_skip_heartbeat = False,
      op_skip_cursor = False, op_skip_timeout = False, op_defer = False\<rparr>"

record raw_batch =
  rw_events :: "raw_event_row list"
  rw_attributes :: "raw_attribute_row list"

definition empty_batch :: raw_batch where
  "empty_batch = \<lparr>rw_events = [], rw_attributes = []\<rparr>"

definition rawEventBatchLimit :: nat where
  "rawEventBatchLimit = 32768"

text \<open>What the syncer was built with, beside its configuration.\<close>

record parts =
  en_router :: router
  en_views :: projections
  en_sha256 :: "string \<Rightarrow> string"

definition owners_of :: "projections \<Rightarrow> owner_view" where
  "owners_of P d = map (\<lambda>(a, ty, i). (a, i)) (pj_owners P d)"

record block_state =
  bk_world :: world
  bk_unknowns :: unknowns
  bk_errors :: "handler_error list"
  bk_events :: nat
  bk_raw :: raw_batch

definition in_tx :: "(world, 'a) op \<Rightarrow> (block_state, 'a) op" where
  "in_tx m s = (case m (bk_world s) of (r, w) \<Rightarrow> (r, s\<lparr>bk_world := w\<rparr>))"

definition keep_error :: "handler_error \<Rightarrow> (block_state, unit) op" where
  "keep_error he = modifyO (\<lambda>s. s\<lparr>bk_errors := bk_errors s @ [he]\<rparr>)"

definition at_height :: "string \<Rightarrow> int \<Rightarrow> string" where
  "at_height msg h = msg @ '' h='' @ dec_int h @ '': ''"

section \<open>Dispatching a block's events\<close>

definition coordinatePtr :: "int \<Rightarrow> int option" where
  "coordinatePtr index = (if index < 0 then None else Some index)"

definition stripWhitespace :: "string \<Rightarrow> string" where
  "stripWhitespace s = dropWhile (\<lambda>c. (of_char c :: nat) \<in> {32, 9, 10, 13}) s"

definition encodeAttributeValue :: "string \<Rightarrow> string" where
  "encodeAttributeValue v =
     (let t = stripWhitespace v in
      if t \<noteq> [] \<and> (hd t = CHR ''{'' \<or> hd t = CHR ''['' \<or> hd t = CHR 0x22) \<and> json_valid v
      then v else json_quote v)"

definition attribute_json :: "attribute \<Rightarrow> json" where
  "attribute_json a =
     JObj [(''key'', jstr (attr_key a)), (''value'', jstr (attr_value a)), (''index'', JBool (attr_index a))]"

definition event_json :: "event \<Rightarrow> json" where
  "event_json ev = JObj [(''type'', jstr (ev_type ev)), (''attributes'', JArr (map attribute_json (ev_attributes ev)))]"

definition tx_json :: "tx_result \<Rightarrow> json" where
  "tx_json r =
     JObj [(''code'', JNum (dec_int (tx_code r))), (''data'', jstr (tx_data r)), (''log'', jstr (tx_log r)),
       (''info'', jstr (tx_info r)), (''gas_wanted'', jstr (tx_gas_wanted r)), (''gas_used'', jstr (tx_gas_used r)),
       (''events'', JArr (map event_json (tx_events r))), (''codespace'', jstr (tx_codespace r))]"

definition source_error :: "block_context \<Rightarrow> string \<Rightarrow> event \<Rightarrow> goerror \<Rightarrow> handler_error" where
  "source_error b key ev e =
     \<lparr>he_key = key, he_payload = json_marshal (event_json ev), he_error = err_text e,
      he_severity = SeverityError, he_tx = coordinatePtr (bc_tx b), he_msg = coordinatePtr (bc_msg b),
      he_event = coordinatePtr (bc_event b)\<rparr>"

definition refuse_event :: "block_context \<Rightarrow> string \<Rightarrow> event \<Rightarrow> goerror \<Rightarrow> (block_state, unit) op" where
  "refuse_event b key ev e = bindO (keep_error (source_error b key ev e)) (\<lambda>_. failO e)"

definition required_event :: "handler_error \<Rightarrow> goerror" where
  "required_event he = errorf (''required event '' @ he_key he @ '': '' @ he_error he)"

text \<open>One call of \<open>DispatchAtomic\<close> and what \<open>dispatchOneEvent\<close> makes of its answer.\<close>

definition dispatch_required ::
  "router \<Rightarrow> block_context \<Rightarrow> string \<Rightarrow> string \<Rightarrow> (block_state, unit) op" where
  "dispatch_required r b key raw s =
     (case DispatchAtomic r b key raw (bk_unknowns s, bk_world s) of
        (res, u, w) \<Rightarrow>
          let s1 = s\<lparr>bk_unknowns := u, bk_world := w\<rparr> in
          (case res of
             Inl fatal \<Rightarrow> (Inl fatal, s1)
           | Inr None \<Rightarrow> (Inr (), s1)
           | Inr (Some he) \<Rightarrow>
               (if he_severity he \<noteq> SeverityWarn then Inl (required_event he) else Inr (),
                s1\<lparr>bk_errors := bk_errors s1 @ [he]\<rparr>)))"

definition plain_attributes :: "event \<Rightarrow> attribute list" where
  "plain_attributes ev =
     dedup_first attr_key [] (filter (\<lambda>a. \<not> is_metadata (attr_key a)) (ev_attributes ev))"

definition dispatchOneEvent :: "router \<Rightarrow> block_context \<Rightarrow> event \<Rightarrow> (block_state, unit) op" where
  "dispatchOneEvent r b ev =
     (case ValidateNestedEvent r ev of
        (key, Inl e) \<Rightarrow> refuse_event b key ev e
      | (key, Inr _) \<Rightarrow>
          (if Lookup r (ev_type ev) \<noteq> None
           then (case Envelope ev of
               Inl e \<Rightarrow> refuse_event b (ev_type ev) ev e
             | Inr raw \<Rightarrow> dispatch_required r b (ev_type ev) raw)
           else forO (plain_attributes ev) (\<lambda>a.
             dispatch_required r b (ev_type ev @ CHR ''.'' # attr_key a) (encodeAttributeValue (attr_value a)))))"

definition event_context :: "block_bundle \<Rightarrow> positioned \<Rightarrow> block_context" where
  "event_context b p =
     \<lparr>bc_chain = bu_chain b, bc_height = bu_height b, bc_time = bu_time b, bc_tip = bu_height b,
      bc_phase = pe_phase p, bc_tx = pe_tx p, bc_msg = pe_msg p, bc_event = pe_index p\<rparr>"

definition dispatchEvents :: "router \<Rightarrow> block_bundle \<Rightarrow> (block_state, unit) op" where
  "dispatchEvents r b =
     bindO (liftO (ordered_events (bu_finalize b) (bu_txs b))) (\<lambda>ordered.
     forO ordered (\<lambda>p.
       bindO (dispatchOneEvent r (event_context b p) (pe_event p)) (\<lambda>_.
       modifyO (\<lambda>s. s\<lparr>bk_events := Suc (bk_events s)\<rparr>))))"

section \<open>Raw mirror\<close>

text \<open>\<open>base64.StdEncoding.Strict().DecodeString\<close>; \<open>base64_groups\<close> says when it succeeds.\<close>

fun base64_bytes :: "nat list \<Rightarrow> string" where
  "base64_bytes (a # b # c # d # s) =
     [char_of (4 * a + b div 16), char_of (16 * (b mod 16) + c div 4), char_of (64 * (c mod 4) + d)] @ base64_bytes s"
| "base64_bytes [a, b, c] = [char_of (4 * a + b div 16), char_of (16 * (b mod 16) + c div 4)]"
| "base64_bytes [a, b] = [char_of (4 * a + b div 16)]"
| "base64_bytes _ = []"

definition base64_decode :: "string \<Rightarrow> string option" where
  "base64_decode s =
     (let t = filter (\<lambda>c. (of_char c :: nat) \<notin> {10, 13}) s in
      if base64_groups t
      then Some (base64_bytes (map (the \<circ> base64_char) (filter (\<lambda>c. c \<noteq> CHR ''='') t)))
      else None)"

definition TxHash :: "(string \<Rightarrow> string) \<Rightarrow> string \<Rightarrow> string" where
  "TxHash sha256 rawTx =
     concat (map (\<lambda>c. [hex_upper (of_char c div 16), hex_upper (of_char c mod 16)]) (sha256 rawTx))"

definition raw_tx :: "(string \<Rightarrow> string) \<Rightarrow> block_bundle \<Rightarrow> int \<times> tx_result \<times> string \<Rightarrow> raw_tx_row res" where
  "raw_tx sha256 b x =
     (case x of (i, r, raw) \<Rightarrow>
        (case base64_decode raw of
           None \<Rightarrow> Inl (errorf (''invalid raw transaction '' @ dec_int i))
         | Some bytes \<Rightarrow>
             if bytes = [] then Inl (errorf (''invalid raw transaction '' @ dec_int i))
             else
               let gas = parse_int64_value (tx_gas_used r) in
               Inr \<lparr>rt_chain = bu_chain b, rt_height = bu_height b, rt_tx = i, rt_hash = TxHash sha256 bytes,
                    rt_code = tx_code r, rt_gas = (if 0 < gas then Some gas else None),
                    rt_log = tx_log r, rt_json = json_marshal (tx_json r)\<rparr>))"

definition raw_event :: "block_bundle \<Rightarrow> event \<times> int \<times> int \<Rightarrow> raw_event_row" where
  "raw_event b x =
     (case x of (ev, tx, i) \<Rightarrow>
        \<lparr>rv_chain = bu_chain b, rv_height = bu_height b, rv_tx = coordinatePtr tx, rv_event = i,
         rv_type = ev_type ev\<rparr>)"

definition raw_attributes :: "block_bundle \<Rightarrow> event \<times> int \<times> int \<Rightarrow> raw_attribute_row list" where
  "raw_attributes b x =
     (case x of (ev, tx, i) \<Rightarrow>
        map (\<lambda>a. \<lparr>ra_chain = bu_chain b, ra_height = bu_height b, ra_tx = coordinatePtr tx, ra_event = i,
                  ra_key = attr_key a, ra_value = attr_value a,
                  ra_composite = ev_type ev @ CHR ''.'' # attr_key a\<rparr>)
          (dedup_first attr_key [] (ev_attributes ev)))"

text \<open>\<open>addEv\<close> over every event of the block, in source order.\<close>

definition add_raw_events :: "block_bundle \<Rightarrow> raw_batch \<Rightarrow> raw_batch" where
  "add_raw_events b batch =
     (let src = source_events (bu_finalize b) (bu_txs b) in
      \<lparr>rw_events = rw_events batch @ map (raw_event b) src,
       rw_attributes = rw_attributes batch @ concat (map (raw_attributes b) src)\<rparr>)"

text \<open>The batch is only emptied when both writes succeeded.\<close>

definition raw_flush :: "(block_state, unit) op" where
  "raw_flush =
     bindO (getO bk_raw) (\<lambda>batch.
     bindO (in_tx (WriteRawEvents (rw_events batch))) (\<lambda>_.
     bindO (in_tx (WriteRawAttributes (rw_attributes batch))) (\<lambda>_.
     modifyO (\<lambda>s. s\<lparr>bk_raw := empty_batch\<rparr>))))"

definition raw_block_of :: "block_bundle \<Rightarrow> raw_block_row" where
  "raw_block_of b =
     \<lparr>rb_hash = bu_hash b, rb_time = bu_time b, rb_proposer = bu_proposer b, rb_num_txs = length (bu_raw_txs b)\<rparr>"

text \<open>Without a window the batch is a fresh one and is flushed at once.\<close>

definition writeRawMirror :: "(string \<Rightarrow> string) \<Rightarrow> block_bundle \<Rightarrow> bool \<Rightarrow> (block_state, unit) op" where
  "writeRawMirror sha256 b window =
     bindO (guardO (length (bu_raw_txs b) = length (bu_txs b))
       (errorf ''raw transaction/result count mismatch'')) (\<lambda>_.
     bindO (in_tx (exec (WriteRawBlock (bu_chain b) (bu_height b) (raw_block_of b)))) (\<lambda>_.
     bindO (liftO (mapR (raw_tx sha256 b) (indexed (zip (bu_txs b) (bu_raw_txs b))))) (\<lambda>rows.
     bindO (in_tx (WriteRawTxResults rows)) (\<lambda>_.
     bindO (modifyO (\<lambda>s. s\<lparr>bk_raw := add_raw_events b (if window then bk_raw s else empty_batch)\<rparr>)) (\<lambda>_.
     bindO (getO bk_raw) (\<lambda>batch.
     whenO (\<not> window \<or> rawEventBatchLimit \<le> length (rw_events batch) + length (rw_attributes batch))
       raw_flush))))))"

section \<open>One block\<close>

definition reconcileCurrentBoundary :: "block_bundle \<Rightarrow> (world, unit) op" where
  "reconcileCurrentBoundary b =
     bindO (query (ReadCursor (bu_chain b))) (\<lambda>c.
     bindO (guardO (\<not> (bu_height b \<le> 0 \<or> c_height c \<noteq> bu_height b \<or> c_hash c = [] \<or>
          \<not> equal_fold (c_hash c) (bu_hash b) \<or> c_time c \<noteq> pg_timestamp (bu_time b)))
       (errorf ''reconciliation requires the exact indexed cursor height, hash and time; refusing historical state overwrite'')) (\<lambda>_.
     bindO (liftO (ordered_events (bu_finalize b) (bu_txs b))) (\<lambda>ordered.
     bindO (ReconcileLegacyInfusionPositions
        \<lparr>bc_chain = bu_chain b, bc_height = bu_height b, bc_time = bu_time b, bc_tip = 0,
         bc_phase = PreBlock, bc_tx = 0, bc_msg = 0, bc_event = 0\<rparr> ordered) (\<lambda>_. returnO ()))))"

definition plain_error :: "string \<Rightarrow> goerror \<Rightarrow> handler_error" where
  "plain_error key e =
     \<lparr>he_key = key, he_payload = [], he_error = err_text e, he_severity = SeverityError,
      he_tx = None, he_msg = None, he_event = None\<rparr>"

text \<open>Bank processing: on an error the buffered rows are restored and the error is kept.\<close>

definition bank_step :: "block_bundle \<Rightarrow> (block_state, unit) op" where
  "bank_step b s =
     (let w = bk_world s; snap = buffer_snapshot (w_buf w) in
      case ProcessBlock (bu_height b) (bu_time b) (bu_chain b) (bu_finalize b) (bu_txs b) (w_buf w) of
        (Inr _, buf) \<Rightarrow> (Inr (), s\<lparr>bk_world := w\<lparr>w_buf := buf\<rparr>\<rparr>)
      | (Inl e, buf) \<Rightarrow>
          (Inl (wrapf (at_height ''bank'' (bu_height b)) e),
           s\<lparr>bk_world := w\<lparr>w_buf := buffer_restore snap buf\<rparr>,
             bk_errors := bk_errors s @ [plain_error ''bank.process_block'' e]\<rparr>))"

definition native_step_of :: "projections \<Rightarrow> block_bundle \<Rightarrow> (world, unit) op" where
  "native_step_of P b =
     bindO (liftO (NativeChanges (bu_finalize b) (bu_txs b))) (\<lambda>c.
     Invalidate (owners_of P) (bu_chain b) (bu_height b) c)"

definition native_claims :: "projections \<Rightarrow> block_bundle \<Rightarrow> (block_state, unit) op" where
  "native_claims P b s =
     (case in_tx (native_step_of P b) s of
        (Inr _, t) \<Rightarrow> (Inr (), t)
      | (Inl e, t) \<Rightarrow>
          (Inl (wrapf (at_height ''native claims'' (bu_height b)) e),
           t\<lparr>bk_errors := bk_errors t @ [plain_error ''bank.native_claims'' e]\<rparr>))"

definition lag_of :: "int \<Rightarrow> int \<Rightarrow> int" where
  "lag_of tip height = (if tip - height < 0 then 0 else tip - height)"

definition current_block_of :: "block_bundle \<Rightarrow> int \<Rightarrow> current_block_row" where
  "current_block_of b tip =
     \<lparr>cb_height = bu_height b, cb_time = bu_time b, cb_status = ComputeStatus (bu_height b) tip,
      cb_lag = lag_of tip (bu_height b), cb_tip = tip\<rparr>"

definition cursor_of :: "block_bundle \<Rightarrow> int \<Rightarrow> cursor" where
  "cursor_of b tip =
     \<lparr>c_chain = bu_chain b, c_height = bu_height b, c_hash = bu_hash b, c_time = bu_time b,
      c_status = ComputeStatus (bu_height b) tip, c_lag = lag_of tip (bu_height b), c_tip = tip\<rparr>"

definition set_local :: "string \<Rightarrow> (world, unit) op" where
  "set_local msg = wrapO msg (exec (\<lambda>d. d))"

text \<open>The projections of the block: rebuilt, deferred to the window, or recomputed.\<close>

definition project_block ::
  "projections \<Rightarrow> block_bundle \<Rightarrow> apply_opts \<Rightarrow> ledger_delta list \<Rightarrow> (world, (dirty \<times> ledger_delta list) option) op" where
  "project_block P b opts deltas =
     (if op_reconcile opts
      then bindO (wrapO (at_height ''reconcile projections'' (bu_height b))
             (BackfillInTx P (bu_height b) (Some (bu_time b)))) (\<lambda>_. returnO None)
      else bindO (getO w_dirty) (\<lambda>dt.
        if op_defer opts then returnO (Some (dt, deltas))
        else bindO (wrapO (at_height ''api projections'' (bu_height b))
               (Recompute P dt (bu_height b) (Some (bu_time b)) (FromDeltas deltas))) (\<lambda>_. returnO None)))"

text \<open>The bookkeeping at the end of a block.\<close>

definition block_log_of :: "block_bundle \<Rightarrow> block_state \<Rightarrow> block_log_row" where
  "block_log_of b s =
     \<lparr>bl_hash = bu_hash b, bl_time = bu_time b, bl_txs = length (bu_txs b), bl_events = bk_events s,
      bl_errors = length (bk_errors s)\<rparr>"

definition book_block :: "block_bundle \<Rightarrow> int \<Rightarrow> apply_opts \<Rightarrow> (block_state, unit) op" where
  "book_block b tip opts =
     bindO (whenO (\<not> op_skip_heartbeat opts \<or> \<not> op_skip_cursor opts)
       (wrapO (at_height ''upsert current_block'' (bu_height b))
         (in_tx (UpsertCurrentBlock (bu_chain b) (current_block_of b tip))))) (\<lambda>_.
     bindO (whenO (\<not> op_skip_heartbeat opts)
       (wrapO (at_height ''notify grass'' (bu_height b))
         (in_tx (exec (EmitCurrentBlockHeartbeat (bu_height b) (bu_time b)))))) (\<lambda>_.
     bindO (getO (block_log_of b)) (\<lambda>row.
     bindO (wrapO (at_height ''block_log'' (bu_height b))
       (in_tx (exec (WriteBlockLog (bu_chain b) (bu_height b) row)))) (\<lambda>_.
     whenO (\<not> op_skip_cursor opts)
       (wrapO (at_height ''sync_cursor'' (bu_height b)) (in_tx (exec (UpsertCursor (cursor_of b tip)))))))))"

definition applyBlockInTx ::
  "parts \<Rightarrow> config \<Rightarrow> block_bundle \<Rightarrow> int \<Rightarrow> apply_opts \<Rightarrow> (block_state, (dirty \<times> ledger_delta list) option) op" where
  "applyBlockInTx E cfg b tip opts =
     bindO (modifyO (\<lambda>s. s\<lparr>bk_errors := []\<rparr>)) (\<lambda>_.
     bindO (whenO (\<not> op_skip_timeout opts \<and> 0 < cf_statement_timeout cfg)
       (in_tx (set_local (at_height ''set statement_timeout'' (bu_height b))))) (\<lambda>_.
     bindO (in_tx lockO) (\<lambda>_.
     bindO (modifyO (\<lambda>s. s\<lparr>bk_world := (bk_world s)\<lparr>w_dirty := NewDirty\<rparr>, bk_events := 0\<rparr>)) (\<lambda>_.
     bindO (whenO (op_reconcile opts) (in_tx (reconcileCurrentBoundary b))) (\<lambda>_.
     bindO (wrapO (at_height ''dispatch'' (bu_height b)) (dispatchEvents (en_router E) b)) (\<lambda>_.
     bindO (bank_step b) (\<lambda>_.
     bindO (in_tx (modifyO (\<lambda>w. w\<lparr>w_dirty := Dirty_Ledger (b_ledger (w_buf w)) (w_dirty w)\<rparr>))) (\<lambda>_.
     bindO (native_claims (en_views E) b) (\<lambda>_.
     bindO (whenO (op_reconcile opts)
       (wrapO (at_height ''reconcile ledger'' (bu_height b)) (in_tx ValidateExistingLedger))) (\<lambda>_.
     bindO (wrapO (at_height ''flush authoritative buffer'' (bu_height b)) (in_tx Flush)) (\<lambda>deltas.
     bindO (wrapO (at_height ''economy source coverage'' (bu_height b))
       (in_tx (RecordEconomyCoverage (bu_chain b) (bu_height b) (bu_hash b)))) (\<lambda>_.
     bindO (in_tx (project_block (en_views E) b opts deltas)) (\<lambda>res.
     bindO (whenO (cf_mirror_raw cfg) (wrapO (at_height ''raw mirror'' (bu_height b))
       (writeRawMirror (en_sha256 E) b (op_raw_events opts)))) (\<lambda>_.
     bindO (book_block b tip opts) (\<lambda>_. returnO res)))))))))))))))"

section \<open>Transactions of the service\<close>

record service =
  sx_db :: tables
  sx_unknowns :: unknowns
  sx_stale :: bool
  sx_clock :: nat
  sx_fault :: "nat \<Rightarrow> goerror option"

text \<open>One statement on the pool, which commits by itself.\<close>

definition pool_exec :: "(tables \<Rightarrow> tables) \<Rightarrow> (service, unit) op" where
  "pool_exec f s =
     (case sx_fault s (sx_clock s) of
        Some e \<Rightarrow> (Inl e, s\<lparr>sx_clock := Suc (sx_clock s)\<rparr>)
      | None \<Rightarrow> (Inr (), s\<lparr>sx_clock := Suc (sx_clock s), sx_db := f (sx_db s)\<rparr>))"

definition attempt :: "('s, 'a) op \<Rightarrow> ('s, unit) op" where
  "attempt m s = (Inr (), snd (m s))"

text \<open>A row that cannot be written is a warning on the log.\<close>

definition writePendingHandlerErrors :: "string \<Rightarrow> pending_error list \<Rightarrow> (service, unit) op" where
  "writePendingHandlerErrors chain pending =
     forO pending (\<lambda>p. attempt (pool_exec (WriteHandlerError chain p)))"

definition pending_of :: "block_bundle \<Rightarrow> handler_error list \<Rightarrow> pending_error list" where
  "pending_of b hes = map (\<lambda>he. \<lparr>pe_height = bu_height b, pe_error = he\<rparr>) hes"

definition fresh_block :: "service \<Rightarrow> block_state" where
  "fresh_block s =
     \<lparr>bk_world = \<lparr>w_db = sx_db s, w_buf = new_buffer, w_dirty = NewDirty, w_aborted = False,
        w_clock = Suc (sx_clock s), w_fault = sx_fault s\<rparr>,
      bk_unknowns = sx_unknowns s, bk_errors = [], bk_events = 0, bk_raw = empty_batch\<rparr>"

text \<open>\<open>tx.Commit\<close>, and the \<open>tx.Rollback\<close> of the deferred function: what becomes of the service.\<close>

definition commit_failure :: "world \<Rightarrow> goerror option" where
  "commit_failure w =
     (case w_fault w (w_clock w) of
        Some e \<Rightarrow> Some e
      | None \<Rightarrow> if w_aborted w then Some (errorf ''commit unexpectedly resulted in rollback'') else None)"

definition after_tx :: "block_state \<Rightarrow> service \<Rightarrow> service" where
  "after_tx t s = s\<lparr>sx_unknowns := bk_unknowns t, sx_clock := Suc (w_clock (bk_world t))\<rparr>"

definition finish_tx ::
  "string \<Rightarrow> string \<Rightarrow> pending_error list \<Rightarrow> 'a res \<Rightarrow> block_state \<Rightarrow> (service, unit) op" where
  "finish_tx commit_msg chain pending r t s =
     (let s1 = after_tx t s;
          undone = (\<lambda>e. (Inl e, snd (writePendingHandlerErrors chain pending s1))) in
      case r of
        Inl e \<Rightarrow> undone e
      | Inr _ \<Rightarrow>
          (case commit_failure (bk_world t) of
             Some e \<Rightarrow> undone (wrapf commit_msg e)
           | None \<Rightarrow> (Inr (), snd (writePendingHandlerErrors chain pending
               (s1\<lparr>sx_db := w_db (bk_world t)\<rparr>)))))"

definition begin_failed :: "string \<Rightarrow> (service, unit) op \<Rightarrow> (service, unit) op" where
  "begin_failed msg m s =
     (case sx_fault s (sx_clock s) of
        Some e \<Rightarrow> (Inl (wrapf msg e), s\<lparr>sx_clock := Suc (sx_clock s)\<rparr>)
      | None \<Rightarrow> m s)"

definition applyBlock :: "parts \<Rightarrow> config \<Rightarrow> block_bundle \<Rightarrow> int \<Rightarrow> (service, unit) op" where
  "applyBlock E cfg b tip =
     begin_failed (at_height ''begin tx'' (bu_height b)) (\<lambda>s.
       case applyBlockInTx E cfg b tip no_opts (fresh_block s) of
         (r, t) \<Rightarrow> finish_tx (at_height ''commit'' (bu_height b)) (bu_chain b)
           (pending_of b (bk_errors t)) r t s)"

section \<open>Windows\<close>

definition bulk_opts :: "config \<Rightarrow> apply_opts" where
  "bulk_opts cfg =
     \<lparr>op_raw_events = cf_mirror_raw cfg, op_reconcile = False, op_skip_heartbeat = True,
      op_skip_cursor = True, op_skip_timeout = True, op_defer = True\<rparr>"

text \<open>The errors of all blocks so far, and the union of the dirty sets and deltas.\<close>

record window =
  wi_pending :: "pending_error list"
  wi_dirty :: dirty
  wi_deltas :: "ledger_delta list"

definition window_add :: "block_bundle \<Rightarrow> handler_error list \<Rightarrow> window \<Rightarrow> window" where
  "window_add b hes v = v\<lparr>wi_pending := wi_pending v @ pending_of b hes\<rparr>"

definition window_merge :: "config \<Rightarrow> (dirty \<times> ledger_delta list) option \<Rightarrow> window \<Rightarrow> window" where
  "window_merge cfg res v =
     (if cf_bulk_defer_projections cfg then v
      else case res of
        None \<Rightarrow> v
      | Some (dt, deltas) \<Rightarrow> v\<lparr>wi_dirty := Dirty_Merge dt (wi_dirty v), wi_deltas := wi_deltas v @ deltas\<rparr>)"

fun window_blocks ::
  "parts \<Rightarrow> config \<Rightarrow> int \<Rightarrow> block_bundle list \<Rightarrow> window \<Rightarrow> block_state \<Rightarrow> unit res \<times> window \<times> block_state"
where
  "window_blocks E cfg tip [] v s = (Inr (), v, s)"
| "window_blocks E cfg tip (b # bs) v s =
     (case applyBlockInTx E cfg b tip (bulk_opts cfg) s of
        (r, t) \<Rightarrow>
          let v1 = window_add b (bk_errors t) v in
          (case r of
             Inl e \<Rightarrow> (Inl (wrapf (at_height ''bulk apply'' (bu_height b)) e), v1, t)
           | Inr res \<Rightarrow> window_blocks E cfg tip bs (window_merge cfg res v1) t))"

definition range_msg :: "string \<Rightarrow> block_bundle \<Rightarrow> block_bundle \<Rightarrow> string" where
  "range_msg msg a b = msg @ '' h='' @ dec_int (bu_height a) @ ''..'' @ dec_int (bu_height b) @ '': ''"

definition bulk_timeout :: "config \<Rightarrow> int" where
  "bulk_timeout cfg =
     (if cf_bulk_statement_timeout cfg \<le> 0 then cf_statement_timeout cfg else cf_bulk_statement_timeout cfg)"

definition bulk_settings :: "config \<Rightarrow> block_bundle \<Rightarrow> (block_state, unit) op" where
  "bulk_settings cfg b =
     bindO (whenO (0 < bulk_timeout cfg)
       (in_tx (set_local (at_height ''bulk set statement_timeout'' (bu_height b))))) (\<lambda>_.
     whenO (cf_bulk_async_commit cfg)
       (in_tx (set_local (at_height ''bulk set synchronous_commit'' (bu_height b)))))"

text \<open>What closes a window, after its last block.\<close>

definition close_window ::
  "parts \<Rightarrow> config \<Rightarrow> block_bundle \<Rightarrow> block_bundle \<Rightarrow> int \<Rightarrow> window \<Rightarrow> (block_state, unit) op" where
  "close_window E cfg first' last' tip v =
     bindO (wrapO (range_msg ''bulk raw events'' first' last') raw_flush) (\<lambda>_.
     bindO (whenO (\<not> cf_bulk_defer_projections cfg)
       (wrapO (range_msg ''bulk api projections'' first' last')
         (in_tx (Recompute (en_views E) (wi_dirty v) (bu_height last') (Some (bu_time last')) (FromDeltas (wi_deltas v)))))) (\<lambda>_.
     bindO (wrapO (at_height ''bulk upsert current_block'' (bu_height last'))
       (in_tx (UpsertCurrentBlock (bu_chain last') (current_block_of last' tip)))) (\<lambda>_.
     bindO (wrapO (at_height ''bulk notify grass'' (bu_height last'))
       (in_tx (exec (EmitCurrentBlockHeartbeat (bu_height last') (bu_time last'))))) (\<lambda>_.
     wrapO (at_height ''bulk sync_cursor'' (bu_height last')) (in_tx (exec (UpsertCursor (cursor_of last' tip))))))))"

definition empty_window :: window where
  "empty_window = \<lparr>wi_pending = [], wi_dirty = NewDirty, wi_deltas = []\<rparr>"

definition run_window ::
  "parts \<Rightarrow> config \<Rightarrow> block_bundle list \<Rightarrow> int \<Rightarrow> block_state \<Rightarrow> unit res \<times> window \<times> block_state" where
  "run_window E cfg blocks tip s0 =
     (case bulk_settings cfg (hd blocks) s0 of
        (Inl e, s) \<Rightarrow> (Inl e, empty_window, s)
      | (Inr _, s) \<Rightarrow>
          (case window_blocks E cfg tip blocks empty_window s of
             (Inl e, v, t) \<Rightarrow> (Inl e, v, t)
           | (Inr _, v, t) \<Rightarrow>
               (case close_window E cfg (hd blocks) (last blocks) tip v t of (r, u) \<Rightarrow> (r, v, u))))"

definition mark_stale :: "config \<Rightarrow> unit res \<times> service \<Rightarrow> unit res \<times> service" where
  "mark_stale cfg rs =
     (case rs of
        (Inr _, s) \<Rightarrow> (Inr (), if cf_bulk_defer_projections cfg then s\<lparr>sx_stale := True\<rparr> else s)
      | (Inl e, s) \<Rightarrow> (Inl e, s))"

definition applyBulkWindow :: "parts \<Rightarrow> config \<Rightarrow> block_bundle list \<Rightarrow> int \<Rightarrow> (service, unit) op" where
  "applyBulkWindow E cfg blocks tip =
     (if blocks = [] then returnO ()
      else begin_failed (at_height ''bulk begin tx'' (bu_height (hd blocks))) (\<lambda>s.
        case run_window E cfg blocks tip (fresh_block s) of
          (r, v, t) \<Rightarrow> mark_stale cfg
            (finish_tx (range_msg ''bulk commit'' (hd blocks) (last blocks)) (bu_chain (hd blocks))
               (wi_pending v) r t s)))"

text \<open>\<open>reconcile-current-block\<close>, once the block is fetched.\<close>

definition runReconcileCurrentBlock :: "parts \<Rightarrow> config \<Rightarrow> block_bundle \<Rightarrow> int \<Rightarrow> (service, unit) op" where
  "runReconcileCurrentBlock E cfg b tip =
     begin_failed ''reconcile-current-block: begin: '' (\<lambda>s.
       case applyBlockInTx E cfg b tip (no_opts\<lparr>op_reconcile := True\<rparr>) (fresh_block s) of
         (r, t) \<Rightarrow> finish_tx [] (bu_chain b) (pending_of b (bk_errors t)) r t s)"

end
