(* ===== verification/Block_Facts.thy ===== *)
theory Block_Facts
  imports Block Entity_Facts "HOL-Library.Sublist"
begin

text \<open>
  What holds of committed blocks: a block or window commits wholly or leaves only rows in the
  error log; the cursor names a logged block; a committed block carries warnings only; what
  the handlers promise about single events holds from block to block.
\<close>

section \<open>What no step of a block undoes\<close>

type_synonym durable_tables =
  "(string, struct_row) table \<times> (string, vault_row) table \<times>
     (string \<times> int, block_log_row) table \<times> (nat \<times> error_row) list"

definition durable :: "tables \<Rightarrow> durable_tables" where
  "durable d = (db_struct d, db_vault d, sy_block_log (db_sync d), sy_errors (db_sync d))"

definition log_le :: "(string \<times> int, block_log_row) table \<Rightarrow> (string \<times> int, block_log_row) table \<Rightarrow> bool" where
  "log_le t t' \<longleftrightarrow> (\<forall>k. tbl_get t k \<noteq> None \<longrightarrow> tbl_get t' k \<noteq> None)"

definition durable_le :: "durable_tables \<Rightarrow> durable_tables \<Rightarrow> bool" where
  "durable_le p q \<longleftrightarrow>
     structs_le (fst p) (fst q) \<and> vaults_le (fst (snd p)) (fst (snd q)) \<and>
     log_le (fst (snd (snd p))) (fst (snd (snd q))) \<and> snd (snd (snd p)) = snd (snd (snd q))"

lemma log_le_refl [simp]: "log_le t t"
  by (simp add: log_le_def)

lemma log_le_trans: "log_le t u \<Longrightarrow> log_le u v \<Longrightarrow> log_le t v"
  by (simp add: log_le_def)

lemma durable_le_refl [simp]: "durable_le p p"
  by (simp add: durable_le_def)

lemma durable_le_trans: "durable_le p q \<Longrightarrow> durable_le q r \<Longrightarrow> durable_le p r"
  unfolding durable_le_def
  by (elim conjE, intro conjI, erule (1) structs_le_trans, erule (1) vaults_le_trans, erule (1) log_le_trans, simp)

interpretation lasting: table_frame durable durable_le
  by unfold_locales (simp, rule durable_le_trans)

abbreviation lasts :: "(world, 'a) op \<Rightarrow> bool" where
  "lasts m \<equiv> keeps (across durable durable_le) m"

lemma tombstones_last: "keeps_tombstones m \<Longrightarrow> lasts m"
  by (auto simp: keeps_def across_def permanent_le_def permanent_def reserved_def durable_le_def durable_def)

lemma durable_updates [frame_simps]:
  "durable (d\<lparr>db_ledger := y1\<rparr>) = durable d" "durable (d\<lparr>db_defusion := y2\<rparr>) = durable d"
  "durable (d\<lparr>db_native := y3\<rparr>) = durable d" "durable (d\<lparr>db_sequence := y4\<rparr>) = durable d"
  "durable (d\<lparr>db_activity := y5\<rparr>) = durable d" "durable (d\<lparr>db_stats := y6\<rparr>) = durable d"
  "durable (d\<lparr>db_infusion := y7\<rparr>) = durable d" "durable (d\<lparr>db_invalidation := y8\<rparr>) = durable d"
  by (simp_all add: durable_def)

lemma durable_sync [frame_simps]:
  "(\<And>s. sy_block_log (f s) = sy_block_log s) \<Longrightarrow> (\<And>s. sy_errors (f s) = sy_errors s) \<Longrightarrow>
     durable (on_sync f d) = durable d"
  by (simp add: durable_def on_sync_def)

lemma durable_statements [frame_simps]:
  "durable (infusion_position_upsert k pos d) = durable d"
  "durable (snd (adopt_extension p d)) = durable d"
  "durable (snd (request_statement chain height addresses validators everyone d)) = durable d"
  "durable (ensure_statement chain height ids d) = durable d"
  "durable (snd (coverage_insert chain height hash d)) = durable d"
  "durable (WriteRawBlock chain height r d) = durable d"
  "durable (UpsertCursor c d) = durable d"
  "durable (EmitCurrentBlockHeartbeat height time' d) = durable d"
  "durable (current_block_upsert chain q d) = durable d"
  by (simp_all add: infusion_position_upsert_def adopt_extension_def request_statement_def ensure_statement_def
      coverage_insert_def WriteRawBlock_def UpsertCursor_def EmitCurrentBlockHeartbeat_def current_block_upsert_def
      Let_def durable_def on_sync_def split: option.splits prod.splits)

lemma durable_block_log: "durable_le (durable d) (durable (WriteBlockLog chain height r d))"
  by (simp add: durable_le_def durable_def WriteBlockLog_def on_sync_def log_le_def)

lemmas lasting_base = lasting.frame_intros keeps_sum lasting.frame_memory

text \<open>The steps of a block, one by one.\<close>

lemma lasting_lockO: "lasts lockO"
  unfolding lockO_def by (intro lasting_base) simp

lemma lasting_set_local: "lasts (set_local msg)"
  unfolding set_local_def by (intro lasting_base) simp

lemma lasting_dirtyOwner: "lasts (dirtyOwner i)"
  by (rule tombstones_last) (rule tomb_economy)

lemma lasting_reconcile_one: "lasts (reconcile_one b m)"
  unfolding reconcile_one_def Let_def
  by (intro lasting_base lasting_dirtyOwner; simp add: frame_simps)

lemma lasting_reconcile_all: "lasts (reconcile_all b ms)"
proof (induction ms)
  case Nil
  then show ?case by (simp only: reconcile_all.simps) (intro lasting_base)
next
  case (Cons m ms)
  show ?case by (simp only: reconcile_all.simps) (intro lasting_base lasting_reconcile_one Cons)
qed

lemma lasting_reconcile_boundary: "lasts (reconcileCurrentBoundary b)"
  unfolding reconcileCurrentBoundary_def ReconcileLegacyInfusionPositions_def
  by (intro lasting_base lasting_reconcile_all)

lemma lasting_Request: "lasts (Request chain height c)"
  unfolding Request_def Let_def by (intro lasting_base lasting_lockO; simp add: frame_simps)

lemma lasting_Ensure: "lasts (Ensure chain height ids)"
  unfolding Ensure_def by (intro lasting_base lasting_lockO; simp add: frame_simps)

lemma lasting_native: "lasts (native_step_of P b)"
  unfolding native_step_of_def Invalidate_def Let_def
  by (intro lasting_base lasting_Request lasting_Ensure)

lemma lasting_ValidateExistingLedger: "lasts ValidateExistingLedger"
  unfolding ValidateExistingLedger_def by (intro lasting_base) simp_all

lemma lasting_flush_batches: "lasts (flush_batches bs)"
proof (induction bs)
  case Nil
  then show ?case by (simp only: flush_batches.simps) (intro lasting_base)
next
  case (Cons b bs)
  show ?case
    by (simp only: flush_batches.simps flushLedgerBatch_def Let_def; intro lasting_base Cons; simp add: frame_simps)
qed

lemma lasting_slices:
  "lasts (flush_ledger_slice rows)" "lasts (flushDefusion drows)" "lasts (flushPlanetActivity arows)"
  "lasts (flushStat tname typed srows)"
  unfolding flush_ledger_slice_def flushLedger_def flushDefusion_def flush_defusion_batch_def flushPlanetActivity_def
    reservePlanetActivitySequences_def flushStat_def Let_def
  by (intro lasting_base lasting_flush_batches; simp add: frame_simps)+

lemma lasting_flush_slice: "(\<And>rows. lasts (put rows)) \<Longrightarrow> lasts (flush_slice rows put reset)"
  unfolding flush_slice_def by (intro lasting_base) (assumption, simp)

lemma lasting_Flush: "lasts Flush"
  unfolding Flush_def flush_stats_def
  by (intro lasting_base lasting_flush_slice lasting_slices)

lemma lasting_RecordEconomyCoverage: "lasts (RecordEconomyCoverage chain height hash)"
  unfolding RecordEconomyCoverage_def by (intro lasting_base; simp add: frame_simps)

text \<open>The projections only write \<open>structs.api_*\<close>.\<close>

definition api_blind :: "tables \<Rightarrow> tables" where
  "api_blind d = d\<lparr>db_api := empty_api\<rparr>"

interpretation projected: table_frame api_blind "(=)"
  by unfold_locales simp_all

abbreviation projects :: "(world, 'a) op \<Rightarrow> bool" where
  "projects m \<equiv> keeps (across api_blind (=)) m"

lemma api_blind_fields:
  assumes "api_blind d = api_blind d'"
  shows "db_struct d = db_struct d'" "db_vault d = db_vault d'" "db_sync d = db_sync d'"
proof -
  have "db_struct (api_blind d) = db_struct (api_blind d')" "db_vault (api_blind d) = db_vault (api_blind d')"
    "db_sync (api_blind d) = db_sync (api_blind d')" using assms by simp_all
  then show "db_struct d = db_struct d'" "db_vault d = db_vault d'" "db_sync d = db_sync d'"
    by (simp_all add: api_blind_def)
qed

lemma projects_last: "projects m \<Longrightarrow> lasts m"
  unfolding keeps_def across_def
proof
  fix s
  assume "\<forall>s. api_blind (w_db s) = api_blind (w_db (snd (m s)))"
  then have "api_blind (w_db s) = api_blind (w_db (snd (m s)))" by blast
  note same = api_blind_fields [OF this]
  show "durable_le (durable (w_db s)) (durable (w_db (snd (m s))))" by (simp add: durable_def same)
qed

lemma api_blind_statements [frame_simps]:
  "api_blind (on_api f d) = api_blind d" "api_blind (on_inventory g d) = api_blind d"
  "api_blind (refresh_claims P as d) = api_blind d" "api_blind (rebuild_owners P owners d) = api_blind d"
  "api_blind (work_refresh P full height time' d) = api_blind d"
  by (simp_all add: api_blind_def on_api_def on_inventory_def refresh_claims_def rebuild_owners_def
      work_refresh_def Let_def)

lemmas projected_base = projected.frame_intros keeps_sum projected.frame_memory

lemma projected_lockO: "projects lockO"
  unfolding lockO_def by (intro projected_base) simp

lemma projected_expand:
  "projects (expandAddresses P dt)" "projects (expandPlayers dt)" "projects (expandGuildTokenHolders dt)"
  unfolding expandAddresses_def expandPlayers_def expandGuildTokenHolders_def
  by (intro projected_base)+

lemma projected_inventory:
  "projects (refreshInventoryClaims P dt)" "projects (rebuildOwnerInventory P owners)" "projects (apply_deltas deltas)"
  unfolding refreshInventoryClaims_def rebuildOwnerInventory_def apply_deltas_def abort_with_def
  by (intro projected_base; simp add: frame_simps)+

lemma projected_inventories: "projects (applyInventoryDeltas P dt deltas)" "projects (recomputeInventory P dt)"
  unfolding applyInventoryDeltas_def recomputeInventory_def
  by (intro projected_base projected_inventory; simp add: frame_simps)+

lemma projected_boards: "projects (recompute_boards P dt)"
  unfolding recompute_boards_def recomputeGuildBank_def recomputePlayers_def recomputeGuilds_def
    recomputeReactors_def recomputeProviders_def recomputeSubstations_def Let_def
  by (intro projected_base; simp add: frame_simps)

lemma projected_plan: "projects (recompute_inventory_plan P dt plan)"
  unfolding recompute_inventory_plan_def
  by (cases plan; simp only: inventory_plan.case; intro projected_base projected_inventories)

lemma projected_refresh:
  "projects (refreshModels models height time')" "projects (refreshWork P full height time')"
  unfolding refreshModels_def refreshWork_def by (intro projected_base; simp add: frame_simps)+

lemma projected_recompute: "projects (recompute P dt height time' plan full)"
  unfolding recompute_def Expand_def
  by (intro projected_base projected_expand projected_plan projected_boards projected_refresh)

lemma projected_drift: "projects (consumeDrift P dt)"
  unfolding consumeDrift_def Let_def
  by (intro projected_base projected_lockO projected_expand projected_inventories; simp add: frame_simps)

lemma projected_backfill: "projects (BackfillInTx P height time')"
  unfolding BackfillInTx_def loadAllDirty_def clear_boards_def backfillInventory_def ConsumeDrift_def
  by (intro projected_base projected_lockO projected_drift projected_refresh projected_recompute; simp add: frame_simps)

lemma lasting_project: "lasts (project_block P b opts deltas)"
  unfolding project_block_def Recompute_def
  by (intro lasting_base projects_last projected_backfill projected_recompute)

lemma lasting_raw:
  "lasts (WriteRawTxResults txs)" "lasts (WriteRawEvents evs)" "lasts (WriteRawAttributes attrs)"
  unfolding WriteRawTxResults_def WriteRawEvents_def WriteRawAttributes_def
  by (intro lasting_base; simp add: frame_simps)+

lemma lasting_current_block: "lasts (UpsertCurrentBlock chain r)"
proof -
  have "lasts (exec (current_block_upsert chain r))" by (intro lasting_base) (simp add: frame_simps)
  then show ?thesis
    unfolding keeps_def UpsertCurrentBlock_def by (auto split: prod.splits sum.splits) (metis snd_conv)+
qed

section \<open>Blocks\<close>

text \<open>The same relation between the states of a block.\<close>

definition block_lasts :: "block_state \<Rightarrow> block_state \<Rightarrow> bool" where
  "block_lasts s t \<longleftrightarrow> across durable durable_le (bk_world s) (bk_world t)"

interpretation blocks: preorder_op block_lasts
  by unfold_locales (auto simp: block_lasts_def intro: lasting.framed.R_refl lasting.framed.R_trans)

lemma in_tx_lasts: "lasts m \<Longrightarrow> keeps block_lasts (in_tx m)"
  by (auto simp: keeps_def block_lasts_def in_tx_def split: prod.splits) (metis snd_conv)

lemma block_memory: "(\<And>s. w_db (bk_world (f s)) = w_db (bk_world s)) \<Longrightarrow> keeps block_lasts (modifyO f)"
  by (simp add: keeps_def block_lasts_def across_def)

lemmas block_base = blocks.keeps_intros in_tx_lasts block_memory

lemma dispatch_required_lasts:
  assumes "NewRouter strict AllHandlers = Inr r"
  shows "keeps block_lasts (dispatch_required r b key raw)"
  unfolding keeps_def
proof
  fix s :: block_state
  have "rt_handlers r = AllHandlers"
    using assms NewRouter_distinct [OF AllHandlers_keys, of strict] by (auto simp: registered_def)
  moreover have "list_all (\<lambda>(key, h). \<forall>b raw. lasts (h b raw)) AllHandlers"
    by (rule list.pred_mono_strong [OF AllHandlers_tombstones]) (auto intro: tombstones_last)
  ultimately have "across durable durable_le (bk_world s)
      (snd (snd (dispatch r False b key raw (bk_unknowns s, bk_world s))))"
    by (intro lasting.frame_dispatch) simp
  then show "block_lasts s (snd (dispatch_required r b key raw s))"
    by (auto simp: dispatch_required_def DispatchAtomic_def block_lasts_def Let_def split: prod.splits sum.splits option.splits)
qed

lemma refuse_event_lasts: "keeps block_lasts (refuse_event b key ev e)"
  unfolding refuse_event_def keep_error_def by (intro block_base) simp

lemma dispatchEvents_lasts:
  assumes "NewRouter strict AllHandlers = Inr r"
  shows "keeps block_lasts (dispatchEvents r b)"
proof -
  have "keeps block_lasts (dispatchOneEvent r c ev)" for c ev
    unfolding dispatchOneEvent_def
    by (auto split: prod.splits sum.splits
        intro!: refuse_event_lasts dispatch_required_lasts [OF assms] blocks.keeps_for)
  then show ?thesis
    unfolding dispatchEvents_def by (intro block_base) simp_all
qed

lemma bank_step_lasts: "keeps block_lasts (bank_step b)"
  by (auto simp: keeps_def bank_step_def block_lasts_def across_def Let_def split: prod.splits sum.splits)

lemma native_claims_lasts: "keeps block_lasts (native_claims P b)"
  unfolding keeps_def
proof
  fix s
  obtain r t where t: "in_tx (native_step_of P b) s = (r, t)" by force
  have "block_lasts s t" using keepsD [OF in_tx_lasts [OF lasting_native], of s P b] t by simp
  then show "block_lasts s (snd (native_claims P b s))"
    by (auto simp: native_claims_def t block_lasts_def split: sum.splits)
qed

lemma raw_flush_lasts: "keeps block_lasts raw_flush"
  unfolding raw_flush_def by (intro block_base lasting_raw) simp

lemma writeRawMirror_lasts: "keeps block_lasts (writeRawMirror sha b window)"
  unfolding writeRawMirror_def
  by (intro block_base lasting_raw raw_flush_lasts lasting.frame_exec; simp add: frame_simps)

lemma book_block_lasts: "keeps block_lasts (book_block b tip opts)"
  unfolding book_block_def
  by (intro block_base lasting_current_block lasting.frame_exec; simp add: frame_simps durable_block_log)

lemma applyBlockInTx_lasts:
  assumes "NewRouter strict AllHandlers = Inr (en_router E)"
  shows "keeps block_lasts (applyBlockInTx E cfg b tip opts)"
  unfolding applyBlockInTx_def
  by (intro block_base lasting_set_local lasting_lockO lasting_reconcile_boundary dispatchEvents_lasts [OF assms]
      bank_step_lasts native_claims_lasts lasting_ValidateExistingLedger lasting_Flush lasting_RecordEconomyCoverage
      lasting_project writeRawMirror_lasts book_block_lasts lasting.frame_memory) simp_all

section \<open>Committing\<close>

text \<open>Two states of the committed tables that differ by rows added to the error log only.\<close>

definition errors_added :: "error_row list \<Rightarrow> tables \<Rightarrow> tables \<Rightarrow> bool" where
  "errors_added es d d' \<longleftrightarrow>
     (\<exists>xs. d' = on_sync (\<lambda>s. s\<lparr>sy_errors := sy_errors s @ xs\<rparr>) d \<and> map snd xs = es)"

lemma errors_added_none [simp]: "errors_added [] d d"
  by (auto simp: errors_added_def on_sync_def)

lemma errors_added_append:
  "errors_added es d1 d2 \<Longrightarrow> errors_added fs d2 d3 \<Longrightarrow> errors_added (es @ fs) d1 d3"
  by (auto simp: errors_added_def on_sync_def)

lemma WriteHandlerError_added: "errors_added [error_row_of chain p] d (WriteHandlerError chain p d)"
  unfolding errors_added_def WriteHandlerError_def
  by (intro exI [of _ "[(length (sy_errors (db_sync d)), error_row_of chain p)]"]) (simp add: on_sync_def)

text \<open>The rows that reach the log are those of some of the pending errors, in their order.\<close>

lemma writePending_result:
  fixes s :: service
  shows "\<exists>ps. subseq ps pending \<and>
     errors_added (map (error_row_of chain) ps) (sx_db s) (sx_db (snd (writePendingHandlerErrors chain pending s)))"
proof (induction pending arbitrary: s)
  case Nil
  then show ?case by (auto simp: writePendingHandlerErrors_def intro: exI [of _ "[]"])
next
  case (Cons p pending)
  define t where "t = snd (pool_exec (WriteHandlerError chain p) s)"
  have run: "writePendingHandlerErrors chain (p # pending) s = writePendingHandlerErrors chain pending t"
    by (simp add: writePendingHandlerErrors_def attempt_def t_def bindO_def)
  obtain ps where ps: "subseq ps pending"
    "errors_added (map (error_row_of chain) ps) (sx_db t) (sx_db (snd (writePendingHandlerErrors chain pending t)))"
    using Cons [of t] by blast
  show ?case
  proof (cases "sx_fault s (sx_clock s)")
    case None
    then have "errors_added [error_row_of chain p] (sx_db s) (sx_db t)"
      by (simp add: t_def pool_exec_def WriteHandlerError_added)
    from errors_added_append [OF this ps(2)] ps(1) show ?thesis
      unfolding run by (intro exI [of _ "p # ps"]) simp
  next
    case (Some e)
    then have "sx_db t = sx_db s" by (simp add: t_def pool_exec_def)
    with ps show ?thesis unfolding run by (intro exI [of _ ps]) auto
  qed
qed

lemma finish_tx_Inl:
  assumes "finish_tx msg chain pending r t s = (Inl e, s')"
  shows "\<exists>ps. subseq ps pending \<and> errors_added (map (error_row_of chain) ps) (sx_db s) (sx_db s')"
proof -
  have "s' = snd (writePendingHandlerErrors chain pending (after_tx t s))"
    using assms by (auto simp: finish_tx_def Let_def split: sum.splits option.splits)
  then show ?thesis using writePending_result [of pending chain "after_tx t s"] by (simp add: after_tx_def)
qed

lemma finish_tx_Inr:
  assumes "finish_tx msg chain pending r t s = (Inr u, s')"
  shows "\<exists>x. r = Inr x" and "\<not> w_aborted (bk_world t)"
    and "\<exists>ps. subseq ps pending \<and> errors_added (map (error_row_of chain) ps) (w_db (bk_world t)) (sx_db s')"
proof -
  have s': "s' = snd (writePendingHandlerErrors chain pending ((after_tx t s)\<lparr>sx_db := w_db (bk_world t)\<rparr>))"
    and *: "(\<exists>x. r = Inr x) \<and> \<not> w_aborted (bk_world t)"
    using assms by (auto simp: finish_tx_def Let_def commit_failure_def split: sum.splits option.splits if_splits)
  from * show "\<exists>x. r = Inr x" "\<not> w_aborted (bk_world t)" by blast+
  show "\<exists>ps. subseq ps pending \<and> errors_added (map (error_row_of chain) ps) (w_db (bk_world t)) (sx_db s')"
    unfolding s' using writePending_result [of pending chain "(after_tx t s)\<lparr>sx_db := w_db (bk_world t)\<rparr>"] by simp
qed

text \<open>A handler error that is not a warning ends the dispatch.\<close>

definition warning :: "handler_error \<Rightarrow> bool" where
  "warning he \<longleftrightarrow> he_severity he = SeverityWarn"

definition only_warns :: "(block_state, 'a) op \<Rightarrow> bool" where
  "only_warns m \<longleftrightarrow> (\<forall>s x t. m s = (Inr x, t) \<longrightarrow> (\<exists>hes. bk_errors t = bk_errors s @ hes \<and> list_all warning hes))"

lemma only_warns_bind: "only_warns m \<Longrightarrow> (\<And>x. only_warns (f x)) \<Longrightarrow> only_warns (bindO m f)"
  unfolding only_warns_def bindO_Inr
proof (intro allI impI)
  fix s t y
  assume m: "\<forall>s x t. m s = (Inr x, t) \<longrightarrow> (\<exists>hes. bk_errors t = bk_errors s @ hes \<and> list_all warning hes)"
    and f: "\<And>x. \<forall>s y t. f x s = (Inr y, t) \<longrightarrow> (\<exists>hes. bk_errors t = bk_errors s @ hes \<and> list_all warning hes)"
    and "\<exists>x u. m s = (Inr x, u) \<and> f x u = (Inr y, t)"
  then obtain x u where "m s = (Inr x, u)" "f x u = (Inr y, t)" by blast
  with m f obtain hes hes' where "bk_errors u = bk_errors s @ hes" "list_all warning hes"
    "bk_errors t = bk_errors u @ hes'" "list_all warning hes'" by meson
  then show "\<exists>hes. bk_errors t = bk_errors s @ hes \<and> list_all warning hes"
    by (intro exI [of _ "hes @ hes'"]) simp
qed

lemma only_warns_none: "(\<And>s x t. m s = (Inr x, t) \<Longrightarrow> bk_errors t = bk_errors s) \<Longrightarrow> only_warns m"
  by (auto simp: only_warns_def)

lemma only_warns_basic:
  "only_warns (returnO x)" "only_warns (failO e)" "only_warns (liftO r)" "only_warns (guardO b e)"
  "only_warns (getO g)"
  "(\<And>s. bk_errors (h s) = bk_errors s) \<Longrightarrow> only_warns (modifyO h)"
  "only_warns (in_tx m)" "only_warns k \<Longrightarrow> only_warns (whenO b k)" "only_warns k' \<Longrightarrow> only_warns (wrapO msg k')"
  by (auto simp: only_warns_def in_tx_def whenO_case wrapO_Inr guardO_case split: prod.splits)

lemma only_warns_for: "(\<And>x. only_warns (f x)) \<Longrightarrow> only_warns (forO xs f)"
  by (induction xs) (simp_all add: only_warns_basic only_warns_bind)

lemmas warns_intros = only_warns_basic only_warns_bind only_warns_for

lemma dispatch_required_warns: "only_warns (dispatch_required r b key raw)"
  by (auto simp: only_warns_def dispatch_required_def warning_def Let_def
      split: prod.splits sum.splits option.splits if_splits)

lemma refuse_event_warns: "only_warns (refuse_event b key ev e)"
  by (simp add: only_warns_def refuse_event_def keep_error_def bindO_Inr)

lemma dispatchEvents_warns: "only_warns (dispatchEvents r b)"
proof -
  have "only_warns (dispatchOneEvent r c ev)" for c ev
    unfolding dispatchOneEvent_def
    by (auto split: prod.splits sum.splits intro!: refuse_event_warns dispatch_required_warns only_warns_for)
  then show ?thesis unfolding dispatchEvents_def by (intro warns_intros) simp_all
qed

lemma steps_warn: "only_warns (bank_step b)" "only_warns (native_claims P b)"
  by (auto simp: only_warns_def bank_step_def native_claims_def in_tx_def Let_def split: prod.splits sum.splits)

lemma writeRawMirror_warns: "only_warns (writeRawMirror sha b window)"
  unfolding writeRawMirror_def raw_flush_def by (intro warns_intros) simp_all

text \<open>What a successful block leaves behind.\<close>

lemma in_tx_result: "in_tx m s = (r, t) \<Longrightarrow> \<exists>w. m (bk_world s) = (r, w) \<and> t = s\<lparr>bk_world := w\<rparr>"
  by (auto simp: in_tx_def split: prod.splits)

lemma in_tx_exec: "in_tx (exec f) s = (Inr u, t) \<Longrightarrow>
   w_db (bk_world t) = f (w_db (bk_world s)) \<and> bk_errors t = bk_errors s"
  by (auto simp: in_tx_def dest!: exec_Inr split: prod.splits)

definition logged :: "block_bundle \<Rightarrow> nat \<Rightarrow> tables \<Rightarrow> bool" where
  "logged b n d \<longleftrightarrow> (\<exists>l. tbl_get (sy_block_log (db_sync d)) (bu_chain b, bu_height b) = Some l \<and>
     bl_hash l = bu_hash b \<and> bl_errors l = n \<and> bl_time l = pg_timestamp (bu_time b))"

definition cursor_at :: "block_bundle \<Rightarrow> tables \<Rightarrow> bool" where
  "cursor_at b d \<longleftrightarrow> (\<exists>c. tbl_get (sy_cursor (db_sync d)) (bu_chain b) = Some c \<and>
     cu_height c = bu_height b \<and> cu_hash c = Some (bu_hash b) \<and> cu_time c = Some (pg_timestamp (bu_time b)))"

lemma UpsertCursor_at: "cursor_at b (UpsertCursor (cursor_of b tip) d)"
  by (simp add: cursor_at_def UpsertCursor_def cursor_of_def)

lemma UpsertCursor_logged: "logged b n d \<Longrightarrow> logged b n (UpsertCursor c d)"
  by (simp add: logged_def UpsertCursor_def)

lemma WriteBlockLog_logged:
  "logged b (length (bk_errors s)) (WriteBlockLog (bu_chain b) (bu_height b) (block_log_of b s) d)"
  by (simp add: logged_def WriteBlockLog_def block_log_of_def)

lemma UpsertCurrentBlock_errors:
  "in_tx (UpsertCurrentBlock chain r) s = (x, t) \<Longrightarrow> bk_errors t = bk_errors s"
  by (auto dest!: in_tx_result)

lemma book_block_result:
  assumes "book_block b tip opts u = (Inr (), t)"
  shows "logged b (length (bk_errors t)) (w_db (bk_world t))"
    and "\<not> op_skip_cursor opts \<Longrightarrow> cursor_at b (w_db (bk_world t))"
proof -
  from assms obtain u1 u2 where
    log: "in_tx (exec (WriteBlockLog (bu_chain b) (bu_height b) (block_log_of b u1))) u1 = (Inr (), u2)"
    and cur: "whenO (\<not> op_skip_cursor opts)
       (wrapO (at_height ''sync_cursor'' (bu_height b)) (in_tx (exec (UpsertCursor (cursor_of b tip))))) u2 = (Inr (), t)"
    unfolding book_block_def by (auto simp: bindO_Inr wrapO_Inr)
  note l = in_tx_exec [OF log]
  have c: "if op_skip_cursor opts then t = u2
      else w_db (bk_world t) = UpsertCursor (cursor_of b tip) (w_db (bk_world u2)) \<and> bk_errors t = bk_errors u2"
    using cur by (auto simp: whenO_case wrapO_Inr dest: in_tx_exec)
  have "logged b (length (bk_errors u1)) (w_db (bk_world u2))"
    using l WriteBlockLog_logged by simp
  then show "logged b (length (bk_errors t)) (w_db (bk_world t))"
    using l c by (auto simp: UpsertCursor_logged split: if_splits)
  show "cursor_at b (w_db (bk_world t))" if "\<not> op_skip_cursor opts"
    using that c by (simp add: UpsertCursor_at)
qed

lemma applyBlockInTx_result:
  assumes "applyBlockInTx E cfg b tip opts s = (Inr res, t)"
  shows "logged b (length (bk_errors t)) (w_db (bk_world t))"
    and "\<not> op_skip_cursor opts \<Longrightarrow> cursor_at b (w_db (bk_world t))"
proof -
  obtain u where "book_block b tip opts u = (Inr (), t)"
    using assms unfolding applyBlockInTx_def by (auto simp: bindO_Inr)
  note booked = book_block_result [OF this]
  show "logged b (length (bk_errors t)) (w_db (bk_world t))" by (rule booked)
  show "cursor_at b (w_db (bk_world t))" if "\<not> op_skip_cursor opts" by (rule booked(2) [OF that])
qed

lemma book_block_warns: "only_warns (book_block b tip opts)"
  unfolding book_block_def by (intro warns_intros)

lemma applyBlockInTx_warns:
  assumes "applyBlockInTx E cfg b tip opts s = (Inr res, t)"
  shows "list_all warning (bk_errors t)"
proof -
  have "\<exists>m. only_warns m \<and> applyBlockInTx E cfg b tip opts
      = bindO (modifyO (\<lambda>s. s\<lparr>bk_errors := []\<rparr>)) (\<lambda>_ :: unit. m)"
    unfolding applyBlockInTx_def
    by (rule exI, rule conjI [OF _ refl])
      (intro warns_intros dispatchEvents_warns steps_warn writeRawMirror_warns book_block_warns; simp)
  then obtain m where m: "only_warns m" "applyBlockInTx E cfg b tip opts
      = bindO (modifyO (\<lambda>s. s\<lparr>bk_errors := []\<rparr>)) (\<lambda>_ :: unit. m)" by blast
  then have "m (s\<lparr>bk_errors := []\<rparr>) = (Inr res, t)" using assms by simp
  with m(1) obtain hes where "bk_errors t = bk_errors (s\<lparr>bk_errors := []\<rparr>) @ hes" "list_all warning hes"
    unfolding only_warns_def by blast
  then show ?thesis by simp
qed

section \<open>Windows\<close>

abbreviation block_log :: "block_state \<Rightarrow> (string \<times> int, block_log_row) table" where
  "block_log s \<equiv> sy_block_log (db_sync (w_db (bk_world s)))"

lemma raw_flush_log: "raw_flush s = (Inr (), t) \<Longrightarrow> block_log t = block_log s"
  unfolding raw_flush_def WriteRawEvents_def WriteRawAttributes_def
  by (auto simp: bindO_Inr wrapO_Inr dest!: in_tx_result exec_Inr split: if_splits)

lemma Recompute_log:
  assumes "in_tx (Recompute P dt height time' plan) s = (x, t)"
  shows "block_log t = block_log s"
proof -
  obtain w where w: "Recompute P dt height time' plan (bk_world s) = (x, w)" "t = s\<lparr>bk_world := w\<rparr>"
    using in_tx_result [OF assms] by blast
  have "api_blind (w_db (bk_world s)) = api_blind (w_db w)"
    using keepsD [OF projected_recompute, of "bk_world s" P dt height time' plan False] w
    by (simp add: Recompute_def across_def)
  from api_blind_fields(3) [OF this] show ?thesis by (simp add: w)
qed

lemma UpsertCurrentBlock_log:
  assumes "in_tx (UpsertCurrentBlock chain r) s = (x, t)"
  shows "block_log t = block_log s"
proof -
  obtain w where w: "UpsertCurrentBlock chain r (bk_world s) = (x, w)" "t = s\<lparr>bk_world := w\<rparr>"
    using in_tx_result [OF assms] by blast
  then have "w_db w = w_db (bk_world s) \<or> w_db w = current_block_upsert chain r (w_db (bk_world s))"
    by (auto simp: UpsertCurrentBlock_def exec_def sql_def split: prod.splits sum.splits option.splits if_splits)
  then show ?thesis by (auto simp: w current_block_upsert_def)
qed

lemma close_window_result:
  assumes "close_window E cfg a b tip v s = (Inr (), t)"
  shows "block_log t = block_log s" and "cursor_at b (w_db (bk_world t))"
proof -
  from assms obtain s1 s2 s3 s4 where
    raw: "raw_flush s = (Inr (), s1)"
    and api: "whenO (\<not> cf_bulk_defer_projections cfg) (wrapO (range_msg ''bulk api projections'' a b)
         (in_tx (Recompute (en_views E) (wi_dirty v) (bu_height b) (Some (bu_time b)) (FromDeltas (wi_deltas v))))) s1
         = (Inr (), s2)"
    and cur: "in_tx (UpsertCurrentBlock (bu_chain b) (current_block_of b tip)) s2 = (Inr (), s3)"
    and beat: "in_tx (exec (EmitCurrentBlockHeartbeat (bu_height b) (bu_time b))) s3 = (Inr (), s4)"
    and fin: "in_tx (exec (UpsertCursor (cursor_of b tip))) s4 = (Inr (), t)"
    unfolding close_window_def by (auto simp: bindO_Inr wrapO_Inr)
  have "block_log s2 = block_log s1"
    using api by (cases "cf_bulk_defer_projections cfg") (auto simp: wrapO_Inr dest: Recompute_log)
  then show "block_log t = block_log s"
    using raw_flush_log [OF raw] UpsertCurrentBlock_log [OF cur] in_tx_exec [OF beat] in_tx_exec [OF fin]
    by (simp add: UpsertCursor_def EmitCurrentBlockHeartbeat_def)
  show "cursor_at b (w_db (bk_world t))"
    using in_tx_exec [OF fin] by (simp add: UpsertCursor_at)
qed

lemma close_window_lasts: "keeps block_lasts (close_window E cfg a b tip v)"
  unfolding close_window_def Recompute_def
  by (intro block_base raw_flush_lasts projects_last projected_recompute lasting_current_block lasting.frame_exec;
      simp add: frame_simps)

lemma bulk_settings_lasts: "keeps block_lasts (bulk_settings cfg b)"
  unfolding bulk_settings_def by (intro block_base lasting_set_local)

definition pending_warning :: "pending_error \<Rightarrow> bool" where
  "pending_warning p \<longleftrightarrow> warning (pe_error p)"

lemma window_fields [simp]:
  "wi_pending (window_merge cfg res v) = wi_pending v"
  "wi_pending (window_add b hes v) = wi_pending v @ pending_of b hes"
  by (simp_all add: window_merge_def window_add_def split: option.splits)

lemma pending_of_warnings: "list_all warning hes \<Longrightarrow> list_all pending_warning (pending_of b hes)"
  by (simp add: list_all_iff pending_warning_def pending_of_def)

text \<open>Blocks that ran leave their log rows; the last one also with its hash.\<close>

lemma window_blocks_result:
  assumes "window_blocks E cfg tip bs v s = (Inr (), v', t)"
    and "NewRouter strict AllHandlers = Inr (en_router E)"
  shows "block_lasts s t"
    and "\<forall>b \<in> set bs. tbl_get (block_log t) (bu_chain b, bu_height b) \<noteq> None"
    and "bs \<noteq> [] \<Longrightarrow> \<exists>n. logged (last bs) n (w_db (bk_world t))"
    and "list_all pending_warning (wi_pending v) \<Longrightarrow> list_all pending_warning (wi_pending v')"
proof -
  note lasts = applyBlockInTx_lasts [OF assms(2)]
  have "block_lasts s t \<and> (\<forall>b \<in> set bs. tbl_get (block_log t) (bu_chain b, bu_height b) \<noteq> None) \<and>
      (bs \<noteq> [] \<longrightarrow> (\<exists>n. logged (last bs) n (w_db (bk_world t)))) \<and>
      (list_all pending_warning (wi_pending v) \<longrightarrow> list_all pending_warning (wi_pending v'))"
    using assms(1)
  proof (induction bs arbitrary: v s)
    case Nil
    then show ?case by (simp add: blocks.R_refl)
  next
    case (Cons b bs)
    obtain res u where ran: "applyBlockInTx E cfg b tip (bulk_opts cfg) s = (Inr res, u)"
      and rest: "window_blocks E cfg tip bs (window_merge cfg res (window_add b (bk_errors u) v)) u = (Inr (), v', t)"
      using Cons.prems by (auto simp: Let_def split: prod.splits sum.splits)
    note IH = Cons.IH [OF rest]
    have su: "block_lasts s u" using keepsD [OF lasts, of s] ran by (metis snd_conv)
    have logged: "logged b (length (bk_errors u)) (w_db (bk_world u))" by (rule applyBlockInTx_result [OF ran])
    have "tbl_get (block_log t) (bu_chain b, bu_height b) \<noteq> None"
      using IH logged by (auto simp: block_lasts_def across_def durable_le_def durable_def log_le_def logged_def)
    moreover have "list_all warning (bk_errors u)" by (rule applyBlockInTx_warns [OF ran])
    moreover have "\<exists>n. logged (last (b # bs)) n (w_db (bk_world t))"
    proof (cases "bs = []")
      case True
      with rest logged show ?thesis by auto
    qed (use IH in simp)
    ultimately show ?case
      using IH blocks.R_trans [OF su] pending_of_warnings by auto
  qed
  then show "block_lasts s t" "\<forall>b \<in> set bs. tbl_get (block_log t) (bu_chain b, bu_height b) \<noteq> None"
    "bs \<noteq> [] \<Longrightarrow> \<exists>n. logged (last bs) n (w_db (bk_world t))"
    "list_all pending_warning (wi_pending v) \<Longrightarrow> list_all pending_warning (wi_pending v')" by blast+
qed

lemma run_window_result:
  assumes "run_window E cfg bs tip s = (Inr (), v, t)" "bs \<noteq> []"
    and "NewRouter strict AllHandlers = Inr (en_router E)"
  shows "block_lasts s t"
    and "\<forall>b \<in> set bs. tbl_get (block_log t) (bu_chain b, bu_height b) \<noteq> None"
    and "\<exists>n. logged (last bs) n (w_db (bk_world t))" "cursor_at (last bs) (w_db (bk_world t))"
    and "list_all pending_warning (wi_pending v)"
proof -
  obtain s1 s2 where s1: "bulk_settings cfg (hd bs) s = (Inr (), s1)"
    and s2: "window_blocks E cfg tip bs empty_window s1 = (Inr (), v, s2)"
    and s3: "close_window E cfg (hd bs) (last bs) tip v s2 = (Inr (), t)"
    using assms(1) unfolding run_window_def by (auto split: prod.splits sum.splits)
  note blocks' = window_blocks_result [OF s2 assms(3)]
  note closed = close_window_result [OF s3]
  have "block_lasts s s1" using keepsD [OF bulk_settings_lasts, of s cfg "hd bs"] s1 by simp
  moreover have "block_lasts s2 t"
    using keepsD [OF close_window_lasts, of s2 E cfg "hd bs" "last bs" tip v] s3 by simp
  ultimately show "block_lasts s t" using blocks'(1) blocks.R_trans by blast
  show "\<forall>b \<in> set bs. tbl_get (block_log t) (bu_chain b, bu_height b) \<noteq> None"
    using blocks'(2) closed(1) by simp
  show "\<exists>n. logged (last bs) n (w_db (bk_world t))"
    using blocks'(3) [OF assms(2)] closed(1) by (simp add: logged_def)
  show "cursor_at (last bs) (w_db (bk_world t))" by (rule closed(2))
  show "list_all pending_warning (wi_pending v)" using blocks'(4) by (simp add: empty_window_def)
qed

section \<open>The service\<close>

lemma applyBlock_Inr:
  assumes "applyBlock E cfg b tip s = (Inr (), s')"
  obtains res t where "applyBlockInTx E cfg b tip no_opts (fresh_block s) = (Inr res, t)"
    "\<not> w_aborted (bk_world t)"
    "\<exists>ps. subseq ps (pending_of b (bk_errors t)) \<and>
       errors_added (map (error_row_of (bu_chain b)) ps) (w_db (bk_world t)) (sx_db s')"
proof -
  obtain r t where run: "applyBlockInTx E cfg b tip no_opts (fresh_block s) = (r, t)" by force
  then have fin: "finish_tx (at_height ''commit'' (bu_height b)) (bu_chain b) (pending_of b (bk_errors t)) r t s
      = (Inr (), s')"
    using assms by (simp add: applyBlock_def begin_failed_def split: option.splits)
  from finish_tx_Inr [OF fin] that run show thesis by blast
qed

lemma applyBulkWindow_Inr:
  assumes "applyBulkWindow E cfg bs tip s = (Inr (), s')" "bs \<noteq> []"
  obtains v t where "run_window E cfg bs tip (fresh_block s) = (Inr (), v, t)"
    "\<exists>ps. subseq ps (wi_pending v) \<and>
       errors_added (map (error_row_of (bu_chain (hd bs))) ps) (w_db (bk_world t)) (sx_db s')"
proof -
  obtain r v t where run: "run_window E cfg bs tip (fresh_block s) = (r, v, t)" by (metis prod_cases3)
  then obtain s1 where fin: "finish_tx (range_msg ''bulk commit'' (hd bs) (last bs)) (bu_chain (hd bs)) (wi_pending v) r t s
      = (Inr (), s1)" and s': "sx_db s' = sx_db s1"
    using assms by (auto simp: applyBulkWindow_def begin_failed_def mark_stale_def
        split: option.splits prod.splits sum.splits if_splits)
  from finish_tx_Inr [OF fin] that run show thesis unfolding s' by fastforce
qed

lemma runReconcile_Inr:
  assumes "runReconcileCurrentBlock E cfg b tip s = (Inr (), s')"
  obtains res t where "applyBlockInTx E cfg b tip (no_opts\<lparr>op_reconcile := True\<rparr>) (fresh_block s) = (Inr res, t)"
    "\<exists>ps. subseq ps (pending_of b (bk_errors t)) \<and>
       errors_added (map (error_row_of (bu_chain b)) ps) (w_db (bk_world t)) (sx_db s')"
proof -
  obtain r t where run: "applyBlockInTx E cfg b tip (no_opts\<lparr>op_reconcile := True\<rparr>) (fresh_block s) = (r, t)" by force
  then have fin: "finish_tx [] (bu_chain b) (pending_of b (bk_errors t)) r t s = (Inr (), s')"
    using assms by (simp add: runReconcileCurrentBlock_def begin_failed_def split: option.splits)
  from finish_tx_Inr [OF fin] that run show thesis by blast
qed

text \<open>Any of the three, whatever its outcome.\<close>

inductive service_step :: "parts \<Rightarrow> string \<Rightarrow> service \<Rightarrow> service \<Rightarrow> bool" where
  step_block: "bu_chain b = chain \<Longrightarrow> applyBlock E cfg b tip s = (r, s') \<Longrightarrow> service_step E chain s s'"
| step_window: "list_all (\<lambda>b. bu_chain b = chain) bs \<Longrightarrow> applyBulkWindow E cfg bs tip s = (r, s') \<Longrightarrow>
     service_step E chain s s'"
| step_reconcile: "bu_chain b = chain \<Longrightarrow> runReconcileCurrentBlock E cfg b tip s = (r, s') \<Longrightarrow>
     service_step E chain s s'"

inductive service_steps :: "parts \<Rightarrow> string \<Rightarrow> service \<Rightarrow> service \<Rightarrow> bool" where
  steps_none: "service_steps E chain s s"
| steps_more: "service_steps E chain s s1 \<Longrightarrow> service_step E chain s1 s2 \<Longrightarrow> service_steps E chain s s2"

lemma failure_adds_errors:
  "applyBlock E cfg b tip s = (Inl e, s') \<Longrightarrow> \<exists>es. errors_added es (sx_db s) (sx_db s')"
  "applyBulkWindow E cfg bs tip s = (Inl e, s') \<Longrightarrow> \<exists>es. errors_added es (sx_db s) (sx_db s')"
  "runReconcileCurrentBlock E cfg b tip s = (Inl e, s') \<Longrightarrow> \<exists>es. errors_added es (sx_db s) (sx_db s')"
  by (auto simp: applyBlock_def applyBulkWindow_def runReconcileCurrentBlock_def begin_failed_def mark_stale_def
      split: option.splits prod.splits sum.splits if_splits dest!: finish_tx_Inl intro: exI [of _ "[]"])

text \<open>What survives any step: the structs, the vaults and the block log.\<close>

definition service_le :: "tables \<Rightarrow> tables \<Rightarrow> bool" where
  "service_le d d' \<longleftrightarrow> structs_le (db_struct d) (db_struct d') \<and> vaults_le (db_vault d) (db_vault d') \<and>
     log_le (sy_block_log (db_sync d)) (sy_block_log (db_sync d'))"

lemma service_le_trans: "service_le d1 d2 \<Longrightarrow> service_le d2 d3 \<Longrightarrow> service_le d1 d3"
  unfolding service_le_def
  by (elim conjE, intro conjI, erule (1) structs_le_trans, erule (1) vaults_le_trans, erule (1) log_le_trans)

lemma errors_added_le: "errors_added es d d' \<Longrightarrow> service_le d d'"
  by (auto simp: errors_added_def service_le_def on_sync_def)

lemma errors_added_same:
  "errors_added es d d' \<Longrightarrow> sy_block_log (db_sync d') = sy_block_log (db_sync d) \<and>
     sy_cursor (db_sync d') = sy_cursor (db_sync d) \<and>
     map snd (sy_errors (db_sync d')) = map snd (sy_errors (db_sync d)) @ es"
  by (auto simp: errors_added_def on_sync_def)

lemma fresh_block_db [simp]: "w_db (bk_world (fresh_block s)) = sx_db s"
  by (simp add: fresh_block_def)

lemma block_lasts_le: "block_lasts (fresh_block s) t \<Longrightarrow> service_le (sx_db s) (w_db (bk_world t))"
  by (simp add: block_lasts_def across_def durable_le_def durable_def service_le_def)

lemma block_lasts_errors:
  "block_lasts (fresh_block s) t \<Longrightarrow> sy_errors (db_sync (w_db (bk_world t))) = sy_errors (db_sync (sx_db s))"
  by (simp add: block_lasts_def across_def durable_le_def durable_def)

lemma service_step_le:
  assumes "service_step E chain s s'" "NewRouter strict AllHandlers = Inr (en_router E)"
  shows "service_le (sx_db s) (sx_db s')"
proof -
  note lasts = keepsD [OF applyBlockInTx_lasts [OF assms(2)]]
  note join = service_le_trans [OF block_lasts_le errors_added_le]
  from assms(1) show ?thesis
  proof cases
    case (step_block b cfg tip r)
    show ?thesis
    proof (cases r)
      case (Inl e)
      with failure_adds_errors(1) step_block show ?thesis by (metis errors_added_le)
    next
      case (Inr u)
      with step_block(2) show ?thesis
        by (auto elim!: applyBlock_Inr) (metis join lasts snd_conv)
    qed
  next
    case (step_window bs cfg tip r)
    show ?thesis
    proof (cases r)
      case (Inl e)
      with failure_adds_errors(2) step_window show ?thesis by (metis errors_added_le)
    next
      case (Inr u)
      show ?thesis
      proof (cases "bs = []")
        case True
        with step_window show ?thesis by (simp add: applyBulkWindow_def service_le_def)
      next
        case False
        from Inr step_window(2) have "applyBulkWindow E cfg bs tip s = (Inr (), s')" by simp
        then obtain v t where run: "run_window E cfg bs tip (fresh_block s) = (Inr (), v, t)"
          and "\<exists>es. errors_added es (w_db (bk_world t)) (sx_db s')"
          by (rule applyBulkWindow_Inr [OF _ False]) blast
        with join run_window_result(1) [OF run False assms(2)] show ?thesis by blast
      qed
    qed
  next
    case (step_reconcile b cfg tip r)
    show ?thesis
    proof (cases r)
      case (Inl e)
      with failure_adds_errors(3) step_reconcile show ?thesis by (metis errors_added_le)
    next
      case (Inr u)
      with step_reconcile(2) show ?thesis
        by (auto elim!: runReconcile_Inr) (metis join lasts snd_conv)
    qed
  qed
qed

lemma service_steps_le:
  assumes "service_steps E chain s s'" "NewRouter strict AllHandlers = Inr (en_router E)"
  shows "service_le (sx_db s) (sx_db s')"
  using assms
proof (induction rule: service_steps.induct)
  case (steps_none E chain s)
  then show ?case by (simp add: service_le_def)
next
  case (steps_more E chain s s1 s2)
  then show ?case using service_step_le [OF steps_more(2)] service_le_trans by blast
qed

text \<open>C1: What a handler promises once holds for the whole service.  Over any sequence of blocks, windows
  and reconciliations, of any contents, succeeding or failing at any statement, with the router
  of all registered handlers: a destroyed struct stays destroyed with its type and creator, a
  vault keeps its address and account number, and no block disappears from the block log.\<close>

theorem service_never_revives:
  assumes "service_steps E chain s s'" "NewRouter strict AllHandlers = Inr (en_router E)"
  shows "(case tbl_get (db_struct (sx_db s)) i of
        None \<Rightarrow> True
      | Some x \<Rightarrow> (case tbl_get (db_struct (sx_db s')) i of
            None \<Rightarrow> False
          | Some y \<Rightarrow> st_type y = st_type x \<and> st_creator y = st_creator x \<and>
              (if st_is_destroyed x then st_is_destroyed y else True))) \<and>
     (case tbl_get (db_vault (sx_db s)) j of
        None \<Rightarrow> True
      | Some x \<Rightarrow> (case tbl_get (db_vault (sx_db s')) j of
            None \<Rightarrow> False
          | Some y \<Rightarrow> va_address y = va_address x \<and> va_account_number y = va_account_number x)) \<and>
     set (map fst (sy_block_log (db_sync (sx_db s)))) \<subseteq> set (map fst (sy_block_log (db_sync (sx_db s'))))"
    (is "?structs \<and> ?vaults \<and> ?log")
proof -
  have le: "structs_le (db_struct (sx_db s)) (db_struct (sx_db s'))" "vaults_le (db_vault (sx_db s)) (db_vault (sx_db s'))"
    "log_le (sy_block_log (db_sync (sx_db s))) (sy_block_log (db_sync (sx_db s')))"
    using service_steps_le [OF assms] by (simp_all add: service_le_def)
  have ?structs using le(1) unfolding structs_le_def by (fastforce split: option.splits)
  moreover have ?vaults using le(2) unfolding vaults_le_def by (fastforce split: option.splits)
  moreover have ?log using le(3) by (force simp: log_le_def tbl_get_def map_of_eq_None_iff)
  ultimately show ?thesis by blast
qed

section \<open>The cursor\<close>

text \<open>The cursor of a chain names a block of the log, with its hash.\<close>

definition cursor_logged :: "string \<Rightarrow> tables \<Rightarrow> bool" where
  "cursor_logged chain d \<longleftrightarrow>
     (case tbl_get (sy_cursor (db_sync d)) chain of
        None \<Rightarrow> True
      | Some c \<Rightarrow> (case tbl_get (sy_block_log (db_sync d)) (chain, cu_height c) of
            None \<Rightarrow> False
          | Some l \<Rightarrow> cu_hash c = Some (bl_hash l)))"

lemma cursor_logged_errors:
  assumes "errors_added es d d'"
  shows "cursor_logged chain d' = cursor_logged chain d"
proof -
  have log: "sy_block_log (db_sync d') = sy_block_log (db_sync d)" "sy_cursor (db_sync d') = sy_cursor (db_sync d)"
    using errors_added_same [OF assms] by simp_all
  show ?thesis unfolding cursor_logged_def log ..
qed

lemma failure_keeps_cursor:
  "applyBlock E cfg b tip s = (Inl e, s') \<Longrightarrow> cursor_logged chain (sx_db s') = cursor_logged chain (sx_db s)"
  "applyBulkWindow E cfg bs tip s = (Inl e, s') \<Longrightarrow> cursor_logged chain (sx_db s') = cursor_logged chain (sx_db s)"
  "runReconcileCurrentBlock E cfg b tip s = (Inl e, s') \<Longrightarrow> cursor_logged chain (sx_db s') = cursor_logged chain (sx_db s)"
  by (meson failure_adds_errors cursor_logged_errors)+

lemma cursor_loggedI: "cursor_at b d \<Longrightarrow> logged b n d \<Longrightarrow> cursor_logged (bu_chain b) d"
  by (auto simp: cursor_at_def logged_def cursor_logged_def)

lemma cursor_logged_block:
  assumes "applyBlockInTx E cfg b tip opts s = (Inr res, t)" "\<not> op_skip_cursor opts"
  shows "cursor_logged (bu_chain b) (w_db (bk_world t))"
  by (rule cursor_loggedI [OF applyBlockInTx_result(2) [OF assms] applyBlockInTx_result(1) [OF assms(1)]])

lemma service_step_cursor:
  assumes "service_step E chain s s'" "NewRouter strict AllHandlers = Inr (en_router E)"
    and "cursor_logged chain (sx_db s)"
  shows "cursor_logged chain (sx_db s')"
  using assms(1)
proof cases
  case (step_block b cfg tip r)
  show ?thesis
  proof (cases r)
    case (Inl e)
    with step_block(2) assms(3) show ?thesis by (simp add: failure_keeps_cursor)
  next
    case (Inr u)
    with step_block(2) have "applyBlock E cfg b tip s = (Inr (), s')" by simp
    then show ?thesis
      by (rule applyBlock_Inr)
        (use step_block(1) cursor_logged_block [of E cfg b tip no_opts] in
          \<open>auto simp: no_opts_def dest: cursor_logged_errors\<close>)
  qed
next
  case (step_window bs cfg tip r)
  show ?thesis
  proof (cases r)
    case (Inl e)
    with step_window(2) assms(3) show ?thesis by (simp add: failure_keeps_cursor)
  next
    case (Inr u)
    show ?thesis
    proof (cases "bs = []")
      case True
      with step_window assms(3) show ?thesis by (simp add: applyBulkWindow_def)
    next
      case False
      then have chain: "bu_chain (last bs) = chain" using step_window(1) by (simp add: list_all_iff)
      from Inr step_window(2) have "applyBulkWindow E cfg bs tip s = (Inr (), s')" by simp
      then obtain v t es where run: "run_window E cfg bs tip (fresh_block s) = (Inr (), v, t)"
        and added: "errors_added es (w_db (bk_world t)) (sx_db s')"
        by (rule applyBulkWindow_Inr [OF _ False]) blast
      note ran = run_window_result [OF run False assms(2)]
      obtain n where "logged (last bs) n (w_db (bk_world t))" using ran(3) by blast
      from cursor_loggedI [OF ran(4) this] show ?thesis
        using cursor_logged_errors [OF added] chain by simp
    qed
  qed
next
  case (step_reconcile b cfg tip r)
  show ?thesis
  proof (cases r)
    case (Inl e)
    with step_reconcile(2) assms(3) show ?thesis by (simp add: failure_keeps_cursor)
  next
    case (Inr u)
    with step_reconcile(2) have "runReconcileCurrentBlock E cfg b tip s = (Inr (), s')" by simp
    then show ?thesis
      by (rule runReconcile_Inr)
        (use step_reconcile(1) cursor_logged_block [of E cfg b tip "no_opts\<lparr>op_reconcile := True\<rparr>"] in
          \<open>auto simp: no_opts_def dest: cursor_logged_errors\<close>)
  qed
qed

text \<open>C2: The cursor always names a block that was really written.  Over any sequence of blocks, windows and
  reconciliations of one chain, whatever fails, the height in the cursor has a row in the
  block log and the cursor carries that row's hash: the invariant that resuming and reorg
  detection rest on.\<close>

theorem cursor_names_logged_block:
  assumes "service_steps E chain s s'" "NewRouter strict AllHandlers = Inr (en_router E)"
    and "cursor_logged chain (sx_db s)"
  shows "cursor_logged chain (sx_db s')"
  using assms
proof (induction rule: service_steps.induct)
  case (steps_more E chain s s1 s2)
  then show ?case using service_step_cursor by blast
qed

text \<open>C3: A failed block leaves nothing but its handler errors.  When applying a block fails, at whatever
  statement, every table of the database is as it was, except that rows were appended to the
  error log; those rows come from the errors the block collected, in their order.\<close>

theorem failed_block_leaves_errors_only:
  assumes "applyBlock E cfg b tip s = (Inl e, s')"
  shows "\<exists>es. errors_added es (sx_db s) (sx_db s') \<and>
     subseq es (map (error_row_of (bu_chain b))
       (pending_of b (bk_errors (snd (applyBlockInTx E cfg b tip no_opts (fresh_block s))))))"
proof (cases "sx_fault s (sx_clock s)")
  case (Some f)
  with assms have "sx_db s' = sx_db s" by (auto simp: applyBlock_def begin_failed_def)
  then show ?thesis by (intro exI [of _ "[]"]) simp
next
  case None
  obtain r t where run: "applyBlockInTx E cfg b tip no_opts (fresh_block s) = (r, t)" by force
  with None assms have "finish_tx (at_height ''commit'' (bu_height b)) (bu_chain b) (pending_of b (bk_errors t)) r t s
      = (Inl e, s')" by (simp add: applyBlock_def begin_failed_def)
  from finish_tx_Inl [OF this] run show ?thesis by (auto intro: subseq_map)
qed

text \<open>C4: A committed block carries warnings only.  After a block is committed, every row it added to the error
  log is a warning at its height, there are no more of them than its block log row counts,
  and that row and the cursor carry the block's hash.\<close>

theorem committed_block_carries_warnings:
  assumes "applyBlock E cfg b tip s = (Inr (), s')" "NewRouter strict AllHandlers = Inr (en_router E)"
  shows "\<exists>es l. map snd (sy_errors (db_sync (sx_db s'))) = map snd (sy_errors (db_sync (sx_db s))) @ es \<and>
     list_all (\<lambda>r. er_severity r = Some ''warn'' \<and> er_height r = bu_height b \<and> er_chain r = bu_chain b) es \<and>
     tbl_get (sy_block_log (db_sync (sx_db s'))) (bu_chain b, bu_height b) = Some l \<and>
     bl_hash l = bu_hash b \<and> length es \<le> bl_errors l \<and> cursor_at b (sx_db s')"
proof -
  from assms(1) obtain res t ps where run: "applyBlockInTx E cfg b tip no_opts (fresh_block s) = (Inr res, t)"
    and ps: "subseq ps (pending_of b (bk_errors t))"
      "errors_added (map (error_row_of (bu_chain b)) ps) (w_db (bk_world t)) (sx_db s')"
    by (rule applyBlock_Inr) blast
  note same = errors_added_same [OF ps(2)]
  have lasts: "block_lasts (fresh_block s) t"
    using keepsD [OF applyBlockInTx_lasts [OF assms(2)], of "fresh_block s" cfg b tip no_opts] run by simp
  have "list_all warning (bk_errors t)" by (rule applyBlockInTx_warns [OF run])
  moreover have "set ps \<subseteq> set (pending_of b (bk_errors t))" using list_emb_set [OF ps(1)] by blast
  ultimately have rows: "list_all (\<lambda>r. er_severity r = Some ''warn'' \<and> er_height r = bu_height b \<and> er_chain r = bu_chain b)
      (map (error_row_of (bu_chain b)) ps)"
    by (auto simp: list_all_iff error_row_of_def Let_def pending_of_def warning_def)
  have "length ps \<le> length (bk_errors t)"
    using list_emb_length [OF ps(1)] by (simp add: pending_of_def)
  moreover obtain l where "tbl_get (sy_block_log (db_sync (w_db (bk_world t)))) (bu_chain b, bu_height b) = Some l"
    "bl_hash l = bu_hash b" "bl_errors l = length (bk_errors t)"
    using applyBlockInTx_result(1) [OF run] by (auto simp: logged_def)
  moreover have "cursor_at b (w_db (bk_world t))"
    by (rule applyBlockInTx_result(2) [OF run]) (simp add: no_opts_def)
  ultimately show ?thesis
    using same rows block_lasts_errors [OF lasts]
    by (intro exI [of _ "map (error_row_of (bu_chain b)) ps"] exI [of _ l]) (simp add: cursor_at_def)
qed

section \<open>Examples\<close>

definition no_views :: projections where
  "no_views =
     \<lparr>pj_owners = (\<lambda>d. []), pj_claims = (\<lambda>d as. []), pj_address_expected = (\<lambda>d as. []),
      pj_expected = (\<lambda>d. []), pj_work = (\<lambda>full d. []), pj_boundary = (\<lambda>d. None),
      pj_ratio = (\<lambda>b. None), pj_guild_meta = (\<lambda>g. None)\<rparr>"

definition parts_with :: "router \<Rightarrow> parts" where
  "parts_with r = \<lparr>en_router = r, en_views = no_views, en_sha256 = (\<lambda>s. s)\<rparr>"

definition example_parts :: parts where
  "example_parts = parts_with (case NewRouter False AllHandlers of
     Inr r \<Rightarrow> r | Inl e \<Rightarrow> \<lparr>rt_handlers = [], rt_nested = [], rt_strict = False\<rparr>)"

definition example_config :: config where
  "example_config = flag_defaults (\<lambda>_. [])"

definition example_bundle :: "event list \<Rightarrow> block_bundle" where
  "example_bundle evs =
     \<lparr>bu_height = 7, bu_chain = ''c'', bu_time = 5000, bu_hash = ''AB'', bu_proposer = ''p'',
      bu_raw_txs = [], bu_txs = [], bu_finalize = evs\<rparr>"

definition example_service :: service where
  "example_service =
     \<lparr>sx_db = empty_tables, sx_unknowns = no_unknowns, sx_stale = False, sx_clock = 0, sx_fault = (\<lambda>_. None)\<rparr>"

lemma example_router: "NewRouter False AllHandlers = Inr (en_router example_parts)"
proof -
  obtain r where "NewRouter False AllHandlers = Inr r"
    using NewRouter_distinct [OF AllHandlers_keys, of False] by blast
  then show ?thesis by (simp add: example_parts_def parts_with_def)
qed

lemma parts_of_router: "parts_with (en_router example_parts) = example_parts"
  by (simp add: example_parts_def parts_with_def)

text \<open>The same service over a connection whose third statement fails.\<close>

definition failing_service :: service where
  "failing_service = example_service\<lparr>sx_fault := (\<lambda>n. if n = 2 then Some (errorf ''connection reset'') else None)\<rparr>"

lemma example_blocks:
  "fst (applyBlock (parts_with r) example_config (example_bundle []) 9 example_service) = Inr ()"
  "isl (fst (applyBlock (parts_with r) example_config (example_bundle []) 9 failing_service))"
  by code_simp+

lemma example_steps:
  "service_steps example_parts ''c'' example_service
     (snd (applyBlock example_parts example_config (example_bundle []) 9 example_service))"
  by (rule steps_more [OF steps_none step_block [OF _ prod.collapse [symmetric]]]) (simp add: example_bundle_def)

abbreviation example_after :: service where
  "example_after \<equiv> snd (applyBlock example_parts example_config (example_bundle []) 9 example_service)"

theorem service_never_revives_witness:
  "set (map fst (sy_block_log (db_sync (sx_db example_service))))
     \<subseteq> set (map fst (sy_block_log (db_sync (sx_db example_after))))"
  using service_never_revives [OF example_steps example_router] by blast

theorem cursor_names_logged_block_witness: "cursor_logged ''c'' (sx_db example_after)"
  by (rule cursor_names_logged_block [OF example_steps example_router])
    (simp add: cursor_logged_def example_service_def empty_tables_def empty_sync_def tbl_get_def)

theorem failed_block_leaves_errors_only_witness:
  "\<exists>es. errors_added es (sx_db failing_service)
     (sx_db (snd (applyBlock example_parts example_config (example_bundle []) 9 failing_service)))"
proof -
  let ?run = "applyBlock example_parts example_config (example_bundle []) 9 failing_service"
  obtain e where "fst ?run = Inl e"
    using example_blocks(2) [of "en_router example_parts", unfolded parts_of_router] by (cases "fst ?run") auto
  then have "?run = (Inl e, snd ?run)" by (simp add: prod_eq_iff)
  from failed_block_leaves_errors_only [OF this] show ?thesis by blast
qed

theorem committed_block_carries_warnings_witness: "cursor_at (example_bundle []) (sx_db example_after)"
proof -
  have "applyBlock example_parts example_config (example_bundle []) 9 example_service = (Inr (), example_after)"
    using example_blocks(1) [of "en_router example_parts", unfolded parts_of_router] by (simp add: prod_eq_iff)
  from committed_block_carries_warnings [OF this example_router] show ?thesis by blast
qed

end
