(* ===== verification/Syncer.thy ===== *)
theory Syncer
  imports Block
begin

text \<open>
  \<open>internal/sync/syncer.go\<close> and \<open>retry.go\<close>: the ingestion loop around the blocks, and
  \<open>readmodel.Backfill\<close>.

  The world outside an iteration of \<open>Run\<close> is its \<open>inputs\<close>: the answer of \<open>/status\<close>, the
  fetched blocks in the order in which they arrive, and whether a sleep ends by
  cancellation.  A prefetched window has the same start, end and mode as the one planned or
  is discarded, so all that remains of the prefetch is that the tip stored with the window
  may be an older one (\<open>it_window_tip\<close>).  Times, rates and log lines are not modelled; what a
  log line resets is.
\<close>

section \<open>Retry\<close>

definition first_errno :: "goerror \<Rightarrow> string option" where
  "first_errno e = (case filter (\<lambda>x. case x of SysErrno n \<Rightarrow> True | _ \<Rightarrow> False) (err_is e) of
     SysErrno n # xs \<Rightarrow> Some n | _ \<Rightarrow> None)"

definition first_pg_code :: "goerror \<Rightarrow> string option" where
  "first_pg_code e = (case filter (\<lambda>x. case x of PgError c \<Rightarrow> True | _ \<Rightarrow> False) (err_is e) of
     PgError c # xs \<Rightarrow> Some c | _ \<Rightarrow> None)"

definition first_net_timeout :: "goerror \<Rightarrow> bool" where
  "first_net_timeout e = (case filter (\<lambda>x. case x of NetErr b \<Rightarrow> True | _ \<Rightarrow> False) (err_is e) of
     NetErr b # xs \<Rightarrow> b | _ \<Rightarrow> False)"

definition transient_errnos :: "string list" where
  "transient_errnos =
     [''ECONNREFUSED'', ''ECONNRESET'', ''ENETUNREACH'', ''EHOSTUNREACH'', ''ETIMEDOUT'', ''EPIPE'']"

definition transient_texts :: "string list" where
  "transient_texts =
     [''connection refused'', ''connection reset'', ''broken pipe'', ''no route to host'',
      ''i/o timeout'', ''unexpected EOF'', ''EOF'']"

definition isTransientInfraErr :: "goerror \<Rightarrow> bool" where
  "isTransientInfraErr e \<longleftrightarrow>
     \<not> errors_Is e ErrCanceled \<and> \<not> errors_Is e ErrDeadlineExceeded \<and>
     ((case first_errno e of None \<Rightarrow> False | Some n \<Rightarrow> n \<in> set transient_errnos) \<or>
      first_net_timeout e \<or> errors_Is e PgConnectError \<or>
      (case first_pg_code e of None \<Rightarrow> False | Some c \<Rightarrow> has_prefix c ''08'' \<or> has_prefix c ''57'') \<or>
      list_ex (contains (err_text e)) transient_texts)"

text \<open>In nanoseconds.\<close>

definition transientBackoffMin :: int where "transientBackoffMin = 1000000000"
definition transientBackoffMax :: int where "transientBackoffMax = 30 * 1000000000"

definition transientBackoff_Next :: "int \<Rightarrow> int" where
  "transientBackoff_Next delay =
     (if delay \<le> 0 then transientBackoffMin
      else if transientBackoffMax < delay * 2 then transientBackoffMax
      else delay * 2)"

definition transientBackoff_Reset :: "int \<Rightarrow> int" where
  "transientBackoff_Reset delay = 0"

section \<open>Single statements and transactions of the service\<close>

definition pool_query :: "(tables \<Rightarrow> 'a) \<Rightarrow> (service, 'a) op" where
  "pool_query g s =
     (case sx_fault s (sx_clock s) of
        Some e \<Rightarrow> (Inl e, s\<lparr>sx_clock := Suc (sx_clock s)\<rparr>)
      | None \<Rightarrow> (Inr (g (sx_db s)), s\<lparr>sx_clock := Suc (sx_clock s)\<rparr>))"

definition pool_tx :: "string \<Rightarrow> string \<Rightarrow> (world, 'a) op \<Rightarrow> (service, unit) op" where
  "pool_tx begin_msg commit_msg m =
     begin_failed begin_msg (\<lambda>s. case in_tx m (fresh_block s) of
       (r, t) \<Rightarrow> finish_tx commit_msg [] [] r t s)"

definition Backfill :: "projections \<Rightarrow> int \<Rightarrow> int option \<Rightarrow> (service, unit) op" where
  "Backfill P height time' = pool_tx ''begin: '' ''commit: '' (BackfillInTx P height time')"

section \<open>Where to start\<close>

definition ResolveStart :: "string \<Rightarrow> int \<Rightarrow> int \<Rightarrow> (service, int) op" where
  "ResolveStart chain override earliest =
     (if 0 < override then returnO override
      else bindO (pool_query (ReadCursor chain)) (\<lambda>c.
        if 0 < c_height c then returnO (if c_height c + 1 < earliest then earliest else c_height c + 1)
        else returnO (if 0 < earliest then earliest else 1)))"

definition logged_height :: "string \<Rightarrow> tables \<Rightarrow> int" where
  "logged_height chain d =
     (let hs = map (\<lambda>((c, h), r). h) (filter (\<lambda>((c, h), r). c = chain) (sy_block_log (db_sync d))) in
      if hs = [] then 0 else Max (set hs))"

definition other_cursor :: "string \<Rightarrow> tables \<Rightarrow> (string \<times> int) option" where
  "other_cursor chain d =
     (case sort_key (\<lambda>(c, r). - cu_height r)
        (filter (\<lambda>(c, r). c \<noteq> chain \<and> 0 < cu_height r) (sy_cursor (db_sync d))) of
        [] \<Rightarrow> None
      | (c, r) # rest \<Rightarrow> Some (c, cu_height r))"

definition guard_decision ::
  "string \<Rightarrow> int \<Rightarrow> bool \<Rightarrow> cursor \<Rightarrow> int \<Rightarrow> (string \<times> int) option \<Rightarrow> (int \<times> string) res" where
  "guard_decision chain start allowReplay c logged other =
     (let otherChain = (case other of None \<Rightarrow> [] | Some p \<Rightarrow> fst p);
          otherHeight = (case other of None \<Rightarrow> 0 | Some p \<Rightarrow> snd p);
          indexed = max (c_height c) (max logged otherHeight) in
      if indexed < start then Inr (start, [])
      else if allowReplay then
        Inr (start, ''WARN: SYNC_ALLOW_REPLAY is set: re-ingesting from height '' @ dec_int start
          @ '' over state indexed up to '' @ dec_int indexed @ ''.'')
      else if otherChain \<noteq> [] then
        Inl (errorf (''sync_cursor holds chain_id='' @ otherChain @ '' at height '' @ dec_int otherHeight
          @ '' but the node reports chain_id='' @ chain))
      else if c_height c < logged then
        Inl (errorf (''sync_cursor for '' @ chain @ '' is at height '' @ dec_int (c_height c)
          @ '' but block_log reaches '' @ dec_int logged))
      else Inr (c_height c + 1, ''WARN: start height '' @ dec_int start @ '' is at or below sync_cursor height ''
          @ dec_int (c_height c) @ ''; ignoring it and resuming at '' @ dec_int (c_height c + 1) @ ''.''))"

definition GuardReplay :: "string \<Rightarrow> int \<Rightarrow> bool \<Rightarrow> (service, int \<times> string) op" where
  "GuardReplay chain start allowReplay =
     bindO (pool_query (ReadCursor chain)) (\<lambda>c.
     bindO (wrapO ''read block_log max height: '' (pool_query (logged_height chain))) (\<lambda>logged.
     bindO (wrapO ''read other sync_cursor rows: '' (pool_query (other_cursor chain))) (\<lambda>other.
     liftO (guard_decision chain start allowReplay c logged other))))"

text \<open>The block at the cursor as the node returns it now.\<close>

definition CheckReorg :: "string \<Rightarrow> (int \<Rightarrow> block_result res) \<Rightarrow> (service, unit) op" where
  "CheckReorg chain block_at =
     bindO (pool_query (ReadCursor chain)) (\<lambda>c.
     if c_height c = 0 \<or> c_hash c = [] then returnO ()
     else bindO (wrapO (at_height ''reorg check fetch'' (c_height c)) (liftO (block_at (c_height c)))) (\<lambda>got.
       guardO (br_hash got = c_hash c)
         (errorf (''reorg detected: cursor last_height='' @ dec_int (c_height c) @ '' hash='' @ c_hash c
            @ '' but node now returns hash='' @ br_hash got))))"

section \<open>Cursor status\<close>

definition updateCursorTip :: "string \<Rightarrow> int \<Rightarrow> int \<Rightarrow> (service, unit) op" where
  "updateCursorTip chain height tip =
     attempt (pool_exec (SetStatusOnly chain (ComputeStatus height tip) (lag_of tip height) tip))"

definition markStalled :: "string \<Rightarrow> (service, unit) op" where
  "markStalled chain =
     attempt (bindO (pool_query (ReadCursor chain)) (\<lambda>c.
       whenO (c_height c \<noteq> 0) (pool_exec (SetStatusOnly chain StatusStalled (c_lag c) (c_tip c)))))"

definition flushUnknowns :: "string \<Rightarrow> (service, unit) op" where
  "flushUnknowns chain =
     bindO (getO (un_deltas \<circ> sx_unknowns)) (\<lambda>deltas.
     bindO (modifyO (\<lambda>s. s\<lparr>sx_unknowns := snd (DrainUnknownDeltas (sx_unknowns s))\<rparr>)) (\<lambda>_.
     whenO (deltas \<noteq> []) (attempt (pool_exec (UpsertUnknownEntries chain deltas)))))"

definition logUnknownSummary :: "service \<Rightarrow> service" where
  "logUnknownSummary s =
     (if fst (UnknownSummary (sx_unknowns s)) = 0 then s
      else s\<lparr>sx_unknowns := ResetUnknownSummary (sx_unknowns s)\<rparr>)"

definition rebuildProjections :: "projections \<Rightarrow> string \<Rightarrow> (service, unit) op" where
  "rebuildProjections P chain =
     bindO (wrapO ''read cursor: '' (pool_query (ReadCursor chain))) (\<lambda>c.
     bindO (Backfill P (c_height c) (Some (c_time c))) (\<lambda>_.
     modifyO (\<lambda>s. s\<lparr>sx_stale := False\<rparr>)))"

section \<open>Fetching a window\<close>

definition fetchBundle :: "string \<Rightarrow> int \<Rightarrow> block_result res \<Rightarrow> block_results res \<Rightarrow> block_bundle res" where
  "fetchBundle chain height block results =
     (case block of
        Inl e \<Rightarrow> Inl (wrapf ''/block: '' e)
      | Inr b \<Rightarrow>
          (case results of
             Inl e \<Rightarrow> Inl (wrapf ''/block_results: '' e)
           | Inr r \<Rightarrow>
               bindR (validate_bundle (Some b) (Some r) chain height) (\<lambda>_.
               Inr \<lparr>bu_height = height, bu_chain = br_chain_id b, bu_time = br_time b, bu_hash = br_hash b,
                    bu_proposer = br_proposer b, bu_raw_txs = br_txs b, bu_txs = brr_txs_results r,
                    bu_finalize = brr_finalize_events r\<rparr>)))"

definition effectiveWindowSize :: "config \<Rightarrow> bool \<Rightarrow> int" where
  "effectiveWindowSize cfg useBulk =
     (if \<not> useBulk then cf_batch_size cfg
      else if cf_bulk_window cfg \<le> 0 then cf_batch_size cfg
      else cf_bulk_window cfg)"

record fetching =
  ft_pending :: "(int, block_bundle) table"
  ft_expected :: int
  ft_bundles :: "block_bundle list"

definition log_progress :: "config \<Rightarrow> int \<Rightarrow> service \<Rightarrow> service" where
  "log_progress cfg expected s =
     (if 0 < cf_log_every cfg \<and> expected mod cf_log_every cfg = 0 then logUnknownSummary s else s)"

text \<open>\<open>use\<close> is what becomes of a block whose turn it is: nothing in bulk mode, its application
  in streaming mode.\<close>

definition use_block :: "parts \<Rightarrow> config \<Rightarrow> int \<Rightarrow> bool \<Rightarrow> int \<Rightarrow> block_bundle \<Rightarrow> (service, unit) op" where
  "use_block E cfg tip useBulk expected b =
     bindO (whenO (\<not> useBulk) (wrapO (at_height ''apply'' expected) (applyBlock E cfg b tip))) (\<lambda>_.
     modifyO (log_progress cfg expected))"

text \<open>The inner loop: every pending block whose turn it is.\<close>

lemma tbl_del_shorter: "tbl_get t k = Some r \<Longrightarrow> length (tbl_del k t) < length t"
proof -
  assume "tbl_get t k = Some r"
  then have "(k, r) \<in> set t" by (auto simp: tbl_get_def dest: map_of_SomeD)
  then show ?thesis unfolding tbl_del_def by (intro length_filter_less) auto
qed

function release :: "(int \<Rightarrow> block_bundle \<Rightarrow> (service, unit) op) \<Rightarrow> fetching \<Rightarrow> service
    \<Rightarrow> unit res \<times> fetching \<times> service" where
  "release use f s =
     (case tbl_get (ft_pending f) (ft_expected f) of
        None \<Rightarrow> (Inr (), f, s)
      | Some b \<Rightarrow>
          (case use (ft_expected f) b s of
             (Inl e, s1) \<Rightarrow> (Inl e, f\<lparr>ft_pending := tbl_del (ft_expected f) (ft_pending f)\<rparr>, s1)
           | (Inr _, s1) \<Rightarrow>
               release use (f\<lparr>ft_pending := tbl_del (ft_expected f) (ft_pending f),
                   ft_expected := ft_expected f + 1, ft_bundles := ft_bundles f @ [b]\<rparr>) s1))"
  by pat_completeness auto
termination
  by (relation "measure (\<lambda>(use, f, s). length (ft_pending f))") (auto intro: tbl_del_shorter)

declare release.simps [simp del]

text \<open>The outer loop, over the blocks as they arrive.  With no arrival left it is the cancellation
  that ends it.\<close>

type_synonym arrival = "int \<times> block_bundle res"

definition canceled :: goerror where
  "canceled = GoErr [ErrCanceled] ''context canceled''"

fun receive :: "(int \<Rightarrow> block_bundle \<Rightarrow> (service, unit) op) \<Rightarrow> int \<Rightarrow> arrival list \<Rightarrow> fetching \<Rightarrow> service
    \<Rightarrow> unit res \<times> fetching \<times> service" where
  "receive use last' [] f s = (if last' < ft_expected f then Inr () else Inl canceled, f, s)"
| "receive use last' ((h, r) # rest) f s =
     (if last' < ft_expected f then (Inr (), f, s)
      else case r of
        Inl e \<Rightarrow> (Inl (wrapf (at_height ''fetch'' h) e), f, s)
      | Inr b \<Rightarrow>
          (case release use (f\<lparr>ft_pending := tbl_put h b (ft_pending f)\<rparr>) s of
             (Inl e, g, s1) \<Rightarrow> (Inl e, g, s1)
           | (Inr _, g, s1) \<Rightarrow> receive use last' rest g s1))"

definition fetchWindow ::
  "parts \<Rightarrow> config \<Rightarrow> int \<Rightarrow> int \<Rightarrow> int \<Rightarrow> bool \<Rightarrow> arrival list \<Rightarrow> service
     \<Rightarrow> block_bundle list res \<times> service" where
  "fetchWindow E cfg first' last' tip useBulk arrivals s =
     (case receive (use_block E cfg tip useBulk) last' arrivals
         \<lparr>ft_pending = [], ft_expected = first', ft_bundles = []\<rparr> s of
        (Inl e, f, s1) \<Rightarrow> (Inl e, s1)
      | (Inr _, f, s1) \<Rightarrow> (Inr (ft_bundles f), s1))"

definition applyFetched ::
  "parts \<Rightarrow> config \<Rightarrow> string \<Rightarrow> int \<Rightarrow> int \<Rightarrow> int \<Rightarrow> bool \<Rightarrow> block_bundle list \<Rightarrow> (service, unit) op" where
  "applyFetched E cfg chain first' last' tip useBulk bundles =
     bindO (whenO useBulk
       (wrapO (''bulk apply ['' @ dec_int first' @ ''..'' @ dec_int last' @ '']: '')
         (applyBulkWindow E cfg bundles tip))) (\<lambda>_.
     flushUnknowns chain)"

section \<open>The loop\<close>

record inputs =
  it_cancelled :: bool
  it_status :: "(int \<times> string) res"
  it_arrivals :: "arrival list"
  it_window_tip :: int
  it_sleeps :: bool

record run_state =
  rn_service :: service
  rn_next :: int
  rn_delay :: int

datatype outcome = Continue run_state | Stop "unit res" run_state

text \<open>\<open>sleepCtx\<close> and \<open>waitForTipChange\<close>: false when the context is cancelled meanwhile.\<close>

definition after_sleep :: "inputs \<Rightarrow> run_state \<Rightarrow> outcome" where
  "after_sleep it st = (if it_sleeps it then Continue st else Stop (Inl canceled) st)"

definition resume_height :: "cursor res \<Rightarrow> int \<Rightarrow> int" where
  "resume_height r next' =
     (case r of
        Inl e \<Rightarrow> next'
      | Inr c \<Rightarrow> if 0 < c_height c \<and> next' < c_height c + 1 then c_height c + 1 else next')"

definition recoverFromTransient :: "string \<Rightarrow> inputs \<Rightarrow> run_state \<Rightarrow> outcome" where
  "recoverFromTransient chain it st =
     (let s1 = snd (markStalled chain (rn_service st));
          st1 = st\<lparr>rn_service := s1, rn_delay := transientBackoff_Next (rn_delay st)\<rparr> in
      if \<not> it_sleeps it then Stop (Inl canceled) st1
      else case pool_query (ReadCursor chain) s1 of
        (r, s2) \<Rightarrow> Continue (st1\<lparr>rn_service := s2, rn_next := resume_height r (rn_next st1)\<rparr>))"

text \<open>What a failed fetch, apply or rebuild leads to.\<close>

definition on_failure :: "string \<Rightarrow> inputs \<Rightarrow> string \<Rightarrow> goerror \<Rightarrow> run_state \<Rightarrow> outcome" where
  "on_failure chain it msg e st =
     (if isTransientInfraErr e then recoverFromTransient chain it st else Stop (Inl (wrapf msg e)) st)"

definition ensureProjections ::
  "parts \<Rightarrow> string \<Rightarrow> inputs \<Rightarrow> run_state \<Rightarrow> (run_state \<Rightarrow> outcome) \<Rightarrow> outcome" where
  "ensureProjections E chain it st k =
     (if \<not> sx_stale (rn_service st) then k st
      else case rebuildProjections (en_views E) chain (rn_service st) of
        (Inr _, s1) \<Rightarrow> k (st\<lparr>rn_service := s1\<rparr>)
      | (Inl e, s1) \<Rightarrow> on_failure chain it ''api projection rebuild: '' e (st\<lparr>rn_service := s1\<rparr>))"

text \<open>Nothing to fetch: the projections are brought up to date, then the loop ends or waits.\<close>

definition tip_idle :: "parts \<Rightarrow> config \<Rightarrow> string \<Rightarrow> inputs \<Rightarrow> int \<Rightarrow> run_state \<Rightarrow> outcome" where
  "tip_idle E cfg chain it tip st =
     ensureProjections E chain it st (\<lambda>st1.
       if cf_one_shot cfg \<or> (0 < cf_stop_height cfg \<and> cf_stop_height cfg < rn_next st1) then Stop (Inr ()) st1
       else after_sleep it
         (st1\<lparr>rn_service := snd (updateCursorTip chain (rn_next st1 - 1) tip (rn_service st1))\<rparr>))"

definition window_end :: "config \<Rightarrow> bool \<Rightarrow> int \<Rightarrow> int \<Rightarrow> int" where
  "window_end cfg useBulk next' last' =
     (let w = next' + effectiveWindowSize cfg useBulk - 1 in if last' < w then last' else w)"

definition range_label :: "string \<Rightarrow> int \<Rightarrow> int \<Rightarrow> string" where
  "range_label msg a b = msg @ '' ['' @ dec_int a @ ''..'' @ dec_int b @ '']: ''"

definition run_one_window ::
  "parts \<Rightarrow> config \<Rightarrow> string \<Rightarrow> inputs \<Rightarrow> bool \<Rightarrow> int \<Rightarrow> run_state \<Rightarrow> outcome" where
  "run_one_window E cfg chain it useBulk last' st =
     (let first' = rn_next st; wend = window_end cfg useBulk first' last' in
      case fetchWindow E cfg first' wend (it_window_tip it) useBulk (it_arrivals it) (rn_service st) of
        (Inl e, s1) \<Rightarrow> on_failure chain it (range_label ''fetch'' first' wend) e (st\<lparr>rn_service := s1\<rparr>)
      | (Inr bundles, s1) \<Rightarrow>
          (case applyFetched E cfg chain first' wend (it_window_tip it) useBulk bundles s1 of
             (Inl e, s2) \<Rightarrow> on_failure chain it [] e (st\<lparr>rn_service := s2\<rparr>)
           | (Inr _, s2) \<Rightarrow> Continue (st\<lparr>rn_service := s2, rn_next := wend + 1,
               rn_delay := transientBackoff_Reset (rn_delay st)\<rparr>)))"

definition last_height :: "config \<Rightarrow> int \<Rightarrow> int" where
  "last_height cfg tip =
     (if 0 < cf_stop_height cfg \<and> cf_stop_height cfg < tip then cf_stop_height cfg else tip)"

definition bulk_mode :: "config \<Rightarrow> int \<Rightarrow> int \<Rightarrow> bool" where
  "bulk_mode cfg next' last' \<longleftrightarrow> cf_bulk_enabled cfg \<and> cf_bulk_lag_threshold cfg \<le> last' - next' + 1"

definition run_iteration :: "parts \<Rightarrow> config \<Rightarrow> string \<Rightarrow> inputs \<Rightarrow> run_state \<Rightarrow> outcome" where
  "run_iteration E cfg chain it st =
     (if it_cancelled it then Stop (Inl canceled) st
      else case it_status it of
        Inl e \<Rightarrow> after_sleep it (st\<lparr>rn_service := snd (markStalled chain (rn_service st))\<rparr>)
      | Inr (tip, network) \<Rightarrow>
          if chain \<noteq> network then
            Stop (Inl (errorf (''chain id changed mid-run: was '' @ chain @ '', now '' @ network))) st
          else
            let last' = last_height cfg tip in
            if last' < rn_next st then tip_idle E cfg chain it tip st
            else
              let useBulk = bulk_mode cfg (rn_next st) last' in
              if useBulk then run_one_window E cfg chain it True last' st
              else ensureProjections E chain it st (run_one_window E cfg chain it False last'))"

fun Run :: "parts \<Rightarrow> config \<Rightarrow> string \<Rightarrow> inputs list \<Rightarrow> run_state \<Rightarrow> outcome" where
  "Run E cfg chain [] st = Continue st"
| "Run E cfg chain (it # its) st =
     (case run_iteration E cfg chain it st of
        Continue st1 \<Rightarrow> Run E cfg chain its st1
      | Stop r st1 \<Rightarrow> Stop r st1)"

definition IsContextErr :: "goerror \<Rightarrow> bool" where
  "IsContextErr e \<longleftrightarrow> errors_Is e ErrCanceled \<or> errors_Is e ErrDeadlineExceeded"

end
