(* ===== verification/Syncer_Facts.thy ===== *)
theory Syncer_Facts
  imports Syncer Block_Facts
begin

text \<open>
  What the loop guarantees: bounded retry delays, blocks in ascending order whatever order
  they arrive in, a start height and a resume height above everything indexed, and progress.
\<close>

section \<open>Retry delays\<close>

text \<open>The retry delay doubles from one second up to thirty.  After a reset, the \<open>n\<close>-th delay in a row is
  two to the power \<open>n - 1\<close> seconds, capped at thirty seconds, for every \<open>n\<close>.\<close>

theorem backoff_doubles_to_cap:
  "(transientBackoff_Next ^^ Suc n) (transientBackoff_Reset d) = min (30 * 1000000000) (2 ^ n * 1000000000)"
proof (induction n)
  case 0
  then show ?case by (simp add: transientBackoff_Next_def transientBackoff_Reset_def transientBackoffMin_def)
next
  case (Suc n)
  have "(transientBackoff_Next ^^ Suc (Suc n)) (transientBackoff_Reset d)
      = transientBackoff_Next (min (30 * 1000000000) (2 ^ n * 1000000000))"
    using Suc.IH by simp
  also have "\<dots> = min (30 * 1000000000) (2 ^ Suc n * 1000000000)"
    by (auto simp: transientBackoff_Next_def transientBackoffMax_def min_def not_le)
  finally show ?case .
qed

section \<open>Blocks in order\<close>

definition holds_exactly :: "(int \<Rightarrow> block_bundle) \<Rightarrow> int set \<Rightarrow> (int, block_bundle) table \<Rightarrow> bool" where
  "holds_exactly blk H t \<longleftrightarrow> (\<forall>h. tbl_get t h = (if h \<in> H then Some (blk h) else None))"

lemma holds_put: "holds_exactly blk H t \<Longrightarrow> holds_exactly blk (insert h H) (tbl_put h (blk h) t)"
  by (auto simp: holds_exactly_def)

lemma holds_del: "holds_exactly blk H t \<Longrightarrow> holds_exactly blk (H - {h}) (tbl_del h t)"
  by (auto simp: holds_exactly_def)

lemma forO_append: "forO (xs @ ys) f = bindO (forO xs f) (\<lambda>_. forO ys f)"
proof (induction xs)
  case Nil
  then show ?case by (simp add: fun_eq_iff bindO_def)
next
  case (Cons x xs)
  then show ?case by (simp add: fun_eq_iff bindO_def split: prod.splits sum.splits)
qed

text \<open>The inner loop uses the blocks from the expected height on, up to the first gap.\<close>

definition first_gap :: "int set \<Rightarrow> int \<Rightarrow> int \<Rightarrow> bool" where
  "first_gap H e j \<longleftrightarrow> e \<le> j \<and> j \<notin> H \<and> {e..<j} \<subseteq> H"

lemma first_gap_exists:
  assumes "finite H"
  shows "\<exists>j. first_gap H e j"
proof (cases "e \<in> H")
  case False
  then show ?thesis by (auto simp: first_gap_def)
next
  case True
  have "\<exists>n. e + int n \<notin> H"
  proof (rule ccontr)
    assume "\<nexists>n. e + int n \<notin> H"
    then have "range (\<lambda>n. e + int n) \<subseteq> H" by auto
    with assms have "finite (range (\<lambda>n. e + int n))" by (rule finite_subset [rotated])
    moreover have "inj (\<lambda>n. e + int n)" by (auto simp: inj_def)
    ultimately show False using finite_imageD [of "\<lambda>n. e + int n" UNIV] by auto
  qed
  define n where "n = (LEAST n. e + int n \<notin> H)"
  have gap: "e + int n \<notin> H" unfolding n_def by (rule LeastI_ex) fact
  have below: "e + int m \<in> H" if "m < n" for m
    using not_less_Least [of m "\<lambda>n. e + int n \<notin> H"] that by (simp add: n_def)
  have "{e..<e + int n} \<subseteq> H"
  proof
    fix x assume "x \<in> {e..<e + int n}"
    then show "x \<in> H" using below [of "nat (x - e)"] by (simp add: nat_less_iff)
  qed
  with gap show ?thesis unfolding first_gap_def by (intro exI [of _ "e + int n"]) simp
qed

definition in_order :: "(int \<Rightarrow> block_bundle \<Rightarrow> (service, unit) op) \<Rightarrow> (int \<Rightarrow> block_bundle) \<Rightarrow> int \<Rightarrow> int \<Rightarrow> (service, unit) op" where
  "in_order use blk a b = forO [a..b] (\<lambda>h. use h (blk h))"

lemma in_order_empty: "b < a \<Longrightarrow> in_order use blk a b s = (Inr (), s)"
  by (simp add: in_order_def)

lemma in_order_first: "a \<le> b \<Longrightarrow> in_order use blk a b = bindO (use a (blk a)) (\<lambda>_. in_order use blk (a + 1) b)"
  by (simp add: in_order_def upto_rec1)

lemma in_order_split:
  "a \<le> j \<Longrightarrow> j \<le> b + 1 \<Longrightarrow> in_order use blk a b = bindO (in_order use blk a (j - 1)) (\<lambda>_. in_order use blk j b)"
  using upto_split2 [of a "j - 1" b] by (cases "a = j") (auto simp: in_order_def forO_append fun_eq_iff bindO_def)

lemma release_result:
  assumes "holds_exactly blk H (ft_pending f)" "first_gap H (ft_expected f) j"
  shows "case in_order use blk (ft_expected f) (j - 1) s of
       (Inl e, t) \<Rightarrow> (\<exists>g. release use f s = (Inl e, g, t))
     | (Inr _, t) \<Rightarrow> (\<exists>g. release use f s = (Inr (), g, t) \<and> ft_expected g = j \<and>
          holds_exactly blk (H - {ft_expected f..<j}) (ft_pending g) \<and>
          ft_bundles g = ft_bundles f @ map blk [ft_expected f..j - 1])"
  using assms
proof (induction use f s arbitrary: H rule: release.induct)
  case (1 use f s)
  let ?e = "ft_expected f"
  show ?case
  proof (cases "?e = j")
    case True
    with "1.prems" have "tbl_get (ft_pending f) ?e = None" by (auto simp: holds_exactly_def first_gap_def)
    then have "release use f s = (Inr (), f, s)" by (simp add: release.simps)
    with True "1.prems" show ?thesis by (simp add: in_order_empty)
  next
    case False
    with "1.prems"(2) have lt: "?e < j" and mem: "?e \<in> H" by (auto simp: first_gap_def)
    then have get: "tbl_get (ft_pending f) ?e = Some (blk ?e)" using "1.prems"(1) by (simp add: holds_exactly_def)
    obtain r s1 where u: "use ?e (blk ?e) s = (r, s1)" by force
    have first: "in_order use blk ?e (j - 1) = bindO (use ?e (blk ?e)) (\<lambda>_. in_order use blk (?e + 1) (j - 1))"
      by (rule in_order_first) (use lt in simp)
    let ?f = "f\<lparr>ft_pending := tbl_del ?e (ft_pending f), ft_expected := ?e + 1, ft_bundles := ft_bundles f @ [blk ?e]\<rparr>"
    show ?thesis
    proof (cases r)
      case (Inl err)
      then show ?thesis unfolding first by (simp add: release.simps [of use f s] get u)
    next
      case (Inr x)
      have rel: "release use f s = release use ?f s1"
        by (simp add: release.simps [of use f s] get u Inr)
      have gap: "first_gap (H - {?e}) (ft_expected ?f) j"
        using "1.prems"(2) lt by (auto simp: first_gap_def)
      have held: "holds_exactly blk (H - {?e}) (ft_pending ?f)"
        using holds_del [OF "1.prems"(1), of ?e] by simp
      note IH = "1.IH" [OF get u [symmetric] Inr held gap]
      have "H - {?e} - {?e + 1..<j} = H - {?e..<j}" using lt by auto
      moreover have "[?e..j - 1] = ?e # [?e + 1..j - 1]" using lt by (simp add: upto_rec1)
      ultimately show ?thesis
        using IH unfolding first rel by (simp add: bindO_def u Inr split: prod.splits sum.splits)
    qed
  qed
qed

lemma receive_in_order:
  assumes "holds_exactly blk H (ft_pending f)" "H \<subseteq> {ft_expected f<..last'}"
    and "distinct hs" "set hs = {ft_expected f..last'} - H"
  shows "case in_order use blk (ft_expected f) last' s of
       (Inl e, t) \<Rightarrow> (\<exists>g. receive use last' (map (\<lambda>h. (h, Inr (blk h))) hs) f s = (Inl e, g, t))
     | (Inr _, t) \<Rightarrow> (\<exists>g. receive use last' (map (\<lambda>h. (h, Inr (blk h))) hs) f s = (Inr (), g, t) \<and>
          ft_bundles g = ft_bundles f @ map blk [ft_expected f..last'])"
  using assms
proof (induction hs arbitrary: f H s)
  case Nil
  have "last' < ft_expected f"
  proof (rule ccontr)
    assume "\<not> last' < ft_expected f"
    then have "ft_expected f \<in> {ft_expected f..last'} - H" using Nil.prems(2) by auto
    with Nil.prems(4) show False by (metis empty_iff list.set(1))
  qed
  then show ?case by (simp add: in_order_empty)
next
  case (Cons h hs)
  let ?e = "ft_expected f" and ?H = "insert h H" and ?f = "f\<lparr>ft_pending := tbl_put h (blk h) (ft_pending f)\<rparr>"
  have h: "?e \<le> h" "h \<le> last'" "h \<notin> H" using Cons.prems(4) by auto
  have HH: "?H \<subseteq> {?e..last'}" using Cons.prems(2) h by auto
  then have "finite ?H" by (rule finite_subset) simp
  then obtain j where gap: "first_gap ?H ?e j" using first_gap_exists by blast
  then have j: "?e \<le> j" "j \<notin> ?H" "{?e..<j} \<subseteq> ?H" by (simp_all add: first_gap_def)
  have jl: "j \<le> last' + 1"
  proof (rule ccontr)
    assume "\<not> j \<le> last' + 1"
    then have "last' + 1 \<in> {?e..<j}" using h by simp
    then have "last' + 1 \<in> ?H" using j(3) by blast
    then have "last' + 1 \<in> {?e..last'}" using HH by blast
    then show False by simp
  qed
  have held: "holds_exactly blk ?H (ft_pending ?f)" using holds_put [OF Cons.prems(1)] by simp
  have gap': "first_gap ?H (ft_expected ?f) j" using gap by simp
  note rel = release_result [OF held gap', of use s]
  obtain r t where run: "in_order use blk ?e (j - 1) s = (r, t)" by force
  have split: "in_order use blk ?e last' = bindO (in_order use blk ?e (j - 1)) (\<lambda>_. in_order use blk j last')"
    by (rule in_order_split [OF j(1) jl])
  have not_done: "\<not> last' < ?e" using h by simp
  show ?case
  proof (cases r)
    case (Inl err)
    with rel run obtain g where "release use ?f s = (Inl err, g, t)" by auto
    with not_done show ?thesis unfolding split by (simp add: bindO_def run Inl)
  next
    case (Inr x)
    with rel run obtain g where g: "release use ?f s = (Inr (), g, t)" "ft_expected g = j"
      "holds_exactly blk (?H - {?e..<j}) (ft_pending g)" "ft_bundles g = ft_bundles f @ map blk [?e..j - 1]"
      by auto
    have later: "?H - {?e..<j} \<subseteq> {ft_expected g<..last'}"
    proof
      fix x assume x: "x \<in> ?H - {?e..<j}"
      then have "x \<in> {?e..last'}" using HH by blast
      moreover have "x \<noteq> j" using x j(2) by blast
      ultimately show "x \<in> {ft_expected g<..last'}" using x g(2) by simp
    qed
    have rest: "set hs = {ft_expected g..last'} - (?H - {?e..<j})"
    proof -
      have "set hs = {?e..last'} - ?H" using Cons.prems(3,4) by auto
      moreover have "{?e..last'} - ?H = {j..last'} - (?H - {?e..<j})"
        using j(1,3) by (force simp: subset_iff)
      ultimately show ?thesis by (simp only: g(2))
    qed
    have "distinct hs" using Cons.prems(3) by simp
    note IH = Cons.IH [OF g(3) later this rest, of t, unfolded g(2)]
    have "[?e..last'] = [?e..j - 1] @ [j..last']"
      using upto_split2 [of ?e "j - 1" last'] j(1) jl by (cases "?e = j") auto
    with IH not_done show ?thesis
      unfolding split by (simp add: bindO_def run Inr g(1,4) split: prod.splits sum.splits)
  qed
qed

text \<open>C10: A window is processed in ascending order whatever order its blocks arrive in.  For every
  permutation in which the parallel fetches of the heights of a window complete, the window
  ends with exactly the state and the error that fetching and using the blocks one by one in
  ascending order ends with; when nothing fails it holds exactly the blocks of the range, in
  order, and the loop has terminated.\<close>

theorem fetch_window_in_order:
  assumes "mset arrivals = mset (map (\<lambda>h. (h, Inr (blk h))) [a..b])"
  shows "fetchWindow E cfg a b tip useBulk arrivals s =
     (case in_order (use_block E cfg tip useBulk) blk a b s of
        (Inl e, t) \<Rightarrow> (Inl e, t)
      | (Inr _, t) \<Rightarrow> (Inr (map blk [a..b]), t))"
proof -
  let ?arr = "\<lambda>h. (h, Inr (blk h) :: block_bundle res)"
  define hs where "hs = map fst arrivals"
  have "set arrivals = set (map ?arr [a..b])" using assms by (metis set_mset_mset)
  then have arr: "arrivals = map ?arr hs" unfolding hs_def by (auto simp: intro!: map_idI [symmetric])
  have "mset hs = mset [a..b]"
  proof -
    have "mset hs = image_mset fst (mset arrivals)" by (simp add: hs_def)
    also have "\<dots> = image_mset fst (mset (map ?arr [a..b]))" by (simp only: assms)
    also have "\<dots> = mset (map fst (map ?arr [a..b]))" by (simp only: mset_map)
    also have "map fst (map ?arr [a..b]) = [a..b]" by (simp add: comp_def)
    finally show ?thesis .
  qed
  then have "distinct hs" "set hs = {a..b}"
    by (metis distinct_upto mset_eq_imp_distinct_iff, metis set_mset_mset set_upto)
  then show ?thesis
    using receive_in_order [of blk "{}" "\<lparr>ft_pending = [], ft_expected = a, ft_bundles = []\<rparr>" b hs
        "use_block E cfg tip useBulk" s]
    by (auto simp: fetchWindow_def arr holds_exactly_def tbl_get_def split: prod.splits sum.splits)
qed

definition example_block :: "int \<Rightarrow> block_bundle" where
  "example_block h = (example_bundle [])\<lparr>bu_height := h\<rparr>"

theorem fetch_window_in_order_witness:
  "fst (fetchWindow example_parts example_config 7 9 9 True
      [(8, Inr (example_block 8)), (9, Inr (example_block 9)), (7, Inr (example_block 7))] example_service)
    = Inr [example_block 7, example_block 8, example_block 9]"
proof -
  have range: "[7..9::int] = [7, 8, 9]" by (simp add: upto_rec1)
  have "mset [(8, Inr (example_block 8) :: block_bundle res), (9, Inr (example_block 9)), (7, Inr (example_block 7))]
      = mset (map (\<lambda>h. (h, Inr (example_block h))) [7..9])" unfolding range by simp
  from fetch_window_in_order [OF this, of example_parts example_config 9 True example_service] show ?thesis
    unfolding range
    by (simp add: in_order_def range use_block_def bindO_def whenO_def returnO_def modifyO_def)
qed

section \<open>Never below what is indexed\<close>

lemma pool_query_Inr: "pool_query g s = (Inr x, s') \<Longrightarrow> x = g (sx_db s) \<and> sx_db s' = sx_db s"
  by (auto simp: pool_query_def split: option.splits)

lemma pool_query_db [simp]: "sx_db (snd (pool_query g s)) = sx_db s"
  by (simp add: pool_query_def split: option.splits)

text \<open>A start height above the cursor of the chain, its whole block log and the cursor of
  every other chain.\<close>

definition past_everything :: "string \<Rightarrow> int \<Rightarrow> tables \<Rightarrow> bool" where
  "past_everything chain h d \<longleftrightarrow>
     c_height (ReadCursor chain d) < h \<and>
     list_all (\<lambda>((c, k), r). c = chain \<longrightarrow> k < h) (sy_block_log (db_sync d)) \<and>
     list_all (\<lambda>(c, r). c \<noteq> chain \<and> 0 < cu_height r \<longrightarrow> cu_height r < h) (sy_cursor (db_sync d))"

lemma logged_height_max: "((chain, k), r) \<in> set (sy_block_log (db_sync d)) \<Longrightarrow> k \<le> logged_height chain d"
proof -
  assume row: "((chain, k), r) \<in> set (sy_block_log (db_sync d))"
  define hs where "hs = map (\<lambda>((c, h), r). h) (filter (\<lambda>((c, h), r). c = chain) (sy_block_log (db_sync d)))"
  have mem: "k \<in> set hs" using row by (force simp: hs_def image_iff)
  then have "logged_height chain d = Max (set hs)"
    unfolding logged_height_def hs_def [symmetric] Let_def by auto
  with mem show ?thesis by simp
qed

lemma other_cursor_max:
  assumes "(c, r) \<in> set (sy_cursor (db_sync d))" "c \<noteq> chain" "0 < cu_height r"
  obtains c' k where "other_cursor chain d = Some (c', k)" "cu_height r \<le> k" "\<exists>r'. (c', r') \<in> set (sy_cursor (db_sync d))"
proof -
  define xs where "xs = filter (\<lambda>(c, r). c \<noteq> chain \<and> 0 < cu_height r) (sy_cursor (db_sync d))"
  define ys where "ys = sort_key (\<lambda>(c, r). - cu_height r) xs"
  have mem: "(c, r) \<in> set ys" using assms by (simp add: ys_def xs_def)
  have sorted: "sorted (map (\<lambda>(c, r). - cu_height r) ys)" by (simp add: ys_def)
  show thesis
  proof (cases ys)
    case Nil
    with mem show ?thesis by simp
  next
    case (Cons y rest)
    obtain c' r' where y: "y = (c', r')" by (cases y)
    have "cu_height r \<le> cu_height r'" using mem sorted Cons y by auto
    moreover have "(c', r') \<in> set xs" using Cons y by (metis list.set_intros(1) set_sort ys_def)
    moreover have "other_cursor chain d = Some (c', cu_height r')"
      using Cons y by (simp add: other_cursor_def xs_def [symmetric] ys_def [symmetric])
    ultimately show ?thesis using that by (auto simp: xs_def)
  qed
qed

lemma guard_decision_past:
  assumes "guard_decision chain start False (ReadCursor chain d) (logged_height chain d) (other_cursor chain d) = Inr (h, notice)"
    and "list_all (\<lambda>(c, r). c \<noteq> []) (sy_cursor (db_sync d))"
  shows "past_everything chain h d"
proof -
  let ?c = "c_height (ReadCursor chain d)" and ?l = "logged_height chain d"
  let ?o = "case other_cursor chain d of None \<Rightarrow> 0 | Some p \<Rightarrow> snd p"
  have h: "?c < h \<and> ?l < h \<and> (other_cursor chain d \<noteq> None \<longrightarrow> ?o < h \<or> (\<exists>k. other_cursor chain d = Some ([], k)))"
    using assms(1) by (auto simp: guard_decision_def Let_def split: if_splits option.splits)
  have "list_all (\<lambda>((c, k), r). c = chain \<longrightarrow> k < h) (sy_block_log (db_sync d))"
    using logged_height_max [of chain _ _ d] h by (fastforce simp: list_all_iff)
  moreover have "cu_height r < h" if "(c, r) \<in> set (sy_cursor (db_sync d))" "c \<noteq> chain" "0 < cu_height r" for c r
    using that
  proof (rule other_cursor_max)
    fix c' k assume o: "other_cursor chain d = Some (c', k)" "cu_height r \<le> k" "\<exists>r'. (c', r') \<in> set (sy_cursor (db_sync d))"
    then have "c' \<noteq> []" using assms(2) by (auto simp: list_all_iff)
    with h o show ?thesis by auto
  qed
  ultimately show ?thesis using h by (auto simp: past_everything_def list_all_iff)
qed

lemma GuardReplay_Inr:
  assumes "GuardReplay chain start allow s = (Inr x, s')"
  shows "guard_decision chain start allow (ReadCursor chain (sx_db s)) (logged_height chain (sx_db s))
      (other_cursor chain (sx_db s)) = Inr x \<and> sx_db s' = sx_db s"
proof -
  from assms obtain c l other s1 s2 s3 where
    "pool_query (ReadCursor chain) s = (Inr c, s1)" "pool_query (logged_height chain) s1 = (Inr l, s2)"
    "pool_query (other_cursor chain) s2 = (Inr other, s3)" "guard_decision chain start allow c l other = Inr x" "s' = s3"
    by (auto simp: GuardReplay_def bindO_Inr wrapO_Inr liftO_def)
  then show ?thesis by (auto dest!: pool_query_Inr)
qed

text \<open>C7: Without the replay override, ingestion never starts on indexed blocks.  A start height that the
  guard lets through, given or replaced, is above the chain's cursor, above every block the
  block log holds of the chain, and above the cursor of every other chain in the database;
  the cursor rows carry a chain id, as the primary key of the table demands.\<close>

theorem guard_never_replays:
  assumes "GuardReplay chain start False s = (Inr (h, notice), s')"
    and "list_all (\<lambda>(c, r). c \<noteq> []) (sy_cursor (db_sync (sx_db s)))"
  shows "past_everything chain h (sx_db s)"
  using GuardReplay_Inr [OF assms(1)] guard_decision_past [OF _ assms(2)] by blast

theorem guard_never_replays_witness:
  "past_everything ''c'' 9 (sx_db example_service)"
proof (rule guard_never_replays)
  show "GuardReplay ''c'' 9 False example_service = (Inr (9, []), example_service\<lparr>sx_clock := 3\<rparr>)"
    by (simp add: GuardReplay_def bindO_def wrapO_def liftO_def pool_query_def example_service_def guard_decision_def
        ReadCursor_def logged_height_def other_cursor_def empty_tables_def empty_sync_def Let_def)
  show "list_all (\<lambda>(c, r). c \<noteq> []) (sy_cursor (db_sync (sx_db example_service)))"
    by (simp add: example_service_def empty_tables_def empty_sync_def)
qed

section \<open>Progress\<close>

abbreviation cursor_height :: "string \<Rightarrow> service \<Rightarrow> int" where
  "cursor_height chain s \<equiv> c_height (ReadCursor chain (sx_db s))"

lemma errors_added_cursor: "errors_added es d d' \<Longrightarrow> ReadCursor chain d' = ReadCursor chain d"
  by (auto simp: errors_added_def ReadCursor_def)

lemma cursor_at_height: "cursor_at b d \<Longrightarrow> c_height (ReadCursor (bu_chain b) d) = bu_height b"
  by (auto simp: cursor_at_def ReadCursor_def)

lemma applyBlock_cursor:
  assumes "applyBlock E cfg b tip s = (Inr (), s')"
  shows "cursor_height (bu_chain b) s' = bu_height b"
proof -
  from assms obtain res t ps where run: "applyBlockInTx E cfg b tip no_opts (fresh_block s) = (Inr res, t)"
    and ps: "errors_added (map (error_row_of (bu_chain b)) ps) (w_db (bk_world t)) (sx_db s')"
    by (rule applyBlock_Inr) blast
  have "cursor_at b (w_db (bk_world t))"
    by (rule applyBlockInTx_result(2) [OF run]) (simp add: no_opts_def)
  then show ?thesis by (simp add: errors_added_cursor [OF ps] cursor_at_height)
qed

lemma applyBulkWindow_cursor:
  assumes "applyBulkWindow E cfg bs tip s = (Inr (), s')" "bs \<noteq> []"
  shows "cursor_height (bu_chain (last bs)) s' = bu_height (last bs)"
proof -
  from assms obtain v t es where run: "run_window E cfg bs tip (fresh_block s) = (Inr (), v, t)"
    and es: "errors_added es (w_db (bk_world t)) (sx_db s')"
    by (rule applyBulkWindow_Inr) blast
  obtain s2 where "close_window E cfg (hd bs) (last bs) tip v s2 = (Inr (), t)"
    using run unfolding run_window_def by (auto split: prod.splits sum.splits)
  from close_window_result(2) [OF this] have "cursor_at (last bs) (w_db (bk_world t))" .
  then show ?thesis by (simp add: errors_added_cursor [OF es] cursor_at_height)
qed

lemma status_keeps_height: "c_height (ReadCursor chain (SetStatusOnly chain' status lag tip d)) = c_height (ReadCursor chain d)"
  by (auto simp: ReadCursor_def SetStatusOnly_def on_sync_def split: option.splits)

lemma pool_exec_cursor:
  "(\<And>d. c_height (ReadCursor chain (f d)) = c_height (ReadCursor chain d)) \<Longrightarrow>
     cursor_height chain (snd (pool_exec f s)) = cursor_height chain s"
  by (simp add: pool_exec_def split: option.splits)

lemma markStalled_cursor: "cursor_height chain (snd (markStalled chain' s)) = cursor_height chain s"
proof -
  obtain r s1 where "pool_query (ReadCursor chain') s = (r, s1)" by force
  moreover from this have "sx_db s1 = sx_db s" by (metis pool_query_db snd_conv)
  ultimately show ?thesis
    by (cases r) (simp_all add: markStalled_def attempt_def bindO_def whenO_def returnO_def pool_exec_cursor status_keeps_height)
qed

lemma updateCursorTip_cursor: "cursor_height chain (snd (updateCursorTip chain' h tip s)) = cursor_height chain s"
  by (simp add: updateCursorTip_def attempt_def pool_exec_cursor status_keeps_height)

lemma flushUnknowns_cursor:
  assumes "flushUnknowns chain' s = (r, s')"
  shows "r = Inr ()" and "cursor_height chain s' = cursor_height chain s"
proof -
  let ?s = "s\<lparr>sx_unknowns := snd (DrainUnknownDeltas (sx_unknowns s))\<rparr>"
  have "cursor_height chain (snd (pool_exec (UpsertUnknownEntries chain' ds) ?s)) = cursor_height chain s" for ds
    by (subst pool_exec_cursor) (simp_all add: UpsertUnknownEntries_def ReadCursor_def on_sync_def)
  then show "r = Inr ()" "cursor_height chain s' = cursor_height chain s"
    using assms by (auto simp: flushUnknowns_def bindO_def getO_def modifyO_def whenO_def returnO_def attempt_def split: if_splits)
qed

lemma rebuild_cursor:
  assumes "rebuildProjections P chain' s = (r, s')"
  shows "cursor_height chain s' = cursor_height chain s"
proof -
  have tx: "cursor_height chain (snd (Backfill P h t s1)) = cursor_height chain s1" for h t and s1 :: service
  proof (cases "Backfill P h t s1")
    case (Pair r1 s2)
    obtain r3 u where run: "in_tx (BackfillInTx P h t) (fresh_block s1) = (r3, u)" by force
    have "api_blind (w_db (bk_world (fresh_block s1))) = api_blind (w_db (bk_world u))"
      using keepsD [OF projected_backfill, of "bk_world (fresh_block s1)" P h t] in_tx_result [OF run]
      by (auto simp: across_def)
    from api_blind_fields(3) [OF this] have "db_sync (w_db (bk_world u)) = db_sync (sx_db s1)" by simp
    then have same: "ReadCursor chain (w_db (bk_world u)) = ReadCursor chain (sx_db s1)" by (simp add: ReadCursor_def)
    show ?thesis
    proof (cases "sx_fault s1 (sx_clock s1)")
      case (Some e)
      then show ?thesis by (simp add: Backfill_def pool_tx_def begin_failed_def)
    next
      case None
      then have fin: "finish_tx ''commit: '' [] [] r3 u s1 = (r1, s2)"
        using Pair run by (simp add: Backfill_def pool_tx_def begin_failed_def)
      show ?thesis
      proof (cases r1)
        case (Inl e)
        with fin have "finish_tx ''commit: '' [] [] r3 u s1 = (Inl e, s2)" by simp
        from finish_tx_Inl [OF this] obtain es where "errors_added es (sx_db s1) (sx_db s2)" by blast
        then show ?thesis by (simp add: Pair errors_added_cursor)
      next
        case (Inr x)
        with fin have "finish_tx ''commit: '' [] [] r3 u s1 = (Inr x, s2)" by simp
        from finish_tx_Inr(3) [OF this] obtain es where "errors_added es (w_db (bk_world u)) (sx_db s2)" by blast
        then show ?thesis by (simp add: Pair errors_added_cursor same)
      qed
    qed
  qed
  obtain r1 s1 where q: "pool_query (ReadCursor chain') s = (r1, s1)" by force
  then have q': "cursor_height chain s1 = cursor_height chain s" by (metis pool_query_db snd_conv)
  show ?thesis
  proof (cases r1)
    case (Inl e)
    with assms q q' show ?thesis by (auto simp: rebuildProjections_def bindO_def wrapO_def)
  next
    case (Inr c)
    obtain r2 s2 where b: "Backfill P (c_height c) (Some (c_time c)) s1 = (r2, s2)" by force
    with tx [of "c_height c" "Some (c_time c)" s1] q' have "cursor_height chain s2 = cursor_height chain s" by simp
    with assms q b Inr show ?thesis
      by (cases r2) (auto simp: rebuildProjections_def bindO_def wrapO_def modifyO_def)
  qed
qed
text \<open>Blocks as \<open>fetchBundle\<close> returns them: of the height asked for and of the chain.\<close>

definition block_of :: "string \<Rightarrow> int \<Rightarrow> block_bundle \<Rightarrow> bool" where
  "block_of chain h b \<longleftrightarrow> bu_height b = h \<and> bu_chain b = chain"

definition sound_arrivals :: "string \<Rightarrow> int \<Rightarrow> int \<Rightarrow> arrival list \<Rightarrow> bool" where
  "sound_arrivals chain a b xs \<longleftrightarrow>
     list_all (\<lambda>(h, r). a \<le> h \<and> h \<le> b \<and> (case r of Inl e \<Rightarrow> True | Inr x \<Rightarrow> block_of chain h x)) xs"

definition sound_pending :: "string \<Rightarrow> int \<Rightarrow> fetching \<Rightarrow> bool" where
  "sound_pending chain b f \<longleftrightarrow> (\<forall>h x. tbl_get (ft_pending f) h = Some x \<longrightarrow> h \<le> b \<and> block_of chain h x)"

definition ahead :: "string \<Rightarrow> int \<Rightarrow> int \<Rightarrow> fetching \<Rightarrow> service \<Rightarrow> bool" where
  "ahead chain a b f s \<longleftrightarrow> sound_pending chain b f \<and> a \<le> ft_expected f \<and> ft_expected f \<le> b + 1 \<and>
     cursor_height chain s < ft_expected f \<and>
     list_all2 (block_of chain) [a..ft_expected f - 1] (ft_bundles f)"

lemma use_block_cursor:
  assumes "use_block E cfg tip useBulk e x s = (Inr (), s')" "block_of chain e x" "cursor_height chain s < e"
  shows "cursor_height chain s' < e + 1"
proof -
  have same: "sx_db (log_progress cfg e t) = sx_db t" for t
    by (simp add: log_progress_def logUnknownSummary_def)
  show ?thesis
  proof (cases useBulk)
    case True
    then have "s' = log_progress cfg e s" using assms(1) by (simp add: use_block_def bindO_def whenO_def returnO_def modifyO_def)
    with same assms(3) show ?thesis by simp
  next
    case False
    then obtain s1 where "applyBlock E cfg x tip s = (Inr (), s1)" and s': "s' = log_progress cfg e s1"
      using assms(1) by (auto simp: use_block_def whenO_def bindO_Inr wrapO_Inr modifyO_def)
    from applyBlock_cursor [OF this(1)] assms(2) show ?thesis by (simp add: s' same block_of_def)
  qed
qed

lemma release_ahead:
  assumes "release (use_block E cfg tip useBulk) f s = (Inr (), g, s')" "ahead chain a b f s"
  shows "ahead chain a b g s'"
  using assms
proof (induction "use_block E cfg tip useBulk" f s rule: release.induct)
  case (1 f s)
  let ?use = "use_block E cfg tip useBulk" and ?e = "ft_expected f"
  show ?case
  proof (cases "tbl_get (ft_pending f) ?e")
    case None
    with "1.prems" show ?thesis by (simp add: release.simps)
  next
    case (Some x)
    let ?f = "f\<lparr>ft_pending := tbl_del ?e (ft_pending f), ft_expected := ?e + 1, ft_bundles := ft_bundles f @ [x]\<rparr>"
    obtain r s1 where u: "?use ?e x s = (r, s1)" by force
    have x: "?e \<le> b" "block_of chain ?e x" using "1.prems"(2) Some by (auto simp: ahead_def sound_pending_def)
    from "1.prems"(1) Some u obtain v where r: "r = Inr v" and rest: "release ?use ?f s1 = (Inr (), g, s')"
      by (auto simp: release.simps [of ?use f s] split: sum.splits)
    have "cursor_height chain s1 < ?e + 1"
      using use_block_cursor [of E cfg tip useBulk ?e x s s1 chain] u r x "1.prems"(2) by (auto simp: ahead_def)
    moreover have "[a..?e] = [a..?e - 1] @ [?e]" using "1.prems"(2) by (simp add: ahead_def upto_rec2)
    ultimately have "ahead chain a b ?f s1"
      using "1.prems"(2) x by (auto simp: ahead_def sound_pending_def list_all2_appendI)
    from "1.hyps" [OF Some u [symmetric] r rest this] show ?thesis .
  qed
qed

lemma receive_ahead:
  assumes "receive (use_block E cfg tip useBulk) b xs f s = (Inr (), g, s')" "ahead chain a b f s"
    and "sound_arrivals chain a b xs"
  shows "ahead chain a b g s' \<and> b < ft_expected g"
  using assms
proof (induction "use_block E cfg tip useBulk" b xs f s rule: receive.induct)
  case (1 last' f s)
  then show ?case by (simp split: if_splits)
next
  case (2 last' h r rest f s)
  show ?case
  proof (cases "last' < ft_expected f")
    case True
    with "2.prems" show ?thesis by simp
  next
    case False
    from "2.prems"(1) False obtain x where r: "r = Inr x" by (cases r) auto
    let ?f = "f\<lparr>ft_pending := tbl_put h x (ft_pending f)\<rparr>"
    obtain g1 s1 where rel: "release (use_block E cfg tip useBulk) ?f s = (Inr (), g1, s1)"
      and rest: "receive (use_block E cfg tip useBulk) last' rest g1 s1 = (Inr (), g, s')"
      using "2.prems"(1) False r by (auto split: prod.splits sum.splits)
    have "ahead chain a last' ?f s"
      using "2.prems"(2,3) r by (auto simp: ahead_def sound_pending_def sound_arrivals_def)
    from release_ahead [OF rel this] have "ahead chain a last' g1 s1" .
    moreover have "sound_arrivals chain a last' rest" using "2.prems"(3) by (simp add: sound_arrivals_def)
    ultimately show ?thesis using "2.hyps" [OF False r] rel rest by fastforce
  qed
qed

lemma fetchWindow_ahead:
  assumes "fetchWindow E cfg a b tip useBulk xs s = (Inr bs, s')" "sound_arrivals chain a b xs"
    and "cursor_height chain s < a" "a \<le> b"
  shows "cursor_height chain s' < b + 1 \<and> list_all2 (block_of chain) [a..b] bs"
proof -
  let ?f = "\<lparr>ft_pending = [], ft_expected = a, ft_bundles = []\<rparr>"
  obtain g where g: "receive (use_block E cfg tip useBulk) b xs ?f s = (Inr (), g, s')" "bs = ft_bundles g"
    using assms(1) by (auto simp: fetchWindow_def split: prod.splits sum.splits)
  have "ahead chain a b ?f s" using assms(3,4) by (simp add: ahead_def sound_pending_def tbl_get_def)
  from receive_ahead [OF g(1) this assms(2)] have "ahead chain a b g s'" "ft_expected g = b + 1"
    by (auto simp: ahead_def)
  then show ?thesis by (simp add: ahead_def g(2))
qed

lemma applyFetched_cursor:
  assumes "applyFetched E cfg chain a b tip useBulk bs s = (Inr (), s')" "list_all2 (block_of chain) [a..b] bs"
    and "cursor_height chain s < b + 1" "a \<le> b"
  shows "cursor_height chain s' < b + 1"
proof -
  from assms(1) obtain s1 where apply': "if useBulk then applyBulkWindow E cfg bs tip s = (Inr (), s1) else s1 = s"
    and flush: "flushUnknowns chain s1 = (Inr (), s')"
    by (auto simp: applyFetched_def whenO_def bindO_Inr wrapO_Inr returnO_def split: if_splits)
  have ne: "bs \<noteq> []" using assms(2,4) by auto
  have len: "nat (b - a + 1) = length bs" and all: "\<forall>i<length bs. block_of chain (a + int i) (bs ! i)"
    using assms(2) by (auto simp: list_all2_conv_all_nth)
  have "a + int (length bs - 1) = b" using len assms(4) by linarith
  with all ne have "block_of chain b (last bs)" by (simp add: last_conv_nth) (metis One_nat_def diff_less length_greater_0_conv zero_less_one)
  then have "cursor_height chain s1 < b + 1"
    using apply' assms(3) applyBulkWindow_cursor [OF _ ne, of E cfg tip s s1] by (auto simp: block_of_def split: if_splits)
  then show ?thesis using flushUnknowns_cursor(2) [OF flush, of chain] by simp
qed

text \<open>What an iteration may leave: at least the old height, past the cursor, or unchanged with a
  delay when the cursor could not be read back after a failure.\<close>

definition resumed :: "string \<Rightarrow> run_state \<Rightarrow> run_state \<Rightarrow> bool" where
  "resumed chain st st' \<longleftrightarrow> rn_next st \<le> rn_next st' \<and>
     (cursor_height chain (rn_service st') < rn_next st' \<or> (rn_next st' = rn_next st \<and> 0 < rn_delay st'))"

lemma transientBackoff_Next_pos: "0 < transientBackoff_Next d"
  by (simp add: transientBackoff_Next_def transientBackoffMin_def transientBackoffMax_def)

lemma recover_resumed:
  assumes "recoverFromTransient chain it st = Continue st'" "0 < rn_next st"
  shows "resumed chain st st' \<and> 0 < rn_delay st'"
proof -
  let ?s1 = "snd (markStalled chain (rn_service st))"
  obtain r s2 where q: "pool_query (ReadCursor chain) ?s1 = (r, s2)" by force
  have st': "st' = st\<lparr>rn_delay := transientBackoff_Next (rn_delay st), rn_service := s2, rn_next := resume_height r (rn_next st)\<rparr>"
    using assms(1) q by (auto simp: recoverFromTransient_def Let_def split: if_splits)
  have "sx_db s2 = sx_db ?s1" using q by (metis pool_query_db snd_conv)
  then have cur: "r = Inr c \<Longrightarrow> c_height c = cursor_height chain s2" for c
    using q pool_query_Inr by metis
  show ?thesis
    using assms(2) cur by (cases r) (auto simp: st' resumed_def resume_height_def transientBackoff_Next_pos)
qed

lemma on_failure_resumed:
  "on_failure chain it msg e st = Continue st' \<Longrightarrow> 0 < rn_next st \<Longrightarrow> resumed chain st st' \<and> 0 < rn_delay st'"
  using recover_resumed by (auto simp: on_failure_def split: if_splits)

lemma ensure_cases:
  assumes "ensureProjections E chain it st k = Continue st'" "0 < rn_next st"
  obtains (go) s1 where "k (st\<lparr>rn_service := s1\<rparr>) = Continue st'" "cursor_height chain s1 = cursor_height chain (rn_service st)"
  | (failed) "resumed chain st st'" "0 < rn_delay st'"
proof (cases "sx_stale (rn_service st)")
  case False
  with assms(1) have "k (st\<lparr>rn_service := rn_service st\<rparr>) = Continue st'" by (simp add: ensureProjections_def)
  then show thesis by (rule go) simp
next
  case True
  obtain r s1 where r: "rebuildProjections (en_views E) chain (rn_service st) = (r, s1)" by force
  note same = rebuild_cursor [OF r, of chain]
  show thesis
  proof (cases r)
    case (Inr x)
    with assms(1) r True have "k (st\<lparr>rn_service := s1\<rparr>) = Continue st'" by (simp add: ensureProjections_def)
    then show thesis by (rule go) (rule same)
  next
    case (Inl e)
    with assms(1) r True
    have "on_failure chain it ''api projection rebuild: '' e (st\<lparr>rn_service := s1\<rparr>) = Continue st'"
      by (simp add: ensureProjections_def)
    from on_failure_resumed [OF this] assms(2) have "resumed chain st st' \<and> 0 < rn_delay st'"
      by (auto simp: resumed_def)
    then show thesis using failed by blast
  qed
qed

text \<open>The inputs of an iteration: the blocks of its window as the node serves them.\<close>

definition window_of :: "config \<Rightarrow> int \<Rightarrow> int \<Rightarrow> int" where
  "window_of cfg next' tip =
     (let l = last_height cfg tip in window_end cfg (bulk_mode cfg next' l) next' l)"

definition sound_inputs :: "config \<Rightarrow> string \<Rightarrow> inputs \<Rightarrow> int \<Rightarrow> bool" where
  "sound_inputs cfg chain it next' \<longleftrightarrow>
     (case it_status it of Inl e \<Rightarrow> True
      | Inr (tip, network) \<Rightarrow> sound_arrivals chain next' (window_of cfg next' tip) (it_arrivals it))"

lemma window_end_bounds:
  "usable_config cfg \<Longrightarrow> n \<le> l \<Longrightarrow> n \<le> window_end cfg useBulk n l \<and> window_end cfg useBulk n l \<le> l"
  by (auto simp: window_end_def effectiveWindowSize_def usable_config_def Let_def)

lemma run_window_step:
  assumes "run_one_window E cfg chain it useBulk l st = Continue st'" "usable_config cfg" "rn_next st \<le> l"
    and "0 < rn_next st"
    and "sound_arrivals chain (rn_next st) (window_end cfg useBulk (rn_next st) l) (it_arrivals it)"
    and "cursor_height chain (rn_service st) < rn_next st"
  shows "resumed chain st st' \<and>
     (if 0 < rn_delay st' then rn_next st \<le> rn_next st' else rn_next st < rn_next st' \<and> rn_next st' \<le> l + 1)"
proof -
  let ?w = "window_end cfg useBulk (rn_next st) l"
  note w = window_end_bounds [OF assms(2,3), of useBulk]
  obtain r s1 where f: "fetchWindow E cfg (rn_next st) ?w (it_window_tip it) useBulk (it_arrivals it) (rn_service st) = (r, s1)"
    by force
  show ?thesis
  proof (cases r)
    case (Inl e)
    with assms(1) f have "on_failure chain it (range_label ''fetch'' (rn_next st) ?w) e (st\<lparr>rn_service := s1\<rparr>) = Continue st'"
      by (simp add: run_one_window_def Let_def)
    from on_failure_resumed [OF this] assms(4) show ?thesis by (auto simp: resumed_def)
  next
    case (Inr bs)
    from f Inr have f': "fetchWindow E cfg (rn_next st) ?w (it_window_tip it) useBulk (it_arrivals it) (rn_service st) = (Inr bs, s1)"
      by simp
    have fetched: "cursor_height chain s1 < ?w + 1" "list_all2 (block_of chain) [rn_next st..?w] bs"
      using fetchWindow_ahead [OF f' assms(5,6)] w by auto
    obtain r2 s2 where a: "applyFetched E cfg chain (rn_next st) ?w (it_window_tip it) useBulk bs s1 = (r2, s2)" by force
    show ?thesis
    proof (cases r2)
      case (Inl e)
      with assms(1) f' a have "on_failure chain it [] e (st\<lparr>rn_service := s2\<rparr>) = Continue st'"
        by (simp add: run_one_window_def Let_def)
      from on_failure_resumed [OF this] assms(4) show ?thesis by (auto simp: resumed_def)
    next
      case (Inr v)
      with assms(1) f' a have st': "st' = st\<lparr>rn_service := s2, rn_next := ?w + 1, rn_delay := transientBackoff_Reset (rn_delay st)\<rparr>"
        by (simp add: run_one_window_def Let_def)
      have "cursor_height chain s2 < ?w + 1"
        using applyFetched_cursor [OF _ fetched(2,1)] a Inr w by simp
      with w show ?thesis by (simp add: st' resumed_def transientBackoff_Reset_def)
    qed
  qed
qed

lemma run_iteration_step:
  assumes "run_iteration E cfg chain it st = Continue st'" "usable_config cfg" "sound_inputs cfg chain it (rn_next st)"
    and "0 < rn_next st" "cursor_height chain (rn_service st) < rn_next st"
  shows "resumed chain st st' \<and>
     (case it_status it of Inl e \<Rightarrow> True
      | Inr (tip, network) \<Rightarrow> rn_next st \<le> last_height cfg tip \<and> rn_delay st' = 0 \<longrightarrow> rn_next st < rn_next st')"
proof -
  have still: "resumed chain st (st\<lparr>rn_service := s\<rparr>)" if "cursor_height chain s = cursor_height chain (rn_service st)" for s
    using that assms(5) by (simp add: resumed_def)
  show ?thesis
  proof (cases "it_status it")
    case (Inl e)
    with assms(1) still [OF markStalled_cursor] show ?thesis
      by (auto simp: run_iteration_def after_sleep_def split: if_splits)
  next
    case (Inr p)
    obtain tip network where p: "p = (tip, network)" by (cases p)
    let ?l = "last_height cfg tip"
    let ?bulk = "bulk_mode cfg (rn_next st) ?l"
    have run: "(if ?l < rn_next st then tip_idle E cfg chain it tip st
        else if ?bulk then run_one_window E cfg chain it True ?l st
        else ensureProjections E chain it st (run_one_window E cfg chain it False ?l)) = Continue st'"
      using assms(1) Inr p by (auto simp: run_iteration_def Let_def split: if_splits)
    show ?thesis
    proof (cases "?l < rn_next st")
      case True
      with run have "tip_idle E cfg chain it tip st = Continue st'" by simp
      then have "resumed chain st st'"
        unfolding tip_idle_def
      proof (rule ensure_cases [OF _ assms(4)])
        fix s1 assume k: "(if cf_one_shot cfg \<or> 0 < cf_stop_height cfg \<and> cf_stop_height cfg < rn_next (st\<lparr>rn_service := s1\<rparr>)
             then Stop (Inr ()) (st\<lparr>rn_service := s1\<rparr>)
             else after_sleep it ((st\<lparr>rn_service := s1\<rparr>)\<lparr>rn_service := snd (updateCursorTip chain (rn_next (st\<lparr>rn_service := s1\<rparr>) - 1) tip
                (rn_service (st\<lparr>rn_service := s1\<rparr>)))\<rparr>)) = Continue st'"
          and "cursor_height chain s1 = cursor_height chain (rn_service st)"
        then show ?thesis
          using still [of "snd (updateCursorTip chain (rn_next st - 1) tip s1)"]
          by (auto simp: after_sleep_def updateCursorTip_cursor split: if_splits)
      qed
      with True Inr p show ?thesis by simp
    next
      case False
      have arrivals: "sound_arrivals chain (rn_next st) (window_end cfg ?bulk (rn_next st) ?l) (it_arrivals it)"
        using assms(3) Inr p by (simp add: sound_inputs_def window_of_def Let_def)
      note step = run_window_step [OF _ assms(2)]
      show ?thesis
      proof (cases ?bulk)
        case True
        with run False arrivals step [of E chain it True ?l st st'] assms(4,5) Inr p show ?thesis by (auto split: if_splits)
      next
        case nobulk: False
        with run False have "ensureProjections E chain it st (run_one_window E cfg chain it False ?l) = Continue st'" by simp
        then show ?thesis
        proof (rule ensure_cases [OF _ assms(4)])
          fix s1 assume k: "run_one_window E cfg chain it False ?l (st\<lparr>rn_service := s1\<rparr>) = Continue st'"
            and same: "cursor_height chain s1 = cursor_height chain (rn_service st)"
          from step [OF k] False nobulk arrivals assms(4,5) same Inr p show ?thesis
            by (auto simp: resumed_def split: if_splits)
        next
          assume "resumed chain st st'" "0 < rn_delay st'"
          with Inr p show ?thesis by simp
        qed
      qed
    qed
  qed
qed


section \<open>Catching up\<close>

text \<open>Every status names the tip, the blocks are as the node serves them and no iteration ends in
  a retry.\<close>

fun calm_run :: "parts \<Rightarrow> config \<Rightarrow> string \<Rightarrow> int \<Rightarrow> inputs list \<Rightarrow> run_state \<Rightarrow> bool" where
  "calm_run E cfg chain tip [] st = True"
| "calm_run E cfg chain tip (it # its) st =
     ((case it_status it of Inl e \<Rightarrow> False | Inr (t, network) \<Rightarrow> t = tip) \<and>
      sound_inputs cfg chain it (rn_next st) \<and>
      (case run_iteration E cfg chain it st of
         Stop r st1 \<Rightarrow> True
       | Continue st1 \<Rightarrow> rn_delay st1 = 0 \<and> calm_run E cfg chain tip its st1))"

lemma on_failure_Stop: "on_failure chain it msg e st = Stop r st' \<Longrightarrow> isl r"
  by (auto simp: on_failure_def recoverFromTransient_def Let_def split: if_splits prod.splits)

lemma run_one_window_Stop: "run_one_window E cfg chain it useBulk l st = Stop r st' \<Longrightarrow> isl r"
  by (auto simp: run_one_window_def Let_def split: prod.splits sum.splits dest: on_failure_Stop)

lemma ensure_Stop:
  "ensureProjections E chain it st k = Stop r st' \<Longrightarrow>
     isl r \<or> (\<exists>s1. k (st\<lparr>rn_service := s1\<rparr>) = Stop r st')"
proof -
  assume run: "ensureProjections E chain it st k = Stop r st'"
  show ?thesis
  proof (cases "sx_stale (rn_service st)")
    case False
    with run have "k (st\<lparr>rn_service := rn_service st\<rparr>) = Stop r st'" by (simp add: ensureProjections_def)
    then show ?thesis by blast
  next
    case True
    with run show ?thesis
      by (auto simp: ensureProjections_def split: prod.splits sum.splits dest: on_failure_Stop)
  qed
qed

lemma run_iteration_Stop:
  assumes "run_iteration E cfg chain it st = Stop (Inr u) st'" "it_status it = Inr (tip, network)"
  shows "last_height cfg tip < rn_next st'"
proof -
  from assms have "last_height cfg tip < rn_next st \<and> tip_idle E cfg chain it tip st = Stop (Inr u) st'"
    by (auto simp: run_iteration_def Let_def split: if_splits dest!: run_one_window_Stop ensure_Stop)
  then show ?thesis
    by (auto simp: tip_idle_def after_sleep_def split: if_splits dest!: ensure_Stop)
qed

lemma one_shot_idle:
  assumes "run_iteration E cfg chain it st = Continue st'" "cf_one_shot cfg" "it_status it = Inr (tip, network)"
    and "last_height cfg tip < rn_next st" "0 < rn_next st"
  shows "0 < rn_delay st'"
proof -
  from assms have "tip_idle E cfg chain it tip st = Continue st'"
    by (auto simp: run_iteration_def Let_def split: if_splits)
  then show ?thesis
    unfolding tip_idle_def by (rule ensure_cases [OF _ assms(5)]) (use assms(2) in simp_all)
qed

text \<open>C9: A one-shot run catches up and ends.  When the tip stays where it is and no iteration ends in a
  retry, the loop returns within one iteration per missing block plus one; and when it returns
  without an error, the next height is above the tip (or the configured last height), so
  nothing is missing.\<close>

theorem one_shot_catches_up:
  assumes "calm_run E cfg chain tip its st" "cf_one_shot cfg" "usable_config cfg"
    and "0 < rn_next st" "cursor_height chain (rn_service st) < rn_next st"
    and "nat (last_height cfg tip + 1 - rn_next st) < length its"
  shows "case Run E cfg chain its st of
      Continue st' \<Rightarrow> False
    | Stop r st' \<Rightarrow> isl r \<or> last_height cfg tip < rn_next st'"
  using assms(1,4-6)
proof (induction its arbitrary: st)
  case Nil
  then show ?case by simp
next
  case (Cons it its)
  from Cons.prems(1) obtain network where status: "it_status it = Inr (tip, network)"
    by (auto split: sum.splits)
  show ?case
  proof (cases "run_iteration E cfg chain it st")
    case (Stop r st1)
    then show ?thesis using run_iteration_Stop [OF _ status] by (cases r) auto
  next
    case (Continue st1)
    with Cons.prems(1) have calm: "rn_delay st1 = 0" "calm_run E cfg chain tip its st1" by simp_all
    have step: "resumed chain st st1" "rn_next st \<le> last_height cfg tip \<Longrightarrow> rn_next st < rn_next st1"
      using run_iteration_step [OF Continue assms(3) _ Cons.prems(2,3)] Cons.prems(1) status calm(1) by auto
    have "rn_next st \<le> last_height cfg tip"
      using one_shot_idle [OF Continue assms(2) status _ Cons.prems(2)] calm(1) by fastforce
    with step calm Cons.prems have "nat (last_height cfg tip + 1 - rn_next st1) < length its" "0 < rn_next st1"
      "cursor_height chain (rn_service st1) < rn_next st1"
      by (auto simp: resumed_def)
    from Cons.IH [OF calm(2) this(2,3,1)] Continue show ?thesis by simp
  qed
qed

section \<open>Examples\<close>

definition example_inputs :: inputs where
  "example_inputs = \<lparr>it_cancelled = False, it_status = Inr (7, ''c''), it_arrivals = [(7, Inr (example_bundle []))],
     it_window_tip = 7, it_sleeps = True\<rparr>"

definition example_run :: "config \<Rightarrow> int \<Rightarrow> run_state" where
  "example_run cfg n = \<lparr>rn_service = example_service, rn_next = n, rn_delay = 0\<rparr>"

definition one_shot_config :: config where
  "one_shot_config = (LoadConfig (\<lambda>_. []) [])\<lparr>cf_one_shot := True\<rparr>"

definition idle_inputs :: inputs where
  "idle_inputs = example_inputs\<lparr>it_arrivals := []\<rparr>"

lemma example_iterations:
  "sound_inputs one_shot_config ''c'' example_inputs 7 \<and>
   (case run_iteration (parts_with r) one_shot_config ''c'' example_inputs (example_run one_shot_config 7) of
      Stop r st1 \<Rightarrow> False
    | Continue st1 \<Rightarrow> rn_delay st1 = 0 \<and> calm_run (parts_with r) one_shot_config ''c'' 7 [idle_inputs] st1)"
  by code_simp

lemma example_start:
  "rn_next (example_run cfg n) = n" "cursor_height chain (rn_service (example_run cfg n)) = 0"
  by (simp_all add: example_run_def example_service_def empty_tables_def empty_sync_def ReadCursor_def tbl_get_def)

lemma one_shot_config_usable: "usable_config one_shot_config"
  using load_config_usable [of "\<lambda>_. []" "[]"] by (simp add: usable_config_def one_shot_config_def)

lemmas parts_iterations = example_iterations [where r = "en_router example_parts", unfolded parts_of_router]


theorem one_shot_catches_up_witness:
  "case Run example_parts one_shot_config ''c'' [example_inputs, idle_inputs] (example_run one_shot_config 7) of
      Continue st' \<Rightarrow> False
    | Stop r st' \<Rightarrow> isl r \<or> 7 < rn_next st'"
proof -
  have tip: "last_height one_shot_config 7 = 7"
    by (simp add: last_height_def one_shot_config_def) code_simp
  have "calm_run example_parts one_shot_config ''c'' 7 [example_inputs, idle_inputs] (example_run one_shot_config 7)"
    using parts_iterations by (auto simp: example_inputs_def example_start split: outcome.splits)
  moreover have "cf_one_shot one_shot_config" by (simp add: one_shot_config_def)
  ultimately show ?thesis
    using one_shot_catches_up [OF _ _ one_shot_config_usable, of example_parts "''c''" 7 "[example_inputs, idle_inputs]"
        "example_run one_shot_config 7", unfolded tip example_start]
    by simp
qed

section \<open>Where the loop falls short of its comments\<close>

text \<open>A recovery that cannot read the cursor resumes at the old height, whatever was committed; the
  status request that follows does not look at the cursor.\<close>

lemma blind_recovery:
  assumes "it_sleeps it" "pool_query (ReadCursor chain) (snd (markStalled chain (rn_service st))) = (Inl e, s)"
  shows "recoverFromTransient chain it st
     = Continue (st\<lparr>rn_delay := transientBackoff_Next (rn_delay st), rn_service := s\<rparr>)"
  using assms by (simp add: recoverFromTransient_def Let_def resume_height_def)

text \<open>Deltas that could not be written are gone: they were drained before.\<close>

lemma unflushed_unknowns_lost:
  assumes "sx_fault s (sx_clock s) = Some e"
  shows "sx_db (snd (flushUnknowns chain s)) = sx_db s \<and>
     un_deltas (sx_unknowns (snd (flushUnknowns chain s))) = []"
  using assms
  by (simp add: flushUnknowns_def bindO_def getO_def modifyO_def whenO_def returnO_def attempt_def pool_exec_def
      DrainUnknownDeltas_def)

text \<open>An administrator's shutdown of the database is transient, but not when it hits the statement of a
  handler: the error of a required event keeps the text only.\<close>

lemma shutdown_in_handler_not_transient:
  "let e = GoErr [PgError ''57P01''] ''terminating connection due to administrator command'';
       he = \<lparr>he_key = ''k'', he_payload = [], he_error = err_text e, he_severity = SeverityError,
             he_tx = None, he_msg = None, he_event = None\<rparr> in
   isTransientInfraErr e \<and> \<not> isTransientInfraErr (required_event he)"
  by code_simp

text \<open>Without the table of current blocks the statement is reported to have succeeded, but the
  transaction of the block is dead.\<close>

lemma missing_current_block:
  assumes "w_fault w (w_clock w) = Some (GoErr [PgError ''42P01''] msg)" "\<not> w_aborted w"
  shows "fst (UpsertCurrentBlock chain r w) = Inr () \<and> w_aborted (snd (UpsertCurrentBlock chain r w))"
  using assms
  by (simp add: UpsertCurrentBlock_def exec_def sql_def undefined_table_def errors_Is_def split: prod.splits sum.splits)

end
