(* ===== verification/Lcd.thy ===== *)
theory Lcd
  imports Payload
begin

text \<open>
  \<open>internal/lcd/client.go\<close>: complete snapshots from the Cosmos gateway.

  The gateway is the field \<open>lc_http\<close> of the client: what it answers to the \<open>n\<close>-th request,
  for any behaviour of the network and the server.  An operation counts the requests it has
  made.  A request is its URL and the value of the header \<open>x-cosmos-block-height\<close>; an answer
  carries its status, its headers under their canonical names and its body, which may fail
  to be read.  Timeouts and cancellation are failed answers.
\<close>

section \<open>Requests\<close>

record lcd_request =
  rq_url :: string
  rq_height :: "string option"

datatype lcd_reply =
    NoReply goerror
  | Reply (rp_status: int) (rp_headers: "(string \<times> string) list") (rp_body: "string res")

record lcd_client =
  lc_base :: string
  lc_http :: "(nat \<Rightarrow> lcd_request \<Rightarrow> lcd_reply) option"

definition exchange :: "(nat \<Rightarrow> lcd_request \<Rightarrow> lcd_reply) \<Rightarrow> lcd_request \<Rightarrow> (nat, lcd_reply) op" where
  "exchange http rq n = (Inr (http n rq), Suc n)"

definition height_headers :: "string list" where
  "height_headers = [''X-Cosmos-Block-Height'', ''Grpc-Metadata-X-Cosmos-Block-Height'']"

text \<open>The values of both headers, in the order in which they are checked.\<close>

definition answered_heights :: "(string \<times> string) list \<Rightarrow> string list" where
  "answered_heights headers =
     concat (map (\<lambda>h. map snd (filter (\<lambda>kv. fst kv = h) headers)) height_headers)"

definition check_height :: "int \<Rightarrow> (string \<times> string) list \<Rightarrow> unit res" where
  "check_height height headers =
     (let values = answered_heights headers in
      bindR (guardR (list_all (\<lambda>v. parse_int64 v = Some height) values)
        (errorf ''LCD: requested height, another returned'')) (\<lambda>_.
      guardR (values \<noteq> []) (errorf ''LCD: no response height for requested snapshot'')))"

definition max_response :: int where
  "max_response = 32 * 1024 * 1024"

definition lcd_get ::
  "lcd_client \<Rightarrow> string \<Rightarrow> int \<Rightarrow> (string \<Rightarrow> 'a res) \<Rightarrow> (nat, 'a) op" where
  "lcd_get c path height out =
     (case lc_http c of
        None \<Rightarrow> failO (errorf ''LCD snapshot requires an HTTP client with a request timeout'')
      | Some http \<Rightarrow>
          bindO (guardO (has_prefix path ''/'' \<and> \<not> has_prefix path ''//'')
            (errorf ''LCD path must be local to the configured gateway'')) (\<lambda>_.
          bindO (exchange http
            \<lparr>rq_url = trim_right (\<lambda>ch. ch = CHR ''/'') (lc_base c) @ path,
             rq_height = (if 0 < height then Some (dec_int height) else None)\<rparr>) (\<lambda>reply.
          case reply of
            NoReply e \<Rightarrow> failO e
          | Reply status headers body \<Rightarrow>
              bindO (guardO (status = 200) (errorf ''LCD: HTTP status'')) (\<lambda>_.
              bindO (if 0 < height then liftO (check_height height headers) else returnO ()) (\<lambda>_.
              bindO (liftO body) (\<lambda>text.
              bindO (guardO (int (length text) \<le> max_response) (errorf ''LCD page exceeds bytes; reduce the page limit'')) (\<lambda>_.
              liftO (out text))))))))"

text \<open>A struct inside a struct.\<close>

definition nested :: "((string \<times> json) list \<Rightarrow> 'a \<Rightarrow> 'a res) \<Rightarrow> 'a decoder" where
  "nested members v old =
     (case v of
        JObj kvs \<Rightarrow> members kvs old
      | JNull \<Rightarrow> Inr old
      | _ \<Rightarrow> Inl (errorf ''cannot unmarshal into struct''))"

definition document_of :: "string \<Rightarrow> (string \<times> json) list res" where
  "document_of text =
     (case json_text text of
        Some (JObj kvs) \<Rightarrow> Inr kvs
      | Some JNull \<Rightarrow> Inr []
      | _ \<Rightarrow> Inl (errorf ''cannot unmarshal document''))"

definition node_network :: "string \<Rightarrow> string res" where
  "node_network text =
     bindR (document_of text)
       (field ''default_node_info'' (nested (\<lambda>kvs old. field ''network'' Text old kvs)) [])"

definition ValidateChain :: "lcd_client \<Rightarrow> string \<Rightarrow> (nat, unit) op" where
  "ValidateChain c chain =
     bindO (guardO (chain \<noteq> []) (errorf ''LCD snapshot needs an expected chain ID'')) (\<lambda>_.
     bindO (lcd_get c ''/cosmos/base/tendermint/v1beta1/node_info'' 0 node_network) (\<lambda>network.
     guardO (network = chain) (errorf ''LCD chain mismatch'')))"

definition Get :: "lcd_client \<Rightarrow> string \<Rightarrow> int \<Rightarrow> (string \<Rightarrow> 'a res) \<Rightarrow> (nat, 'a) op" where
  "Get c path height out =
     bindO (guardO (0 < height) (errorf ''LCD snapshot height must be positive'')) (\<lambda>_.
     lcd_get c path height out)"

section \<open>Pages\<close>

text \<open>\<open>url.QueryEscape\<close> and \<open>url.PathEscape\<close>.\<close>

definition query_safe :: "char \<Rightarrow> bool" where
  "query_safe c \<longleftrightarrow> is_digit c \<or> c \<in> set ''abcdefghijklmnopqrstuvwxyz'' \<or>
     c \<in> set ''ABCDEFGHIJKLMNOPQRSTUVWXYZ'' \<or> c \<in> set ''-_.~''"

definition percent_byte :: "char \<Rightarrow> string" where
  "percent_byte c = (let n = of_char c :: nat; d = ''0123456789ABCDEF'' in [CHR ''%'', d ! (n div 16), d ! (n mod 16)])"

definition QueryEscape :: "string \<Rightarrow> string" where
  "QueryEscape s = concat (map (\<lambda>c. if query_safe c then [c] else if c = CHR '' '' then ''+'' else percent_byte c) s)"

definition PathEscape :: "string \<Rightarrow> string" where
  "PathEscape s = concat (map (\<lambda>c. if query_safe c \<or> c \<in> set ''$&+:=@'' then [c] else percent_byte c) s)"

text \<open>\<open>url.Values.Encode\<close> sorts the keys.\<close>

definition page_query :: "int \<Rightarrow> string \<Rightarrow> string" where
  "page_query limit key =
     (if key = [] then [] else ''pagination.key='' @ QueryEscape key @ ''&'') @
     ''pagination.limit='' @ dec_int limit"

record page =
  pg_rows :: "string list"
  pg_next :: string

definition page_rows :: "string \<Rightarrow> (string \<times> json) list \<Rightarrow> string list res" where
  "page_rows name envelope =
     (case raw_member envelope name of
        None \<Rightarrow> Inl (errorf ''LCD: missing collection'')
      | Some JNull \<Rightarrow> Inl (errorf ''LCD: missing collection'')
      | Some (JArr vs) \<Rightarrow> Inr (map json_marshal vs)
      | Some _ \<Rightarrow> Inl (errorf ''cannot unmarshal into []json.RawMessage''))"

definition page_next :: "(string \<times> json) list \<Rightarrow> string res" where
  "page_next envelope =
     (case raw_member envelope ''pagination'' of
        Some (JObj kvs) \<Rightarrow>
          (case text_field ''next_key'' kvs of
             Inl _ \<Rightarrow> Inl (errorf ''LCD: missing or malformed pagination'')
           | Inr key \<Rightarrow> Inr key)
      | _ \<Rightarrow> Inl (errorf ''LCD: missing or malformed pagination''))"

definition decode_page :: "string \<Rightarrow> string \<Rightarrow> page res" where
  "decode_page name text =
     bindR (document_of text) (\<lambda>envelope.
     bindR (page_rows name envelope) (\<lambda>rows.
     bindR (page_next envelope) (\<lambda>key.
     Inr \<lparr>pg_rows = rows, pg_next = key\<rparr>)))"

definition visit_rows :: "('v \<Rightarrow> string \<Rightarrow> 'v res) \<Rightarrow> 'v \<Rightarrow> string list \<Rightarrow> 'v res" where
  "visit_rows visit v rows =
     (case foldR visit v rows of
        Inl e \<Rightarrow> Inl (wrapf ''LCD row'' e)
      | Inr v' \<Rightarrow> Inr v')"

text \<open>The loop with the pages it may still read, the keys it has seen and the next key.\<close>

fun pages_loop ::
  "(string \<Rightarrow> (nat, page) op) \<Rightarrow> ('v \<Rightarrow> string \<Rightarrow> 'v res) \<Rightarrow> nat \<Rightarrow> string list \<Rightarrow> string \<Rightarrow> 'v \<Rightarrow> (nat, 'v) op" where
  "pages_loop fetch visit 0 seen key v =
     failO (errorf ''LCD: snapshot exceeds 10000 pages; increase the page limit'')"
| "pages_loop fetch visit (Suc k) seen key v =
     bindO (fetch key) (\<lambda>p.
     bindO (liftO (visit_rows visit v (pg_rows p))) (\<lambda>v'.
     if pg_next p = [] then returnO v'
     else if pg_next p \<in> set seen then failO (errorf ''LCD: repeated pagination key'')
     else pages_loop fetch visit k (pg_next p # seen) (pg_next p) v'))"

definition max_pages :: nat where
  "max_pages = 10000"

definition fetch_page :: "lcd_client \<Rightarrow> string \<Rightarrow> string \<Rightarrow> int \<Rightarrow> int \<Rightarrow> string \<Rightarrow> (nat, page) op" where
  "fetch_page c path name height limit key =
     Get c (path @ ''?'' @ page_query limit key) height (decode_page name)"

definition Pages ::
  "lcd_client \<Rightarrow> string \<Rightarrow> string \<Rightarrow> int \<Rightarrow> int \<Rightarrow> ('v \<Rightarrow> string \<Rightarrow> 'v res) \<Rightarrow> 'v \<Rightarrow> (nat, 'v) op" where
  "Pages c path name height limit visit v =
     bindO (guardO (0 < limit) (errorf ''LCD page limit must be positive'')) (\<lambda>_.
     pages_loop (fetch_page c path name height limit) visit max_pages [] [] v)"

section \<open>One page\<close>

lemma visit_rows_Inr: "visit_rows visit v rows = Inr v' \<longleftrightarrow> foldR visit v rows = Inr v'"
  by (auto simp: visit_rows_def split: sum.splits)

text \<open>One page of the loop, and what it leaves to do.\<close>

lemma pages_loop_step:
  assumes "pages_loop fetch visit (Suc k) seen key v n = (Inr r, n')"
  obtains p n1 v1 where "fetch key n = (Inr p, n1)" "foldR visit v (pg_rows p) = Inr v1"
    "pg_next p = [] \<and> r = v1 \<and> n' = n1 \<or>
     pg_next p \<noteq> [] \<and> pg_next p \<notin> set seen \<and>
     pages_loop fetch visit k (pg_next p # seen) (pg_next p) v1 n1 = (Inr r, n')"
  using assms
  by (auto simp: bindO_def liftO_def returnO_def failO_def visit_rows_Inr
      split: prod.splits sum.splits if_splits)

section \<open>A visit keeps what each row keeps\<close>

text \<open>
  Every reader of the gateway stages its rows through a visitor.  The contract of a visitor
  is an invariant of the staged value that each accepted row keeps.
\<close>

locale page_visitor =
  fixes visit :: "'v \<Rightarrow> string \<Rightarrow> 'v res" and staged :: "'v \<Rightarrow> bool"
  assumes visit_keeps: "visit v raw = Inr v' \<Longrightarrow> staged v \<Longrightarrow> staged v'"
begin

lemma rows_keep: "foldR visit v rows = Inr v' \<Longrightarrow> staged v \<Longrightarrow> staged v'"
  by (erule foldR_invariant) (auto dest: visit_keeps)

lemma loop_keeps: "pages_loop fetch visit k seen key v n = (Inr v', n') \<Longrightarrow> staged v \<Longrightarrow> staged v'"
proof (induction k arbitrary: seen key v n)
  case (Suc k)
  from Suc.prems(1) obtain p n1 v1 where "fetch key n = (Inr p, n1)" and f: "foldR visit v (pg_rows p) = Inr v1"
    and r: "pg_next p = [] \<and> v' = v1 \<and> n' = n1 \<or>
     pg_next p \<noteq> [] \<and> pg_next p \<notin> set seen \<and>
     pages_loop fetch visit k (pg_next p # seen) (pg_next p) v1 n1 = (Inr v', n')"
    by (rule pages_loop_step)
  from rows_keep [OF f Suc.prems(2)] r show ?case using Suc.IH by blast
qed (simp add: failO_def)

lemma Pages_keeps: "Pages c path name height limit visit v n = (Inr v', n') \<Longrightarrow> staged v \<Longrightarrow> staged v'"
  by (auto simp: Pages_def bindO_def guardO_def failO_def returnO_def split: if_splits dest: loop_keeps)

end

section \<open>A complete snapshot\<close>

text \<open>The key that a page is fetched with: none for the first, else what the page before named.\<close>

definition key_of :: "page list \<Rightarrow> nat \<Rightarrow> string" where
  "key_of ps i = (case i of 0 \<Rightarrow> [] | Suc j \<Rightarrow> pg_next (ps ! j))"

text \<open>The \<open>n\<close>-th answer is a page of the collection at exactly the requested height.\<close>

definition served :: "lcd_client \<Rightarrow> string \<Rightarrow> string \<Rightarrow> int \<Rightarrow> int \<Rightarrow> nat \<Rightarrow> string \<Rightarrow> page \<Rightarrow> bool" where
  "served c path name height limit n key p \<longleftrightarrow>
     (case lc_http c of
        None \<Rightarrow> False
      | Some http \<Rightarrow>
          (case http n \<lparr>rq_url = trim_right (\<lambda>ch. ch = CHR ''/'') (lc_base c) @ path @ ''?'' @ page_query limit key,
                       rq_height = Some (dec_int height)\<rparr> of
             NoReply e \<Rightarrow> False
           | Reply status headers body \<Rightarrow>
               status = 200 \<and> answered_heights headers \<noteq> [] \<and>
               list_all (\<lambda>v. parse_int64 v = Some height) (answered_heights headers) \<and>
               (case body of Inl e \<Rightarrow> False
                | Inr text \<Rightarrow> int (length text) \<le> max_response \<and> decode_page name text = Inr p)))"

lemma fetch_page_served:
  assumes "fetch_page c path name height limit key n = (Inr p, n')"
  shows "served c path name height limit n key p \<and> n' = Suc n"
  using assms
  by (auto simp: fetch_page_def Get_def lcd_get_def served_def bindO_def guardO_def failO_def returnO_def
      liftO_def exchange_def check_height_def bindR_def guardR_def Let_def
      split: if_splits option.splits lcd_reply.splits sum.splits)

lemma pages_loop_complete:
  assumes "\<And>key n p n'. fetch key n = (Inr p, n') \<Longrightarrow> S n key p \<and> n' = Suc n"
    and "pages_loop fetch visit k seen key v n = (Inr r, n')"
  shows "\<exists>ps. ps \<noteq> [] \<and> length ps \<le> k \<and> n' = n + length ps \<and>
    foldR visit v (concat (map pg_rows ps)) = Inr r \<and>
    S n key (ps ! 0) \<and> (\<forall>i. Suc i < length ps \<longrightarrow> S (n + Suc i) (pg_next (ps ! i)) (ps ! Suc i)) \<and>
    pg_next (last ps) = [] \<and> (\<forall>p \<in> set (butlast ps). pg_next p \<noteq> [] \<and> pg_next p \<notin> set seen) \<and>
    distinct (map pg_next ps)"
  using assms(2)
proof (induction k arbitrary: seen key v n)
  case (Suc k)
  from Suc.prems obtain p n1 v1 where f: "fetch key n = (Inr p, n1)" "foldR visit v (pg_rows p) = Inr v1"
    and r: "pg_next p = [] \<and> r = v1 \<and> n' = n1 \<or>
     pg_next p \<noteq> [] \<and> pg_next p \<notin> set seen \<and>
     pages_loop fetch visit k (pg_next p # seen) (pg_next p) v1 n1 = (Inr r, n')"
    by (rule pages_loop_step)
  have s: "S n key p" and n1: "n1 = Suc n" using assms(1) [OF f(1)] by auto
  show ?case
  proof (cases "pg_next p = []")
    case True
    with r f s n1 show ?thesis by (intro exI [of _ "[p]"]) auto
  next
    case False
    with r obtain ps where ps: "ps \<noteq> []" "length ps \<le> k" "n' = n1 + length ps"
      "foldR visit v1 (concat (map pg_rows ps)) = Inr r" "S n1 (pg_next p) (ps ! 0)"
      "\<forall>i. Suc i < length ps \<longrightarrow> S (n1 + Suc i) (pg_next (ps ! i)) (ps ! Suc i)"
      "pg_next (last ps) = []"
      "\<forall>q \<in> set (butlast ps). pg_next q \<noteq> [] \<and> pg_next q \<notin> set (pg_next p # seen)"
      "distinct (map pg_next ps)"
      using Suc.IH by blast
    have "pg_next p \<notin> pg_next ` set ps"
    proof
      assume "pg_next p \<in> pg_next ` set ps"
      then obtain q where q: "q \<in> set ps" "pg_next q = pg_next p" by auto
      with ps(7) False have "q \<noteq> last ps" by auto
      with q(1) have "q \<in> set (butlast ps)"
        using ps(1) by (metis append_butlast_last_id in_set_conv_decomp_last rotate1.simps(2) set_ConsD set_rotate1)
      with ps(8) q(2) show False by auto
    qed
    moreover have "S (n + Suc i) (pg_next ((p # ps) ! i)) ((p # ps) ! Suc i)" if "Suc i < length (p # ps)" for i
      using that ps(5,6) n1 by (cases i) auto
    moreover have "foldR visit v (concat (map pg_rows (p # ps))) = Inr r"
      using f(2) ps(4) by (simp add: foldR_append)
    ultimately show ?thesis
      using ps f s n1 r False by (intro exI [of _ "p # ps"]) auto
  qed
qed (simp add: failO_def)

text \<open>C29: A snapshot is complete or not there at all.  When \<open>Pages\<close> succeeds it has read a chain of at most
  10,000 pages, each answered at exactly the requested height, the first without a key, every
  other with the key the page before it named, the last naming none and no key named twice; and
  the result is the fold of the visitor over all their rows in order.\<close>

theorem pages_complete:
  assumes "Pages c path name height limit visit v n = (Inr r, n')"
  shows "\<exists>ps. ps \<noteq> [] \<and> length ps \<le> 10000 \<and> n' = n + length ps \<and>
    foldR visit v (concat (map pg_rows ps)) = Inr r \<and>
    (\<forall>i < length ps. served c path name height limit (n + i) (key_of ps i) (ps ! i)) \<and>
    pg_next (last ps) = [] \<and> distinct (map pg_next ps)"
proof -
  from assms have "pages_loop (fetch_page c path name height limit) visit max_pages [] [] v n = (Inr r, n')"
    by (auto simp: Pages_def bindO_def guardO_def failO_def returnO_def split: if_splits)
  from pages_loop_complete [of "fetch_page c path name height limit" "served c path name height limit", OF fetch_page_served this]
  obtain ps where ps: "ps \<noteq> []" "length ps \<le> max_pages" "n' = n + length ps"
      "foldR visit v (concat (map pg_rows ps)) = Inr r" "served c path name height limit n [] (ps ! 0)"
      "\<forall>i. Suc i < length ps \<longrightarrow> served c path name height limit (n + Suc i) (pg_next (ps ! i)) (ps ! Suc i)"
      "pg_next (last ps) = []" "distinct (map pg_next ps)"
    by blast
  have "served c path name height limit (n + i) (key_of ps i) (ps ! i)" if "i < length ps" for i
    using that ps(5,6) by (cases i) (auto simp: key_of_def)
  with ps show ?thesis
    by (intro exI [of _ ps]) (simp add: max_pages_def)
qed

definition example_gateway :: "nat \<Rightarrow> lcd_request \<Rightarrow> lcd_reply" where
  "example_gateway n rq =
     Reply 200 [(''X-Cosmos-Block-Height'', ''7'')]
       (Inr (if n = 0
         then json_marshal (JObj [(''rows'', JArr [JNum ''1'', JNum ''2'']), (''pagination'', JObj [(''next_key'', jstr ''b='')])])
         else json_marshal (JObj [(''rows'', JArr [JNum ''3'']), (''pagination'', JObj [(''next_key'', JNull)])])))"

definition example_lcd :: lcd_client where
  "example_lcd = \<lparr>lc_base = ''http://lcd/'', lc_http = Some example_gateway\<rparr>"

lemma example_fetches:
  "fetch_page example_lcd ''/q'' ''rows'' 7 2 [] 0 = (Inr \<lparr>pg_rows = [''1'', ''2''], pg_next = ''b=''\<rparr>, Suc 0)"
  "fetch_page example_lcd ''/q'' ''rows'' 7 2 ''b='' (Suc 0) = (Inr \<lparr>pg_rows = [''3''], pg_next = []\<rparr>, 2)"
  by code_simp+

lemma pages_loop_again:
  "0 < k \<Longrightarrow> fetch key n = (Inr p, n1) \<Longrightarrow> foldR visit v (pg_rows p) = Inr v1 \<Longrightarrow>
     pages_loop fetch visit k seen key v n =
       (if pg_next p = [] then returnO v1
        else if pg_next p \<in> set seen then failO (errorf ''LCD: repeated pagination key'')
        else pages_loop fetch visit (k - 1) (pg_next p # seen) (pg_next p) v1) n1"
  by (cases k) (simp_all add: bindO_def liftO_def visit_rows_def)

lemma one_page:
  assumes "0 < limit" "fetch_page c path name height limit [] n = (Inr p, n1)" "pg_next p = []"
    "foldR visit v (pg_rows p) = Inr v'"
  shows "Pages c path name height limit visit v n = (Inr v', n1)"
  using assms
  by (simp add: Pages_def max_pages_def bindO_def guardO_def returnO_def pages_loop_again)

lemma example_pages:
  "Pages example_lcd ''/q'' ''rows'' 7 2 (\<lambda>v raw. Inr (v @ [raw])) [] 0 = (Inr [''1'', ''2'', ''3''], 2)"
  by (simp add: Pages_def max_pages_def bindO_def guardO_def returnO_def bindR_def
      pages_loop_again [where fetch = "fetch_page example_lcd ''/q'' ''rows'' 7 2", OF _ example_fetches(1)] pages_loop_again [where fetch = "fetch_page example_lcd ''/q'' ''rows'' 7 2", OF _ example_fetches(2)])

theorem pages_complete_witness:
  "\<exists>ps. ps \<noteq> [] \<and> length ps \<le> 10000 \<and> 2 = 0 + length ps \<and>
    foldR (\<lambda>v raw. Inr (v @ [raw])) [] (concat (map pg_rows ps)) = Inr [''1'', ''2'', ''3''] \<and>
    (\<forall>i < length ps. served example_lcd ''/q'' ''rows'' 7 2 (0 + i) (key_of ps i) (ps ! i)) \<and>
    pg_next (last ps) = [] \<and> distinct (map pg_next ps)"
  by (rule pages_complete [OF example_pages])

end
