(* ===== verification/Json_Facts.thy ===== *)
theory Json_Facts
  imports Payload "HOL-Library.Sublist"
begin

text \<open>
  What the JSON reader consumes: the rest of a text after a value is a suffix of the text,
  and after an object the suffix right behind its closing brace.  So a text that holds an
  object is that object between white space, and \<open>Decode\<close> reads the same object as the check
  of the required fields.
\<close>

lemma suffix_skip [simp]: "suffix (skip_space s) s"
  by (simp add: skip_space_def suffix_dropWhile)

lemma suffix_trans: "suffix a b \<Longrightarrow> suffix b c \<Longrightarrow> suffix a c"
  by (rule suffix_order.trans)

lemma scan_string_suffix: "scan_string s = Some (b, r) \<Longrightarrow> suffix r s"
proof (induction s arbitrary: b r rule: length_induct)
  case (1 s)
  then have step: "scan_string t = Some (b', r') \<Longrightarrow> length t < length s \<Longrightarrow> suffix r' t" for t b' r'
    by blast
  from 1(2) show ?case
    by (cases s) (auto split: if_splits list.splits option.splits prod.splits
        intro!: suffix_ConsI dest!: step)
qed

lemma scan_integer_suffix: "scan_integer s = Some (a, r) \<Longrightarrow> suffix r s"
  by (auto simp: scan_integer_def Let_def split: if_splits intro: suffix_drop suffix_trans)

lemma scan_fraction_suffix: "scan_fraction s = Some (a, r) \<Longrightarrow> suffix r s"
  by (auto simp: scan_fraction_def Let_def split: if_splits intro: suffix_drop)

lemma scan_exponent_suffix: "scan_exponent s = Some (a, r) \<Longrightarrow> suffix r s"
  by (auto simp: scan_exponent_def Let_def split: if_splits list.splits
      intro!: suffix_ConsI intro: suffix_drop suffix_trans)

lemma scan_number_suffix: "scan_number s = Some (a, r) \<Longrightarrow> suffix r s"
  by (auto simp: scan_number_def split: option.splits)
    (meson scan_integer_suffix scan_fraction_suffix scan_exponent_suffix suffix_trans)

lemma skip_Cons: "skip_space s = c # r \<Longrightarrow> suffix (c # r) s"
  by (metis suffix_skip)

lemma value_cases:
  assumes "json_value (Suc n) s = Some (v, r)"
  obtains kvs u where "v = JObj kvs" "json_members n u = Some (kvs, r)" "suffix u s"
  | "v = JObj []" "suffix (CHR ''}'' # r) s"
  | vs u where "v = JArr vs" "json_elements n u = Some (vs, r)" "suffix u s"
  | "\<And>kvs. v \<noteq> JObj kvs" "suffix r s"
proof -
  let ?t = "skip_space s" let ?u = "drop 1 ?t"
  have u: "suffix ?u s" by (meson suffix_drop suffix_trans suffix_skip)
  have w: "suffix (skip_space ?u) s" by (rule suffix_trans [OF suffix_skip u])
  have d: "suffix (drop k ?t) s" for k by (meson suffix_drop suffix_trans suffix_skip)
  have brace: "take 1 (skip_space ?u) = [c] \<Longrightarrow> suffix (c # drop 1 (skip_space ?u)) s" for c
    using w by (cases "skip_space ?u") auto
  from assms show thesis
    using u d w brace
    by (auto simp: Let_def apfst_def map_prod_def split: if_splits prod.splits
        dest!: scan_string_suffix scan_number_suffix
        intro: that(1) that(2) that(3) that(4) suffix_trans [OF _ d [of "Suc 0"]] suffix_trans [OF _ suffix_skip]
          suffix_trans [OF suffix_drop])
qed

lemma json_suffix:
  "(\<forall>v r. json_value n s = Some (v, r) \<longrightarrow> suffix r s) \<and>
   (\<forall>vs r. json_elements n s = Some (vs, r) \<longrightarrow> suffix r s) \<and>
   (\<forall>kvs r. json_members n s = Some (kvs, r) \<longrightarrow> suffix (CHR ''}'' # r) s)"
proof (induction n arbitrary: s)
  case (Suc n)
  have v: "json_value n t = Some (v, r) \<Longrightarrow> suffix r t"
    and e: "json_elements n t = Some (vs, r) \<Longrightarrow> suffix r t"
    and m: "json_members n t = Some (kvs, r) \<Longrightarrow> suffix (CHR ''}'' # r) t" for t v r vs kvs
    using Suc.IH by blast+
  have "suffix r s" if "json_value (Suc n) s = Some (v, r)" for v r
    using that by (rule value_cases) (auto dest!: e m intro: suffix_trans dest: suffix_ConsD)
  moreover have "suffix r s" if "json_elements (Suc n) s = Some (vs, r)" for vs r
  proof -
    from that obtain v' r1 c r2 where v': "json_value n s = Some (v', r1)" "skip_space r1 = c # r2"
      and r: "r = r2 \<or> (\<exists>us. json_elements n r2 = Some (us, r))"
      by (auto simp: apfst_def map_prod_def split: option.splits prod.splits list.splits if_splits)
    have "suffix r2 s" using v [OF v'(1)] skip_Cons [OF v'(2)] by (meson suffix_ConsD suffix_trans)
    with r show ?thesis using e suffix_trans by blast
  qed
  moreover have "suffix (CHR ''}'' # r) s" if "json_members (Suc n) s = Some (kvs, r)" for kvs r
  proof -
    from that obtain k r0 v' r1 c r2 where k: "scan_string (drop 1 (skip_space s)) = Some (k, r0)"
      and v': "json_value n (drop 1 (skip_space r0)) = Some (v', r1)" "skip_space r1 = c # r2"
      and r: "c = CHR ''}'' \<and> r = r2 \<or> (\<exists>us. json_members n r2 = Some (us, r))"
      by (auto simp: Let_def apfst_def map_prod_def split: option.splits prod.splits list.splits if_splits)
    have "suffix r0 s" using scan_string_suffix [OF k] by (meson suffix_drop suffix_skip suffix_trans)
    then have "suffix r1 s" using v [OF v'(1)] by (meson suffix_drop suffix_skip suffix_trans)
    then have c: "suffix (c # r2) s" using skip_Cons [OF v'(2)] suffix_trans by blast
    with r m show ?thesis by (metis suffix_ConsD suffix_trans)
  qed
  ultimately show ?case by blast
qed simp

lemma object_suffix:
  assumes "json_value n s = Some (JObj kvs, r)"
  shows "suffix (CHR ''}'' # r) s"
proof (cases n)
  case (Suc m)
  from assms [unfolded Suc] show ?thesis
    by (rule value_cases) (use json_suffix suffix_trans in blast)+
qed (use assms in simp)

lemma json_space_is_space: "json_space c \<Longrightarrow> is_space c"
  by (auto simp: json_space_def is_space_def)

text \<open>A text between white space.\<close>

definition strip_by :: "(char \<Rightarrow> bool) \<Rightarrow> string \<Rightarrow> string" where
  "strip_by P s = rev (dropWhile P (rev (dropWhile P s)))"

lemma strip_by_unique:
  assumes "list_all P w1" "list_all P w2" "t \<noteq> []" "\<not> P (hd t)" "\<not> P (last t)"
  shows "strip_by P (w1 @ t @ w2) = t"
proof -
  have d: "dropWhile P (w @ u) = u" if "list_all P w" "u \<noteq> []" "\<not> P (hd u)" for w u
    using that by (induction w) (auto simp: neq_Nil_conv)
  have "dropWhile P (w1 @ t @ w2) = t @ w2"
    using assms by (intro d) auto
  moreover have "dropWhile P (rev w2 @ rev t) = rev t"
    using assms by (intro d) (auto simp: hd_rev)
  ultimately show ?thesis by (simp add: strip_by_def)
qed

lemma strip_by_parts:
  obtains w1 w2 where "s = w1 @ strip_by P s @ w2" "list_all P w1" "list_all P w2"
proof
  let ?u = "dropWhile P s"
  have "?u = strip_by P s @ rev (takeWhile P (rev ?u))"
    by (metis rev_append rev_rev_ident strip_by_def takeWhile_dropWhile_id)
  then show "s = takeWhile P s @ strip_by P s @ rev (takeWhile P (rev ?u))"
    by (metis takeWhile_dropWhile_id)
qed (auto simp: list_all_iff dest: set_takeWhileD)

lemma strip_by_ends:
  assumes "strip_by P s \<noteq> []"
  shows "\<not> P (hd (strip_by P s)) \<and> \<not> P (last (strip_by P s))"
proof -
  let ?u = "dropWhile P s"
  have "\<not> P (last (strip_by P s))"
    using assms by (simp add: strip_by_def last_rev hd_dropWhile)
  moreover have "?u \<noteq> []" using assms by (metis dropWhile.simps(1) rev.simps(1) strip_by_def)
  then have "\<not> P (hd ?u)" by (rule hd_dropWhile)
  moreover have "hd (strip_by P s) = hd ?u"
  proof -
    have "?u = strip_by P s @ rev (takeWhile P (rev ?u))"
      by (metis rev_append rev_rev_ident strip_by_def takeWhile_dropWhile_id)
    with assms show ?thesis by (metis hd_append2)
  qed
  ultimately show ?thesis by simp
qed

lemma strip_instances: "json_strip = strip_by json_space" "trim_space = strip_by is_space"
  by (auto simp: fun_eq_iff json_strip_def strip_by_def skip_space_def trim_space_def trim_left_def trim_right_def)

lemma value_head: "json_value (Suc n) t = Some (JObj kvs, r) \<Longrightarrow> skip_space t = t \<Longrightarrow> hd t = CHR ''{''"
  by (simp add: Let_def apfst_def map_prod_def split: if_splits option.splits prod.splits)

lemma object_text:
  assumes "json_text raw = Some (JObj kvs)"
  shows "trim_space raw = json_strip raw" "hd (json_strip raw) = CHR ''{''" "json_strip raw \<noteq> []"
    "json_strip (json_strip raw) = json_strip raw"
proof -
  let ?t = "json_strip raw"
  from assms have v: "json_value (2 * length ?t + 2) ?t = Some (JObj kvs, [])"
    by (auto simp: json_text_def Let_def simp del: json_value.simps split: option.splits prod.splits if_splits)
  from object_suffix [OF v] have last: "?t \<noteq> []" "last ?t = CHR ''}''"
    by (auto simp: suffix_def)
  then have ends: "\<not> json_space (hd ?t)"
    using strip_by_ends [of json_space raw] by (simp add: strip_instances)
  then have skip: "skip_space ?t = ?t"
    using last(1) by (cases ?t) (auto simp: skip_space_def)
  show hd: "hd ?t = CHR ''{''"
    
    by (rule value_head [OF v [unfolded add_2_eq_Suc'] skip])
  show "?t \<noteq> []" by fact
  have nospace: "\<not> is_space (hd ?t)" "\<not> is_space (last ?t)" "\<not> json_space (last ?t)"
    by (simp_all add: hd last is_space_def json_space_def)
  obtain w1 w2 where w: "raw = w1 @ ?t @ w2" "list_all json_space w1" "list_all json_space w2"
    using strip_by_parts [of raw json_space] by (auto simp: strip_instances)
  then have "list_all is_space w1" "list_all is_space w2"
    by (auto simp: list_all_iff json_space_is_space)
  then have "strip_by is_space (w1 @ ?t @ w2) = ?t"
    using last(1) nospace by (intro strip_by_unique)
  then show "trim_space raw = ?t" using w(1) by (simp add: strip_instances)
  have "strip_by json_space ([] @ ?t @ []) = ?t"
    using last(1) nospace ends by (intro strip_by_unique) simp_all
  then show "json_strip ?t = ?t" by (simp add: strip_instances)
qed

lemma Decode_object:
  assumes "raw_object raw = Some kvs"
  shows "Decode raw struct = struct kvs"
proof -
  from assms have o: "json_text raw = Some (JObj kvs)"
    by (auto simp: raw_object_def split: option.splits json.splits)
  note t = object_text [OF o]
  have peel: "peel (json_strip raw) = Inl (json_strip raw)"
    using t(2) by (simp add: peel_def quote_def)
  have "UnwrapJSONString raw = json_strip raw"
    by (simp add: UnwrapJSONString_def t(1) numeral_eq_Suc peel)
  moreover have "json_text (json_strip raw) = json_text raw"
    by (simp add: json_text_def t(4))
  moreover have "raw \<noteq> []" using t(3) by (auto simp: json_strip_def skip_space_def)
  ultimately show ?thesis by (simp add: Decode_def o)
qed

text \<open>An accepted required payload: the checked object is the decoded one.\<close>

lemma DecodeRequired_Inr:
  assumes "DecodeRequired raw struct names = Inr x"
  obtains kvs where "struct kvs = Inr x"
    "\<And>name. name \<in> set names \<Longrightarrow> \<exists>v. raw_member kvs name = Some v \<and> v \<noteq> JNull"
  using assms
  by (auto simp: DecodeRequired_def bindR_def Decode_object require_fields_Inr split: option.splits sum.splits)

text \<open>A field that is there has the value of its decoder, whatever was there before.\<close>

lemma present_decoded:
  assumes "field name dec zero obj = Inr x" "raw_member obj name = Some v"
  obtains w old where "dec w old = Inr x"
proof -
  have "equal_fold name name" by (simp add: equal_fold_def)
  moreover from assms(2) have "(name, v) \<in> set obj"
    by (auto simp: raw_member_def dest: map_of_SomeD)
  ultimately have ne: "filter (\<lambda>kv. equal_fold (fst kv) name) obj \<noteq> []"
    by (force simp: filter_empty_conv)
  have found: "\<exists>w old. dec w old = Inr x" if "foldR (\<lambda>old kv. dec (snd kv) old) z ks = Inr x" "ks \<noteq> []" for z ks
    using that by (induction ks arbitrary: z) (auto simp: bindR_def neq_Nil_conv split: sum.splits, (case_tac ks; auto)+)
  from found [OF assms(1) [unfolded field_def] ne] that show thesis by blast
qed

end
