(* ===== verification/Snapshot.thy ===== *)
theory Snapshot
  imports Lcd Native Json_Facts
begin

text \<open>
  \<open>internal/staking/snapshot.go\<close>: reading the staking claims of one address at one height from
  the gateway.  The rows of three paged collections are staged; the snapshot exists only when
  every page of all three has been read and every row has been accepted.
\<close>

section \<open>Fields\<close>

record limits =
  lm_page :: int
  lm_pairs :: nat
  lm_entries :: nat

definition coinAmount :: "string decoder" where
  "coinAmount v old =
     bindR (Natural v old) (\<lambda>n.
     bindR (guardR (int (nat_of_digits n) < 2 ^ 256) (errorf ''native staking amount exceeds SDK integer range'')) (\<lambda>_.
     Inr n))"

text \<open>An \<open>int64\<close> with the tag option \<open>string\<close>.\<close>

definition QuotedInt :: "int decoder" where
  "QuotedInt v old =
     (case v of
        JNull \<Rightarrow> Inr old
      | JStr body \<Rightarrow>
          (let s = unquote body in
           if s = ''null'' then Inr old
           else if s = [] \<or> \<not> (hd s = CHR ''-'' \<or> is_digit (hd s)) then Inl (errorf ''invalid use of ,string struct tag'')
           else (case parse_int64 s of
               None \<Rightarrow> Inl (errorf ''cannot unmarshal number into int64'')
             | Some n \<Rightarrow> Inr n))
      | _ \<Rightarrow> Inl (errorf ''invalid use of ,string struct tag''))"

definition RawList :: "string list decoder" where
  "RawList v old =
     (case v of
        JNull \<Rightarrow> Inr []
      | JArr vs \<Rightarrow> Inr (map json_marshal vs)
      | _ \<Rightarrow> Inl (errorf ''cannot unmarshal into []json.RawMessage''))"

definition validShares :: "string \<Rightarrow> bool" where
  "validShares value =
     (case cut_at (CHR ''.'') value of
        None \<Rightarrow> naturalTotal value
      | Some (whole, part) \<Rightarrow> naturalTotal whole \<and> part \<noteq> [] \<and> length part \<le> 18 \<and> all_digits part)"

record entryJSON =
  ej_creation :: int
  ej_completion :: int
  ej_initial :: string
  ej_balance :: string
  ej_shares :: string
  ej_id :: "64 word"
  ej_hold :: int

definition entry_fields :: "(string \<times> json) list \<Rightarrow> entryJSON res" where
  "entry_fields obj =
     bindR (field ''creation_height'' QuotedInt 0 obj) (\<lambda>creation.
     bindR (field ''completion_time'' Timestamp zero_time obj) (\<lambda>completion.
     bindR (field ''initial_balance'' coinAmount [] obj) (\<lambda>initial.
     bindR (field ''balance'' coinAmount [] obj) (\<lambda>balance.
     bindR (text_field ''shares_dst'' obj) (\<lambda>shares.
     bindR (uint_field ''unbonding_id'' obj) (\<lambda>ident.
     bindR (field ''unbonding_on_hold_ref_count'' QuotedInt 0 obj) (\<lambda>hold.
     Inr \<lparr>ej_creation = creation, ej_completion = completion, ej_initial = initial,
          ej_balance = balance, ej_shares = shares, ej_id = ident, ej_hold = hold\<rparr>)))))))"

definition decodeEntry :: "string \<Rightarrow> int \<Rightarrow> string \<Rightarrow> entryJSON res" where
  "decodeEntry raw height value_field =
     bindR (DecodeRequired raw entry_fields
       [''creation_height'', ''completion_time'', ''initial_balance'', ''unbonding_id'',
        ''unbonding_on_hold_ref_count'', value_field]) (\<lambda>e.
     bindR (guardR (\<not> (ej_creation e < 0 \<or> height < ej_creation e \<or> ej_completion e = zero_time \<or> ej_hold e < 0))
       (errorf ''invalid staking entry height, time or hold count'')) (\<lambda>_.
     Inr e))"

definition checkPair :: "string \<Rightarrow> string \<Rightarrow> string \<Rightarrow> unit res" where
  "checkPair address delegator validator =
     guardR (delegator = address \<and> validAddress validator validator_prefix)
       (errorf ''native staking response has wrong delegator or invalid validator'')"

section \<open>The budget\<close>

record budget =
  bg_pairs :: "string list"
  bg_ids :: "64 word list"
  bg_entries :: nat

definition budget_pair :: "limits \<Rightarrow> string \<Rightarrow> budget \<Rightarrow> budget res" where
  "budget_pair lm key b =
     bindR (guardR (key \<notin> set (bg_pairs b)) (errorf ''duplicate native staking pair'')) (\<lambda>_.
     let b' = b\<lparr>bg_pairs := key # bg_pairs b\<rparr> in
     bindR (guardR (length (bg_pairs b') \<le> lm_pairs lm) (errorf ''native staking snapshot exceeds pairs'')) (\<lambda>_.
     Inr b'))"

definition budget_entry :: "limits \<Rightarrow> 64 word \<Rightarrow> budget \<Rightarrow> budget res" where
  "budget_entry lm ident b =
     (let b' = b\<lparr>bg_entries := Suc (bg_entries b)\<rparr> in
      bindR (guardR (bg_entries b' \<le> lm_entries lm) (errorf ''native staking snapshot exceeds entries'')) (\<lambda>_.
      if ident = 0 then Inr b'
      else bindR (guardR (ident \<notin> set (bg_ids b')) (errorf ''duplicate native staking entry ID'')) (\<lambda>_.
        Inr (b'\<lparr>bg_ids := ident # bg_ids b'\<rparr>))))"

section \<open>Rows\<close>

record staging =
  sg_budget :: budget
  sg_delegations :: "delegation list"
  sg_unbondings :: "unbonding list"
  sg_redelegations :: "redelegation list"
  sg_bonded :: int
  sg_unbonding :: int

definition amount_int :: "string \<Rightarrow> int" where
  "amount_int s = (case big_of_string s of None \<Rightarrow> 0 | Some v \<Rightarrow> v)"

definition visit_delegation :: "limits \<Rightarrow> string \<Rightarrow> staging \<Rightarrow> string \<Rightarrow> staging res" where
  "visit_delegation lm address g raw =
     bindR (DecodeRequired raw (\<lambda>obj.
       bindR (field ''delegation'' RawValue [] obj) (\<lambda>d.
       bindR (field ''balance'' RawValue [] obj) (\<lambda>b. Inr (d, b)))) [''delegation'', ''balance'']) (\<lambda>(raw_delegation, raw_balance).
     bindR (DecodeRequired raw_delegation (\<lambda>obj.
       bindR (text_field ''delegator_address'' obj) (\<lambda>delegator.
       bindR (text_field ''validator_address'' obj) (\<lambda>validator.
       bindR (text_field ''shares'' obj) (\<lambda>shares. Inr (delegator, validator, shares)))))
       [''delegator_address'', ''validator_address'', ''shares'']) (\<lambda>(delegator, validator, shares).
     bindR (checkPair address delegator validator) (\<lambda>_.
     bindR (budget_pair lm (''d/'' @ validator) (sg_budget g)) (\<lambda>b.
     bindR (guardR (validShares shares) (errorf ''invalid delegation shares'')) (\<lambda>_.
     bindR (DecodeRequired raw_balance (\<lambda>obj.
       bindR (text_field ''denom'' obj) (\<lambda>denom.
       bindR (field ''amount'' coinAmount [] obj) (\<lambda>amount. Inr (denom, amount))))
       [''denom'', ''amount'']) (\<lambda>(denom, amount).
     bindR (guardR (denom = ''ualpha'') (errorf ''unexpected staking denomination'')) (\<lambda>_.
     Inr (g\<lparr>sg_budget := b, sg_bonded := sg_bonded g + amount_int amount,
       sg_delegations := sg_delegations g @
         [\<lparr>dl_validator = validator, dl_shares = shares, dl_balance = amount\<rparr>]\<rparr>))))))))"

definition visit_unbonding_entry :: "limits \<Rightarrow> int \<Rightarrow> string \<Rightarrow> staging \<Rightarrow> string \<Rightarrow> staging res" where
  "visit_unbonding_entry lm height validator g raw =
     bindR (decodeEntry raw height ''balance'') (\<lambda>e.
     bindR (budget_entry lm (ej_id e) (sg_budget g)) (\<lambda>b.
     bindR (guardR (amount_int (ej_balance e) \<le> amount_int (ej_initial e))
       (errorf ''unbonding balance exceeds its initial balance'')) (\<lambda>_.
     Inr (g\<lparr>sg_budget := b, sg_unbonding := sg_unbonding g + amount_int (ej_balance e),
       sg_unbondings := sg_unbondings g @
         [\<lparr>un_validator = validator, un_creation = ej_creation e, un_completion = ej_completion e,
           un_initial = ej_initial e, un_balance = ej_balance e, un_id = ej_id e, un_hold = ej_hold e\<rparr>]\<rparr>))))"

definition visit_unbonding :: "limits \<Rightarrow> string \<Rightarrow> int \<Rightarrow> staging \<Rightarrow> string \<Rightarrow> staging res" where
  "visit_unbonding lm address height g raw =
     bindR (DecodeRequired raw (\<lambda>obj.
       bindR (text_field ''delegator_address'' obj) (\<lambda>delegator.
       bindR (text_field ''validator_address'' obj) (\<lambda>validator.
       bindR (field ''entries'' RawList [] obj) (\<lambda>entries. Inr (delegator, validator, entries)))))
       [''delegator_address'', ''validator_address'', ''entries'']) (\<lambda>(delegator, validator, entries).
     bindR (checkPair address delegator validator) (\<lambda>_.
     bindR (budget_pair lm (''u/'' @ validator) (sg_budget g)) (\<lambda>b.
     foldR (visit_unbonding_entry lm height validator) (g\<lparr>sg_budget := b\<rparr>) entries)))"

definition visit_redelegation_entry ::
  "limits \<Rightarrow> int \<Rightarrow> string \<Rightarrow> string \<Rightarrow> staging \<Rightarrow> string \<Rightarrow> staging res" where
  "visit_redelegation_entry lm height source destination g raw =
     bindR (DecodeRequired raw (\<lambda>obj.
       bindR (field ''redelegation_entry'' RawValue [] obj) (\<lambda>e.
       bindR (field ''balance'' coinAmount [] obj) (\<lambda>balance. Inr (e, balance))))
       [''redelegation_entry'', ''balance'']) (\<lambda>(raw_entry, balance).
     bindR (decodeEntry raw_entry height ''shares_dst'') (\<lambda>e.
     bindR (guardR (validShares (ej_shares e)) (errorf ''invalid redelegation shares'')) (\<lambda>_.
     bindR (budget_entry lm (ej_id e) (sg_budget g)) (\<lambda>b.
     Inr (g\<lparr>sg_budget := b,
       sg_redelegations := sg_redelegations g @
         [\<lparr>rl_source = source, rl_destination = destination, rl_creation = ej_creation e,
           rl_completion = ej_completion e, rl_initial = ej_initial e, rl_shares = ej_shares e,
           rl_balance = balance, rl_id = ej_id e\<rparr>]\<rparr>)))))"

definition visit_redelegation :: "limits \<Rightarrow> string \<Rightarrow> int \<Rightarrow> staging \<Rightarrow> string \<Rightarrow> staging res" where
  "visit_redelegation lm address height g raw =
     bindR (DecodeRequired raw (\<lambda>obj.
       bindR (field ''redelegation'' RawValue [] obj) (\<lambda>r.
       bindR (field ''entries'' RawList [] obj) (\<lambda>entries. Inr (r, entries))))
       [''redelegation'', ''entries'']) (\<lambda>(raw_redelegation, entries).
     bindR (DecodeRequired raw_redelegation (\<lambda>obj.
       bindR (text_field ''delegator_address'' obj) (\<lambda>delegator.
       bindR (text_field ''validator_src_address'' obj) (\<lambda>source.
       bindR (text_field ''validator_dst_address'' obj) (\<lambda>destination. Inr (delegator, source, destination)))))
       [''delegator_address'', ''validator_src_address'', ''validator_dst_address'']) (\<lambda>(delegator, source, destination).
     bindR (checkPair address delegator source) (\<lambda>_.
     bindR (guardR (validAddress destination validator_prefix \<and> source \<noteq> destination)
       (errorf ''invalid redelegation destination'')) (\<lambda>_.
     bindR (budget_pair lm (''r/'' @ source @ ''/'' @ destination) (sg_budget g)) (\<lambda>b.
     foldR (visit_redelegation_entry lm height source destination) (g\<lparr>sg_budget := b\<rparr>) entries)))))"

section \<open>Fetch\<close>

definition empty_staging :: staging where
  "empty_staging =
     \<lparr>sg_budget = \<lparr>bg_pairs = [], bg_ids = [], bg_entries = 0\<rparr>,
      sg_delegations = [], sg_unbondings = [], sg_redelegations = [], sg_bonded = 0, sg_unbonding = 0\<rparr>"

definition snapshot_of :: "string \<Rightarrow> string \<Rightarrow> int \<Rightarrow> staging \<Rightarrow> snapshot" where
  "snapshot_of chain address height g =
     \<lparr>sn_chain = chain, sn_address = address, sn_height = height,
      sn_delegations = sg_delegations g, sn_unbondings = sg_unbondings g,
      sn_redelegations = sg_redelegations g,
      sn_bonded = dec_int (sg_bonded g), sn_unbonding = dec_int (sg_unbonding g)\<rparr>"

definition Fetch :: "lcd_client \<Rightarrow> string \<Rightarrow> string \<Rightarrow> int \<Rightarrow> limits \<Rightarrow> (nat, snapshot) op" where
  "Fetch c chain address height lm =
     bindO (guardO (\<not> (height \<le> 0 \<or> lm_page lm \<le> 0 \<or> lm_pairs lm = 0 \<or> lm_entries lm = 0))
       (errorf ''native staking snapshot needs positive height and limits'')) (\<lambda>_.
     bindO (guardO (validAddress address account_prefix) (errorf ''invalid native delegator address'')) (\<lambda>_.
     bindO (ValidateChain c chain) (\<lambda>_.
     bindO (Pages c (''/cosmos/staking/v1beta1/delegations/'' @ PathEscape address)
       ''delegation_responses'' height (lm_page lm) (visit_delegation lm address) empty_staging) (\<lambda>g1.
     bindO (Pages c (''/cosmos/staking/v1beta1/delegators/'' @ PathEscape address @ ''/unbonding_delegations'')
       ''unbonding_responses'' height (lm_page lm) (visit_unbonding lm address height) g1) (\<lambda>g2.
     bindO (Pages c (''/cosmos/staking/v1beta1/delegators/'' @ PathEscape address @ ''/redelegations'')
       ''redelegation_responses'' height (lm_page lm) (visit_redelegation lm address height) g2) (\<lambda>g.
     returnO (snapshot_of chain address height g)))))))"

end
