(* ===== verification/Snapshot_Facts.thy ===== *)
theory Snapshot_Facts
  imports Snapshot Native_Facts
begin

text \<open>
  What a fetched snapshot guarantees: it is within its limits, names no pair and no entry
  twice, and its totals are the exact sums of its rows, so that \<open>positionTotals\<close>, which guards
  the publication, accepts it.
\<close>

section \<open>Decoded rows\<close>

lemma Natural_natural: "Natural v old = Inr n \<Longrightarrow> naturalTotal n"
proof -
  assume "Natural v old = Inr n"
  then obtain s where s: "list_all is_digit s" and n: "n = (if trim_left (\<lambda>c. c = CHR ''0'') s = [] then ''0'' else trim_left (\<lambda>c. c = CHR ''0'') s)"
    by (auto simp: Natural_def unsignedText_def bindR_def Let_def split: if_splits sum.splits json.splits)
  have "list_all is_digit (trim_left (\<lambda>c. c = CHR ''0'') s)"
    using s by (auto simp: trim_left_def list_all_iff dest: set_dropWhileD)
  moreover have "trim_left (\<lambda>c. c = CHR ''0'') s \<noteq> [] \<Longrightarrow> hd (trim_left (\<lambda>c. c = CHR ''0'') s) \<noteq> CHR ''0''"
    unfolding trim_left_def by (rule hd_dropWhile)
  ultimately show ?thesis by (auto simp: n naturalTotal_def is_digit_def)
qed

lemma coinAmount_natural: "coinAmount v old = Inr n \<Longrightarrow> naturalTotal n"
  by (auto simp: coinAmount_def res_simps dest: Natural_natural)

lemma naturalTotal_int: "naturalTotal s \<Longrightarrow> amount_int s = int (nat_of_digits s)"
  by (auto simp: naturalTotal_def amount_int_def big_of_string_def all_digits_def is_digit_def neq_Nil_conv)

lemma present_natural:
  assumes "field name coinAmount [] kvs = Inr n" "raw_member kvs name = Some v"
  shows "naturalTotal n"
  using assms by (rule present_decoded) (rule coinAmount_natural)

lemma decodeEntry_Inr:
  assumes "decodeEntry raw height value_field = Inr e"
  shows "0 \<le> ej_creation e \<and> ej_creation e \<le> height \<and> 0 \<le> ej_hold e \<and> naturalTotal (ej_initial e) \<and>
    (value_field = ''balance'' \<longrightarrow> naturalTotal (ej_balance e))"
proof -
  from assms have d: "DecodeRequired raw entry_fields
       [''creation_height'', ''completion_time'', ''initial_balance'', ''unbonding_id'',
        ''unbonding_on_hold_ref_count'', value_field] = Inr e"
    and r: "0 \<le> ej_creation e \<and> ej_creation e \<le> height \<and> 0 \<le> ej_hold e"
    by (auto simp: decodeEntry_def res_simps)
  from d show ?thesis
  proof (rule DecodeRequired_Inr)
    fix kvs
    assume f: "entry_fields kvs = Inr e"
      and m: "\<And>name. name \<in> set [''creation_height'', ''completion_time'', ''initial_balance'', ''unbonding_id'',
        ''unbonding_on_hold_ref_count'', value_field] \<Longrightarrow> \<exists>v. raw_member kvs name = Some v \<and> v \<noteq> JNull"
    from f have "field ''initial_balance'' coinAmount [] kvs = Inr (ej_initial e)"
      "field ''balance'' coinAmount [] kvs = Inr (ej_balance e)"
      by (auto simp: entry_fields_def res_simps)
    moreover have "\<exists>v. raw_member kvs ''initial_balance'' = Some v" "\<exists>v. raw_member kvs value_field = Some v"
      using m [of "''initial_balance''"] m [of value_field] by auto
    ultimately show ?thesis using r present_natural by blast
  qed
qed

section \<open>Staged rows\<close>

lemma budget_pair_Inr:
  "budget_pair lm key b = Inr b' \<longleftrightarrow>
     key \<notin> set (bg_pairs b) \<and> length (bg_pairs b) < lm_pairs lm \<and> b' = b\<lparr>bg_pairs := key # bg_pairs b\<rparr>"
  by (auto simp: budget_pair_def res_simps Let_def)

lemma budget_entry_Inr:
  "budget_entry lm i b = Inr b' \<longleftrightarrow>
     bg_entries b < lm_entries lm \<and> (i \<noteq> 0 \<longrightarrow> i \<notin> set (bg_ids b)) \<and>
     b' = b\<lparr>bg_entries := Suc (bg_entries b), bg_ids := (if i = 0 then bg_ids b else i # bg_ids b)\<rparr>"
  by (auto simp: budget_entry_def res_simps Let_def)

definition staged_ids :: "staging \<Rightarrow> 64 word list" where
  "staged_ids g = filter (\<lambda>i. i \<noteq> 0) (map un_id (sg_unbondings g) @ map rl_id (sg_redelegations g))"

definition within_budget :: "limits \<Rightarrow> staging \<Rightarrow> bool" where
  "within_budget lm g \<longleftrightarrow>
     distinct (bg_pairs (sg_budget g)) \<and> length (bg_pairs (sg_budget g)) \<le> lm_pairs lm \<and>
     bg_entries (sg_budget g) = length (sg_unbondings g) + length (sg_redelegations g) \<and>
     bg_entries (sg_budget g) \<le> lm_entries lm \<and>
     distinct (staged_ids g) \<and> set (staged_ids g) = set (bg_ids (sg_budget g))"

definition delegations_ok :: "staging \<Rightarrow> bool" where
  "delegations_ok g \<longleftrightarrow>
     distinct (map dl_validator (sg_delegations g)) \<and>
     list_all (\<lambda>x. ''d/'' @ dl_validator x \<in> set (bg_pairs (sg_budget g)) \<and>
        validAddress (dl_validator x) validator_prefix \<and> naturalTotal (dl_balance x)) (sg_delegations g) \<and>
     sg_bonded g = int (sum_list (map (\<lambda>x. nat_of_digits (dl_balance x)) (sg_delegations g)))"

definition unbonding_ok :: "int \<Rightarrow> unbonding \<Rightarrow> bool" where
  "unbonding_ok height u \<longleftrightarrow>
     validAddress (un_validator u) validator_prefix \<and> naturalTotal (un_balance u) \<and>
     nat_of_digits (un_balance u) \<le> nat_of_digits (un_initial u) \<and>
     0 \<le> un_creation u \<and> un_creation u \<le> height \<and> 0 \<le> un_hold u"

definition redelegation_ok :: "int \<Rightarrow> redelegation \<Rightarrow> bool" where
  "redelegation_ok height r \<longleftrightarrow>
     validAddress (rl_source r) validator_prefix \<and> validAddress (rl_destination r) validator_prefix \<and>
     rl_source r \<noteq> rl_destination r \<and> 0 \<le> rl_creation r \<and> rl_creation r \<le> height"

definition staged_ok :: "limits \<Rightarrow> int \<Rightarrow> staging \<Rightarrow> bool" where
  "staged_ok lm height g \<longleftrightarrow>
     within_budget lm g \<and> delegations_ok g \<and>
     list_all (unbonding_ok height) (sg_unbondings g) \<and>
     list_all (redelegation_ok height) (sg_redelegations g) \<and>
     sg_unbonding g = int (sum_list (map (\<lambda>u. nat_of_digits (un_balance u)) (sg_unbondings g)))"

lemmas staged_defs = staged_ok_def within_budget_def delegations_ok_def staged_ids_def

text \<open>A pair is entered before the entries of its row.\<close>

lemma pair_staged:
  "staged_ok lm height g \<Longrightarrow> budget_pair lm key (sg_budget g) = Inr b \<Longrightarrow> staged_ok lm height (g\<lparr>sg_budget := b\<rparr>)"
  by (auto simp: staged_defs budget_pair_Inr list_all_iff)

lemma unbonding_entry_staged:
  assumes "visit_unbonding_entry lm height v g raw = Inr g'" "staged_ok lm height g" "validAddress v validator_prefix"
  shows "staged_ok lm height g'"
proof -
  from assms(1) obtain e b where e: "decodeEntry raw height ''balance'' = Inr e"
    and b: "budget_entry lm (ej_id e) (sg_budget g) = Inr b"
    and le: "amount_int (ej_balance e) \<le> amount_int (ej_initial e)"
    and g': "g' = g\<lparr>sg_budget := b, sg_unbonding := sg_unbonding g + amount_int (ej_balance e),
       sg_unbondings := sg_unbondings g @
         [\<lparr>un_validator = v, un_creation = ej_creation e, un_completion = ej_completion e,
           un_initial = ej_initial e, un_balance = ej_balance e, un_id = ej_id e, un_hold = ej_hold e\<rparr>]\<rparr>"
    by (auto simp: visit_unbonding_entry_def res_simps)
  note d = decodeEntry_Inr [OF e]
  have "unbonding_ok height (last (sg_unbondings g'))"
    using d le assms(3) by (simp add: g' unbonding_ok_def naturalTotal_int)
  with assms(2) b d show ?thesis
    by (auto simp: g' staged_defs budget_entry_Inr naturalTotal_int)
qed

lemma redelegation_entry_staged:
  assumes "visit_redelegation_entry lm height s v g raw = Inr g'" "staged_ok lm height g"
    "validAddress s validator_prefix" "validAddress v validator_prefix" "s \<noteq> v"
  shows "staged_ok lm height g'"
proof -
  from assms(1) obtain raw' balance e b where e: "decodeEntry raw' height ''shares_dst'' = Inr e"
    and b: "budget_entry lm (ej_id e) (sg_budget g) = Inr b"
    and g': "g' = g\<lparr>sg_budget := b,
       sg_redelegations := sg_redelegations g @
         [\<lparr>rl_source = s, rl_destination = v, rl_creation = ej_creation e,
           rl_completion = ej_completion e, rl_initial = ej_initial e, rl_shares = ej_shares e,
           rl_balance = balance, rl_id = ej_id e\<rparr>]\<rparr>"
    by (auto simp: visit_redelegation_entry_def res_simps)
  have "redelegation_ok height (last (sg_redelegations g'))"
    using decodeEntry_Inr [OF e] assms(3-5) by (simp add: g' redelegation_ok_def)
  with assms(2) b show ?thesis
    by (auto simp: g' staged_defs budget_entry_Inr)
qed

lemma delegation_staged:
  assumes "visit_delegation lm address g raw = Inr g'" "staged_ok lm height g"
  shows "staged_ok lm height g'"
proof -
  from assms(1) obtain v sh bal raw_balance b denom where
    v: "validAddress v validator_prefix"
    and b: "budget_pair lm (''d/'' @ v) (sg_budget g) = Inr b"
    and bal: "DecodeRequired raw_balance (\<lambda>obj.
       bindR (text_field ''denom'' obj) (\<lambda>denom.
       bindR (field ''amount'' coinAmount [] obj) (\<lambda>amount. Inr (denom, amount)))) [''denom'', ''amount''] = Inr (denom, bal)"
    and g': "g' = g\<lparr>sg_budget := b, sg_bonded := sg_bonded g + amount_int bal,
       sg_delegations := sg_delegations g @ [\<lparr>dl_validator = v, dl_shares = sh, dl_balance = bal\<rparr>]\<rparr>"
    by (auto simp: visit_delegation_def checkPair_def res_simps)
  from bal have n: "naturalTotal bal"
  proof (rule DecodeRequired_Inr)
    fix kvs
    assume "bindR (text_field ''denom'' kvs) (\<lambda>denom.
       bindR (field ''amount'' coinAmount [] kvs) (\<lambda>amount. Inr (denom, amount))) = Inr (denom, bal)"
      and "\<And>name. name \<in> set [''denom'', ''amount''] \<Longrightarrow> \<exists>v. raw_member kvs name = Some v \<and> v \<noteq> JNull"
    then show ?thesis by (fastforce simp: res_simps dest: present_natural)
  qed
  from assms(2) b have "v \<notin> dl_validator ` set (sg_delegations g)"
    by (auto simp: staged_defs budget_pair_Inr list_all_iff)
  with assms(2) b v n show ?thesis
    by (auto simp: g' staged_defs budget_pair_Inr naturalTotal_int list_all_iff)
qed

lemma unbonding_staged:
  assumes "visit_unbonding lm address height g raw = Inr g'" "staged_ok lm height g"
  shows "staged_ok lm height g'"
proof -
  from assms(1) obtain v entries b where "validAddress v validator_prefix"
    "budget_pair lm (''u/'' @ v) (sg_budget g) = Inr b"
    "foldR (visit_unbonding_entry lm height v) (g\<lparr>sg_budget := b\<rparr>) entries = Inr g'"
    by (auto simp: visit_unbonding_def checkPair_def res_simps)
  then show ?thesis
    using pair_staged [OF assms(2)] by (elim foldR_invariant) (auto intro: unbonding_entry_staged)
qed

lemma redelegation_staged:
  assumes "visit_redelegation lm address height g raw = Inr g'" "staged_ok lm height g"
  shows "staged_ok lm height g'"
proof -
  from assms(1) obtain s v entries b where "validAddress s validator_prefix" "validAddress v validator_prefix" "s \<noteq> v"
    "budget_pair lm (''r/'' @ s @ ''/'' @ v) (sg_budget g) = Inr b"
    "foldR (visit_redelegation_entry lm height s v) (g\<lparr>sg_budget := b\<rparr>) entries = Inr g'"
    by (auto simp: visit_redelegation_def checkPair_def res_simps)
  then show ?thesis
    using pair_staged [OF assms(2)] by (elim foldR_invariant) (auto intro: redelegation_entry_staged)
qed

interpretation delegation_pages: page_visitor "visit_delegation lm address" "staged_ok lm height"
  by unfold_locales (rule delegation_staged)

interpretation unbonding_pages: page_visitor "visit_unbonding lm address height" "staged_ok lm height"
  by unfold_locales (rule unbonding_staged)

interpretation redelegation_pages: page_visitor "visit_redelegation lm address height" "staged_ok lm height"
  by unfold_locales (rule redelegation_staged)

section \<open>A fetched snapshot is accepted\<close>

lemma empty_staged: "staged_ok lm height empty_staging"
  by (simp add: staged_defs empty_staging_def)

lemma Fetch_staged:
  assumes "Fetch c chain address height lm n = (Inr s, n')"
  obtains g where "staged_ok lm height g" "s = snapshot_of chain address height g"
    "0 < height" "validAddress address account_prefix"
proof -
  from assms obtain n1 n2 n3 g1 g2 g where
    p: "0 < height" "validAddress address account_prefix"
    and g1: "Pages c (''/cosmos/staking/v1beta1/delegations/'' @ PathEscape address)
       ''delegation_responses'' height (lm_page lm) (visit_delegation lm address) empty_staging n1 = (Inr g1, n2)"
    and g2: "Pages c (''/cosmos/staking/v1beta1/delegators/'' @ PathEscape address @ ''/unbonding_delegations'')
       ''unbonding_responses'' height (lm_page lm) (visit_unbonding lm address height) g1 n2 = (Inr g2, n3)"
    and g: "Pages c (''/cosmos/staking/v1beta1/delegators/'' @ PathEscape address @ ''/redelegations'')
       ''redelegation_responses'' height (lm_page lm) (visit_redelegation lm address height) g2 n3 = (Inr g, n')"
    and s: "s = snapshot_of chain address height g"
    unfolding Fetch_def
    by (auto simp: bindO_def guardO_def returnO_def failO_def split: prod.splits sum.splits if_splits)
  have "staged_ok lm height g"
    by (rule redelegation_pages.Pages_keeps [OF g unbonding_pages.Pages_keeps [OF g2 delegation_pages.Pages_keeps [OF g1 empty_staged]]])
  from that [OF this s p] show thesis .
qed

lemma unbonding_fold:
  "list_all (\<lambda>u. naturalTotal (un_balance u)) us \<Longrightarrow> \<exists>t'. foldR add_unbonding t us = Inr t'"
  by (induction us arbitrary: t) (auto simp: add_unbonding_def Let_def)

lemma delegation_fold:
  "distinct (map dl_validator ds) \<Longrightarrow> dl_validator ` set ds \<inter> set seen = {} \<Longrightarrow>
     list_all (\<lambda>x. naturalTotal (dl_balance x)) ds \<Longrightarrow> \<exists>st. foldR add_delegation (seen, t) ds = Inr st"
  by (induction ds arbitrary: seen t) (auto simp: add_delegation_def)

lemma naturalTotal_dec_nat: "naturalTotal (dec_nat n)"
  using canonical_dec_nat [of n] all_digits_dec_nat [of n] nat_of_digits_dec_nat [of n]
  by (auto simp: naturalTotal_def canonical_nat_def all_digits_def)

lemma staged_positions:
  assumes "staged_ok lm height g"
  shows "\<exists>ps. positionTotals (snapshot_of chain address height g) = Inr ps"
proof -
  let ?s = "snapshot_of chain address height g"
  have ds: "distinct (map dl_validator (sg_delegations g))"
    "list_all (\<lambda>x. naturalTotal (dl_balance x)) (sg_delegations g)"
    and us: "list_all (\<lambda>u. naturalTotal (un_balance u)) (sg_unbondings g)"
    using assms by (auto simp: staged_defs list_all_iff unbonding_ok_def)
  from delegation_fold [OF ds(1) _ ds(2), of "[]" "[]"] obtain seen t1 where
    f1: "foldR add_delegation ([], []) (sn_delegations ?s) = Inr (seen, t1)"
    by (auto simp: snapshot_of_def)
  from unbonding_fold [OF us, of t1] obtain t where f2: "foldR add_unbonding t1 (sn_unbondings ?s) = Inr t"
    by (auto simp: snapshot_of_def)
  have "dec_nat (sum_list (map (pt_bonded \<circ> snd) t)) = sn_bonded ?s \<and>
      dec_nat (sum_list (map (pt_unbonding \<circ> snd) t)) = sn_unbonding ?s"
    unfolding folded_totals(4,5) [OF f1 f2]
    using assms by (simp add: staged_defs snapshot_of_def dec_int_def)
  with f1 f2 show ?thesis by (simp add: positionTotals_def guardR_def)
qed

text \<open>C28: A fetched snapshot is one that \<open>Publish\<close> has no objection to.  It is of the requested chain,
  address and height; its totals are well-formed, its validators are addresses, and its
  positions add up to its totals; no validator is delegated to twice, no unbonding entry
  exceeds its initial balance or lies in the future, no entry identity occurs twice, and the
  number of entries is within the limit.\<close>

theorem fetched_snapshot_accepted:
  assumes "Fetch c chain address height lm n = (Inr s, n')"
  shows "sn_chain s = chain \<and> sn_address s = address \<and> sn_height s = height \<and>
    0 < height \<and> validAddress address account_prefix \<and>
    naturalTotal (sn_bonded s) \<and> naturalTotal (sn_unbonding s) \<and>
    (\<exists>validators. uniqueAddresses (snapshot_validators s) validator_prefix = Inr validators) \<and>
    (\<exists>ps. positionTotals s = Inr ps) \<and>
    distinct (map dl_validator (sn_delegations s)) \<and>
    list_all (unbonding_ok height) (sn_unbondings s) \<and> list_all (redelegation_ok height) (sn_redelegations s) \<and>
    distinct (filter (\<lambda>i. i \<noteq> 0) (map un_id (sn_unbondings s) @ map rl_id (sn_redelegations s))) \<and>
    length (sn_unbondings s) + length (sn_redelegations s) \<le> lm_entries lm"
  using assms
proof (rule Fetch_staged)
  fix g
  assume g: "staged_ok lm height g" and s: "s = snapshot_of chain address height g"
    and p: "0 < height" "validAddress address account_prefix"
  have "list_all (\<lambda>v. validAddress v validator_prefix) (snapshot_validators s)"
    using g by (auto simp: s snapshot_of_def snapshot_validators_def staged_defs list_all_iff
        unbonding_ok_def redelegation_ok_def)
  then have "\<exists>validators. uniqueAddresses (snapshot_validators s) validator_prefix = Inr validators"
    by (simp add: uniqueAddresses_def)
  moreover have "naturalTotal (sn_bonded s)" "naturalTotal (sn_unbonding s)"
    using g by (simp_all add: s snapshot_of_def staged_defs dec_int_def naturalTotal_dec_nat)
  moreover have "\<exists>ps. positionTotals s = Inr ps" unfolding s by (rule staged_positions [OF g])
  ultimately show ?thesis
    using g p by (simp add: s snapshot_of_def staged_defs)
qed

section \<open>An example\<close>

definition body_of :: "(string \<times> json) list \<Rightarrow> lcd_reply" where
  "body_of kvs = Reply 200 [(''Grpc-Metadata-X-Cosmos-Block-Height'', ''9'')] (Inr (json_marshal (JObj kvs)))"

definition last_page :: "string \<Rightarrow> json list \<Rightarrow> lcd_reply" where
  "last_page name rows = body_of [(name, JArr rows), (''pagination'', JObj [(''next_key'', JNull)])]"

definition delegation_row :: json where
  "delegation_row =
     JObj [(''delegation'', JObj [(''delegator_address'', jstr example_address),
         (''validator_address'', jstr example_operator), (''shares'', jstr ''3.5'')]),
       (''balance'', JObj [(''denom'', jstr ''ualpha''), (''amount'', jstr ''3'')])]"

definition staking_gateway :: "nat \<Rightarrow> lcd_request \<Rightarrow> lcd_reply" where
  "staking_gateway n rq =
     (if n = 0 then body_of [(''default_node_info'', JObj [(''network'', jstr ''c'')])]
      else if n = 1 then last_page ''delegation_responses'' [delegation_row]
      else if n = 2 then last_page ''unbonding_responses'' []
      else last_page ''redelegation_responses'' [])"

definition staking_client :: lcd_client where
  "staking_client = \<lparr>lc_base = ''http://lcd'', lc_http = Some staking_gateway\<rparr>"

definition example_limits :: limits where
  "example_limits = \<lparr>lm_page = 100, lm_pairs = 4, lm_entries = 4\<rparr>"

definition bonded_example :: staging where
  "bonded_example = empty_staging
     \<lparr>sg_budget := \<lparr>bg_pairs = [''d/'' @ example_operator], bg_ids = [], bg_entries = 0\<rparr>,
      sg_delegations := [\<lparr>dl_validator = example_operator, dl_shares = ''3.5'', dl_balance = ''3''\<rparr>],
      sg_bonded := 3\<rparr>"

lemma example_pages1:
  "Pages staking_client (''/cosmos/staking/v1beta1/delegations/'' @ PathEscape example_address)
     ''delegation_responses'' 9 100 (visit_delegation example_limits example_address) empty_staging 1
   = (Inr bonded_example, 2)"
  by (rule one_page [where p = "\<lparr>pg_rows = [json_marshal delegation_row], pg_next = []\<rparr>"]) (code_simp+)

lemma example_pages2:
  "Pages staking_client (''/cosmos/staking/v1beta1/delegators/'' @ PathEscape example_address @ ''/unbonding_delegations'')
     ''unbonding_responses'' 9 100 (visit_unbonding example_limits example_address 9) bonded_example 2
   = (Inr bonded_example, 3)"
  by (rule one_page [where p = "\<lparr>pg_rows = [], pg_next = []\<rparr>"]) (code_simp+)

lemma example_pages3:
  "Pages staking_client (''/cosmos/staking/v1beta1/delegators/'' @ PathEscape example_address @ ''/redelegations'')
     ''redelegation_responses'' 9 100 (visit_redelegation example_limits example_address 9) bonded_example 3
   = (Inr bonded_example, 4)"
  by (rule one_page [where p = "\<lparr>pg_rows = [], pg_next = []\<rparr>"]) (code_simp+)

lemma example_chain: "ValidateChain staking_client ''c'' 0 = (Inr (), 1)" "validAddress example_address account_prefix"
  by code_simp+

lemma example_fetch:
  "Fetch staking_client ''c'' example_address 9 example_limits 0
     = (Inr (snapshot_of ''c'' example_address 9 bonded_example), 4)"
proof -
  have l: "lm_page example_limits = 100" "lm_pairs example_limits = 4" "lm_entries example_limits = 4"
    by (simp_all add: example_limits_def)
  show ?thesis
    using example_pages1 example_pages2 example_pages3
    by (simp add: Fetch_def bindO_def guardO_def returnO_def l example_chain)
qed

theorem fetched_snapshot_accepted_witness:
  "\<exists>ps. positionTotals (snapshot_of ''c'' example_address 9 bonded_example) = Inr ps"
  using fetched_snapshot_accepted [OF example_fetch] by blast

end
