(* ===== verification/Pool.thy ===== *)
theory Pool
  imports Syncer Frames
begin

text \<open>
  Transactions of the connection pool outside the block pipeline: begin, an operation on the
  transaction, commit, and the deferred rollback.  The operation's result is the result of the
  whole; an error of any kind leaves the committed tables as they were.
\<close>

definition tx_world :: "service \<Rightarrow> world" where
  "tx_world s = bk_world (fresh_block s)"

text \<open>\<open>commits\<close> says of which results the code commits; the others leave through the rollback.\<close>

definition pool_tx_if :: "('a \<Rightarrow> bool) \<Rightarrow> string \<Rightarrow> string \<Rightarrow> (world, 'a) op \<Rightarrow> (service, 'a) op" where
  "pool_tx_if commits begin_msg commit_msg m s =
     (case sx_fault s (sx_clock s) of
        Some e \<Rightarrow> (Inl (wrapf begin_msg e), s\<lparr>sx_clock := Suc (sx_clock s)\<rparr>)
      | None \<Rightarrow>
          (case m (tx_world s) of (r, w) \<Rightarrow>
             let s1 = s\<lparr>sx_clock := Suc (w_clock w)\<rparr> in
             case r of
               Inl e \<Rightarrow> (Inl e, s1)
             | Inr x \<Rightarrow>
                 if \<not> commits x then (Inr x, s1)
                 else case commit_failure w of
                   Some e \<Rightarrow> (Inl (wrapf commit_msg e), s1)
                 | None \<Rightarrow> (Inr x, s1\<lparr>sx_db := w_db w\<rparr>)))"

abbreviation pool_tx_value :: "string \<Rightarrow> string \<Rightarrow> (world, 'a) op \<Rightarrow> (service, 'a) op" where
  "pool_tx_value \<equiv> pool_tx_if (\<lambda>_. True)"

lemma tx_world_fields [simp]:
  "w_db (tx_world s) = sx_db s" "w_aborted (tx_world s) = False" "w_buf (tx_world s) = new_buffer"
  "w_dirty (tx_world s) = NewDirty"
  by (simp_all add: tx_world_def fresh_block_def)

lemma pool_tx_outcome:
  assumes "pool_tx_if commits begin_msg commit_msg m s = (r, s')"
  shows "(\<exists>x w. r = Inr x \<and> m (tx_world s) = (Inr x, w) \<and>
      (if commits x then \<not> w_aborted w \<and> sx_db s' = w_db w else sx_db s' = sx_db s)) \<or>
    (\<exists>e. r = Inl e \<and> sx_db s' = sx_db s)"
proof (cases "m (tx_world s)")
  case (Pair r1 w)
  with assms show ?thesis
    by (cases r1) (auto simp: pool_tx_if_def Let_def commit_failure_def split: option.splits if_splits)
qed

lemma pool_tx_value_Inr:
  assumes "pool_tx_value begin_msg commit_msg m s = (Inr x, s')"
  obtains w where "m (tx_world s) = (Inr x, w)" "\<not> w_aborted w" "sx_db s' = w_db w"
  using pool_tx_outcome [OF assms] by auto

lemma pool_tx_Inl: "pool_tx_if commits begin_msg commit_msg m s = (Inl e, s') \<Longrightarrow> sx_db s' = sx_db s"
  using pool_tx_outcome by fastforce

context table_frame begin

lemma frame_pool:
  assumes "keeps (across proj le) m"
  shows "le (proj (sx_db s)) (proj (sx_db (snd (pool_tx_if commits begin_msg commit_msg m s))))"
proof -
  obtain r s' where run: "pool_tx_if commits begin_msg commit_msg m s = (r, s')" by force
  from pool_tx_outcome [OF run] consider
    x w where "m (tx_world s) = (Inr x, w)" "sx_db s' = w_db w" | "sx_db s' = sx_db s"
    by (auto split: if_splits)
  then show ?thesis
  proof cases
    case 1
    then show ?thesis using keepsD [OF assms, of "tx_world s"] by (simp add: run across_def)
  qed (simp add: run le_refl)
qed

end

end
