(* ===== verification/Native_Worker.thy ===== *)
theory Native_Worker
  imports Snapshot Pool
begin

text \<open>
  \<open>internal/sync/native.go\<close> and \<open>SeedReceipts\<close> of \<open>staking/receipts.go\<close>: the worker that
  discovers staking positions once and then refreshes their evidence in small batches.

  The worker shares the service with the block loop, each of its transactions being its own
  step.  What it meets from outside is the record \<open>batch_inputs\<close>: the clock of the database,
  the retry times it computes, and at which item the batch deadline has passed or the
  service is being shut down.  The number of gateway requests so far is threaded through.
  Rows of \<open>structs.defusion\<close> without a chain are not in the model, so their adoption is a
  statement that changes nothing.
\<close>

section \<open>Seeding\<close>

text \<open>\<open>^structs1[qpzry9x8gf2tvdw0s3jn54khce6mua7l]{1,121}$\<close>\<close>

definition seed_pattern :: "string \<Rightarrow> bool" where
  "seed_pattern a \<longleftrightarrow>
     (let rest = drop (length account_prefix) a in
      has_prefix a account_prefix \<and> 1 \<le> length rest \<and> length rest \<le> 121 \<and>
      list_all (\<lambda>c. c \<in> set bech32_charset) rest)"

definition receipt_open :: "string \<Rightarrow> stored_defusion \<Rightarrow> bool" where
  "receipt_open chain x \<longleftrightarrow>
     dr_chain (sd_row x) = chain \<and> sd_retired x = None \<and> sd_reconciled x = None \<and>
     seed_pattern (dr_delegator (sd_row x))"

definition seed_receipts :: "string \<Rightarrow> tables \<Rightarrow> tables" where
  "seed_receipts chain d =
     d\<lparr>db_native := fold request_receipt (filter (receipt_open chain) (db_defusion d)) (db_native d)\<rparr>"

definition SeedReceipts :: "string \<Rightarrow> int \<Rightarrow> (world, unit) op" where
  "SeedReceipts chain height =
     bindO (guardO (\<not> (chain = [] \<or> height \<le> 0))
       (errorf ''legacy receipt adoption requires chain and positive height'')) (\<lambda>_.
     bindO lockO (\<lambda>_.
     bindO (exec (\<lambda>d. d)) (\<lambda>_.
     exec (seed_receipts chain))))"

definition seed_candidates :: "projections \<Rightarrow> tables \<Rightarrow> string list" where
  "seed_candidates P d =
     remdups (filter seed_pattern
       (map fst (pj_owners P d) @
        map (\<lambda>((dest, a), r). a) (filter (\<lambda>(k, r). in_destination_type r = ''reactor'') (db_infusion d)) @
        map (\<lambda>((ty, a, den), b). a) (filter (\<lambda>((ty, a, den), b).
          ty = ''address'' \<and> den \<in> {''ualpha.infused'', ''ualpha.defusing''}) (inventory_of d))))"

definition seed_statement :: "projections \<Rightarrow> string \<Rightarrow> int \<Rightarrow> tables \<Rightarrow> tables" where
  "seed_statement P chain height d = ensure_statement chain height (seed_candidates P d) d"

text \<open>The last height of the cursor is 0 without one; then the transaction is rolled back.\<close>

definition seed_tx :: "projections \<Rightarrow> string \<Rightarrow> (world, bool) op" where
  "seed_tx P chain =
     bindO lockO (\<lambda>_.
     bindO (query (\<lambda>d. c_height (ReadCursor chain d))) (\<lambda>height.
     if height \<le> 0 then returnO False
     else
       bindO (exec (seed_statement P chain height)) (\<lambda>_.
       bindO (SeedReceipts chain height) (\<lambda>_. returnO True))))"

text \<open>\<open>return true, tx.Commit(ctx)\<close>: the flag is true once the commit is tried, whether or not it succeeds.\<close>

definition seed_reaches_commit :: "projections \<Rightarrow> string \<Rightarrow> service \<Rightarrow> bool" where
  "seed_reaches_commit P chain s \<longleftrightarrow>
     sx_fault s (sx_clock s) = None \<and> fst (seed_tx P chain (tx_world s)) = Inr True"

definition seedNativeCandidates :: "projections \<Rightarrow> string \<Rightarrow> service \<Rightarrow> (bool \<times> goerror option) \<times> service" where
  "seedNativeCandidates P chain s =
     (case pool_tx_if (\<lambda>seeded. seeded) [] [] (seed_tx P chain) s of
        (Inl e, s') \<Rightarrow> ((seed_reaches_commit P chain s, Some e), s')
      | (Inr _, s') \<Rightarrow> ((seed_reaches_commit P chain s, None), s'))"

section \<open>Refreshing\<close>

record batch_inputs =
  bi_now :: int
  bi_expired :: "nat \<Rightarrow> bool"
  bi_cancelled :: "nat \<Rightarrow> bool"
  bi_retry_at :: "nat \<Rightarrow> int"

definition worker_limits :: limits where
  "worker_limits = \<lparr>lm_page = 100, lm_pairs = 1024, lm_entries = 8192\<rparr>"

text \<open>The transaction that ends one item: true when a snapshot was published.\<close>

definition settle_item ::
  "projections \<Rightarrow> (native_row \<Rightarrow> bool) \<Rightarrow> string \<Rightarrow> string \<times> int \<Rightarrow> int \<Rightarrow> snapshot res \<Rightarrow> (world, bool) op" where
  "settle_item P is_pending chain item after fetched =
     (case fetched of
        Inl e \<Rightarrow>
          bindO (RetryLater is_pending chain (fst item) (snd item) after) (\<lambda>_. returnO False)
      | Inr s \<Rightarrow>
          bindO (Publish s) (\<lambda>ok.
          bindO (whenO ok (RefreshNativeClaims P (fst item))) (\<lambda>_. returnO ok)))"

definition publish_failed :: string where
  "publish_failed = ''publish address at height: ''"

fun refresh_items ::
  "projections \<Rightarrow> (native_row \<Rightarrow> bool) \<Rightarrow> lcd_client \<Rightarrow> string \<Rightarrow> batch_inputs \<Rightarrow> (string \<times> int) list \<Rightarrow> nat \<Rightarrow> nat \<Rightarrow>
     (service \<times> nat, nat) op" where
  "refresh_items P is_pending c chain bi [] i published st = (Inr published, st)"
| "refresh_items P is_pending c chain bi (item # rest) i published (s, n) =
     (if bi_expired bi i then (Inr published, (s, n))
      else case Fetch c chain (fst item) (snd item) worker_limits n of
        (fetched, n') \<Rightarrow>
          if bi_cancelled bi i then (Inl canceled, (s, n'))
          else case wrapO publish_failed
              (pool_tx_value [] [] (settle_item P is_pending chain item (bi_retry_at bi i) fetched)) s of
            (Inl e, s') \<Rightarrow> (Inl e, (s', n'))
          | (Inr accepted, s') \<Rightarrow>
              refresh_items P is_pending c chain bi rest (Suc i) (if accepted then Suc published else published) (s', n'))"

definition pending_items ::
  "(native_row \<Rightarrow> bool) \<Rightarrow> int \<Rightarrow> string \<Rightarrow> (service, (string \<times> int) list) op" where
  "pending_items is_pending now chain =
     bindO (guardO (chain \<noteq> []) (errorf ''native pending batch needs a chain and limit in 1..1000'')) (\<lambda>_.
     bindO (pool_query (\<lambda>d. d)) (\<lambda>d. liftO (Pending is_pending now chain 8 d)))"

definition refreshNativeBatch ::
  "projections \<Rightarrow> (native_row \<Rightarrow> bool) \<Rightarrow> lcd_client \<Rightarrow> string \<Rightarrow> batch_inputs \<Rightarrow> (service \<times> nat, nat) op" where
  "refreshNativeBatch P is_pending c chain bi sn =
     (case sn of (s, n) \<Rightarrow>
        case pending_items is_pending (bi_now bi) chain s of
          (Inl e, s') \<Rightarrow> (Inl e, (s', n))
        | (Inr items, s') \<Rightarrow> refresh_items P is_pending c chain bi items 0 0 (s', n))"

text \<open>One round of \<open>startNativeRefresh\<close>: errors are logged, and the next round tries again.\<close>

definition worker_round ::
  "projections \<Rightarrow> (native_row \<Rightarrow> bool) \<Rightarrow> lcd_client \<Rightarrow> string \<Rightarrow> batch_inputs \<Rightarrow> bool \<Rightarrow> service \<times> nat \<Rightarrow> bool \<times> service \<times> nat" where
  "worker_round P is_pending c chain bi seeded sn =
     (case sn of (s, n) \<Rightarrow>
        let (seeded', s') =
          (if seeded then (True, s)
           else case seedNativeCandidates P chain s of ((b, err), s1) \<Rightarrow> (b, s1)) in
        if seeded' then (True, snd (refreshNativeBatch P is_pending c chain bi (s', n)))
        else (False, (s', n)))"

definition startNativeRefresh ::
  "config \<Rightarrow> projections \<Rightarrow> (native_row \<Rightarrow> bool) \<Rightarrow> lcd_client \<Rightarrow> string \<Rightarrow> batch_inputs list \<Rightarrow> service \<times> nat \<Rightarrow> service \<times> nat" where
  "startNativeRefresh cfg P is_pending c chain rounds sn =
     (if \<not> cf_native_staking_refresh cfg \<or> lc_base c = [] then sn
      else snd (fold (\<lambda>bi st. worker_round P is_pending c chain bi (fst st) (snd st)) rounds (False, sn)))"

end
