(* ===== verification/Rpc_Client.thy ===== *)
theory Rpc_Client
  imports Lcd Block
begin

text \<open>
  \<open>internal/rpc/client.go\<close> and \<open>genesis.go\<close>: an ordered list of CometBFT endpoints with failover,
  per-endpoint retries and a cached status.

  What the network, the clock and the caller's context do is the record \<open>rpc_env\<close>, a function of
  the number of questions asked so far; a theorem about all environments covers every failure,
  delay and cancellation.  A non-final endpoint is asked under a cap on its time, which the
  environment is told.  The calls are modelled one at a time: what two concurrent calls share
  is the endpoint records, each written under its own mutex.
\<close>

section \<open>State\<close>

record status_result =
  ss_network :: string
  ss_latest :: string
  ss_earliest :: string
  ss_block_time :: string
  ss_catching_up :: bool

definition Latest :: "status_result \<Rightarrow> int" where
  "Latest s = parse_int64_value (ss_latest s)"

definition Earliest :: "status_result \<Rightarrow> int" where
  "Earliest s = parse_int64_value (ss_earliest s)"

record endpoint =
  ep_url :: string
  ep_stat :: "status_result option"
  ep_seen :: int
  ep_err :: "goerror option"

record rpc_client =
  cl_endpoints :: "endpoint list"
  cl_retries :: int
  cl_backoff :: int
  cl_ttl :: int
  cl_failover :: int

definition millisecond :: int where
  "millisecond = 1000000"

definition new_endpoint :: "string \<Rightarrow> endpoint" where
  "new_endpoint u = \<lparr>ep_url = u, ep_stat = None, ep_seen = zero_time, ep_err = None\<rparr>"

definition clean_url :: "string \<Rightarrow> string" where
  "clean_url raw = trim_right (\<lambda>c. c = CHR ''/'') (trim_space raw)"

definition add_url :: "string \<Rightarrow> string list \<Rightarrow> string list" where
  "add_url raw us = (let u = clean_url raw in if u = [] \<or> u \<in> set us then us else us @ [u])"

definition dedupeURLs :: "string list \<Rightarrow> string list" where
  "dedupeURLs raws = fold add_url raws []"

definition NewClient :: "string list \<Rightarrow> int \<Rightarrow> rpc_client" where
  "NewClient urls retries =
     \<lparr>cl_endpoints = map new_endpoint (dedupeURLs urls), cl_retries = retries,
      cl_backoff = 250 * millisecond, cl_ttl = 5000 * millisecond, cl_failover = 8000 * millisecond\<rparr>"

definition BaseURL :: "rpc_client \<Rightarrow> string" where
  "BaseURL c = (case cl_endpoints c of [] \<Rightarrow> [] | e # _ \<Rightarrow> ep_url e)"

definition URLs :: "rpc_client \<Rightarrow> string list" where
  "URLs c = map ep_url (cl_endpoints c)"

datatype http_reply =
    BadRequest goerror
  | NoAnswer goerror
  | Answer int "string res"

record rpc_env =
  ev_now :: "nat \<Rightarrow> int"
  ev_http :: "nat \<Rightarrow> int option \<Rightarrow> string \<Rightarrow> http_reply"
  ev_wait :: "nat \<Rightarrow> int option \<Rightarrow> int \<Rightarrow> goerror option"
  ev_caller :: "nat \<Rightarrow> goerror option"

record rpc_state =
  rs_client :: rpc_client
  rs_tick :: nat

section \<open>One endpoint\<close>

text \<open>\<open>c.backoff * time.Duration(1<<uint(attempt-1))\<close> is computed in \<open>int64\<close>.\<close>

definition retry_sleep :: "int \<Rightarrow> nat \<Rightarrow> int" where
  "retry_sleep backoff tries =
     (let d = sint (word_of_int backoff * push_bit (tries - 1) (1 :: 64 word)) in
      if 5000 * millisecond < d then 5000 * millisecond else d)"

definition truncate_text :: "string \<Rightarrow> nat \<Rightarrow> string" where
  "truncate_text s n = (if length s \<le> n then s else take n s @ map char_of [226 :: nat, 128, 166])"

record rpc_error =
  re_code :: int
  re_message :: string
  re_data :: string

record rpc_envelope =
  en_result :: string
  en_error :: "rpc_error option"

definition PlainInt :: "int decoder" where
  "PlainInt v old =
     (case v of
        JNum s \<Rightarrow> (case parse_int64 s of None \<Rightarrow> Inl (errorf ''cannot unmarshal number into int'') | Some n \<Rightarrow> Inr n)
      | JNull \<Rightarrow> Inr old
      | _ \<Rightarrow> Inl (errorf ''cannot unmarshal into int''))"

definition error_pointer :: "rpc_error option decoder" where
  "error_pointer v old =
     (case v of
        JNull \<Rightarrow> Inr None
      | JObj kvs \<Rightarrow>
          let e = (case old of None \<Rightarrow> \<lparr>re_code = 0, re_message = [], re_data = []\<rparr> | Some e \<Rightarrow> e) in
          bindR (field ''code'' PlainInt (re_code e) kvs) (\<lambda>code.
          bindR (field ''message'' Text (re_message e) kvs) (\<lambda>message.
          bindR (field ''data'' Text (re_data e) kvs) (\<lambda>dat.
          Inr (Some \<lparr>re_code = code, re_message = message, re_data = dat\<rparr>))))
      | _ \<Rightarrow> Inl (errorf ''cannot unmarshal into RPCError''))"

definition envelope_of :: "string \<Rightarrow> rpc_envelope res" where
  "envelope_of body =
     bindR (document_of body) (\<lambda>obj.
     bindR (text_field ''jsonrpc'' obj) (\<lambda>_.
     bindR (field ''result'' RawValue [] obj) (\<lambda>result.
     bindR (field ''error'' error_pointer None obj) (\<lambda>err.
     Inr \<lparr>en_result = result, en_error = err\<rparr>))))"

definition isHeightNotAvailable :: "rpc_error \<Rightarrow> bool" where
  "isHeightNotAvailable e =
     (let msg = to_lower (re_message e @ '' '' @ re_data e) in
      list_ex (\<lambda>words. contains msg words)
        [''must be less than or equal to'', ''height must be greater than'',
         ''could not find results for height'', ''failed to load block'', ''no block with that hash'',
         ''block not found'', ''height is not available''])"

definition deterministic :: "sentinel list \<Rightarrow> string \<Rightarrow> goerror" where
  "deterministic kinds s = GoErr (ErrRPCDeterministic # kinds) (''deterministic rpc error: '' @ s)"

definition rpc_refusal :: "rpc_error \<Rightarrow> goerror" where
  "rpc_refusal e =
     (if isHeightNotAvailable e
      then deterministic [ErrHeightNotAvailable]
        (''height not available at this endpoint: rpc code='' @ dec_int (re_code e) @ '' '' @ re_message e)
      else deterministic []
        (''rpc code='' @ dec_int (re_code e) @ '' '' @ re_message e @ '' ('' @ re_data e @ '')''))"

text \<open>How one answer ends the attempt: another try, or the result with the target as it was filled.  A
  target keeps what earlier documents have put into it, so it is threaded through.\<close>

type_synonym 'a target = "string \<Rightarrow> 'a \<Rightarrow> goerror option \<times> 'a"

datatype 'a tried = Retry goerror | Finished "goerror option" 'a

definition try_answer :: "string \<Rightarrow> 'a target \<Rightarrow> http_reply \<Rightarrow> 'a \<Rightarrow> 'a tried" where
  "try_answer full out reply old =
     (case reply of
        BadRequest e \<Rightarrow> Finished (Some e) old
      | NoAnswer e \<Rightarrow> Retry e
      | Answer status (Inl e) \<Rightarrow> Retry e
      | Answer status (Inr body) \<Rightarrow>
          if status \<noteq> 200 then
            let e = errorf (''HTTP '' @ dec_int status @ '' from '' @ full @ '': '' @ truncate_text body 200) in
            if 400 \<le> status \<and> status < 500 then Finished (Some (deterministic [] (err_text e))) old
            else Retry e
          else (case envelope_of body of
              Inl e \<Rightarrow> Retry (wrapf ''decode envelope: '' e)
            | Inr env \<Rightarrow>
                (case en_error env of
                   Some e \<Rightarrow> Finished (Some (rpc_refusal e)) old
                 | None \<Rightarrow>
                     (case out (en_result env) old of
                        (Some e, new) \<Rightarrow> Finished (Some (wrapf ''decode result: '' e)) new
                      | (None, new) \<Rightarrow> Finished None new))))"

definition gave_up :: "int \<Rightarrow> goerror option \<Rightarrow> goerror" where
  "gave_up retries e =
     (case e of
        None \<Rightarrow> errorf (''after '' @ dec_int retries @ '' retries: %!w(<nil>)'')
      | Some e \<Rightarrow> wrapf (''after '' @ dec_int retries @ '' retries: '') e)"

definition wait_before :: "rpc_env \<Rightarrow> int option \<Rightarrow> int \<Rightarrow> nat \<Rightarrow> nat \<Rightarrow> goerror option" where
  "wait_before ev cap backoff tries n =
     (if tries = 0 then None else ev_wait ev n cap (retry_sleep backoff tries))"

fun attempts ::
  "rpc_env \<Rightarrow> rpc_client \<Rightarrow> int option \<Rightarrow> string \<Rightarrow> 'a target \<Rightarrow> nat \<Rightarrow> nat \<Rightarrow> goerror option \<Rightarrow> 'a \<Rightarrow> nat \<Rightarrow>
     goerror option \<times> 'a \<times> nat" where
  "attempts ev c cap full out tries 0 err old n = (Some (gave_up (cl_retries c) err), old, n)"
| "attempts ev c cap full out tries (Suc left) err old n =
     (case wait_before ev cap (cl_backoff c) tries n of
        Some e \<Rightarrow> (Some e, old, Suc n)
      | None \<Rightarrow>
          (case try_answer full out (ev_http ev n cap full) old of
             Finished r new \<Rightarrow> (r, new, Suc n)
           | Retry e \<Rightarrow> attempts ev c cap full out (Suc tries) left (Some e) old (Suc n)))"

definition getFromEndpoint ::
  "rpc_env \<Rightarrow> rpc_client \<Rightarrow> int option \<Rightarrow> endpoint \<Rightarrow> string \<Rightarrow> 'a target \<Rightarrow> 'a \<Rightarrow> nat \<Rightarrow> goerror option \<times> 'a \<times> nat" where
  "getFromEndpoint ev c cap ep path out old n =
     attempts ev c cap (ep_url ep @ path) out 0 (nat (cl_retries c + 1)) None old n"

section \<open>Selection\<close>

definition final_endpoint :: "rpc_client \<Rightarrow> nat \<Rightarrow> bool" where
  "final_endpoint c i \<longleftrightarrow> Suc i = length (cl_endpoints c)"

definition skipForHeight :: "rpc_client \<Rightarrow> int \<Rightarrow> endpoint \<Rightarrow> int \<Rightarrow> bool" where
  "skipForHeight c now ep want \<longleftrightarrow>
     0 < want \<and>
     (case ep_stat ep of
        None \<Rightarrow> False
      | Some st \<Rightarrow> \<not> cl_ttl c < now - ep_seen ep \<and> Latest st < want)"

definition skipForRecentFailure :: "rpc_client \<Rightarrow> int \<Rightarrow> nat \<Rightarrow> endpoint \<Rightarrow> bool" where
  "skipForRecentFailure c now i ep \<longleftrightarrow>
     \<not> final_endpoint c i \<and> ep_err ep \<noteq> None \<and> now - ep_seen ep \<le> cl_ttl c"

definition endpointContext :: "rpc_client \<Rightarrow> nat \<Rightarrow> int option" where
  "endpointContext c i =
     (if final_endpoint c i \<or> cl_failover c \<le> 0 then None else Some (cl_failover c))"

definition markHealthy :: "int \<Rightarrow> endpoint \<Rightarrow> endpoint" where
  "markHealthy now ep = ep\<lparr>ep_err := None, ep_seen := now\<rparr>"

definition markFailed :: "goerror \<Rightarrow> int \<Rightarrow> endpoint \<Rightarrow> endpoint" where
  "markFailed e now ep = ep\<lparr>ep_err := Some e, ep_seen := now\<rparr>"

definition set_endpoint :: "nat \<Rightarrow> endpoint \<Rightarrow> rpc_client \<Rightarrow> rpc_client" where
  "set_endpoint i ep c = c\<lparr>cl_endpoints := (cl_endpoints c)[i := ep]\<rparr>"

definition no_endpoints :: goerror where
  "no_endpoints = errorf ''rpc client has no endpoints configured''"

definition all_failed :: "string list \<Rightarrow> goerror" where
  "all_failed errs = GoErr [ErrAllEndpointsFailed] 
     (''all rpc endpoints failed: '' @ (case errs of [] \<Rightarrow> [] | e # es \<Rightarrow> e @ concat (map (\<lambda>x. ''; '' @ x) es)))"

definition failed_recently :: "endpoint \<Rightarrow> string" where
  "failed_recently ep =
     ep_url ep @ '': skipped (recent failure: '' @ (case ep_err ep of None \<Rightarrow> [] | Some e \<Rightarrow> err_text e) @ '')''"

text \<open>The endpoints still to be tried, by their position; each question for the time is a tick.\<close>

fun try_endpoints ::
  "rpc_env \<Rightarrow> string \<Rightarrow> int \<Rightarrow> 'a target \<Rightarrow> nat list \<Rightarrow> string list \<Rightarrow> 'a \<Rightarrow> (rpc_state, 'a) op" where
  "try_endpoints ev path want out [] errs old s = (Inl (all_failed errs), s)"
| "try_endpoints ev path want out (i # is) errs old s =
     (let c = rs_client s; ep = cl_endpoints c ! i; n = rs_tick s in
      if skipForHeight c (ev_now ev n) ep want then
        try_endpoints ev path want out is (errs @ [ep_url ep @ '': skipped (cached tip)'']) old (s\<lparr>rs_tick := Suc n\<rparr>)
      else if skipForRecentFailure c (ev_now ev (Suc n)) i ep then
        try_endpoints ev path want out is (errs @ [failed_recently ep]) old (s\<lparr>rs_tick := Suc (Suc n)\<rparr>)
      else case getFromEndpoint ev c (endpointContext c i) ep path out old (Suc (Suc n)) of
        (None, new, m) \<Rightarrow>
          (Inr new, s\<lparr>rs_client := set_endpoint i (markHealthy (ev_now ev m) ep) c, rs_tick := Suc m\<rparr>)
      | (Some e, new, m) \<Rightarrow>
          if errors_Is e ErrRPCDeterministic \<and> \<not> errors_Is e ErrHeightNotAvailable then (Inl e, s\<lparr>rs_tick := m\<rparr>)
          else (case ev_caller ev m of
              Some ce \<Rightarrow> (Inl ce, s\<lparr>rs_tick := Suc m\<rparr>)
            | None \<Rightarrow>
                try_endpoints ev path want out is (errs @ [ep_url ep @ '': '' @ err_text e]) new
                  (s\<lparr>rs_client := set_endpoint i (markFailed e (ev_now ev (Suc m)) ep) c, rs_tick := Suc (Suc m)\<rparr>)))"

definition rpc_get :: "rpc_env \<Rightarrow> string \<Rightarrow> int \<Rightarrow> 'a target \<Rightarrow> 'a \<Rightarrow> (rpc_state, 'a) op" where
  "rpc_get ev path want out zero s =
     (if cl_endpoints (rs_client s) = [] then (Inl no_endpoints, s)
      else try_endpoints ev path want out [0..<length (cl_endpoints (rs_client s))] [] zero s)"

section \<open>Status\<close>

definition zero_status :: status_result where
  "zero_status = \<lparr>ss_network = [], ss_latest = [], ss_earliest = [], ss_block_time = [], ss_catching_up = False\<rparr>"

definition status_members :: "(string \<times> json) list \<Rightarrow> status_result res" where
  "status_members obj =
     bindR (field ''node_info'' (nested (\<lambda>kvs old. field ''network'' Text old kvs)) [] obj) (\<lambda>network.
     field ''sync_info'' (nested (\<lambda>kvs s.
       bindR (field ''latest_block_height'' Text (ss_latest s) kvs) (\<lambda>latest.
       bindR (field ''earliest_block_height'' Text (ss_earliest s) kvs) (\<lambda>earliest.
       bindR (field ''latest_block_time'' Text (ss_block_time s) kvs) (\<lambda>time.
       bindR (field ''catching_up'' Boolean (ss_catching_up s) kvs) (\<lambda>catching.
       Inr (s\<lparr>ss_latest := latest, ss_earliest := earliest, ss_block_time := time, ss_catching_up := catching\<rparr>)))))))
       (zero_status\<lparr>ss_network := network\<rparr>) obj)"

text \<open>A fresh target whose content counts only when decoding succeeds.\<close>

definition fresh_target :: "(string \<Rightarrow> 'a res) \<Rightarrow> 'a target" where
  "fresh_target dec raw old = (case dec raw of Inl e \<Rightarrow> (Some e, old) | Inr v \<Rightarrow> (None, v))"

definition refreshStatus :: "rpc_env \<Rightarrow> int option \<Rightarrow> nat \<Rightarrow> (rpc_state, status_result) op" where
  "refreshStatus ev cap i s =
     (let c = rs_client s; ep = cl_endpoints c ! i in
      case getFromEndpoint ev c cap ep ''/status'' (fresh_target (\<lambda>raw. bindR (document_of raw) status_members))
          zero_status (rs_tick s) of
        (Some e, _, m) \<Rightarrow>
          (Inl e, s\<lparr>rs_client := set_endpoint i (ep\<lparr>ep_seen := ev_now ev m, ep_err := Some e, ep_stat := None\<rparr>) c,
             rs_tick := Suc m\<rparr>)
      | (None, st, m) \<Rightarrow>
          (Inr st, s\<lparr>rs_client := set_endpoint i (ep\<lparr>ep_seen := ev_now ev m, ep_stat := Some st, ep_err := None\<rparr>) c,
             rs_tick := Suc m\<rparr>))"

fun status_from ::
  "rpc_env \<Rightarrow> nat list \<Rightarrow> string list \<Rightarrow> status_result option \<Rightarrow> (rpc_state, status_result) op" where
  "status_from ev [] errs catching s =
     (case catching of Some st \<Rightarrow> (Inr st, s) | None \<Rightarrow> (Inl (all_failed errs), s))"
| "status_from ev (i # is) errs catching s =
     (let c = rs_client s; ep = cl_endpoints c ! i; n = rs_tick s in
      if skipForRecentFailure c (ev_now ev n) i ep then
        status_from ev is (errs @ [failed_recently ep]) catching (s\<lparr>rs_tick := Suc n\<rparr>)
      else case refreshStatus ev (endpointContext c i) i (s\<lparr>rs_tick := Suc n\<rparr>) of
        (Inr st, s') \<Rightarrow>
          if \<not> ss_catching_up st then (Inr st, s')
          else status_from ev is errs (case catching of None \<Rightarrow> Some st | Some _ \<Rightarrow> catching) s'
      | (Inl e, s') \<Rightarrow>
          (case ev_caller ev (rs_tick s') of
             Some ce \<Rightarrow> (Inl ce, s'\<lparr>rs_tick := Suc (rs_tick s')\<rparr>)
           | None \<Rightarrow> status_from ev is (errs @ [ep_url ep @ '': '' @ err_text e]) catching (s'\<lparr>rs_tick := Suc (rs_tick s')\<rparr>)))"

definition Status :: "rpc_env \<Rightarrow> (rpc_state, status_result) op" where
  "Status ev s =
     (if cl_endpoints (rs_client s) = [] then (Inl no_endpoints, s)
      else status_from ev [0..<length (cl_endpoints (rs_client s))] [] None s)"

definition StatusOf :: "rpc_env \<Rightarrow> string \<Rightarrow> (rpc_state, status_result) op" where
  "StatusOf ev url s =
     (case filter (\<lambda>i. ep_url (cl_endpoints (rs_client s) ! i) = trim_right (\<lambda>ch. ch = CHR ''/'') url)
         [0..<length (cl_endpoints (rs_client s))] of
        [] \<Rightarrow> (Inl (errorf ''endpoint not in client''), s)
      | i # _ \<Rightarrow> refreshStatus ev None i s)"

section \<open>Requests\<close>

definition get_block :: "rpc_env \<Rightarrow> int \<Rightarrow> 'a target \<Rightarrow> 'a \<Rightarrow> (rpc_state, 'a) op" where
  "get_block ev height = rpc_get ev (''/block?height='' @ dec_int height) height"

definition get_block_results :: "rpc_env \<Rightarrow> int \<Rightarrow> 'a target \<Rightarrow> 'a \<Rightarrow> (rpc_state, 'a) op" where
  "get_block_results ev height = rpc_get ev (''/block_results?height='' @ dec_int height) height"

definition TxSearch :: "rpc_env \<Rightarrow> string \<Rightarrow> int \<Rightarrow> 'a target \<Rightarrow> 'a \<Rightarrow> (rpc_state, 'a) op" where
  "TxSearch ev q per_page =
     rpc_get ev (''/tx_search?query='' @ QueryEscape ([quote] @ q @ [quote]) @ ''&per_page='' @ dec_int per_page) 0"

definition Blockchain :: "rpc_env \<Rightarrow> int \<Rightarrow> int \<Rightarrow> 'a target \<Rightarrow> 'a \<Rightarrow> (rpc_state, 'a) op" where
  "Blockchain ev low high =
     rpc_get ev (''/blockchain?minHeight='' @ dec_int low @ ''&maxHeight='' @ dec_int high) high"

section \<open>Genesis\<close>

record genesis_chunk =
  gk_chunk :: string
  gk_total :: string
  gk_data :: string

definition fill :: "string \<Rightarrow> string \<Rightarrow> (string \<times> json) list \<Rightarrow> goerror option \<times> string" where
  "fill name old obj = (case field name Text old obj of Inl e \<Rightarrow> (Some e, old) | Inr v \<Rightarrow> (None, v))"

definition first_error :: "goerror option list \<Rightarrow> goerror option" where
  "first_error es = (case filter (\<lambda>e. e \<noteq> None) es of [] \<Rightarrow> None | e # _ \<Rightarrow> e)"

definition chunk_target :: "genesis_chunk target" where
  "chunk_target raw old =
     (case document_of raw of
        Inl e \<Rightarrow> (Some e, old)
      | Inr obj \<Rightarrow>
          (let (e1, chunk) = fill ''chunk'' (gk_chunk old) obj;
               (e2, tot) = fill ''total'' (gk_total old) obj;
               (e3, dat) = fill ''data'' (gk_data old) obj
           in (first_error [e1, e2, e3], \<lparr>gk_chunk = chunk, gk_total = tot, gk_data = dat\<rparr>)))"

definition genesis_target :: "string target" where
  "genesis_target raw old =
     (case document_of raw of
        Inl e \<Rightarrow> (Some e, old)
      | Inr obj \<Rightarrow>
          (case field ''genesis'' RawValue old obj of Inl e \<Rightarrow> (Some e, old) | Inr v \<Rightarrow> (None, v)))"

definition isGenesisTooLarge :: "goerror \<Rightarrow> bool" where
  "isGenesisTooLarge e \<longleftrightarrow>
     errors_Is e ErrRPCDeterministic \<and>
     (let msg = to_lower (err_text e) in
      list_ex (\<lambda>words. contains msg words)
        [''genesis response is large'', ''use the genesis_chunked'', ''genesis_chunked api'', ''genesis chunked''])"

text \<open>\<open>base64.StdEncoding\<close> without \<open>Strict\<close>: the bits the padding leaves over may be anything.\<close>

fun base64_relaxed :: "string \<Rightarrow> bool" where
  "base64_relaxed [] \<longleftrightarrow> True"
| "base64_relaxed [a, b, c, d] \<longleftrightarrow>
     base64_char a \<noteq> None \<and> base64_char b \<noteq> None \<and>
     (if c = CHR ''='' then d = CHR ''='' else base64_char c \<noteq> None \<and> (d = CHR ''='' \<or> base64_char d \<noteq> None))"
| "base64_relaxed (a # b # c # d # s) \<longleftrightarrow>
     base64_char a \<noteq> None \<and> base64_char b \<noteq> None \<and> base64_char c \<noteq> None \<and> base64_char d \<noteq> None \<and>
     base64_relaxed s"
| "base64_relaxed _ \<longleftrightarrow> False"

definition decode_chunk :: "string \<Rightarrow> string res" where
  "decode_chunk s =
     (let t = filter (\<lambda>c. (of_char c :: nat) \<notin> {10, 13}) s in
      if base64_relaxed t then Inr (base64_bytes (map (the \<circ> base64_char) (filter (\<lambda>c. c \<noteq> CHR ''='') t)))
      else Inl (errorf ''illegal base64 data''))"

definition fetchGenesisChunk :: "rpc_env \<Rightarrow> nat \<Rightarrow> (rpc_state, genesis_chunk) op" where
  "fetchGenesisChunk ev k =
     rpc_get ev (''/genesis_chunked?chunk='' @ dec_nat k) 0 chunk_target \<lparr>gk_chunk = [], gk_total = [], gk_data = []\<rparr>"

definition chunk_bytes :: "rpc_env \<Rightarrow> nat \<Rightarrow> (rpc_state, string) op" where
  "chunk_bytes ev k =
     bindO (wrapO ''rpc /genesis_chunked: '' (fetchGenesisChunk ev k)) (\<lambda>ch.
     wrapO ''rpc /genesis_chunked decode: '' (liftO (decode_chunk (gk_data ch))))"

fun more_chunks :: "rpc_env \<Rightarrow> nat list \<Rightarrow> string \<Rightarrow> (rpc_state, string) op" where
  "more_chunks ev [] acc = returnO acc"
| "more_chunks ev (k # ks) acc = bindO (chunk_bytes ev k) (\<lambda>b. more_chunks ev ks (acc @ b))"

definition genesisChunked :: "rpc_env \<Rightarrow> (rpc_state, string) op" where
  "genesisChunked ev =
     bindO (wrapO ''rpc /genesis_chunked chunk=0: '' (fetchGenesisChunk ev 0)) (\<lambda>ch.
     case parse_int64 (gk_total ch) of
       None \<Rightarrow> failO (errorf ''rpc /genesis_chunked: invalid total'')
     | Some chunks_total \<Rightarrow>
         if chunks_total \<le> 0 then failO (errorf ''rpc /genesis_chunked: invalid total'')
         else bindO (wrapO ''rpc /genesis_chunked chunk=0 decode: '' (liftO (decode_chunk (gk_data ch))))
           (more_chunks ev [1..<nat chunks_total]))"

definition rpc_genesis :: "rpc_env \<Rightarrow> (rpc_state, string) op" where
  "rpc_genesis ev s =
     (case rpc_get ev ''/genesis'' 0 genesis_target [] s of
        (Inr g, s') \<Rightarrow>
          if g = [] then (Inl (errorf ''rpc: /genesis returned empty payload''), s') else (Inr g, s')
      | (Inl e, s') \<Rightarrow>
          if \<not> isGenesisTooLarge e then (Inl (wrapf ''rpc /genesis: '' e), s') else genesisChunked ev s')"

end
