(* ===== verification/Genesis.thy ===== *)
theory Genesis
  imports Pool Lcd Rpc_Client
begin

text \<open>
  \<open>internal/genesis\<close> (\<open>types.go\<close>, \<open>loader.go\<close>, \<open>apply.go\<close>) and \<open>db/genesislog.go\<close>: reading the
  genesis document of the chain and writing its balances, delegations, unbondings and ore into
  the ledger.

  SHA-256 is a parameter, and so is what the file or the RPC endpoint returned.  A share is read
  by \<open>big.Rat.SetString\<close>; of its syntax the decimal form with an optional exponent is modelled,
  and fractions, base prefixes, digit separators and binary exponents are rejected.
\<close>

section \<open>The document\<close>

record genesis_coin =
  gc_denom :: string
  gc_amount :: string

record bank_balance =
  bb_address :: string
  bb_coins :: "genesis_coin list"

record genesis_validator =
  gv_operator :: string
  gv_tokens :: string
  gv_shares :: string

record genesis_delegation =
  gd_delegator :: string
  gd_validator :: string
  gd_shares :: string

record genesis_unbonding =
  gx_delegator :: string
  gx_validator :: string
  gx_balances :: "string list"

record document =
  dc_time :: int
  dc_chain :: string
  dc_balances :: "bank_balance list"
  dc_validators :: "genesis_validator list"
  dc_delegations :: "genesis_delegation list"
  dc_unbondings :: "genesis_unbonding list"
  dc_players :: "(string \<times> string) list"
  dc_grid :: "(string \<times> string) list"

text \<open>A slice of structs: each element is decoded from its members, an absent list is empty.\<close>

definition structs :: "((string \<times> json) list \<Rightarrow> 'a res) \<Rightarrow> 'a list decoder" where
  "structs members v old =
     (case v of
        JNull \<Rightarrow> Inr []
      | JArr vs \<Rightarrow> mapR (\<lambda>x. case x of
            JObj kvs \<Rightarrow> members kvs
          | JNull \<Rightarrow> members []
          | _ \<Rightarrow> Inl (errorf ''cannot unmarshal into struct'')) vs
      | _ \<Rightarrow> Inl (errorf ''cannot unmarshal into slice''))"

definition coin_members :: "(string \<times> json) list \<Rightarrow> genesis_coin res" where
  "coin_members obj =
     bindR (text_field ''denom'' obj) (\<lambda>denom.
     bindR (text_field ''amount'' obj) (\<lambda>amount. Inr \<lparr>gc_denom = denom, gc_amount = amount\<rparr>))"

definition balance_members :: "(string \<times> json) list \<Rightarrow> bank_balance res" where
  "balance_members obj =
     bindR (text_field ''address'' obj) (\<lambda>address.
     bindR (field ''coins'' (structs coin_members) [] obj) (\<lambda>coins.
     Inr \<lparr>bb_address = address, bb_coins = coins\<rparr>))"

definition validator_members :: "(string \<times> json) list \<Rightarrow> genesis_validator res" where
  "validator_members obj =
     bindR (text_field ''operator_address'' obj) (\<lambda>operator.
     bindR (text_field ''tokens'' obj) (\<lambda>tokens.
     bindR (text_field ''delegator_shares'' obj) (\<lambda>shares.
     Inr \<lparr>gv_operator = operator, gv_tokens = tokens, gv_shares = shares\<rparr>)))"

definition delegation_members :: "(string \<times> json) list \<Rightarrow> genesis_delegation res" where
  "delegation_members obj =
     bindR (text_field ''delegator_address'' obj) (\<lambda>delegator.
     bindR (text_field ''validator_address'' obj) (\<lambda>validator.
     bindR (text_field ''shares'' obj) (\<lambda>shares.
     Inr \<lparr>gd_delegator = delegator, gd_validator = validator, gd_shares = shares\<rparr>)))"

definition unbonding_members :: "(string \<times> json) list \<Rightarrow> genesis_unbonding res" where
  "unbonding_members obj =
     bindR (text_field ''delegator_address'' obj) (\<lambda>delegator.
     bindR (text_field ''validator_address'' obj) (\<lambda>validator.
     bindR (field ''entries'' (structs (text_field ''balance'')) [] obj) (\<lambda>balances.
     Inr \<lparr>gx_delegator = delegator, gx_validator = validator, gx_balances = balances\<rparr>)))"

definition pair_members :: "string \<Rightarrow> string \<Rightarrow> (string \<times> json) list \<Rightarrow> (string \<times> string) res" where
  "pair_members a b obj =
     bindR (text_field a obj) (\<lambda>x. bindR (text_field b obj) (\<lambda>y. Inr (x, y)))"

text \<open>A list inside a chain of structs, such as \<open>app_state.bank.balances\<close>.\<close>

fun nested_list :: "string list \<Rightarrow> 'a list decoder \<Rightarrow> (string \<times> json) list \<Rightarrow> 'a list \<Rightarrow> 'a list res" where
  "nested_list [] dec obj old = Inr old"
| "nested_list [name] dec obj old = field name dec old obj"
| "nested_list (name # names) dec obj old = field name (nested (nested_list names dec)) old obj"

definition document_members :: "(string \<times> json) list \<Rightarrow> document res" where
  "document_members obj =
     bindR (field ''genesis_time'' Timestamp zero_time obj) (\<lambda>time.
     bindR (text_field ''chain_id'' obj) (\<lambda>chain.
     bindR (nested_list [''app_state'', ''bank'', ''balances''] (structs balance_members) obj []) (\<lambda>balances.
     bindR (nested_list [''app_state'', ''staking'', ''validators''] (structs validator_members) obj []) (\<lambda>validators.
     bindR (nested_list [''app_state'', ''staking'', ''delegations''] (structs delegation_members) obj []) (\<lambda>delegations.
     bindR (nested_list [''app_state'', ''staking'', ''unbonding_delegations''] (structs unbonding_members) obj []) (\<lambda>unbondings.
     bindR (nested_list [''app_state'', ''structs'', ''playerList''] (structs (pair_members ''index'' ''primaryAddress'')) obj []) (\<lambda>players.
     bindR (nested_list [''app_state'', ''structs'', ''gridList''] (structs (pair_members ''attributeId'' ''value'')) obj []) (\<lambda>grid.
     Inr \<lparr>dc_time = time, dc_chain = chain, dc_balances = balances, dc_validators = validators,
          dc_delegations = delegations, dc_unbondings = unbondings, dc_players = players, dc_grid = grid\<rparr>))))))))"

definition Parse :: "string \<Rightarrow> document res" where
  "Parse raw =
     (if raw = [] then Inl (errorf ''genesis: empty payload'')
      else case bindR (document_of raw) document_members of
        Inl e \<Rightarrow> Inl (wrapf ''genesis: decode: '' e)
      | Inr d \<Rightarrow>
          if dc_chain d = [] then Inl (errorf ''genesis: missing chain_id'')
          else if dc_time d = zero_time then Inl (errorf ''genesis: missing or invalid genesis_time'')
          else Inr d)"

record loaded_document =
  ld_doc :: document
  ld_raw :: string
  ld_source :: string
  ld_sha256 :: string

definition hex_lower :: "nat \<Rightarrow> char" where
  "hex_lower n = ''0123456789abcdef'' ! n"

definition hashHex :: "(string \<Rightarrow> string) \<Rightarrow> string \<Rightarrow> string" where
  "hashHex sha256 b = concat (map (\<lambda>c. [hex_lower (of_char c div 16), hex_lower (of_char c mod 16)]) (sha256 b))"

text \<open>\<open>LoadFromRPC\<close> and \<open>LoadFromFile\<close> differ in the words of the error and of the source tag.\<close>

definition load_document :: "(string \<Rightarrow> string) \<Rightarrow> string \<Rightarrow> string \<Rightarrow> string res \<Rightarrow> loaded_document res" where
  "load_document sha256 failed source fetched =
     (case fetched of
        Inl e \<Rightarrow> Inl (wrapf failed e)
      | Inr raw \<Rightarrow>
          bindR (Parse raw) (\<lambda>doc.
          Inr \<lparr>ld_doc = doc, ld_raw = raw, ld_source = source, ld_sha256 = hashHex sha256 raw\<rparr>))"

definition LoadFromRPC :: "(string \<Rightarrow> string) \<Rightarrow> string \<Rightarrow> string res \<Rightarrow> loaded_document res" where
  "LoadFromRPC sha256 base_url = load_document sha256 ''genesis: rpc fetch: '' (''rpc:'' @ base_url)"

definition LoadFromFile :: "(string \<Rightarrow> string) \<Rightarrow> string \<Rightarrow> string res \<Rightarrow> loaded_document res" where
  "LoadFromFile sha256 path = load_document sha256 ''genesis: read: '' (''file:'' @ path)"

text \<open>The fetch through the RPC client; the first endpoint names the source.\<close>

definition load_genesis :: "(string \<Rightarrow> string) \<Rightarrow> rpc_env \<Rightarrow> (rpc_state, loaded_document) op" where
  "load_genesis sha256 ev s =
     (case rpc_genesis ev s of (r, s') \<Rightarrow> (LoadFromRPC sha256 (BaseURL (rs_client s')) r, s'))"

section \<open>Amounts\<close>

definition exponent_of :: "string \<Rightarrow> int option" where
  "exponent_of s =
     (case s of
        [] \<Rightarrow> Some 0
      | c # t \<Rightarrow> if c = CHR ''e'' \<or> c = CHR ''E'' then parse_int64 t else None)"

definition rat_of_string :: "string \<Rightarrow> rat option" where
  "rat_of_string s =
     (let neg = (s \<noteq> [] \<and> hd s = CHR ''-'');
          t = (if s \<noteq> [] \<and> (hd s = CHR ''-'' \<or> hd s = CHR ''+'') then tl s else s);
          whole = takeWhile is_digit t; r = dropWhile is_digit t;
          point = (r \<noteq> [] \<and> hd r = CHR ''.'');
          frac = (if point then takeWhile is_digit (tl r) else []);
          rest = (if point then dropWhile is_digit (tl r) else r)
      in if whole = [] \<and> frac = [] then None
         else case exponent_of rest of
           None \<Rightarrow> None
         | Some e \<Rightarrow>
             let m = int (nat_of_digits (whole @ frac)); k = e - int (length frac);
                 v = (if neg then - m else m) in
             if m = 0 then Some 0
             else if 1000000 < \<bar>k\<bar> then None
             else Some (if 0 \<le> k then of_int v * 10 ^ nat k else of_int v / 10 ^ nat (- k)))"

text \<open>\<open>big.Int.Quo\<close> of numerator and denominator rounds toward zero.\<close>

definition truncate_rat :: "rat \<Rightarrow> int" where
  "truncate_rat q = (if q < 0 then - \<lfloor>- q\<rfloor> else \<lfloor>q\<rfloor>)"

definition delegationAmount :: "string \<Rightarrow> string \<Rightarrow> string \<Rightarrow> string res" where
  "delegationAmount shares vTokens vShares =
     (case rat_of_string shares of
        None \<Rightarrow> Inl (errorf ''delegationAmount: shares not a number'')
      | Some s \<Rightarrow>
     (case rat_of_string vTokens of
        None \<Rightarrow> Inl (errorf ''delegationAmount: validator tokens not a number'')
      | Some vt \<Rightarrow>
     (case rat_of_string vShares of
        None \<Rightarrow> Inl (errorf ''delegationAmount: validator shares not a number'')
      | Some vs \<Rightarrow>
          if vs \<le> 0 then Inr ''0''
          else Inr (dec_int (truncate_rat (s * vt / vs))))))"

section \<open>The rows\<close>

definition genesis_row_of :: "document \<Rightarrow> string \<Rightarrow> string \<Rightarrow> string \<Rightarrow> string \<Rightarrow> ledger_row" where
  "genesis_row_of doc address counterparty amount denom =
     \<lparr>lr_address = address, lr_counterparty = counterparty, lr_amount = amount, lr_height = 0,
      lr_time = dc_time doc, lr_action = ''genesis'', lr_direction = ''credit'', lr_denom = denom,
      lr_chain = [], lr_tx = 0, lr_msg = 0, lr_event = 0\<rparr>"

definition ledgerBankRows :: "document \<Rightarrow> ledger_row list" where
  "ledgerBankRows doc =
     concat (map (\<lambda>b. map (\<lambda>c. genesis_row_of doc (bb_address b) [] (gc_amount c) (gc_denom c)) (bb_coins b))
       (dc_balances doc))"

text \<open>Both parties of a stake are credited, each naming the other.\<close>

definition both_sides :: "document \<Rightarrow> string \<Rightarrow> string \<Rightarrow> string \<Rightarrow> string \<Rightarrow> ledger_row list" where
  "both_sides doc delegator validator amount denom =
     [genesis_row_of doc delegator validator amount denom, genesis_row_of doc validator delegator amount denom]"

text \<open>The last validator of an address counts; a missing one has no tokens and one share.\<close>

definition validator_info :: "document \<Rightarrow> string \<Rightarrow> string \<times> string" where
  "validator_info doc v =
     (case map_of (rev (map (\<lambda>x. (gv_operator x, (gv_tokens x, gv_shares x))) (dc_validators doc))) v of
        None \<Rightarrow> (''0'', ''1'')
      | Some info \<Rightarrow> info)"

definition delegation_rows :: "document \<Rightarrow> ledger_row list res" where
  "delegation_rows doc =
     bindR (mapR (\<lambda>d. case validator_info doc (gd_validator d) of (tokens, shares) \<Rightarrow>
         (case delegationAmount (gd_shares d) tokens shares of
            Inl e \<Rightarrow> Inl (wrapf ''delegation: '' e)
          | Inr amt \<Rightarrow> Inr (both_sides doc (gd_delegator d) (gd_validator d) amt ''ualpha.infused'')))
       (dc_delegations doc)) (\<lambda>rows. Inr (concat rows))"

definition unbonding_rows :: "document \<Rightarrow> ledger_row list" where
  "unbonding_rows doc =
     concat (map (\<lambda>u. concat (map (\<lambda>amt.
         both_sides doc (gx_delegator u) (gx_validator u) amt ''ualpha.defusing'') (gx_balances u)))
       (dc_unbondings doc))"

definition ore_row :: "document \<Rightarrow> string \<times> string \<Rightarrow> ledger_row list" where
  "ore_row doc g =
     (case g of (attribute_id, value) \<Rightarrow>
        let parts = split_on (CHR ''-'') attribute_id in
        if \<not> has_prefix attribute_id ''0-1-'' \<or> value = [] \<or> value = ''0'' \<or> length parts < 3 then []
        else case map_of (rev (dc_players doc)) (parts ! 2) of
          None \<Rightarrow> []
        | Some addr \<Rightarrow> if addr = [] then [] else [genesis_row_of doc addr [] value ''ore''])"

definition ore_rows :: "document \<Rightarrow> ledger_row list" where
  "ore_rows doc = concat (map (ore_row doc) (dc_grid doc))"

section \<open>Inserts\<close>

definition number_rows :: "string \<Rightarrow> nat \<Rightarrow> ledger_row list \<Rightarrow> ledger_row list" where
  "number_rows chain seq rows =
     map (\<lambda>(i, r). r\<lparr>lr_chain := chain, lr_tx := - 1, lr_msg := - 1, lr_event := int i\<rparr>) (enumerate seq rows)"

definition genesis_batch :: nat where
  "genesis_batch = 5000"

definition execLedgerBatch :: "ledger_row list \<Rightarrow> (world, unit) op" where
  "execLedgerBatch rows = exec (\<lambda>d. d\<lparr>db_ledger := db_ledger d @ rows\<rparr>)"

definition execLedgerInserts :: "string \<Rightarrow> nat \<Rightarrow> ledger_row list \<Rightarrow> (world, nat) op" where
  "execLedgerInserts chain seq rows =
     bindO (forO (chunks genesis_batch (number_rows chain seq rows)) execLedgerBatch) (\<lambda>_.
     returnO (length rows))"

definition DeleteGenesisLedgerRows :: "(world, nat) op" where
  "DeleteGenesisLedgerRows =
     sql (\<lambda>d. (length (filter (\<lambda>r. lr_action r = ''genesis'') (db_ledger d)),
       d\<lparr>db_ledger := filter (\<lambda>r. lr_action r \<noteq> ''genesis'') (db_ledger d)\<rparr>))"

definition WriteGenesisLog :: "string \<Rightarrow> genesis_row \<Rightarrow> (world, unit) op" where
  "WriteGenesisLog chain r =
     exec (on_sync (\<lambda>s. s\<lparr>sy_genesis := tbl_put chain (r\<lparr>gn_time := pg_timestamp (gn_time r)\<rparr>) (sy_genesis s)\<rparr>))"

definition ReadGenesisLog :: "string \<Rightarrow> (service, genesis_row option) op" where
  "ReadGenesisLog chain s =
     (case pool_query (\<lambda>d. tbl_get (sy_genesis (db_sync d)) chain) s of
        (Inl e, s') \<Rightarrow> (if errors_Is e undefined_table then Inr None else Inl e, s')
      | (Inr r, s') \<Rightarrow> (Inr r, s'))"

record apply_report =
  rp_row :: genesis_row
  rp_deleted :: nat

definition section_message :: "string \<Rightarrow> string" where
  "section_message name = ''genesis: '' @ name @ '' section: ''"

definition apply_tx :: "loaded_document \<Rightarrow> (world, apply_report) op" where
  "apply_tx l =
     (let doc = ld_doc l; chain = dc_chain doc in
      bindO lockO (\<lambda>_.
      bindO (wrapO ''genesis: delete prior genesis rows: '' DeleteGenesisLedgerRows) (\<lambda>deleted.
      bindO (wrapO (section_message ''bank'') (execLedgerInserts chain 0 (ledgerBankRows doc))) (\<lambda>bank.
      bindO (wrapO (section_message ''delegations'')
        (bindO (liftO (delegation_rows doc)) (execLedgerInserts chain bank))) (\<lambda>dels.
      bindO (wrapO (section_message ''unbondings'')
        (execLedgerInserts chain (bank + dels) (unbonding_rows doc))) (\<lambda>unbs.
      bindO (wrapO (section_message ''player ore'')
        (execLedgerInserts chain (bank + dels + unbs) (ore_rows doc))) (\<lambda>ore.
      let row = \<lparr>gn_source = ld_source l, gn_time = dc_time doc, gn_sha256 = ld_sha256 l,
                 gn_sections = [(''bank'', int bank), (''delegations'', int dels), (''ore'', int ore), (''unbondings'', int unbs)],
                 gn_total = int (bank + dels + unbs + ore)\<rparr> in
      bindO (wrapO ''genesis: write genesis_log: '' (WriteGenesisLog chain row)) (\<lambda>_.
      bindO Withhold (\<lambda>_.
      returnO \<lparr>rp_row = row, rp_deleted = deleted\<rparr>)))))))))"

definition Apply :: "loaded_document \<Rightarrow> (service, apply_report) op" where
  "Apply l = pool_tx_value ''genesis: begin tx: '' ''genesis: commit: '' (apply_tx l)"

end
