(* ===== verification/Genesis_Facts.thy ===== *)
theory Genesis_Facts
  imports Genesis Frames
begin

text \<open>
  What the genesis import guarantees: it replaces exactly the genesis rows of the ledger by
  those of the document, under identities that number them through, it can be repeated, and
  the stakes it credits to a validator never exceed the validator's tokens.
\<close>

section \<open>The ledger after an import\<close>

definition genesis_rows :: "document \<Rightarrow> ledger_row list res" where
  "genesis_rows doc =
     bindR (delegation_rows doc) (\<lambda>dels.
     Inr (number_rows (dc_chain doc) 0 (ledgerBankRows doc @ dels @ unbonding_rows doc @ ore_rows doc)))"

lemma number_rows_append:
  "number_rows chain n (xs @ ys) = number_rows chain n xs @ number_rows chain (n + length xs) ys"
  by (simp add: number_rows_def enumerate_append_eq)

lemma number_rows_simps [simp]:
  "number_rows chain n [] = []"
  "number_rows chain n (r # rows) =
     r\<lparr>lr_chain := chain, lr_tx := - 1, lr_msg := - 1, lr_event := int n\<rparr> # number_rows chain (Suc n) rows"
  by (simp_all add: number_rows_def)

lemma number_rows_events: "map lr_event (number_rows chain n rows) = map int [n..<n + length rows]"
  by (induction rows arbitrary: n) (simp_all add: upt_conv_Cons del: upt_Suc)

lemma number_rows_all:
  "list_all (\<lambda>r. lr_chain r = chain \<and> lr_tx r = - 1 \<and> lr_msg r = - 1) (number_rows chain n rows)"
  "list_all (\<lambda>r. lr_action r = ''genesis'') (number_rows chain n rows) \<longleftrightarrow> list_all (\<lambda>r. lr_action r = ''genesis'') rows"
  by (induction rows arbitrary: n) simp_all

lemma number_rows_length [simp]: "length (number_rows chain n rows) = length rows"
  by (simp add: number_rows_def)

lemma batches_db:
  "forO bs execLedgerBatch w = (Inr (), w') \<Longrightarrow> w_db w' = (w_db w)\<lparr>db_ledger := db_ledger (w_db w) @ concat bs\<rparr>"
  by (induction bs arbitrary: w) (auto simp: returnO_def bindO_Inr execLedgerBatch_def dest!: exec_Inr)

lemma inserts_db:
  assumes "execLedgerInserts chain n rows w = (Inr k, w')"
  shows "k = length rows \<and> w_db w' = (w_db w)\<lparr>db_ledger := db_ledger (w_db w) @ number_rows chain n rows\<rparr>"
  using assms by (auto simp: execLedgerInserts_def bindO_Inr returnO_def concat_chunks genesis_batch_def dest!: batches_db)

lemma concat_genesis:
  "(\<And>x. list_all (\<lambda>r. lr_action r = ''genesis'') (f x)) \<Longrightarrow> list_all (\<lambda>r. lr_action r = ''genesis'') (concat (map f xs))"
  by (induction xs) simp_all

lemma sections_genesis:
  "list_all (\<lambda>r. lr_action r = ''genesis'') (ledgerBankRows doc)"
  "list_all (\<lambda>r. lr_action r = ''genesis'') (unbonding_rows doc)"
  "list_all (\<lambda>r. lr_action r = ''genesis'') (ore_rows doc)"
proof -
  have both: "list_all (\<lambda>r. lr_action r = ''genesis'') (both_sides doc a b amt den)" for a b amt den
    by (simp add: both_sides_def genesis_row_of_def)
  show "list_all (\<lambda>r. lr_action r = ''genesis'') (ledgerBankRows doc)"
    unfolding ledgerBankRows_def by (rule concat_genesis) (simp add: list_all_iff genesis_row_of_def)
  show "list_all (\<lambda>r. lr_action r = ''genesis'') (unbonding_rows doc)"
    unfolding unbonding_rows_def by (intro concat_genesis both)
  show "list_all (\<lambda>r. lr_action r = ''genesis'') (ore_rows doc)"
    unfolding ore_rows_def
    by (rule concat_genesis) (simp add: ore_row_def Let_def genesis_row_of_def split: prod.split option.split)
qed

lemma delegation_rows_genesis:
  assumes "delegation_rows doc = Inr rows"
  shows "list_all (\<lambda>r. lr_action r = ''genesis'') rows"
proof -
  from assms obtain rs where rows: "rows = concat rs"
    and m: "mapR (\<lambda>d. case validator_info doc (gd_validator d) of (tokens, shares) \<Rightarrow>
         (case delegationAmount (gd_shares d) tokens shares of
            Inl e \<Rightarrow> Inl (wrapf ''delegation: '' e)
          | Inr amt \<Rightarrow> Inr (both_sides doc (gd_delegator d) (gd_validator d) amt ''ualpha.infused'')))
       (dc_delegations doc) = Inr rs"
    by (auto simp: delegation_rows_def res_simps)
  have "list_all (list_all (\<lambda>r. lr_action r = ''genesis'')) rs"
    using mapR_Inr [OF m] by (induction rule: list_all2_induct)
      (auto simp: both_sides_def genesis_row_of_def split: prod.splits sum.splits)
  then show ?thesis by (auto simp: rows list_all_iff)
qed

definition genesis_entry :: "string \<Rightarrow> ledger_row \<Rightarrow> bool" where
  "genesis_entry chain r \<longleftrightarrow> lr_action r = ''genesis'' \<and> lr_chain r = chain \<and> lr_tx r = - 1 \<and> lr_msg r = - 1"

lemma genesis_rows_shape:
  assumes "genesis_rows doc = Inr rows"
  shows "list_all (genesis_entry (dc_chain doc)) rows \<and> map lr_event rows = map int [0..<length rows]"
proof -
  from assms obtain dels where d: "delegation_rows doc = Inr dels"
    and rows: "rows = number_rows (dc_chain doc) 0 (ledgerBankRows doc @ dels @ unbonding_rows doc @ ore_rows doc)"
    by (auto simp: genesis_rows_def res_simps)
  have "list_all (\<lambda>r. lr_action r = ''genesis'') rows"
    unfolding rows number_rows_all using sections_genesis delegation_rows_genesis [OF d] by simp
  with number_rows_all(1) [of "dc_chain doc" 0] number_rows_events [of "dc_chain doc" 0] show ?thesis
    unfolding rows by (simp add: list_all_iff genesis_entry_def)
qed

lemma Withhold_db: "Withhold w = (Inr u, w') \<Longrightarrow> w_db w' = (w_db w)\<lparr>db_api := db_api (w_db w')\<rparr>"
  by (auto simp: Withhold_def bindO_Inr on_api_def dest!: exec_Inr)

lemma lock_db: "lockO w = (Inr u, w') \<Longrightarrow> w_db w' = w_db w"
  by (auto simp: lockO_def wrapO_Inr dest: exec_Inr)

lemma apply_tx_db:
  assumes "apply_tx l w = (Inr rep, w')"
  shows "\<exists>rows. genesis_rows (ld_doc l) = Inr rows \<and>
    rp_deleted rep = length (filter (\<lambda>r. lr_action r = ''genesis'') (db_ledger (w_db w))) \<and>
    gn_total (rp_row rep) = int (length rows) \<and> gn_sha256 (rp_row rep) = ld_sha256 l \<and>
    w_db w' = (w_db w)\<lparr>db_ledger := filter (\<lambda>r. lr_action r \<noteq> ''genesis'') (db_ledger (w_db w)) @ rows,
      db_sync := (db_sync (w_db w))\<lparr>sy_genesis := tbl_put (dc_chain (ld_doc l))
        ((rp_row rep)\<lparr>gn_time := pg_timestamp (gn_time (rp_row rep))\<rparr>) (sy_genesis (db_sync (w_db w)))\<rparr>,
      db_api := db_api (w_db w')\<rparr>"
proof -
  let ?doc = "ld_doc l" let ?chain = "dc_chain (ld_doc l)"
  from assms obtain u1 w1 k w2 nb w3 dels nd w4 nu w5 no w6 u2 w7 u3 where
    s1: "lockO w = (Inr u1, w1)" and s2: "DeleteGenesisLedgerRows w1 = (Inr k, w2)"
    and s3: "execLedgerInserts ?chain 0 (ledgerBankRows ?doc) w2 = (Inr nb, w3)"
    and d: "delegation_rows ?doc = Inr dels" and s4: "execLedgerInserts ?chain nb dels w3 = (Inr nd, w4)"
    and s5: "execLedgerInserts ?chain (nb + nd) (unbonding_rows ?doc) w4 = (Inr nu, w5)"
    and s6: "execLedgerInserts ?chain (nb + nd + nu) (ore_rows ?doc) w5 = (Inr no, w6)"
    and s7: "WriteGenesisLog ?chain (rp_row rep) w6 = (Inr u2, w7)" and s8: "Withhold w7 = (Inr u3, w')"
    and rep: "rp_deleted rep = k" "gn_total (rp_row rep) = int (nb + nd + nu + no)" "gn_sha256 (rp_row rep) = ld_sha256 l"
    unfolding apply_tx_def Let_def
    by (auto simp: bindO_Inr wrapO_Inr liftO_def returnO_def)
  note i3 = inserts_db [OF s3] note i4 = inserts_db [OF s4] note i5 = inserts_db [OF s5] note i6 = inserts_db [OF s6]
  have d1: "w_db w1 = w_db w" by (rule lock_db [OF s1])
  have d2: "k = length (filter (\<lambda>r. lr_action r = ''genesis'') (db_ledger (w_db w)))"
    "w_db w2 = (w_db w)\<lparr>db_ledger := filter (\<lambda>r. lr_action r \<noteq> ''genesis'') (db_ledger (w_db w))\<rparr>"
    using s2 d1 by (auto simp: DeleteGenesisLedgerRows_def sql_Inr)
  let ?rows = "number_rows ?chain 0 (ledgerBankRows ?doc @ dels @ unbonding_rows ?doc @ ore_rows ?doc)"
  have d6: "w_db w6 = (w_db w)\<lparr>db_ledger := filter (\<lambda>r. lr_action r \<noteq> ''genesis'') (db_ledger (w_db w)) @ ?rows\<rparr>"
    using i3 i4 i5 i6 d2(2) by (simp add: number_rows_append add.assoc)
  have d7: "w_db w7 = on_sync (\<lambda>s. s\<lparr>sy_genesis := tbl_put ?chain
      ((rp_row rep)\<lparr>gn_time := pg_timestamp (gn_time (rp_row rep))\<rparr>) (sy_genesis s)\<rparr>) (w_db w6)"
    using s7 by (auto simp: WriteGenesisLog_def dest: exec_Inr)
  have d8: "w_db w7 = (w_db w)\<lparr>db_ledger := filter (\<lambda>r. lr_action r \<noteq> ''genesis'') (db_ledger (w_db w)) @ ?rows,
      db_sync := (db_sync (w_db w))\<lparr>sy_genesis := tbl_put ?chain
        ((rp_row rep)\<lparr>gn_time := pg_timestamp (gn_time (rp_row rep))\<rparr>) (sy_genesis (db_sync (w_db w)))\<rparr>\<rparr>"
    by (simp add: d7 d6 on_sync_def)
  have "gn_total (rp_row rep) = int (length ?rows)" using rep i3 i4 i5 i6 by simp
  with d rep(1,3) d2(1) Withhold_db [OF s8, unfolded d8] show ?thesis
    by (intro exI [of _ ?rows] conjI) (simp_all only: genesis_rows_def bindR_simps)
qed

lemma Apply_db:
  assumes "Apply l s = (Inr rep, s1)"
  shows "\<exists>rows api. genesis_rows (ld_doc l) = Inr rows \<and>
    rp_deleted rep = length (filter (\<lambda>r. lr_action r = ''genesis'') (db_ledger (sx_db s))) \<and>
    gn_total (rp_row rep) = int (length rows) \<and>
    sx_db s1 = (sx_db s)\<lparr>db_ledger := filter (\<lambda>r. lr_action r \<noteq> ''genesis'') (db_ledger (sx_db s)) @ rows,
      db_sync := (db_sync (sx_db s))\<lparr>sy_genesis := tbl_put (dc_chain (ld_doc l))
        ((rp_row rep)\<lparr>gn_time := pg_timestamp (gn_time (rp_row rep))\<rparr>) (sy_genesis (db_sync (sx_db s)))\<rparr>,
      db_api := api\<rparr>"
proof -
  obtain w where "apply_tx l (tx_world s) = (Inr rep, w)" "sx_db s1 = w_db w"
    using assms unfolding Apply_def by (rule pool_tx_value_Inr)
  with apply_tx_db show ?thesis by (metis tx_world_fields(1))
qed

text \<open>C30: The genesis import replaces exactly the genesis part of the ledger and can be repeated.  After a
  successful import the ledger is the old one without its genesis rows, followed by the rows of
  the document, each marked as a genesis entry of the chain and numbered through from 0; the log
  counts them; no table but the ledger, the genesis log and the readiness of the projections has
  changed.  Importing the same document again leaves the same ledger and counts the same rows.\<close>

theorem genesis_import_repeatable:
  assumes "Apply l s = (Inr rep, s1)" "Apply l s2 = (Inr rep', s3)" "sx_db s2 = sx_db s1"
  shows "\<exists>rows. genesis_rows (ld_doc l) = Inr rows \<and>
    list_all (genesis_entry (dc_chain (ld_doc l))) rows \<and> map lr_event rows = map int [0..<length rows] \<and>
    db_ledger (sx_db s1) = filter (\<lambda>r. lr_action r \<noteq> ''genesis'') (db_ledger (sx_db s)) @ rows \<and>
    gn_total (rp_row rep) = int (length rows) \<and>
    sx_db s1 = (sx_db s)\<lparr>db_ledger := db_ledger (sx_db s1), db_sync := (db_sync (sx_db s))\<lparr>sy_genesis :=
      sy_genesis (db_sync (sx_db s1))\<rparr>, db_api := db_api (sx_db s1)\<rparr> \<and>
    db_ledger (sx_db s3) = db_ledger (sx_db s1) \<and> rp_deleted rep' = length rows"
proof -
  obtain rows api where rows: "genesis_rows (ld_doc l) = Inr rows" and total: "gn_total (rp_row rep) = int (length rows)"
    and s1: "sx_db s1 = (sx_db s)\<lparr>db_ledger := filter (\<lambda>r. lr_action r \<noteq> ''genesis'') (db_ledger (sx_db s)) @ rows,
      db_sync := (db_sync (sx_db s))\<lparr>sy_genesis := tbl_put (dc_chain (ld_doc l))
        ((rp_row rep)\<lparr>gn_time := pg_timestamp (gn_time (rp_row rep))\<rparr>) (sy_genesis (db_sync (sx_db s)))\<rparr>,
      db_api := api\<rparr>"
    using Apply_db [OF assms(1)] by blast
  note shape = genesis_rows_shape [OF rows]
  have "filter (\<lambda>r. lr_action r \<noteq> ''genesis'') rows = []" "filter (\<lambda>r. lr_action r = ''genesis'') rows = rows"
    using shape by (auto simp: filter_empty_conv filter_id_conv list_all_iff genesis_entry_def)
  moreover obtain rows' api' where "genesis_rows (ld_doc l) = Inr rows'"
    and "rp_deleted rep' = length (filter (\<lambda>r. lr_action r = ''genesis'') (db_ledger (sx_db s2)))"
    and "db_ledger (sx_db s3) = filter (\<lambda>r. lr_action r \<noteq> ''genesis'') (db_ledger (sx_db s2)) @ rows'"
    using Apply_db [OF assms(2)] by auto
  ultimately have "db_ledger (sx_db s3) = db_ledger (sx_db s1)" "rp_deleted rep' = length rows"
    by (simp_all add: assms(3) s1 rows filter_id_conv)
  with rows shape total show ?thesis by (simp add: s1)
qed

definition example_loaded :: loaded_document where
  "example_loaded =
     \<lparr>ld_doc = \<lparr>dc_time = 5000, dc_chain = ''c'',
         dc_balances = [\<lparr>bb_address = ''a'', bb_coins = [\<lparr>gc_denom = ''ualpha'', gc_amount = ''5''\<rparr>]\<rparr>],
         dc_validators = [\<lparr>gv_operator = ''v'', gv_tokens = ''10'', gv_shares = ''3.0''\<rparr>],
         dc_delegations = [\<lparr>gd_delegator = ''a'', gd_validator = ''v'', gd_shares = ''1.0''\<rparr>],
         dc_unbondings = [], dc_players = [], dc_grid = []\<rparr>,
      ld_raw = ''{}'', ld_source = ''file:g.json'', ld_sha256 = ''00''\<rparr>"

definition example_pool :: service where
  "example_pool =
     \<lparr>sx_db = empty_tables, sx_unknowns = no_unknowns, sx_stale = False, sx_clock = 0, sx_fault = (\<lambda>_. None)\<rparr>"

lemma succeeds: "\<not> isl (fst p) \<Longrightarrow> \<exists>x. p = (Inr x, snd p)"
  by (cases p; cases "fst p") simp_all

theorem genesis_import_repeatable_witness:
  "map (\<lambda>r. (lr_address r, lr_amount r, lr_event r))
      (db_ledger (sx_db (snd (Apply example_loaded (snd (Apply example_loaded example_pool)))))) =
    [(''a'', ''5'', 0), (''a'', ''3'', 1), (''v'', ''3'', 2)]"
proof -
  let ?a1 = "Apply example_loaded example_pool" let ?a2 = "Apply example_loaded (snd ?a1)"
  have "\<not> isl (fst ?a1)" "\<not> isl (fst ?a2)"
    and led: "map (\<lambda>r. (lr_address r, lr_amount r, lr_event r)) (db_ledger (sx_db (snd ?a1))) =
      [(''a'', ''5'', 0), (''a'', ''3'', 1), (''v'', ''3'', 2)]"
    by code_simp+
  from succeeds [OF this(1)] succeeds [OF this(2)]
  obtain rep rep' where "?a1 = (Inr rep, snd ?a1)" "?a2 = (Inr rep', snd ?a2)" by blast
  from genesis_import_repeatable [OF this refl]
  have "db_ledger (sx_db (snd ?a2)) = db_ledger (sx_db (snd ?a1))" by blast
  with led show ?thesis by (simp only:)
qed

section \<open>Stakes stay within the validator's tokens\<close>

lemma truncate_le: "0 \<le> q \<Longrightarrow> of_int (truncate_rat q) \<le> q \<and> 0 \<le> truncate_rat q"
  by (simp add: truncate_rat_def)

lemma dec_int_back: "0 \<le> i \<Longrightarrow> nat_of_digits (dec_int i) = nat i"
  by (simp add: dec_int_def)

definition share_value :: "string \<Rightarrow> rat" where
  "share_value s = (case rat_of_string s of None \<Rightarrow> 0 | Some q \<Rightarrow> q)"

lemma amounts_bounded:
  assumes "mapR (\<lambda>s. delegationAmount s tokens vshares) ss = Inr amounts"
    and "rat_of_string tokens = Some vt" "rat_of_string vshares = Some vs" "0 \<le> vt" "0 < vs"
    and "list_all (\<lambda>s. 0 \<le> share_value s) ss"
  shows "of_nat (sum_list (map nat_of_digits amounts)) \<le> sum_list (map share_value ss) * vt / vs"
  using assms(1,6)
proof (induction ss arbitrary: amounts)
  case (Cons s ss)
  from Cons.prems(1) obtain a as' where a: "delegationAmount s tokens vshares = Inr a"
    "mapR (\<lambda>s. delegationAmount s tokens vshares) ss = Inr as'" "amounts = a # as'"
    by (auto simp: res_simps)
  have q: "0 \<le> share_value s * vt / vs" using Cons.prems(2) assms(4,5) by simp
  have "a = dec_int (truncate_rat (share_value s * vt / vs))"
    using a(1) assms(2,3,5) by (auto simp: delegationAmount_def share_value_def split: option.splits)
  then have "of_nat (nat_of_digits a) \<le> share_value s * vt / vs"
    using truncate_le [OF q] by (simp add: dec_int_back of_nat_nat)
  moreover have "of_nat (sum_list (map nat_of_digits as')) \<le> sum_list (map share_value ss) * vt / vs"
    using Cons.IH [OF a(2)] Cons.prems(2) by simp
  ultimately show ?case by (simp add: a(3) algebra_simps add_divide_distrib)
qed simp

text \<open>The stakes credited to a validator never exceed its tokens.  For non-negative shares that sum to at
  most the validator's positive total, every amount is computed by rounding down, and the
  amounts of all its delegations together are at most its tokens.\<close>

theorem delegations_within_tokens:
  assumes "mapR (\<lambda>s. delegationAmount s tokens vshares) ss = Inr amounts"
    and "rat_of_string tokens = Some vt" "rat_of_string vshares = Some vs" "0 \<le> vt" "0 < vs"
    and "list_all (\<lambda>s. 0 \<le> share_value s) ss" "sum_list (map share_value ss) \<le> vs"
  shows "of_nat (sum_list (map nat_of_digits amounts)) \<le> vt"
proof -
  have "of_nat (sum_list (map nat_of_digits amounts)) \<le> sum_list (map share_value ss) * vt / vs"
    by (rule amounts_bounded [OF assms(1-6)])
  also have "\<dots> \<le> vs * vt / vs"
    using assms(4,5,7) by (intro divide_right_mono mult_right_mono) auto
  also have "\<dots> = vt" using assms(5) by simp
  finally show ?thesis .
qed

theorem delegations_within_tokens_witness:
  "sum_list (map nat_of_digits [''3'', ''6'']) \<le> (10 :: nat)"
proof -
  have "mapR (\<lambda>s. delegationAmount s ''10'' ''3.0'') [''1.0'', ''2.0''] = Inr [''3'', ''6'']"
    "rat_of_string ''10'' = Some 10" "rat_of_string ''3.0'' = Some 3"
    "list_all (\<lambda>s. 0 \<le> share_value s) [''1.0'', ''2.0'']" "sum_list (map share_value [''1.0'', ''2.0'']) \<le> 3"
    by code_simp+
  from delegations_within_tokens [OF this(1-3) _ _ this(4-5)]
  have "(of_nat (sum_list (map nat_of_digits [''3'', ''6''])) :: rat) \<le> of_nat 10" by simp
  then show ?thesis unfolding of_nat_le_iff .
qed

end
