(* ===== verification/Rpc_Client_Facts.thy ===== *)
theory Rpc_Client_Facts
  imports Rpc_Client
begin

text \<open>
  What the failover guarantees: the pool of endpoints is fixed, every outcome of a request is
  accounted for endpoint by endpoint, waits between attempts are capped, and a chunked genesis
  document is put together in order.
\<close>

section \<open>The pool is fixed\<close>

definition settings :: "rpc_client \<Rightarrow> string list \<times> int \<times> int \<times> int \<times> int" where
  "settings c = (URLs c, cl_retries c, cl_backoff c, cl_ttl c, cl_failover c)"

definition same_pool :: "rpc_state \<Rightarrow> rpc_state \<Rightarrow> bool" where
  "same_pool s s' \<longleftrightarrow> settings (rs_client s') = settings (rs_client s)"

interpretation pool: preorder_op same_pool
  by unfold_locales (simp_all add: same_pool_def)

lemma same_pool_simps [simp]:
  "same_pool s (s\<lparr>rs_tick := n\<rparr>)"
  "same_pool s (s\<lparr>rs_client := set_endpoint i ep (rs_client s), rs_tick := n\<rparr>) \<longleftrightarrow>
     settings (set_endpoint i ep (rs_client s)) = settings (rs_client s)"
  by (simp_all add: same_pool_def)

lemma set_endpoint_fields [simp]:
  "cl_endpoints (set_endpoint i ep c) = (cl_endpoints c)[i := ep]"
  "cl_retries (set_endpoint i ep c) = cl_retries c" "cl_backoff (set_endpoint i ep c) = cl_backoff c"
  "cl_ttl (set_endpoint i ep c) = cl_ttl c" "cl_failover (set_endpoint i ep c) = cl_failover c"
  by (simp_all add: set_endpoint_def)

lemma settings_set_endpoint:
  assumes "ep_url ep = ep_url (cl_endpoints c ! i)"
  shows "settings (set_endpoint i ep c) = settings c"
proof -
  have "map ep_url ((cl_endpoints c)[i := ep]) = (map ep_url (cl_endpoints c))[i := map ep_url (cl_endpoints c) ! i]"
    using assms by (cases "i < length (cl_endpoints c)") (simp_all add: map_update list_update_beyond)
  then show ?thesis by (simp add: settings_def URLs_def)
qed

lemma mark_fields [simp]:
  "ep_url (markHealthy t ep) = ep_url ep" "ep_url (markFailed e t ep) = ep_url ep"
  "ep_stat (markHealthy t ep) = ep_stat ep" "ep_stat (markFailed e t ep) = ep_stat ep"
  "ep_err (markHealthy t ep) = None" "ep_err (markFailed e t ep) = Some e"
  "ep_seen (markHealthy t ep) = t" "ep_seen (markFailed e t ep) = t"
  by (simp_all add: markHealthy_def markFailed_def)

lemma try_endpoints_pool: "keeps same_pool (try_endpoints ev path want out is errs old)"
proof (induction "is" arbitrary: errs old)
  case (Cons i "is")
  have step: "same_pool s (snd (try_endpoints ev path want out is errs old t))" if "same_pool s t" for s t errs old
    using pool.R_trans [OF that] Cons.IH [unfolded keeps_def] by blast
  show ?case
    unfolding keeps_def
    by (auto simp: Let_def settings_set_endpoint intro!: step split: prod.split option.split)
qed (simp add: keeps_def pool.R_refl)

lemma rpc_get_pool: "keeps same_pool (rpc_get ev path want out zero)"
  using try_endpoints_pool [of ev path want out] by (simp add: keeps_def rpc_get_def pool.R_refl)

lemma refreshStatus_pool: "keeps same_pool (refreshStatus ev cap i)"
  by (auto simp: keeps_def refreshStatus_def Let_def settings_set_endpoint split: prod.split option.split)

lemma status_from_pool: "keeps same_pool (status_from ev is errs catching)"
proof (induction "is" arbitrary: errs catching)
  case (Cons i "is")
  have refreshed: "same_pool s s'" if "refreshStatus ev cap i (s\<lparr>rs_tick := n\<rparr>) = (r, s')" for s s' cap n r
    using refreshStatus_pool [of ev cap i] that
    by (metis keeps_def pool.R_trans same_pool_simps(1) snd_conv)
  have step: "same_pool s (snd (status_from ev is errs catching t))" if "same_pool s t" for s t errs catching
    using pool.R_trans [OF that] Cons.IH [unfolded keeps_def] by blast
  have ticked: "same_pool s (t\<lparr>rs_tick := n\<rparr>)" if "same_pool s t" for s t n
    using pool.R_trans [OF that] by simp
  show ?case
    unfolding keeps_def
    by (auto simp: Let_def pool.R_refl intro!: step ticked dest: refreshed split: prod.split option.split sum.split)
qed (auto simp: keeps_def pool.R_refl split: option.split)

lemma Status_pool: "keeps same_pool (Status ev)"
  using status_from_pool by (auto simp: keeps_def Status_def pool.R_refl)

lemma StatusOf_pool: "keeps same_pool (StatusOf ev url)"
  using refreshStatus_pool by (auto simp: keeps_def StatusOf_def pool.R_refl split: list.split)

lemma more_chunks_pool: "keeps same_pool (more_chunks ev ks acc)"
  by (induction ks arbitrary: acc)
    (auto simp: chunk_bytes_def fetchGenesisChunk_def intro!: pool.keeps_intros rpc_get_pool)

lemma genesisChunked_pool: "keeps same_pool (genesisChunked ev)"
  unfolding genesisChunked_def fetchGenesisChunk_def
  by (intro pool.keeps_intros rpc_get_pool more_chunks_pool)

lemma rpc_genesis_pool: "keeps same_pool (rpc_genesis ev)"
  unfolding keeps_def
proof
  fix s
  obtain r s' where g: "rpc_get ev ''/genesis'' 0 genesis_target [] s = (r, s')" by force
  then have "same_pool s s'" using rpc_get_pool by (metis keeps_def snd_conv)
  then have "same_pool s (snd (genesisChunked ev s'))"
    using genesisChunked_pool pool.R_trans by (auto simp: keeps_def)
  with \<open>same_pool s s'\<close> show "same_pool s (snd (rpc_genesis ev s))"
    by (cases r) (simp_all add: rpc_genesis_def g)
qed

lemma add_url_sound:
  "distinct us \<and> [] \<notin> set us \<Longrightarrow> distinct (add_url raw us) \<and> [] \<notin> set (add_url raw us)"
  by (simp add: add_url_def Let_def eq_commute [of "[]"])

lemma dedupe_invariant:
  "distinct us \<Longrightarrow> [] \<notin> set us \<Longrightarrow>
     distinct (fold add_url raws us) \<and> [] \<notin> set (fold add_url raws us)"
proof (induction raws arbitrary: us)
  case (Cons raw raws)
  from Cons.IH [of "add_url raw us"] add_url_sound [of us raw] Cons.prems show ?case by simp
qed simp

lemma dedupeURLs_sound: "distinct (dedupeURLs raws) \<and> [] \<notin> set (dedupeURLs raws)"
  using dedupe_invariant [of "[]" raws] by (simp add: dedupeURLs_def)

lemma dedupeURLs_set: "set (dedupeURLs raws) = clean_url ` set raws - {[]}"
proof -
  have "set (fold add_url raws us) = set us \<union> (clean_url ` set raws - {[]})" if "[] \<notin> set us" for us
    using that by (induction raws arbitrary: us) (auto simp: add_url_def Let_def)
  from this [of "[]"] show ?thesis by (simp add: dedupeURLs_def)
qed

section \<open>Outcomes\<close>

lemma attempts_settings:
  assumes "cl_retries c' = cl_retries c" "cl_backoff c' = cl_backoff c"
  shows "attempts ev c' cap full out tries left err old n = attempts ev c cap full out tries left err old n"
  by (induction left arbitrary: tries err old n) (simp_all add: assms split: option.split tried.split)

lemma selection_settings [simp]:
  "skipForHeight (set_endpoint i ep c) = skipForHeight c"
  "skipForRecentFailure (set_endpoint i ep c) = skipForRecentFailure c"
  "endpointContext (set_endpoint i ep c) = endpointContext c"
  "getFromEndpoint ev (set_endpoint i ep c) cap e path out old n = getFromEndpoint ev c cap e path out old n"
  by (auto simp: fun_eq_iff skipForHeight_def skipForRecentFailure_def final_endpoint_def endpointContext_def
      getFromEndpoint_def
      attempts_settings [of "set_endpoint i ep c" c] split: option.split)

text \<open>An endpoint that did not decide the request: left out, for one of the two reasons and
  unchanged, or asked and its failure recorded.\<close>

definition passed_over ::
  "rpc_env \<Rightarrow> rpc_client \<Rightarrow> string \<Rightarrow> int \<Rightarrow> 'a target \<Rightarrow> nat \<Rightarrow> endpoint \<Rightarrow> endpoint \<Rightarrow> bool" where
  "passed_over ev c path want out i ep ep' \<longleftrightarrow>
     ep' = ep \<and> (\<exists>n. skipForHeight c (ev_now ev n) ep want \<or> skipForRecentFailure c (ev_now ev n) i ep) \<or>
     (\<exists>old n e new m t. getFromEndpoint ev c (endpointContext c i) ep path out old n = (Some e, new, m) \<and>
        (errors_Is e ErrRPCDeterministic \<longrightarrow> errors_Is e ErrHeightNotAvailable) \<and> ep' = markFailed e t ep)"

text \<open>The endpoint that decided it: it answered, it refused for good, or the caller had gone.\<close>

definition decided ::
  "rpc_env \<Rightarrow> rpc_client \<Rightarrow> string \<Rightarrow> 'a target \<Rightarrow> nat \<Rightarrow> endpoint \<Rightarrow> endpoint \<Rightarrow> 'a res \<Rightarrow> bool" where
  "decided ev c path out i ep ep' r \<longleftrightarrow>
     (\<exists>old n e new m. getFromEndpoint ev c (endpointContext c i) ep path out old n = (e, new, m) \<and>
        (case r of
           Inr v \<Rightarrow> e = None \<and> v = new \<and> ep' = markHealthy (ev_now ev m) ep
         | Inl d \<Rightarrow> ep' = ep \<and> (case e of None \<Rightarrow> False | Some x \<Rightarrow>
             d = x \<and> errors_Is x ErrRPCDeterministic \<and> \<not> errors_Is x ErrHeightNotAvailable \<or>
             ev_caller ev m = Some d)))"

lemma passed_failed:
  assumes "getFromEndpoint ev c (endpointContext c i) ep path out old n = (Some e, new, m)"
    and "errors_Is e ErrRPCDeterministic \<longrightarrow> errors_Is e ErrHeightNotAvailable"
  shows "passed_over ev c path want out i ep (markFailed e t ep)"
  using assms unfolding passed_over_def by blast

lemma decided_Inl:
  assumes "getFromEndpoint ev c (endpointContext c i) ep path out old n = (Some x, new, m)"
    and "d = x \<and> errors_Is x ErrRPCDeterministic \<and> \<not> errors_Is x ErrHeightNotAvailable \<or> ev_caller ev m = Some d"
  shows "decided ev c path out i ep ep (Inl d)"
  using assms unfolding decided_def by (intro exI [of _ old] exI [of _ n] exI [of _ "Some x"] exI [of _ new] exI [of _ m]) simp

lemma request_outcome_settings [simp]:
  "passed_over ev (set_endpoint i ep c) path want out = passed_over ev c path want out"
  "decided ev (set_endpoint i ep c) path out = decided ev c path out"
  by (simp_all add: fun_eq_iff passed_over_def decided_def)

definition request_outcome ::
  "rpc_env \<Rightarrow> rpc_client \<Rightarrow> string \<Rightarrow> int \<Rightarrow> 'a target \<Rightarrow> nat \<Rightarrow> endpoint list \<Rightarrow> endpoint list \<Rightarrow> 'a res \<Rightarrow> nat \<Rightarrow> bool" where
  "request_outcome ev c path want out k eps eps' r m \<longleftrightarrow>
     k \<le> m \<and> m \<le> length eps \<and> length eps' = length eps \<and>
     (\<forall>j < length eps. j < k \<or> m < j \<longrightarrow> eps' ! j = eps ! j) \<and>
     (\<forall>j < m. k \<le> j \<longrightarrow> passed_over ev c path want out j (eps ! j) (eps' ! j)) \<and>
     (if m = length eps then \<exists>errs. r = Inl (all_failed errs) else decided ev c path out m (eps ! m) (eps' ! m) r)"

lemma request_outcome_set: "request_outcome ev (set_endpoint i ep c) path want out = request_outcome ev c path want out"
  by (simp add: fun_eq_iff request_outcome_def)

lemma request_outcome_next:
  assumes "request_outcome ev c path want out (Suc k) (eps[k := ep]) eps' r m" "k < length eps"
    and "passed_over ev c path want out k (eps ! k) ep"
  shows "request_outcome ev c path want out k eps eps' r m"
proof -
  have "eps' ! k = ep" using assms(1,2) by (auto simp: request_outcome_def)
  then have "passed_over ev c path want out j (eps ! j) (eps' ! j)" if "j < m" "k \<le> j" for j
    using that assms by (cases "j = k") (auto simp: request_outcome_def)
  then show ?thesis using assms(1,2) by (auto simp: request_outcome_def)
qed

lemma try_endpoints_outcome:
  assumes "try_endpoints ev path want out [k..<length (cl_endpoints (rs_client s))] errs old s = (r, s')"
    and "k \<le> length (cl_endpoints (rs_client s))"
  shows "\<exists>m. request_outcome ev (rs_client s) path want out k (cl_endpoints (rs_client s)) (cl_endpoints (rs_client s')) r m"
  using assms
proof (induction "length (cl_endpoints (rs_client s)) - k" arbitrary: k errs old s)
  case 0
  then show ?case by (intro exI [of _ k]) (auto simp: request_outcome_def)
next
  case (Suc d)
  let ?c = "rs_client s" let ?eps = "cl_endpoints ?c" let ?ep = "?eps ! k"
  have k: "k < length ?eps" using Suc.hyps(2) by simp
  have go: "\<exists>m. request_outcome ev ?c path want out k ?eps (cl_endpoints (rs_client s')) r m"
    if run: "try_endpoints ev path want out [Suc k..<length ?eps] errs' old' t = (r, s')"
      and t: "rs_client t = set_endpoint k ep' ?c" and over: "passed_over ev ?c path want out k ?ep ep'" for errs' old' t ep'
  proof -
    have "\<exists>m. request_outcome ev (rs_client t) path want out (Suc k) (cl_endpoints (rs_client t)) (cl_endpoints (rs_client s')) r m"
      by (rule Suc.hyps(1) [of t "Suc k" errs' old']) (use Suc.hyps(2) k run in \<open>simp_all add: t\<close>)
    then obtain m where "request_outcome ev ?c path want out (Suc k) (?eps[k := ep']) (cl_endpoints (rs_client s')) r m"
      by (auto simp: t request_outcome_set)
    from request_outcome_next [OF this k over] show ?thesis ..
  qed
  have same: "rs_client (s\<lparr>rs_tick := n\<rparr>) = set_endpoint k ?ep ?c" for n
    by (simp add: set_endpoint_def)
  note run = Suc.prems(1) [unfolded upt_conv_Cons [OF k] try_endpoints.simps Let_def]
  show ?case
  proof (cases "skipForHeight ?c (ev_now ev (rs_tick s)) ?ep want \<or> skipForRecentFailure ?c (ev_now ev (Suc (rs_tick s))) k ?ep")
    case True
    then have "passed_over ev ?c path want out k ?ep ?ep" by (auto simp: passed_over_def)
    with True run show ?thesis by (auto intro: go [OF _ same] split: if_splits)
  next
    case False
    obtain e new m where g: "getFromEndpoint ev ?c (endpointContext ?c k) ?ep path out old (Suc (Suc (rs_tick s))) = (e, new, m)"
      by (metis prod_cases3)
    note run = run [unfolded g, simplified False [simplified] if_False prod.case, simplified]
    have settle: ?thesis if "decided ev ?c path out k ?ep (cl_endpoints (rs_client s') ! k) r"
        "rs_client s' = set_endpoint k ep' ?c" for ep'
      using that k by (intro exI [of _ k]) (auto simp: request_outcome_def)
    show ?thesis
    proof (cases e)
      case None
      with run have "r = Inr new" "s' = s\<lparr>rs_client := set_endpoint k (markHealthy (ev_now ev m) ?ep) ?c, rs_tick := Suc m\<rparr>"
        by auto
      then show ?thesis using g None k by (intro settle) (auto simp: decided_def)
    next
      case (Some x)
      consider "errors_Is x ErrRPCDeterministic \<and> \<not> errors_Is x ErrHeightNotAvailable"
        | ce where "\<not> (errors_Is x ErrRPCDeterministic \<and> \<not> errors_Is x ErrHeightNotAvailable)" "ev_caller ev m = Some ce"
        | "\<not> (errors_Is x ErrRPCDeterministic \<and> \<not> errors_Is x ErrHeightNotAvailable)" "ev_caller ev m = None"
        by (cases "ev_caller ev m") auto
      then show ?thesis
      proof cases
        case 1
        with run Some have "r = Inl x" "s' = s\<lparr>rs_tick := m\<rparr>" by auto
        then show ?thesis
          using 1 k same [of m] decided_Inl [OF g [unfolded Some], of x] by (intro settle [where ep' = ?ep]) auto
      next
        case 2
        with run Some have "r = Inl ce" "s' = s\<lparr>rs_tick := Suc m\<rparr>" by auto
        then show ?thesis
          using 2 k same [of "Suc m"] decided_Inl [OF g [unfolded Some], of ce] by (intro settle [where ep' = ?ep]) auto
      next
        case 3
        then have "passed_over ev ?c path want out k ?ep (markFailed x (ev_now ev (Suc m)) ?ep)"
          using passed_failed [OF g [unfolded Some]] by simp
        with 3 run Some show ?thesis by (auto intro: go)
      qed
    qed
  qed
qed


text \<open>C33: Every outcome of a request is accounted for, endpoint by endpoint.  Up to the deciding endpoint
  each one was either left out, because its cached tip is below the wanted height or, unless it
  is the final one, because it failed recently, or it was asked and its failure is recorded; the
  deciding one answered, refused for good, or the caller had gone; the endpoints after it are as
  they were.  Only when all were passed over does the request fail with the aggregate error.\<close>

theorem failover_accounts_for_all:
  assumes "cl_endpoints (rs_client s) \<noteq> []"
  shows "\<exists>m. request_outcome ev (rs_client s) path want out 0 (cl_endpoints (rs_client s))
    (cl_endpoints (rs_client (snd (rpc_get ev path want out zero s)))) (fst (rpc_get ev path want out zero s)) m"
  using assms by (intro try_endpoints_outcome [where errs = "[]" and old = zero]) (simp_all add: rpc_get_def)

text \<open>Two endpoints, of which only the second answers.\<close>

definition example_rpc_env :: rpc_env where
  "example_rpc_env =
     \<lparr>ev_now = int, ev_http = (\<lambda>n cap url. if has_prefix url ''a'' then NoAnswer (errorf ''refused'')
        else Answer 200 (Inr (''{ \"result\": { \"total\": \"1\", \"data\": \"e30=\" } }''))),
      ev_wait = (\<lambda>n cap d. None), ev_caller = (\<lambda>n. None)\<rparr>"

definition example_rpc :: rpc_state where
  "example_rpc = \<lparr>rs_client = NewClient [''a/'', '' b'', ''a''] 1, rs_tick = 0\<rparr>"

lemma example_rpc_pool: "cl_endpoints (rs_client example_rpc) = [new_endpoint ''a'', new_endpoint ''b'']"
  by code_simp

theorem failover_accounts_for_all_witness:
  "\<exists>m. request_outcome example_rpc_env (rs_client example_rpc) ''/genesis_chunked?chunk=0'' 0 chunk_target 0
    (cl_endpoints (rs_client example_rpc))
    (cl_endpoints (rs_client (snd (rpc_get example_rpc_env ''/genesis_chunked?chunk=0'' 0 chunk_target
       \<lparr>gk_chunk = [], gk_total = [], gk_data = []\<rparr> example_rpc))))
    (fst (rpc_get example_rpc_env ''/genesis_chunked?chunk=0'' 0 chunk_target
       \<lparr>gk_chunk = [], gk_total = [], gk_data = []\<rparr> example_rpc)) m"
  by (rule failover_accounts_for_all) (simp add: example_rpc_pool)

text \<open>The pool never changes.  It holds the cleaned, non-empty addresses of the configuration without
  repeats, and no request, status probe or genesis fetch ever adds, drops or reorders an
  endpoint or alters a timing.\<close>

lemma endpoint_pool_fixed:
  "settings (rs_client (snd (rpc_get ev path want out zero s))) = settings (rs_client s) \<and>
   settings (rs_client (snd (Status ev s))) = settings (rs_client s) \<and>
   settings (rs_client (snd (StatusOf ev url s))) = settings (rs_client s) \<and>
   settings (rs_client (snd (rpc_genesis ev s))) = settings (rs_client s) \<and>
   distinct (URLs (NewClient raws retries)) \<and>
   set (URLs (NewClient raws retries)) = clean_url ` set raws - {[]}"
  using rpc_get_pool [of ev path want out zero] Status_pool [of ev] StatusOf_pool [of ev url] rpc_genesis_pool [of ev]
    dedupeURLs_sound [of raws]
  by (simp add: keeps_def same_pool_def URLs_def NewClient_def new_endpoint_def comp_def dedupeURLs_set)

section \<open>Waiting\<close>

lemma retry_sleep_capped: "retry_sleep backoff tries \<le> 5000 * millisecond"
  by (simp add: retry_sleep_def Let_def)

text \<open>The waits of the default backoff double from a quarter of a second up to the cap; the product is
  computed in 64 bits, so before the 37th retry it is negative and the client does not wait at all.\<close>

lemma retry_sleeps:
  "map (retry_sleep (250 * millisecond)) [1, 2, 3, 4, 5, 6, 36] =
     map (\<lambda>ms. ms * millisecond) [250, 500, 1000, 2000, 4000, 5000, 5000]"
  "retry_sleep (250 * millisecond) 37 < 0"
  by (simp_all add: retry_sleep_def millisecond_def push_bit_eq_mult)

section \<open>The cached tip\<close>

text \<open>A success or a failure renews the time of the last sight but not the status, so an old tip counts as
  fresh again; a pool of one endpoint is then refused without being asked.\<close>

lemma old_tip_renewed:
  assumes "ep_stat ep = Some st" "Latest st < want" "0 < want" "later - t \<le> cl_ttl c"
  shows "skipForHeight c later (markHealthy t ep) want" "skipForHeight c later (markFailed e t ep) want"
  using assms by (simp_all add: skipForHeight_def)

lemma only_endpoint_refused:
  assumes "cl_endpoints (rs_client s) = [ep]" "skipForHeight (rs_client s) (ev_now ev (rs_tick s)) ep want"
  shows "\<exists>errs. fst (rpc_get ev path want out zero s) = Inl (all_failed errs)"
  using assms by (auto simp: rpc_get_def Let_def)

section \<open>Chunked genesis\<close>

definition chunk_served :: "rpc_env \<Rightarrow> nat \<Rightarrow> string \<Rightarrow> bool" where
  "chunk_served ev k b \<longleftrightarrow>
     (\<exists>s ch s'. fetchGenesisChunk ev k s = (Inr ch, s') \<and> decode_chunk (gk_data ch) = Inr b)"

lemma chunk_bytes_served: "chunk_bytes ev k s = (Inr b, s') \<Longrightarrow> chunk_served ev k b"
  by (auto simp: chunk_bytes_def chunk_served_def bindO_Inr wrapO_Inr liftO_def)

lemma more_chunks_served:
  "more_chunks ev ks acc s = (Inr g, s') \<Longrightarrow> \<exists>bs. list_all2 (chunk_served ev) ks bs \<and> g = acc @ concat bs"
proof (induction ks arbitrary: acc s)
  case (Cons k ks)
  then obtain b t where b: "chunk_bytes ev k s = (Inr b, t)" "more_chunks ev ks (acc @ b) t = (Inr g, s')"
    by (auto simp: bindO_Inr)
  from Cons.IH [OF b(2)] obtain bs where "list_all2 (chunk_served ev) ks bs" "g = (acc @ b) @ concat bs" by blast
  then show ?case using chunk_bytes_served [OF b(1)] by (intro exI [of _ "b # bs"]) simp
qed (simp add: returnO_def)

text \<open>C37: A chunked genesis document is complete and in order.  What the chunked fetch returns is the
  concatenation of exactly as many chunks as the first one announces, the k-th being the decoded
  data of the answer to the request for chunk k.\<close>

theorem genesis_chunks_in_order:
  assumes "genesisChunked ev s = (Inr g, s')"
  shows "\<exists>first t bs. fetchGenesisChunk ev 0 s = (Inr first, t) \<and>
    parse_int64 (gk_total first) = Some (int (length bs)) \<and> bs \<noteq> [] \<and>
    list_all2 (chunk_served ev) [0..<length bs] bs \<and> g = concat bs"
proof -
  from assms obtain first t n b where f: "fetchGenesisChunk ev 0 s = (Inr first, t)"
    and n: "parse_int64 (gk_total first) = Some n" "0 < n"
    and b: "decode_chunk (gk_data first) = Inr b" and g: "more_chunks ev [1..<nat n] b t = (Inr g, s')"
    by (auto simp: genesisChunked_def bindO_Inr wrapO_Inr liftO_def failO_def split: option.splits if_splits)
  from more_chunks_served [OF g] obtain bs where bs: "list_all2 (chunk_served ev) [1..<nat n] bs" "g = b @ concat bs" by blast
  have "chunk_served ev 0 b" using f b by (auto simp: chunk_served_def)
  moreover have "[0..<nat n] = 0 # [1..<nat n]" using n(2) by (simp add: upt_conv_Cons)
  ultimately have "list_all2 (chunk_served ev) [0..<nat n] (b # bs)" using bs(1) by simp
  moreover from list_all2_lengthD [OF this] have "length (b # bs) = nat n" by simp
  ultimately show ?thesis
    using f n bs(2) by (intro exI [of _ first] exI [of _ t] exI [of _ "b # bs"]) simp
qed

lemma example_genesis_chunks: "fst (genesisChunked example_rpc_env example_rpc) = Inr ''{}''"
  by code_simp

theorem genesis_chunks_in_order_witness:
  "\<exists>first t bs. fetchGenesisChunk example_rpc_env 0 example_rpc = (Inr first, t) \<and>
    parse_int64 (gk_total first) = Some (int (length bs)) \<and> bs \<noteq> [] \<and>
    list_all2 (chunk_served example_rpc_env) [0..<length bs] bs \<and> ''{}'' = concat bs"
  by (rule genesis_chunks_in_order
      [OF surjective_pairing [of "genesisChunked example_rpc_env example_rpc", unfolded example_genesis_chunks]])

end
