(* ===== verification/Notifier.thy ===== *)
theory Notifier
  imports Rpc_Client
begin

text \<open>
  \<open>internal/rpc/notifier.go\<close>: the websocket subscription that wakes the ingestion loop, as the
  state machine of its reconnection loop and of one connection.

  What one connection delivers is a list of frames with their arrival times and the time at
  which reading fails, and a parameter of the machine; the watchdog is the rule that reading
  fails as silence once the last event is older than the timeout.  Pings only keep the
  connection alive and are not modelled.  Of \<open>url.Parse\<close> the form scheme, authority, path and
  rest is modelled, without escapes.
\<close>

section \<open>Addresses\<close>

definition url_parts :: "string \<Rightarrow> (string \<times> string \<times> string \<times> string) option" where
  "url_parts raw =
     (let scheme = takeWhile (\<lambda>c. c \<noteq> CHR '':'') raw; r = dropWhile (\<lambda>c. c \<noteq> CHR '':'') raw in
      if scheme = [] \<or> \<not> has_prefix r ''://'' \<or>
         \<not> list_all (\<lambda>c. is_digit c \<or> c \<in> set ''abcdefghijklmnopqrstuvwxyzABCDEFGHIJKLMNOPQRSTUVWXYZ+-.'') scheme \<or>
         is_digit (hd scheme) \<or> hd scheme \<in> set ''+-.'' then None
      else
        let s = drop 3 r; authority = takeWhile (\<lambda>c. c \<notin> set ''/?#'') s;
            t = dropWhile (\<lambda>c. c \<notin> set ''/?#'') s
        in Some (to_lower scheme, authority, takeWhile (\<lambda>c. c \<notin> set ''?#'') t, dropWhile (\<lambda>c. c \<notin> set ''?#'') t))"

definition has_suffix :: "string \<Rightarrow> string \<Rightarrow> bool" where
  "has_suffix s p \<longleftrightarrow> has_prefix (rev s) (rev p)"

definition httpToWebsocket :: "string \<Rightarrow> string res" where
  "httpToWebsocket raw =
     (case url_parts (trim_right (\<lambda>c. c = CHR ''/'') raw) of
        None \<Rightarrow> Inl (errorf ''cannot parse url'')
      | Some (scheme, authority, path, rest) \<Rightarrow>
          if scheme \<notin> {''http'', ''https'', ''ws'', ''wss''} then
            Inl (errorf ''unsupported scheme (expected http(s) or ws(s))'')
          else
            let ws = (if scheme = ''http'' then ''ws'' else if scheme = ''https'' then ''wss'' else scheme);
                p = (if has_suffix path ''/websocket'' then path
                     else trim_right (\<lambda>c. c = CHR ''/'') path @ ''/websocket'')
            in Inr (ws @ ''://'' @ authority @ p @ rest))"

section \<open>Frames\<close>

definition member_path :: "string list \<Rightarrow> string \<Rightarrow> (string \<times> json) list \<Rightarrow> string \<Rightarrow> string res" where
  "member_path names name obj old =
     foldr (\<lambda>n inner kvs s. field n (nested inner) s kvs) names (\<lambda>kvs s. field name Text s kvs) obj old"

definition parseNewBlockHeight :: "string \<Rightarrow> int option" where
  "parseNewBlockHeight raw =
     (case bindR (document_of raw) (\<lambda>obj.
        bindR (member_path [''result'', ''data''] ''type'' obj []) (\<lambda>kind.
        bindR (member_path [''result'', ''data'', ''value'', ''block'', ''header''] ''height'' obj []) (\<lambda>height.
        Inr (kind, height)))) of
        Inl _ \<Rightarrow> None
      | Inr (kind, height) \<Rightarrow>
          if \<not> has_suffix kind ''NewBlock'' then None
          else (case parse_int64 height of
              None \<Rightarrow> None
            | Some h \<Rightarrow> if h \<le> 0 then None else Some h))"

section \<open>One connection\<close>

text \<open>The wake channel holds at most one height.\<close>

record notifier =
  nf_wake :: "int option"
  nf_connected :: bool
  nf_last_event :: int

definition setConnected :: "bool \<Rightarrow> notifier \<Rightarrow> notifier" where
  "setConnected v s = (let t = s\<lparr>nf_connected := v\<rparr> in if v then t else t\<lparr>nf_last_event := zero_time\<rparr>)"

definition touch :: "int \<Rightarrow> notifier \<Rightarrow> notifier" where
  "touch now s = s\<lparr>nf_last_event := now\<rparr>"

definition silenceTimeout :: int where
  "silenceTimeout = 60000 * millisecond"

definition silenceExceeded :: "int \<Rightarrow> notifier \<Rightarrow> bool" where
  "silenceExceeded now s \<longleftrightarrow> nf_last_event s \<noteq> zero_time \<and> silenceTimeout < now - nf_last_event s"

definition publish_height :: "int \<Rightarrow> notifier \<Rightarrow> notifier" where
  "publish_height h s = (case nf_wake s of None \<Rightarrow> s\<lparr>nf_wake := Some h\<rparr> | Some _ \<Rightarrow> s)"

definition take_wake :: "notifier \<Rightarrow> int option \<times> notifier" where
  "take_wake s = (nf_wake s, s\<lparr>nf_wake := None\<rparr>)"

definition read_frame :: "notifier \<Rightarrow> int \<times> string \<Rightarrow> notifier" where
  "read_frame s f =
     (case parseNewBlockHeight (snd f) of
        None \<Rightarrow> s
      | Some h \<Rightarrow> publish_height h (touch (fst f) s))"

datatype close_cause = Silent | DialFailed | Broken goerror | Cancelled

text \<open>How a connection goes: the dial and the subscription may fail, then frames arrive until reading
  fails at some time.\<close>

datatype connection =
    NoDial
  | NoSubscription goerror
  | Connected (cn_start: int) (cn_frames: "(int \<times> string) list") (cn_end: int) (cn_cancelled: bool) (cn_error: goerror)

definition runOnce :: "connection \<Rightarrow> notifier \<Rightarrow> close_cause \<times> notifier" where
  "runOnce cn s =
     (case cn of
        NoDial \<Rightarrow> (DialFailed, s)
      | NoSubscription e \<Rightarrow> (Broken (wrapf ''subscribe write: '' e), s)
      | Connected start frames end_time cancelled e \<Rightarrow>
          (let t = foldl read_frame (touch start (setConnected True s)) frames in
           (if cancelled then Cancelled
            else if silenceExceeded end_time t then Silent
            else Broken (wrapf ''ws read: '' e), t)))"

section \<open>The reconnection loop\<close>

definition reconnectMin :: int where
  "reconnectMin = 500 * millisecond"

definition reconnectMax :: int where
  "reconnectMax = 30000 * millisecond"

record tip_loop =
  tl_index :: nat
  tl_backoff :: int
  tl_slept :: "int list"
  tl_notifier :: notifier


definition next_index :: "string list \<Rightarrow> nat \<Rightarrow> nat" where
  "next_index urls i = (i + 1) mod length urls"

definition rotates :: "close_cause \<Rightarrow> bool" where
  "rotates c \<longleftrightarrow> c = Silent \<or> c = DialFailed"

text \<open>One iteration: \<open>None\<close> when the loop returns.  An address that cannot be used costs no time.\<close>

definition tip_iteration :: "string list \<Rightarrow> connection \<Rightarrow> tip_loop \<Rightarrow> tip_loop option" where
  "tip_iteration urls cn l =
     (case httpToWebsocket (urls ! tl_index l) of
        Inl _ \<Rightarrow> Some (l\<lparr>tl_index := next_index urls (tl_index l)\<rparr>)
      | Inr _ \<Rightarrow>
          (case runOnce cn (tl_notifier l) of
             (cause, t) \<Rightarrow>
               if cause = Cancelled then None
               else
                 let l1 = (if rotates cause \<and> 1 < length urls
                           then l\<lparr>tl_index := next_index urls (tl_index l), tl_backoff := reconnectMin\<rparr> else l);
                     b = tl_backoff l1
                 in Some (l1\<lparr>tl_notifier := setConnected False t, tl_slept := tl_slept l1 @ [b],
                          tl_backoff := (if reconnectMax < b * 2 then reconnectMax else b * 2)\<rparr>)))"

fun tip_run :: "string list \<Rightarrow> connection list \<Rightarrow> tip_loop \<Rightarrow> tip_loop option" where
  "tip_run urls [] l = Some l"
| "tip_run urls (cn # cns) l =
     (case tip_iteration urls cn l of None \<Rightarrow> None | Some l' \<Rightarrow> tip_run urls cns l')"


section \<open>Lemmas\<close>

lemma notifier_fields [simp]:
  "nf_last_event (setConnected False s) = zero_time" "nf_connected (setConnected v s) = v"
  "nf_last_event (touch t s) = t" "nf_wake (touch t s) = nf_wake s" "nf_wake (setConnected v s) = nf_wake s"
  by (simp_all add: setConnected_def touch_def Let_def)



lemma next_index_less: "i < length urls \<Longrightarrow> next_index urls j < length urls"
  unfolding next_index_def by (rule mod_less_divisor) linarith



lemma tip_run_append:
  "tip_run urls (xs @ ys) l = (case tip_run urls xs l of None \<Rightarrow> None | Some l' \<Rightarrow> tip_run urls ys l')"
  by (induction xs arbitrary: l) (simp_all split: option.split)

text \<open>An iteration that moves on: the address cannot be used, or its connection fails or stays silent.\<close>

definition moves_on :: "string list \<Rightarrow> connection \<Rightarrow> tip_loop \<Rightarrow> bool" where
  "moves_on urls cn l \<longleftrightarrow>
     (\<exists>e. httpToWebsocket (urls ! tl_index l) = Inl e) \<or> rotates (fst (runOnce cn (tl_notifier l)))"

lemma moves_on_next:
  assumes "moves_on urls cn l" "1 < length urls"
  shows "\<exists>l'. tip_iteration urls cn l = Some l' \<and> tl_index l' = next_index urls (tl_index l)"
  using assms
  by (auto simp: moves_on_def tip_iteration_def rotates_def Let_def split: sum.split prod.split)

fun all_move_on :: "string list \<Rightarrow> connection list \<Rightarrow> tip_loop \<Rightarrow> bool" where
  "all_move_on urls [] l \<longleftrightarrow> True"
| "all_move_on urls (cn # cns) l \<longleftrightarrow>
     moves_on urls cn l \<and> (\<forall>l'. tip_iteration urls cn l = Some l' \<longrightarrow> all_move_on urls cns l')"

lemma rotation_index:
  assumes "all_move_on urls cns l" "1 < length urls" "tl_index l < length urls"
  shows "\<exists>l'. tip_run urls cns l = Some l' \<and> tl_index l' = (tl_index l + length cns) mod length urls"
  using assms
proof (induction cns arbitrary: l)
  case (Cons cn cns)
  from Cons.prems have "moves_on urls cn l" by simp
  from moves_on_next [OF this Cons.prems(2)] obtain l1
    where l1: "tip_iteration urls cn l = Some l1" "tl_index l1 = next_index urls (tl_index l)" by blast
  have "tl_index l1 < length urls" using Cons.prems(3) by (simp add: l1(2) next_index_less)
  with Cons.IH [of l1] Cons.prems l1 obtain l' where
    "tip_run urls cns l1 = Some l'" "tl_index l' = (tl_index l1 + length cns) mod length urls" by auto
  then show ?case by (simp add: l1 next_index_def mod_simps add.commute)
qed simp




text \<open>The rotation visits every endpoint in turn: after as many iterations that move on as there are
  endpoints, the loop is back where it was.\<close>

lemma rotation_visits_all:
  assumes "all_move_on urls cns l" "1 < length urls" "tl_index l < length urls" "length cns = length urls"
  shows "\<exists>l'. tip_run urls cns l = Some l' \<and> tl_index l' = tl_index l"
  using rotation_index [OF assms(1-3)] assms(3,4) by simp

text \<open>When no address can be used the loop goes round and round without ever waiting.\<close>

lemma unusable_addresses_spin:
  assumes "list_all (\<lambda>u. \<exists>e. httpToWebsocket u = Inl e) urls" "tl_index l < length urls" "tl_slept l = []"
  shows "\<exists>l'. tip_run urls cns l = Some l' \<and> tl_slept l' = []"
  using assms
proof (induction cns arbitrary: l)
  case (Cons cn cns)
  then obtain e where "httpToWebsocket (urls ! tl_index l) = Inl e" by (auto simp: list_all_length)
  moreover have "next_index urls (tl_index l) < length urls" using Cons.prems(2) by (simp add: next_index_less)
  ultimately show ?case using Cons.IH [of "l\<lparr>tl_index := next_index urls (tl_index l)\<rparr>"] Cons.prems
    by (simp add: tip_iteration_def)
qed simp

lemma tcp_address_unusable: "\<exists>e. httpToWebsocket ''tcp://localhost:26657'' = Inl e"
  by (simp add: httpToWebsocket_def url_parts_def trim_right_def has_prefix_def is_digit_def to_lower_def lower_def Let_def)

text \<open>The wake channel coalesces: while a wake is waiting, further heights are dropped.\<close>

lemma wake_coalesces: "nf_wake s = Some h \<Longrightarrow> nf_wake (read_frame s f) = Some h"
  by (simp add: read_frame_def publish_height_def touch_def split: option.split)

end
