(* ===== verification/Backfill.thy ===== *)
theory Backfill
  imports Lcd Pool Attributes
begin

text \<open>
  \<open>internal/backfill\<close> (\<open>backfill.go\<close>, \<open>planet_attribute.go\<close>, \<open>snapshot.go\<close>): the four sweeps that
  reconcile tables before ingestion starts.  Two read a snapshot of the chain at the height of
  the cursor through the gateway, and publish it only if the cursor has not moved; two compare
  tables with each other.

  The state is the service and the number of requests made to the gateway.  Elapsed times, which
  only the printed reports show, are left out.
\<close>

section \<open>The boundary\<close>

record snapshot_boundary =
  sb_chain :: string
  sb_height :: int
  sb_time :: int

definition readBoundary :: "string \<Rightarrow> (service, snapshot_boundary) op" where
  "readBoundary chain =
     bindO (guardO (chain \<noteq> []) (errorf ''backfill requires the indexed chain ID'')) (\<lambda>_.
     bindO (pool_query (ReadCursor chain)) (\<lambda>c.
     bindO (guardO (\<not> (0 < c_height c \<and> c_time c = zero_time)) (errorf ''backfill cursor has no committed block time'')) (\<lambda>_.
     returnO \<lparr>sb_chain = chain, sb_height = c_height c, sb_time = c_time c\<rparr>)))"

definition boundary_matches :: "snapshot_boundary \<Rightarrow> tables \<Rightarrow> bool" where
  "boundary_matches b d \<longleftrightarrow>
     (case tbl_get (sy_cursor (db_sync d)) (sb_chain b) of
        None \<Rightarrow> False
      | Some r \<Rightarrow> cu_height r = sb_height b \<and> cu_time r = Some (pg_timestamp (sb_time b)))"

definition check_boundary :: "snapshot_boundary \<Rightarrow> (world, unit) op" where
  "check_boundary b =
     bindO (query (boundary_matches b)) (\<lambda>matches.
     guardO matches (errorf ''backfill cursor changed during snapshot fetch; retry''))"

definition validObjectID :: "string \<Rightarrow> string \<Rightarrow> bool" where
  "validObjectID i prefix \<longleftrightarrow>
     (let parts = split_on (CHR ''-'') i in
      length parts = 2 \<and> parts ! 0 = prefix \<and>
      (case parse_uint64 (parts ! 1) of
         None \<Rightarrow> False
       | Some n \<Rightarrow> n \<noteq> 0 \<and> format_uint n = parts ! 1))"

definition on_service :: "(service, 'a) op \<Rightarrow> (service \<times> nat, 'a) op" where
  "on_service m sn = (case m (fst sn) of (r, s) \<Rightarrow> (r, (s, snd sn)))"

definition on_gateway :: "(nat, 'a) op \<Rightarrow> (service \<times> nat, 'a) op" where
  "on_gateway m sn = (case m (snd sn) of (r, n) \<Rightarrow> (r, (fst sn, n)))"

definition page_limit_of :: "int \<Rightarrow> int" where
  "page_limit_of limit = (if limit \<le> 0 then 10000 else limit)"

definition no_lcd :: goerror where
  "no_lcd = errorf ''no LCD base URL configured (-lcd / STRUCTS_API_URL)''"

definition begin_text :: string where
  "begin_text = ''begin tx: ''"

definition commit_text :: string where
  "commit_text = ''commit: ''"

section \<open>Player ranks\<close>

record rank_report =
  rr_height :: int
  rr_fetched :: nat
  rr_updated :: nat
  rr_correct :: nat

definition visit_player :: "(string \<times> 64 word) list \<Rightarrow> string \<Rightarrow> (string \<times> 64 word) list res" where
  "visit_player players raw =
     bindR (DecodeRequired raw (\<lambda>obj.
       bindR (text_field ''id'' obj) (\<lambda>i.
       bindR (uint_field ''guildRank'' obj) (\<lambda>rank. Inr (i, rank)))) [''id'', ''guildRank'']) (\<lambda>(i, rank).
     bindR (guardR (validObjectID i ''1'' \<and> i \<notin> fst ` set players) (errorf ''invalid or duplicate player ID'')) (\<lambda>_.
     Inr (players @ [(i, rank)])))"

definition fetchAllPlayers :: "lcd_client \<Rightarrow> int \<Rightarrow> int \<Rightarrow> (nat, (string \<times> 64 word) list) op" where
  "fetchAllPlayers c limit height = Pages c ''/structs/player'' ''Player'' height limit visit_player []"

definition players_present :: "string list \<Rightarrow> tables \<Rightarrow> nat" where
  "players_present ids d = length (filter (\<lambda>(k, r). k \<in> set ids) (db_player d))"

definition new_rank :: "(string \<times> 64 word) list \<Rightarrow> string \<times> player_row \<Rightarrow> player_row" where
  "new_rank players kr =
     (case map_of players (fst kr) of None \<Rightarrow> snd kr | Some rank \<Rightarrow> (snd kr)\<lparr>pl_guild_rank := rank\<rparr>)"

definition update_guild_rank :: "(string \<times> 64 word) list \<Rightarrow> tables \<Rightarrow> nat \<times> tables" where
  "update_guild_rank players d =
     (length (filter (\<lambda>kr. new_rank players kr \<noteq> snd kr) (db_player d)),
      d\<lparr>db_player := map (\<lambda>kr. (fst kr, new_rank players kr)) (db_player d)\<rparr>)"

definition ranks_tx :: "snapshot_boundary \<Rightarrow> (string \<times> 64 word) list \<Rightarrow> (world, nat \<times> nat) op" where
  "ranks_tx b players =
     bindO lockO (\<lambda>_.
     bindO (check_boundary b) (\<lambda>_.
     bindO (wrapO ''count present: '' (query (players_present (map fst players)))) (\<lambda>present.
     bindO (guardO (present = length players) (errorf ''same-height snapshot contains players absent from indexed state'')) (\<lambda>_.
     bindO (wrapO ''update guild_rank: '' (sql (update_guild_rank players))) (\<lambda>updated.
     bindO (whenO (0 < updated) Withhold) (\<lambda>_.
     returnO (updated, present - updated)))))))"

definition applyGuildRanks :: "(string \<times> 64 word) list \<Rightarrow> snapshot_boundary \<Rightarrow> (service, nat \<times> nat) op" where
  "applyGuildRanks players b = pool_tx_value begin_text commit_text (ranks_tx b players)"

definition SweepPlayerRanks :: "lcd_client \<Rightarrow> int \<Rightarrow> string \<Rightarrow> (service \<times> nat, rank_report) op" where
  "SweepPlayerRanks c limit chain =
     bindO (guardO (lc_base c \<noteq> []) no_lcd) (\<lambda>_.
     bindO (on_service (readBoundary chain)) (\<lambda>b.
     let report = \<lparr>rr_height = sb_height b, rr_fetched = 0, rr_updated = 0, rr_correct = 0\<rparr> in
     if sb_height b = 0 then returnO report
     else
       bindO (on_gateway (ValidateChain c chain)) (\<lambda>_.
       bindO (wrapO ''LCD fetch: '' (on_gateway (fetchAllPlayers c (page_limit_of limit) (sb_height b)))) (\<lambda>players.
       if players = [] then returnO report
       else bindO (on_service (applyGuildRanks players b)) (\<lambda>(updated, correct).
         returnO (report\<lparr>rr_fetched := length players, rr_updated := updated, rr_correct := correct\<rparr>))))))"

section \<open>Planet attributes\<close>

record planet_report =
  pr_height :: int
  pr_fetched :: nat
  pr_upserted :: nat
  pr_zeroed :: nat

text \<open>The labels are written out a second time in the sweep.\<close>

definition sweepAttrLabels :: "string list" where
  "sweepAttrLabels =
     [''planetaryShield'', ''repairNetworkQuantity'', ''defensiveCannonQuantity'',
      ''coordinatedGlobalShieldNetworkQuantity'', ''lowOrbitBallisticsInterceptorNetworkQuantity'',
      ''advancedLowOrbitBallisticsInterceptorNetworkQuantity'',
      ''lowOrbitBallisticsInterceptorNetworkSuccessRateNumerator'',
      ''lowOrbitBallisticsInterceptorNetworkSuccessRateDenominator'',
      ''orbitalJammingStationQuantity'', ''advancedOrbitalJammingStationQuantity'',
      ''blockStartRaid'', ''blockRaiderArrived'', ''blockStartOreMine'', ''blockStartOreRefine'',
      ''oreMiningActiveQuantity'', ''oreRefiningActiveQuantity'']"

record chain_attribute =
  ca_id :: string
  ca_object_id :: string
  ca_type :: string
  ca_val :: "64 word"

definition planet_attribute_of :: "pPlanetAttribute \<Rightarrow> chain_attribute res" where
  "planet_attribute_of rec =
     (let i = PlanetAttribute_AttributeID rec; parts = split_on (CHR ''-'') i in
      if \<not> (length parts = 3 \<and> validObjectID (join_with (CHR ''-'') (tl parts)) ''2'')
      then Inl (errorf ''invalid or duplicate planet attribute ID'')
      else case parse_int64 (parts ! 0) of
        None \<Rightarrow> Inl (errorf ''unknown planet attribute type'')
      | Some ty \<Rightarrow>
          if ty < 0 \<or> int (length sweepAttrLabels) \<le> ty \<or> dec_int ty \<noteq> parts ! 0
          then Inl (errorf ''unknown planet attribute type'')
          else bindR (Uint64 (jstr (PlanetAttribute_Value rec)) 0) (\<lambda>val.
            Inr \<lparr>ca_id = i, ca_object_id = (parts ! 1) @ ''-'' @ (parts ! 2),
                 ca_type = sweepAttrLabels ! nat ty, ca_val = val\<rparr>))"

definition add_planet_attribute :: "chain_attribute list \<Rightarrow> pPlanetAttribute \<Rightarrow> chain_attribute list res" where
  "add_planet_attribute rows rec =
     (if PlanetAttribute_AttributeID rec \<in> ca_id ` set rows
      then Inl (errorf ''invalid or duplicate planet attribute ID'')
      else bindR (planet_attribute_of rec) (\<lambda>row. Inr (rows @ [row])))"

definition planetAttributeRows :: "pPlanetAttribute list \<Rightarrow> chain_attribute list res" where
  "planetAttributeRows records = foldR add_planet_attribute [] records"

definition chain_row :: "chain_attribute \<Rightarrow> planet_attribute_row" where
  "chain_row c =
     \<lparr>pa_object_id = ca_object_id c, pa_object_type = Some ''planet'', pa_attribute_type = Some (ca_type c), pa_val = ca_val c\<rparr>"

definition put_changed :: "(string, planet_attribute_row) table \<Rightarrow> chain_attribute \<Rightarrow> (string, planet_attribute_row) table" where
  "put_changed t c = (if tbl_get t (ca_id c) = Some (chain_row c) then t else tbl_put (ca_id c) (chain_row c) t)"

definition upsert_from_chain :: "chain_attribute list \<Rightarrow> tables \<Rightarrow> nat \<times> tables" where
  "upsert_from_chain rows d =
     (length (filter (\<lambda>c. tbl_get (db_planet_attribute d) (ca_id c) \<noteq> Some (chain_row c)) rows),
      d\<lparr>db_planet_attribute := foldl put_changed (db_planet_attribute d) rows\<rparr>)"

text \<open>\<open>split_part(id, '-', 2)\<close>.\<close>

definition planet_scoped :: "string \<Rightarrow> bool" where
  "planet_scoped i \<longleftrightarrow> (case split_on (CHR ''-'') i of a # b # _ \<Rightarrow> b = ''2'' | _ \<Rightarrow> False)"

definition pruned :: "chain_attribute list \<Rightarrow> string \<Rightarrow> planet_attribute_row \<Rightarrow> bool" where
  "pruned rows i r \<longleftrightarrow> planet_scoped i \<and> pa_val r \<noteq> 0 \<and> i \<notin> ca_id ` set rows"

definition zero_missing :: "chain_attribute list \<Rightarrow> tables \<Rightarrow> nat \<times> tables" where
  "zero_missing rows d =
     (length (filter (\<lambda>(i, r). pruned rows i r) (db_planet_attribute d)),
      d\<lparr>db_planet_attribute :=
        map (\<lambda>(i, r). (i, if pruned rows i r then r\<lparr>pa_val := 0\<rparr> else r)) (db_planet_attribute d)\<rparr>)"

definition applyPlanetAttributesInTx :: "chain_attribute list \<Rightarrow> (world, nat \<times> nat) op" where
  "applyPlanetAttributesInTx rows =
     bindO (wrapO ''create temp chain_pa: '' (exec (\<lambda>d. d))) (\<lambda>_.
     bindO (whenO (rows \<noteq> []) (wrapO ''copy chain_pa: '' (exec (\<lambda>d. d)))) (\<lambda>_.
     bindO (wrapO ''upsert planet_attribute: '' (sql (upsert_from_chain rows))) (\<lambda>upserted.
     bindO (wrapO ''zero missing planet_attribute: '' (sql (zero_missing rows))) (\<lambda>zeroed.
     bindO (whenO (0 < upserted + zeroed) Withhold) (\<lambda>_.
     returnO (upserted, zeroed))))))"

definition applyPlanetAttributes :: "chain_attribute list \<Rightarrow> snapshot_boundary \<Rightarrow> (service, nat \<times> nat) op" where
  "applyPlanetAttributes rows b =
     pool_tx_value begin_text commit_text
       (bindO lockO (\<lambda>_. bindO (check_boundary b) (\<lambda>_. applyPlanetAttributesInTx rows)))"

definition visit_planet_attribute :: "pPlanetAttribute list \<Rightarrow> string \<Rightarrow> pPlanetAttribute list res" where
  "visit_planet_attribute records raw =
     bindR (DecodeRequired raw decode_PlanetAttribute [''attributeId'', ''value'']) (\<lambda>rec.
     Inr (records @ [rec]))"

definition fetchAllPlanetAttributes :: "lcd_client \<Rightarrow> int \<Rightarrow> int \<Rightarrow> (nat, pPlanetAttribute list) op" where
  "fetchAllPlanetAttributes c limit height =
     Pages c ''/structs/planet_attribute'' ''planetAttributeRecords'' height limit visit_planet_attribute []"

definition SweepPlanetAttributes :: "lcd_client \<Rightarrow> int \<Rightarrow> string \<Rightarrow> (service \<times> nat, planet_report) op" where
  "SweepPlanetAttributes c limit chain =
     bindO (guardO (lc_base c \<noteq> []) no_lcd) (\<lambda>_.
     bindO (on_service (readBoundary chain)) (\<lambda>b.
     let report = \<lparr>pr_height = sb_height b, pr_fetched = 0, pr_upserted = 0, pr_zeroed = 0\<rparr> in
     if sb_height b = 0 then returnO report
     else
       bindO (on_gateway (ValidateChain c chain)) (\<lambda>_.
       bindO (wrapO ''LCD fetch: '' (on_gateway (fetchAllPlanetAttributes c (page_limit_of limit) (sb_height b)))) (\<lambda>records.
       bindO (liftO (planetAttributeRows records)) (\<lambda>rows.
       bindO (on_service (applyPlanetAttributes rows b)) (\<lambda>(upserted, zeroed).
       returnO (report\<lparr>pr_fetched := length records, pr_upserted := upserted, pr_zeroed := zeroed\<rparr>)))))))"

section \<open>Defenders\<close>

definition protects_destroyed :: "tables \<Rightarrow> defender_row \<Rightarrow> bool" where
  "protects_destroyed d r \<longleftrightarrow>
     (case tbl_get (db_struct d) (df_protected r) of None \<Rightarrow> False | Some s \<Rightarrow> st_is_destroyed s)"

definition sweep_stale :: "tables \<Rightarrow> (nat \<times> nat) \<times> tables" where
  "sweep_stale d =
     (let stale = map fst (filter (\<lambda>(k, r). protects_destroyed d r) (db_defender d));
          gone = (\<lambda>i. i \<in> protected_attribute ` set stale)
      in ((length stale, length (filter (\<lambda>(i, r). gone i) (db_struct_attribute d))),
          d\<lparr>db_defender := tbl_filter (\<lambda>k r. \<not> protects_destroyed d r) (db_defender d),
            db_struct_attribute := tbl_filter (\<lambda>i r. \<not> gone i) (db_struct_attribute d)\<rparr>))"

definition stale_tx :: "(world, nat \<times> nat) op" where
  "stale_tx =
     bindO lockO (\<lambda>_.
     bindO (wrapO ''sweep stale defenders: '' (sql sweep_stale)) (\<lambda>(defenders, attrs).
     bindO (whenO (0 < defenders + attrs) Withhold) (\<lambda>_.
     returnO (defenders, attrs))))"

definition SweepStaleDefenders :: "(service, nat \<times> nat) op" where
  "SweepStaleDefenders = pool_tx_value begin_text commit_text stale_tx"

definition protects_planetary :: "tables \<Rightarrow> defender_row \<Rightarrow> bool option" where
  "protects_planetary d r =
     map_option (\<lambda>s. st_location_type s = ''planet'') (tbl_get (db_struct d) (df_protected r))"

definition matched_row :: "tables \<Rightarrow> defender_row \<Rightarrow> defender_row" where
  "matched_row d r = (case protects_planetary d r of None \<Rightarrow> r | Some p \<Rightarrow> r\<lparr>df_is_planetary := p\<rparr>)"

definition orphan_row :: "tables \<Rightarrow> defender_row \<Rightarrow> defender_row" where
  "orphan_row d r = (if protects_planetary d r = None then r\<lparr>df_is_planetary := False\<rparr> else r)"

definition update_defenders :: "(tables \<Rightarrow> defender_row \<Rightarrow> defender_row) \<Rightarrow> tables \<Rightarrow> nat \<times> tables" where
  "update_defenders f d =
     (length (filter (\<lambda>(k, r). f d r \<noteq> r) (db_defender d)),
      d\<lparr>db_defender := map (\<lambda>(k, r). (k, f d r)) (db_defender d)\<rparr>)"

definition applyDefenderPlanetary :: "(world, nat) op" where
  "applyDefenderPlanetary =
     bindO (wrapO ''sweep defender is_planetary (matched): '' (sql (update_defenders matched_row))) (\<lambda>m.
     bindO (wrapO ''sweep defender is_planetary (orphan): '' (sql (update_defenders orphan_row))) (\<lambda>k.
     returnO (m + k)))"

definition planetary_tx :: "(world, nat) op" where
  "planetary_tx =
     bindO lockO (\<lambda>_.
     bindO applyDefenderPlanetary (\<lambda>updated.
     bindO (whenO (0 < updated) Withhold) (\<lambda>_. returnO updated)))"

definition SweepDefenderPlanetary :: "(service, nat) op" where
  "SweepDefenderPlanetary = pool_tx_value begin_text commit_text planetary_tx"

end
