(* ===== verification/Backfill_Facts.thy ===== *)
theory Backfill_Facts
  imports Backfill Genesis_Facts
begin

text \<open>
  What a successful sweep leaves behind: planet attributes that are exactly the snapshot, with
  everything the chain no longer holds at zero, and defender rows that agree with the structs
  they protect.  A sweep of what it has just swept finds nothing to do.
\<close>

section \<open>Running on the pair of service and gateway\<close>

lemma guardO_Inr: "guardO b e s = (Inr u, s') \<longleftrightarrow> b \<and> s' = s"
  by (auto simp: guardO_def returnO_def failO_def)

lemma on_service_Inr:
  "on_service m sn = (Inr x, sn') \<longleftrightarrow> (\<exists>s'. m (fst sn) = (Inr x, s') \<and> sn' = (s', snd sn))"
  by (auto simp: on_service_def split: prod.split)

lemma on_gateway_Inr:
  "on_gateway m sn = (Inr x, sn') \<longleftrightarrow> (\<exists>n'. m (snd sn) = (Inr x, n') \<and> sn' = (fst sn, n'))"
  by (auto simp: on_gateway_def split: prod.split)

lemma pool_query_result: "pool_query g s = (Inr x, s') \<Longrightarrow> x = g (sx_db s) \<and> sx_db s' = sx_db s"
  by (auto simp: pool_query_def split: option.splits)

lemma readBoundary_Inr:
  assumes "readBoundary chain s = (Inr b, s')"
  shows "sx_db s' = sx_db s \<and> sb_chain b = chain \<and> sb_height b = c_height (ReadCursor chain (sx_db s))"
  using assms by (auto simp: readBoundary_def bindO_Inr guardO_Inr returnO_def dest!: pool_query_result)

lemma check_boundary_Inr: "check_boundary b w = (Inr u, w') \<Longrightarrow> w_db w' = w_db w \<and> boundary_matches b (w_db w)"
  by (auto simp: check_boundary_def bindO_Inr guardO_Inr query_def sql_Inr)

lemma withheld:
  assumes "whenO b Withhold w = (Inr u, w')"
  shows "w_db w' = (w_db w)\<lparr>db_api := db_api (w_db w')\<rparr>"
  using assms Withhold_db by (cases b) (auto simp: whenO_def returnO_def)

section \<open>Planet attributes\<close>

lemma sweep_labels_agree: "sweepAttrLabels = planetAttrLabels"
  by (simp add: sweepAttrLabels_def planetAttrLabels_def)

lemma planet_attribute_of_id: "planet_attribute_of rec = Inr c \<Longrightarrow> ca_id c = PlanetAttribute_AttributeID rec"
  by (auto simp: planet_attribute_of_def Let_def res_simps split: if_splits option.splits)

lemma planetAttributeRows_distinct:
  assumes "planetAttributeRows records = Inr rows"
  shows "distinct (map ca_id rows)"
  using assms unfolding planetAttributeRows_def
  by (rule foldR_invariant) (auto simp: add_planet_attribute_def res_simps planet_attribute_of_id split: if_splits)

definition chain_rows :: "chain_attribute list \<Rightarrow> string \<Rightarrow> planet_attribute_row option" where
  "chain_rows rows = map_of (map (\<lambda>c. (ca_id c, chain_row c)) rows)"

definition swept :: "chain_attribute list \<Rightarrow> (string, planet_attribute_row) table \<Rightarrow> string \<Rightarrow> planet_attribute_row option" where
  "swept rows t i =
     (case chain_rows rows i of
        Some r \<Rightarrow> Some r
      | None \<Rightarrow> map_option (\<lambda>r. if planet_scoped i then r\<lparr>pa_val := 0\<rparr> else r) (tbl_get t i))"

lemma put_changed_get: "tbl_get (put_changed t c) i = (if i = ca_id c then Some (chain_row c) else tbl_get t i)"
  by (simp add: put_changed_def)

lemma put_all_get:
  "distinct (map ca_id rows) \<Longrightarrow>
     tbl_get (foldl put_changed t rows) i = (case chain_rows rows i of Some r \<Rightarrow> Some r | None \<Rightarrow> tbl_get t i)"
proof (induction rows arbitrary: t)
  case (Cons c rows)
  then have "chain_rows rows (ca_id c) = None"
    by (auto simp: chain_rows_def map_of_eq_None_iff image_image)
  with Cons show ?case by (auto simp: put_changed_get chain_rows_def split: option.split)
qed (simp add: chain_rows_def)

lemma put_all_same:
  "list_all (\<lambda>c. tbl_get t (ca_id c) = Some (chain_row c)) rows \<Longrightarrow> foldl put_changed t rows = t"
  by (induction rows) (simp_all add: put_changed_def)

lemma tbl_get_map: "tbl_get (map (\<lambda>(i, r). (i, f i r)) t) i = map_option (f i) (tbl_get t i)"
  by (induction t) auto

lemma chain_rows_None: "chain_rows rows i = None \<longleftrightarrow> i \<notin> ca_id ` set rows"
  by (auto simp: chain_rows_def map_of_eq_None_iff image_image)

lemma chain_rows_member: "distinct (map ca_id rows) \<Longrightarrow> c \<in> set rows \<Longrightarrow> chain_rows rows (ca_id c) = Some (chain_row c)"
  unfolding chain_rows_def by (rule map_of_is_SomeI) (auto simp: comp_def)

definition swept_table :: "chain_attribute list \<Rightarrow> tables \<Rightarrow> tables" where
  "swept_table rows d = snd (zero_missing rows (snd (upsert_from_chain rows d)))"

lemma swept_table_frame:
  "swept_table rows d = d\<lparr>db_planet_attribute := db_planet_attribute (swept_table rows d)\<rparr>"
  by (simp add: swept_table_def zero_missing_def upsert_from_chain_def)

lemma swept_table_get:
  assumes "distinct (map ca_id rows)"
  shows "tbl_get (db_planet_attribute (swept_table rows d)) i = swept rows (db_planet_attribute d) i"
  using chain_rows_None [of rows i]
  by (cases "tbl_get (db_planet_attribute d) i")
    (auto simp: swept_table_def zero_missing_def upsert_from_chain_def tbl_get_map put_all_get [OF assms]
      swept_def pruned_def split: option.split)

lemma swept_table_stable:
  assumes "distinct (map ca_id rows)" "db_planet_attribute e = db_planet_attribute (swept_table rows d)"
  shows "upsert_from_chain rows e = (0, e)" and "zero_missing rows e = (0, e)"
proof -
  let ?t = "db_planet_attribute (swept_table rows d)"
  have same: "list_all (\<lambda>c. tbl_get ?t (ca_id c) = Some (chain_row c)) rows"
    using chain_rows_member [OF assms(1)] by (simp add: list_all_iff swept_table_get [OF assms(1)] swept_def)
  then have "filter (\<lambda>c. tbl_get ?t (ca_id c) \<noteq> Some (chain_row c)) rows = []"
    by (auto simp: filter_empty_conv list_all_iff)
  then show "upsert_from_chain rows e = (0, e)"
    using put_all_same [OF same] by (simp add: upsert_from_chain_def flip: assms(2))
  have "list_all (\<lambda>(i, r). \<not> pruned rows i r) ?t"
    by (auto simp: swept_table_def zero_missing_def pruned_def list_all_iff)
  then have "filter (\<lambda>(i, r). pruned rows i r) ?t = []"
    and "map (\<lambda>(i, r). (i, if pruned rows i r then r\<lparr>pa_val := 0\<rparr> else r)) ?t = ?t"
    by (auto simp: filter_empty_conv list_all_iff intro!: map_idI)
  then show "zero_missing rows e = (0, e)" by (simp add: zero_missing_def flip: assms(2))
qed

lemma apply_planet_db:
  assumes "applyPlanetAttributesInTx rows w = (Inr x, w')"
  shows "w_db w' = (swept_table rows (w_db w))\<lparr>db_api := db_api (w_db w')\<rparr>"
proof -
  obtain u v w1 w2 w3 where
    u: "sql (upsert_from_chain rows) w1 = (Inr u, w2)" "w_db w1 = w_db w"
    and v: "sql (zero_missing rows) w2 = (Inr v, w3)" and wh: "whenO (0 < u + v) Withhold w3 = (Inr (), w')"
    using assms
    by (auto simp: applyPlanetAttributesInTx_def bindO_Inr wrapO_Inr returnO_def whenO_def dest!: exec_Inr split: if_splits)
  have "w_db w2 = snd (upsert_from_chain rows (w_db w))" "w_db w3 = snd (zero_missing rows (w_db w2))"
    using u v by (auto simp: sql_Inr)
  then have "w_db w3 = swept_table rows (w_db w)" by (simp add: swept_table_def)
  with withheld [OF wh] show ?thesis by simp
qed

lemma applyPlanetAttributes_db:
  assumes "applyPlanetAttributes rows b s = (Inr x, s')"
  shows "boundary_matches b (sx_db s) \<and> sx_db s' = (swept_table rows (sx_db s))\<lparr>db_api := db_api (sx_db s')\<rparr>"
proof -
  from assms obtain w where w: "sx_db s' = w_db w"
    and run: "bindO lockO (\<lambda>_. bindO (check_boundary b) (\<lambda>_. applyPlanetAttributesInTx rows)) (tx_world s) = (Inr x, w)"
    unfolding applyPlanetAttributes_def by (blast elim: pool_tx_value_Inr)
  from run obtain u1 w1 u2 w2 where "lockO (tx_world s) = (Inr u1, w1)" "check_boundary b w1 = (Inr u2, w2)"
    and a: "applyPlanetAttributesInTx rows w2 = (Inr x, w)" by (auto simp: bindO_Inr)
  then have "boundary_matches b (sx_db s)" "w_db w2 = sx_db s"
    using lock_db check_boundary_Inr by fastforce+
  with apply_planet_db [OF a] w show ?thesis by simp
qed

text \<open>C34: The planet attribute sweep installs the snapshot exactly.  When it succeeds past height 0, it has
  fetched and accepted a complete snapshot at the height of the cursor; afterwards every served
  attribute has the served row, every other planet attribute is kept at value 0, every other row
  is as it was, no other table but the readiness of the projections has changed, and applying
  the same rows again writes nothing.\<close>

theorem planet_sweep_exact:
  assumes "SweepPlanetAttributes c limit chain (s, n) = (Inr r, (s', n'))" "pr_height r \<noteq> 0"
  shows "\<exists>records rows m m'. fetchAllPlanetAttributes c (page_limit_of limit) (pr_height r) m = (Inr records, m') \<and>
    planetAttributeRows records = Inr rows \<and> pr_height r = c_height (ReadCursor chain (sx_db s)) \<and>
    tbl_get (db_planet_attribute (sx_db s')) = swept rows (db_planet_attribute (sx_db s)) \<and>
    sx_db s' = (sx_db s)\<lparr>db_planet_attribute := db_planet_attribute (sx_db s'), db_api := db_api (sx_db s')\<rparr> \<and>
    upsert_from_chain rows (sx_db s') = (0, sx_db s') \<and> zero_missing rows (sx_db s') = (0, sx_db s')"
proof -
  from assms obtain b s1 m m' records rows x where b: "readBoundary chain s = (Inr b, s1)"
    and f: "fetchAllPlanetAttributes c (page_limit_of limit) (sb_height b) m = (Inr records, m')"
    and rows: "planetAttributeRows records = Inr rows" and a: "applyPlanetAttributes rows b s1 = (Inr x, s')"
    and r: "pr_height r = sb_height b"
    by (auto simp: SweepPlanetAttributes_def bindO_Inr guardO_Inr on_service_Inr on_gateway_Inr wrapO_Inr
        liftO_def returnO_def Let_def split: if_splits)
  note d = planetAttributeRows_distinct [OF rows] and bd = readBoundary_Inr [OF b]
  have db: "sx_db s' = (swept_table rows (sx_db s))\<lparr>db_api := db_api (sx_db s')\<rparr>"
    using applyPlanetAttributes_db [OF a] bd by simp
  have pa: "db_planet_attribute (sx_db s') = db_planet_attribute (swept_table rows (sx_db s))"
    by (subst db) simp
  have "upsert_from_chain rows (sx_db s') = (0, sx_db s')" "zero_missing rows (sx_db s') = (0, sx_db s')"
    using swept_table_stable [OF d pa] by simp_all
  moreover have "sx_db s' = (sx_db s)\<lparr>db_planet_attribute := db_planet_attribute (sx_db s'), db_api := db_api (sx_db s')\<rparr>"
    unfolding pa by (subst db, subst swept_table_frame) simp
  ultimately show ?thesis
    using f rows r bd by (intro exI [of _ records] exI [of _ rows] exI [of _ m] exI [of _ m'])
      (simp add: fun_eq_iff pa swept_table_get [OF d])
qed

text \<open>A gateway that serves one attribute, and an index that also holds a pruned one.\<close>

definition planet_record :: json where
  "planet_record = JObj [(''attributeId'', jstr ''0-2-1''), (''value'', jstr ''7'')]"

definition planet_gateway :: "nat \<Rightarrow> lcd_request \<Rightarrow> lcd_reply" where
  "planet_gateway n rq =
     Reply 200 [(''X-Cosmos-Block-Height'', ''9'')] (Inr (json_marshal
       (if n = 0 then JObj [(''default_node_info'', JObj [(''network'', jstr ''c'')])]
        else JObj [(''planetAttributeRecords'', JArr [planet_record]), (''pagination'', JObj [(''next_key'', JNull)])])))"

definition planet_client :: lcd_client where
  "planet_client = \<lparr>lc_base = ''http://lcd'', lc_http = Some planet_gateway\<rparr>"

definition stale_row :: planet_attribute_row where
  "stale_row = \<lparr>pa_object_id = ''2-1'', pa_object_type = Some ''planet'', pa_attribute_type = Some ''planetaryShield'', pa_val = 3\<rparr>"

definition example_index :: service where
  "example_index = example_pool\<lparr>sx_db := empty_tables
     \<lparr>db_planet_attribute := [(''0-2-1'', stale_row), (''10-2-4'', stale_row)],
      db_sync := empty_sync\<lparr>sy_cursor := [(''c'', \<lparr>cu_height = 9, cu_hash = None, cu_time = Some 5000,
        cu_status = Some StatusCurrent, cu_lag = None, cu_tip = None\<rparr>)]\<rparr>\<rparr>\<rparr>"

definition served_record :: pPlanetAttribute where
  "served_record = \<lparr>PlanetAttribute_AttributeID = ''0-2-1'', PlanetAttribute_Value = ''7''\<rparr>"

definition served_attribute :: chain_attribute where
  "served_attribute = \<lparr>ca_id = ''0-2-1'', ca_object_id = ''2-1'', ca_type = ''planetaryShield'', ca_val = 7\<rparr>"

lemma example_planet_fetch:
  "fetchAllPlanetAttributes planet_client 10000 9 1 = (Inr [served_record], 2)"
  unfolding fetchAllPlanetAttributes_def
  by (rule one_page [where p = "\<lparr>pg_rows = [json_marshal planet_record], pg_next = []\<rparr>"]) (code_simp+)

lemma example_planet_steps:
  "readBoundary ''c'' example_index = (Inr \<lparr>sb_chain = ''c'', sb_height = 9, sb_time = 5000\<rparr>, example_index\<lparr>sx_clock := 1\<rparr>)"
  "ValidateChain planet_client ''c'' 0 = (Inr (), 1)"
  "planetAttributeRows [served_record] = Inr [served_attribute]"
  "fst (applyPlanetAttributes [served_attribute] \<lparr>sb_chain = ''c'', sb_height = 9, sb_time = 5000\<rparr> (example_index\<lparr>sx_clock := 1\<rparr>))
     = Inr (1, 1)"
  subgoal by (simp add: readBoundary_def bindO_def guardO_def returnO_def pool_query_def example_index_def example_pool_def
      ReadCursor_def empty_sync_def or_zero_time_def zero_time_def)
  by code_simp+

lemma example_planet_sweep:
  "\<exists>r s' n'. SweepPlanetAttributes planet_client 0 ''c'' (example_index, 0) = (Inr r, (s', n')) \<and> pr_height r = 9"
proof -
  obtain s' where a: "applyPlanetAttributes [served_attribute] \<lparr>sb_chain = ''c'', sb_height = 9, sb_time = 5000\<rparr>
      (example_index\<lparr>sx_clock := 1\<rparr>) = (Inr (1, 1), s')"
    using example_planet_steps(4) by (metis prod.collapse)
  show ?thesis
    by (simp add: SweepPlanetAttributes_def bindO_def guardO_def returnO_def on_service_def on_gateway_def wrapO_def liftO_def
        planet_client_def [THEN arg_cong [where f = lc_base], simplified] page_limit_of_def
        example_planet_steps(1-3) example_planet_fetch a del: One_nat_def)
qed

theorem planet_sweep_exact_witness:
  "\<exists>(r :: planet_report) (s' :: service) records rows m m'. fetchAllPlanetAttributes planet_client 10000 9 m = (Inr records, m') \<and>
    planetAttributeRows records = Inr rows \<and> pr_height r = 9 \<and>
    tbl_get (db_planet_attribute (sx_db s')) = swept rows (db_planet_attribute (sx_db example_index))"
proof -
  obtain r s' n' where run: "SweepPlanetAttributes planet_client 0 ''c'' (example_index, 0) = (Inr r, (s', n'))" "pr_height r = 9"
    using example_planet_sweep by blast
  then have "pr_height r \<noteq> 0" by simp
  have lim: "page_limit_of 0 = 10000" by (simp add: page_limit_of_def)
  from planet_sweep_exact [OF run(1) \<open>pr_height r \<noteq> 0\<close>, unfolded run(2) lim]
  obtain records rows m m' where "fetchAllPlanetAttributes planet_client 10000 9 m = (Inr records, m')"
    "planetAttributeRows records = Inr rows"
    "tbl_get (db_planet_attribute (sx_db s')) = swept rows (db_planet_attribute (sx_db example_index))" by blast
  with run(2) show ?thesis by blast
qed

section \<open>Defenders\<close>

lemma protects_frame [simp]:
  "protects_planetary (d\<lparr>db_defender := t\<rparr>) = protects_planetary d" "protects_destroyed (d\<lparr>db_defender := t\<rparr>) = protects_destroyed d"
  "protects_planetary (d\<lparr>db_api := a\<rparr>) = protects_planetary d" "protects_destroyed (d\<lparr>db_api := a\<rparr>) = protects_destroyed d"
  "protects_destroyed (d\<lparr>db_struct_attribute := u\<rparr>) = protects_destroyed d"
  by (simp_all add: protects_planetary_def protects_destroyed_def fun_eq_iff)

definition repaired_row :: "tables \<Rightarrow> defender_row \<Rightarrow> defender_row" where
  "repaired_row d r = orphan_row d (matched_row d r)"

lemma repaired_row_simps [simp]:
  "repaired_row (d\<lparr>db_defender := t\<rparr>) = repaired_row d" "repaired_row (d\<lparr>db_api := a\<rparr>) = repaired_row d"
  "matched_row (d\<lparr>db_defender := t\<rparr>) = matched_row d" "orphan_row (d\<lparr>db_defender := t\<rparr>) = orphan_row d"
  "df_protected (repaired_row d r) = df_protected r"
  "df_is_planetary (repaired_row d r) \<longleftrightarrow> protects_planetary d r = Some True"
  by (auto simp: repaired_row_def matched_row_def orphan_row_def protects_planetary_def fun_eq_iff split: option.split)

lemma planetary_tx_db:
  assumes "planetary_tx w = (Inr k, w')"
  shows "w_db w' = (w_db w)\<lparr>db_defender := map (\<lambda>(i, r). (i, repaired_row (w_db w) r)) (db_defender (w_db w)),
    db_api := db_api (w_db w')\<rparr>"
proof -
  obtain u1 w1 m w2 j w3 where "lockO w = (Inr u1, w1)" and m: "sql (update_defenders matched_row) w1 = (Inr m, w2)"
    and j: "sql (update_defenders orphan_row) w2 = (Inr j, w3)" and wh: "whenO (0 < m + j) Withhold w3 = (Inr (), w')"
    using assms by (auto simp: planetary_tx_def applyDefenderPlanetary_def bindO_Inr wrapO_Inr returnO_def)
  then have "w_db w1 = w_db w" by (simp add: lock_db)
  with m j have "w_db w3 = (w_db w)\<lparr>db_defender := map (\<lambda>(i, r). (i, repaired_row (w_db w) r)) (db_defender (w_db w))\<rparr>"
    by (auto simp: sql_Inr update_defenders_def repaired_row_def comp_def case_prod_beta)
  with withheld [OF wh] show ?thesis by simp
qed

lemma stale_tx_db:
  assumes "stale_tx w = (Inr k, w')"
  shows "w_db w' = (snd (sweep_stale (w_db w)))\<lparr>db_api := db_api (w_db w')\<rparr>"
proof -
  obtain u1 w1 m j w2 where "lockO w = (Inr u1, w1)" and m: "sql sweep_stale w1 = (Inr (m, j), w2)"
    and wh: "whenO (0 < m + j) Withhold w2 = (Inr (), w')"
    using assms by (auto simp: stale_tx_def bindO_Inr wrapO_Inr returnO_def)
  then have "w_db w1 = w_db w" by (simp add: lock_db)
  with m have "w_db w2 = snd (sweep_stale (w_db w))" by (auto simp: sql_Inr)
  with withheld [OF wh] show ?thesis by simp
qed

lemma update_nothing:
  assumes "list_all (\<lambda>(i, r). f d r = r) (db_defender d)"
  shows "update_defenders f d = (0, d)"
proof -
  have "map (\<lambda>(i, r). (i, f d r)) t = t \<and> filter (\<lambda>(i, r). f d r \<noteq> r) t = []"
    if "list_all (\<lambda>(i, r). f d r = r) t" for t :: "(string, defender_row) table"
    using that by (induction t) auto
  from this [OF assms] show ?thesis by (simp add: update_defenders_def)
qed

lemma sweep_stale_nothing:
  assumes "list_all (\<lambda>(i, r). \<not> protects_destroyed d r) (db_defender d)"
  shows "sweep_stale d = ((0, 0), d)"
proof -
  have "filter (\<lambda>(i, r). protects_destroyed d r) t = [] \<and> filter (\<lambda>(i, r). \<not> protects_destroyed d r) t = t"
    if "list_all (\<lambda>(i, r). \<not> protects_destroyed d r) t" for t :: "(string, defender_row) table"
    using that by (induction t) auto
  from this [OF assms] show ?thesis by (simp add: sweep_stale_def Let_def tbl_filter_def)
qed

text \<open>C36: The defender sweeps reconcile the defender rows with the structs.  After both have succeeded, the rows
  left are those whose protected struct was not destroyed, each with its defender and protected
  struct as before, none protects a destroyed struct, a row is planetary exactly when the struct
  it protects is there and on a planet, and neither sweep finds anything more to do.\<close>

theorem defender_sweeps_reconcile:
  assumes "SweepStaleDefenders s = (Inr n, s1)" "SweepDefenderPlanetary s1 = (Inr k, s2)"
  shows "map (\<lambda>(i, r). (i, df_protected r)) (db_defender (sx_db s2)) =
      map (\<lambda>(i, r). (i, df_protected r)) (filter (\<lambda>(i, r). \<not> protects_destroyed (sx_db s) r) (db_defender (sx_db s))) \<and>
    list_all (\<lambda>(i, r). \<not> protects_destroyed (sx_db s2) r \<and>
      (df_is_planetary r \<longleftrightarrow> protects_planetary (sx_db s2) r = Some True)) (db_defender (sx_db s2)) \<and>
    sweep_stale (sx_db s2) = ((0, 0), sx_db s2) \<and>
    update_defenders matched_row (sx_db s2) = (0, sx_db s2) \<and> update_defenders orphan_row (sx_db s2) = (0, sx_db s2)"
proof -
  let ?d = "sx_db s" let ?left = "filter (\<lambda>(i, r). \<not> protects_destroyed ?d r) (db_defender ?d)"
  let ?rows = "map (\<lambda>(i, r). (i, repaired_row ?d r)) ?left"
  obtain w1 where w1: "stale_tx (tx_world s) = (Inr n, w1)" "sx_db s1 = w_db w1"
    using assms(1) unfolding SweepStaleDefenders_def by (rule pool_tx_value_Inr)
  from stale_tx_db [OF w1(1)]
  obtain a1 u where s1: "sx_db s1 = ?d\<lparr>db_defender := ?left, db_struct_attribute := u, db_api := a1\<rparr>"
    by (simp add: w1(2) sweep_stale_def Let_def tbl_filter_def)
  have at1: "repaired_row (sx_db s1) = repaired_row ?d" "protects_destroyed (sx_db s1) = protects_destroyed ?d"
    "protects_planetary (sx_db s1) = protects_planetary ?d"
    by (simp_all add: s1 fun_eq_iff repaired_row_def matched_row_def orphan_row_def protects_planetary_def protects_destroyed_def)
  obtain w2 where w2: "planetary_tx (tx_world s1) = (Inr k, w2)" "sx_db s2 = w_db w2"
    using assms(2) unfolding SweepDefenderPlanetary_def by (rule pool_tx_value_Inr)
  have left1: "db_defender (sx_db s1) = ?left" by (simp add: s1)
  from planetary_tx_db [OF w2(1)]
  obtain a2 where s2: "sx_db s2 = (sx_db s1)\<lparr>db_defender := ?rows, db_api := a2\<rparr>"
    by (simp add: w2(2) at1(1) left1)
  have rows: "db_defender (sx_db s2) = ?rows" "protects_destroyed (sx_db s2) = protects_destroyed ?d"
    "protects_planetary (sx_db s2) = protects_planetary ?d"
    by (simp_all add: s2 at1)
  have ok: "list_all (\<lambda>(i, r). \<not> protects_destroyed ?d r \<and> (df_is_planetary r \<longleftrightarrow> protects_planetary ?d r = Some True)) ?rows"
    by (auto simp: list_all_iff protects_destroyed_def protects_planetary_def)
  have fx: "matched_row (sx_db s2) r = r" "orphan_row (sx_db s2) r = r" if "(i, r) \<in> set ?rows" for i r
  proof -
    have "df_is_planetary r \<longleftrightarrow> protects_planetary ?d r = Some True" using ok that by (auto simp: list_all_iff)
    then show "matched_row (sx_db s2) r = r" "orphan_row (sx_db s2) r = r"
      by (cases r; auto simp: matched_row_def orphan_row_def rows(3) split: option.split)+
  qed
  have fixed: "list_all (\<lambda>(i, r). matched_row (sx_db s2) r = r \<and> orphan_row (sx_db s2) r = r) ?rows"
    unfolding list_all_iff
  proof
    fix x assume "x \<in> set ?rows"
    then show "case x of (i, r) \<Rightarrow> matched_row (sx_db s2) r = r \<and> orphan_row (sx_db s2) r = r"
      using fx [of "fst x" "snd x"] by (simp only: prod.collapse case_prod_beta)
  qed
  then have "update_defenders matched_row (sx_db s2) = (0, sx_db s2)" "update_defenders orphan_row (sx_db s2) = (0, sx_db s2)"
    by (auto simp: rows(1) [symmetric] list_all_iff intro!: update_nothing)
  moreover have "sweep_stale (sx_db s2) = ((0, 0), sx_db s2)"
    using ok by (intro sweep_stale_nothing) (auto simp: rows list_all_iff)
  ultimately show ?thesis
    using ok rows by (auto simp: comp_def case_prod_beta)
qed

definition example_swept :: service where
  "example_swept = example_pool\<lparr>sx_db := empty_tables
     \<lparr>db_defender := [(''5-1'', \<lparr>df_protected = ''5-8'', df_is_planetary = True\<rparr>), (''5-2'', \<lparr>df_protected = ''5-9'', df_is_planetary = True\<rparr>)],
      db_struct := [(''5-8'', \<lparr>st_index = 8, st_type = 1, st_creator = [], st_owner = [], st_location_type = ''fleet'',
         st_location_id = ''9-1'', st_ambit = [], st_slot = 0, st_is_destroyed = True, st_destroyed_block = Some 5\<rparr>)]\<rparr>\<rparr>"

theorem defender_sweeps_reconcile_witness:
  "db_defender (sx_db (snd (SweepDefenderPlanetary (snd (SweepStaleDefenders example_swept))))) =
    [(''5-2'', \<lparr>df_protected = ''5-9'', df_is_planetary = False\<rparr>)] \<and>
   sweep_stale (sx_db (snd (SweepDefenderPlanetary (snd (SweepStaleDefenders example_swept))))) =
    ((0, 0), sx_db (snd (SweepDefenderPlanetary (snd (SweepStaleDefenders example_swept)))))"
proof -
  let ?a = "SweepStaleDefenders example_swept" let ?b = "SweepDefenderPlanetary (snd ?a)"
  have "\<not> isl (fst ?a)" "\<not> isl (fst ?b)"
    and rows: "db_defender (sx_db (snd ?b)) = [(''5-2'', \<lparr>df_protected = ''5-9'', df_is_planetary = False\<rparr>)]"
    by code_simp+
  from succeeds [OF this(1)] succeeds [OF this(2)]
  obtain n k where "?a = (Inr n, snd ?a)" "?b = (Inr k, snd ?b)" by blast
  from defender_sweeps_reconcile [OF this] rows show ?thesis by blast
qed

end
