(* ===== verification/Reprocess.thy ===== *)
theory Reprocess
  imports Pool Block_Facts
begin

text \<open>
  \<open>internal/reprocess/reprocess.go\<close>: replaying the events whose handlers failed, one transaction
  per height.  What the RPC client answers for a height is a parameter.  The counters of unknown
  events, which this command never reads, start empty at each height; the printed summary is
  left out.
\<close>

section \<open>Locating the event\<close>

definition pick_events :: "block_results \<Rightarrow> int \<Rightarrow> event list" where
  "pick_events results tx =
     (if tx < 0 then brr_finalize_events results
      else if int (length (brr_txs_results results)) \<le> tx then []
      else tx_events (brr_txs_results results ! nat tx))"

definition matchComposite :: "event \<Rightarrow> string \<Rightarrow> string option" where
  "matchComposite ev key =
     (if ev_type ev = key then (case Envelope ev of Inl _ \<Rightarrow> None | Inr raw \<Rightarrow> Some raw)
      else (case filter (\<lambda>a. ev_type ev @ ''.'' @ attr_key a = key) (ev_attributes ev) of
          [] \<Rightarrow> None
        | a # _ \<Rightarrow> Some (encodeAttributeValue (attr_value a))))"

definition minus_one :: "int option \<Rightarrow> int" where
  "minus_one v = (case v of None \<Rightarrow> - 1 | Some i \<Rightarrow> i)"

definition source_mismatch :: string where
  "source_mismatch = ''recorded event coordinate does not match; complete-block recovery required''"

definition locateAttribute :: "block_results \<Rightarrow> error_row \<Rightarrow> string + string" where
  "locateAttribute results t =
     (case er_event t of
        None \<Rightarrow> Inl ''original event index missing; complete-block recovery required''
      | Some i \<Rightarrow>
          let evs = pick_events results (minus_one (er_tx t)) in
          if 0 \<le> i \<and> i < int (length evs) then
            (case matchComposite (evs ! nat i) (er_key t) of
               None \<Rightarrow> Inl source_mismatch
             | Some raw \<Rightarrow> Inr raw)
          else Inl source_mismatch)"

definition original_event :: "block_results \<Rightarrow> int \<Rightarrow> int \<Rightarrow> event option" where
  "original_event results tx i =
     (if tx < 0 \<and> 0 \<le> i \<and> i < int (length (brr_finalize_events results))
      then Some (brr_finalize_events results ! nat i)
      else if 0 \<le> tx \<and> tx < int (length (brr_txs_results results)) \<and> 0 \<le> i \<and>
              i < int (length (tx_events (brr_txs_results results ! nat tx)))
      then Some (tx_events (brr_txs_results results ! nat tx) ! nat i)
      else None)"

section \<open>One target\<close>

datatype verdict = Resolved | WouldResolve | Skipped string | Failed string

record replay_outcome =
  ro_id :: nat
  ro_height :: int
  ro_key :: string
  ro_verdict :: verdict

definition outcome_of :: "nat \<times> error_row \<Rightarrow> verdict \<Rightarrow> replay_outcome" where
  "outcome_of t v = \<lparr>ro_id = fst t, ro_height = er_height (snd t), ro_key = er_key (snd t), ro_verdict = v\<rparr>"

definition failAll :: "(nat \<times> error_row) list \<Rightarrow> string \<Rightarrow> replay_outcome list" where
  "failAll targets reason = map (\<lambda>t. outcome_of t (Failed reason)) targets"

record replay_inputs =
  ri_parts :: parts
  ri_chain :: string
  ri_key :: string
  ri_severity :: string
  ri_since :: int
  ri_until :: int
  ri_limit :: int
  ri_dry :: bool
  ri_block :: "int \<Rightarrow> block_result res"
  ri_results :: "int \<Rightarrow> block_results res"

definition reset_keys :: "string list" where
  "reset_keys = [''structs.structs.EventOwnerReactorDiversityReset'', ''structs.structs.EventReactorCommissionRevisionReset'']"

definition replay_context :: "replay_inputs \<Rightarrow> int \<Rightarrow> int \<Rightarrow> error_row \<Rightarrow> positioned \<Rightarrow> block_context" where
  "replay_context ri height time t p =
     \<lparr>bc_chain = ri_chain ri, bc_height = height, bc_time = time, bc_tip = height, bc_phase = pe_phase p,
      bc_tx = minus_one (er_tx t), bc_msg = pe_msg p, bc_event = minus_one (er_event t)\<rparr>"

text \<open>A verdict, or what ends the height: the text for every target and the error.\<close>

definition replay_one ::
  "replay_inputs \<Rightarrow> int \<Rightarrow> int \<Rightarrow> block_results \<Rightarrow> error_row \<Rightarrow> unknowns \<times> world
     \<Rightarrow> (string \<times> goerror + verdict) \<times> unknowns \<times> world" where
  "replay_one ri height time results t st =
     (if er_key t \<in> set reset_keys then
        (Inr (Skipped ''reset requires complete-block recovery with all following replacement rows''), st)
      else case locateAttribute results t of
        Inl reason \<Rightarrow> (Inr (Skipped reason), st)
      | Inr raw \<Rightarrow>
          (case original_event results (minus_one (er_tx t)) (minus_one (er_event t)) of
             None \<Rightarrow> (Inr (Failed ''original event coordinate unavailable; complete-block recovery required''), st)
           | Some ev \<Rightarrow>
               (case position_event ev (minus_one (er_tx t)) (minus_one (er_event t)) of
                  Inl e \<Rightarrow> (Inr (Failed (err_text e)), st)
                | Inr p \<Rightarrow>
                    (case Dispatch (en_router (ri_parts ri)) (replay_context ri height time t p) (er_key t) raw st of
                       (Inl fatal, st') \<Rightarrow> (Inl (err_text fatal, fatal), st')
                     | (Inr None, st') \<Rightarrow> (Inr (if ri_dry ri then WouldResolve else Resolved), st')
                     | (Inr (Some he), st') \<Rightarrow>
                         if he_severity he \<noteq> SeverityWarn
                         then (Inl (he_error he, errorf (''required replay event '' @ he_key he @ '': '' @ he_error he)), st')
                         else (Inr (Failed (he_error he)), st')))))"

fun replay_targets ::
  "replay_inputs \<Rightarrow> int \<Rightarrow> int \<Rightarrow> block_results \<Rightarrow> (nat \<times> error_row) list \<Rightarrow> replay_outcome list \<Rightarrow> unknowns \<times> world
     \<Rightarrow> (string \<times> goerror + replay_outcome list) \<times> unknowns \<times> world" where
  "replay_targets ri height time results [] os st = (Inr os, st)"
| "replay_targets ri height time results (t # ts) os st =
     (case replay_one ri height time results (snd t) st of
        (Inl stop, st') \<Rightarrow> (Inl stop, st')
      | (Inr v, st') \<Rightarrow> replay_targets ri height time results ts (os @ [outcome_of t v]) st')"

section \<open>One height\<close>

text \<open>A query on another connection of the pool, while the transaction is open: it sees what is committed.\<close>

definition pool_read :: "'a \<Rightarrow> (world, 'a) op" where
  "pool_read x w =
     (case w_fault w (w_clock w) of
        Some e \<Rightarrow> (Inl e, tick w)
      | None \<Rightarrow> (Inr x, tick w))"

definition publish_replay :: "replay_inputs \<Rightarrow> int \<Rightarrow> tables \<Rightarrow> (world, unit) op" where
  "publish_replay ri height committed =
     bindO (modifyO (\<lambda>w. w\<lparr>w_dirty := Dirty_Ledger (b_ledger (w_buf w)) (w_dirty w)\<rparr>)) (\<lambda>_.
     bindO (wrapO ''invalidate repaired native claims: ''
       (Invalidate (owners_of (en_views (ri_parts ri))) (ri_chain ri) height no_changes)) (\<lambda>_.
     bindO (wrapO ''flush buffer: '' Flush) (\<lambda>deltas.
     bindO (wrapO ''read cursor for projection refresh: '' (pool_read (ReadCursor (ri_chain ri) committed))) (\<lambda>c.
     bindO (getO w_dirty) (\<lambda>dt.
     wrapO ''recompute API projections: ''
       (Recompute (en_views (ri_parts ri)) dt (c_height c) (Some (c_time c)) (FromDeltas deltas)))))))"

definition replay_tx ::
  "replay_inputs \<Rightarrow> int \<Rightarrow> int \<Rightarrow> block_results \<Rightarrow> (nat \<times> error_row) list \<Rightarrow> tables
     \<Rightarrow> (world, replay_outcome list \<times> goerror option) op" where
  "replay_tx ri height time results targets committed =
     bindO lockO (\<lambda>_ w.
     case replay_targets ri height time results targets [] (no_unknowns, w) of
       (Inl (text, e), u, w') \<Rightarrow> (Inr (failAll targets text, Some e), w')
     | (Inr os, u, w') \<Rightarrow>
         if ri_dry ri then (Inr (os, None), w')
         else bindO (publish_replay ri height committed) (\<lambda>_. returnO (os, None)) w')"

definition mark_resolved :: "replay_outcome list \<Rightarrow> (service, unit) op" where
  "mark_resolved os =
     forO (filter (\<lambda>o'. ro_verdict o' = Resolved) os) (\<lambda>o'.
       attempt (pool_exec (\<lambda>d. snd (ResolveErrorByID (ro_id o') ''reprocess-errors'' d))))"

definition replayHeight ::
  "replay_inputs \<Rightarrow> int \<Rightarrow> (nat \<times> error_row) list \<Rightarrow> service \<Rightarrow> (replay_outcome list \<times> goerror option) \<times> service" where
  "replayHeight ri height targets s =
     (case ri_block ri height of
        Inl e \<Rightarrow> ((failAll targets (''rpc /block: '' @ err_text e), None), s)
      | Inr block \<Rightarrow>
     (case ri_results ri height of
        Inl e \<Rightarrow> ((failAll targets (''rpc /block_results: '' @ err_text e), None), s)
      | Inr results \<Rightarrow>
     (case validate_bundle (Some block) (Some results) (ri_chain ri) height of
        Inl e \<Rightarrow> ((failAll targets (err_text e), None), s)
      | Inr _ \<Rightarrow>
     (case pool_tx_if (\<lambda>(os, err). err = None \<and> \<not> ri_dry ri) ''begin tx: '' ''commit: ''
         (replay_tx ri height (br_time block) results targets (sx_db s)) s of
        (Inl e, s') \<Rightarrow> (([], Some e), s')
      | (Inr (os, err), s') \<Rightarrow>
          if err \<noteq> None \<or> ri_dry ri then ((os, err), s')
          else ((os, None), snd (mark_resolved os s'))))))"

section \<open>The command\<close>

definition height_groups :: "(nat \<times> error_row) list \<Rightarrow> (int \<times> (nat \<times> error_row) list) list" where
  "height_groups rows =
     map (\<lambda>h. (h, filter (\<lambda>t. er_height (snd t) = h) rows)) (sort (remdups (map (\<lambda>t. er_height (snd t)) rows)))"

fun replay_heights ::
  "replay_inputs \<Rightarrow> (int \<times> (nat \<times> error_row) list) list \<Rightarrow> service \<Rightarrow> (replay_outcome list \<times> bool) \<times> service" where
  "replay_heights ri [] s = (([], False), s)"
| "replay_heights ri ((h, targets) # hs) s =
     (case replayHeight ri h targets s of
        ((os, err), s1) \<Rightarrow>
          (case replay_heights ri hs s1 of
             ((os', failed), s2) \<Rightarrow> ((os @ os', err \<noteq> None \<or> failed), s2)))"

definition hard_failure :: "replay_outcome \<Rightarrow> bool" where
  "hard_failure o' \<longleftrightarrow> (case ro_verdict o' of Failed e \<Rightarrow> e \<noteq> [] | _ \<Rightarrow> False)"

definition reprocess_Run :: "replay_inputs \<Rightarrow> service \<Rightarrow> (replay_outcome list \<times> int) \<times> service" where
  "reprocess_Run ri s =
     (case pool_query (ListUnresolvedErrors (ri_chain ri) (ri_key ri) (ri_severity ri) (ri_since ri) (ri_until ri) (ri_limit ri)) s of
        (Inl e, s1) \<Rightarrow> (([], 1), s1)
      | (Inr rows, s1) \<Rightarrow>
          if rows = [] then (([], 0), s1)
          else (case replay_heights ri (height_groups rows) s1 of
              ((os, failed), s2) \<Rightarrow> ((os, if failed \<or> list_ex hard_failure os then 1 else 0), s2)))"

section \<open>Every target is accounted for\<close>


text \<open>What a verdict says of its target.\<close>

definition justified :: "replay_inputs \<Rightarrow> int \<Rightarrow> int \<Rightarrow> block_results \<Rightarrow> nat \<times> error_row \<Rightarrow> replay_outcome \<Rightarrow> bool" where
  "justified ri height time results t o' \<longleftrightarrow>
     ro_id o' = fst t \<and> ro_height o' = er_height (snd t) \<and> ro_key o' = er_key (snd t) \<and>
     (ro_verdict o' \<in> {Resolved, WouldResolve} \<longrightarrow>
        (ro_verdict o' = WouldResolve \<longleftrightarrow> ri_dry ri) \<and> er_key (snd t) \<notin> set reset_keys \<and>
        (\<exists>ev p raw st. original_event results (minus_one (er_tx (snd t))) (minus_one (er_event (snd t))) = Some ev \<and>
           matchComposite ev (er_key (snd t)) = Some raw \<and>
           position_event ev (minus_one (er_tx (snd t))) (minus_one (er_event (snd t))) = Inr p \<and>
           fst (Dispatch (en_router (ri_parts ri)) (replay_context ri height time (snd t) p) (er_key (snd t)) raw st) = Inr None))"

lemma outcome_of_fields [simp]:
  "ro_id (outcome_of t v) = fst t" "ro_height (outcome_of t v) = er_height (snd t)"
  "ro_key (outcome_of t v) = er_key (snd t)" "ro_verdict (outcome_of t v) = v"
  by (simp_all add: outcome_of_def)

lemma justified_other:
  "ri_dry ri \<or> v \<noteq> WouldResolve \<Longrightarrow> v \<notin> {Resolved, WouldResolve} \<Longrightarrow> justified ri height time results t (outcome_of t v)"
  by (simp add: justified_def)





lemma replay_accounts_for_dry:
  assumes "ri_dry ri" "replayHeight ri height targets s = (r, s')"
  shows "sx_db s' = sx_db s"
proof (cases "pool_tx_if (\<lambda>(os, err). err = None \<and> \<not> ri_dry ri) ''begin tx: '' ''commit: ''
    (replay_tx ri height (br_time (projr (ri_block ri height))) (projr (ri_results ri height)) targets (sx_db s)) s")
  case (Pair q s1)
  from pool_tx_outcome [OF Pair] have "sx_db s1 = sx_db s" using assms(1) by auto
  with assms Pair show ?thesis by (auto simp: replayHeight_def split: sum.splits prod.splits)
qed


section \<open>An example\<close>

text \<open>A grid event of height 7 is replayed after a later block has already set the attribute to 9.\<close>

definition replayed_key :: string where
  "replayed_key = ''structs.structs.EventGrid.gridRecord''"

definition replayed_event :: event where
  "replayed_event = mk_event ''structs.structs.EventGrid'' [(''gridRecord'', json_marshal
     (JObj [(''attributeId'', jstr ''0-5-3''), (''value'', jstr ''7'')]))]"

definition example_replay :: replay_inputs where
  "example_replay =
     \<lparr>ri_parts = parts_with \<lparr>rt_handlers = [(replayed_key, gridHandler)], rt_nested = [], rt_strict = False\<rparr>,
      ri_chain = ''c'', ri_key = [], ri_severity = [], ri_since = 0, ri_until = 0, ri_limit = 0, ri_dry = False,
      ri_block = (\<lambda>h. Inr \<lparr>br_hash = ''AB'', br_height = ''7'', br_chain_id = ''c'', br_time = 5000, br_proposer = ''p'', br_txs = []\<rparr>),
      ri_results = (\<lambda>h. Inr \<lparr>brr_height = ''7'', brr_txs_results = [],
        brr_finalize_events = [mk_event ''tx'' [(''mode'', ''EndBlock'')], replayed_event\<lparr>ev_attributes := attr ''mode'' ''EndBlock'' # ev_attributes replayed_event\<rparr>]\<rparr>)\<rparr>"

definition replayed_row :: "nat \<times> error_row" where
  "replayed_row = (0, \<lparr>er_chain = ''c'', er_height = 7, er_tx = None, er_msg = None, er_event = Some 1, er_key = replayed_key,
     er_payload = None, er_error = ''x'', er_severity = Some ''warn'', er_resolved_by = None\<rparr>)"

definition indexed_further :: service where
  "indexed_further = example_service\<lparr>sx_db := empty_tables
     \<lparr>db_grid := [(''0-5-3'', \<lparr>gr_attribute_type = Some ''ore'', gr_object_type = Some ''struct'', gr_object_index = 3,
        gr_object_id = ''5-3'', gr_val = 9\<rparr>)],
      db_sync := empty_sync\<lparr>sy_errors := [replayed_row]\<rparr>\<rparr>\<rparr>"



text \<open>The replay puts the old value back over the newer one.\<close>

lemma replay_rewinds_newer_value:
  "map_option gr_val (tbl_get (db_grid (sx_db (snd (replayHeight example_replay 7 [replayed_row] indexed_further)))) ''0-5-3'') = Some 7"
  by code_simp

section \<open>Dry runs\<close>

lemma dry_height: "ri_dry ri \<Longrightarrow> sx_db (snd (replayHeight ri height targets s)) = sx_db s"
  using replay_accounts_for_dry [of ri height targets s] by (cases "replayHeight ri height targets s") auto

lemma dry_heights: "ri_dry ri \<Longrightarrow> sx_db (snd (replay_heights ri hs s)) = sx_db s"
proof (induction ri hs s rule: replay_heights.induct)
  case (2 ri h targets hs s)
  then show ?case using dry_height [of ri h targets s] by (auto split: prod.split)
qed simp

lemma dry_run: "ri_dry ri \<Longrightarrow> sx_db (snd (reprocess_Run ri s)) = sx_db s"
proof -
  assume dry: "ri_dry ri"
  have q: "sx_db (snd (pool_query g s)) = sx_db s" for g :: "tables \<Rightarrow> (nat \<times> error_row) list"
    by (simp add: pool_query_def split: option.split)
  show "sx_db (snd (reprocess_Run ri s)) = sx_db s"
    using q [of "ListUnresolvedErrors (ri_chain ri) (ri_key ri) (ri_severity ri) (ri_since ri) (ri_until ri) (ri_limit ri)"]
      dry_heights [OF dry]
    by (auto simp: reprocess_Run_def split: prod.split sum.split) (metis snd_conv)
qed

section \<open>Keys without a handler\<close>

text \<open>An error whose key has no handler is not skipped: the dispatch counts an unknown event and reports no
  error, so the row is taken for resolved although nothing was replayed.\<close>

lemma unregistered_counts_as_resolved:
  assumes "Lookup (en_router (ri_parts ri)) (er_key t) = None" "\<not> rt_strict (en_router (ri_parts ri))"
    and "er_key t \<notin> set reset_keys" "locateAttribute results t = Inr raw" "\<not> ri_dry ri"
    and "original_event results (minus_one (er_tx t)) (minus_one (er_event t)) = Some ev"
    and "position_event ev (minus_one (er_tx t)) (minus_one (er_event t)) = Inr p"
  shows "fst (replay_one ri height time results t (u, w)) = Inr Resolved"
  using assms by (simp add: replay_one_def Dispatch_def dispatch_def)

end
