(* ===== verification/Schema.thy ===== *)
theory Schema
  imports Syncer Rpc_Client
begin

text \<open>
  \<open>internal/db/bootstrap.go\<close>, \<open>economy_schema.go\<close> and \<open>readmodel.ValidateSchema\<close>: the schema
  that \<open>sync_state\<close> creates for itself, and the schema that it requires of \<open>structs-pg\<close>.

  The system catalog is the record \<open>catalog\<close>: what \<open>pg_attribute\<close>, \<open>pg_index\<close>, \<open>pg_trigger\<close> and
  the privilege functions answer about the objects the statements name.  A relation that
  does not exist is an error where PostgreSQL raises one (a \<open>regclass\<close> cast, a privilege of a
  named relation) and no row where it does not (\<open>to_regclass\<close>).  An \<open>ix_plain\<close> index has no
  predicate and no expression.

  A \<open>host\<close> is everything a command of the process works on.
\<close>

section \<open>The catalog\<close>

record column =
  co_name :: string
  co_type :: string
  co_modifier :: int
  co_not_null :: bool

record index =
  ix_name :: string
  ix_table :: string
  ix_columns :: "string list"
  ix_unique :: bool
  ix_valid :: bool
  ix_immediate :: bool
  ix_plain :: bool

record trigger =
  tg_schema :: string
  tg_table :: string
  tg_name :: string
  tg_enabled :: char

record catalog =
  ct_schemas :: "string list"
  ct_tables :: "(string, column list) table"
  ct_views :: "(string, column list) table"
  ct_indexes :: "index list"
  ct_triggers :: "trigger list"
  ct_functions :: "string list"
  ct_executable :: "string list"
  ct_sequences :: "string list"
  ct_owned :: "string list"
  ct_grants :: "(string \<times> string) list"
  ct_player_activity :: "int list"
  ct_cache_newest :: "int option option"

definition columns_of :: "catalog \<Rightarrow> string \<Rightarrow> column list option" where
  "columns_of c t = (case tbl_get (ct_tables c) t of None \<Rightarrow> tbl_get (ct_views c) t | Some cols \<Rightarrow> Some cols)"

definition relation_exists :: "catalog \<Rightarrow> string \<Rightarrow> bool" where
  "relation_exists c t \<longleftrightarrow> columns_of c t \<noteq> None"

definition column_of :: "catalog \<Rightarrow> string \<Rightarrow> string \<Rightarrow> column option" where
  "column_of c t name =
     (case columns_of c t of None \<Rightarrow> None | Some cols \<Rightarrow> find (\<lambda>x. co_name x = name) cols)"

text \<open>\<open>information_schema.columns\<close> shows what the user owns or has a privilege on.\<close>

definition visible_columns :: "catalog \<Rightarrow> string \<Rightarrow> string list" where
  "visible_columns c t =
     (if t \<in> set (ct_owned c) \<or> t \<in> fst ` set (ct_grants c)
      then map co_name (case columns_of c t of None \<Rightarrow> [] | Some cols \<Rightarrow> cols) else [])"

definition name_taken :: "catalog \<Rightarrow> string \<Rightarrow> bool" where
  "name_taken c t \<longleftrightarrow> relation_exists c t \<or> t \<in> ix_name ` set (ct_indexes c)"

definition schema_of :: "string \<Rightarrow> string" where
  "schema_of t = takeWhile (\<lambda>ch. ch \<noteq> CHR ''.'') t"

definition pg_error :: "string \<Rightarrow> string \<Rightarrow> goerror" where
  "pg_error code message = GoErr [PgError code] message"

definition has_privilege :: "catalog \<Rightarrow> string \<Rightarrow> string \<Rightarrow> bool" where
  "has_privilege c t p \<longleftrightarrow> t \<in> set (ct_owned c) \<or> (t, p) \<in> set (ct_grants c)"

text \<open>\<open>has_table_privilege\<close>, \<open>has_schema_privilege\<close> and \<open>has_sequence_privilege\<close> of a name.\<close>

definition table_privilege :: "string \<Rightarrow> string \<Rightarrow> catalog \<Rightarrow> bool res" where
  "table_privilege t p c =
     (if relation_exists c t then Inr (has_privilege c t p)
      else Inl (pg_error ''42P01'' (''relation does not exist: '' @ t)))"

definition schema_privilege :: "string \<Rightarrow> catalog \<Rightarrow> bool res" where
  "schema_privilege s c =
     (if s \<in> set (ct_schemas c) then Inr (has_privilege c s ''USAGE'')
      else Inl (pg_error ''3F000'' (''schema does not exist: '' @ s)))"

definition sequence_privilege :: "string \<Rightarrow> catalog \<Rightarrow> bool res" where
  "sequence_privilege s c =
     (if s \<in> set (ct_sequences c) then Inr (has_privilege c s ''USAGE'')
      else Inl (pg_error ''42P01'' (''relation does not exist: '' @ s)))"

section \<open>The process\<close>

text \<open>A row of \<open>sync_state.verification_report\<close>, which only the verify command writes.\<close>

record verification_row =
  vr_run :: string
  vr_scope :: string
  vr_height :: "int option"
  vr_actual :: "string option"
  vr_status :: string

record host =
  ho_service :: service
  ho_catalog :: catalog
  ho_rpc :: rpc_state
  ho_gateway :: nat
  ho_reports :: "verification_row list"

definition at_service :: "(service, 'a) op \<Rightarrow> (host, 'a) op" where
  "at_service m h = (case m (ho_service h) of (r, s) \<Rightarrow> (r, h\<lparr>ho_service := s\<rparr>))"

definition at_rpc :: "(rpc_state, 'a) op \<Rightarrow> (host, 'a) op" where
  "at_rpc m h = (case m (ho_rpc h) of (r, s) \<Rightarrow> (r, h\<lparr>ho_rpc := s\<rparr>))"

text \<open>A statement about the catalog; it fails like any other statement of the pool.\<close>

definition at_catalog :: "(catalog \<Rightarrow> ('a \<times> catalog) res) \<Rightarrow> (host, 'a) op" where
  "at_catalog f h =
     (let s = ho_service h; h1 = h\<lparr>ho_service := s\<lparr>sx_clock := Suc (sx_clock s)\<rparr>\<rparr> in
      case sx_fault s (sx_clock s) of
        Some e \<Rightarrow> (Inl e, h1)
      | None \<Rightarrow>
          (case f (ho_catalog h) of
             Inl e \<Rightarrow> (Inl e, h1)
           | Inr (x, c) \<Rightarrow> (Inr x, h1\<lparr>ho_catalog := c\<rparr>)))"

definition ask :: "(catalog \<Rightarrow> 'a res) \<Rightarrow> (host, 'a) op" where
  "ask g = at_catalog (\<lambda>c. case g c of Inl e \<Rightarrow> Inl e | Inr x \<Rightarrow> Inr (x, c))"

text \<open>\<open>fmt.Errorf\<close> with text on both sides of \<open>%w\<close>.\<close>

definition around :: "string \<Rightarrow> string \<Rightarrow> (host, 'a) op \<Rightarrow> (host, 'a) op" where
  "around before after m h =
     (case m h of
        (Inl e, h') \<Rightarrow> (Inl (GoErr (err_is e) (before @ err_text e @ after)), h')
      | (Inr x, h') \<Rightarrow> (Inr x, h'))"

lemma around_Inr [res_simps]: "around a b m h = (Inr x, h') \<longleftrightarrow> m h = (Inr x, h')"
  by (auto simp: around_def split: prod.splits sum.splits)

section \<open>Bootstrap\<close>

datatype ddl =
    Create_Schema string
  | Create_Table string "column list" "string list"
  | Add_Column string column
  | Create_Index string string "string list" bool
  | Drop_Index string

text \<open>What each statement does; a name that is already taken is left as it is.\<close>

fun run_ddl :: "ddl \<Rightarrow> catalog \<Rightarrow> catalog res" where
  "run_ddl (Create_Schema s) c =
     (if s \<in> set (ct_schemas c) then Inr c
      else Inr (c\<lparr>ct_schemas := ct_schemas c @ [s], ct_owned := ct_owned c @ [s]\<rparr>))"
| "run_ddl (Create_Table t cols pk) c =
     (if schema_of t \<notin> set (ct_schemas c) then Inl (pg_error ''3F000'' (''schema does not exist: '' @ schema_of t))
      else if name_taken c t then Inr c
      else Inr (c\<lparr>ct_tables := tbl_put t cols (ct_tables c), ct_owned := ct_owned c @ [t],
          ct_indexes := ct_indexes c @ (if pk = [] then []
            else [\<lparr>ix_name = t @ ''_pkey'', ix_table = t, ix_columns = pk, ix_unique = True, ix_valid = True,
                   ix_immediate = True, ix_plain = True\<rparr>])\<rparr>))"
| "run_ddl (Add_Column t col) c =
     (case tbl_get (ct_tables c) t of
        None \<Rightarrow> Inl (pg_error ''42P01'' (''relation does not exist: '' @ t))
      | Some cols \<Rightarrow>
          if co_name col \<in> co_name ` set cols then Inr c
          else Inr (c\<lparr>ct_tables := tbl_put t (cols @ [col]) (ct_tables c)\<rparr>))"
| "run_ddl (Create_Index name t cols partial') c =
     (case tbl_get (ct_tables c) t of
        None \<Rightarrow> Inl (pg_error ''42P01'' (''relation does not exist: '' @ t))
      | Some have' \<Rightarrow>
          if name_taken c name then Inr c
          else if \<not> set cols \<subseteq> co_name ` set have' then Inl (pg_error ''42703'' ''column does not exist'')
          else Inr (c\<lparr>ct_indexes := ct_indexes c @
            [\<lparr>ix_name = name, ix_table = t, ix_columns = cols, ix_unique = False, ix_valid = True,
              ix_immediate = True, ix_plain = \<not> partial'\<rparr>]\<rparr>))"
| "run_ddl (Drop_Index name) c =
     (if relation_exists c name then Inl (pg_error ''42809'' (''not an index: '' @ name))
      else Inr (c\<lparr>ct_indexes := filter (\<lambda>i. ix_name i \<noteq> name) (ct_indexes c)\<rparr>))"

definition local_name :: "string \<Rightarrow> string" where
  "local_name t = drop 1 (dropWhile (\<lambda>ch. ch \<noteq> CHR ''.'') t)"

text \<open>The first line of the statement, which the error quotes.\<close>

fun ddl_head :: "ddl \<Rightarrow> string" where
  "ddl_head (Create_Schema s) = ''CREATE SCHEMA IF NOT EXISTS '' @ s"
| "ddl_head (Create_Table t cols pk) = ''CREATE TABLE IF NOT EXISTS '' @ t @ '' (''"
| "ddl_head (Add_Column t col) = ''ALTER TABLE '' @ t"
| "ddl_head (Create_Index name t cols partial') = ''CREATE INDEX IF NOT EXISTS '' @ local_name name"
| "ddl_head (Drop_Index name) = ''DROP INDEX IF EXISTS '' @ name"

definition typed :: "string \<Rightarrow> bool \<Rightarrow> string \<Rightarrow> column" where
  "typed ty not_null name = \<lparr>co_name = name, co_type = ty, co_modifier = - 1, co_not_null = not_null\<rparr>"

abbreviation varchar :: "bool \<Rightarrow> string \<Rightarrow> column" where "varchar \<equiv> typed ''character varying''"
abbreviation bigint :: "bool \<Rightarrow> string \<Rightarrow> column" where "bigint \<equiv> typed ''bigint''"
abbreviation integer' :: "bool \<Rightarrow> string \<Rightarrow> column" where "integer' \<equiv> typed ''integer''"
abbreviation text' :: "bool \<Rightarrow> string \<Rightarrow> column" where "text' \<equiv> typed ''text''"
abbreviation jsonb :: "bool \<Rightarrow> string \<Rightarrow> column" where "jsonb \<equiv> typed ''jsonb''"
abbreviation timestamptz :: "bool \<Rightarrow> string \<Rightarrow> column" where "timestamptz \<equiv> typed ''timestamp with time zone''"

definition sha_column :: column where
  "sha_column = \<lparr>co_name = ''sha256'', co_type = ''character varying'', co_modifier = 68, co_not_null = True\<rparr>"

definition InfusionEventPositionDDL :: ddl where
  "InfusionEventPositionDDL =
     Create_Table ''sync_state.infusion_event_position''
       [varchar True ''destination_id'', varchar True ''address'', bigint True ''height'', integer' True ''tx_index'',
        integer' True ''event_index'', typed ''smallint'' False ''phase'']
       [''destination_id'', ''address'']"

definition bootstrapStatements :: "ddl list" where
  "bootstrapStatements =
     [Create_Schema ''sync_state'',
      Create_Table ''sync_state.sync_cursor''
        [varchar True ''chain_id'', bigint True ''last_height'', varchar False ''last_block_hash'',
         timestamptz False ''last_block_time'', text' False ''status'', bigint False ''lag_blocks'',
         bigint False ''tip_height'', timestamptz True ''updated_at'']
        [''chain_id''],
      Create_Table ''sync_state.handler_error_log''
        [bigint True ''id'', varchar True ''chain_id'', bigint True ''height'', integer' False ''tx_index'',
         integer' False ''msg_index'', integer' False ''event_index'', varchar True ''composite_key'',
         jsonb False ''payload'', text' True ''error'', text' False ''stack'', text' True ''severity'',
         timestamptz True ''created_at'', timestamptz False ''resolved_at'', text' False ''resolved_by'']
        [''id''],
      Add_Column ''sync_state.handler_error_log'' (text' True ''severity''),
      Create_Index ''sync_state.handler_error_log_unresolved_idx'' ''sync_state.handler_error_log''
        [''chain_id'', ''composite_key'', ''created_at''] True,
      Create_Index ''sync_state.handler_error_log_severity_unresolved_idx'' ''sync_state.handler_error_log''
        [''chain_id'', ''severity''] True,
      Create_Table ''sync_state.block_log''
        [varchar True ''chain_id'', bigint True ''height'', varchar True ''block_hash'',
         timestamptz True ''block_time'', integer' True ''num_txs'', integer' True ''num_events'',
         integer' True ''num_handler_errors'', timestamptz True ''ingested_at'']
        [''chain_id'', ''height''],
      Create_Table ''sync_state.verification_report''
        [typed ''uuid'' True ''run_id'', text' True ''scope'', bigint False ''height'', text' False ''composite_key'',
         jsonb False ''expected'', jsonb False ''actual'', text' True ''status'', timestamptz True ''created_at'']
        [],
      Create_Table ''sync_state.raw_blocks''
        [varchar True ''chain_id'', bigint True ''height'', varchar True ''block_hash'',
         timestamptz True ''block_time'', varchar False ''proposer'', integer' True ''num_txs'',
         timestamptz True ''ingested_at'']
        [''chain_id'', ''height''],
      Create_Table ''sync_state.raw_tx_results''
        [varchar True ''chain_id'', bigint True ''height'', integer' True ''tx_index'', varchar True ''tx_hash'',
         integer' True ''code'', bigint False ''gas_used'', text' False ''log'', jsonb True ''raw_json'',
         timestamptz True ''ingested_at'']
        [''chain_id'', ''height'', ''tx_index''],
      Create_Table ''sync_state.raw_events''
        [varchar True ''chain_id'', bigint True ''height'', integer' False ''tx_index'', integer' True ''event_index'',
         varchar True ''event_type'', timestamptz True ''ingested_at'']
        [],
      Create_Index ''sync_state.raw_events_height_idx'' ''sync_state.raw_events'' [''chain_id'', ''height''] False,
      Create_Table ''sync_state.raw_attributes''
        [varchar True ''chain_id'', bigint True ''height'', integer' False ''tx_index'', integer' True ''event_index'',
         varchar True ''key'', text' False ''value'', varchar True ''composite_key'', timestamptz True ''ingested_at'']
        [],
      Create_Index ''sync_state.raw_attributes_height_idx'' ''sync_state.raw_attributes'' [''chain_id'', ''height''] False,
      Create_Index ''sync_state.raw_attributes_composite_key_idx'' ''sync_state.raw_attributes''
        [''composite_key'', ''height''] False,
      Create_Table ''sync_state.unknown_event_log''
        [varchar True ''chain_id'', varchar True ''composite_key'', bigint True ''count'',
         bigint True ''first_seen_height'', bigint True ''last_seen_height'', timestamptz True ''first_seen_at'',
         timestamptz True ''last_seen_at'', jsonb False ''last_payload'']
        [''chain_id'', ''composite_key''],
      Drop_Index ''sync_state.unknown_event_log_count_idx'',
      Create_Table ''sync_state.genesis_log''
        [varchar True ''chain_id'', timestamptz True ''applied_at'', text' True ''source'',
         timestamptz True ''genesis_time'', sha_column, jsonb True ''rows_per_section'', bigint True ''total_rows'']
        [''chain_id''],
      InfusionEventPositionDDL]"

definition run_statement :: "ddl \<Rightarrow> (host, unit) op" where
  "run_statement d =
     around ''bootstrap: '' (CHR 0x0A # ''SQL: '' @ ddl_head d)
       (at_catalog (\<lambda>c. case run_ddl d c of Inl e \<Rightarrow> Inl e | Inr c' \<Rightarrow> Inr ((), c')))"

definition Bootstrap :: "(host, unit) op" where
  "Bootstrap = forO bootstrapStatements run_statement"

section \<open>The economy schema\<close>

definition flag :: "(catalog \<Rightarrow> bool res) \<Rightarrow> string \<Rightarrow> (host, unit) op" where
  "flag g message = bindO (ask g) (\<lambda>ok. guardO ok (errorf message))"

definition economy_columns :: "(string \<times> string \<times> string) list" where
  "economy_columns =
     [(''sync_state.economy_contract'', ''contract'', ''text''),
      (''sync_state.economy_contract'', ''activation_height'', ''bigint''),
      (''sync_state.economy_contract'', ''last_height'', ''bigint''),
      (''sync_state.economy_contract'', ''last_block_hash'', ''text''),
      (''structs.defusion'', ''block_height'', ''bigint''),
      (''structs.defusion'', ''retired_height'', ''bigint''),
      (''structs.defusion_current'', ''pending_state'', ''text''),
      (''sync_state.native_staking_snapshot'', ''receipts_pending'', ''boolean''),
      (''sync_state.native_staking_snapshot'', ''positions_complete'', ''boolean''),
      (''sync_state.native_staking_position'', ''bonded'', ''numeric''),
      (''sync_state.native_staking_position'', ''unbonding'', ''numeric''),
      (''sync_state.native_staking_position'', ''unbonding_entries'', ''integer''),
      (''sync_state.native_staking_position_state'', ''complete'', ''boolean''),
      (''structs.api_refresh_state'', ''inventory_authority'', ''text''),
      (''structs.vault'', ''owner_id'', ''character varying''),
      (''structs.vault'', ''address'', ''character varying''),
      (''structs.vault'', ''account_number'', ''numeric''),
      (''structs.vault'', ''account_created'', ''boolean''),
      (''structs.asset_owner'', ''owner_id'', ''character varying''),
      (''structs.asset_owner'', ''is_vault'', ''boolean''),
      (''structs.infusion'', ''owner_id'', ''character varying''),
      (''structs.infusion'', ''generator_disabled'', ''boolean''),
      (''structs.substation'', ''deletion_pending'', ''boolean''),
      (''structs.substation'', ''deletion_migration_substation_id'', ''character varying''),
      (''structs.guild'', ''rank_purchase_base_price'', ''numeric''),
      (''structs.guild'', ''rank_purchase_step_increase'', ''numeric''),
      (''structs.guild'', ''rank_purchase_minimum_rank'', ''numeric''),
      (''structs.guild'', ''join_by_rank_purchase_enabled'', ''boolean''),
      (''structs.guild'', ''bank_convert_in_fee'', ''numeric''),
      (''structs.guild'', ''bank_convert_out_fee'', ''numeric''),
      (''structs.guild'', ''charter_solver_id'', ''character varying''),
      (''structs.player'', ''guild_rank'', ''numeric''),
      (''structs.struct_attribute'', ''val'', ''numeric''),
      (''structs.planet_attribute'', ''val'', ''numeric''),
      (''structs.struct_type'', ''build_difficulty'', ''numeric''),
      (''structs.struct_type'', ''ore_mining_difficulty'', ''numeric''),
      (''structs.struct_type'', ''ore_refining_difficulty'', ''numeric''),
      (''structs.api_work'', ''block_start'', ''numeric''),
      (''structs.api_work'', ''difficulty_target'', ''numeric''),
      (''structs.guild'', ''entry_rank'', ''numeric''),
      (''structs.permission_guild_rank'', ''rank'', ''numeric''),
      (''structs.owner_reactor_diversity'', ''power'', ''numeric''),
      (''structs.owner_reactor_diversity'', ''squared_power'', ''numeric''),
      (''structs.owner_reactor_diversity'', ''applied_bonus'', ''numeric''),
      (''structs.reactor_commission_revision'', ''slash_revision'', ''numeric''),
      (''structs.reactor_commission_revision'', ''reconciled_slash_revision'', ''numeric''),
      (''structs.reactor_stake_cap'', ''active'', ''boolean''),
      (''structs.reactor_stake_cap'', ''cap_bps'', ''numeric''),
      (''structs.reactor_stake_cap'', ''min_validators'', ''numeric''),
      (''sync_state.infusion_event_position'', ''phase'', ''smallint''),
      (''sync_state.economy_event_position'', ''phase'', ''smallint''),
      (''sync_state.economy_event_position'', ''height'', ''bigint''),
      (''sync_state.economy_event_position'', ''tx_index'', ''integer''),
      (''sync_state.economy_event_position'', ''event_index'', ''integer''),
      (''sync_state.native_staking_snapshot'', ''required_height'', ''bigint''),
      (''sync_state.native_staking_snapshot'', ''source_height'', ''bigint''),
      (''sync_state.native_staking_snapshot'', ''bonded'', ''numeric''),
      (''sync_state.native_staking_snapshot'', ''unbonding'', ''numeric''),
      (''sync_state.native_staking_snapshot'', ''pending'', ''boolean''),
      (''sync_state.native_staking_claim'', ''complete'', ''boolean'')]"

definition economy_keys :: "(string \<times> string list) list" where
  "economy_keys =
     [(''sync_state.economy_contract'', [''chain_id'']),
      (''structs.defusion'', [''chain_id'', ''block_height'', ''tx_index'', ''event_index'', ''denom'']),
      (''structs.vault'', [''owner_id'']),
      (''structs.vault'', [''address'']),
      (''structs.owner_reactor_diversity'', [''owner_id'']),
      (''structs.reactor_commission_revision'', [''reactor_id'']),
      (''structs.reactor_stake_cap'', [''singleton'']),
      (''sync_state.infusion_event_position'', [''destination_id'', ''address'']),
      (''sync_state.economy_event_position'', [''family'', ''entity_id'']),
      (''sync_state.native_staking_snapshot'', [''chain_id'', ''address'']),
      (''sync_state.native_staking_position'', [''chain_id'', ''address'', ''validator'']),
      (''sync_state.native_staking_exposure'', [''chain_id'', ''validator'', ''address'']),
      (''sync_state.native_staking_invalidation'', [''chain_id'', ''validator'']),
      (''structs.ledger'', [''time'', ''chain_id'', ''tx_index'', ''msg_index'', ''event_index'', ''denom''])]"

definition privileges_of :: "string \<Rightarrow> string list" where
  "privileges_of t =
     (if t = ''structs.ledger'' then [''SELECT'', ''INSERT'']
      else if t = ''structs.defusion'' \<or> t = ''sync_state.economy_contract'' then [''SELECT'', ''INSERT'', ''UPDATE'']
      else [''SELECT'', ''INSERT'', ''UPDATE'', ''DELETE''])"

definition maintenance_sources :: "string list" where
  "maintenance_sources =
     [''sync_state.sync_cursor'', ''sync_state.native_staking_claim'', ''structs.infusion'', ''structs.current_block'',
      ''structs.struct'', ''structs.planet'', ''view.work_live'']"

definition column_type :: "string \<Rightarrow> string \<Rightarrow> catalog \<Rightarrow> (string \<times> int) res" where
  "column_type t name c =
     (case column_of c t name of None \<Rightarrow> Inl no_rows | Some col \<Rightarrow> Inr (co_type col, co_modifier col))"

definition usable_key :: "string \<Rightarrow> string list \<Rightarrow> catalog \<Rightarrow> bool" where
  "usable_key t cols c \<longleftrightarrow>
     relation_exists c t \<and>
     list_ex (\<lambda>i. ix_table i = t \<and> ix_columns i = cols \<and> ix_unique i \<and> ix_valid i \<and> ix_immediate i \<and> ix_plain i)
       (ct_indexes c)"

definition executable :: "string \<Rightarrow> catalog \<Rightarrow> bool" where
  "executable f c \<longleftrightarrow> f \<in> set (ct_executable c)"

text \<open>A missing column makes the conjunction null unless an earlier part is false; null cannot be
  scanned.\<close>

definition claim_functions :: "string list" where
  "claim_functions =
     [''structs.api_inventory_expected(boolean)'', ''structs.api_inventory_current_claims(character varying[])'',
      ''structs.api_inventory_address_expected(character varying[],boolean)'']"

definition claims_ready :: "catalog \<Rightarrow> bool res" where
  "claims_ready c =
     (if \<not> relation_exists c ''structs.api_inventory'' then Inl (pg_error ''42P01'' ''relation does not exist'')
      else if \<not> list_all (\<lambda>f. executable f c) claim_functions then Inr False
      else case column_of c ''structs.api_inventory'' ''balance'' of
        None \<Rightarrow> Inl (errorf ''cannot scan NULL into *bool'')
      | Some col \<Rightarrow> Inr (\<not> co_not_null col))"

definition legacy_ledger_key :: "catalog \<Rightarrow> bool res" where
  "legacy_ledger_key c =
     (if \<not> relation_exists c ''structs.ledger'' then Inl (pg_error ''42P01'' ''relation does not exist'')
      else Inr (list_ex (\<lambda>i. ix_table i = ''structs.ledger'' \<and> ix_unique i \<and> ix_valid i \<and>
        ix_columns i = [''time'', ''chain_id'', ''tx_index'', ''msg_index'', ''event_index'']) (ct_indexes c)))"

definition check_column :: "string \<times> string \<times> string \<Rightarrow> (host, unit) op" where
  "check_column tct =
     (case tct of (t, name, need) \<Rightarrow>
        bindO (around (''v0.22 schema '' @ t @ ''.'' @ name @ '': '') ''; deploy the structs-pg Sqitch prerequisites''
          (ask (column_type t name))) (\<lambda>(ty, modifier).
        guardO (\<not> (ty \<noteq> need \<or> (ty = ''numeric'' \<and> modifier \<noteq> - 1)))
          (errorf (''v0.22 schema '' @ t @ ''.'' @ name @ '': need '' @ need @ '' without numeric coercion, got ''
             @ ty @ '' typmod='' @ dec_int modifier))))"

definition check_key :: "string \<times> string list \<Rightarrow> (host, unit) op" where
  "check_key tk =
     (case tk of (t, cols) \<Rightarrow>
        bindO (wrapO (''v0.22 schema unique key '' @ t @ '': '') (ask (\<lambda>c. Inr (usable_key t cols c)))) (\<lambda>valid.
        bindO (guardO valid (errorf (''v0.22 schema missing usable unique key '' @ t))) (\<lambda>_.
        forO (privileges_of t) (\<lambda>p. flag (table_privilege t p) (''v0.22 schema missing '' @ p @ '' on '' @ t)))))"

definition CheckEconomySchema :: "(host, unit) op" where
  "CheckEconomySchema =
     bindO (forO [''structs'', ''sync_state'', ''view''] (\<lambda>s.
       flag (schema_privilege s) (''v0.22 schema missing USAGE on '' @ s))) (\<lambda>_.
     bindO (forO economy_columns check_column) (\<lambda>_.
     bindO (forO economy_keys check_key) (\<lambda>_.
     bindO (flag (table_privilege ''structs.asset_owner'' ''SELECT'') ''v0.22 schema missing SELECT on structs.asset_owner'') (\<lambda>_.
     bindO (flag (\<lambda>c. Inr (executable ''structs.api_projection_boundary()'' c))
       ''v0.22 schema missing executable structs.api_projection_boundary(); deploy the ownership maintenance migration'') (\<lambda>_.
     bindO (forO maintenance_sources (\<lambda>t.
       flag (table_privilege t ''SELECT'') (''v0.22 maintenance missing SELECT on '' @ t))) (\<lambda>_.
     bindO (flag claims_ready
       ''v0.22 current-claim inventory contract missing; deploy the Sqitch current-claims migration'') (\<lambda>_.
     bindO (flag (sequence_privilege ''structs.ledger_id_seq'') ''v0.22 writer missing USAGE on structs.ledger_id_seq'') (\<lambda>_.
     bindO (ask legacy_ledger_key) (\<lambda>legacy.
     guardO (\<not> legacy)
       (errorf ''legacy ledger uniqueness still rejects additional denominations; finish the paired Sqitch/writer switch''))))))))))"

section \<open>The projection schema\<close>

definition apiProjectionTables :: "string list" where
  "apiProjectionTables =
     [''api_refresh_state'', ''api_inventory'', ''api_guild_bank'', ''api_leaderboard_player'', ''api_leaderboard_guild'',
      ''api_leaderboard_reactor'', ''api_leaderboard_provider'', ''api_leaderboard_substation'', ''api_work'']"

definition in_structs :: "string \<Rightarrow> string" where
  "in_structs t = ''structs.'' @ t"

definition missing_projections :: "catalog \<Rightarrow> string list" where
  "missing_projections c = filter (\<lambda>t. \<not> name_taken c (in_structs t)) apiProjectionTables"

definition identity_columns :: "string list" where
  "identity_columns = [''chain_id'', ''tx_index'', ''msg_index'', ''event_index'']"

definition ident_count :: "catalog \<Rightarrow> nat" where
  "ident_count c =
     length (filter (\<lambda>name. name \<in> set identity_columns) (visible_columns c ''structs.ledger''))"

definition ValidateSchema :: "(host, unit) op" where
  "ValidateSchema =
     bindO (wrapO ''validate api projection schema: '' (ask (Inr \<circ> missing_projections))) (\<lambda>missing.
     bindO (guardO (missing = []) (errorf ''structs-pg API projection migrations are incomplete'')) (\<lambda>_.
     bindO (wrapO ''validate ledger identity columns: '' (ask (Inr \<circ> ident_count))) (\<lambda>n.
     bindO (guardO (n = 4) (errorf ''structs-pg ledger source-event identity is incomplete'')) (\<lambda>_.
     bindO (wrapO ''validate planet_activity_player: ''
       (ask (\<lambda>c. Inr (name_taken c ''structs.planet_activity_player'')))) (\<lambda>present.
     bindO (guardO present (errorf ''structs-pg planet_activity_player is missing'')) (\<lambda>_.
     bindO (wrapO ''validate api_work_refresh: '' (ask (\<lambda>c. Inr (''structs.api_work_refresh'' \<in> set (ct_functions c))))) (\<lambda>work.
     guardO work (errorf ''structs.api_work_refresh is missing''))))))))"

section \<open>Examples\<close>

definition empty_catalog :: catalog where
  "empty_catalog =
     \<lparr>ct_schemas = [], ct_tables = [], ct_views = [], ct_indexes = [], ct_triggers = [], ct_functions = [],
      ct_executable = [], ct_sequences = [], ct_owned = [], ct_grants = [], ct_player_activity = [],
      ct_cache_newest = None\<rparr>"

definition example_host :: "(nat \<Rightarrow> goerror option) \<Rightarrow> catalog \<Rightarrow> tables \<Rightarrow> host" where
  "example_host fault c d =
     \<lparr>ho_service = \<lparr>sx_db = d, sx_unknowns = no_unknowns, sx_stale = False, sx_clock = 0, sx_fault = fault\<rparr>,
      ho_catalog = c, ho_rpc = \<lparr>rs_client = NewClient [] 0, rs_tick = 0\<rparr>, ho_gateway = 0, ho_reports = []\<rparr>"

definition deployed :: "string list \<Rightarrow> catalog" where
  "deployed ts = empty_catalog\<lparr>ct_tables := map (\<lambda>t. (t, [])) ts\<rparr>"

end
