(* ===== verification/Schema_Facts.thy ===== *)
theory Schema_Facts
  imports Schema
begin

text \<open>
  The bootstrap is idempotent and may be interrupted anywhere; the schema checks change nothing
  and accept only catalogs that meet the contract.
\<close>

section \<open>Frames\<close>

definition untouched :: "host \<Rightarrow> host \<Rightarrow> bool" where
  "untouched h h' \<longleftrightarrow> ho_catalog h' = ho_catalog h \<and> sx_db (ho_service h') = sx_db (ho_service h)"

interpretation untouched: preorder_op untouched
  by unfold_locales (auto simp: untouched_def)

lemma at_catalog_Inr [res_simps]:
  "at_catalog f h = (Inr x, h') \<longleftrightarrow>
     (\<exists>c. f (ho_catalog h) = Inr (x, c) \<and> sx_fault (ho_service h) (sx_clock (ho_service h)) = None \<and>
        h' = h\<lparr>ho_service := (ho_service h)\<lparr>sx_clock := Suc (sx_clock (ho_service h))\<rparr>, ho_catalog := c\<rparr>)"
  by (auto simp: at_catalog_def Let_def split: option.splits sum.splits)

lemma at_catalog_Inl: "at_catalog f h = (Inl e, h') \<Longrightarrow> untouched h h'"
  by (auto simp: at_catalog_def Let_def untouched_def split: option.splits sum.splits)

lemma ask_untouched: "keeps untouched (ask g)"
  by (auto simp: keeps_def ask_def at_catalog_def Let_def untouched_def split: option.splits sum.splits)

lemma ask_Inr: "ask g h = (Inr x, h') \<Longrightarrow> g (ho_catalog h) = Inr x \<and> untouched h h'"
  by (auto simp: ask_def res_simps untouched_def split: sum.splits)

lemma around_untouched: "keeps untouched m \<Longrightarrow> keeps untouched (around a b m)"
  by (auto simp: keeps_def around_def split: prod.splits sum.splits) (metis snd_conv)+

lemma flag_Inr: "flag g msg h = (Inr u, h') \<Longrightarrow> g (ho_catalog h) = Inr True \<and> untouched h h'"
  by (auto simp: flag_def res_simps split: if_splits dest!: ask_Inr)

lemma untouched_catalog: "untouched h h' \<Longrightarrow> ho_catalog h' = ho_catalog h"
  by (simp add: untouched_def)

lemma untouched_trans: "untouched h h1 \<Longrightarrow> untouched h1 h2 \<Longrightarrow> untouched h h2"
  by (auto simp: untouched_def)

text \<open>A loop of checks: each holds of the catalog it started from.\<close>

lemma for_checks:
  assumes "\<And>x h h'. f x h = (Inr (), h') \<Longrightarrow> P x (ho_catalog h) \<and> untouched h h'"
    and "forO xs f h = (Inr (), h')"
  shows "(\<forall>x \<in> set xs. P x (ho_catalog h)) \<and> untouched h h'"
  using assms(2)
proof (induction xs arbitrary: h)
  case Nil
  then show ?case by (simp add: returnO_def untouched_def)
next
  case (Cons x xs)
  then obtain h1 where one: "f x h = (Inr (), h1)" and rest: "forO xs f h1 = (Inr (), h')"
    by (auto simp: bindO_Inr)
  from assms(1) [OF one] Cons.IH [OF rest] show ?case
    by (auto simp: untouched_def)
qed

lemma for_flags:
  assumes "forO xs (\<lambda>x. flag (g x) (msg x)) h = (Inr (), h')"
  shows "(\<forall>x \<in> set xs. g x (ho_catalog h) = Inr True) \<and> untouched h h'"
  by (rule for_checks [OF _ assms]) (rule flag_Inr)

section \<open>Bootstrap\<close>

fun adds :: "ddl \<Rightarrow> string list" where
  "adds (Create_Table t cols pk) = [t, t @ ''_pkey'']"
| "adds (Create_Index name t cols partial') = [name]"
| "adds _ = []"

fun drops :: "ddl \<Rightarrow> string list" where
  "drops (Drop_Index name) = [name]"
| "drops _ = []"

definition undoes :: "ddl \<Rightarrow> ddl \<Rightarrow> bool" where
  "undoes d' d \<longleftrightarrow> set (adds d') \<inter> set (drops d) \<noteq> {} \<or> set (drops d') \<inter> set (adds d) \<noteq> {}"

definition settled :: "catalog \<Rightarrow> ddl \<Rightarrow> bool" where
  "settled c d \<longleftrightarrow> run_ddl d c = Inr c"

lemma changed_catalog [simp]:
  "c\<lparr>ct_schemas := s, ct_owned := ct_owned c @ [x]\<rparr> \<noteq> c"
  "c\<lparr>ct_tables := t, ct_owned := ct_owned c @ [x], ct_indexes := i\<rparr> \<noteq> c"
  "c\<lparr>ct_indexes := ct_indexes c @ [j]\<rparr> \<noteq> c"
proof -
  have "ct_owned (c\<lparr>ct_schemas := s, ct_owned := ct_owned c @ [x]\<rparr>) \<noteq> ct_owned c"
    "ct_owned (c\<lparr>ct_tables := t, ct_owned := ct_owned c @ [x], ct_indexes := i\<rparr>) \<noteq> ct_owned c"
    "ct_indexes (c\<lparr>ct_indexes := ct_indexes c @ [j]\<rparr>) \<noteq> ct_indexes c" by simp_all
  then show "c\<lparr>ct_schemas := s, ct_owned := ct_owned c @ [x]\<rparr> \<noteq> c"
    "c\<lparr>ct_tables := t, ct_owned := ct_owned c @ [x], ct_indexes := i\<rparr> \<noteq> c"
    "c\<lparr>ct_indexes := ct_indexes c @ [j]\<rparr> \<noteq> c" by metis+
qed

lemma tables_changed: "c\<lparr>ct_tables := t\<rparr> = c \<longleftrightarrow> t = ct_tables c"
  by (cases c) simp

lemma indexes_changed: "c\<lparr>ct_indexes := i\<rparr> = c \<longleftrightarrow> i = ct_indexes c"
  by (cases c) simp

lemma settled_iff:
  "settled c (Create_Schema s) \<longleftrightarrow> s \<in> set (ct_schemas c)"
  "settled c (Create_Table t cols pk) \<longleftrightarrow> schema_of t \<in> set (ct_schemas c) \<and> name_taken c t"
  "settled c (Add_Column t col) \<longleftrightarrow>
     (\<exists>cols. tbl_get (ct_tables c) t = Some cols \<and> co_name col \<in> co_name ` set cols)"
  "settled c (Create_Index name t ks p) \<longleftrightarrow> tbl_get (ct_tables c) t \<noteq> None \<and> name_taken c name"
  "settled c (Drop_Index name) \<longleftrightarrow> \<not> name_taken c name"
proof -
  have "tbl_put t (cols @ [col]) (ct_tables c) \<noteq> ct_tables c" if "tbl_get (ct_tables c) t = Some cols" for cols
  proof
    assume "tbl_put t (cols @ [col]) (ct_tables c) = ct_tables c"
    then have "tbl_get (tbl_put t (cols @ [col]) (ct_tables c)) t = Some cols" using that by simp
    then show False by simp
  qed
  then show "settled c (Add_Column t col) \<longleftrightarrow>
     (\<exists>cols. tbl_get (ct_tables c) t = Some cols \<and> co_name col \<in> co_name ` set cols)"
    by (auto simp: settled_def tables_changed split: option.splits)
  show "settled c (Drop_Index name) \<longleftrightarrow> \<not> name_taken c name"
    by (auto simp: settled_def name_taken_def indexes_changed filter_id_conv)
qed (auto simp: settled_def split: option.splits)

text \<open>What a statement can do to the names of a catalog.\<close>

lemma run_ddl_names:
  assumes "run_ddl d c = Inr c'"
  shows "set (ct_schemas c) \<subseteq> set (ct_schemas c')"
    "name_taken c t \<Longrightarrow> t \<notin> set (drops d) \<Longrightarrow> name_taken c' t"
    "name_taken c' t \<Longrightarrow> t \<notin> set (adds d) \<Longrightarrow> name_taken c t"
    "tbl_get (ct_tables c) t = Some cols \<Longrightarrow> \<exists>new. tbl_get (ct_tables c') t = Some (cols @ new)"
  using assms
  by (cases d; auto simp: name_taken_def relation_exists_def columns_of_def split: if_splits option.splits; fail)+

lemma run_ddl_settles: "run_ddl d c = Inr c' \<Longrightarrow> settled c' d"
  by (cases d) (auto simp: settled_iff name_taken_def relation_exists_def columns_of_def split: if_splits option.splits)

lemma settled_kept:
  assumes "settled c d" "run_ddl d' c = Inr c'" "\<not> undoes d' d"
  shows "settled c' d"
proof (cases d)
  case (Add_Column t col)
  with assms(1) run_ddl_names(4) [OF assms(2), of t] show ?thesis by (fastforce simp: settled_iff)
next
  case (Create_Index name t cols p)
  with assms(1) obtain have' where "tbl_get (ct_tables c) t = Some have'" by (auto simp: settled_iff)
  with Create_Index assms(1,3) run_ddl_names(2) [OF assms(2), of name] run_ddl_names(4) [OF assms(2), of t have']
  show ?thesis by (auto simp: settled_iff undoes_def)
next
  case (Create_Table t cols pk)
  with assms(1,3) run_ddl_names(1,2) [OF assms(2)] show ?thesis by (auto simp: settled_iff undoes_def)
next
  case (Create_Schema s)
  with assms(1) run_ddl_names(1) [OF assms(2)] show ?thesis by (auto simp: settled_iff)
next
  case (Drop_Index name)
  with assms(1,3) run_ddl_names(3) [OF assms(2), of name] show ?thesis by (auto simp: settled_iff undoes_def)
qed

text \<open>A list of statements on the catalog alone.\<close>

definition run_all :: "ddl list \<Rightarrow> catalog \<Rightarrow> catalog res" where
  "run_all ds c = foldR (\<lambda>c d. run_ddl d c) c ds"

definition no_undoing :: "ddl list \<Rightarrow> bool" where
  "no_undoing ds \<longleftrightarrow> list_all (\<lambda>d. list_all (\<lambda>d'. \<not> undoes d' d) ds) ds"

lemma run_all_simps [simp]:
  "run_all [] c = Inr c" "run_all (d # ds) c = bindR (run_ddl d c) (run_all ds)"
  by (simp_all add: run_all_def [abs_def])

lemma run_all_append: "run_all (ds @ es) c = bindR (run_all ds c) (run_all es)"
  by (simp add: run_all_def [abs_def] foldR_append)

lemma run_all_keeps:
  assumes "run_all es c = Inr c'" "settled c d" "\<forall>e \<in> set es. \<not> undoes e d"
  shows "settled c' d"
  using assms
proof (induction es arbitrary: c)
  case (Cons e es)
  then obtain c1 where "run_ddl e c = Inr c1" "run_all es c1 = Inr c'" by (auto simp: res_simps)
  with Cons settled_kept show ?case by (metis list.set_intros(1,2))
qed simp

lemma run_all_settles:
  assumes "run_all es c = Inr c'" "set es \<subseteq> set ds" "no_undoing ds"
  shows "\<forall>d \<in> set es. settled c' d"
  using assms
proof (induction es arbitrary: c)
  case (Cons e es)
  then obtain c1 where one: "run_ddl e c = Inr c1" and rest: "run_all es c1 = Inr c'" by (auto simp: res_simps)
  have "\<forall>x \<in> set es. \<not> undoes x e" using Cons.prems(2,3) by (auto simp: no_undoing_def list_all_iff)
  from run_all_keeps [OF rest run_ddl_settles [OF one] this] Cons.IH [OF rest] Cons.prems(2,3) show ?case by auto
qed simp

lemma run_all_settled: "\<forall>d \<in> set ds. settled c d \<Longrightarrow> run_all ds c = Inr c"
  by (induction ds) (auto simp: settled_def)

lemma run_all_extends:
  "run_all ds c = Inr c' \<Longrightarrow> tbl_get (ct_tables c) t = Some cols \<Longrightarrow>
     \<exists>new. tbl_get (ct_tables c') t = Some (cols @ new)"
proof (induction ds arbitrary: c cols)
  case (Cons d ds)
  then obtain c1 where one: "run_ddl d c = Inr c1" and rest: "run_all ds c1 = Inr c'" by (auto simp: res_simps)
  from run_ddl_names(4) [OF one Cons.prems(2)] Cons.IH [OF rest] show ?case by fastforce
qed simp

lemma run_statement_Inr: "run_statement d h = (Inr u, h') \<Longrightarrow>
    run_ddl d (ho_catalog h) = Inr (ho_catalog h') \<and> sx_db (ho_service h') = sx_db (ho_service h)"
  by (auto simp: run_statement_def res_simps split: sum.splits)

lemma run_statement_Inl: "run_statement d h = (Inl e, h') \<Longrightarrow> untouched h h'"
  by (auto simp: run_statement_def around_def split: prod.splits sum.splits dest: at_catalog_Inl)

lemma statements_run:
  assumes "forO ds run_statement h = (r, h')"
  shows "\<exists>done' rest. ds = done' @ rest \<and> run_all done' (ho_catalog h) = Inr (ho_catalog h') \<and>
    sx_db (ho_service h') = sx_db (ho_service h) \<and> (r = Inr () \<longrightarrow> rest = [])"
  using assms
proof (induction ds arbitrary: h)
  case Nil
  then show ?case by (auto simp: returnO_def)
next
  case (Cons d ds)
  obtain q h1 where one: "run_statement d h = (q, h1)" by force
  show ?case
  proof (cases q)
    case (Inl e)
    with Cons.prems one run_statement_Inl [of d h e h1] show ?thesis
      by (intro exI [of _ "[]"] exI [of _ "d # ds"]) (auto simp: untouched_def)
  next
    case (Inr u)
    with one Cons.prems have rest: "forO ds run_statement h1 = (r, h')" by simp
    from run_statement_Inr [of d h u h1] one Inr have
      "run_ddl d (ho_catalog h) = Inr (ho_catalog h1)" "sx_db (ho_service h1) = sx_db (ho_service h)" by auto
    moreover from Cons.IH [OF rest] obtain done' left' where "ds = done' @ left'"
      "run_all done' (ho_catalog h1) = Inr (ho_catalog h')" "sx_db (ho_service h') = sx_db (ho_service h1)"
      "r = Inr () \<longrightarrow> left' = []" by blast
    ultimately show ?thesis by (intro exI [of _ "d # done'"] exI [of _ left']) simp
  qed
qed

lemma bootstrap_no_undoing: "no_undoing bootstrapStatements"
  by code_simp

text \<open>Without a fault the statements succeed as soon as they do on the catalog alone.\<close>

lemma statements_succeed:
  assumes "sx_fault (ho_service h) = (\<lambda>_. None)" "run_all ds (ho_catalog h) = Inr c"
  shows "\<exists>h'. forO ds run_statement h = (Inr (), h') \<and> ho_catalog h' = c"
  using assms
proof (induction ds arbitrary: h)
  case Nil
  then show ?case by (simp add: returnO_def)
next
  case (Cons d ds)
  then obtain c1 where one: "run_ddl d (ho_catalog h) = Inr c1" and rest: "run_all ds c1 = Inr c"
    by (auto simp: res_simps)
  let ?h1 = "h\<lparr>ho_service := (ho_service h)\<lparr>sx_clock := Suc (sx_clock (ho_service h))\<rparr>, ho_catalog := c1\<rparr>"
  have "run_statement d h = (Inr (), ?h1)"
    using Cons.prems(1) one by (simp add: run_statement_def around_def at_catalog_def Let_def)
  with Cons.IH [of ?h1] Cons.prems(1) rest show ?case by simp
qed

text \<open>C15: The bootstrap may be interrupted anywhere and repeated.  Whatever fails, it changes the
  catalog only and keeps every existing table and its columns.  Where an undisturbed run would have
  succeeded, a second run from the point of interruption succeeds and leaves exactly the catalog
  of the undisturbed one, and a further run, however it fares, changes nothing.\<close>

theorem bootstrap_resumes:
  assumes first: "Bootstrap h = (r, h1)"
    and undisturbed: "ho_catalog g = ho_catalog h" "Bootstrap g = (Inr (), g')"
    and again: "ho_catalog h2 = ho_catalog h1" "sx_fault (ho_service h2) = (\<lambda>_. None)"
  shows "\<exists>h3. Bootstrap h2 = (Inr (), h3) \<and> ho_catalog h3 = ho_catalog g' \<and>
    sx_db (ho_service h1) = sx_db (ho_service h) \<and>
    (\<forall>t cols. tbl_get (ct_tables (ho_catalog h)) t = Some cols \<longrightarrow>
       (\<exists>new. tbl_get (ct_tables (ho_catalog h1)) t = Some (cols @ new))) \<and>
    (\<forall>k. ho_catalog k = ho_catalog h3 \<longrightarrow> ho_catalog (snd (Bootstrap k)) = ho_catalog h3)"
proof -
  let ?ds = bootstrapStatements
  from statements_run [OF first [unfolded Bootstrap_def]] obtain done' rest where
    split: "?ds = done' @ rest" and part: "run_all done' (ho_catalog h) = Inr (ho_catalog h1)"
    and db: "sx_db (ho_service h1) = sx_db (ho_service h)" by blast
  from statements_run [OF undisturbed(2) [unfolded Bootstrap_def]] undisturbed(1)
  have ref: "run_all ?ds (ho_catalog h) = Inr (ho_catalog g')" by auto
  have "\<forall>d \<in> set done'. settled (ho_catalog h1) d"
    by (rule run_all_settles [OF part _ bootstrap_no_undoing]) (simp add: split)
  from run_all_settled [OF this] have full: "run_all ?ds (ho_catalog h1) = Inr (ho_catalog g')"
    using ref part by (simp add: split run_all_append)
  from statements_succeed [OF again(2), of ?ds] full obtain h3 where
    h3: "Bootstrap h2 = (Inr (), h3)" "ho_catalog h3 = ho_catalog g'"
    by (auto simp: Bootstrap_def again(1))
  have all: "\<forall>d \<in> set ?ds. settled (ho_catalog h3) d"
    by (rule run_all_settles [OF full [folded h3(2)] _ bootstrap_no_undoing]) simp
  have fixed: "ho_catalog (snd (Bootstrap k)) = ho_catalog h3" if "ho_catalog k = ho_catalog h3" for k
  proof -
    obtain q k' where run: "Bootstrap k = (q, k')" by force
    from statements_run [OF run [unfolded Bootstrap_def]] obtain d1 d2 where
      "?ds = d1 @ d2" "run_all d1 (ho_catalog k) = Inr (ho_catalog k')" by blast
    moreover from this(1) all have "\<forall>d \<in> set d1. settled (ho_catalog h3) d" by (metis Un_iff set_append)
    ultimately show ?thesis using run_all_settled [of d1 "ho_catalog h3"] that run by simp
  qed
  show ?thesis using h3 db fixed run_all_extends [OF part] by blast
qed

definition connection_lost :: goerror where
  "connection_lost = GoErr [PgError ''57P01''] ''terminating connection''"

definition cut_off :: host where
  "cut_off = example_host (\<lambda>n. if n = 7 then Some connection_lost else None) empty_catalog empty_tables"

definition undisturbed_host :: host where
  "undisturbed_host = example_host (\<lambda>_. None) empty_catalog empty_tables"

definition resumed_host :: host where
  "resumed_host = example_host (\<lambda>_. None) (ho_catalog (snd (Bootstrap cut_off))) empty_tables"

text \<open>What the bootstrap leaves of an empty database.\<close>

definition booted :: catalog where
  "booted = (case run_all bootstrapStatements empty_catalog of Inr c \<Rightarrow> c | Inl e \<Rightarrow> empty_catalog)"

definition booted_tables :: "string list" where
  "booted_tables =
     [''sync_state.sync_cursor'', ''sync_state.handler_error_log'', ''sync_state.block_log'', ''sync_state.verification_report'',
      ''sync_state.raw_blocks'', ''sync_state.raw_tx_results'', ''sync_state.raw_events'', ''sync_state.raw_attributes'',
      ''sync_state.unknown_event_log'', ''sync_state.genesis_log'', ''sync_state.infusion_event_position'']"

definition booted_ok :: "catalog \<Rightarrow> bool" where
  "booted_ok c \<longleftrightarrow> map fst (ct_tables c) = booted_tables \<and> ct_schemas c = [''sync_state''] \<and> ct_views c = [] \<and>
     ct_owned c = ''sync_state'' # booted_tables \<and> ct_grants c = [] \<and>
     column_type ''sync_state.infusion_event_position'' ''phase'' c = Inr (''smallint'', - 1) \<and>
     list_all (\<lambda>i. ix_table i \<in> set booted_tables) (ct_indexes c)"

lemma booted_facts: "booted_ok booted"
  by code_simp

lemma booted: "run_all bootstrapStatements empty_catalog = Inr booted"
proof (cases "run_all bootstrapStatements empty_catalog")
  case (Inl e)
  then have "booted = empty_catalog" by (simp add: booted_def)
  with booted_facts show ?thesis by (simp add: booted_ok_def empty_catalog_def)
qed (simp add: booted_def)


lemma undisturbed_run: "Bootstrap undisturbed_host = (Inr (), snd (Bootstrap undisturbed_host))"
proof -
  have "run_all bootstrapStatements (ho_catalog undisturbed_host) = Inr booted"
    using booted by (simp add: undisturbed_host_def example_host_def)
  from statements_succeed [OF _ this] show ?thesis
    by (auto simp: Bootstrap_def undisturbed_host_def example_host_def)
qed

theorem bootstrap_resumes_witness:
  "\<exists>h. Bootstrap resumed_host = (Inr (), h) \<and> ho_catalog h = ho_catalog (snd (Bootstrap undisturbed_host))"
proof -
  have "ho_catalog undisturbed_host = ho_catalog cut_off" "ho_catalog resumed_host = ho_catalog (snd (Bootstrap cut_off))"
    "sx_fault (ho_service resumed_host) = (\<lambda>_. None)"
    by (simp_all add: undisturbed_host_def cut_off_def resumed_host_def example_host_def)
  from bootstrap_resumes [OF prod.collapse [symmetric, of "Bootstrap cut_off"] this(1) undisturbed_run this(2,3)]
  show ?thesis by blast
qed

section \<open>The contract\<close>

definition column_ok :: "string \<times> string \<times> string \<Rightarrow> catalog \<Rightarrow> bool" where
  "column_ok tct c \<longleftrightarrow>
     (case tct of (t, name, need) \<Rightarrow> \<exists>col. column_of c t name = Some col \<and> co_type col = need \<and>
        (need = ''numeric'' \<longrightarrow> co_modifier col = - 1))"

definition key_ok :: "string \<times> string list \<Rightarrow> catalog \<Rightarrow> bool" where
  "key_ok tk c \<longleftrightarrow>
     (case tk of (t, cols) \<Rightarrow> usable_key t cols c \<and>
        (\<forall>p \<in> set (privileges_of t). table_privilege t p c = Inr True))"

definition economy_contract :: "catalog \<Rightarrow> bool" where
  "economy_contract c \<longleftrightarrow>
     (\<forall>s \<in> {''structs'', ''sync_state'', ''view''}. schema_privilege s c = Inr True) \<and>
     (\<forall>tct \<in> set economy_columns. column_ok tct c) \<and> (\<forall>tk \<in> set economy_keys. key_ok tk c) \<and>
     (\<forall>t \<in> insert ''structs.asset_owner'' (set maintenance_sources). table_privilege t ''SELECT'' c = Inr True) \<and>
     executable ''structs.api_projection_boundary()'' c \<and> claims_ready c = Inr True \<and>
     sequence_privilege ''structs.ledger_id_seq'' c = Inr True \<and> legacy_ledger_key c = Inr False"

lemma check_column_Inr:
  assumes "check_column tct h = (Inr (), h')"
  shows "column_ok tct (ho_catalog h) \<and> untouched h h'"
  using assms
  by (cases tct) (auto simp: column_ok_def check_column_def res_simps column_type_def split: if_splits option.splits dest!: ask_Inr)

lemma check_key_Inr:
  assumes "check_key tk h = (Inr (), h')"
  shows "key_ok tk (ho_catalog h) \<and> untouched h h'"
proof (cases tk)
  case (Pair t cols)
  with assms obtain h1 where "usable_key t cols (ho_catalog h)" "untouched h h1"
    and rest: "forO (privileges_of t) (\<lambda>p. flag (table_privilege t p) (''v0.22 schema missing '' @ p @ '' on '' @ t)) h1 = (Inr (), h')"
    by (auto simp: check_key_def res_simps split: if_splits dest!: ask_Inr)
  moreover from rest have "(\<forall>p \<in> set (privileges_of t). table_privilege t p (ho_catalog h1) = Inr True) \<and> untouched h1 h'"
    by (rule for_flags)
  ultimately show ?thesis using Pair by (auto simp: key_ok_def untouched_def)
qed

lemma economy_schema_checked:
  assumes "CheckEconomySchema h = (Inr (), h')"
  shows "economy_contract (ho_catalog h) \<and> untouched h h'"
proof -
  from assms obtain h1 h2 h3 h4 h5 h6 h7 h8 h9 where
    s1: "forO [''structs'', ''sync_state'', ''view''] (\<lambda>s.
       flag (schema_privilege s) (''v0.22 schema missing USAGE on '' @ s)) h = (Inr (), h1)"
    and s2: "forO economy_columns check_column h1 = (Inr (), h2)"
    and s3: "forO economy_keys check_key h2 = (Inr (), h3)"
    and s4: "flag (table_privilege ''structs.asset_owner'' ''SELECT'') ''v0.22 schema missing SELECT on structs.asset_owner'' h3 = (Inr (), h4)"
    and s5: "flag (\<lambda>c. Inr (executable ''structs.api_projection_boundary()'' c))
       ''v0.22 schema missing executable structs.api_projection_boundary(); deploy the ownership maintenance migration'' h4 = (Inr (), h5)"
    and s6: "forO maintenance_sources (\<lambda>t.
       flag (table_privilege t ''SELECT'') (''v0.22 maintenance missing SELECT on '' @ t)) h5 = (Inr (), h6)"
    and s7: "flag claims_ready
       ''v0.22 current-claim inventory contract missing; deploy the Sqitch current-claims migration'' h6 = (Inr (), h7)"
    and s8: "flag (sequence_privilege ''structs.ledger_id_seq'') ''v0.22 writer missing USAGE on structs.ledger_id_seq'' h7 = (Inr (), h8)"
    and s9: "ask legacy_ledger_key h8 = (Inr False, h9)" "h' = h9"
    unfolding CheckEconomySchema_def by (auto simp: bindO_Inr guardO_case split: if_splits)
  note t1 = for_flags [OF s1] and t2 = for_checks [where P = column_ok, OF check_column_Inr s2]
    and t3 = for_checks [where P = key_ok, OF check_key_Inr s3] and t4 = flag_Inr [OF s4] and t5 = flag_Inr [OF s5]
    and t6 = for_flags [OF s6] and t7 = flag_Inr [OF s7] and t8 = flag_Inr [OF s8]
    and t9 = ask_Inr [OF s9(1)]
  have same: "ho_catalog h1 = ho_catalog h" "ho_catalog h2 = ho_catalog h" "ho_catalog h3 = ho_catalog h"
    "ho_catalog h4 = ho_catalog h" "ho_catalog h5 = ho_catalog h" "ho_catalog h6 = ho_catalog h"
    "ho_catalog h7 = ho_catalog h" "ho_catalog h8 = ho_catalog h"
    using t1 t2 t3 t4 t5 t6 t7 t8 by (auto simp: untouched_def)
  have "untouched h h'" using t1 t2 t3 t4 t5 t6 t7 t8 t9 s9(2) by (auto simp: untouched_def)
  moreover have "economy_contract (ho_catalog h)"
    unfolding economy_contract_def
    using t1 t2 t3 t4 t5 t6 t7 t8 t9 by (simp add: same)
  ultimately show ?thesis by simp
qed

end
