(* ===== verification/Verify.thy ===== *)
theory Verify
  imports Schema Genesis Backfill
begin

text \<open>
  \<open>internal/verify\<close> (\<open>verify.go\<close>, \<open>checks.go\<close>, \<open>receipts.go\<close>, \<open>subcmd.go\<close>): the data-quality
  checks, the report they leave and the exit code.

  A result carries its name, status, height and counts; the detail text and the times are left out.
  Four things the queries read are not in the tables of this model and are fields of
  \<open>verify_inputs\<close>: the view \<open>native_staking_claim\<close>, the generated column \<open>pending\<close>, the function
  \<open>api_inventory_address_expected\<close> for all addresses, and the number of rows without a height that
  older software left in a table (every row of the model carries one).
\<close>

section \<open>Results\<close>

datatype verify_status = PASS | FAIL | INFO | SKIP

record check_result =
  cr_name :: string
  cr_status :: verify_status
  cr_height :: "int option"
  cr_counts :: "(string \<times> json) list"

definition status_text :: "verify_status \<Rightarrow> string" where
  "status_text s = (case s of PASS \<Rightarrow> ''PASS'' | FAIL \<Rightarrow> ''FAIL'' | INFO \<Rightarrow> ''INFO'' | SKIP \<Rightarrow> ''SKIP'')"

definition result :: "verify_status \<Rightarrow> int option \<Rightarrow> (string \<times> json) list \<Rightarrow> check_result" where
  "result s height counts = \<lparr>cr_name = [], cr_status = s, cr_height = height, cr_counts = counts\<rparr>"

abbreviation bare :: "verify_status \<Rightarrow> check_result" where
  "bare s \<equiv> result s None []"

definition num :: "string \<Rightarrow> int \<Rightarrow> string \<times> json" where
  "num k v = (k, JNum (dec_int v))"

definition text_count :: "string \<Rightarrow> string \<Rightarrow> string \<times> json" where
  "text_count k v = (k, jstr v)"

record verify_inputs =
  vi_rpc :: "rpc_env option"
  vi_chain :: string
  vi_lag_warn :: int
  vi_mirror_raw :: bool
  vi_views :: projections
  vi_claim :: "tables \<Rightarrow> string \<times> string \<Rightarrow> (bool \<times> int option) option"
  vi_pending :: "native_row \<Rightarrow> bool"
  vi_address_expected :: "tables \<Rightarrow> (string \<times> string \<times> int option) list"
  vi_null_heights :: "string \<Rightarrow> nat"

type_synonym verify_check = "verify_inputs \<Rightarrow> host \<Rightarrow> check_result \<times> host"

text \<open>A query of the pool and what follows; an error of it fails the check.\<close>

definition querying :: "(tables \<Rightarrow> 'a) \<Rightarrow> ('a \<Rightarrow> host \<Rightarrow> check_result \<times> host) \<Rightarrow> host \<Rightarrow> check_result \<times> host" where
  "querying g k h =
     (case at_service (pool_query g) h of
        (Inl e, h1) \<Rightarrow> (bare FAIL, h1)
      | (Inr x, h1) \<Rightarrow> k x h1)"

definition concluded :: "check_result \<Rightarrow> host \<Rightarrow> check_result \<times> host" where
  "concluded r h = (r, h)"

text \<open>\<open>tableExists\<close> and \<open>columnExists\<close> take an error for absence.\<close>

definition tableExists :: "string \<Rightarrow> host \<Rightarrow> bool \<times> host" where
  "tableExists t h =
     (case ask (\<lambda>c. Inr (tbl_get (ct_tables c) t \<noteq> None)) h of (r, h1) \<Rightarrow> (r = Inr True, h1))"

definition columnExists :: "string \<Rightarrow> string \<Rightarrow> host \<Rightarrow> bool \<times> host" where
  "columnExists t col h =
     (case ask (\<lambda>c. Inr (col \<in> set (visible_columns c t))) h of (r, h1) \<Rightarrow> (r = Inr True, h1))"

section \<open>Cursor, block log and errors\<close>

definition cursor_lag :: "cursor \<Rightarrow> status_result \<Rightarrow> int" where
  "cursor_lag c st = (if Latest st - c_height c < 0 then 0 else Latest st - c_height c)"

definition checkCursorVsTip :: verify_check where
  "checkCursorVsTip vi h =
     (case vi_rpc vi of
        None \<Rightarrow> (bare SKIP, h)
      | Some ev \<Rightarrow>
          querying (ReadCursor (vi_chain vi)) (\<lambda>c h1.
            case at_rpc (Status ev) h1 of
              (Inl e, h2) \<Rightarrow> (bare FAIL, h2)
            | (Inr st, h2) \<Rightarrow>
                (result (if ss_catching_up st then INFO else if vi_lag_warn vi < cursor_lag c st then FAIL else PASS)
                   (Some (c_height c))
                   [num ''cursor_height'' (c_height c), num ''rpc_tip'' (Latest st), num ''lag'' (cursor_lag c st),
                    (''catching_up'', JBool (ss_catching_up st)), text_count ''persisted_status'' (c_status c)], h2)) h)"

definition logged_heights :: "string \<Rightarrow> tables \<Rightarrow> int list" where
  "logged_heights chain d = map (\<lambda>((c, h), r). h) (filter (\<lambda>((c, h), r). c = chain) (sy_block_log (db_sync d)))"

definition checkBlockLogCoverage :: verify_check where
  "checkBlockLogCoverage vi =
     querying (logged_heights (vi_chain vi)) (\<lambda>hs.
       if hs = [] then concluded (result INFO None [num ''rows'' 0])
       else
         let low = Min (set hs); high = Max (set hs); rows = int (length hs); gap = high - low + 1 - rows in
         concluded (result (if 0 < gap then FAIL else PASS) (Some high)
           [num ''min_height'' low, num ''max_height'' high, num ''rows'' rows, num ''missing_blocks'' gap]))"

definition error_groups :: "string \<Rightarrow> tables \<Rightarrow> ((string \<times> string) \<times> nat) list" where
  "error_groups chain d =
     (let ks = map (\<lambda>r. (er_key r, severity_of r)) (filter (unresolved chain) (map snd (sy_errors (db_sync d)))) in
      map (\<lambda>k. (k, length (filter (\<lambda>x. x = k) ks))) (remdups ks))"

definition group_total :: "(string \<Rightarrow> bool) \<Rightarrow> ((string \<times> string) \<times> nat) list \<Rightarrow> nat" where
  "group_total P groups = sum_list (map snd (filter (\<lambda>((k, sev), n). P sev) groups))"

text \<open>A Go map keeps the last value assigned to a key.\<close>

definition go_map :: "(string \<times> 'v) list \<Rightarrow> (string \<times> 'v) list" where
  "go_map kvs = map (\<lambda>k. (k, the (map_of (rev kvs) k))) (remdups (map fst kvs))"

definition checkHandlerErrorsUnresolved :: verify_check where
  "checkHandlerErrorsUnresolved vi =
     querying (error_groups (vi_chain vi)) (\<lambda>groups.
       let errors = group_total (\<lambda>sev. sev \<noteq> ''warn'') groups; warns = group_total (\<lambda>sev. sev = ''warn'') groups in
       concluded (result (if 0 < errors then FAIL else if 0 < warns then INFO else PASS) None
         (go_map (map (\<lambda>((k, sev), n). num (k @ '':'' @ sev) (int n)) groups
            @ [num ''_error_total'' (int errors), num ''_warn_total'' (int warns)]))))"

section \<open>Activities, heights and the raw mirror\<close>

definition seq_keys :: "tables \<Rightarrow> (string \<times> int) list" where
  "seq_keys d = map (\<lambda>(s, r). (ar_planet r, s)) (db_activity d)"

definition repeated :: "'a list \<Rightarrow> ('a \<times> nat) list" where
  "repeated xs = filter (\<lambda>(x, n). 1 < n) (map (\<lambda>x. (x, length (filter (\<lambda>y. y = x) xs))) (remdups xs))"

definition dup_counts :: "tables \<Rightarrow> nat \<times> nat" where
  "dup_counts d =
     (let dups = repeated (seq_keys d) in (length (remdups (map (fst \<circ> fst) dups)), sum_list (map snd dups)))"

definition sequence_counter :: "tables \<Rightarrow> string \<Rightarrow> int" where
  "sequence_counter d p = (case tbl_get (db_sequence d) p of None \<Rightarrow> 0 | Some n \<Rightarrow> n)"

definition lagging_planets :: "tables \<Rightarrow> string list" where
  "lagging_planets d =
     filter (\<lambda>p. sequence_counter d p < Max (snd ` set (filter (\<lambda>k. fst k = p) (seq_keys d))))
       (remdups (map fst (seq_keys d)))"

definition checkPlanetActivitySeqCorruption :: verify_check where
  "checkPlanetActivitySeqCorruption vi h =
     (case tableExists ''structs.planet_activity'' h of
        (False, h1) \<Rightarrow> (bare SKIP, h1)
      | (True, h1) \<Rightarrow>
          (case tableExists ''structs.planet_activity_sequence'' h1 of
             (False, h2) \<Rightarrow> (bare SKIP, h2)
           | (True, h2) \<Rightarrow>
               querying dup_counts (\<lambda>(planets, rows).
               querying lagging_planets (\<lambda>lagging.
                 concluded (result (if 0 < planets \<or> lagging \<noteq> [] then FAIL else PASS) None
                   [num ''duplicate_planets'' (int planets), num ''duplicate_rows'' (int rows),
                    num ''counter_lag_planets'' (int (length lagging))]))) h2))"

definition statTables :: "string list" where
  "statTables =
     [''stat_ore'', ''stat_fuel'', ''stat_capacity'', ''stat_load'', ''stat_structs_load'', ''stat_power'',
      ''stat_connection_capacity'', ''stat_connection_count'', ''stat_struct_health'', ''stat_struct_status'']"

definition blockHeightTables :: "string list" where
  "blockHeightTables = ''planet_activity'' # statTables"

text \<open>The count of one table: the entry, and the number of rows without a height.\<close>

definition null_height_count :: "verify_inputs \<Rightarrow> string \<Rightarrow> host \<Rightarrow> ((string \<times> json) \<times> nat) \<times> host" where
  "null_height_count vi t h =
     (case tableExists (in_structs t) h of
        (False, h1) \<Rightarrow> ((text_count t ''missing'', 0), h1)
      | (True, h1) \<Rightarrow>
          (case columnExists (in_structs t) ''block_height'' h1 of
             (False, h2) \<Rightarrow> ((text_count t ''no_block_height_column'', 0), h2)
           | (True, h2) \<Rightarrow>
               (case at_service (pool_query (\<lambda>d. vi_null_heights vi t)) h2 of
                  (Inl e, h3) \<Rightarrow> ((text_count t (''err: '' @ err_text e), 0), h3)
                | (Inr n, h3) \<Rightarrow> ((num t (int n), n), h3))))"

fun each_table :: "(string \<Rightarrow> host \<Rightarrow> 'a \<times> host) \<Rightarrow> string list \<Rightarrow> host \<Rightarrow> 'a list \<times> host" where
  "each_table f [] h = ([], h)"
| "each_table f (t # ts) h =
     (case f t h of (x, h1) \<Rightarrow> (case each_table f ts h1 of (xs, h2) \<Rightarrow> (x # xs, h2)))"

definition checkBlockHeightNulls :: verify_check where
  "checkBlockHeightNulls vi h =
     (case each_table (null_height_count vi) blockHeightTables h of
        (xs, h1) \<Rightarrow> (result (if list_all (\<lambda>x. snd x = 0) xs then PASS else INFO) None (map fst xs), h1))"

definition raw_block_count :: "string \<Rightarrow> tables \<Rightarrow> nat" where
  "raw_block_count chain d = length (filter (\<lambda>((c, h), r). c = chain) (sy_raw_blocks (db_sync d)))"

definition checkRawMirrorCoverage :: verify_check where
  "checkRawMirrorCoverage vi =
     (if \<not> vi_mirror_raw vi then concluded (bare SKIP)
      else
        querying (raw_block_count (vi_chain vi)) (\<lambda>raw.
        querying (\<lambda>d. length (logged_heights (vi_chain vi) d)) (\<lambda>logged.
          concluded (result (if raw = logged then PASS else if raw < logged then FAIL else INFO) None
            [num ''raw_blocks'' (int raw), num ''block_log'' (int logged), num ''diff'' (int logged - int raw)]))))"

section \<open>Genesis and the current block\<close>

definition genesis_counts :: "genesis_row \<Rightarrow> json \<Rightarrow> (string \<times> json) list" where
  "genesis_counts row ledger =
     [text_count ''source'' (gn_source row), text_count ''sha256'' (gn_sha256 row), num ''total_rows'' (gn_total row),
      (''rows_per_section'', json_map (map (\<lambda>(k, n). num k n) (gn_sections row))), (''ledger_genesis_rows'', ledger)]"

definition genesis_ledger_count :: "tables \<Rightarrow> nat" where
  "genesis_ledger_count d = length (filter (\<lambda>r. lr_action r = ''genesis'') (db_ledger d))"

definition finalizeGenesisCheck :: "genesis_row \<Rightarrow> host \<Rightarrow> check_result \<times> host" where
  "finalizeGenesisCheck row h =
     (case tableExists ''structs.ledger'' h of
        (False, h1) \<Rightarrow> (result INFO None (genesis_counts row (jstr ''n/a (structs.ledger not deployed)'')), h1)
      | (True, h1) \<Rightarrow>
          (case at_service (pool_query genesis_ledger_count) h1 of
             (Inl e, h2) \<Rightarrow> (result FAIL None (genesis_counts row (jstr (''error: '' @ err_text e))), h2)
           | (Inr n, h2) \<Rightarrow>
               (result (if int n = gn_total row then PASS else FAIL) None
                  (genesis_counts row (JNum (dec_int (int n)))), h2)))"

definition checkGenesisLoaded :: verify_check where
  "checkGenesisLoaded vi h =
     (case at_service (ReadGenesisLog (vi_chain vi)) h of
        (Inl e, h1) \<Rightarrow> (bare FAIL, h1)
      | (Inr row, h1) \<Rightarrow>
          (case at_service (pool_query (ReadCursor (vi_chain vi))) h1 of
             (Inl e, h2) \<Rightarrow> (case row of Some g \<Rightarrow> finalizeGenesisCheck g h2 | None \<Rightarrow> (bare INFO, h2))
           | (Inr c, h2) \<Rightarrow>
               (case row of
                  Some g \<Rightarrow> finalizeGenesisCheck g h2
                | None \<Rightarrow> (bare (if c_height c \<le> 0 then INFO else FAIL), h2))))"

definition checkCurrentBlockStatus :: verify_check where
  "checkCurrentBlockStatus vi h =
     (case tableExists ''structs.current_block'' h of
        (False, h1) \<Rightarrow> (bare SKIP, h1)
      | (True, h1) \<Rightarrow>
          querying (\<lambda>d. tbl_get (sy_current_block (db_sync d)) (vi_chain vi)) (\<lambda>row.
            case row of
              None \<Rightarrow> concluded (bare INFO)
            | Some b \<Rightarrow>
                concluded (result
                  (if cb_status b = StatusCurrent \<and> cb_lag b \<le> vi_lag_warn vi then PASS
                   else if cb_status b = [] then INFO
                   else if vi_lag_warn vi < cb_lag b then FAIL else INFO) (Some (cb_height b))
                  [num ''height'' (cb_height b), text_count ''status'' (cb_status b), num ''lag'' (cb_lag b),
                   num ''tip'' (cb_tip b)])) h1)"

section \<open>Order and balances\<close>

text \<open>\<open>LAG\<close> over a partition: how often the height falls against the row before.\<close>

fun falls :: "int list \<Rightarrow> nat" where
  "falls (a # b # hs) = (if b < a then 1 else 0) + falls (b # hs)"
| "falls _ = 0"

definition inversions :: "('r \<Rightarrow> 'p) \<Rightarrow> ('r \<Rightarrow> int \<times> int) \<Rightarrow> ('r \<Rightarrow> int) \<Rightarrow> 'r list \<Rightarrow> nat" where
  "inversions part order height rows =
     sum_list (map (\<lambda>p. falls (map height (sort_key order (filter (\<lambda>r. part r = p) rows)))) (remdups (map part rows)))"

definition stat_part :: "string \<Rightarrow> stat_row \<Rightarrow> string option \<times> int" where
  "stat_part t r =
     (if t \<in> {''stat_structs_load'', ''stat_connection_capacity'', ''stat_connection_count'', ''stat_struct_health'',
              ''stat_struct_status''} then (None, sr_object_index r) else (sr_object_type r, sr_object_index r))"

definition orderedTimeseries :: "string list" where
  "orderedTimeseries = ''ledger'' # ''planet_activity'' # statTables"

definition table_inversions :: "string \<Rightarrow> tables \<Rightarrow> nat" where
  "table_inversions t d =
     (if t = ''ledger'' then inversions (\<lambda>r. (lr_address r, lr_denom r)) (\<lambda>r. (lr_time r, lr_height r)) lr_height (db_ledger d)
      else if t = ''planet_activity'' then
        inversions (\<lambda>x. ar_planet (snd x)) (\<lambda>x. (ar_time (snd x), fst x)) (\<lambda>x. ar_height (snd x)) (db_activity d)
      else inversions (stat_part t) (\<lambda>r. (sr_time r, sr_height r)) sr_height
        (case tbl_get (db_stats d) t of None \<Rightarrow> [] | Some rows \<Rightarrow> rows))"

fun inversion_scan :: "string list \<Rightarrow> (string \<times> json) list \<Rightarrow> nat \<Rightarrow> host \<Rightarrow> check_result \<times> host" where
  "inversion_scan [] counts acc h =
     (result (if 0 < acc then FAIL else PASS) None (counts @ [num ''total_inversions'' (int acc)]), h)"
| "inversion_scan (t # ts) counts acc h =
     (case tableExists (in_structs t) h of
        (False, h1) \<Rightarrow> inversion_scan ts counts acc h1
      | (True, h1) \<Rightarrow>
          (case columnExists (in_structs t) ''block_height'' h1 of
             (False, h2) \<Rightarrow> inversion_scan ts counts acc h2
           | (True, h2) \<Rightarrow>
               (case at_service (pool_query (table_inversions t)) h2 of
                  (Inl e, h3) \<Rightarrow> (result FAIL None counts, h3)
                | (Inr n, h3) \<Rightarrow>
                    inversion_scan ts (if 0 < n then counts @ [num (t @ ''_inversions'') (int n)] else counts) (acc + n) h3)))"

definition checkOrderedTimeseriesMonotonic :: verify_check where
  "checkOrderedTimeseriesMonotonic vi = inversion_scan orderedTimeseries [] 0"

definition net_balance :: "tables \<Rightarrow> string \<times> string \<Rightarrow> int" where
  "net_balance d k = sum_list (map amount_value (filter (\<lambda>r. (lr_address r, lr_denom r) = k) (db_ledger d)))"

definition negative_balances :: "tables \<Rightarrow> nat" where
  "negative_balances d =
     length (filter (\<lambda>k. net_balance d k < 0) (remdups (map (\<lambda>r. (lr_address r, lr_denom r)) (db_ledger d))))"

definition checkLedgerBalanceSanity :: verify_check where
  "checkLedgerBalanceSanity vi h =
     (case tableExists ''structs.ledger'' h of
        (False, h1) \<Rightarrow> (bare SKIP, h1)
      | (True, h1) \<Rightarrow>
          querying negative_balances (\<lambda>n.
            concluded (result (if 0 < n then FAIL else PASS) None [num ''negative_balances'' (int n)])) h1)"

section \<open>The API projections\<close>

definition except_all :: "'a list \<Rightarrow> 'a list \<Rightarrow> nat" where
  "except_all xs ys = length (remdups (filter (\<lambda>x. x \<notin> set ys) xs)) + length (remdups (filter (\<lambda>y. y \<notin> set xs) ys))"

definition counted_models :: "tables \<Rightarrow> refresh_row list" where
  "counted_models d =
     map snd (filter (\<lambda>(m, r). m \<in> set modelNames \<and> (m \<noteq> ''inventory'' \<or> rs_authority r = ''current-claims-v1''))
       (ap_refresh (db_api d)))"

definition refresh_counts :: "cursor \<Rightarrow> tables \<Rightarrow> nat \<times> nat" where
  "refresh_counts c d =
     (let rows = counted_models d in
      (length rows, length (filter (\<lambda>r. rs_height r \<noteq> c_height c \<or> rs_time r \<noteq> Some (pg_timestamp (c_time c))) rows)))"

definition unknown_counts :: "tables \<Rightarrow> nat \<times> nat" where
  "unknown_counts d =
     (length (remdups (map (\<lambda>((ty, i, den), b). i)
        (filter (\<lambda>((ty, i, den), b). ty = ''address'' \<and> b = None) (inventory_of d)))),
      length (filter (\<lambda>(i, r). pb_alpha_value r = None) (ap_player (db_api d))))"

definition address_differences :: "verify_inputs \<Rightarrow> tables \<Rightarrow> nat" where
  "address_differences vi d =
     except_all (vi_address_expected vi d)
       (map (\<lambda>((ty, i, den), b). (i, den, b)) (filter (\<lambda>((ty, i, den), b). ty = ''address'') (inventory_of d)))"

definition owner_type :: "string \<Rightarrow> bool" where
  "owner_type ty \<longleftrightarrow> ty = ''player'' \<or> ty = ''guild''"

definition owner_differences :: "verify_inputs \<Rightarrow> tables \<Rightarrow> nat" where
  "owner_differences vi d =
     except_all (filter (\<lambda>(ty, i, den, b). owner_type ty) (pj_expected (vi_views vi) d))
       (map (\<lambda>((ty, i, den), b). (ty, i, den, b)) (filter (\<lambda>((ty, i, den), b). owner_type ty) (inventory_of d)))"

text \<open>The total of a denomination over some rows: none without a row, null when a balance is.\<close>

definition denom_total :: "(string \<times> int option) list \<Rightarrow> string \<Rightarrow> int option option" where
  "denom_total rows den =
     (let bs = map snd (filter (\<lambda>r. fst r = den) rows) in
      if bs = [] then None else Some (if None \<in> set bs then None else Some (sum_list (map the bs))))"

definition inventory_rows :: "(string \<Rightarrow> string \<Rightarrow> bool) \<Rightarrow> tables \<Rightarrow> (string \<times> int option) list" where
  "inventory_rows P d = map (\<lambda>((ty, i, den), b). (den, b)) (filter (\<lambda>((ty, i, den), b). P ty i) (inventory_of d))"

definition or_nothing :: "int option option \<Rightarrow> int option" where
  "or_nothing t = (case t of None \<Rightarrow> Some 0 | Some b \<Rightarrow> b)"

definition total_differs :: "int option option \<Rightarrow> int option option \<Rightarrow> int option option \<Rightarrow> bool" where
  "total_differs a p u \<longleftrightarrow>
     (case a of None \<Rightarrow> None | Some b \<Rightarrow> b) \<noteq>
     (case (or_nothing p, or_nothing u) of (Some x, Some y) \<Rightarrow> Some (x + y) | _ \<Rightarrow> None)"

definition total_differences :: "verify_inputs \<Rightarrow> tables \<Rightarrow> nat" where
  "total_differences vi d =
     (let owned = map fst (pj_owners (vi_views vi) d);
          addresses = inventory_rows (\<lambda>ty i. ty = ''address'') d;
          owners = inventory_rows (\<lambda>ty i. owner_type ty) d;
          loose = inventory_rows (\<lambda>ty i. ty = ''address'' \<and> i \<notin> set owned) d in
      length (filter (\<lambda>den. total_differs (denom_total addresses den) (denom_total owners den) (denom_total loose den))
        (remdups (map fst (addresses @ owners @ loose)))))"

definition orphans_of :: "(string, 'r) table \<Rightarrow> (string, 'b) table \<Rightarrow> nat" where
  "orphans_of board base = length (filter (\<lambda>(i, r). tbl_get base i = None) board)"

definition orphan_rows :: "tables \<Rightarrow> nat" where
  "orphan_rows d =
     (let a = db_api d in
      orphans_of (ap_player a) (db_player d) + orphans_of (ap_guild a) (db_guild d)
      + orphans_of (ap_reactor a) (db_reactor d) + orphans_of (ap_provider a) (db_provider d)
      + orphans_of (ap_substation a) (db_substation d) + orphans_of (ap_guild_bank a) (db_guild d))"

text \<open>The subqueries for collateral and supply are those that fill the table.\<close>

definition bank_differences :: "tables \<Rightarrow> nat" where
  "bank_differences d =
     except_all (map (\<lambda>(g, r). (g, token_denom g, guild_collateral g d, guild_supply g d)) (db_guild d))
       (map (\<lambda>(g, b). (g, gb_denom b, gb_collateral b, gb_supply b)) (ap_guild_bank (db_api d)))"

definition player_differs :: "projections \<Rightarrow> tables \<Rightarrow> string \<Rightarrow> player_board_row \<Rightarrow> player_row \<Rightarrow> bool" where
  "player_differs P d i a p \<longleftrightarrow>
     pb_username a \<noteq> pl_username p \<or> pb_guild_id a \<noteq> pl_guild_id p \<or>
     pb_alpha_balance a \<noteq> coalesce0 (Option.bind (tbl_get (inventory_of d) (''player'', i, ''ualpha'')) id) \<or>
     pb_alpha_value a \<noteq> alpha_value P d i"

definition bank_row :: "tables \<Rightarrow> string \<Rightarrow> guild_bank_row option" where
  "bank_row d g =
     (case tbl_get (ap_guild_bank (db_api d)) g of
        None \<Rightarrow> None | Some b \<Rightarrow> if gb_denom b = token_denom g then Some b else None)"

definition guild_differs :: "tables \<Rightarrow> string \<Rightarrow> guild_board_row \<Rightarrow> guild_row \<Rightarrow> bool" where
  "guild_differs d g a r \<longleftrightarrow>
     bg_player_count a \<noteq> length (filter (\<lambda>(i, p). pl_guild_id p = Some g) (db_player d)) \<or>
     bg_collateral a \<noteq> Option.bind (bank_row d g) gb_collateral \<or> bg_supply a \<noteq> Option.bind (bank_row d g) gb_supply"

definition infusion_sum :: "(infusion_row \<Rightarrow> 64 word) \<Rightarrow> tables \<Rightarrow> string \<Rightarrow> int" where
  "infusion_sum f d i =
     sum_list (map (\<lambda>(k, x). int (unat (f x)))
       (filter (\<lambda>((dest, a), x). dest = i \<and> in_destination_type x = ''reactor'') (db_infusion d)))"

definition reactor_differs :: "tables \<Rightarrow> string \<Rightarrow> int \<times> int \<Rightarrow> reactor_row \<Rightarrow> bool" where
  "reactor_differs d i a r \<longleftrightarrow> fst a \<noteq> infusion_sum in_fuel d i \<or> snd a \<noteq> infusion_sum in_power d i"

definition provider_differs :: "tables \<Rightarrow> string \<Rightarrow> provider_board_row \<Rightarrow> provider_row \<Rightarrow> bool" where
  "provider_differs d i a p \<longleftrightarrow>
     bp_owner a \<noteq> pv_owner p \<or> bp_rate_amount a \<noteq> pv_rate_amount p \<or> bp_rate_denom a \<noteq> pv_rate_denom p \<or>
     bp_agreements a \<noteq> length (filter (\<lambda>(k, ag). ag_provider_id ag = Some i) (db_agreement d))"

definition substation_differs :: "tables \<Rightarrow> string \<Rightarrow> substation_board_row \<Rightarrow> substation_row \<Rightarrow> bool" where
  "substation_differs d i a s \<longleftrightarrow>
     bs_player_count a \<noteq> length (filter (\<lambda>(k, p). pl_substation_id p = Some i) (db_player d)) \<or>
     bs_shared_capacity a \<noteq> grid_metric d i ''connectionCapacity''"

definition differing :: "(string \<Rightarrow> 'r \<Rightarrow> 'b \<Rightarrow> bool) \<Rightarrow> (string, 'r) table \<Rightarrow> (string, 'b) table \<Rightarrow> nat" where
  "differing differs board base =
     length (filter (\<lambda>(i, a). case tbl_get base i of None \<Rightarrow> False | Some b \<Rightarrow> differs i a b) board)"

definition board_differences :: "projections \<Rightarrow> tables \<Rightarrow> nat" where
  "board_differences P d =
     (let a = db_api d in
      differing (player_differs P d) (ap_player a) (db_player d) + differing (guild_differs d) (ap_guild a) (db_guild d)
      + differing (reactor_differs d) (ap_reactor a) (db_reactor d) + differing (provider_differs d) (ap_provider a) (db_provider d)
      + differing (substation_differs d) (ap_substation a) (db_substation d))"

definition checkAPIReadModelsSnapshot :: verify_check where
  "checkAPIReadModelsSnapshot vi h =
     (case tableExists ''structs.api_refresh_state'' h of
        (False, h1) \<Rightarrow> (bare SKIP, h1)
      | (True, h1) \<Rightarrow>
          querying (ReadCursor (vi_chain vi)) (\<lambda>c.
          querying (refresh_counts c) (\<lambda>(models, stale).
          querying unknown_counts (\<lambda>(unknown_addresses, unknown_players).
          querying (address_differences vi) (\<lambda>addresses.
          querying (owner_differences vi) (\<lambda>owners.
          querying (total_differences vi) (\<lambda>totals.
          querying orphan_rows (\<lambda>orphans.
          querying bank_differences (\<lambda>banks.
          querying (board_differences (vi_views vi)) (\<lambda>boards.
            concluded (result
              (if models \<noteq> 8 \<or> stale \<noteq> 0 \<or> addresses \<noteq> 0 \<or> owners \<noteq> 0 \<or> totals \<noteq> 0 \<or> orphans \<noteq> 0 \<or> banks \<noteq> 0 \<or> boards \<noteq> 0
               then FAIL else PASS) (Some (c_height c))
              [num ''refresh_models'' (int models), num ''stale_models'' (int stale),
               num ''unknown_claim_addresses'' (int unknown_addresses), num ''unknown_player_values'' (int unknown_players),
               num ''address_inventory_differences'' (int addresses), num ''owner_inventory_differences'' (int owners),
               num ''inventory_total_differences'' (int totals), num ''orphan_rows'' (int orphans),
               num ''guild_bank_differences'' (int banks), num ''leaderboard_differences'' (int boards)]))))))))))  h1)"

text \<open>The transaction is read-only: it begins, and is rolled back.\<close>

definition checkAPIReadModels :: verify_check where
  "checkAPIReadModels vi = querying (\<lambda>d. ()) (\<lambda>_. checkAPIReadModelsSnapshot vi)"

section \<open>Receipts\<close>

definition chain_receipts :: "string \<Rightarrow> tables \<Rightarrow> stored_defusion list" where
  "chain_receipts chain d = filter (\<lambda>x. dr_chain (sd_row x) = chain) (db_defusion d)"

definition receipt_party :: "stored_defusion \<Rightarrow> string \<times> string" where
  "receipt_party x = (dr_chain (sd_row x), dr_delegator (sd_row x))"

definition receipt_matched :: "verify_inputs \<Rightarrow> tables \<Rightarrow> stored_defusion \<Rightarrow> bool" where
  "receipt_matched vi d x \<longleftrightarrow>
     (case vi_claim vi d (receipt_party x) of
        None \<Rightarrow> False
      | Some (whole, source) \<Rightarrow> whole \<and> source \<noteq> None \<and> source = sd_reconciled x)"

definition receipt_requested :: "verify_inputs \<Rightarrow> tables \<Rightarrow> stored_defusion \<Rightarrow> bool" where
  "receipt_requested vi d x \<longleftrightarrow>
     (case tbl_get (db_native d) (receipt_party x) of
        None \<Rightarrow> False | Some n \<Rightarrow> vi_pending vi n \<or> ns_receipts_pending n)"

definition receipt_beyond :: "tables \<Rightarrow> stored_defusion \<Rightarrow> bool" where
  "receipt_beyond d x \<longleftrightarrow>
     (case tbl_get (sy_cursor (db_sync d)) (dr_chain (sd_row x)) of
        None \<Rightarrow> True
      | Some c \<Rightarrow> cu_height c < dr_height (sd_row x) \<or>
          (case sd_reconciled x of None \<Rightarrow> False | Some r \<Rightarrow> cu_height c < r))"

definition receipt_counts :: "verify_inputs \<Rightarrow> tables \<Rightarrow> nat \<times> nat \<times> nat \<times> nat \<times> nat" where
  "receipt_counts vi d =
     (let rows = chain_receipts (vi_chain vi) d; open' = filter (\<lambda>x. sd_retired x = None) rows in
      (length (filter (\<lambda>x. sd_retired x \<noteq> None) rows),
       length (filter (\<lambda>x. \<not> receipt_matched vi d x) open'),
       length (filter (receipt_matched vi d) open'),
       length (filter (\<lambda>x. dr_denom (sd_row x) = ''ualpha'' \<and> sd_reconciled x = None \<and> \<not> receipt_requested vi d x) open'),
       length (filter (receipt_beyond d) rows)))"

text \<open>Receipts without a source identity are not in the model, so their count is zero.\<close>

definition checkPendingReceipts :: verify_check where
  "checkPendingReceipts vi =
     querying (receipt_counts vi) (\<lambda>(retired, unknown, pending, missing, bad).
       concluded (result (if 0 < missing \<or> 0 < bad then FAIL else if 0 < unknown then INFO else PASS) None
         [num ''retired_receipts'' (int retired), num ''unidentified_receipts'' 0, num ''unknown_receipts'' (int unknown),
          num ''matched_receipts'' (int pending), num ''missing_requests'' (int missing), num ''invalid_boundaries'' (int bad)]))"

section \<open>The runner\<close>

definition allChecks :: "(string \<times> verify_check) list" where
  "allChecks =
     [(''cursor_vs_tip'', checkCursorVsTip), (''block_log_coverage'', checkBlockLogCoverage),
      (''handler_errors_unresolved'', checkHandlerErrorsUnresolved),
      (''planet_activity_seq_corruption'', checkPlanetActivitySeqCorruption), (''block_height_nulls'', checkBlockHeightNulls),
      (''raw_mirror_coverage'', checkRawMirrorCoverage), (''current_block_status'', checkCurrentBlockStatus),
      (''genesis_loaded'', checkGenesisLoaded), (''ordered_timeseries_monotonic'', checkOrderedTimeseriesMonotonic),
      (''ledger_balance_sanity'', checkLedgerBalanceSanity), (''api_read_models'', checkAPIReadModels),
      (''pending_receipts'', checkPendingReceipts)]"

definition selectChecks :: "bool \<Rightarrow> (string \<times> verify_check) list" where
  "selectChecks errors_only =
     (if errors_only then [(''handler_errors_unresolved'', checkHandlerErrorsUnresolved)] else allChecks)"

fun run_checks :: "(string \<times> verify_check) list \<Rightarrow> verify_inputs \<Rightarrow> host \<Rightarrow> check_result list \<times> host" where
  "run_checks [] vi h = ([], h)"
| "run_checks ((name, f) # cs) vi h =
     (case f vi h of
        (r, h1) \<Rightarrow> (case run_checks cs vi h1 of (rs, h2) \<Rightarrow> (r\<lparr>cr_name := name\<rparr> # rs, h2)))"

text \<open>A version 4 UUID of sixteen random bytes.\<close>

definition uuid_bytes :: "nat list \<Rightarrow> nat list" where
  "uuid_bytes b = b[6 := b ! 6 mod 16 + 64, 8 := b ! 8 mod 64 + 128]"

definition newRunID :: "nat list \<Rightarrow> string" where
  "newRunID b =
     (let h = concat (map (\<lambda>n. [hex_lower (n div 16), hex_lower (n mod 16)]) (uuid_bytes b)) in
      take 8 h @ ''-'' @ take 4 (drop 8 h) @ ''-'' @ take 4 (drop 12 h) @ ''-'' @ take 4 (drop 16 h) @ ''-'' @ take 12 (drop 20 h))"

definition report_row :: "string \<Rightarrow> check_result \<Rightarrow> verification_row" where
  "report_row run r =
     \<lparr>vr_run = run, vr_scope = cr_name r, vr_height = cr_height r,
      vr_actual = (if cr_counts r = [] then None else Some (json_marshal (json_map (cr_counts r)))),
      vr_status = status_text (cr_status r)\<rparr>"

definition insert_report :: "verification_row \<Rightarrow> (host, unit) op" where
  "insert_report row =
     bindO (at_service (pool_query (\<lambda>d. ()))) (\<lambda>_. modifyO (\<lambda>h. h\<lparr>ho_reports := ho_reports h @ [row]\<rparr>))"

definition writeReport :: "string \<Rightarrow> check_result list \<Rightarrow> (host, unit) op" where
  "writeReport run results = forO results (\<lambda>r. insert_report (report_row run r))"

definition runImpl :: "verify_inputs \<Rightarrow> nat list res \<Rightarrow> bool \<Rightarrow> bool \<Rightarrow> (host, check_result list) op" where
  "runImpl vi random errors_only write_report h =
     (case random of
        Inl e \<Rightarrow> (Inl (wrapf ''generate run id: '' e), h)
      | Inr bytes \<Rightarrow>
          (let vi' = vi\<lparr>vi_lag_warn := if vi_lag_warn vi \<le> 0 then 5 else vi_lag_warn vi\<rparr> in
           case run_checks (selectChecks errors_only) vi' h of
             (results, h1) \<Rightarrow>
               if write_report then
                 bindO (wrapO ''persist verification_report: '' (writeReport (newRunID bytes) results)) (\<lambda>_. returnO results) h1
               else (Inr results, h1)))"

definition verify_Run :: "verify_inputs \<Rightarrow> nat list res \<Rightarrow> bool \<Rightarrow> bool \<Rightarrow> host \<Rightarrow> (check_result list \<times> int) \<times> host" where
  "verify_Run vi random errors_only write_report h =
     (case runImpl vi random errors_only write_report h of
        (Inl e, h1) \<Rightarrow> (([], 1), h1)
      | (Inr results, h1) \<Rightarrow> ((results, if list_ex (\<lambda>r. cr_status r = FAIL) results then 1 else 0), h1))"

end
