(* ===== verification/Verify_Facts.thy ===== *)
theory Verify_Facts
  imports Verify Schema_Facts Read_Model_Facts
begin

text \<open>
  What a passed check says of the tables, and that fresh boards raise no alarm.
\<close>

section \<open>Checks as a logic\<close>








lemma result_fields [simp]: "cr_status (result s ht cs) = s" "cr_height (result s ht cs) = ht" "cr_counts (result s ht cs) = cs"
  by (simp_all add: result_def)








section \<open>What each check attests\<close>




definition banks_exact :: "tables \<Rightarrow> bool" where
  "banks_exact d \<longleftrightarrow> (\<forall>g. tbl_get (ap_guild_bank (db_api d)) g = map_option (guild_bank_of d g) (tbl_get (db_guild d) g))"




lemma tbl_get_iff: "tbl_ok t \<Longrightarrow> tbl_get t k = Some r \<longleftrightarrow> (k, r) \<in> set t"
  by (simp add: tbl_ok_def tbl_get_def)







lemma except_none: "except_all xs ys = 0 \<longleftrightarrow> set xs = set ys"
  by (auto simp: except_all_def filter_empty_conv)

lemma set_map_pairs: "tbl_ok t \<Longrightarrow> set (map (\<lambda>(k, r). f k r) t) = {f k r |k r. tbl_get t k = Some r}"
  by (force simp: tbl_get_iff)

lemma banks_checked_keys:
  assumes ok: "tbl_ok (db_guild d)" "tbl_ok (ap_guild_bank (db_api d))"
  shows "bank_differences d = 0 \<longleftrightarrow> banks_exact d"
proof -
  let ?f = "\<lambda>g. (g, token_denom g, guild_collateral g d, guild_supply g d)"
  have expected: "set (map (\<lambda>(g, r). ?f g) (db_guild d)) = {?f g |g. tbl_get (db_guild d) g \<noteq> None}"
    unfolding set_map_pairs [OF ok(1)] by blast
  have actual: "set (map (\<lambda>(g, b). (g, gb_denom b, gb_collateral b, gb_supply b)) (ap_guild_bank (db_api d))) =
      {(g, gb_denom b, gb_collateral b, gb_supply b) |g b. tbl_get (ap_guild_bank (db_api d)) g = Some b}"
    by (rule set_map_pairs [OF ok(2)])
  have "bank_differences d = 0 \<longleftrightarrow>
      {?f g |g. tbl_get (db_guild d) g \<noteq> None} =
      {(g, gb_denom b, gb_collateral b, gb_supply b) |g b. tbl_get (ap_guild_bank (db_api d)) g = Some b}"
    unfolding bank_differences_def except_none expected actual ..
  also have "\<dots> \<longleftrightarrow> (\<forall>g. (tbl_get (db_guild d) g \<noteq> None) = (tbl_get (ap_guild_bank (db_api d)) g \<noteq> None) \<and>
      (\<forall>b. tbl_get (ap_guild_bank (db_api d)) g = Some b \<longrightarrow>
         gb_denom b = token_denom g \<and> gb_collateral b = guild_collateral g d \<and> gb_supply b = guild_supply g d))"
  proof -
    have "A = B \<longleftrightarrow> (\<forall>g. (\<exists>v. (g, v) \<in> A) = (\<exists>v. (g, v) \<in> B) \<and> (\<forall>v. (g, v) \<in> B \<longrightarrow> (g, v) \<in> A))"
      if "\<And>g v w. (g, v) \<in> A \<Longrightarrow> (g, w) \<in> A \<Longrightarrow> v = w" for A B :: "(string \<times> string \<times> int option \<times> int option) set"
      using that by (metis (no_types, opaque_lifting) subrelI subset_antisym)
    note this [of "{?f g |g. tbl_get (db_guild d) g \<noteq> None}"
      "{(g, gb_denom b, gb_collateral b, gb_supply b) |g b. tbl_get (ap_guild_bank (db_api d)) g = Some b}"]
    then show ?thesis by auto
  qed
  also have "\<dots> \<longleftrightarrow> banks_exact d"
  proof -
    have row: "b = guild_bank_of d g r \<longleftrightarrow>
        gb_denom b = token_denom g \<and> gb_collateral b = guild_collateral g d \<and> gb_supply b = guild_supply g d" for b g r
      by (cases b) (auto simp: guild_bank_of_def)
    show ?thesis unfolding banks_exact_def
      by (rule arg_cong [where f = All], rule ext)
        (use row in \<open>auto split: option.splits simp: map_option_case\<close>)
  qed
  finally show ?thesis .
qed









section \<open>The checks\<close>














section \<open>A passed check holds\<close>





definition blank_views :: projections where
  "blank_views =
     \<lparr>pj_owners = \<lambda>d. [], pj_claims = \<lambda>d is. [], pj_address_expected = \<lambda>d is. [], pj_expected = \<lambda>d. [],
      pj_work = \<lambda>b d. [], pj_boundary = \<lambda>d. None, pj_ratio = \<lambda>b. None, pj_guild_meta = \<lambda>g. None\<rparr>"







section \<open>Fresh boards pass\<close>

lemma differing_none:
  "differing differs board base = 0 \<longleftrightarrow> (\<forall>(i, a) \<in> set board. \<forall>b. tbl_get base i = Some b \<longrightarrow> \<not> differs i a b)"
  by (auto simp: differing_def filter_empty_conv split: option.splits)

lemma orphans_none: "orphans_of board base = 0 \<longleftrightarrow> (\<forall>(i, a) \<in> set board. tbl_get base i \<noteq> None)"
  by (auto simp: orphans_of_def filter_empty_conv)

text \<open>A fresh board: each row is the function of its base row.\<close>

lemma fresh_board:
  assumes "tbl_ok board" "\<And>i. tbl_get board i = map_option (f i) (tbl_get base i)"
    and "\<And>i b. tbl_get base i = Some b \<Longrightarrow> \<not> differs i (f i b) b"
  shows "orphans_of board base = 0 \<and> differing differs board base = 0"
proof -
  have "tbl_get base i \<noteq> None \<and> (\<forall>b. tbl_get base i = Some b \<longrightarrow> a = f i b)" if "(i, a) \<in> set board" for i a
    using assms(2) [of i] that tbl_get_iff [OF assms(1), of i a] by (auto simp: map_option_case split: option.splits)
  then show ?thesis using assms(3) by (fastforce simp: differing_none orphans_none)
qed

definition boards_keyed :: "tables \<Rightarrow> bool" where
  "boards_keyed d \<longleftrightarrow>
     (let a = db_api d in tbl_ok (ap_player a) \<and> tbl_ok (ap_guild a) \<and> tbl_ok (ap_reactor a) \<and> tbl_ok (ap_provider a) \<and>
        tbl_ok (ap_substation a) \<and> tbl_ok (ap_guild_bank a) \<and> tbl_ok (ap_inventory a) \<and> tbl_ok (db_guild d))"

lemma single_sum:
  assumes "tbl_ok t"
  shows "sum_list (map (\<lambda>(den, b). coalesce0 b) (filter (\<lambda>(den, b). den = x)
      (map (\<lambda>((ty, o', den), b). (den, b)) (filter (\<lambda>((ty, o', den), b). ty = u \<and> o' = i) t)))) =
    coalesce0 (Option.bind (tbl_get t (u, i, x)) id)"
  using assms
proof (induction t)
  case (Cons e t)
  obtain k b where e: "e = (k, b)" by (cases e)
  have ok: "tbl_ok t" and new: "k \<notin> fst ` set t" using Cons.prems by (auto simp: tbl_ok_def e)
  show ?case
  proof (cases "k = (u, i, x)")
    case True
    then have "tbl_get t (u, i, x) = None" using new by (simp add: tbl_get_def map_of_eq_None_iff)
    with Cons.IH [OF ok] True show ?thesis by (simp add: e tbl_get_def coalesce0_def)
  next
    case False
    obtain ty o' den where k: "k = (ty, o', den)" by (cases k)
    have "tbl_get ((k, b) # t) (u, i, x) = tbl_get t (u, i, x)" using False by (simp add: tbl_get_def)
    with Cons.IH [OF ok] False show ?thesis by (auto simp: e k)
  qed
qed (simp add: tbl_get_def coalesce0_def)

text \<open>C13: Whatever keeps the boards fresh passes the verification.  When every row of the guild bank
  and of the five leaderboards is what a rebuild would write, the three reconciliation queries of the
  API check, which recompute the boards in their own words, count no orphan and no
  difference.\<close>

theorem fresh_boards_verified:
  assumes "boards_fresh P d" "boards_keyed d"
  shows "orphan_rows d = 0 \<and> bank_differences d = 0 \<and> board_differences P d = 0"
proof -
  let ?a = "db_api d"
  have ok: "tbl_ok (ap_player ?a)" "tbl_ok (ap_guild ?a)" "tbl_ok (ap_reactor ?a)" "tbl_ok (ap_provider ?a)"
    "tbl_ok (ap_substation ?a)" "tbl_ok (ap_guild_bank ?a)" "tbl_ok (ap_inventory ?a)" "tbl_ok (db_guild d)"
    using assms(2) by (simp_all add: boards_keyed_def Let_def)
  note fresh = assms(1) [unfolded boards_fresh_def, rule_format]
  have player: "orphans_of (ap_player ?a) (db_player d) = 0 \<and> differing (player_differs P d) (ap_player ?a) (db_player d) = 0"
    by (rule fresh_board [where f = "player_board_of P d", OF ok(1)])
      (use fresh single_sum [OF ok(7)] in \<open>auto simp: player_differs_def player_board_of_def alpha_balance_def
         player_inventory_def inventory_of_def\<close>)
  have guild: "orphans_of (ap_guild ?a) (db_guild d) = 0 \<and> differing (guild_differs d) (ap_guild ?a) (db_guild d) = 0"
    by (rule fresh_board [where f = "guild_board_of P d", OF ok(2)])
      (use fresh in \<open>auto simp: guild_differs_def guild_board_of_def guild_members_def bank_row_def Let_def\<close>)
  have reactor: "orphans_of (ap_reactor ?a) (db_reactor d) = 0 \<and> differing (reactor_differs d) (ap_reactor ?a) (db_reactor d) = 0"
    by (rule fresh_board [where f = "reactor_board_of d", OF ok(3)])
      (use fresh in \<open>auto simp: reactor_differs_def reactor_board_of_def infusion_sum_def Let_def comp_def case_prod_unfold\<close>)
  have provider: "orphans_of (ap_provider ?a) (db_provider d) = 0 \<and> differing (provider_differs d) (ap_provider ?a) (db_provider d) = 0"
    by (rule fresh_board [where f = "provider_board_of d", OF ok(4)])
      (use fresh in \<open>auto simp: provider_differs_def provider_board_of_def\<close>)
  have substation: "orphans_of (ap_substation ?a) (db_substation d) = 0 \<and>
      differing (substation_differs d) (ap_substation ?a) (db_substation d) = 0"
    by (rule fresh_board [where f = "substation_board_of d", OF ok(5)])
      (use fresh in \<open>auto simp: substation_differs_def substation_board_of_def Let_def\<close>)
  have bank: "orphans_of (ap_guild_bank ?a) (db_guild d) = 0"
    using fresh_board [where differs = "\<lambda>i a b. False" and f = "guild_bank_of d", OF ok(6)] fresh by auto
  have "banks_exact d" using fresh by (simp add: banks_exact_def)
  then have "bank_differences d = 0"
    using banks_checked_keys [OF ok(8) ok(6)] by simp
  then show ?thesis using player guild reactor provider substation bank
    by (simp add: orphan_rows_def board_differences_def Let_def)
qed

definition infused_tables :: tables where
  "infused_tables = empty_tables\<lparr>
     db_reactor := [(''3-1'', \<lparr>re_validator = None, re_guild_id = ''0-1'', re_default_commission = None, re_owner = ''1-1''\<rparr>)],
     db_infusion := [((''3-1'', ''a''),
       \<lparr>in_destination_type = ''reactor'', in_player_id = ''1-1'', in_fuel = 40, in_defusing = 0, in_power = 400, in_ratio = 100,
        in_commission = None, in_owner_id = None, in_generator_disabled = False\<rparr>)],
     db_api := empty_api\<lparr>ap_reactor := [(''3-1'', (40, 400))]\<rparr>\<rparr>"

lemma infused_fresh: "boards_fresh blank_views infused_tables"
  unfolding boards_fresh_def
proof (intro allI conjI)
  fix i
  have "reactor_board_of infused_tables ''3-1'' r = (40, 400)" for r
    by (simp add: reactor_board_of_def infused_tables_def)
  then show "tbl_get (ap_reactor (db_api infused_tables)) i = map_option (reactor_board_of infused_tables i) (tbl_get (db_reactor infused_tables) i)"
    by (cases "i = ''3-1''") (simp_all add: infused_tables_def tbl_get_def)
qed (simp_all add: infused_tables_def empty_tables_def empty_api_def tbl_get_def)

theorem fresh_boards_verified_witness:
  "board_differences blank_views infused_tables = 0 \<and>
   board_differences blank_views (infused_tables\<lparr>db_infusion := []\<rparr>) = 1"
proof -
  have "boards_keyed infused_tables" by code_simp
  from fresh_boards_verified [OF infused_fresh this] have "board_differences blank_views infused_tables = 0" by simp
  moreover have "board_differences blank_views (infused_tables\<lparr>db_infusion := []\<rparr>) = 1" by code_simp
  ultimately show ?thesis by simp
qed

end
