(* ===== verification/Doctor.thy ===== *)
theory Doctor
  imports Schema Notifier Genesis
begin

text \<open>
  \<open>internal/doctor/doctor.go\<close>: the probes of the nodes and of the database before ingestion, and
  the answers they decode (\<open>rpc/types.go\<close>).

  A check is its name and its grade; the detail text is left out.  A target of \<open>rpc\<close> is filled
  only by a document that decodes.  \<open>di_dial\<close> says whether the websocket upgrade to an address
  succeeds, \<open>di_now\<close> is the time of the last probe.
\<close>

section \<open>Answers\<close>

definition attribute_members :: "(string \<times> json) list \<Rightarrow> attribute res" where
  "attribute_members obj =
     bindR (text_field ''key'' obj) (\<lambda>k.
     bindR (text_field ''value'' obj) (\<lambda>v.
     bindR (bool_field ''index'' obj) (\<lambda>i. Inr \<lparr>attr_key = k, attr_value = v, attr_index = i\<rparr>)))"

definition event_members :: "(string \<times> json) list \<Rightarrow> event res" where
  "event_members obj =
     bindR (text_field ''type'' obj) (\<lambda>ty.
     bindR (field ''attributes'' (structs attribute_members) [] obj) (\<lambda>attrs.
     Inr \<lparr>ev_type = ty, ev_attributes = attrs\<rparr>))"

definition tx_result_members :: "(string \<times> json) list \<Rightarrow> tx_result res" where
  "tx_result_members obj =
     bindR (field ''code'' PlainInt 0 obj) (\<lambda>code.
     bindR (text_field ''data'' obj) (\<lambda>dat.
     bindR (text_field ''log'' obj) (\<lambda>log.
     bindR (text_field ''info'' obj) (\<lambda>info.
     bindR (text_field ''gas_wanted'' obj) (\<lambda>wanted.
     bindR (text_field ''gas_used'' obj) (\<lambda>used.
     bindR (field ''events'' (structs event_members) [] obj) (\<lambda>evs.
     bindR (text_field ''codespace'' obj) (\<lambda>space.
     Inr \<lparr>tx_code = code, tx_data = dat, tx_log = log, tx_info = info, tx_gas_wanted = wanted,
          tx_gas_used = used, tx_events = evs, tx_codespace = space\<rparr>))))))))"

definition texts :: "string list decoder" where
  "texts v old =
     (case v of
        JNull \<Rightarrow> Inr []
      | JArr vs \<Rightarrow> mapR (\<lambda>x. Text x []) vs
      | _ \<Rightarrow> Inl (errorf ''cannot unmarshal into []string''))"

definition header_members :: "(string \<times> json) list \<Rightarrow> block_result \<Rightarrow> block_result res" where
  "header_members kvs b =
     bindR (field ''height'' Text (br_height b) kvs) (\<lambda>height.
     bindR (field ''chain_id'' Text (br_chain_id b) kvs) (\<lambda>chain.
     bindR (field ''time'' Timestamp (br_time b) kvs) (\<lambda>time.
     bindR (field ''proposer_address'' Text (br_proposer b) kvs) (\<lambda>proposer.
     Inr (b\<lparr>br_height := height, br_chain_id := chain, br_time := time, br_proposer := proposer\<rparr>)))))"

definition zero_block :: block_result where
  "zero_block = \<lparr>br_hash = [], br_height = [], br_chain_id = [], br_time = zero_time, br_proposer = [], br_txs = []\<rparr>"

definition block_members :: "(string \<times> json) list \<Rightarrow> block_result res" where
  "block_members obj =
     bindR (field ''block_id'' (nested (\<lambda>kvs h. field ''hash'' Text h kvs)) [] obj) (\<lambda>hash.
     field ''block'' (nested (\<lambda>kvs b.
       bindR (field ''header'' (nested header_members) b kvs) (\<lambda>b1.
       bindR (field ''data'' (nested (\<lambda>kvs t. field ''txs'' texts t kvs)) (br_txs b1) kvs) (\<lambda>txs.
       Inr (b1\<lparr>br_txs := txs\<rparr>)))))
       (zero_block\<lparr>br_hash := hash\<rparr>) obj)"

definition results_members :: "(string \<times> json) list \<Rightarrow> block_results res" where
  "results_members obj =
     bindR (text_field ''height'' obj) (\<lambda>height.
     bindR (field ''txs_results'' (structs tx_result_members) [] obj) (\<lambda>txs.
     bindR (field ''finalize_block_events'' (structs event_members) [] obj) (\<lambda>evs.
     Inr \<lparr>brr_height = height, brr_txs_results = txs, brr_finalize_events = evs\<rparr>)))"

definition decoded :: "((string \<times> json) list \<Rightarrow> 'a res) \<Rightarrow> 'a target" where
  "decoded members = fresh_target (\<lambda>raw. bindR (document_of raw) members)"

definition fetch_block :: "rpc_env \<Rightarrow> int \<Rightarrow> (rpc_state, block_result) op" where
  "fetch_block ev height = get_block ev height (decoded block_members) zero_block"

definition fetch_results :: "rpc_env \<Rightarrow> int \<Rightarrow> (rpc_state, block_results) op" where
  "fetch_results ev height =
     get_block_results ev height (decoded results_members) \<lparr>brr_height = [], brr_txs_results = [], brr_finalize_events = []\<rparr>"

record found_tx =
  fx_hash :: string
  fx_height :: string
  fx_index :: int
  fx_result :: tx_result

definition nested_tx_result :: "(string \<times> json) list \<Rightarrow> tx_result res" where
  "nested_tx_result obj =
     bindR (field ''tx_result'' (nested (\<lambda>kvs old. Inr kvs)) [] obj) tx_result_members"

definition found_members :: "(string \<times> json) list \<Rightarrow> found_tx res" where
  "found_members obj =
     bindR (text_field ''hash'' obj) (\<lambda>hash.
     bindR (text_field ''height'' obj) (\<lambda>height.
     bindR (field ''index'' PlainInt 0 obj) (\<lambda>i.
     bindR (nested_tx_result obj) (\<lambda>r.
     Inr \<lparr>fx_hash = hash, fx_height = height, fx_index = i, fx_result = r\<rparr>))))"

definition search_members :: "(string \<times> json) list \<Rightarrow> (found_tx list \<times> string) res" where
  "search_members obj =
     bindR (field ''txs'' (structs found_members) [] obj) (\<lambda>txs.
     bindR (text_field ''total_count'' obj) (\<lambda>n. Inr (txs, n)))"

text \<open>A block meta: its number of transactions and its height.\<close>

definition meta_members :: "(string \<times> json) list \<Rightarrow> (string \<times> string) res" where
  "meta_members obj =
     bindR (text_field ''num_txs'' obj) (\<lambda>n.
     bindR (field ''header'' (nested (\<lambda>kvs h. field ''height'' Text h kvs)) [] obj) (\<lambda>height. Inr (n, height)))"

definition blockchain_members :: "(string \<times> json) list \<Rightarrow> (string \<times> (string \<times> string) list) res" where
  "blockchain_members obj =
     bindR (text_field ''last_height'' obj) (\<lambda>height.
     bindR (field ''block_metas'' (structs meta_members) [] obj) (\<lambda>metas. Inr (height, metas)))"

section \<open>Reports\<close>

datatype grade = OK | WARN | FATAL

record check =
  ck_name :: string
  ck_grade :: grade

abbreviation graded :: "string \<Rightarrow> grade \<Rightarrow> check" where
  "graded name g \<equiv> \<lparr>ck_name = name, ck_grade = g\<rparr>"

record endpoint_report =
  dp_url :: string
  dp_primary :: bool
  dp_reached :: bool
  dp_chain :: string
  dp_tip :: int
  dp_earliest :: int
  dp_checks :: "check list"

record report =
  dx_url :: string
  dx_chain :: string
  dx_tip :: int
  dx_earliest :: int
  dx_endpoints :: "endpoint_report list"
  dx_checks :: "check list"
  dx_verdict :: string
  dx_fatal :: bool

record doctor_inputs =
  di_rpc :: rpc_env
  di_dial :: "string \<Rightarrow> bool"
  di_now :: int
  di_chain :: string
  di_start :: int
  di_skip_cache :: bool
  di_websocket :: bool

type_synonym 'a probe = "host \<Rightarrow> 'a \<times> host"

fun probe_each :: "('x \<Rightarrow> 'y list probe) \<Rightarrow> 'x list \<Rightarrow> 'y list probe" where
  "probe_each f [] h = ([], h)"
| "probe_each f (x # xs) h =
     (case f x h of (ys, h1) \<Rightarrow> (case probe_each f xs h1 of (zs, h2) \<Rightarrow> (ys @ zs, h2)))"

definition after_probe :: "'a list probe \<Rightarrow> ('a list probe) \<Rightarrow> 'a list probe" where
  "after_probe p q h = (case p h of (xs, h1) \<Rightarrow> (case q h1 of (ys, h2) \<Rightarrow> (xs @ ys, h2)))"

definition grade_if :: "bool \<Rightarrow> grade \<Rightarrow> grade" where
  "grade_if ok g = (if ok then OK else g)"

section \<open>One endpoint\<close>

text \<open>A context that ends after a while.\<close>

definition with_deadline :: "int \<Rightarrow> rpc_env \<Rightarrow> rpc_env" where
  "with_deadline t ev =
     ev\<lparr>ev_http := \<lambda>n cap url. ev_http ev n (Some (case cap of None \<Rightarrow> t | Some c \<Rightarrow> min c t)) url,
        ev_wait := \<lambda>n cap d. ev_wait ev n (Some (case cap of None \<Rightarrow> t | Some c \<Rightarrow> min c t)) d\<rparr>"

definition probeEndpoint :: "rpc_env \<Rightarrow> bool \<Rightarrow> string \<Rightarrow> endpoint_report probe" where
  "probeEndpoint ev primary url h =
     (case at_rpc (StatusOf (with_deadline (5000 * millisecond) ev) url) h of
        (Inl e, h1) \<Rightarrow>
          (\<lparr>dp_url = url, dp_primary = primary, dp_reached = False, dp_chain = [], dp_tip = 0, dp_earliest = 0,
            dp_checks = [graded ''reachable'' FATAL]\<rparr>, h1)
      | (Inr st, h1) \<Rightarrow>
          (\<lparr>dp_url = url, dp_primary = primary, dp_reached = True, dp_chain = ss_network st, dp_tip = Latest st,
            dp_earliest = Earliest st,
            dp_checks = [graded ''chain_id'' OK, graded ''node liveness'' (grade_if (\<not> ss_catching_up st) WARN),
              graded ''earliest_block_height'' (grade_if (Earliest st \<le> 1) WARN)]\<rparr>, h1))"

definition probeWebsocketReachable :: "(string \<Rightarrow> bool) \<Rightarrow> string \<Rightarrow> check" where
  "probeWebsocketReachable dial raw =
     graded ''tip websocket''
       (case url_parts (trim_right (\<lambda>c. c = CHR ''/'') raw) of
          None \<Rightarrow> WARN
        | Some (scheme, authority, path, rest) \<Rightarrow>
            (let ws = (if scheme = ''http'' then ''ws'' else if scheme = ''https'' then ''wss'' else scheme);
                 p = (if has_suffix path ''/websocket'' then path
                      else trim_right (\<lambda>c. c = CHR ''/'') path @ ''/websocket'')
             in grade_if (dial (ws @ ''://'' @ authority @ p @ rest)) WARN))"

definition probe_url :: "doctor_inputs \<Rightarrow> string \<times> bool \<Rightarrow> endpoint_report list probe" where
  "probe_url d u h =
     (case probeEndpoint (di_rpc d) (snd u) (fst u) h of
        (ep, h1) \<Rightarrow>
          ([if di_websocket d
            then ep\<lparr>dp_checks := dp_checks ep @ [probeWebsocketReachable (di_dial d) (fst u)]\<rparr> else ep], h1))"

definition chain_set :: "endpoint_report list \<Rightarrow> string list" where
  "chain_set eps = remdups (filter (\<lambda>c. c \<noteq> []) (map dp_chain (filter dp_reached eps)))"

definition authoritativeEndpoint :: "endpoint_report list \<Rightarrow> endpoint_report" where
  "authoritativeEndpoint eps =
     (case filter dp_reached eps of
        e # es \<Rightarrow> e
      | [] \<Rightarrow> \<lparr>dp_url = [], dp_primary = False, dp_reached = False, dp_chain = [], dp_tip = 0, dp_earliest = 0, dp_checks = []\<rparr>)"

section \<open>The node's stores\<close>

definition probe_call :: "string \<Rightarrow> (rpc_state, 'a) op \<Rightarrow> check list probe" where
  "probe_call name call h =
     (case at_rpc call h of (r, h1) \<Rightarrow> ([graded name (grade_if (isl r = False) FATAL)], h1))"

definition first_tx_height :: "(string \<times> string) list \<Rightarrow> int" where
  "first_tx_height metas =
     (case filter (\<lambda>(n, height). 0 < parse_int64_value n) metas of
        [] \<Rightarrow> 0
      | (n, height) # _ \<Rightarrow> parse_int64_value height)"

definition probeABCIRetention :: "rpc_env \<Rightarrow> int \<Rightarrow> check list probe" where
  "probeABCIRetention ev tip h =
     (let name = ''abci retention probe'' in
      case at_rpc (Blockchain ev (max 2 (tip - 30 + 1)) tip (decoded blockchain_members) ([], [])) h of
        (Inl e, h1) \<Rightarrow> ([graded name WARN], h1)
      | (Inr bc, h1) \<Rightarrow>
          (let sample = first_tx_height (snd bc) in
           if sample = 0 then ([graded name WARN], h1)
           else case at_rpc (fetch_results ev sample) h1 of
             (Inl e, h2) \<Rightarrow> ([graded name FATAL], h2)
           | (Inr br, h2) \<Rightarrow> ([graded name (grade_if (brr_txs_results br \<noteq> []) FATAL)], h2)))"

definition indexer_off :: "goerror \<Rightarrow> bool" where
  "indexer_off e \<longleftrightarrow> errors_Is e ErrRPCDeterministic \<and> contains (to_lower (err_text e)) ''index''"

definition probeTxIndexer :: "rpc_env \<Rightarrow> int \<Rightarrow> check list probe" where
  "probeTxIndexer ev height h =
     (case at_rpc (TxSearch ev (''tx.height='' @ dec_int height) 1 (decoded search_members) ([], [])) h of
        (Inl e, h1) \<Rightarrow> ([graded ''tx indexer'' (if indexer_off e then FATAL else WARN)], h1)
      | (Inr r, h1) \<Rightarrow> ([graded ''tx indexer'' OK], h1))"

section \<open>The database\<close>

definition droppedTriggers :: "(string \<times> string \<times> string) list" where
  "droppedTriggers =
     [(''structs'', ''struct'', ''planet_activity_struct_movement''), (''structs'', ''fleet'', ''planet_activity_fleet_move''),
      (''structs'', ''planet_raid'', ''planet_activity_raid_status''),
      (''structs'', ''struct_attribute'', ''planet_activity_struct_attribute''),
      (''structs'', ''player'', ''update_address_guild_id''), (''structs'', ''infusion'', ''add_infusion_ledger_entry''),
      (''structs'', ''planet'', ''name_planet''), (''cache'', ''blocks'', ''transfer_ledger_entry''),
      (''cache'', ''blocks'', ''add_queue'')]"

text \<open>\<open>ILIKE\<close>, in which an underscore stands for any character.\<close>

fun ilike :: "string \<Rightarrow> string \<Rightarrow> bool" where
  "ilike [] [] \<longleftrightarrow> True"
| "ilike (p # ps) (c # cs) \<longleftrightarrow> (p = CHR ''_'' \<or> lower p = lower c) \<and> ilike ps cs"
| "ilike _ _ \<longleftrightarrow> False"

definition trigger_state :: "string \<times> string \<times> string \<Rightarrow> catalog \<Rightarrow> char res" where
  "trigger_state stt c =
     (case stt of (s, t, name) \<Rightarrow>
        (case filter (\<lambda>g. tg_schema g = s \<and> tg_table g = t \<and> ilike name (tg_name g)) (ct_triggers c) of
           [] \<Rightarrow> Inl no_rows
         | g # _ \<Rightarrow> Inr (tg_enabled g)))"

definition still_on :: "string \<times> string \<times> string \<Rightarrow> string list probe" where
  "still_on stt h =
     (case ask (trigger_state stt) h of
        (Inl e, h1) \<Rightarrow> ([], h1)
      | (Inr enabled, h1) \<Rightarrow>
          (if enabled = CHR ''D'' then [] else [fst stt @ ''.'' @ fst (snd stt) @ ''.'' @ snd (snd stt)], h1))"

definition probeDroppedTriggers :: "check list probe" where
  "probeDroppedTriggers h =
     (case probe_each still_on droppedTriggers h of
        (on, h1) \<Rightarrow> ([graded ''cache-era triggers'' (grade_if (on = []) FATAL)], h1))"

definition canonicalColumns :: "(string \<times> string \<times> string) list" where
  "canonicalColumns =
     [(''structs'', ''current_block'', ''status''), (''structs'', ''current_block'', ''lag_blocks''),
      (''structs'', ''current_block'', ''tip_height''), (''structs'', ''planet_activity'', ''block_height''),
      (''structs'', ''stat_ore'', ''block_height''), (''structs'', ''stat_fuel'', ''block_height''),
      (''structs'', ''stat_capacity'', ''block_height''), (''structs'', ''stat_load'', ''block_height''),
      (''structs'', ''stat_structs_load'', ''block_height''), (''structs'', ''stat_power'', ''block_height''),
      (''structs'', ''stat_connection_capacity'', ''block_height''), (''structs'', ''stat_connection_count'', ''block_height''),
      (''structs'', ''stat_struct_health'', ''block_height''), (''structs'', ''stat_struct_status'', ''block_height''),
      (''structs'', ''player'', ''username''), (''structs'', ''player'', ''pfp''), (''structs'', ''guild'', ''name''),
      (''structs'', ''guild'', ''pfp''), (''structs'', ''planet'', ''name''), (''structs'', ''struct_defender'', ''is_planetary''),
      (''structs'', ''struct_type'', ''can_defend'')]"

definition table_present :: "string \<Rightarrow> catalog \<Rightarrow> bool" where
  "table_present t c \<longleftrightarrow> tbl_get (ct_tables c) t \<noteq> None"

definition missing_column :: "string \<times> string \<times> string \<Rightarrow> string list probe" where
  "missing_column stc h =
     (case stc of (s, t, col) \<Rightarrow>
        let rel = s @ ''.'' @ t in
        (case ask (Inr \<circ> table_present rel) h of
           (Inl e, h1) \<Rightarrow> ([], h1)
         | (Inr present, h1) \<Rightarrow>
             if \<not> present then ([], h1)
             else (case ask (\<lambda>c. Inr (col \<in> set (visible_columns c rel))) h1 of
                 (Inl e, h2) \<Rightarrow> ([rel @ ''.'' @ col], h2)
               | (Inr found, h2) \<Rightarrow> (if found then [] else [rel @ ''.'' @ col], h2))))"

definition probeCanonicalSchema :: "check list probe" where
  "probeCanonicalSchema h =
     (case probe_each missing_column canonicalColumns h of
        (missing, h1) \<Rightarrow> ([graded ''canonical schema'' (grade_if (missing = []) FATAL)], h1))"

definition missing_projection :: "string \<Rightarrow> string list probe" where
  "missing_projection t h =
     (case ask (Inr \<circ> table_present (in_structs t)) h of
        (r, h1) \<Rightarrow> (if r = Inr True then [] else [in_structs t], h1))"

definition probeAPIProjectionSchema :: "check list probe" where
  "probeAPIProjectionSchema h =
     (case ask (\<lambda>c. Inr (''structs'' \<in> set (ct_schemas c))) h of
        (r, h1) \<Rightarrow>
          if r \<noteq> Inr True then ([], h1)
          else (case probe_each missing_projection apiProjectionTables h1 of
              (missing, h2) \<Rightarrow> ([graded ''api projection schema'' (grade_if (missing = []) FATAL)], h2)))"

definition probePlanetActivityAttribute :: "check list probe" where
  "probePlanetActivityAttribute h =
     (case ask (Inr \<circ> table_present ''structs.planet_activity'') h of
        (r, h1) \<Rightarrow>
          if r \<noteq> Inr True then ([], h1)
          else (case ask (trigger_state (''structs'', ''planet_activity'', ''planet_activity_attribute'')) h1 of
              (Inl e, h2) \<Rightarrow> ([graded ''planet_activity_attribute'' WARN], h2)
            | (Inr enabled, h2) \<Rightarrow> ([graded ''planet_activity_attribute'' (grade_if (enabled \<noteq> CHR ''D'') WARN)], h2)))"

definition newest :: "int list \<Rightarrow> int option" where
  "newest ts = (if ts = [] then None else Some (Max (set ts)))"

definition planetActivityPlayerLagWarn :: int where
  "planetActivityPlayerLagWarn = 300 * 1000 * millisecond"

definition activity_lag :: "int option \<Rightarrow> int option \<Rightarrow> grade" where
  "activity_lag parent side =
     (case parent of
        None \<Rightarrow> OK
      | Some p \<Rightarrow> (case side of None \<Rightarrow> WARN | Some s \<Rightarrow> if planetActivityPlayerLagWarn < p - s then WARN else OK))"

definition probePlanetActivityPlayerLag :: "check list probe" where
  "probePlanetActivityPlayerLag h =
     (let name = ''planet_activity_player lag'' in
      case ask (\<lambda>c. Inr (name_taken c ''structs.planet_activity_player'')) h of
        (r, h1) \<Rightarrow>
          if r \<noteq> Inr True then ([graded name WARN], h1)
          else (case ask (\<lambda>c. if relation_exists c ''structs.planet_activity''
                then Inr (newest (map (ar_time \<circ> snd) (db_activity (sx_db (ho_service h1)))), newest (ct_player_activity c))
                else Inl (pg_error ''42P01'' ''relation does not exist'')) h1 of
              (Inl e, h2) \<Rightarrow> ([graded name WARN], h2)
            | (Inr (parent, side), h2) \<Rightarrow> ([graded name (activity_lag parent side)], h2)))"

definition probeConcurrentUpdateCache :: "int \<Rightarrow> check list probe" where
  "probeConcurrentUpdateCache now h =
     (case ask (\<lambda>c. case ct_cache_newest c of None \<Rightarrow> Inl (pg_error ''42P01'' ''relation does not exist'') | Some t \<Rightarrow> Inr t) h of
        (Inl e, h1) \<Rightarrow> ([], h1)
      | (Inr None, h1) \<Rightarrow> ([], h1)
      | (Inr (Some t), h1) \<Rightarrow>
          (if 30000 * millisecond < now - t then [] else [graded ''update-cache concurrency'' WARN], h1))"

section \<open>The whole examination\<close>

definition node_probes :: "doctor_inputs \<Rightarrow> endpoint_report \<Rightarrow> check list probe" where
  "node_probes d auth =
     (let ev = di_rpc d; earliest = dp_earliest auth; tip = dp_tip auth in
      after_probe (probe_call ''block store at earliest'' (fetch_block ev earliest))
     (after_probe (probe_call ''state store at earliest'' (fetch_results ev earliest))
     (after_probe (if 0 < di_start d \<and> earliest \<le> di_start d \<and> di_start d \<le> tip
        then probe_call (''coverage at start='' @ dec_int (di_start d)) (fetch_results ev (di_start d))
        else (\<lambda>h. ([], h)))
     (after_probe (probe_call ''coverage at tip'' (fetch_results ev tip))
     (after_probe (probeABCIRetention ev tip)
     (probeTxIndexer ev tip))))))"

definition database_probes :: "doctor_inputs \<Rightarrow> check list probe" where
  "database_probes d =
     after_probe probeDroppedTriggers
    (after_probe probeCanonicalSchema
    (after_probe probeAPIProjectionSchema
    (after_probe probePlanetActivityAttribute
    (after_probe probePlanetActivityPlayerLag
    (if di_skip_cache d then (\<lambda>h. ([], h)) else probeConcurrentUpdateCache (di_now d))))))"

definition blank_report :: "host \<Rightarrow> report" where
  "blank_report h =
     \<lparr>dx_url = BaseURL (rs_client (ho_rpc h)), dx_chain = [], dx_tip = 0, dx_earliest = 0, dx_endpoints = [],
      dx_checks = [], dx_verdict = [], dx_fatal = False\<rparr>"

definition stopped :: "report \<Rightarrow> string \<Rightarrow> string \<Rightarrow> report" where
  "stopped r name verdict =
     r\<lparr>dx_checks := dx_checks r @ [graded name FATAL], dx_fatal := True, dx_verdict := verdict\<rparr>"

definition pool_check :: "endpoint_report list \<Rightarrow> check" where
  "pool_check eps =
     graded ''rpc pool'' (if 1 < length eps \<and> length (filter dp_reached eps) < length eps then WARN else OK)"

definition verdict_text :: "bool \<Rightarrow> int \<Rightarrow> string" where
  "verdict_text fatal earliest =
     (if fatal then ''FATAL: cannot start; see failed checks above''
      else if 1 < earliest then ''NON-ARCHIVE NODE. sync-state will clamp SYNC_START_HEIGHT to '' @ dec_int earliest @ ''.''
      else ''ARCHIVE NODE, suitable for full backfill from height 1.'')"

definition examined :: "report \<Rightarrow> check list \<Rightarrow> report" where
  "examined r checks =
     (let all' = dx_checks r @ checks; fatal = list_ex (\<lambda>c. ck_grade c = FATAL) checks in
      r\<lparr>dx_checks := all', dx_fatal := fatal, dx_verdict := verdict_text fatal (dx_earliest r)\<rparr>)"

definition doctor_Run :: "doctor_inputs \<Rightarrow> report probe" where
  "doctor_Run d h =
     (let r = blank_report h; urls = URLs (rs_client (ho_rpc h)) in
      if urls = [] then (stopped r ''rpc pool'' ''FATAL: empty rpc pool'', h)
      else case probe_each (probe_url d) (zip urls (True # replicate (length urls) False)) h of
        (eps, h1) \<Rightarrow>
          let r1 = r\<lparr>dx_endpoints := eps\<rparr> in
          if filter dp_reached eps = [] then (stopped r1 ''rpc pool'' ''FATAL: cannot reach any RPC node'', h1)
          else if 1 < length (chain_set eps) then (stopped r1 ''rpc pool'' ''FATAL: chain_id mismatch across pool'', h1)
          else
            let auth = authoritativeEndpoint eps;
                r2 = r1\<lparr>dx_checks := [pool_check eps], dx_chain := dp_chain auth, dx_tip := dp_tip auth,
                       dx_earliest := dp_earliest auth\<rparr> in
            if di_chain d \<noteq> [] \<and> dp_chain auth \<noteq> di_chain d then (stopped r2 ''chain_id'' ''FATAL: chain_id mismatch'', h1)
            else
              let r3 = r2\<lparr>dx_checks := dx_checks r2 @ [graded ''earliest_block_height'' (grade_if (dp_earliest auth \<le> 1) WARN)]\<rparr> in
              (case after_probe (node_probes d auth) (database_probes d) h1 of
                 (checks, h2) \<Rightarrow> (examined r3 checks, h2)))"

end
