(* ===== verification/Doctor_Facts.thy ===== *)
theory Doctor_Facts
  imports Doctor Schema_Facts Rpc_Client_Facts
begin

text \<open>
  What a doctor without a fatal check has established: one chain on every node that answered, the
  stores that answered, and a database without the triggers of the old cache.
\<close>

section \<open>Probes as a logic\<close>

text \<open>What a probe leaves as it is.\<close>

type_synonym scene_view = "catalog \<times> tables \<times> (nat \<Rightarrow> goerror option) \<times> string list"

definition scene :: "host \<Rightarrow> scene_view" where
  "scene h = (ho_catalog h, sx_db (ho_service h), sx_fault (ho_service h), URLs (rs_client (ho_rpc h)))"

text \<open>\<open>attested P p\<close>: a probe that adds no fatal check has seen \<open>P\<close>.\<close>

definition no_fatal :: "check list \<Rightarrow> bool" where
  "no_fatal cs \<longleftrightarrow> list_all (\<lambda>c. ck_grade c \<noteq> FATAL) cs"

definition attested :: "(scene_view \<Rightarrow> bool) \<Rightarrow> check list probe \<Rightarrow> bool" where
  "attested P p \<longleftrightarrow> (\<forall>h cs h'. p h = (cs, h') \<longrightarrow> scene h' = scene h \<and> (no_fatal cs \<longrightarrow> P (scene h)))"

lemma attestedI:
  "(\<And>h cs h'. p h = (cs, h') \<Longrightarrow> scene h' = scene h \<and> (no_fatal cs \<longrightarrow> P (scene h))) \<Longrightarrow> attested P p"
  by (simp add: attested_def)

lemma attestedD: "attested P p \<Longrightarrow> p h = (cs, h') \<Longrightarrow> scene h' = scene h \<and> (no_fatal cs \<longrightarrow> P (scene h))"
  by (simp add: attested_def)

lemma attested_after:
  assumes "attested P p" "attested Q q"
  shows "attested (\<lambda>x. P x \<and> Q x) (after_probe p q)"
proof (rule attestedI)
  fix h cs h'
  assume run: "after_probe p q h = (cs, h')"
  obtain xs h1 ys h2 where p: "p h = (xs, h1)" and q: "q h1 = (ys, h2)" by (metis surj_pair)
  from attestedD [OF assms(1) p] attestedD [OF assms(2) q] run
  show "scene h' = scene h \<and> (no_fatal cs \<longrightarrow> P (scene h) \<and> Q (scene h))"
    by (auto simp: after_probe_def p q no_fatal_def)
qed

lemma attested_nothing: "attested (\<lambda>x. True) (\<lambda>h. ([], h))"
  by (simp add: attested_def)

lemma attested_weaken: "attested P p \<Longrightarrow> (\<And>x. P x \<Longrightarrow> Q x) \<Longrightarrow> attested Q p"
  by (auto simp: attested_def)

lemma graded_fatal [simp]: "no_fatal [graded name (grade_if b FATAL)] \<longleftrightarrow> b" "no_fatal []"
  by (simp_all add: no_fatal_def grade_if_def)

lemma ask_scene: "ask g h = (r, h') \<Longrightarrow> scene h' = scene h \<and> ho_catalog h' = ho_catalog h"
  by (auto simp: ask_def at_catalog_def scene_def Let_def split: option.splits sum.splits)

lemma ask_answers: "sx_fault (ho_service h) = (\<lambda>_. None) \<Longrightarrow> fst (ask g h) = g (ho_catalog h)"
  by (auto simp: ask_def at_catalog_def Let_def split: sum.splits)

lemma at_rpc_scene:
  assumes "keeps same_pool m" "at_rpc m h = (r, h')"
  shows "scene h' = scene h"
  using keepsD [OF assms(1), of "ho_rpc h"] assms(2)
  by (auto simp: at_rpc_def scene_def same_pool_def settings_def split: prod.splits)

section \<open>The node\<close>

text \<open>A request that was answered by the endpoints of the pool.\<close>

definition answered :: "(rpc_state, 'a) op \<Rightarrow> scene_view \<Rightarrow> bool" where
  "answered m x \<longleftrightarrow> (\<exists>s y. URLs (rs_client s) = snd (snd (snd x)) \<and> fst (m s) = Inr y)"

lemma probe_call_attested:
  assumes "keeps same_pool m"
  shows "attested (answered m) (probe_call name m)"
proof (rule attestedI)
  fix h cs h'
  assume run: "probe_call name m h = (cs, h')"
  obtain r h1 where one: "at_rpc m h = (r, h1)" by force
  have cs: "cs = [graded name (grade_if (isl r = False) FATAL)]" "h' = h1"
    using run by (auto simp: probe_call_def one)
  have "answered m (scene h)" if "\<not> isl r"
  proof -
    from one have "fst (m (ho_rpc h)) = r" by (auto simp: at_rpc_def split: prod.splits)
    moreover have "URLs (rs_client (ho_rpc h)) = snd (snd (snd (scene h)))" by (simp add: scene_def)
    ultimately show ?thesis using that unfolding answered_def by (cases r) auto
  qed
  with at_rpc_scene [OF assms one] show "scene h' = scene h \<and> (no_fatal cs \<longrightarrow> answered m (scene h))"
    by (simp add: cs)
qed

lemma node_calls_pool:
  "keeps same_pool (fetch_block ev n)" "keeps same_pool (fetch_results ev n)"
  "keeps same_pool (TxSearch ev q k out1 z1)" "keeps same_pool (Blockchain ev low high out2 z2)"
  using rpc_get_pool
  by (simp_all add: fetch_block_def fetch_results_def get_block_def get_block_results_def TxSearch_def Blockchain_def)

lemma retention_scene: "probeABCIRetention ev tip h = (cs, h') \<Longrightarrow> scene h' = scene h"
  using at_rpc_scene [OF node_calls_pool(4)] at_rpc_scene [OF node_calls_pool(2)]
  by (fastforce simp: probeABCIRetention_def Let_def split: prod.splits sum.splits if_splits)

lemma indexer_scene: "probeTxIndexer ev height h = (cs, h') \<Longrightarrow> scene h' = scene h"
  using at_rpc_scene [OF node_calls_pool(3)]
  by (fastforce simp: probeTxIndexer_def split: prod.splits sum.splits)

text \<open>What the node has to serve.\<close>

definition node_serves :: "doctor_inputs \<Rightarrow> int \<Rightarrow> int \<Rightarrow> scene_view \<Rightarrow> bool" where
  "node_serves d earliest tip x \<longleftrightarrow>
     answered (fetch_block (di_rpc d) earliest) x \<and> answered (fetch_results (di_rpc d) earliest) x \<and>
     (0 < di_start d \<and> earliest \<le> di_start d \<and> di_start d \<le> tip \<longrightarrow> answered (fetch_results (di_rpc d) (di_start d)) x) \<and>
     answered (fetch_results (di_rpc d) tip) x"

lemma node_probes_attested: "attested (node_serves d (dp_earliest auth) (dp_tip auth)) (node_probes d auth)"
proof -
  let ?ev = "di_rpc d"
  let ?at = "0 < di_start d \<and> dp_earliest auth \<le> di_start d \<and> di_start d \<le> dp_tip auth"
  have start: "attested (\<lambda>x. ?at \<longrightarrow> answered (fetch_results ?ev (di_start d)) x)
     (if ?at then probe_call (''coverage at start='' @ dec_int (di_start d)) (fetch_results ?ev (di_start d)) else (\<lambda>h. ([], h)))"
    using probe_call_attested [OF node_calls_pool(2)] attested_nothing by (auto intro: attested_weaken)
  have retention: "attested (\<lambda>x. True) (probeABCIRetention ?ev (dp_tip auth))"
    and indexer: "attested (\<lambda>x. True) (probeTxIndexer ?ev (dp_tip auth))"
    using retention_scene indexer_scene by (auto simp: attested_def)
  note calls = probe_call_attested [OF node_calls_pool(1)] probe_call_attested [OF node_calls_pool(2)]
  show ?thesis
    unfolding node_probes_def Let_def
    by (rule attested_weaken [OF attested_after [OF calls(1) attested_after [OF calls(2) attested_after [OF start
            attested_after [OF calls(2) attested_after [OF retention indexer]]]]]])
      (simp add: node_serves_def)
qed

section \<open>The database\<close>

lemma probe_each_scene:
  assumes "\<And>x h ys h'. f x h = (ys, h') \<Longrightarrow> scene h' = scene h"
  shows "probe_each f xs h = (ys, h') \<Longrightarrow> scene h' = scene h"
proof (induction xs arbitrary: h ys)
  case (Cons x xs)
  obtain zs h1 us h2 where "f x h = (zs, h1)" "probe_each f xs h1 = (us, h2)" by (metis surj_pair)
  with Cons assms show ?case by force
qed simp

text \<open>Without faults, a query that finds nothing anywhere has found nothing in this catalog.\<close>

lemma probe_each_none:
  assumes "\<And>x h ys h'. f x h = (ys, h') \<Longrightarrow> scene h' = scene h"
    and "\<And>x h. sx_fault (ho_service h) = (\<lambda>_. None) \<Longrightarrow> fst (f x h) = [] \<longleftrightarrow> P x (ho_catalog h)"
    and "probe_each f xs h = ([], h')" "sx_fault (ho_service h) = (\<lambda>_. None)"
  shows "\<forall>x \<in> set xs. P x (ho_catalog h)"
  using assms(3,4)
proof (induction xs arbitrary: h)
  case (Cons x xs)
  obtain zs h1 us h2 where one: "f x h = (zs, h1)" and rest: "probe_each f xs h1 = (us, h2)" by (metis surj_pair)
  with Cons.prems have none: "zs = []" "probe_each f xs h1 = ([], h')" by simp_all
  from assms(1) [OF one] have same: "ho_catalog h1 = ho_catalog h" "sx_fault (ho_service h1) = (\<lambda>_. None)"
    using Cons.prems(2) by (simp_all add: scene_def)
  from Cons.IH [OF none(2) same(2)] assms(2) [of h x] one none(1) Cons.prems(2) show ?case by (simp add: same)
qed simp

definition trigger_off :: "string \<times> string \<times> string \<Rightarrow> catalog \<Rightarrow> bool" where
  "trigger_off stt c \<longleftrightarrow> (case trigger_state stt c of Inl e \<Rightarrow> True | Inr enabled \<Rightarrow> enabled = CHR ''D'')"

definition column_present :: "string \<times> string \<times> string \<Rightarrow> catalog \<Rightarrow> bool" where
  "column_present stc c \<longleftrightarrow>
     (case stc of (s, t, col) \<Rightarrow> table_present (s @ ''.'' @ t) c \<longrightarrow> col \<in> set (visible_columns c (s @ ''.'' @ t)))"

definition database_ready :: "scene_view \<Rightarrow> bool" where
  "database_ready x \<longleftrightarrow>
     (case x of (c, d, fault, urls) \<Rightarrow> fault = (\<lambda>_. None) \<longrightarrow>
        (\<forall>stt \<in> set droppedTriggers. trigger_off stt c) \<and> (\<forall>stc \<in> set canonicalColumns. column_present stc c) \<and>
        (''structs'' \<in> set (ct_schemas c) \<longrightarrow> (\<forall>t \<in> set apiProjectionTables. table_present (in_structs t) c)))"

lemma still_on_scene: "still_on stt h = (ys, h') \<Longrightarrow> scene h' = scene h"
  by (auto simp: still_on_def split: prod.splits sum.splits dest: ask_scene)

lemma missing_column_scene: "missing_column stc h = (ys, h') \<Longrightarrow> scene h' = scene h"
  by (fastforce simp: missing_column_def Let_def split: prod.splits sum.splits if_splits dest: ask_scene)

lemma missing_projection_scene: "missing_projection t h = (ys, h') \<Longrightarrow> scene h' = scene h"
  by (auto simp: missing_projection_def split: prod.splits dest: ask_scene)

lemma still_on_none:
  "sx_fault (ho_service h) = (\<lambda>_. None) \<Longrightarrow> fst (still_on stt h) = [] \<longleftrightarrow> trigger_off stt (ho_catalog h)"
  using ask_answers [of h "trigger_state stt"]
  by (auto simp: still_on_def trigger_off_def split: prod.splits sum.splits)

lemma missing_projection_none:
  "sx_fault (ho_service h) = (\<lambda>_. None) \<Longrightarrow>
     fst (missing_projection t h) = [] \<longleftrightarrow> table_present (in_structs t) (ho_catalog h)"
  using ask_answers [of h "Inr \<circ> table_present (in_structs t)"]
  by (auto simp: missing_projection_def split: prod.splits)

lemma missing_column_none:
  assumes "sx_fault (ho_service h) = (\<lambda>_. None)"
  shows "fst (missing_column stc h) = [] \<longleftrightarrow> column_present stc (ho_catalog h)"
proof -
  obtain s t col where stc: "stc = (s, t, col)" by (cases stc)
  let ?rel = "s @ ''.'' @ t"
  obtain r h1 where one: "ask (Inr \<circ> table_present ?rel) h = (r, h1)" by force
  have r: "r = Inr (table_present ?rel (ho_catalog h))"
    using ask_answers [OF assms, of "Inr \<circ> table_present ?rel"] one by simp
  have same: "ho_catalog h1 = ho_catalog h" "sx_fault (ho_service h1) = (\<lambda>_. None)"
    using ask_scene [OF one] assms by (simp_all add: scene_def)
  from ask_answers [OF same(2), of "\<lambda>c. Inr (col \<in> set (visible_columns c ?rel))"] one r show ?thesis
    by (auto simp: missing_column_def column_present_def stc Let_def same(1) split: prod.splits sum.splits)
qed

lemma triggers_attested:
  "attested (\<lambda>(c, d, fault, urls). fault = (\<lambda>_. None) \<longrightarrow> (\<forall>stt \<in> set droppedTriggers. trigger_off stt c)) probeDroppedTriggers"
proof (rule attestedI)
  fix h cs h'
  assume run: "probeDroppedTriggers h = (cs, h')"
  obtain on h1 where each: "probe_each still_on droppedTriggers h = (on, h1)" by force
  from probe_each_scene [OF still_on_scene each] probe_each_none [where f = still_on and xs = droppedTriggers and h = h and h' = h1, OF still_on_scene still_on_none]
    run each
  show "scene h' = scene h \<and> (no_fatal cs \<longrightarrow>
      (case scene h of (c, d, fault, urls) \<Rightarrow> fault = (\<lambda>_. None) \<longrightarrow> (\<forall>stt \<in> set droppedTriggers. trigger_off stt c)))"
    by (auto simp: probeDroppedTriggers_def scene_def)
qed

lemma columns_attested:
  "attested (\<lambda>(c, d, fault, urls). fault = (\<lambda>_. None) \<longrightarrow> (\<forall>stc \<in> set canonicalColumns. column_present stc c)) probeCanonicalSchema"
proof (rule attestedI)
  fix h cs h'
  assume run: "probeCanonicalSchema h = (cs, h')"
  obtain missing h1 where each: "probe_each missing_column canonicalColumns h = (missing, h1)" by force
  from probe_each_scene [OF missing_column_scene each]
    probe_each_none [where f = missing_column and xs = canonicalColumns and h = h and h' = h1, OF missing_column_scene missing_column_none] run each
  show "scene h' = scene h \<and> (no_fatal cs \<longrightarrow>
      (case scene h of (c, d, fault, urls) \<Rightarrow> fault = (\<lambda>_. None) \<longrightarrow> (\<forall>stc \<in> set canonicalColumns. column_present stc c)))"
    by (auto simp: probeCanonicalSchema_def scene_def)
qed

lemma projections_attested:
  "attested (\<lambda>(c, d, fault, urls). fault = (\<lambda>_. None) \<longrightarrow> ''structs'' \<in> set (ct_schemas c) \<longrightarrow>
     (\<forall>t \<in> set apiProjectionTables. table_present (in_structs t) c)) probeAPIProjectionSchema"
proof (rule attestedI)
  fix h cs h'
  assume run: "probeAPIProjectionSchema h = (cs, h')"
  let ?q = "\<lambda>c. Inr (''structs'' \<in> set (ct_schemas c))"
  obtain r h0 where ask: "ask ?q h = (r, h0)" by force
  obtain missing h1 where each: "probe_each missing_projection apiProjectionTables h0 = (missing, h1)" by force
  have s0: "scene h0 = scene h" using ask_scene [OF ask] by simp
  have s1: "scene h1 = scene h0" by (rule probe_each_scene [OF missing_projection_scene each])
  have done': "(cs, h') = (if r \<noteq> Inr True then ([], h0)
      else ([graded ''api projection schema'' (grade_if (missing = []) FATAL)], h1))"
    using run by (simp add: probeAPIProjectionSchema_def ask each split: if_splits)
  have "\<forall>t \<in> set apiProjectionTables. table_present (in_structs t) (ho_catalog h)"
    if ok: "no_fatal cs" "sx_fault (ho_service h) = (\<lambda>_. None)" "''structs'' \<in> set (ct_schemas (ho_catalog h))"
  proof -
    have "r = Inr True" using ask_answers [OF ok(2), of ?q] ask ok(3) by simp
    then have "missing = []" using done' ok(1) by simp
    moreover have "sx_fault (ho_service h0) = (\<lambda>_. None)" "ho_catalog h0 = ho_catalog h"
      using s0 ok(2) by (simp_all add: scene_def)
    ultimately show ?thesis
      using probe_each_none [where f = missing_projection and xs = apiProjectionTables and h = h0 and h' = h1, OF missing_projection_scene missing_projection_none] each
      by simp
  qed
  then show "scene h' = scene h \<and> (no_fatal cs \<longrightarrow>
      (case scene h of (c, d, fault, urls) \<Rightarrow> fault = (\<lambda>_. None) \<longrightarrow> ''structs'' \<in> set (ct_schemas c) \<longrightarrow>
         (\<forall>t \<in> set apiProjectionTables. table_present (in_structs t) c)))"
    using done' s0 s1 by (auto simp: scene_def split: if_splits)
qed

lemma other_probes_attested:
  "attested (\<lambda>x. True) probePlanetActivityAttribute" "attested (\<lambda>x. True) probePlanetActivityPlayerLag"
  "attested (\<lambda>x. True) (probeConcurrentUpdateCache now)"
proof -
  show "attested (\<lambda>x. True) probePlanetActivityAttribute"
    by (rule attestedI) (fastforce simp: probePlanetActivityAttribute_def split: prod.splits sum.splits if_splits dest: ask_scene)
  show "attested (\<lambda>x. True) probePlanetActivityPlayerLag"
    by (rule attestedI) (fastforce simp: probePlanetActivityPlayerLag_def Let_def split: prod.splits sum.splits if_splits dest: ask_scene)
  show "attested (\<lambda>x. True) (probeConcurrentUpdateCache now)"
    by (rule attestedI) (fastforce simp: probeConcurrentUpdateCache_def split: prod.splits sum.splits option.splits if_splits dest: ask_scene)
qed

lemma database_probes_attested: "attested database_ready (database_probes d)"
proof -
  have last': "attested (\<lambda>x. True) (if di_skip_cache d then (\<lambda>h. ([], h)) else probeConcurrentUpdateCache (di_now d))"
    using other_probes_attested(3) attested_nothing by simp
  show ?thesis
    unfolding database_probes_def
    by (rule attested_weaken [OF attested_after [OF triggers_attested attested_after [OF columns_attested
            attested_after [OF projections_attested attested_after [OF other_probes_attested(1)
            attested_after [OF other_probes_attested(2) last']]]]]])
      (simp add: database_ready_def split: prod.splits)
qed

section \<open>Sound\<close>

lemma probe_url_scene: "probe_url d u h = (eps, h') \<Longrightarrow> scene h' = scene h"
proof -
  assume run: "probe_url d u h = (eps, h')"
  obtain ep h1 where one: "probeEndpoint (di_rpc d) (snd u) (fst u) h = (ep, h1)" by force
  then have "scene h1 = scene h"
    using at_rpc_scene [OF StatusOf_pool] by (fastforce simp: probeEndpoint_def split: prod.splits sum.splits)
  with run one show ?thesis by (auto simp: probe_url_def)
qed




lemma doctor_scene: "doctor_Run d h = (r, h') \<Longrightarrow> scene h' = scene h"
proof -
  assume run: "doctor_Run d h = (r, h')"
  let ?urls = "URLs (rs_client (ho_rpc h))"
  obtain eps h1 where each: "probe_each (probe_url d) (zip ?urls (True # replicate (length ?urls) False)) h = (eps, h1)" by force
  obtain checks h2 where probes:
    "after_probe (node_probes d (authoritativeEndpoint eps)) (database_probes d) h1 = (checks, h2)" by force
  have "h' = h \<or> h' = h1 \<or> h' = h2"
    using run each probes by (auto simp: doctor_Run_def Let_def split: if_splits)
  moreover have "scene h1 = scene h" by (rule probe_each_scene [OF probe_url_scene each])
  moreover from attestedD [OF attested_after [OF node_probes_attested database_probes_attested] probes]
  have "scene h2 = scene h1" by simp
  ultimately show ?thesis by auto
qed




definition live_host :: host where
  "live_host = (example_host (\<lambda>_. None) (deployed [''structs.fleet'']) empty_tables)
     \<lparr>ho_rpc := \<lparr>rs_client = NewClient [''http://a''] 0, rs_tick = 0\<rparr>\<rparr>"




text \<open>A trigger that is still enabled is fatal.\<close>

lemma enabled_trigger_fatal:
  "fst (probeDroppedTriggers (live_host\<lparr>ho_catalog := (ho_catalog live_host)\<lparr>ct_triggers :=
     [\<lparr>tg_schema = ''structs'', tg_table = ''planet'', tg_name = ''name_planet'', tg_enabled = CHR ''O''\<rparr>]\<rparr>\<rparr>))
   = [graded ''cache-era triggers'' FATAL]"
  by code_simp

end
