(* ===== verification/Commands.thy ===== *)
theory Commands
  imports Doctor Verify Reprocess Registry Config
begin

text \<open>
  \<open>internal/sync/subcmd.go\<close>, \<open>reconcile.go\<close> and \<open>internal/db/pool.go\<close>: the subcommands, which
  compose everything else.

  A command is an operation on the \<open>host\<close>.  Its result is its exit code, or none while the
  ingester is still running; an error is its last message, after which it exits with 1.  A
  \<open>process\<close> is what the command was started with and what it finds outside the database:
  the steps of a connection that fail, the advisory locks other sessions hold, the
  node, the gateway, a genesis file, random bytes, and what the loop sees (\<open>px_inputs\<close>).
  The two requests for a block run at the same time; here one follows the other.
\<close>

section \<open>The connection and the writer lock\<close>

record process =
  px_config :: config
  px_connect :: "string \<Rightarrow> goerror option"
  px_locked :: "int \<Rightarrow> bool"
  px_rpc :: rpc_env
  px_gateway :: lcd_client
  px_views :: projections
  px_sha256 :: "string \<Rightarrow> string"
  px_file :: "string res"
  px_random :: "nat list res"
  px_dial :: "string \<Rightarrow> bool"
  px_now :: int
  px_verify :: verify_inputs
  px_newest_cursor :: "tables \<Rightarrow> string option"
  px_blocks :: "int \<Rightarrow> block_result res"
  px_results :: "int \<Rightarrow> block_results res"
  px_inputs :: "inputs list"

text \<open>FNV-1a.\<close>

definition fnv_step :: "char \<Rightarrow> 64 word \<Rightarrow> 64 word" where
  "fnv_step c h = (h XOR of_nat (of_char c)) * 1099511628211"

definition writerLockID :: "string \<Rightarrow> int" where
  "writerLockID chain = sint (fold fnv_step (''sync-state-'' @ chain) (14695981039346656037 :: 64 word))"

definition connect_step :: "process \<Rightarrow> string \<Rightarrow> (host, unit) op" where
  "connect_step p msg = liftO (case px_connect p msg of None \<Rightarrow> Inr () | Some e \<Rightarrow> Inl (wrapf msg e))"

definition acquireWriterLock :: "process \<Rightarrow> string \<Rightarrow> (host, unit) op" where
  "acquireWriterLock p chain =
     bindO (connect_step p ''open lock conn: '') (\<lambda>_.
     bindO (connect_step p ''pg_try_advisory_lock: '') (\<lambda>_.
     guardO (\<not> px_locked p (writerLockID chain))
       (errorf (''another sync-state already holds the writer lock for chain '' @ chain
          @ '' (lock_id='' @ dec_int (writerLockID chain) @ '')''))))"

definition db_New :: "process \<Rightarrow> string \<Rightarrow> (host, unit) op" where
  "db_New p chain =
     bindO (connect_step p ''parse db url: '') (\<lambda>_.
     bindO (connect_step p ''open pool: '') (\<lambda>_.
     bindO (connect_step p ''ping: '') (\<lambda>_.
     acquireWriterLock p chain)))"

definition open_client :: "process \<Rightarrow> (host, unit) op" where
  "open_client p =
     modifyO (\<lambda>h. h\<lparr>ho_rpc := (ho_rpc h)\<lparr>rs_client :=
       NewClient (RPCURLs (px_config p)) (cf_http_max_retries (px_config p))\<rparr>\<rparr>)"

definition lockChainID :: "string \<Rightarrow> string \<Rightarrow> string" where
  "lockChainID chain fallback = (if chain \<noteq> [] then chain else ''sync-state-'' @ fallback)"

definition recoverChainIDFromCursor :: "process \<Rightarrow> host \<Rightarrow> string \<times> host" where
  "recoverChainIDFromCursor p h =
     (case at_service (pool_query (px_newest_cursor p)) h of
        (Inr (Some c), h1) \<Rightarrow> (c, h1)
      | (_, h1) \<Rightarrow> ([], h1))"

section \<open>Small commands\<close>

type_synonym command = "(host, int option) op"

definition exits :: "int \<Rightarrow> command" where
  "exits code = returnO (Some code)"

definition runListHandlers :: command where
  "runListHandlers = bindO (liftO (NewRouter False AllHandlers)) (\<lambda>r. exits 0)"

definition runBootstrap :: "process \<Rightarrow> command" where
  "runBootstrap p =
     bindO (wrapO ''bootstrap: db connect: '' (db_New p ''bootstrap'')) (\<lambda>_.
     bindO (wrapO ''bootstrap: '' Bootstrap) (\<lambda>_.
     exits 0))"

text \<open>The chain the node names; without an answer it is empty.\<close>

definition status_or_nothing :: "process \<Rightarrow> (host, string) op" where
  "status_or_nothing p h =
     (case at_rpc (Status (px_rpc p)) h of
        (Inl e, h1) \<Rightarrow> (Inr [], h1)
      | (Inr st, h1) \<Rightarrow> (Inr (ss_network st), h1))"

definition verify_inputs_of :: "process \<Rightarrow> string \<Rightarrow> verify_inputs" where
  "verify_inputs_of p chain =
     (px_verify p)\<lparr>vi_rpc := Some (px_rpc p), vi_chain := chain, vi_lag_warn := cf_verify_lag_warn (px_config p),
        vi_mirror_raw := cf_mirror_raw (px_config p), vi_views := px_views p\<rparr>"

definition verify_chain :: "process \<Rightarrow> string \<Rightarrow> (host, string) op" where
  "verify_chain p chain h =
     (if chain \<noteq> [] then (Inr chain, h)
      else case recoverChainIDFromCursor p h of (c, h1) \<Rightarrow> (Inr c, h1))"

definition run_verification :: "process \<Rightarrow> string \<Rightarrow> command" where
  "run_verification p chain h =
     (case verify_Run (verify_inputs_of p chain) (px_random p) (cf_verify_errors_only (px_config p))
         (cf_verify_write_report (px_config p)) h of
        ((rs, code), h1) \<Rightarrow> (Inr (Some code), h1))"

definition runVerify :: "process \<Rightarrow> command" where
  "runVerify p =
     bindO (open_client p) (\<lambda>_.
     bindO (status_or_nothing p) (\<lambda>c.
     bindO (wrapO ''verify: db connect: '' (db_New p (''verify:'' @ lockChainID c ''verify''))) (\<lambda>_.
     bindO (verify_chain p c) (\<lambda>chain.
     bindO (guardO (chain \<noteq> []) (errorf ''verify: no chain_id from RPC and no cursor row yet; nothing to check'')) (\<lambda>_.
     run_verification p chain)))))"

definition router_of :: "process \<Rightarrow> (host, router) op" where
  "router_of p = liftO (NewRouter (cf_strict_unknown_events (px_config p)) AllHandlers)"

definition parts_of :: "process \<Rightarrow> router \<Rightarrow> parts" where
  "parts_of p r = \<lparr>en_router = r, en_views = px_views p, en_sha256 = px_sha256 p\<rparr>"

definition replay_inputs_of :: "process \<Rightarrow> string \<Rightarrow> router \<Rightarrow> replay_inputs" where
  "replay_inputs_of p chain r =
     (let c = px_config p in
      \<lparr>ri_parts = parts_of p r, ri_chain = chain, ri_key = cf_reprocess_composite_key c,
       ri_severity = cf_reprocess_severity c, ri_since = cf_reprocess_since c, ri_until = cf_reprocess_until c,
       ri_limit = cf_reprocess_limit c, ri_dry = cf_reprocess_dry_run c, ri_block = px_blocks p, ri_results = px_results p\<rparr>)"

definition run_reprocess :: "replay_inputs \<Rightarrow> command" where
  "run_reprocess ri h =
     (case reprocess_Run ri (ho_service h) of ((os, code), s) \<Rightarrow> (Inr (Some code), h\<lparr>ho_service := s\<rparr>))"

definition runReprocessErrors :: "process \<Rightarrow> command" where
  "runReprocessErrors p =
     bindO (open_client p) (\<lambda>_.
     bindO (wrapO ''reprocess-errors: rpc /status: '' (at_rpc (Status (px_rpc p)))) (\<lambda>st.
     bindO (wrapO ''reprocess-errors: db connect: '' (db_New p (ss_network st))) (\<lambda>_.
     bindO (wrapO ''reprocess-errors: '' CheckEconomySchema) (\<lambda>_.
     bindO (router_of p) (\<lambda>r.
     run_reprocess (replay_inputs_of p (ss_network st) r))))))"

definition doctor_inputs_of :: "process \<Rightarrow> string \<Rightarrow> doctor_inputs" where
  "doctor_inputs_of p chain =
     \<lparr>di_rpc = px_rpc p, di_dial = px_dial p, di_now = px_now p, di_chain = chain,
      di_start = cf_start_height (px_config p), di_skip_cache = False, di_websocket = cf_tip_websocket (px_config p)\<rparr>"

definition examine :: "process \<Rightarrow> string \<Rightarrow> (host, bool) op" where
  "examine p chain h = (case doctor_Run (doctor_inputs_of p chain) h of (r, h1) \<Rightarrow> (Inr (dx_fatal r), h1))"

definition runDoctor :: "process \<Rightarrow> command" where
  "runDoctor p =
     bindO (open_client p) (\<lambda>_.
     bindO (wrapO ''doctor: rpc /status: '' (at_rpc (Status (px_rpc p)))) (\<lambda>st.
     bindO (wrapO ''doctor: db connect: '' (db_New p (ss_network st))) (\<lambda>_.
     bindO (examine p (ss_network st)) (\<lambda>fatal.
     exits (if fatal then 1 else 0)))))"

section \<open>Genesis\<close>

definition loadGenesisDocument :: "process \<Rightarrow> (host, loaded_document) op" where
  "loadGenesisDocument p =
     (if cf_genesis_file (px_config p) \<noteq> []
      then liftO (LoadFromFile (px_sha256 p) (cf_genesis_file (px_config p)) (px_file p))
      else at_rpc (load_genesis (px_sha256 p) (px_rpc p)))"

text \<open>The chain for the lock: the node's, or none when it does not answer and a file is given.\<close>

definition genesis_chain :: "process \<Rightarrow> (host, string) op" where
  "genesis_chain p =
     (if cf_genesis_file (px_config p) = []
      then bindO (wrapO ''init-genesis: rpc /status: '' (at_rpc (Status (px_rpc p)))) (\<lambda>st. returnO (ss_network st))
      else status_or_nothing p)"

definition apply_genesis :: "process \<Rightarrow> string \<Rightarrow> loaded_document \<Rightarrow> command" where
  "apply_genesis p chain loaded =
     bindO (wrapO ''init-genesis: read genesis_log: '' (at_service (ReadGenesisLog chain))) (\<lambda>existing.
     if existing \<noteq> None \<and> \<not> cf_force_genesis (px_config p) then exits 0
     else bindO (wrapO ''init-genesis: apply: '' (at_service (Apply loaded))) (\<lambda>report. exits 0))"

definition runInitGenesis :: "process \<Rightarrow> command" where
  "runInitGenesis p =
     bindO (open_client p) (\<lambda>_.
     bindO (genesis_chain p) (\<lambda>chain.
     bindO (wrapO ''init-genesis: db connect: '' (db_New p (lockChainID chain ''init-genesis''))) (\<lambda>_.
     bindO (wrapO ''init-genesis: bootstrap: '' Bootstrap) (\<lambda>_.
     bindO (wrapO ''init-genesis: '' CheckEconomySchema) (\<lambda>_.
     bindO (wrapO ''init-genesis: '' (loadGenesisDocument p)) (\<lambda>loaded.
     bindO (guardO (\<not> (chain \<noteq> [] \<and> dc_chain (ld_doc loaded) \<noteq> chain))
       (errorf (''init-genesis: REFUSING: genesis chain_id='' @ dc_chain (ld_doc loaded) @ '' != RPC chain_id='' @ chain))) (\<lambda>_.
     apply_genesis p (if chain = [] then dc_chain (ld_doc loaded) else chain) loaded)))))))"

section \<open>Reconciliation of the current block\<close>

definition fetched_bundle :: "process \<Rightarrow> string \<Rightarrow> int \<Rightarrow> (host, block_bundle) op" where
  "fetched_bundle p chain height h =
     (case at_rpc (fetch_block (px_rpc p) height) h of (b, h1) \<Rightarrow>
       (case at_rpc (fetch_results (px_rpc p) height) h1 of (r, h2) \<Rightarrow> (fetchBundle chain height b r, h2)))"

definition reconcile_command :: "process \<Rightarrow> command" where
  "reconcile_command p =
     (if cf_start_height (px_config p) \<le> 0 then exits 2
      else
        bindO (open_client p) (\<lambda>_.
        bindO (wrapO ''reconcile-current-block: RPC status: '' (at_rpc (Status (px_rpc p)))) (\<lambda>st.
        bindO (wrapO ''reconcile-current-block: '' (db_New p (ss_network st))) (\<lambda>_.
        bindO (wrapO ''reconcile-current-block: schema: '' CheckEconomySchema) (\<lambda>_.
        bindO (router_of p) (\<lambda>r.
        bindO (wrapO ''reconcile-current-block: source: ''
          (fetched_bundle p (ss_network st) (cf_start_height (px_config p)))) (\<lambda>b.
        bindO (wrapO ''reconcile-current-block: ''
          (at_service (runReconcileCurrentBlock (parts_of p r) (px_config p) b (Latest st)))) (\<lambda>_.
        exits 0))))))))"

section \<open>Ingest\<close>

text \<open>Up to the examination.  The summary of unresolved errors is only printed.\<close>

definition ingest_opened :: "process \<Rightarrow> (host, status_result) op" where
  "ingest_opened p =
     bindO (open_client p) (\<lambda>_.
     bindO (wrapO ''rpc /status: '' (at_rpc (Status (px_rpc p)))) (\<lambda>st.
     bindO (wrapO ''db connect: '' (db_New p (ss_network st))) (\<lambda>_.
     bindO (wrapO ''bootstrap: '' Bootstrap) (\<lambda>_.
     bindO (wrapO ''schema compatibility: '' CheckEconomySchema) (\<lambda>_.
     bindO (attempt (at_service (pool_query (UnresolvedErrorSummary (ss_network st))))) (\<lambda>_.
     bindO (whenO (\<not> cf_skip_doctor (px_config p))
       (bindO (examine p (ss_network st)) (\<lambda>fatal.
         guardO (\<not> fatal) (errorf ''refusing to start ingest: doctor reported FATAL'')))) (\<lambda>_.
     returnO st)))))))"

text \<open>The reorganisation check, with the block as the node returns it now.\<close>

definition reorg_check :: "process \<Rightarrow> string \<Rightarrow> (host, unit) op" where
  "reorg_check p chain h =
     (let answer = (\<lambda>n. fetch_block (px_rpc p) n (ho_rpc h));
          c = ReadCursor chain (sx_db (ho_service h)) in
      case at_service (CheckReorg chain (\<lambda>n. fst (answer n))) h of
        (r, h1) \<Rightarrow> (r,
          if sx_fault (ho_service h) (sx_clock (ho_service h)) \<noteq> None \<or> c_height c = 0 \<or> c_hash c = [] then h1
          else h1\<lparr>ho_rpc := snd (answer (c_height c))\<rparr>))"

definition ingest_start :: "process \<Rightarrow> status_result \<Rightarrow> (host, int) op" where
  "ingest_start p st =
     bindO (reorg_check p (ss_network st)) (\<lambda>_.
     bindO (wrapO ''resolve start: ''
       (at_service (ResolveStart (ss_network st) (cf_start_height (px_config p)) (Earliest st)))) (\<lambda>start.
     bindO (wrapO ''refusing to start ingest: ''
       (at_service (GuardReplay (ss_network st) start (cf_allow_replay (px_config p))))) (\<lambda>(from', notice).
     returnO from')))"

definition auto_apply :: "process \<Rightarrow> string \<Rightarrow> (host, unit) op" where
  "auto_apply p chain =
     bindO (wrapO ''ingest: genesis load: '' (loadGenesisDocument p)) (\<lambda>loaded.
     bindO (guardO (dc_chain (ld_doc loaded) = chain)
       (errorf (''ingest: REFUSING: genesis chain_id='' @ dc_chain (ld_doc loaded) @ '' != RPC chain_id='' @ chain))) (\<lambda>_.
     bindO (wrapO ''ingest: genesis apply: '' (at_service (Apply loaded))) (\<lambda>_.
     returnO ())))"

definition genesis_gate :: "process \<Rightarrow> string \<Rightarrow> int \<Rightarrow> (host, unit) op" where
  "genesis_gate p chain start h =
     (case at_service (ReadGenesisLog chain) h of
        (Inl e, h1) \<Rightarrow> (Inr (), h1)
      | (Inr (Some row), h1) \<Rightarrow> (Inr (), h1)
      | (Inr None, h1) \<Rightarrow>
          if start \<le> 1 \<and> cf_genesis_auto_apply (px_config p) then auto_apply p chain h1 else (Inr (), h1))"

definition at_sweep :: "(service \<times> nat, 'a) op \<Rightarrow> (host, 'a) op" where
  "at_sweep m h = (case m (ho_service h, ho_gateway h) of (r, s, n) \<Rightarrow> (r, h\<lparr>ho_service := s, ho_gateway := n\<rparr>))"

text \<open>The sweeps: whatever fails is a warning.\<close>

definition ingest_sweeps :: "process \<Rightarrow> string \<Rightarrow> (host, unit) op" where
  "ingest_sweeps p chain =
     (let cfg = px_config p in
      bindO (whenO (cf_player_rank_sweep cfg)
        (attempt (at_sweep (SweepPlayerRanks (px_gateway p) (cf_lcd_page_limit cfg) chain)))) (\<lambda>_.
      bindO (whenO (cf_planet_attribute_sweep cfg)
        (attempt (at_sweep (SweepPlanetAttributes (px_gateway p) (cf_lcd_page_limit cfg) chain)))) (\<lambda>_.
      bindO (attempt (at_service SweepStaleDefenders)) (\<lambda>_.
      attempt (at_service SweepDefenderPlanetary)))))"

definition require_coverage :: "cursor \<Rightarrow> (service, unit) op" where
  "require_coverage c =
     (if \<not> V022Active (c_chain c) (c_height c) then returnO ()
      else bindO (pool_query (RequireEconomyCoverage c)) liftO)"

definition ConsumeDriftOn :: "projections \<Rightarrow> (service, nat) op" where
  "ConsumeDriftOn P = pool_tx_value [] [] (consumeDriftReady P)"

definition defers :: "config \<Rightarrow> bool \<Rightarrow> int \<Rightarrow> int \<Rightarrow> bool" where
  "defers cfg needed tip reached \<longleftrightarrow>
     needed \<and> cf_bulk_enabled cfg \<and> cf_bulk_defer_projections cfg \<and> cf_bulk_lag_threshold cfg \<le> tip - reached"

text \<open>Whether the projections are left stale for the bulk mode.\<close>

definition ingest_projections :: "process \<Rightarrow> string \<Rightarrow> int \<Rightarrow> (host, bool) op" where
  "ingest_projections p chain tip =
     bindO (wrapO ''ingest: read projection boundary: '' (at_service (pool_query (ReadCursor chain)))) (\<lambda>c.
     bindO (wrapO ''ingest: '' (at_service (require_coverage c))) (\<lambda>_.
     bindO (wrapO ''ingest: inspect API projection backfill state: ''
       (at_service (pool_query (NeedsBackfill (c_height c))))) (\<lambda>needed.
     if defers (px_config p) needed tip (c_height c) then returnO True
     else if needed then
       bindO (wrapO ''ingest: API projection backfill: ''
         (at_service (Backfill (px_views p) (c_height c) (Some (c_time c))))) (\<lambda>_. returnO False)
     else
       bindO (wrapO ''ingest: consume api_inventory_drift: '' (at_service (ConsumeDriftOn (px_views p)))) (\<lambda>n.
       returnO False))))"

text \<open>The syncer starts with an empty count of unknown events.\<close>

definition start_state :: "bool \<Rightarrow> int \<Rightarrow> service \<Rightarrow> run_state" where
  "start_state stale start s =
     \<lparr>rn_service = s\<lparr>sx_unknowns := no_unknowns, sx_stale := stale\<rparr>, rn_next = start, rn_delay = 0\<rparr>"

definition run_loop :: "process \<Rightarrow> router \<Rightarrow> string \<Rightarrow> bool \<Rightarrow> int \<Rightarrow> command" where
  "run_loop p r chain stale start h =
     (case Run (parts_of p r) (px_config p) chain (px_inputs p) (start_state stale start (ho_service h)) of
        Continue st \<Rightarrow> (Inr None, h\<lparr>ho_service := rn_service st\<rparr>)
      | Stop (Inr _) st \<Rightarrow> (Inr (Some 0), h\<lparr>ho_service := rn_service st\<rparr>)
      | Stop (Inl e) st \<Rightarrow>
          (if IsContextErr e then Inr (Some 0) else Inl (wrapf ''sync: '' e), h\<lparr>ho_service := rn_service st\<rparr>))"

text \<open>Everything before the loop: the chain, the start height, and whether the projections are stale.\<close>

definition ingest_ready :: "process \<Rightarrow> (host, string \<times> int \<times> bool) op" where
  "ingest_ready p =
     bindO (ingest_opened p) (\<lambda>st.
     bindO (ingest_start p st) (\<lambda>start.
     bindO (genesis_gate p (ss_network st) start) (\<lambda>_.
     bindO (wrapO ''ingest: '' ValidateSchema) (\<lambda>_.
     bindO (ingest_sweeps p (ss_network st)) (\<lambda>_.
     bindO (ingest_projections p (ss_network st) (Latest st)) (\<lambda>stale.
     returnO (ss_network st, start, stale)))))))"

definition runIngest :: "process \<Rightarrow> command" where
  "runIngest p =
     bindO (ingest_ready p) (\<lambda>(chain, start, stale).
     bindO (router_of p) (\<lambda>r.
     run_loop p r chain stale start))"

section \<open>Dispatching a subcommand\<close>

datatype subcommand =
    CmdIngest | CmdBootstrap | CmdDoctor | CmdListHandlers | CmdReplay | CmdRewind | CmdVerify | CmdInspect
  | CmdReprocessErrors | CmdInitGenesis | CmdReconcileCurrentBlock

definition subcommands :: "(string \<times> subcommand) list" where
  "subcommands =
     [(''ingest'', CmdIngest), (''bootstrap'', CmdBootstrap), (''doctor'', CmdDoctor),
      (''list-handlers'', CmdListHandlers), (''replay'', CmdReplay), (''rewind'', CmdRewind), (''verify'', CmdVerify),
      (''inspect'', CmdInspect), (''reprocess-errors'', CmdReprocessErrors), (''init-genesis'', CmdInitGenesis),
      (''reconcile-current-block'', CmdReconcileCurrentBlock)]"

definition SplitArgs :: "string list \<Rightarrow> subcommand \<times> string list" where
  "SplitArgs args =
     (case args of
        [] \<Rightarrow> (CmdIngest, [])
      | a # rest \<Rightarrow> (case map_of subcommands a of Some cmd \<Rightarrow> (cmd, rest) | None \<Rightarrow> (CmdIngest, args)))"

fun command_of :: "subcommand \<Rightarrow> process \<Rightarrow> command" where
  "command_of CmdListHandlers p = runListHandlers"
| "command_of CmdBootstrap p = runBootstrap p"
| "command_of CmdDoctor p = runDoctor p"
| "command_of CmdIngest p = runIngest p"
| "command_of CmdVerify p = runVerify p"
| "command_of CmdReprocessErrors p = runReprocessErrors p"
| "command_of CmdInitGenesis p = runInitGenesis p"
| "command_of CmdReconcileCurrentBlock p = reconcile_command p"
| "command_of CmdReplay p = exits 2"
| "command_of CmdRewind p = exits 2"
| "command_of CmdInspect p = exits 2"

definition dispatch_command :: "subcommand \<Rightarrow> process \<Rightarrow> host \<Rightarrow> int option \<times> host" where
  "dispatch_command cmd p h =
     (case command_of cmd p h of
        (Inl e, h1) \<Rightarrow> (Some 1, h1)
      | (Inr code, h1) \<Rightarrow> (code, h1))"

end
