(* ===== verification/Deployed.thy ===== *)
theory Deployed
  imports Schema_Facts
begin

text \<open>
  Where the schema checks succeed: without faults the check of the economy contract is exact.  A
  deployed catalog that passes every check and that the bootstrap leaves as it is.
\<close>

section \<open>Where the checks succeed\<close>

text \<open>A host without faults, and the host after some statements that change nothing.\<close>

definition calm :: "host \<Rightarrow> bool" where
  "calm h \<longleftrightarrow> sx_fault (ho_service h) = (\<lambda>_. None)"

definition after :: "nat \<Rightarrow> host \<Rightarrow> host" where
  "after k h = h\<lparr>ho_service := (ho_service h)\<lparr>sx_clock := k\<rparr>\<rparr>"

lemma after_fields [simp]:
  "calm (after k h) = calm h" "ho_catalog (after k h) = ho_catalog h" "after j (after k h) = after j h"
  "sx_db (ho_service (after k h)) = sx_db (ho_service h)"
  by (simp_all add: calm_def after_def)

definition granted :: "(catalog \<Rightarrow> bool) \<Rightarrow> (host, unit) op \<Rightarrow> bool" where
  "granted P m \<longleftrightarrow> (\<forall>h. calm h \<and> P (ho_catalog h) \<longrightarrow> (\<exists>k. m h = (Inr (), after k h)))"

lemma grantedD: "granted P m \<Longrightarrow> calm h \<Longrightarrow> P (ho_catalog h) \<Longrightarrow> \<exists>k. m h = (Inr (), after k h)"
  by (simp add: granted_def)

lemma grantedI: "(\<And>h. calm h \<Longrightarrow> P (ho_catalog h) \<Longrightarrow> \<exists>k. m h = (Inr (), after k h)) \<Longrightarrow> granted P m"
  by (simp add: granted_def)

lemma ask_calm: "calm h \<Longrightarrow> ask g h = (g (ho_catalog h), after (Suc (sx_clock (ho_service h))) h)"
  by (auto simp: calm_def ask_def at_catalog_def after_def Let_def split: sum.splits)

lemma granted_done: "granted (\<lambda>c. True) (returnO ())"
proof (rule grantedI)
  fix h :: host
  have "h = after (sx_clock (ho_service h)) h" by (simp add: after_def)
  then show "\<exists>k. returnO () h = (Inr (), after k h)" by (auto simp: returnO_def)
qed

lemma granted_guard: "granted (\<lambda>c. b) (guardO b e)"
  using granted_done by (auto simp: granted_def guardO_def)

lemma granted_seq:
  assumes "granted P a" "granted Q b"
  shows "granted (\<lambda>c. P c \<and> Q c) (bindO a (\<lambda>_. b))"
proof (rule grantedI)
  fix h
  assume h: "calm h" "P (ho_catalog h) \<and> Q (ho_catalog h)"
  with grantedD [OF assms(1)] obtain k where "a h = (Inr (), after k h)" by blast
  with grantedD [OF assms(2), of "after k h"] h show "\<exists>k. bindO a (\<lambda>_. b) h = (Inr (), after k h)"
    by (auto simp: bindO_def)
qed

lemma granted_for:
  assumes "\<And>x. granted (P x) (f x)"
  shows "granted (\<lambda>c. \<forall>x \<in> set xs. P x c) (forO xs f)"
proof (induction xs)
  case Nil
  show ?case using granted_done by (simp add: granted_def)
next
  case (Cons x xs)
  from granted_seq [OF assms [of x] Cons.IH] show ?case by simp
qed

lemma granted_weaken: "granted P m \<Longrightarrow> (\<And>c. Q c \<Longrightarrow> P c) \<Longrightarrow> granted Q m"
  by (simp add: granted_def)

text \<open>A query, with or without a message around its error.\<close>

definition answers :: "(catalog \<Rightarrow> 'a res) \<Rightarrow> (host, 'a) op \<Rightarrow> bool" where
  "answers g m \<longleftrightarrow>
     (\<forall>h x. calm h \<and> g (ho_catalog h) = Inr x \<longrightarrow> m h = (Inr x, after (Suc (sx_clock (ho_service h))) h))"

lemma answers_ask: "answers g (ask g)"
  by (simp add: answers_def ask_calm)

lemma answers_wrap: "answers g m \<Longrightarrow> answers g (wrapO msg m)"
  by (simp add: answers_def wrapO_def)

lemma answers_around: "answers g m \<Longrightarrow> answers g (around a b m)"
  by (simp add: answers_def around_def)

lemma granted_query:
  assumes "answers g m" "\<And>x. granted (Q x) (k x)"
  shows "granted (\<lambda>c. \<exists>x. g c = Inr x \<and> Q x c) (bindO m k)"
proof (rule grantedI)
  fix h
  assume h: "calm h" "\<exists>x. g (ho_catalog h) = Inr x \<and> Q x (ho_catalog h)"
  then obtain x where x: "g (ho_catalog h) = Inr x" "Q x (ho_catalog h)" by blast
  with assms(1) h(1) have "m h = (Inr x, after (Suc (sx_clock (ho_service h))) h)" by (simp add: answers_def)
  with grantedD [OF assms(2), of "after (Suc (sx_clock (ho_service h))) h" x] h x
  show "\<exists>j. bindO m k h = (Inr (), after j h)" by (auto simp: bindO_def)
qed

lemmas granting = granted_seq granted_guard granted_query answers_wrap answers_around answers_ask

lemma granted_flag: "granted (\<lambda>c. g c = Inr True) (flag g msg)"
  unfolding flag_def
  by (rule granted_weaken [OF granted_query [where Q = "\<lambda>ok c. ok", OF answers_ask granted_guard]]) blast

lemma granted_check_column: "granted (column_ok tct) (check_column tct)"
proof -
  obtain t name need where tct: "tct = (t, name, need)" by (cases tct)
  have guard: "granted (\<lambda>c. fst tm = need \<and> (need = ''numeric'' \<longrightarrow> snd tm = - 1))
      (case tm of (ty, modifier) \<Rightarrow> guardO (\<not> (ty \<noteq> need \<or> (ty = ''numeric'' \<and> modifier \<noteq> - 1))) (e ty modifier))" for tm e
    by (cases tm) (auto intro: granted_weaken [OF granted_guard])
  show ?thesis
    unfolding check_column_def tct prod.case
    by (rule granted_weaken [OF granted_query [OF answers_around [OF answers_ask] guard]])
      (auto simp: column_ok_def column_type_def)
qed

lemma granted_check_key: "granted (key_ok tk) (check_key tk)"
proof -
  obtain t cols where tk: "tk = (t, cols)" by (cases tk)
  show ?thesis
    unfolding check_key_def tk prod.case
    by (rule granted_weaken [OF granted_query [OF answers_wrap [OF answers_ask]
          granted_seq [OF granted_guard granted_for [OF granted_flag]]]])
      (auto simp: key_ok_def)
qed

text \<open>The check of the economy schema is exact: without faults it succeeds wherever the contract holds.\<close>

lemma economy_check_granted: "granted economy_contract CheckEconomySchema"
  unfolding CheckEconomySchema_def
  by (rule granted_weaken, (rule granting granted_for granted_check_column granted_check_key granted_flag)+)
    (auto simp: economy_contract_def)

lemma projection_check_granted:
  "granted (\<lambda>c. missing_projections c = [] \<and> ident_count c = 4 \<and> name_taken c ''structs.planet_activity_player'' \<and>
     ''structs.api_work_refresh'' \<in> set (ct_functions c)) ValidateSchema"
  unfolding ValidateSchema_def
  by (rule granted_weaken, (rule granting)+) auto

section \<open>Example\<close>

text \<open>A deployed database: what the bootstrap leaves of an empty one, and the tables, keys and functions
  of the economy contract.\<close>

definition wanted_tables :: "string list" where
  "wanted_tables =
     map fst economy_columns @ map fst economy_keys @ maintenance_sources @ map in_structs apiProjectionTables
     @ [''structs.planet_activity_player'']"

definition contract_tables :: "string list" where
  "contract_tables = filter (\<lambda>t. t \<notin> set booted_tables) (remdups wanted_tables)"

definition contract_columns :: "string \<Rightarrow> column list" where
  "contract_columns t =
     map (\<lambda>(t', name, ty). typed ty False name) (filter (\<lambda>(t', name, ty). t' = t) economy_columns)
     @ (if t = ''structs.ledger'' then map (typed ''text'' False) identity_columns
        else if t = ''structs.api_inventory'' then [typed ''numeric'' False ''balance''] else [])"

definition contract_key :: "string \<times> string list \<Rightarrow> index" where
  "contract_key tk = \<lparr>ix_name = fst tk @ ''_key'', ix_table = fst tk, ix_columns = snd tk, ix_unique = True,
     ix_valid = True, ix_immediate = True, ix_plain = True\<rparr>"

definition deployed_catalog :: catalog where
  "deployed_catalog =
     booted\<lparr>ct_schemas := ct_schemas booted @ [''structs'', ''view''],
       ct_tables := ct_tables booted @ map (\<lambda>t. (t, contract_columns t)) contract_tables,
       ct_indexes := ct_indexes booted @ map contract_key economy_keys,
       ct_functions := [''structs.api_work_refresh''],
       ct_executable := ''structs.api_projection_boundary()'' # claim_functions,
       ct_sequences := [''structs.ledger_id_seq''],
       ct_owned := ct_owned booted @ [''structs'', ''view'', ''structs.ledger_id_seq''] @ contract_tables\<rparr>"

lemma booted_columns: "list_all (\<lambda>(t, name, ty). t \<in> set booted_tables \<longrightarrow>
     t = ''sync_state.infusion_event_position'' \<and> name = ''phase'' \<and> ty = ''smallint'') economy_columns"
  by code_simp

definition weight :: "string \<Rightarrow> int" where
  "weight s = sum_list (map of_char s)"

lemma economy_columns_distinct: "distinct (map (\<lambda>(t, name, ty). 4 * weight t + weight name) economy_columns)"
  by code_simp

lemma plain_columns: "list_all (\<lambda>(t, name, ty). t \<noteq> ''structs.ledger'' \<and> t \<noteq> ''structs.api_inventory'') economy_columns"
  by code_simp

lemma ledger_keys: "list_all (\<lambda>(t, cols). length cols \<noteq> 5 \<or> t \<noteq> ''structs.ledger'') economy_keys"
  "''structs.ledger'' \<notin> set booted_tables" "''structs.api_inventory'' \<notin> set booted_tables"
  "list_all (\<lambda>d. list_all (\<lambda>x. list_all (\<lambda>t. t \<noteq> x) (wanted_tables @ map (ix_name \<circ> contract_key) economy_keys)) (drops d))
     bootstrapStatements"
  by code_simp+

definition contract_relations :: "string set" where
  "contract_relations = set booted_tables \<union> set contract_tables"

lemma deployed_fields:
  "ct_owned deployed_catalog = ''sync_state'' # booted_tables @ [''structs'', ''view'', ''structs.ledger_id_seq''] @ contract_tables"
  "ct_grants deployed_catalog = []" "ct_views deployed_catalog = []" "ct_views booted = []"
  "ct_schemas deployed_catalog = [''sync_state'', ''structs'', ''view'']"
  "ct_indexes deployed_catalog = ct_indexes booted @ map contract_key economy_keys"
  "ct_functions deployed_catalog = [''structs.api_work_refresh'']"
  "ct_executable deployed_catalog = ''structs.api_projection_boundary()'' # claim_functions"
  "ct_sequences deployed_catalog = [''structs.ledger_id_seq'']"
  using booted_facts by (simp_all add: booted_ok_def deployed_catalog_def)

lemma deployed_get:
  "tbl_get (ct_tables deployed_catalog) t =
     (if t \<in> set booted_tables then tbl_get (ct_tables booted) t
      else if t \<in> set contract_tables then Some (contract_columns t) else None)"
proof -
  have names: "fst ` set (ct_tables booted) = set booted_tables"
    using booted_facts unfolding booted_ok_def by (metis list.set_map)
  have "map_of (ct_tables booted) t = None \<longleftrightarrow> t \<notin> set booted_tables"
    unfolding map_of_eq_None_iff names ..
  then show ?thesis
    by (auto simp: tbl_get_def deployed_catalog_def map_add_def map_of_map_restrict restrict_map_def split: option.splits)
qed

lemma deployed_columns: "columns_of deployed_catalog t = tbl_get (ct_tables deployed_catalog) t"
  by (simp add: columns_of_def deployed_fields split: option.splits)

lemma deployed_relations: "relation_exists deployed_catalog t \<longleftrightarrow> t \<in> contract_relations"
proof -
  have names: "fst ` set (ct_tables booted) = set booted_tables"
    using booted_facts unfolding booted_ok_def by (metis list.set_map)
  have "tbl_get (ct_tables booted) t = None \<longleftrightarrow> t \<notin> set booted_tables"
    unfolding tbl_get_def map_of_eq_None_iff names ..
  then show ?thesis by (auto simp: relation_exists_def deployed_columns deployed_get contract_relations_def)
qed

lemma wanted_relations:
  "(t, name, ty) \<in> set economy_columns \<Longrightarrow> t \<in> contract_relations"
  "(t, cols) \<in> set economy_keys \<Longrightarrow> t \<in> contract_relations"
  "t \<in> set maintenance_sources \<Longrightarrow> t \<in> contract_relations"
  "t \<in> set apiProjectionTables \<Longrightarrow> in_structs t \<in> contract_relations"
  "''structs.planet_activity_player'' \<in> contract_relations"
  by (force simp: contract_relations_def contract_tables_def wanted_tables_def)+

lemma deployed_privilege: "t \<in> contract_relations \<Longrightarrow> table_privilege t p deployed_catalog = Inr True"
  by (auto simp: table_privilege_def deployed_relations has_privilege_def deployed_fields contract_relations_def)

lemma deployed_column:
  assumes "(t, name, ty) \<in> set economy_columns"
  shows "column_ok (t, name, ty) deployed_catalog"
proof (cases "t \<in> set booted_tables")
  case True
  with assms booted_columns have x: "t = ''sync_state.infusion_event_position''" "name = ''phase''" "ty = ''smallint''"
    by (auto simp: list_all_iff)
  have "column_of deployed_catalog t name = column_of booted t name"
    using True by (auto simp: column_of_def deployed_columns deployed_get columns_of_def deployed_fields split: option.splits)
  moreover have "column_type t name booted = Inr (ty, - 1)" using booted_facts by (simp add: booted_ok_def x)
  ultimately show ?thesis by (auto simp: column_ok_def column_type_def split: option.splits)
next
  case False
  with wanted_relations(1) [OF assms] have "tbl_get (ct_tables deployed_catalog) t = Some (contract_columns t)"
    by (auto simp: deployed_get contract_relations_def)
  moreover have "contract_columns t = map (\<lambda>(t', name, ty). typed ty False name) (filter (\<lambda>(t', name, ty). t' = t) economy_columns)"
    using assms plain_columns by (auto simp: contract_columns_def list_all_iff)
  moreover have "find (\<lambda>x. co_name x = name) (map (\<lambda>(t', name, ty). typed ty False name) (filter (\<lambda>(t', name, ty). t' = t) xs))
      = Some (typed ty False name)"
    if "(t, name, ty) \<in> set xs" "distinct (map (\<lambda>(t, name, ty). 4 * weight t + weight name) xs)" for xs
    using that
  proof (induction xs)
    case (Cons x xs)
    show ?case
    proof (cases "x = (t, name, ty)")
      case True
      then show ?thesis by (simp add: typed_def)
    next
      case other: False
      with Cons.prems have "(t, name, ty) \<in> set xs" by simp
      moreover from this Cons.prems(2) have "\<not> (fst x = t \<and> fst (snd x) = name)" by (cases x) force
      ultimately show ?thesis using Cons by (cases x) (auto simp: typed_def)
    qed
  qed simp
  ultimately show ?thesis
    using assms economy_columns_distinct by (simp add: column_ok_def column_of_def deployed_columns typed_def)
qed

lemma deployed_special:
  "column_of deployed_catalog ''structs.api_inventory'' ''balance'' = Some (typed ''numeric'' False ''balance'')"
  "columns_of deployed_catalog ''structs.ledger'' = Some (map (typed ''text'' False) identity_columns)"
proof -
  have rows: "filter (\<lambda>(t', name, ty). t' = t) economy_columns = []" if "t = ''structs.ledger'' \<or> t = ''structs.api_inventory''" for t
    using plain_columns that by (auto simp: filter_empty_conv list_all_iff)
  have "''structs.ledger'' \<in> contract_relations" "''structs.api_inventory'' \<in> contract_relations"
    using wanted_relations(2) [of "''structs.ledger''"] wanted_relations(4) [of "''api_inventory''"]
    by (auto simp: economy_keys_def apiProjectionTables_def in_structs_def)
  with ledger_keys(2,3) show "columns_of deployed_catalog ''structs.ledger'' = Some (map (typed ''text'' False) identity_columns)"
    "column_of deployed_catalog ''structs.api_inventory'' ''balance'' = Some (typed ''numeric'' False ''balance'')"
    by (auto simp: column_of_def deployed_columns deployed_get contract_relations_def contract_columns_def rows typed_def)
qed

lemma deployed_key:
  assumes "(t, cols) \<in> set economy_keys"
  shows "usable_key t cols deployed_catalog"
proof -
  have "contract_key (t, cols) \<in> set (ct_indexes deployed_catalog)" using assms by (auto simp: deployed_fields)
  with wanted_relations(2) [OF assms] show ?thesis
    by (auto simp: usable_key_def deployed_relations list_ex_iff contract_key_def intro!: bexI [of _ "contract_key (t, cols)"])
qed

lemma deployed_contract: "economy_contract deployed_catalog"
  unfolding economy_contract_def
proof (intro conjI ballI)
  show "schema_privilege s deployed_catalog = Inr True" if "s \<in> {''structs'', ''sync_state'', ''view''}" for s
    using that by (auto simp: schema_privilege_def has_privilege_def deployed_fields)
  show "column_ok tct deployed_catalog" if "tct \<in> set economy_columns" for tct
    using deployed_column that by (cases tct) simp
  show "key_ok tk deployed_catalog" if "tk \<in> set economy_keys" for tk
    using deployed_key deployed_privilege wanted_relations(2) that by (cases tk) (auto simp: key_ok_def)
  show "table_privilege t ''SELECT'' deployed_catalog = Inr True" if "t \<in> insert ''structs.asset_owner'' (set maintenance_sources)" for t
  proof (rule deployed_privilege)
    have "(''structs.asset_owner'', ''is_vault'', ''boolean'') \<in> set economy_columns" by (simp add: economy_columns_def)
    from wanted_relations(1) [OF this] that show "t \<in> contract_relations" by (auto dest: wanted_relations(3))
  qed
  show "executable ''structs.api_projection_boundary()'' deployed_catalog" by (simp add: executable_def deployed_fields)
  have "''structs.api_inventory'' \<in> contract_relations" "''structs.ledger'' \<in> contract_relations"
    using deployed_special by (auto simp: deployed_relations [symmetric] relation_exists_def column_of_def split: option.splits)
  then show "claims_ready deployed_catalog = Inr True" "legacy_ledger_key deployed_catalog = Inr False"
    using booted_facts ledger_keys
    by (auto simp: claims_ready_def legacy_ledger_key_def deployed_relations executable_def deployed_fields deployed_special
        typed_def list_all_iff list_ex_iff contract_key_def booted_ok_def)
  show "sequence_privilege ''structs.ledger_id_seq'' deployed_catalog = Inr True"
    by (simp add: sequence_privilege_def has_privilege_def deployed_fields)
qed

lemma deployed_projections:
  "missing_projections deployed_catalog = []" "ident_count deployed_catalog = 4"
  "name_taken deployed_catalog ''structs.planet_activity_player''"
  "''structs.api_work_refresh'' \<in> set (ct_functions deployed_catalog)"
proof -
  show "missing_projections deployed_catalog = []"
    using wanted_relations(4) by (auto simp: missing_projections_def filter_empty_conv name_taken_def deployed_relations)
  have "''structs.ledger'' \<in> contract_relations"
    using deployed_special by (auto simp: deployed_relations [symmetric] relation_exists_def)
  then show "ident_count deployed_catalog = 4"
    by (auto simp: ident_count_def visible_columns_def deployed_special deployed_fields contract_relations_def
        identity_columns_def typed_def)
  show "name_taken deployed_catalog ''structs.planet_activity_player''"
    using wanted_relations(5) by (simp add: name_taken_def deployed_relations)
  show "''structs.api_work_refresh'' \<in> set (ct_functions deployed_catalog)" by (simp add: deployed_fields)
qed

text \<open>A catalog that has everything another one has keeps its statements settled.\<close>

lemma settled_extended:
  assumes "settled c d" "set (ct_schemas c) \<subseteq> set (ct_schemas c')"
    and "\<And>t cols. tbl_get (ct_tables c) t = Some cols \<Longrightarrow> tbl_get (ct_tables c') t = Some cols"
    and "\<And>x. name_taken c x \<Longrightarrow> name_taken c' x"
    and "\<And>x. x \<in> set (drops d) \<Longrightarrow> name_taken c' x \<Longrightarrow> name_taken c x"
  shows "settled c' d"
  using assms(1,2) assms(3) assms(4) assms(5)
  by (cases d) (auto simp: settled_iff)

text \<open>The bootstrap leaves the deployed catalog as it is.\<close>

lemma deployed_settled:
  assumes d: "d \<in> set bootstrapStatements"
  shows "settled deployed_catalog d"
proof -
  have names: "fst ` set (ct_tables booted) = set booted_tables"
    using booted_facts unfolding booted_ok_def by (metis list.set_map)
  then have get: "tbl_get (ct_tables booted) t = None \<longleftrightarrow> t \<notin> set booted_tables" for t
    unfolding tbl_get_def map_of_eq_None_iff by simp
  have old: "name_taken booted x \<longleftrightarrow> x \<in> set booted_tables \<or> x \<in> ix_name ` set (ct_indexes booted)" for x
    using get [of x] by (auto simp: name_taken_def relation_exists_def columns_of_def deployed_fields split: option.splits)
  have new: "name_taken deployed_catalog x \<longleftrightarrow> name_taken booted x \<or> x \<in> set contract_tables \<or>
      x \<in> set (map (ix_name \<circ> contract_key) economy_keys)" for x
    by (auto simp: old name_taken_def [of deployed_catalog] deployed_relations contract_relations_def deployed_fields image_iff)
  show ?thesis
  proof (rule settled_extended [of booted])
    show "settled booted d" using run_all_settles [OF booted subset_refl bootstrap_no_undoing] d by blast
    show "set (ct_schemas booted) \<subseteq> set (ct_schemas deployed_catalog)"
      using booted_facts by (auto simp: booted_ok_def deployed_fields)
    show "tbl_get (ct_tables deployed_catalog) t = Some cols" if "tbl_get (ct_tables booted) t = Some cols" for t cols
      using that get [of t] by (simp add: deployed_get)
    show "name_taken deployed_catalog x" if "name_taken booted x" for x using that new by blast
    show "name_taken booted x" if "x \<in> set (drops d)" "name_taken deployed_catalog x" for x
      using that d new [of x] ledger_keys(4) by (auto simp: list_all_iff contract_tables_def)
  qed
qed

end
