(* ===== verification/Commands_Facts.thy ===== *)
theory Commands_Facts
  imports Commands Deployed Doctor_Facts Backfill_Facts Genesis_Facts Syncer_Facts
begin

text \<open>
  What the commands guarantee as compositions: how ingestion comes to its start, and when a
  genesis document is applied.
\<close>

section \<open>What is indexed\<close>

text \<open>The cursors, the block log and the coverage, which only blocks may move.\<close>

definition indexed_rows :: "tables \<Rightarrow>
    (string, cursor_row) table \<times> (string \<times> int, block_log_row) table \<times> (string, coverage_row) table" where
  "indexed_rows d = (sy_cursor (db_sync d), sy_block_log (db_sync d), sy_coverage (db_sync d))"

interpretation indexed: table_frame indexed_rows "(=)"
  by unfold_locales simp_all

abbreviation leaves_index :: "(world, 'a) op \<Rightarrow> bool" where
  "leaves_index m \<equiv> keeps (across indexed_rows (=)) m"

lemma projects_leave_index:
  assumes "projects m"
  shows "leaves_index m"
  unfolding keeps_def across_def
proof
  fix w
  have "api_blind (w_db w) = api_blind (w_db (snd (m w)))" using keepsD [OF assms, of w] by (simp add: across_def)
  from api_blind_fields(3) [OF this] show "indexed_rows (w_db w) = indexed_rows (w_db (snd (m w)))"
    by (simp add: indexed_rows_def)
qed

lemma indexed_unsynced: "db_sync d' = db_sync d \<Longrightarrow> indexed_rows d' = indexed_rows d"
  by (simp add: indexed_rows_def)

lemma Withhold_leaves_index: "leaves_index Withhold"
  unfolding Withhold_def
  by (intro indexed.frame_intros) (simp_all add: on_api_def indexed_rows_def)

lemmas leaving_base = indexed.frame_intros projects_leave_index [OF projected_lockO] Withhold_leaves_index

lemma sweeps_leave_index:
  "leaves_index (ranks_tx b players)" "leaves_index (applyPlanetAttributesInTx rows)" "leaves_index stale_tx"
  "leaves_index planetary_tx" "leaves_index (check_boundary b)"
proof -
  show check: "leaves_index (check_boundary b)" for b
    unfolding check_boundary_def by (intro leaving_base)
  show "leaves_index (ranks_tx b players)"
    unfolding ranks_tx_def
    by (intro leaving_base check) (simp_all add: update_guild_rank_def indexed_rows_def)
  show "leaves_index (applyPlanetAttributesInTx rows)"
    unfolding applyPlanetAttributesInTx_def
    by (intro leaving_base) (simp_all add: upsert_from_chain_def zero_missing_def Let_def indexed_rows_def)
  show "leaves_index stale_tx"
    unfolding stale_tx_def by (intro leaving_base) (simp_all add: sweep_stale_def Let_def indexed_rows_def)
  show "leaves_index planetary_tx"
    unfolding planetary_tx_def applyDefenderPlanetary_def
    by (intro leaving_base) (simp_all add: update_defenders_def indexed_rows_def)
qed

text \<open>Of the service, of the service with the gateway, of the host.\<close>

definition same_index :: "service \<Rightarrow> service \<Rightarrow> bool" where
  "same_index s s' \<longleftrightarrow> indexed_rows (sx_db s') = indexed_rows (sx_db s)"

definition same_index_swept :: "service \<times> nat \<Rightarrow> service \<times> nat \<Rightarrow> bool" where
  "same_index_swept s s' \<longleftrightarrow> same_index (fst s) (fst s')"

definition anchored :: "host \<Rightarrow> host \<Rightarrow> bool" where
  "anchored h h' \<longleftrightarrow> ho_catalog h' = ho_catalog h \<and> same_index (ho_service h) (ho_service h')"

interpretation service_index: preorder_op same_index
  by unfold_locales (simp_all add: same_index_def)

interpretation swept_index: preorder_op same_index_swept
  by unfold_locales (auto simp: same_index_swept_def same_index_def)

interpretation anchored: preorder_op anchored
  by unfold_locales (auto simp: anchored_def same_index_def)

lemma pool_query_index: "keeps same_index (pool_query g)"
  by (simp add: keeps_def same_index_def)

lemma pool_tx_index: "leaves_index m \<Longrightarrow> keeps same_index (pool_tx_if commits a b m)"
  unfolding keeps_def same_index_def using indexed.frame_pool [unfolded keeps_def] by metis

lemma on_service_index: "keeps same_index m \<Longrightarrow> keeps same_index_swept (on_service m)"
  by (auto simp: keeps_def same_index_swept_def on_service_def split: prod.splits) (metis fst_conv snd_conv)+

lemma on_gateway_index: "keeps same_index_swept (on_gateway m)"
  by (auto simp: keeps_def same_index_swept_def same_index_def on_gateway_def split: prod.splits)

lemma swept_split: "(\<And>x y. keeps same_index_swept (f x y)) \<Longrightarrow> keeps same_index_swept (case p of (x, y) \<Rightarrow> f x y)"
  by (cases p) simp

lemma readBoundary_index: "keeps same_index (readBoundary chain)"
  unfolding readBoundary_def Let_def by (intro service_index.keeps_intros pool_query_index)

lemma lcd_sweeps_index:
  "keeps same_index_swept (SweepPlayerRanks c limit chain)" "keeps same_index_swept (SweepPlanetAttributes c limit chain)"
  unfolding SweepPlayerRanks_def SweepPlanetAttributes_def applyGuildRanks_def applyPlanetAttributes_def Let_def
  by (intro swept_index.keeps_intros swept_split on_service_index on_gateway_index readBoundary_index pool_tx_index
      leaving_base sweeps_leave_index)+

lemma defender_sweeps_index: "keeps same_index SweepStaleDefenders" "keeps same_index SweepDefenderPlanetary"
  unfolding SweepStaleDefenders_def SweepDefenderPlanetary_def by (intro pool_tx_index sweeps_leave_index)+

lemma Apply_index: "keeps same_index (Apply l)"
  unfolding keeps_def
proof
  fix s
  obtain r s1 where run: "Apply l s = (r, s1)" by force
  show "same_index s (snd (Apply l s))"
  proof (cases r)
    case (Inl e)
    with run have "sx_db s1 = sx_db s" unfolding Apply_def using pool_tx_Inl by blast
    with run show ?thesis by (simp add: same_index_def)
  next
    case (Inr rep)
    with run Apply_db [of l s rep s1] show ?thesis by (auto simp: same_index_def indexed_rows_def)
  qed
qed

lemma Backfill_index: "keeps same_index (Backfill P height time')"
  unfolding keeps_def
proof
  fix s
  obtain r1 s2 where run: "Backfill P height time' s = (r1, s2)" by force
  obtain r3 u where tx: "in_tx (BackfillInTx P height time') (fresh_block s) = (r3, u)" by force
  have "across indexed_rows (=) (bk_world (fresh_block s)) (bk_world u)"
    using keepsD [OF projects_leave_index [OF projected_backfill], of "bk_world (fresh_block s)" P height time'] in_tx_result [OF tx]
    by auto
  then have same: "indexed_rows (w_db (bk_world u)) = indexed_rows (sx_db s)" by (simp add: across_def)
  have added: "errors_added es d d' \<Longrightarrow> indexed_rows d' = indexed_rows d" for es d d'
    by (auto simp: errors_added_def indexed_rows_def)
  show "same_index s (snd (Backfill P height time' s))"
  proof (cases "sx_fault s (sx_clock s)")
    case (Some e)
    then show ?thesis by (simp add: Backfill_def pool_tx_def begin_failed_def same_index_def)
  next
    case None
    then have fin: "finish_tx ''commit: '' [] [] r3 u s = (r1, s2)"
      using run tx by (simp add: Backfill_def pool_tx_def begin_failed_def)
    then show ?thesis
      using finish_tx_Inl [of "''commit: ''" "[]" "[]" r3 u s _ s2] finish_tx_Inr(3) [of "''commit: ''" "[]" "[]" r3 u s _ s2] same
      by (cases r1) (fastforce simp: run same_index_def dest: added)+
  qed
qed

lemma ConsumeDriftOn_index: "keeps same_index (ConsumeDriftOn P)"
  unfolding ConsumeDriftOn_def consumeDriftReady_def Recompute_def
  by (intro pool_tx_index projects_leave_index projected_base projected_lockO projected_drift projected_recompute)

lemma coverage_index: "keeps same_index (require_coverage c)"
  unfolding require_coverage_def by (intro service_index.keeps_intros pool_query_index)

section \<open>The host\<close>

lemma at_service_anchored: "keeps same_index m \<Longrightarrow> keeps anchored (at_service m)"
  by (auto simp: keeps_def anchored_def at_service_def split: prod.splits) (metis snd_conv)+

lemma at_rpc_anchored: "keeps anchored (at_rpc m)"
  by (auto simp: keeps_def anchored_def same_index_def at_rpc_def split: prod.splits)

lemma at_sweep_anchored: "keeps same_index_swept m \<Longrightarrow> keeps anchored (at_sweep m)"
  unfolding keeps_def
proof
  fix h :: host
  assume "\<forall>s. same_index_swept s (snd (m s))"
  then have "same_index_swept (ho_service h, ho_gateway h) (snd (m (ho_service h, ho_gateway h)))" by blast
  then show "anchored h (snd (at_sweep m h))"
    by (auto simp: at_sweep_def anchored_def same_index_swept_def split: prod.splits)
qed

lemma attempt_anchored: "keeps anchored m \<Longrightarrow> keeps anchored (attempt m)"
  by (simp add: keeps_def attempt_def)

lemma ask_anchored: "keeps anchored (ask g)"
  using ask_untouched [of g] by (auto simp: keeps_def untouched_def anchored_def same_index_def)

lemmas anchoring = anchored.keeps_intros at_service_anchored at_rpc_anchored at_sweep_anchored attempt_anchored
  ask_anchored pool_query_index lcd_sweeps_index defender_sweeps_index Apply_index Backfill_index ConsumeDriftOn_index
  coverage_index

lemma validate_anchored: "keeps anchored ValidateSchema"
  unfolding ValidateSchema_def by (intro anchoring)

lemma load_anchored: "keeps anchored (loadGenesisDocument p)"
  unfolding loadGenesisDocument_def by (intro anchoring)

lemma ReadGenesisLog_db: "sx_db (snd (ReadGenesisLog chain s)) = sx_db s"
proof -
  obtain r s1 where q: "pool_query (\<lambda>d. tbl_get (sy_genesis (db_sync d)) chain) s = (r, s1)" by force
  then have "sx_db s1 = sx_db s" by (metis pool_query_db snd_conv)
  with q show ?thesis by (cases r) (simp_all add: ReadGenesisLog_def)
qed

lemma log_anchored: "keeps anchored (at_service (ReadGenesisLog chain))"
  by (rule at_service_anchored) (simp add: keeps_def same_index_def ReadGenesisLog_db)

lemma auto_apply_anchored: "keeps anchored (auto_apply p chain)"
  unfolding auto_apply_def by (intro anchoring load_anchored)

lemma gate_anchored: "keeps anchored (genesis_gate p chain start)"
  unfolding keeps_def
proof
  fix h
  obtain q h1 where log: "at_service (ReadGenesisLog chain) h = (q, h1)" by force
  have one: "anchored h h1" using keepsD [OF log_anchored, of h chain] log by simp
  show "anchored h (snd (genesis_gate p chain start h))"
    using one anchored.R_trans [OF one] keepsD [OF auto_apply_anchored, of h1 p chain]
    by (auto simp: genesis_gate_def log split: sum.splits option.splits)
qed

lemma sweeps_anchored: "keeps anchored (ingest_sweeps p chain)"
  unfolding ingest_sweeps_def Let_def by (intro anchoring)

lemma projections_anchored: "keeps anchored (ingest_projections p chain tip)"
  unfolding ingest_projections_def by (intro anchoring)

section \<open>How ingestion starts\<close>

lemma index_functions:
  assumes "indexed_rows d' = indexed_rows d"
  shows "ReadCursor chain d' = ReadCursor chain d" "past_everything chain start d' = past_everything chain start d"
    "coverage_ready c d' = coverage_ready c d" "RequireEconomyCoverage c d' = RequireEconomyCoverage c d"
proof -
  have rows: "sy_cursor (db_sync d') = sy_cursor (db_sync d)" "sy_block_log (db_sync d') = sy_block_log (db_sync d)"
    "sy_coverage (db_sync d') = sy_coverage (db_sync d)" using assms by (simp_all add: indexed_rows_def)
  then show cursor: "ReadCursor chain d' = ReadCursor chain d" for chain by (simp add: ReadCursor_def)
  show "past_everything chain start d' = past_everything chain start d" by (simp add: past_everything_def rows cursor)
  show covered: "coverage_ready c d' = coverage_ready c d" by (simp add: coverage_ready_def rows)
  show "RequireEconomyCoverage c d' = RequireEconomyCoverage c d" by (simp add: RequireEconomyCoverage_def covered)
qed

lemma at_rpc_still: "at_rpc m h = (r, h') \<Longrightarrow> untouched h h'"
  by (auto simp: at_rpc_def untouched_def split: prod.splits)

lemma pool_query_still: "at_service (pool_query g) h = (r, h') \<Longrightarrow> untouched h h' \<and> (\<forall>x. r = Inr x \<longrightarrow> x = g (sx_db (ho_service h)))"
  by (auto simp: at_service_def pool_query_def untouched_def split: option.splits)

lemma open_client_still: "open_client p h = (r, h') \<Longrightarrow> untouched h h'"
  by (auto simp: open_client_def modifyO_def untouched_def)

lemma connect_still: "connect_step p msg h = (r, h') \<Longrightarrow> h' = h"
  by (auto simp: connect_step_def liftO_def)

lemma db_New_Inr: "db_New p chain h = (Inr u, h') \<Longrightarrow> h' = h \<and> \<not> px_locked p (writerLockID chain)"
  by (auto simp: db_New_def acquireWriterLock_def bindO_Inr guardO_Inr dest!: connect_still)

lemma Bootstrap_tables: "Bootstrap h = (r, h') \<Longrightarrow> sx_db (ho_service h') = sx_db (ho_service h)"
  unfolding Bootstrap_def by (drule statements_run) blast

lemma examine_Inr:
  assumes "examine p chain h = (Inr fatal, h')"
  shows "untouched h h' \<and> fatal = dx_fatal (fst (doctor_Run (doctor_inputs_of p chain) h))"
proof -
  obtain r h1 where run: "doctor_Run (doctor_inputs_of p chain) h = (r, h1)" by force
  from doctor_scene [OF run] assms show ?thesis by (auto simp: examine_def run scene_def untouched_def)
qed

text \<open>What the opening establishes.\<close>

definition examined_sound :: "process \<Rightarrow> string \<Rightarrow> host \<Rightarrow> bool" where
  "examined_sound p chain h \<longleftrightarrow>
     cf_skip_doctor (px_config p) \<or>
     (\<exists>k. untouched k h \<and> \<not> dx_fatal (fst (doctor_Run (doctor_inputs_of p chain) k)))"

lemma ingest_opened_Inr:
  assumes "ingest_opened p h = (Inr st, h')"
  shows "sx_db (ho_service h') = sx_db (ho_service h) \<and> economy_contract (ho_catalog h') \<and>
    \<not> px_locked p (writerLockID (ss_network st)) \<and> examined_sound p (ss_network st) h'"
proof -
  let ?chain = "ss_network st"
  from assms obtain h1 h2 h3 h4 h5 h6 where
    a: "open_client p h = (Inr (), h1)" and b: "at_rpc (Status (px_rpc p)) h1 = (Inr st, h2)"
    and c: "db_New p ?chain h2 = (Inr (), h3)" and d: "Bootstrap h3 = (Inr (), h4)"
    and e: "CheckEconomySchema h4 = (Inr (), h5)"
    and f: "attempt (at_service (pool_query (UnresolvedErrorSummary ?chain))) h5 = (Inr (), h6)"
    and g: "whenO (\<not> cf_skip_doctor (px_config p)) (bindO (examine p ?chain) (\<lambda>fatal.
         guardO (\<not> fatal) (errorf ''refusing to start ingest: doctor reported FATAL''))) h6 = (Inr (), h')"
    unfolding ingest_opened_def by (auto simp: bindO_Inr wrapO_Inr returnO_def)
  have t3: "untouched h h3" using open_client_still [OF a] at_rpc_still [OF b] db_New_Inr [OF c] untouched_trans by blast
  have t4: "sx_db (ho_service h4) = sx_db (ho_service h)" using Bootstrap_tables [OF d] t3 by (simp add: untouched_def)
  from economy_schema_checked [OF e] have contract: "economy_contract (ho_catalog h4)" and t5: "untouched h4 h5" by simp_all
  obtain q k where "at_service (pool_query (UnresolvedErrorSummary ?chain)) h5 = (q, k)" by force
  with f pool_query_still [of "UnresolvedErrorSummary ?chain" h5 q k] have t6: "untouched h5 h6" by (simp add: attempt_def)
  have t7: "untouched h6 h' \<and> examined_sound p ?chain h'"
  proof (cases "cf_skip_doctor (px_config p)")
    case True
    with g show ?thesis by (simp add: whenO_def returnO_def examined_sound_def untouched_def)
  next
    case False
    with g obtain fatal where "examine p ?chain h6 = (Inr fatal, h')" "\<not> fatal"
      by (auto simp: whenO_def bindO_Inr guardO_Inr)
    with examine_Inr [of p ?chain h6 fatal h'] show ?thesis by (auto simp: examined_sound_def)
  qed
  show ?thesis using t4 t5 t6 t7 contract db_New_Inr [OF c] by (auto simp: untouched_def)
qed

text \<open>The block at the cursor is still the node's.\<close>

definition same_branch :: "process \<Rightarrow> string \<Rightarrow> tables \<Rightarrow> bool" where
  "same_branch p chain d \<longleftrightarrow>
     (let c = ReadCursor chain d in
      c_height c = 0 \<or> c_hash c = [] \<or>
      (\<exists>s b. fst (fetch_block (px_rpc p) (c_height c) s) = Inr b \<and> br_hash b = c_hash c))"

lemma reorg_check_Inr:
  assumes "reorg_check p chain h = (Inr u, h')"
  shows "untouched h h' \<and> same_branch p chain (sx_db (ho_service h))"
proof -
  let ?at = "\<lambda>n. fst (fetch_block (px_rpc p) n (ho_rpc h))"
  obtain r h1 where run: "at_service (CheckReorg chain ?at) h = (r, h1)" by force
  with assms have r: "r = Inr u" and h': "untouched h1 h'"
    by (auto simp: reorg_check_def Let_def untouched_def split: if_splits)
  from run r obtain s1 where svc: "CheckReorg chain ?at (ho_service h) = (Inr u, s1)" "h1 = h\<lparr>ho_service := s1\<rparr>"
    by (auto simp: at_service_def split: prod.splits)
  from svc(1) obtain c s2 where q: "pool_query (ReadCursor chain) (ho_service h) = (Inr c, s2)"
    and rest: "(if c_height c = 0 \<or> c_hash c = [] then returnO ()
      else bindO (wrapO (at_height ''reorg check fetch'' (c_height c)) (liftO (?at (c_height c)))) (\<lambda>got.
        guardO (br_hash got = c_hash c)
         (errorf (''reorg detected: cursor last_height='' @ dec_int (c_height c) @ '' hash='' @ c_hash c
            @ '' but node now returns hash='' @ br_hash got)))) s2 = (Inr u, s1)"
    unfolding CheckReorg_def by (auto simp: bindO_Inr)
  from pool_query_Inr [OF q] have c: "c = ReadCursor chain (sx_db (ho_service h))" and s2: "sx_db s2 = sx_db (ho_service h)" by simp_all
  have "sx_db s1 = sx_db s2 \<and> same_branch p chain (sx_db (ho_service h))"
  proof (cases "c_height c = 0 \<or> c_hash c = []")
    case True
    with rest show ?thesis by (auto simp: returnO_def same_branch_def Let_def c)
  next
    case False
    with rest obtain b where "?at (c_height c) = Inr b" "br_hash b = c_hash c" "s1 = s2"
      by (auto simp: bindO_Inr wrapO_Inr liftO_def guardO_Inr)
    then show ?thesis by (auto simp: same_branch_def Let_def c)
  qed
  with s2 svc(2) h' show ?thesis by (auto simp: untouched_def)
qed

lemma ResolveStart_db: "ResolveStart chain override earliest s = (Inr x, s') \<Longrightarrow> sx_db s' = sx_db s"
  by (auto simp: ResolveStart_def bindO_Inr returnO_def split: if_splits dest!: pool_query_Inr)

lemma at_service_Inr: "at_service m h = (Inr x, h') \<longleftrightarrow> (\<exists>s. m (ho_service h) = (Inr x, s) \<and> h' = h\<lparr>ho_service := s\<rparr>)"
  by (auto simp: at_service_def split: prod.splits)

lemma ingest_start_Inr:
  assumes "ingest_start p st h = (Inr start, h')" "\<not> cf_allow_replay (px_config p)"
    and "list_all (\<lambda>(c, r). c \<noteq> []) (sy_cursor (db_sync (sx_db (ho_service h))))"
  shows "untouched h h' \<and> same_branch p (ss_network st) (sx_db (ho_service h)) \<and>
    past_everything (ss_network st) start (sx_db (ho_service h))"
proof -
  let ?chain = "ss_network st"
  from assms(1) obtain h1 first h2 notice where
    a: "reorg_check p ?chain h = (Inr (), h1)"
    and b: "at_service (ResolveStart ?chain (cf_start_height (px_config p)) (Earliest st)) h1 = (Inr first, h2)"
    and c: "at_service (GuardReplay ?chain first (cf_allow_replay (px_config p))) h2 = (Inr (start, notice), h')"
    unfolding ingest_start_def by (auto simp: bindO_Inr wrapO_Inr returnO_def split: prod.splits)
  note ra = reorg_check_Inr [OF a]
  from b have tb: "untouched h1 h2" by (auto simp: at_service_Inr untouched_def dest!: ResolveStart_db)
  from c obtain s where g: "GuardReplay ?chain first False (ho_service h2) = (Inr (start, notice), s)" "h' = h2\<lparr>ho_service := s\<rparr>"
    using assms(2) by (auto simp: at_service_Inr)
  have same: "sx_db (ho_service h2) = sx_db (ho_service h)" using ra tb by (simp add: untouched_def)
  note guard = GuardReplay_Inr [OF g(1), unfolded same]
  from guard_decision_past [OF conjunct1 [OF guard] assms(3)] guard ra tb show ?thesis
    by (auto simp: untouched_def g(2) same)
qed

lemma ValidateSchema_Inr: "ValidateSchema h = (Inr u, h') \<Longrightarrow> missing_projections (ho_catalog h) = []"
  by (auto simp: ValidateSchema_def bindO_Inr wrapO_Inr guardO_Inr dest!: ask_Inr)

lemma ingest_projections_Inr:
  assumes "ingest_projections p chain tip h = (Inr stale, h')"
  shows "RequireEconomyCoverage (ReadCursor chain (sx_db (ho_service h))) (sx_db (ho_service h)) = Inr ()"
proof -
  from assms obtain c h1 h2 where q: "at_service (pool_query (ReadCursor chain)) h = (Inr c, h1)"
    and r: "at_service (require_coverage c) h1 = (Inr (), h2)"
    unfolding ingest_projections_def by (auto simp: bindO_Inr wrapO_Inr)
  from pool_query_still [OF q] have c: "c = ReadCursor chain (sx_db (ho_service h))"
    and h1: "sx_db (ho_service h1) = sx_db (ho_service h)" by (auto simp: untouched_def)
  from r have "\<not> V022Active (c_chain c) (c_height c) \<or> RequireEconomyCoverage c (sx_db (ho_service h1)) = Inr ()"
    by (auto simp: at_service_Inr require_coverage_def bindO_Inr liftO_def split: if_splits dest!: pool_query_Inr)
  then show ?thesis by (auto simp: c [symmetric] h1 RequireEconomyCoverage_def)
qed

text \<open>Ingestion starts only where everything before it holds, and what runs in between undoes none
  of it.  When the start sequence reaches the loop without the replay override, then, in
  the tables and the catalog as they are at that moment (after the bootstrap, the examination, a
  genesis import, the sweeps and a projection rebuild, whatever of these failed with a warning), the
  start height is above the cursor, the block log and every other chain's cursor; the block at
  the cursor is the one the node still returns; the cursor has its economy coverage; the
  catalog meets the economy contract and misses no projection table; the writer lock was
  free; and the doctor, unless skipped, found nothing fatal.\<close>

theorem ingest_starts_soundly:
  assumes run: "ingest_ready p h = (Inr (chain, start, stale), h')"
    and replay: "\<not> cf_allow_replay (px_config p)"
    and keys: "list_all (\<lambda>(c, r). c \<noteq> []) (sy_cursor (db_sync (sx_db (ho_service h))))"
  shows "past_everything chain start (sx_db (ho_service h')) \<and> same_branch p chain (sx_db (ho_service h')) \<and>
    RequireEconomyCoverage (ReadCursor chain (sx_db (ho_service h'))) (sx_db (ho_service h')) = Inr () \<and>
    economy_contract (ho_catalog h') \<and> missing_projections (ho_catalog h') = [] \<and>
    \<not> px_locked p (writerLockID chain) \<and>
    (cf_skip_doctor (px_config p) \<or>
      (\<exists>k. ho_catalog k = ho_catalog h' \<and> \<not> dx_fatal (fst (doctor_Run (doctor_inputs_of p chain) k))))"
proof -
  from run obtain st h1 h2 h3 h4 h5 where
    a: "ingest_opened p h = (Inr st, h1)" and b: "ingest_start p st h1 = (Inr start, h2)"
    and c: "genesis_gate p chain start h2 = (Inr (), h3)" and d: "ValidateSchema h3 = (Inr (), h4)"
    and e: "ingest_sweeps p chain h4 = (Inr (), h5)"
    and f: "ingest_projections p chain (Latest st) h5 = (Inr stale, h')" and chain: "chain = ss_network st"
    unfolding ingest_ready_def by (auto simp: bindO_Inr wrapO_Inr returnO_def)
  note opened = ingest_opened_Inr [OF a, folded chain]
  have "list_all (\<lambda>(c, r). c \<noteq> []) (sy_cursor (db_sync (sx_db (ho_service h1))))" using keys opened by simp
  note begun = ingest_start_Inr [OF b replay this, folded chain]
  have s2: "anchored h1 h2" using begun by (simp add: untouched_def anchored_def same_index_def)
  have s3: "anchored h2 h3" using keepsD [OF gate_anchored, of h2 p chain start] c by simp
  have s4: "anchored h3 h4" using keepsD [OF validate_anchored, of h3] d by simp
  have s5: "anchored h4 h5" using keepsD [OF sweeps_anchored, of h4 p chain] e by simp
  have s6: "anchored h5 h'" using keepsD [OF projections_anchored, of h5 p chain "Latest st"] f by simp
  have to_end: "anchored h1 h'" "anchored h3 h'" "anchored h5 h'" using s2 s3 s4 s5 s6 anchored.R_trans by blast+
  then have index: "indexed_rows (sx_db (ho_service h')) = indexed_rows (sx_db (ho_service h1))"
    "indexed_rows (sx_db (ho_service h')) = indexed_rows (sx_db (ho_service h5))"
    and catalog: "ho_catalog h' = ho_catalog h1" "ho_catalog h3 = ho_catalog h1"
    by (simp_all add: anchored_def same_index_def)
  have "same_branch p chain (sx_db (ho_service h'))"
    using begun by (simp add: same_branch_def index_functions(1) [OF index(1)])
  moreover have "RequireEconomyCoverage (ReadCursor chain (sx_db (ho_service h'))) (sx_db (ho_service h')) = Inr ()"
    using ingest_projections_Inr [OF f] by (simp add: index_functions(1,4) [OF index(2)])
  moreover have "cf_skip_doctor (px_config p) \<or>
      (\<exists>k. ho_catalog k = ho_catalog h' \<and> \<not> dx_fatal (fst (doctor_Run (doctor_inputs_of p chain) k)))"
    using opened catalog(1) by (auto simp: examined_sound_def untouched_def)
  ultimately show ?thesis
    using begun opened ValidateSchema_Inr [OF d] by (simp add: index_functions(2) [OF index(1)] catalog)
qed

end
