(* ===== verification/Spec2Isabelle.thy ===== *)
theory Spec2Isabelle
  imports Rpc_Events Bank_Ledger Bank_Correlation Flush Attribute_Facts Economy_Facts
    Registry Sync_Store Native_Facts Entity_Facts Read_Model_Facts Block_Facts Syncer_Facts
    Snapshot_Facts Worker_Facts Genesis_Facts
    Rpc_Client_Facts Notifier Backfill_Facts Reprocess
    Schema_Facts Verify_Facts Doctor_Facts Commands_Facts
begin

text \<open>
  A model of \<open>sync-state\<close>, the service that follows a Cosmos chain over its RPC and
  projects every block into the \<open>structs\<close> PostgreSQL schema (\<open>src/sync-state\<close>, Go).

  \<^bold>\<open>How the program works.\<close>  The ingestion loop (\<open>sync/syncer.go\<close>) plans a window of heights above its
  cursor and fetches each block with its results, checked to belong together
  (\<open>rpc/bundle.go\<close>).  One block is one transaction (\<open>sync/block.go\<close>), a window of blocks may be
  one too (\<open>sync/bulkwindow.go\<close>): the events are put in execution order
  (\<open>rpc/event_order.go\<close>) and each typed event is dispatched to the handler registered for its
  composite key (\<open>events/router.go\<close>, \<open>registry.go\<close>).  A handler decodes its JSON payload
  (\<open>payload/\<close>), runs SQL in the transaction, appends rows to an in-memory buffer
  (\<open>buffers/buffer.go\<close>) and marks the entities whose read models must be recomputed
  (\<open>readmodel/dirty.go\<close>).  Bank and staking events become double-entry ledger rows
  (\<open>bank/\<close>), touched stakers become requests for native evidence (\<open>staking/\<close>).  At the end
  the buffer is flushed, the projections are updated from the ledger deltas and the dirty
  set (\<open>readmodel/project.go\<close>), the block is logged and the cursor moves.  Replaying a block
  must change nothing, and a failed one must leave nothing but rows of the error log.

  \<^bold>\<open>Theories.\<close>
  \<^item> \<open>Prelude\<close>: Go errors, fallible results and stateful operations (\<open>res\<close>, \<open>op\<close>), the
    locale \<open>preorder_op\<close> of relations every operation keeps, list loops.  \<open>Go_Std\<close>: the
    parts of \<open>strings\<close>, \<open>strconv\<close>, \<open>math/big\<close> and \<open>time\<close> the code uses.  \<open>Json\<close>: the part of
    \<open>encoding/json\<close> the code uses, on raw texts.
  \<^item> \<open>Object_Type\<close> (\<open>objecttype/\<close>), \<open>Rpc_Events\<close> (\<open>rpc/types.go\<close>, \<open>event_order.go\<close>,
    \<open>bundle.go\<close>), \<open>Payload\<close>, \<open>Payload_Types\<close> and \<open>Struct_Type\<close> (\<open>payload/\<close>), \<open>Buffers\<close>
    (\<open>buffers/buffer.go\<close>), \<open>Dirty\<close> (\<open>readmodel/dirty.go\<close>), \<open>Config\<close> (\<open>sync/config.go\<close>).
  \<^item> \<open>Bank_Coins\<close> (\<open>bank/coins.go\<close>), \<open>Bank\<close> (\<open>correlation.go\<close>, \<open>process.go\<close>, \<open>events.go\<close>), with
    the theorems in \<open>Bank_Ledger\<close> (identities) and \<open>Bank_Correlation\<close> (balances, ownership,
    overlap).
  \<^item> \<open>Store\<close>: the database tables and the transaction (\<open>world\<close>), one SQL statement being one
    atomic step under a fault schedule.  \<open>Frames\<close>: the locale by which an invariant of some
    tables is carried over every statement of an operation.  \<open>Flush\<close>: \<open>Buffer.Flush\<close>,
    \<open>ValidateExistingLedger\<close>.  \<open>Sync_Store\<close>: the bookkeeping tables of \<open>db/\<close> (cursor, block
    log, coverage, error log, unknown events, raw mirror).
  \<^item> \<open>Router\<close> (\<open>events/router.go\<close>, \<open>handler.go\<close>, \<open>errors.go\<close>, \<open>envelope.go\<close>,
    \<open>protocol/version.go\<close>): dispatch, unknown events, and the locale \<open>handler_contract\<close> of
    handlers that only append, under which isolated dispatch leaves no trace.
  \<^item> \<open>Attributes\<close>, \<open>Economy\<close> and \<open>Entities\<close>: the handlers, one operation per handler and
    helper, each with an interpretation of \<open>handler_contract\<close>; \<open>Attribute_Facts\<close>,
    \<open>Economy_Facts\<close>, \<open>Entity_Facts\<close>: what they guarantee.  \<open>Registry\<close>: the list of all
    handlers and the router built from it.
  \<^item> \<open>Native\<close> (\<open>bank/native.go\<close>, \<open>staking/store.go\<close>, \<open>invalidate.go\<close>, \<open>positions.go\<close>,
    \<open>receipts.go\<close>) with \<open>Native_Facts\<close>; \<open>Read_Model\<close> (\<open>readmodel/project.go\<close>, \<open>backfill.go\<close>,
    \<open>drift.go\<close>, \<open>lock.go\<close>) with \<open>Read_Model_Facts\<close>.
  \<^item> \<open>Block\<close> (\<open>sync/block.go\<close>, \<open>bulkwindow.go\<close>, \<open>reconcile.go\<close>, \<open>txhash.go\<close>) with
    \<open>Block_Facts\<close>: everything above composed into one committed block.  \<open>Syncer\<close>
    (\<open>sync/syncer.go\<close>, \<open>retry.go\<close>) with \<open>Syncer_Facts\<close>: the loop around the blocks.
  \<^item> \<open>Lcd\<close> (\<open>lcd/client.go\<close>): paged reads from the gateway at one height, with the locale
    \<open>page_visitor\<close> of visitors that keep an invariant; \<open>Json_Facts\<close>: which members a decoded
    document has.  \<open>Snapshot\<close> (\<open>staking/snapshot.go\<close>) with \<open>Snapshot_Facts\<close>: the three
    collections of an address.  \<open>Pool\<close>: transactions outside the block pipeline.
    \<open>Native_Worker\<close> (\<open>sync/native.go\<close>, \<open>SeedReceipts\<close>) with \<open>Worker_Facts\<close>: the worker that
    publishes the snapshots.
  \<^item> \<open>Rpc_Client\<close> (\<open>rpc/client.go\<close>, \<open>genesis.go\<close>) with \<open>Rpc_Client_Facts\<close>: the endpoints with their
    failover.  \<open>Notifier\<close> (\<open>rpc/notifier.go\<close>): the subscription to new blocks.
  \<^item> \<open>Backfill\<close> (\<open>backfill/\<close>) with \<open>Backfill_Facts\<close>: the sweeps before ingestion.  \<open>Reprocess\<close>
    (\<open>reprocess/\<close>): the replay of failed events.
  \<^item> \<open>Genesis\<close> (\<open>genesis/\<close>, \<open>db/genesislog.go\<close>) with \<open>Genesis_Facts\<close>: the import of the genesis
    document into the ledger.
  \<^item> \<open>Schema\<close> (\<open>db/bootstrap.go\<close>, \<open>economy_schema.go\<close>, \<open>ValidateSchema\<close>) with \<open>Schema_Facts\<close>: what
    PostgreSQL knows of the schema (\<open>catalog\<close>), the bootstrap statements over it, the schema
    checks, and the \<open>host\<close> of the commands.  \<open>Verify\<close> (\<open>verify/\<close>) with \<open>Verify_Facts\<close>: the
    checks of the database.  \<open>Doctor\<close> (\<open>doctor/doctor.go\<close>) with \<open>Doctor_Facts\<close>: the probes before
    ingestion.
  \<^item> \<open>Commands\<close> (\<open>sync/subcmd.go\<close>, \<open>reconcile.go\<close>, \<open>db/pool.go\<close>) with \<open>Commands_Facts\<close>: the
    subcommands, each a composition of the parts above on a \<open>host\<close>, under the writer lock.

  \<^bold>\<open>State.\<close>  \<open>world\<close> is the transaction's tables (\<open>w_db\<close>), the buffer (\<open>w_buf\<close>), the dirty
  set (\<open>w_dirty\<close>), the aborted flag of the PostgreSQL transaction (\<open>w_aborted\<close>), a statement
  counter and the fault schedule that says which statement fails and how.  A theorem about
  all worlds covers all schedules, so also every constraint violation and lost connection.
  Tables are association lists on the primary key with the columns the code reads or writes.
  \<open>block_state\<close> adds what lives as long as a block's transaction (the router's counters, the
  held errors, the raw rows); \<open>service\<close> is what outlives it, the committed tables; \<open>run_state\<close>
  is the loop's own: the next height, the retry delays and the service; \<open>host\<close> is the service with
  the catalog, the RPC client and the gateway, which a command changes, and \<open>process\<close> what a command
  is started with and finds outside the database.

  \<^bold>\<open>What the lemmas show.\<close>  Order: a block's stream is its source stream in execution order;
  a fetched window is applied in ascending order however the fetches complete.  Atomicity: a
  failed handler leaves no trace, a dead transaction is never reported as success, a failed
  block leaves only rows of the error log, the cursor names a logged block.  Replay: ledger
  rows have unique identities, flushing twice changes nothing, attribute and snapshot events
  at or before the applied position change nothing, resets are authoritative, and the start
  height is above everything indexed.  Accounting: staking cycles balance, infusion ledger
  rows add up to the stored fuel, transfers are left out only with evidence, redelegations
  are attributed exactly, position totals are exact sums, the inventory is the sum of the
  ledger, and incremental projections equal a rebuild.  Permanence: destroyed structs, vault
  identities and retired receipts stay as they are over any sequence of blocks.  Evidence:
  a paged read is complete or fails, a fetched snapshot meets the contract of the
  publication, no snapshot older than the last request is published, and the worker touches
  nothing else.  Genesis: the import replaces exactly its own rows and can be repeated, chunks come in order.
  Failover: every outcome is accounted for endpoint by endpoint.  Maintenance: a sweep installs
  its snapshot and finds nothing more to do, a replay resolves only what a handler accepted at
  the recorded coordinate, and a dry run changes nothing.  Operation: the bootstrap can be
  interrupted and repeated, a check that passes holds of the tables, fresh boards pass their
  verification, a doctor without a fatal check has seen a usable deployment, and what holds when
  ingestion starts still holds after the steps in between (\<open>ingest_starts_soundly\<close>).  Decoding: required and versioned
  payloads, integers, coins and identifiers round-trip.  Progress: a one-shot run returns,
  the fleet walk is bounded, retry delays are capped.

  \<^bold>\<open>Bounds and loops.\<close>  Every loop is a structural recursion or a \<open>foldR\<close> over the list it
  ranges over; \<open>chunks\<close> has a measure, and so has \<open>release\<close>, which hands on the fetched blocks
  in order; \<open>UnwrapJSONString\<close> peels at most four layers, as the code does; the JSON parser
  recurses on fuel given as the length of its text, which every call consumes; the recursive
  query over the fleet list takes as many rounds as there are fleets, which \<open>fleet_list_exact\<close>
  shows is enough; the ingestion loop is a function of the number of iterations, and
  \<open>one_shot_catches_up\<close> says how many a one-shot run takes; a paged read stops with an error after
  10,000 pages, as the code does; the worker and the notifier are folds over their rounds, and an
  endpoint is asked at most as often as the retries allow.  64-bit amounts are \<open>64 word\<close>;
  \<open>int\<close>, \<open>int64\<close> and \<open>big.Int\<close> are \<open>int\<close>, with the range check of \<open>strconv\<close> written out where
  a text is parsed.

  \<^bold>\<open>Conventions.\<close>  Error texts keep the fixed words of the Go format strings and drop the
  interpolated values, which no code reads back; what \<open>errors.Is\<close> can see is kept as
  sentinels.  Nil receivers are not modelled.  Times are nanoseconds since the epoch;
  columns set to \<open>NOW()\<close>, generated columns and triggers are not modelled, because their
  definitions are not part of the Go code.  A raw JSON message is kept up to the white space
  between its tokens.  Texts are byte strings; JSON text is taken as
  valid UTF-8 and case folding of field names as ASCII folding.  NUMERIC amounts are compared
  as canonical decimal texts.  Counters of unknown events are unbounded.  Views and SQL
  functions whose text is not in the Go code are parameters (\<open>owners\<close>, \<open>projections\<close>).

  \<^bold>\<open>Not modelled.\<close>  The entry point of the process and its signals, the websocket probe, the cache
  updater, HTTP and websocket I/O, the driver of the database and its pool, and what is only
  printed: reports, detail texts, elapsed times.  \<open>DeletePlanetActivityAfter\<close> has no
  caller.
\<close>

end
